(* ===== verification/Prelude.thy ===== *)
theory Prelude
  imports Main "HOL-Library.AList" "HOL-Library.Sublist" "HOL-Library.Multiset"
    "HOL-Library.Char_ord" "HOL-Library.List_Lexorder"
begin

text \<open>
  Shared vocabulary of the development: the JavaScript string, array, \<open>Map\<close> and sorting
  operations the sources use, the result type of code that may throw, and the generic
  lemmas about them.  Text is a list of bytes (UTF-8), so every literal of the sources can be
  written down; white space and case folding are the ASCII ones.
\<close>

named_theorems js_simps \<open>evaluation rules of the JavaScript library model\<close>
named_theorems wf_intros \<open>introduction rules for the well-formedness predicates\<close>

section \<open>Results of code that may throw\<close>

text \<open>A thrown \<open>Error\<close> is its message; \<open>Inl\<close> is the throw, \<open>Inr\<close> the value.\<close>

type_synonym 'a throws = "string + 'a"

fun and_then :: "('e + 'a) \<Rightarrow> ('a \<Rightarrow> 'e + 'b) \<Rightarrow> 'e + 'b" where
  "and_then (Inl e) f = Inl e"
| "and_then (Inr a) f = f a"

lemma and_then_Inr_iff: "and_then r f = Inr b \<longleftrightarrow> (\<exists>a. r = Inr a \<and> f a = Inr b)"
  by (cases r) auto

lemma and_then_Inl_iff:
  "and_then r f = Inl e \<longleftrightarrow> r = Inl e \<or> (\<exists>a. r = Inr a \<and> f a = Inl e)"
  by (cases r) auto

lemma and_then_assoc: "and_then (and_then r f) g = and_then r (\<lambda>a. and_then (f a) g)"
  by (cases r) auto

lemma find_SomeD: "find P xs = Some x \<Longrightarrow> x \<in> set xs \<and> P x"
  by (auto simp: find_Some_iff)

section \<open>Characters and strings\<close>

abbreviation nl :: char where
  "nl \<equiv> CHR 0x0A"

definition js_ws :: "char \<Rightarrow> bool" where
  "js_ws c \<longleftrightarrow> c \<in> {CHR 0x09, CHR 0x0A, CHR 0x0B, CHR 0x0C, CHR 0x0D, CHR 0x20}"

definition js_digit :: "char \<Rightarrow> bool" where
  "js_digit c \<longleftrightarrow> CHR ''0'' \<le> c \<and> c \<le> CHR ''9''"

definition js_lower_char :: "char \<Rightarrow> bool" where
  "js_lower_char c \<longleftrightarrow> CHR ''a'' \<le> c \<and> c \<le> CHR ''z''"

definition js_upper_char :: "char \<Rightarrow> bool" where
  "js_upper_char c \<longleftrightarrow> CHR ''A'' \<le> c \<and> c \<le> CHR ''Z''"

definition js_word :: "char \<Rightarrow> bool" where
  "js_word c \<longleftrightarrow> js_digit c \<or> js_lower_char c \<or> js_upper_char c \<or> c = CHR ''_''"

definition lower_char :: "char \<Rightarrow> char" where
  "lower_char c = (if js_upper_char c then char_of (of_char c + 32 :: nat) else c)"

definition upper_char :: "char \<Rightarrow> char" where
  "upper_char c = (if js_lower_char c then char_of (of_char c - 32 :: nat) else c)"

definition js_lower :: "string \<Rightarrow> string" where
  "js_lower = map lower_char"

definition js_upper :: "string \<Rightarrow> string" where
  "js_upper = map upper_char"

definition js_trim_start :: "string \<Rightarrow> string" where
  "js_trim_start s = dropWhile js_ws s"

definition js_trim_end :: "string \<Rightarrow> string" where
  "js_trim_end s = rev (dropWhile js_ws (rev s))"

definition js_trim :: "string \<Rightarrow> string" where
  "js_trim s = js_trim_end (js_trim_start s)"

definition starts_with :: "string \<Rightarrow> string \<Rightarrow> bool" where
  "starts_with s p = prefix p s"

definition ends_with :: "string \<Rightarrow> string \<Rightarrow> bool" where
  "ends_with s p = suffix p s"

text \<open>\<open>s.includes(p)\<close>: some suffix of \<open>s\<close> starts with \<open>p\<close>.\<close>

fun includes_str :: "string \<Rightarrow> string \<Rightarrow> bool" where
  "includes_str [] p = (p = [])"
| "includes_str (c # s) p = (prefix p (c # s) \<or> includes_str s p)"

text \<open>\<open>s.split(sep)\<close> for a one-character separator.\<close>

fun split_char :: "char \<Rightarrow> string \<Rightarrow> string list" where
  "split_char c [] = [[]]"
| "split_char c (x # xs) =
     (if x = c then [] # split_char c xs
      else (case split_char c xs of [] \<Rightarrow> [[x]] | p # ps \<Rightarrow> (x # p) # ps))"

fun join_with :: "string \<Rightarrow> string list \<Rightarrow> string" where
  "join_with sep [] = []"
| "join_with sep [x] = x"
| "join_with sep (x # y # ys) = x @ sep @ join_with sep (y # ys)"

text \<open>Decimal rendering of a natural number, as template literals do.\<close>

fun nat_str :: "nat \<Rightarrow> string" where
  "nat_str n = (if n < 10 then [char_of (48 + n)] else nat_str (n div 10) @ [char_of (48 + n mod 10)])"

declare nat_str.simps [simp del]

text \<open>\<open>Number(s)\<close> and \<open>parseInt(s, 10)\<close> on a string of decimal digits.\<close>

definition digit_val :: "char \<Rightarrow> nat" where
  "digit_val c = of_char c - 48"

definition dec_val :: "string \<Rightarrow> nat" where
  "dec_val s = foldl (\<lambda>n c. 10 * n + digit_val c) 0 s"

text \<open>The falsy test of a string or an optional string: absent and empty count as false.\<close>

definition truthy :: "string option \<Rightarrow> bool" where
  "truthy s = (case s of None \<Rightarrow> False | Some t \<Rightarrow> t \<noteq> [])"

text \<open>\<open>a || b\<close> on strings.\<close>

definition or_else :: "string \<Rightarrow> string \<Rightarrow> string" where
  "or_else a b = (if a = [] then b else a)"

text \<open>UTF-8 bytes of the non-ASCII characters in the sources' messages.\<close>

definition arrow_str :: string where
  "arrow_str = [CHR 0xE2, CHR 0x86, CHR 0x92]"

definition em_dash_str :: string where
  "em_dash_str = [CHR 0xE2, CHR 0x80, CHR 0x94]"

abbreviation dquote :: char where
  "dquote \<equiv> CHR 0x22"

abbreviation squote :: char where
  "squote \<equiv> CHR 0x27"

abbreviation backslash :: char where
  "backslash \<equiv> CHR 0x5C"

definition quoted :: "string \<Rightarrow> string" where
  "quoted s = [dquote] @ s @ [dquote]"

subsection \<open>Lemmas\<close>

lemma js_ws_not_word [simp]: "js_ws c \<Longrightarrow> \<not> js_word c"
  by (auto simp: js_ws_def js_word_def js_digit_def js_lower_char_def js_upper_char_def)

lemma js_trim_Nil [simp]: "js_trim [] = []"
  by (simp add: js_trim_def js_trim_start_def js_trim_end_def)

lemma dropWhile_hd_id: "xs = [] \<or> \<not> P (hd xs) \<Longrightarrow> dropWhile P xs = xs"
  by (cases xs) auto

lemma js_trim_id:
  assumes "s = [] \<or> (\<not> js_ws (hd s) \<and> \<not> js_ws (last s))"
  shows "js_trim s = s"
proof (cases "s = []")
  case False
  with assms have h: "\<not> js_ws (hd s)" and l: "\<not> js_ws (last s)" by auto
  have "dropWhile js_ws s = s" using h by (simp add: dropWhile_hd_id)
  moreover have "dropWhile js_ws (rev s) = rev s"
    using l False by (simp add: dropWhile_hd_id hd_rev)
  ultimately show ?thesis
    by (simp add: js_trim_def js_trim_start_def js_trim_end_def)
qed simp

lemma js_trim_start_ends: "js_trim_start s = [] \<or> \<not> js_ws (hd (js_trim_start s))"
  using hd_dropWhile [of js_ws s] by (auto simp: js_trim_start_def simp del: dropWhile_eq_Nil_conv)

lemma js_trim_ends: "js_trim s = [] \<or> (\<not> js_ws (hd (js_trim s)) \<and> \<not> js_ws (last (js_trim s)))"
proof (cases "js_trim s = []")
  case False
  define t where "t = js_trim_start s"
  have rt: "js_trim s = rev (dropWhile js_ws (rev t))"
    by (simp add: js_trim_def t_def js_trim_end_def)
  with False have ne: "dropWhile js_ws (rev t) \<noteq> []" by auto
  then have l: "\<not> js_ws (last (js_trim s))"
    by (simp add: rt last_rev hd_dropWhile)
  have "suffix (dropWhile js_ws (rev t)) (rev t)" by (simp add: suffix_dropWhile)
  then have "prefix (js_trim s) t" by (simp add: rt suffix_to_prefix)
  with False have "hd (js_trim s) = hd t" by (auto simp: prefix_def)
  moreover have "t \<noteq> []" using False rt by auto
  ultimately have "\<not> js_ws (hd (js_trim s))"
    using js_trim_start_ends [of s] by (simp add: t_def)
  with l show ?thesis by simp
qed simp

lemma js_trim_idem [simp]: "js_trim (js_trim s) = js_trim s"
  by (rule js_trim_id) (rule js_trim_ends)

lemma js_trim_Nil_iff: "js_trim s = [] \<longleftrightarrow> (\<forall>c\<in>set s. js_ws c)"
proof -
  have "js_trim s = [] \<longleftrightarrow> (\<forall>c\<in>set (js_trim_start s). js_ws c)"
    by (simp add: js_trim_def js_trim_end_def)
  also have "\<dots> \<longleftrightarrow> js_trim_start s = []"
    using js_trim_start_ends [of s] by (metis empty_iff hd_in_set list.set(1))
  also have "\<dots> \<longleftrightarrow> (\<forall>c\<in>set s. js_ws c)" by (simp add: js_trim_start_def)
  finally show ?thesis .
qed

lemma split_char_not_Nil [simp]: "split_char c s \<noteq> []"
  by (cases s) (auto split: list.splits)

lemma join_split_char: "join_with [c] (split_char c s) = s"
proof (induction s)
  case (Cons x s)
  obtain p ps where ps: "split_char c s = p # ps"
    using split_char_not_Nil [of c s] by (cases "split_char c s") auto
  with Cons show ?case by (cases ps) auto
qed simp

lemma split_char_no_sep: "c \<notin> set s \<Longrightarrow> split_char c s = [s]"
  by (induction s) auto

lemma split_char_parts_no_sep: "p \<in> set (split_char c s) \<Longrightarrow> c \<notin> set p"
proof (induction s arbitrary: p)
  case (Cons x s)
  obtain q qs where qs: "split_char c s = q # qs"
    using split_char_not_Nil [of c s] by (cases "split_char c s") auto
  with Cons show ?case by (auto split: if_splits)
qed simp

lemma split_char_append: "c \<notin> set p \<Longrightarrow> split_char c (p @ c # r) = p # split_char c r"
  by (induction p) auto

lemma set_join_with: "set (join_with sep xs) \<subseteq> set sep \<union> (\<Union>x\<in>set xs. set x)"
  by (induction sep xs rule: join_with.induct) auto

lemma split_join_with: "xs \<noteq> [] \<Longrightarrow> \<forall>x\<in>set xs. c \<notin> set x \<Longrightarrow> split_char c (join_with [c] xs) = xs"
  by (induction "[c]" xs rule: join_with.induct) (simp_all add: split_char_no_sep split_char_append)

lemma join_with_not_Nil: "xs \<noteq> [] \<Longrightarrow> \<forall>x\<in>set xs. x \<noteq> [] \<Longrightarrow> join_with sep xs \<noteq> []"
  by (induction sep xs rule: join_with.induct) auto

lemma includes_str_iff: "includes_str s p \<longleftrightarrow> (\<exists>a b. s = a @ p @ b)"
proof (induction s)
  case (Cons c s)
  show ?case
  proof
    assume "includes_str (c # s) p"
    then consider "prefix p (c # s)" | "includes_str s p" by auto
    then show "\<exists>a b. c # s = a @ p @ b"
    proof cases
      case 1
      then obtain b where "c # s = [] @ p @ b" by (auto simp: prefix_def)
      then show ?thesis by blast
    next
      case 2
      with Cons.IH obtain a b where "s = a @ p @ b" by blast
      then have "c # s = (c # a) @ p @ b" by simp
      then show ?thesis by blast
    qed
  next
    assume "\<exists>a b. c # s = a @ p @ b"
    then obtain a b where eq: "c # s = a @ p @ b" by blast
    show "includes_str (c # s) p"
    proof (cases a)
      case Nil
      with eq have "prefix p (c # s)" by (simp add: prefix_def)
      then show ?thesis by simp
    next
      case (Cons y ys)
      with eq have "s = ys @ p @ b" by simp
      then have "includes_str s p" using Cons.IH by blast
      then show ?thesis by simp
    qed
  qed
qed auto

subsection \<open>Evaluation of character classes\<close>

text \<open>Code equations that decide a class by the bits of the character.\<close>

lemma digit_bits [code]:
  "js_digit (Char b0 b1 b2 b3 b4 b5 b6 b7) \<longleftrightarrow>
     (if b7 then False else if b6 then False else if b5 then if b4 then if b3 then (if b2 then False else \<not> b1) else True else False else False)"
  by (cases b0; cases b1; cases b2; cases b3; cases b4; cases b5; cases b6; cases b7)
     (simp_all add: js_digit_def less_eq_char_def)

lemma upper_bits [code]:
  "js_upper_char (Char b0 b1 b2 b3 b4 b5 b6 b7) \<longleftrightarrow>
     (if b7 then False else if b6 then if b5 then False else
        (if b4 then if b3 then if b2 then False else if b1 then \<not> b0 else True else True
         else if b3 then True else if b2 then True else if b1 then True else b0) else False)"
  by (cases b0; cases b1; cases b2; cases b3; cases b4; cases b5; cases b6; cases b7)
     (simp_all add: js_upper_char_def less_eq_char_def)

lemma lower_bits [code]:
  "js_lower_char (Char b0 b1 b2 b3 b4 b5 b6 b7) \<longleftrightarrow>
     (if b7 then False else if b6 then if b5 then
        (if b4 then if b3 then if b2 then False else if b1 then \<not> b0 else True else True
         else if b3 then True else if b2 then True else if b1 then True else b0) else False else False)"
  by (cases b0; cases b1; cases b2; cases b3; cases b4; cases b5; cases b6; cases b7)
     (simp_all add: js_lower_char_def less_eq_char_def)

lemma lower_char_bits [code]:
  "lower_char (Char b0 b1 b2 b3 b4 b5 b6 b7) =
     (if js_upper_char (Char b0 b1 b2 b3 b4 b5 b6 b7) then Char b0 b1 b2 b3 b4 True b6 b7
      else Char b0 b1 b2 b3 b4 b5 b6 b7)"
  unfolding lower_char_def upper_bits
  by (cases b0; cases b1; cases b2; cases b3; cases b4; cases b5; cases b6; cases b7)
     (simp_all add: char_of_eq_iff take_bit_eq_mod)

lemma ws_bits [code]:
  "js_ws (Char b0 b1 b2 b3 b4 b5 b6 b7) \<longleftrightarrow>
     (if b7 then False else if b6 then False else if b4 then False else
      if b5 then if b3 then False else if b2 then False else if b1 then False else \<not> b0
      else if b3 then if b2 then \<not> b1 else if b1 then True else b0 else False)"
  by (cases b0; cases b1; cases b2; cases b3; cases b4; cases b5; cases b6; cases b7)
     (simp_all add: js_ws_def)

lemma word_code [code]:
  "js_word c = (if js_lower_char c then True else if js_digit c then True else if js_upper_char c then True else c = CHR ''_'')"
  by (auto simp: js_word_def)

lemma ws_lower_char: "js_ws (lower_char c) = js_ws c"
proof (cases c)
  case (Char b0 b1 b2 b3 b4 b5 b6 b7)
  then show ?thesis
    by (cases b5; cases b6; cases b7) (simp_all add: lower_char_bits upper_bits ws_bits)
qed

lemma js_trim_lower: "js_trim (js_lower s) = js_lower (js_trim s)"
  by (simp add: js_trim_def js_trim_start_def js_trim_end_def js_lower_def dropWhile_map comp_def ws_lower_char rev_map)

section \<open>Insertion-ordered maps\<close>

text \<open>
  A JavaScript \<open>Map\<close> (and an object used as one) keeps its keys in insertion order: an
  association list with distinct keys.  \<open>set\<close> overwrites in place or appends.
\<close>

type_synonym ('k, 'v) js_map = "('k \<times> 'v) list"

definition map_get :: "('k, 'v) js_map \<Rightarrow> 'k \<Rightarrow> 'v option" where
  "map_get m k = map_of m k"

definition map_set :: "'k \<Rightarrow> 'v \<Rightarrow> ('k, 'v) js_map \<Rightarrow> ('k, 'v) js_map" where
  "map_set k v m = AList.update k v m"

definition map_has :: "('k, 'v) js_map \<Rightarrow> 'k \<Rightarrow> bool" where
  "map_has m k = (k \<in> fst ` set m)"

definition map_delete :: "'k \<Rightarrow> ('k, 'v) js_map \<Rightarrow> ('k, 'v) js_map" where
  "map_delete k m = AList.delete k m"

definition map_keys :: "('k, 'v) js_map \<Rightarrow> 'k list" where
  "map_keys m = map fst m"

definition map_wf :: "('k, 'v) js_map \<Rightarrow> bool" where
  "map_wf m = distinct (map fst m)"

text \<open>\<open>new Map(entries)\<close>: later entries overwrite earlier ones in place.\<close>

definition map_from :: "('k \<times> 'v) list \<Rightarrow> ('k, 'v) js_map" where
  "map_from es = foldl (\<lambda>m (k, v). map_set k v m) [] es"

lemma map_get_set [simp]: "map_get (map_set k v m) k' = (if k' = k then Some v else map_get m k')"
  by (simp add: map_get_def map_set_def update_conv)

lemma map_get_Nil [simp]: "map_get [] k = None"
  by (simp add: map_get_def)

lemma map_has_iff: "map_has m k \<longleftrightarrow> map_get m k \<noteq> None"
  by (simp add: map_has_def map_get_def map_of_eq_None_iff)

lemma map_has_set [simp]: "map_has (map_set k v m) k' \<longleftrightarrow> k' = k \<or> map_has m k'"
  by (simp add: map_has_iff)

lemma map_wf_Nil [simp, wf_intros]: "map_wf []"
  by (simp add: map_wf_def)

lemma map_wf_set [simp, wf_intros]: "map_wf m \<Longrightarrow> map_wf (map_set k v m)"
  by (simp add: map_wf_def map_set_def distinct_update)

lemma map_get_delete [simp]: "map_get (map_delete k m) k' = (if k' = k then None else map_get m k')"
  by (simp add: map_get_def map_delete_def delete_conv)

lemma map_wf_delete [simp, wf_intros]: "map_wf m \<Longrightarrow> map_wf (map_delete k m)"
  by (simp add: map_wf_def map_delete_def distinct_delete)

lemma map_keys_set: "set (map_keys (map_set k v m)) = insert k (set (map_keys m))"
  by (auto simp: map_keys_def map_set_def dom_update simp flip: dom_map_of_conv_image_fst)
     (auto simp: dom_map_of_conv_image_fst update_conv dom_def)

lemma map_keys_has: "k \<in> set (map_keys m) \<longleftrightarrow> map_has m k"
  by (simp add: map_keys_def map_has_def)

lemma map_foldl_set_get:
  "map_get (foldl (\<lambda>m (k, v). map_set k v m) m es) k =
     (case map_of (rev es) k of Some v \<Rightarrow> Some v | None \<Rightarrow> map_get m k)"
  by (induction es arbitrary: m) (auto simp: map_add_def split: option.splits)

lemma map_get_from: "map_get (map_from es) k = map_of (rev es) k"
  by (simp add: map_from_def map_foldl_set_get split: option.splits)

lemma map_foldl_set_wf: "map_wf m \<Longrightarrow> map_wf (foldl (\<lambda>m (k, v). map_set k v m) m es)"
  by (induction es arbitrary: m) auto

lemma map_wf_from [simp, wf_intros]: "map_wf (map_from es)"
  by (simp add: map_from_def map_foldl_set_wf)

text \<open>A key set collected in first-occurrence order, as \<open>new Set(xs)\<close> iterates.\<close>

definition set_add :: "'a \<Rightarrow> 'a list \<Rightarrow> 'a list" where
  "set_add x xs = (if x \<in> set xs then xs else xs @ [x])"

definition set_of_list :: "'a list \<Rightarrow> 'a list" where
  "set_of_list xs = foldl (\<lambda>s x. set_add x s) [] xs"

lemma set_set_add [simp]: "set (set_add x xs) = insert x (set xs)"
  by (auto simp: set_add_def)

lemma distinct_set_add [simp]: "distinct xs \<Longrightarrow> distinct (set_add x xs)"
  by (auto simp: set_add_def)

lemma foldl_set_add:
  "set (foldl (\<lambda>s x. set_add x s) acc xs) = set acc \<union> set xs"
  "distinct acc \<Longrightarrow> distinct (foldl (\<lambda>s x. set_add x s) acc xs)"
  by (induction xs arbitrary: acc) auto

lemma set_set_of_list [simp]: "set (set_of_list xs) = set xs"
  by (simp add: set_of_list_def foldl_set_add)

lemma distinct_set_of_list [simp]: "distinct (set_of_list xs)"
  by (simp add: set_of_list_def foldl_set_add)

section \<open>Stable sorting by a comparator\<close>

text \<open>
  \<open>xs.toSorted(cmp)\<close>: the specification of ECMAScript requires a stable sort, and for a
  consistent comparator the result is determined; insertion from the right computes it.
\<close>

fun js_insert :: "('a \<Rightarrow> 'a \<Rightarrow> int) \<Rightarrow> 'a \<Rightarrow> 'a list \<Rightarrow> 'a list" where
  "js_insert cmp x [] = [x]"
| "js_insert cmp x (y # ys) = (if cmp x y \<le> 0 then x # y # ys else y # js_insert cmp x ys)"

definition js_sort :: "('a \<Rightarrow> 'a \<Rightarrow> int) \<Rightarrow> 'a list \<Rightarrow> 'a list" where
  "js_sort cmp xs = foldr (js_insert cmp) xs []"

lemma js_sort_simps [simp]:
  "js_sort cmp [] = []" "js_sort cmp (x # xs) = js_insert cmp x (js_sort cmp xs)"
  by (simp_all add: js_sort_def)

lemma mset_js_insert [simp]: "mset (js_insert cmp x xs) = add_mset x (mset xs)"
  by (induction xs) auto

lemma mset_js_sort [simp]: "mset (js_sort cmp xs) = mset xs"
  by (induction xs) auto

lemma set_js_sort [simp]: "set (js_sort cmp xs) = set xs"
  using mset_js_sort [of cmp xs] by (rule mset_eq_setD)

lemma length_js_sort [simp]: "length (js_sort cmp xs) = length xs"
  using mset_js_sort [of cmp xs] by (rule mset_eq_length)

lemma distinct_js_sort [simp]: "distinct (js_sort cmp xs) = distinct xs"
  using mset_js_sort [of cmp xs] by (rule mset_eq_imp_distinct_iff)

lemma js_insert_not_Nil [simp]: "js_insert cmp x xs \<noteq> []"
  by (cases xs) auto

lemma js_sort_Nil_iff [simp]: "js_sort cmp xs = [] \<longleftrightarrow> xs = []"
  by (cases xs) auto

text \<open>The contract of a comparator: a total preorder read from the sign of its result.\<close>

locale comparator =
  fixes cmp :: "'a \<Rightarrow> 'a \<Rightarrow> int"
  assumes cmp_total: "cmp x y \<le> 0 \<or> cmp y x \<le> 0"
    and cmp_trans: "cmp x y \<le> 0 \<Longrightarrow> cmp y z \<le> 0 \<Longrightarrow> cmp x z \<le> 0"
begin

lemma set_js_insert: "set (js_insert cmp x xs) = insert x (set xs)"
  by (induction xs) auto

lemma sorted_insert:
  "sorted_wrt (\<lambda>a b. cmp a b \<le> 0) ys \<Longrightarrow> sorted_wrt (\<lambda>a b. cmp a b \<le> 0) (js_insert cmp x ys)"
proof (induction ys)
  case (Cons y ys)
  show ?case
  proof (cases "cmp x y \<le> 0")
    case True
    with Cons.prems show ?thesis by (auto intro: cmp_trans)
  next
    case False
    then have "cmp y x \<le> 0" using cmp_total by blast
    with False Cons show ?thesis by (auto simp: set_js_insert)
  qed
qed simp

lemma sorted_sort: "sorted_wrt (\<lambda>a b. cmp a b \<le> 0) (js_sort cmp xs)"
  by (induction xs) (auto intro: sorted_insert)

lemma sort_head_least:
  assumes "js_sort cmp xs = y # ys" and "z \<in> set xs"
  shows "cmp y z \<le> 0"
proof -
  have "sorted_wrt (\<lambda>a b. cmp a b \<le> 0) (y # ys)" using sorted_sort [of xs] assms by simp
  moreover have "z \<in> set (y # ys)" using assms set_js_sort [of cmp xs] by auto
  moreover have "cmp y y \<le> 0" using cmp_total by blast
  ultimately show ?thesis by auto
qed

lemma insert_filter_eq:
  assumes "\<forall>a\<in>set ys. P a \<longrightarrow> cmp x a \<le> 0" and "P x"
  shows "filter P (js_insert cmp x ys) = x # filter P ys"
  using assms by (induction ys) auto

lemma insert_filter_neq: "\<not> P x \<Longrightarrow> filter P (js_insert cmp x ys) = filter P ys"
  by (induction ys) auto

text \<open>Stability: elements the comparator cannot separate keep their input order.\<close>

lemma sort_stable:
  assumes "\<And>a b. P a \<Longrightarrow> P b \<Longrightarrow> cmp a b \<le> 0"
  shows "filter P (js_sort cmp xs) = filter P xs"
proof (induction xs)
  case (Cons x xs)
  show ?case
  proof (cases "P x")
    case True
    then have "filter P (js_insert cmp x (js_sort cmp xs)) = x # filter P (js_sort cmp xs)"
      by (intro insert_filter_eq) (auto intro: assms)
    with True Cons show ?thesis by simp
  next
    case False
    with Cons show ?thesis by (simp add: insert_filter_neq)
  qed
qed simp

end

text \<open>Code-unit order of strings (\<open>a < b ? -1 : a > b ? 1 : 0\<close>, and \<open>sort()\<close> without argument).\<close>

definition code_unit_cmp :: "string \<Rightarrow> string \<Rightarrow> int" where
  "code_unit_cmp a b = (if a < b then -1 else if b < a then 1 else 0)"

interpretation code_unit: comparator code_unit_cmp
  by unfold_locales (auto simp: code_unit_cmp_def split: if_splits)

end
