(* ===== verification/Regex.thy ===== *)
theory Regex
  imports Prelude
begin

text \<open>
  The backtracking matcher of JavaScript regular expressions, so that every pattern of the
  sources is a term of the datatype \<open>regex\<close> written in the order of its source.  A
  match state is a zipper over the text (the characters before the position, reversed, and
  those after it) with the captured groups; the matcher lists the possible end states in the
  order in which backtracking tries them.  A quantified body that matches the empty string
  ends its loop, as in ECMAScript; the patterns of the sources put no capturing group inside
  a repeated body, so groups need not be reset.
\<close>

datatype regex =
    Empty
  | Cls "char \<Rightarrow> bool"
  | Seq regex regex
  | Alt regex regex
  | Star bool regex        \<comment> \<open>greedy if \<open>True\<close>\<close>
  | Grp nat regex
  | Look bool regex        \<comment> \<open>lookahead, negative if \<open>False\<close>\<close>
  | StartText | EndText    \<comment> \<open>\<open>^\<close> and \<open>$\<close> without the \<open>m\<close> flag\<close>
  | StartLine | EndLine    \<comment> \<open>\<open>^\<close> and \<open>$\<close> with the \<open>m\<close> flag\<close>
  | WordBd                 \<comment> \<open>\<open>\\b\<close>\<close>

record mstate =
  behind :: string
  rest :: string
  caps :: "(nat \<times> string) list"

definition line_end :: "char \<Rightarrow> bool" where
  "line_end c \<longleftrightarrow> c = CHR 0x0A \<or> c = CHR 0x0D"

fun head_is :: "(char \<Rightarrow> bool) \<Rightarrow> string \<Rightarrow> bool" where
  "head_is p [] = False"
| "head_is p (c # cs) = p c"

fun star_iter :: "bool \<Rightarrow> (mstate \<Rightarrow> mstate list) \<Rightarrow> nat \<Rightarrow> mstate \<Rightarrow> mstate list" where
  "star_iter g f 0 s = [s]"
| "star_iter g f (Suc n) s =
     (let more = concat (map (star_iter g f n)
                   (filter (\<lambda>t. length (rest t) < length (rest s)) (f s)))
      in if g then more @ [s] else s # more)"

primrec run :: "regex \<Rightarrow> mstate \<Rightarrow> mstate list" where
  "run Empty s = [s]"
| "run (Cls p) s =
     (case rest s of [] \<Rightarrow> []
      | c # cs \<Rightarrow> if p c then [s\<lparr>behind := c # behind s, rest := cs\<rparr>] else [])"
| "run (Seq a b) s = concat (map (run b) (run a s))"
| "run (Alt a b) s = run a s @ run b s"
| "run (Star g a) s = star_iter g (run a) (length (rest s)) s"
| "run (Grp n a) s =
     map (\<lambda>t. t\<lparr>caps := (n, take (length (rest s) - length (rest t)) (rest s)) # caps t\<rparr>) (run a s)"
| "run (Look pos a) s =
     (case run a s of [] \<Rightarrow> if pos then [] else [s]
      | t # _ \<Rightarrow> if pos then [s\<lparr>caps := caps t\<rparr>] else [])"
| "run StartText s = (if behind s = [] then [s] else [])"
| "run EndText s = (if rest s = [] then [s] else [])"
| "run StartLine s = (if behind s = [] \<or> head_is line_end (behind s) then [s] else [])"
| "run EndLine s = (if rest s = [] \<or> head_is line_end (rest s) then [s] else [])"
| "run WordBd s = (if head_is js_word (behind s) \<noteq> head_is js_word (rest s) then [s] else [])"

section \<open>Pattern abbreviations\<close>

abbreviation dot :: regex where \<comment> \<open>\<open>.\<close>\<close>
  "dot \<equiv> Cls (\<lambda>c. \<not> line_end c)"

abbreviation any_char :: regex where \<comment> \<open>\<open>[\\s\\S]\<close>, and \<open>.\<close> with the \<open>s\<close> flag\<close>
  "any_char \<equiv> Cls (\<lambda>_. True)"

abbreviation ws :: regex where \<comment> \<open>\<open>\\s\<close>\<close>
  "ws \<equiv> Cls js_ws"

abbreviation non_ws :: regex where \<comment> \<open>\<open>\\S\<close>\<close>
  "non_ws \<equiv> Cls (\<lambda>c. \<not> js_ws c)"

abbreviation digit :: regex where \<comment> \<open>\<open>\\d\<close>\<close>
  "digit \<equiv> Cls js_digit"

abbreviation word_char :: regex where \<comment> \<open>\<open>\\w\<close>\<close>
  "word_char \<equiv> Cls js_word"

definition star :: "regex \<Rightarrow> regex" where "star r = Star True r"
definition lazy :: "regex \<Rightarrow> regex" where "lazy r = Star False r"
definition plus :: "regex \<Rightarrow> regex" where "plus r = Seq r (Star True r)"
definition opt :: "regex \<Rightarrow> regex" where "opt r = Alt r Empty"

definition chr :: "char \<Rightarrow> regex" where
  "chr c = Cls (\<lambda>x. x = c)"

text \<open>A literal under the \<open>i\<close> flag.\<close>

definition chr_i :: "char \<Rightarrow> regex" where
  "chr_i c = Cls (\<lambda>x. lower_char x = lower_char c)"

definition one_of :: "string \<Rightarrow> regex" where
  "one_of cs = Cls (\<lambda>x. x \<in> set cs)"

definition none_of :: "string \<Rightarrow> regex" where
  "none_of cs = Cls (\<lambda>x. x \<notin> set cs)"

primrec sq :: "regex list \<Rightarrow> regex" where
  "sq [] = Empty"
| "sq (r # rs) = Seq r (sq rs)"

fun alts :: "regex list \<Rightarrow> regex" where
  "alts [] = Cls (\<lambda>_. False)"
| "alts [r] = r"
| "alts (r # s # rs) = Alt r (alts (s # rs))"

definition lit :: "string \<Rightarrow> regex" where
  "lit s = sq (map chr s)"

definition lit_i :: "string \<Rightarrow> regex" where
  "lit_i s = sq (map chr_i s)"

definition times :: "nat \<Rightarrow> regex \<Rightarrow> regex" where
  "times n r = sq (replicate n r)"

text \<open>\<open>r{m,}\<close> and \<open>r{m,n}\<close>.\<close>

definition at_least :: "nat \<Rightarrow> regex \<Rightarrow> regex" where
  "at_least n r = Seq (times n r) (star r)"

primrec up_to :: "nat \<Rightarrow> regex \<Rightarrow> regex" where
  "up_to 0 r = Empty"
| "up_to (Suc n) r = opt (Seq r (up_to n r))"

definition between :: "nat \<Rightarrow> nat \<Rightarrow> regex \<Rightarrow> regex" where
  "between m n r = Seq (times m r) (up_to (n - m) r)"

section \<open>The RegExp operations\<close>

text \<open>A match: the text before it, the matched text, the text after it, its groups.\<close>

record rmatch =
  m_pre :: string
  m_text :: string
  m_post :: string
  m_caps :: "(nat \<times> string) list"

definition m_index :: "rmatch \<Rightarrow> nat" where
  "m_index m = length (m_pre m)"

definition group :: "rmatch \<Rightarrow> nat \<Rightarrow> string option" where
  "group m n = map_of (m_caps m) n"

definition mk_match :: "string \<Rightarrow> string \<Rightarrow> mstate \<Rightarrow> rmatch" where
  "mk_match b r t =
     \<lparr>m_pre = rev b, m_text = take (length r - length (rest t)) r, m_post = rest t, m_caps = caps t\<rparr>"

definition match_here :: "regex \<Rightarrow> string \<Rightarrow> string \<Rightarrow> rmatch option" where
  "match_here re b r =
     (case run re \<lparr>behind = b, rest = r, caps = []\<rparr> of [] \<Rightarrow> None | t # _ \<Rightarrow> Some (mk_match b r t))"

text \<open>The search for the leftmost match, from the position of the zipper \<open>(b, r)\<close> on.\<close>

fun exec_from :: "regex \<Rightarrow> string \<Rightarrow> string \<Rightarrow> rmatch option" where
  "exec_from re b [] = match_here re b []"
| "exec_from re b (c # cs) =
     (case match_here re b (c # cs) of Some m \<Rightarrow> Some m | None \<Rightarrow> exec_from re (c # b) cs)"

definition re_exec :: "regex \<Rightarrow> string \<Rightarrow> rmatch option" where
  "re_exec re s = exec_from re [] s"

definition re_test :: "regex \<Rightarrow> string \<Rightarrow> bool" where
  "re_test re s \<longleftrightarrow> re_exec re s \<noteq> None"

text \<open>
  All matches with the \<open>g\<close> flag (\<open>matchAll\<close>).  After an empty match the search
  goes on one character further.  The fuel is the number of characters left, plus one.
\<close>

fun all_from :: "nat \<Rightarrow> regex \<Rightarrow> string \<Rightarrow> string \<Rightarrow> rmatch list" where
  "all_from 0 re b r = []"
| "all_from (Suc n) re b r =
     (case exec_from re b r of None \<Rightarrow> []
      | Some m \<Rightarrow>
          m # (if m_text m = [] then
                 (case m_post m of [] \<Rightarrow> []
                  | c # cs \<Rightarrow> all_from n re (c # rev (m_pre m)) cs)
               else all_from n re (rev (m_pre m @ m_text m)) (m_post m)))"

definition match_all :: "regex \<Rightarrow> string \<Rightarrow> rmatch list" where
  "match_all re s = all_from (Suc (length s)) re [] s"

text \<open>\<open>s.replace(re, f)\<close> without the \<open>g\<close> flag.\<close>

definition replace_first :: "regex \<Rightarrow> (rmatch \<Rightarrow> string) \<Rightarrow> string \<Rightarrow> string" where
  "replace_first re f s =
     (case re_exec re s of None \<Rightarrow> s | Some m \<Rightarrow> m_pre m @ f m @ m_post m)"

text \<open>\<open>s.replace(re, f)\<close> with the \<open>g\<close> flag: the gaps between the matches are kept.\<close>

fun splice_matches :: "(rmatch \<Rightarrow> string) \<Rightarrow> nat \<Rightarrow> string \<Rightarrow> rmatch list \<Rightarrow> string" where
  "splice_matches f pos r [] = r"
| "splice_matches f pos r (m # ms) =
     (let gap = m_index m - pos
      in take gap r @ f m
         @ splice_matches f (m_index m + length (m_text m)) (drop (gap + length (m_text m)) r) ms)"

definition replace_all :: "regex \<Rightarrow> (rmatch \<Rightarrow> string) \<Rightarrow> string \<Rightarrow> string" where
  "replace_all re f s = splice_matches f 0 s (match_all re s)"

text \<open>
  \<open>s.split(re)\<close> for a pattern that matches no empty string and captures nothing:
  the pieces between the successive matches.
\<close>

fun split_at :: "nat \<Rightarrow> string \<Rightarrow> rmatch list \<Rightarrow> string list" where
  "split_at pos r [] = [r]"
| "split_at pos r (m # ms) =
     (let gap = m_index m - pos
      in take gap r # split_at (m_index m + length (m_text m)) (drop (gap + length (m_text m)) r) ms)"

definition re_split :: "regex \<Rightarrow> string \<Rightarrow> string list" where
  "re_split re s = split_at 0 s (match_all re s)"

section \<open>Lemmas\<close>

text \<open>Code equations: a loop over a character class walks the text once.\<close>

lemma line_end_code [code]: "line_end c = (if c = CHR 0x0A then True else c = CHR 0x0D)"
  by (auto simp: line_end_def)

fun star_cls :: "bool \<Rightarrow> (char \<Rightarrow> bool) \<Rightarrow> string \<Rightarrow> string \<Rightarrow> (nat \<times> string) list \<Rightarrow> mstate list" where
  "star_cls g p b [] cs = [\<lparr>behind = b, rest = [], caps = cs\<rparr>]"
| "star_cls g p b (x # xs) cs =
     (if p x then
        (let more = star_cls g p (x # b) xs cs
         in if g then more @ [\<lparr>behind = b, rest = x # xs, caps = cs\<rparr>]
            else \<lparr>behind = b, rest = x # xs, caps = cs\<rparr> # more)
      else [\<lparr>behind = b, rest = x # xs, caps = cs\<rparr>])"

lemma star_cls_iter:
  "length r \<le> n \<Longrightarrow> star_iter g (run (Cls p)) n \<lparr>behind = b, rest = r, caps = cs\<rparr> = star_cls g p b r cs"
proof (induction r arbitrary: n b)
  case Nil
  then show ?case by (cases n) simp_all
next
  case (Cons x xs)
  then obtain m where "n = Suc m" by (cases n) auto
  with Cons show ?case by (cases g; cases "p x") (simp_all add: Let_def)
qed

lemma run_Star_code:
  "run (Star g a) s =
     (case a of Cls p \<Rightarrow> star_cls g p (behind s) (rest s) (caps s)
      | _ \<Rightarrow> star_iter g (run a) (length (rest s)) s)"
  using star_cls_iter [of "rest s" "length (rest s)" g _ "behind s" "caps s"]
  by (cases s) (simp split: regex.splits)

lemmas run_code [code] = run.simps(1-4) run_Star_code run.simps(6-12)

text \<open>
  The first match alone, by backtracking into the continuation \<open>k\<close>: what comes after the first
  success is not computed.
\<close>

fun first_of :: "('a \<Rightarrow> 'b option) \<Rightarrow> 'a list \<Rightarrow> 'b option" where
  "first_of k [] = None"
| "first_of k (x # xs) = (case k x of None \<Rightarrow> first_of k xs | Some y \<Rightarrow> Some y)"

definition run_first :: "regex \<Rightarrow> (mstate \<Rightarrow> mstate option) \<Rightarrow> mstate \<Rightarrow> mstate option" where
  "run_first re k s = first_of k (run re s)"

lemma first_fun: "run_first re k = (\<lambda>s. first_of k (run re s))"
  by (rule ext) (simp add: run_first_def)

lemma first_of_append: "first_of k (xs @ ys) = (case first_of k xs of None \<Rightarrow> first_of k ys | Some y \<Rightarrow> Some y)"
  by (induction xs) (auto split: option.splits)

lemma first_of_concat: "first_of k (concat (map f xs)) = first_of (\<lambda>x. first_of k (f x)) xs"
  by (induction xs) (auto simp: first_of_append split: option.splits)

lemma first_of_map: "first_of k (map f xs) = first_of (\<lambda>x. k (f x)) xs"
  by (induction xs) (auto split: option.splits)

lemma first_of_filter: "first_of k (filter p xs) = first_of (\<lambda>x. if p x then k x else None) xs"
  by (induction xs) (auto split: option.splits)

lemma first_of_Some: "first_of Some xs = (case xs of [] \<Rightarrow> None | x # _ \<Rightarrow> Some x)"
  by (cases xs) auto

fun first_cls :: "bool \<Rightarrow> (char \<Rightarrow> bool) \<Rightarrow> (mstate \<Rightarrow> mstate option) \<Rightarrow> string \<Rightarrow> string \<Rightarrow> (nat \<times> string) list \<Rightarrow>
    mstate option" where
  "first_cls g p k b [] cs = k \<lparr>behind = b, rest = [], caps = cs\<rparr>"
| "first_cls g p k b (x # xs) cs =
     (if p x then
        (if g then (case first_cls g p k (x # b) xs cs of
                      None \<Rightarrow> k \<lparr>behind = b, rest = x # xs, caps = cs\<rparr> | Some y \<Rightarrow> Some y)
         else (case k \<lparr>behind = b, rest = x # xs, caps = cs\<rparr> of
                 None \<Rightarrow> first_cls g p k (x # b) xs cs | Some y \<Rightarrow> Some y))
      else k \<lparr>behind = b, rest = x # xs, caps = cs\<rparr>)"

lemma first_cls_eq: "first_of k (star_cls g p b r cs) = first_cls g p k b r cs"
proof (induction r arbitrary: b)
  case (Cons x xs)
  then show ?case by (cases g) (auto simp: first_of_append Let_def split: option.splits)
qed (auto split: option.splits)

fun first_iter :: "bool \<Rightarrow> ((mstate \<Rightarrow> mstate option) \<Rightarrow> mstate \<Rightarrow> mstate option) \<Rightarrow>
    (mstate \<Rightarrow> mstate option) \<Rightarrow> nat \<Rightarrow> mstate \<Rightarrow> mstate option" where
  "first_iter g f k 0 s = k s"
| "first_iter g f k (Suc n) s =
     (if g then (case f (\<lambda>t. if length (rest t) < length (rest s) then first_iter g f k n t else None) s of
                   None \<Rightarrow> k s | Some y \<Rightarrow> Some y)
      else (case k s of
              None \<Rightarrow> f (\<lambda>t. if length (rest t) < length (rest s) then first_iter g f k n t else None) s
            | Some y \<Rightarrow> Some y))"

lemma first_iter_eq: "first_of k (star_iter g (run a) n s) = first_iter g (run_first a) k n s"
proof (induction n arbitrary: s)
  case (Suc n)
  then show ?case
    by (cases g) (auto simp: first_of_append first_of_concat first_of_filter run_first_def Let_def split: option.splits)
qed (auto split: option.splits)

lemma first_code [code]:
  "run_first Empty k s = k s"
  "run_first (Cls p) k s =
     (case rest s of [] \<Rightarrow> None | c # cs \<Rightarrow> if p c then k (s\<lparr>behind := c # behind s, rest := cs\<rparr>) else None)"
  "run_first (Seq a b) k s = run_first a (run_first b k) s"
  "run_first (Alt a b) k s = (case run_first a k s of None \<Rightarrow> run_first b k s | Some y \<Rightarrow> Some y)"
  "run_first (Star g a) k s =
     (case a of Cls p \<Rightarrow> first_cls g p k (behind s) (rest s) (caps s)
      | _ \<Rightarrow> first_iter g (run_first a) k (length (rest s)) s)"
  "run_first (Grp n a) k s =
     run_first a (\<lambda>t. k (t\<lparr>caps := (n, take (length (rest s) - length (rest t)) (rest s)) # caps t\<rparr>)) s"
  "run_first (Look pos a) k s =
     (case run_first a Some s of None \<Rightarrow> if pos then None else k s
      | Some t \<Rightarrow> if pos then k (s\<lparr>caps := caps t\<rparr>) else None)"
  "run_first StartText k s = (if behind s = [] then k s else None)"
  "run_first EndText k s = (if rest s = [] then k s else None)"
  "run_first StartLine k s = (if behind s = [] then k s else if head_is line_end (behind s) then k s else None)"
  "run_first EndLine k s = (if rest s = [] then k s else if head_is line_end (rest s) then k s else None)"
  "run_first WordBd k s = (if head_is js_word (behind s) \<noteq> head_is js_word (rest s) then k s else None)"
  using first_cls_eq [of k g _ "behind s" "rest s" "caps s"] first_iter_eq [of k g a "length (rest s)" s]
    run_Star_code [of g a s]
  by (auto simp: first_fun first_of_append first_of_concat first_of_map first_of_Some comp_def run_Star_code
      simp del: run.simps(5) split: option.splits list.splits regex.splits)

lemma match_here_code [code]:
  "match_here re b r = map_option (mk_match b r) (run_first re Some \<lparr>behind = b, rest = r, caps = []\<rparr>)"
  by (auto simp: match_here_def run_first_def first_of_Some split: list.splits)

fun exec_scan :: "regex \<Rightarrow> string \<Rightarrow> string \<Rightarrow> rmatch option" where
  "exec_scan re b [] = match_here re b []"
| "exec_scan re b (c # cs) =
     (case match_here re b (c # cs) of Some m \<Rightarrow> Some m | None \<Rightarrow> exec_scan re (c # b) cs)"

text \<open>A pattern that starts with \<open>^\<close> under the \<open>m\<close> flag is tried at line starts only.\<close>

fun exec_lines :: "regex \<Rightarrow> bool \<Rightarrow> string \<Rightarrow> string \<Rightarrow> rmatch option" where
  "exec_lines re True b r =
     (case match_here re b r of Some m \<Rightarrow> Some m
      | None \<Rightarrow> (case r of [] \<Rightarrow> None | c # cs \<Rightarrow> exec_lines re (line_end c) (c # b) cs))"
| "exec_lines re False b [] = None"
| "exec_lines re False b (c # cs) = exec_lines re (line_end c) (c # b) cs"

lemma exec_scan_eq: "exec_from re b r = exec_scan re b r"
  by (induction re b r rule: exec_from.induct) (auto split: option.splits)

lemma match_here_midline:
  "\<not> (b = [] \<or> head_is line_end b) \<Longrightarrow> match_here (Seq StartLine re) b r = None"
  by (simp add: match_here_def)

lemma exec_lines_eq:
  "exec_from (Seq StartLine re) b r = exec_lines (Seq StartLine re) (b = [] \<or> head_is line_end b) b r"
proof (induction r arbitrary: b)
  case Nil
  then show ?case
    by (cases "b = [] \<or> head_is line_end b") (auto simp: match_here_midline split: option.splits)
next
  case (Cons c cs)
  then show ?case
    by (cases "b = [] \<or> head_is line_end b") (auto simp: match_here_midline split: option.splits)
qed

lemma exec_from_code [code]:
  "exec_from re b r =
     (case re of Seq p q \<Rightarrow>
         (case p of StartLine \<Rightarrow> exec_lines re (case b of [] \<Rightarrow> True | c # _ \<Rightarrow> line_end c) b r
          | _ \<Rightarrow> exec_scan re b r)
      | _ \<Rightarrow> exec_scan re b r)"
  using exec_lines_eq
  by (auto simp: exec_scan_eq [symmetric] split: regex.split list.split)

text \<open>
  Every end state is reached by consuming a piece of the rest, the base of all later facts.
\<close>

definition moved :: "mstate \<Rightarrow> mstate \<Rightarrow> bool" where
  "moved s t \<longleftrightarrow> (\<exists>x. rest s = x @ rest t \<and> behind t = rev x @ behind s)"

lemma moved_refl [simp, intro]: "moved s s"
  by (simp add: moved_def)

lemma moved_caps [simp]: "moved s (t\<lparr>caps := c\<rparr>) = moved s t"
  by (simp add: moved_def)

lemma moved_trans: "moved s t \<Longrightarrow> moved t u \<Longrightarrow> moved s u"
  by (auto simp: moved_def)

lemma star_iter_moved:
  assumes "\<And>s t. t \<in> set (f s) \<Longrightarrow> moved s t" and "t \<in> set (star_iter g f n s)"
  shows "moved s t"
  using assms(2)
proof (induction n arbitrary: s)
  case (Suc n)
  then consider "t = s" | u where "u \<in> set (f s)" "t \<in> set (star_iter g f n u)"
    by (auto simp: Let_def split: if_splits)
  then show ?case
    using Suc.IH assms(1) moved_trans by cases (simp, blast)
qed simp

lemma run_moved: "t \<in> set (run re s) \<Longrightarrow> moved s t"
proof (induction re arbitrary: s t)
  case (Cls p)
  then show ?case by (auto simp: moved_def split: list.splits if_splits)
next
  case (Seq a b)
  then obtain u where "u \<in> set (run a s)" "t \<in> set (run b u)" by auto
  then show ?case using Seq.IH moved_trans by blast
next
  case (Star g a)
  then show ?case using star_iter_moved [of "run a"] by auto
next
  case (Look pos a)
  then show ?case by (auto split: list.splits if_splits)
qed (auto split: if_splits)

lemma match_here_parts:
  assumes "match_here re b r = Some m"
  shows "m_pre m = rev b" and "m_text m @ m_post m = r"
proof -
  obtain t ts where run: "run re \<lparr>behind = b, rest = r, caps = []\<rparr> = t # ts"
      and m: "m = mk_match b r t"
    using assms by (auto simp: match_here_def split: list.splits)
  then have "moved \<lparr>behind = b, rest = r, caps = []\<rparr> t"
    using run_moved [of t re] by simp
  then obtain x where "r = x @ rest t" by (auto simp: moved_def)
  then show "m_pre m = rev b" and "m_text m @ m_post m = r"
    by (auto simp: m mk_match_def)
qed

lemma match_here_concat:
  "match_here re b r = Some m \<Longrightarrow> m_pre m @ m_text m @ m_post m = rev b @ r"
  by (simp add: match_here_parts)

lemma exec_from_parts:
  "exec_from re b r = Some m \<Longrightarrow> m_pre m @ m_text m @ m_post m = rev b @ r"
  by (induction re b r rule: exec_from.induct)
     (auto dest: match_here_concat split: option.splits)

lemma re_exec_parts: "re_exec re s = Some m \<Longrightarrow> m_pre m @ m_text m @ m_post m = s"
  by (auto simp: re_exec_def dest: exec_from_parts)

lemma exec_from_pre: "exec_from re b r = Some m \<Longrightarrow> \<exists>x. m_pre m = rev b @ x"
proof (induction re b r rule: exec_from.induct)
  case (1 re b)
  then show ?case by (auto dest: match_here_parts)
next
  case (2 re b c cs)
  show ?case
  proof (cases "match_here re b (c # cs)")
    case None
    with 2 show ?thesis by auto
  next
    case (Some m')
    with 2(2) show ?thesis by (auto dest: match_here_parts)
  qed
qed

lemma exec_from_here:
  "match_here re b r = Some m \<Longrightarrow> exec_from re b r = Some m"
  by (cases r) auto

lemma re_test_hereI:
  "run re \<lparr>behind = [], rest = s, caps = []\<rparr> \<noteq> [] \<Longrightarrow> re_test re s"
  by (cases s) (auto simp: re_test_def re_exec_def match_here_def split: list.splits option.splits)

text \<open>A pattern anchored at the start of the text is tried at the first position only.\<close>

lemma exec_from_anchored_later:
  "b \<noteq> [] \<Longrightarrow> exec_from (Seq StartText re) b r = None"
  by (induction "Seq StartText re" b r rule: exec_from.induct)
     (auto simp: match_here_def)

lemma re_exec_anchored:
  "re_exec (Seq StartText re) s = match_here re [] s"
  by (cases s) (auto simp: re_exec_def match_here_def exec_from_anchored_later split: list.splits)

lemma re_test_anchored:
  "re_test (Seq StartText re) s \<longleftrightarrow> run re \<lparr>behind = [], rest = s, caps = []\<rparr> \<noteq> []"
  by (auto simp: re_test_def re_exec_anchored match_here_def split: list.splits)

text \<open>A literal matches itself, in one way.\<close>

lemma run_chr:
  "run (chr c) s = (case rest s of [] \<Rightarrow> []
     | d # ds \<Rightarrow> if d = c then [s\<lparr>behind := d # behind s, rest := ds\<rparr>] else [])"
  by (simp add: chr_def)

lemma run_lit_append:
  "rest s = x @ y \<Longrightarrow> run (lit x) s = [s\<lparr>behind := rev x @ behind s, rest := y\<rparr>]"
proof (induction x arbitrary: s)
  case (Cons c x)
  then show ?case by (simp add: lit_def run_chr)
qed (simp add: lit_def)

lemma run_lit_fail: "\<not> prefix x (rest s) \<Longrightarrow> run (lit x) s = []"
proof (induction x arbitrary: s)
  case (Cons c x)
  show ?case
  proof (cases "rest s")
    case Nil
    then show ?thesis by (simp add: lit_def run_chr)
  next
    case (Cons d ds)
    with Cons.prems Cons.IH show ?thesis by (simp add: lit_def run_chr)
  qed
qed simp

lemma run_lit:
  "run (lit x) s =
     (if prefix x (rest s) then [s\<lparr>behind := rev x @ behind s, rest := drop (length x) (rest s)\<rparr>]
      else [])"
  by (auto simp: run_lit_fail run_lit_append prefix_def)

lemma run_Seq_single:
  "run a s = [t] \<Longrightarrow> run (Seq a b) s = run b t"
  by simp

lemma star_iter_refl: "s \<in> set (star_iter g f n s)"
  by (cases n) (auto simp: Let_def)

lemma run_star_not_Nil [simp]: "run (star r) s \<noteq> []"
  unfolding star_def run.simps using star_iter_refl [of s] by (metis list.set_cases list.distinct(1))

lemma run_lazy_not_Nil [simp]: "run (lazy r) s \<noteq> []"
  unfolding lazy_def run.simps using star_iter_refl [of s] by (metis list.set_cases list.distinct(1))

lemma run_opt_not_Nil [simp]: "run (opt r) s \<noteq> []"
  by (simp add: opt_def)

lemma replace_first_None: "re_exec re s = None \<Longrightarrow> replace_first re f s = s"
  by (simp add: replace_first_def)

lemma replace_first_outside:
  assumes "re_exec re s = Some m"
  shows "\<exists>a x b. s = a @ x @ b \<and> replace_first re f s = a @ f m @ b"
  using re_exec_parts [OF assms] assms by (auto simp: replace_first_def)

text \<open>A replacement that never lengthens a match never lengthens the text.\<close>

lemma length_replace_first:
  assumes "\<And>m. length (f m) \<le> length (m_text m)"
  shows "length (replace_first re f s) \<le> length s"
proof (cases "re_exec re s")
  case (Some m)
  have "length s = length (m_pre m) + length (m_text m) + length (m_post m)"
    using re_exec_parts [OF Some] by (metis add.assoc length_append)
  with assms [of m] Some show ?thesis by (simp add: replace_first_def)
qed (simp add: replace_first_def)

lemma length_delete_first_less:
  assumes "replace_first re (\<lambda>_. []) s \<noteq> s"
  shows "length (replace_first re (\<lambda>_. []) s) < length s"
proof (cases "re_exec re s")
  case (Some m)
  note parts = re_exec_parts [OF Some]
  have "m_text m \<noteq> []" using assms parts Some by (auto simp: replace_first_def)
  moreover have "length s = length (m_pre m) + length (m_text m) + length (m_post m)"
    using parts by (metis add.assoc length_append)
  ultimately show ?thesis using Some by (simp add: replace_first_def)
qed (use assms in \<open>simp add: replace_first_def\<close>)

lemma length_splice_all:
  assumes f: "\<And>m. length (f m) \<le> length (m_text m)"
    and "W = rev b @ r" and "pos \<le> length b"
  shows "length (splice_matches f pos (drop pos W) (all_from n re b r)) \<le> length W - pos"
  using assms(2,3)
proof (induction n arbitrary: b r pos)
  case (Suc n)
  show ?case
  proof (cases "exec_from re b r")
    case (Some m)
    note W = exec_from_parts [OF Some, folded Suc.prems(1)]
    define e where "e = m_index m + length (m_text m)"
    from exec_from_pre [OF Some] Suc.prems(2) have pos: "pos \<le> m_index m"
      by (auto simp: m_index_def)
    have lenW: "length W = m_index m + length (m_text m) + length (m_post m)"
      using arg_cong [OF W, of length] by (simp add: m_index_def)
    have gap: "length (take (m_index m - pos) (drop pos W)) = m_index m - pos"
      using pos lenW by simp
    have drop: "drop (m_index m - pos + length (m_text m)) (drop pos W) = drop e W"
      using pos by (simp add: e_def add.commute)
    define ms where "ms = (if m_text m = [] then
          (case m_post m of [] \<Rightarrow> [] | c # cs \<Rightarrow> all_from n re (c # rev (m_pre m)) cs)
        else all_from n re (rev (m_pre m @ m_text m)) (m_post m))"
    have "length (splice_matches f e (drop e W) ms) \<le> length W - e"
    proof (cases "m_text m = []")
      case False
      then have ms: "ms = all_from n re (rev (m_pre m @ m_text m)) (m_post m)"
        by (simp add: ms_def)
      show ?thesis unfolding ms by (rule Suc.IH) (simp_all add: W e_def m_index_def)
    next
      case True
      show ?thesis
      proof (cases "m_post m")
        case Nil
        with True show ?thesis by (simp add: ms_def)
      next
        case (Cons c cs)
        with True have ms: "ms = all_from n re (c # rev (m_pre m)) cs" by (simp add: ms_def)
        show ?thesis unfolding ms
          by (rule Suc.IH) (use W Cons True in \<open>simp_all add: e_def m_index_def\<close>)
      qed
    qed
    moreover have "all_from (Suc n) re b r = m # ms" using Some by (simp add: ms_def)
    ultimately show ?thesis
      using f [of m] gap drop pos lenW by (simp add: Let_def flip: e_def) (simp add: e_def)
  qed simp
qed simp

lemma length_replace_all:
  assumes "\<And>m. length (f m) \<le> length (m_text m)"
  shows "length (replace_all re f s) \<le> length s"
  using length_splice_all [OF assms, of s "[]" s 0 "Suc (length s)" re]
  by (simp add: replace_all_def match_all_def)

text \<open>A pattern whose every match consumes a character.\<close>

definition consuming :: "regex \<Rightarrow> bool" where
  "consuming re \<longleftrightarrow> (\<forall>s. \<forall>t\<in>set (run re s). length (rest t) < length (rest s))"

lemma run_rest_le: "t \<in> set (run re s) \<Longrightarrow> length (rest t) \<le> length (rest s)"
  using run_moved [of t re s] by (auto simp: moved_def)

lemma consuming_Cls [simp]: "consuming (Cls p)"
proof (unfold consuming_def, intro allI ballI)
  fix s t assume "t \<in> set (run (Cls p) s)"
  then show "length (rest t) < length (rest s)" by (cases "rest s") (auto split: if_splits)
qed

lemma consuming_Seq1: "consuming a \<Longrightarrow> consuming (Seq a b)"
  by (fastforce simp: consuming_def dest: run_rest_le)

lemma consuming_Seq2: "consuming b \<Longrightarrow> consuming (Seq a b)"
  by (fastforce simp: consuming_def dest: run_rest_le)

lemma consuming_plus [simp]: "consuming r \<Longrightarrow> consuming (plus r)"
  by (simp add: plus_def consuming_Seq1)

lemma exec_from_consuming: "consuming re \<Longrightarrow> exec_from re b r = Some m \<Longrightarrow> m_text m \<noteq> []"
proof (induction re b r rule: exec_from.induct)
  case (1 re b)
  then show ?case
    by (auto simp: match_here_def consuming_def mk_match_def split: list.splits)
       (metis list.set_intros(1) list.size(3) mstate.select_convs(2) not_less_zero)
next
  case (2 re b c cs)
  have "m_text m \<noteq> []" if h: "match_here re b (c # cs) = Some m"
  proof -
    obtain t ts where "run re \<lparr>behind = b, rest = c # cs, caps = []\<rparr> = t # ts"
      and m: "m = mk_match b (c # cs) t"
      using h by (auto simp: match_here_def split: list.splits)
    then have "length (rest t) < Suc (length cs)"
      using 2(2) unfolding consuming_def
      by (metis list.set_intros(1) list.size(4) add.right_neutral add_Suc_right mstate.select_convs(2))
    then show ?thesis by (simp add: m mk_match_def)
  qed
  with 2 show ?case by (auto split: option.splits)
qed

text \<open>The lazy loop over any character tries every split of the rest, shortest first.\<close>

definition forward :: "nat \<Rightarrow> mstate \<Rightarrow> mstate" where
  "forward k s = s\<lparr>behind := rev (take k (rest s)) @ behind s, rest := drop k (rest s)\<rparr>"

lemma forward_0 [simp]: "forward 0 s = s"
  by (simp add: forward_def)

lemma forward_step: "rest s = c # cs \<Longrightarrow> forward k (forward (Suc 0) s) = forward (Suc k) s"
  by (simp add: forward_def)

lemma star_iter_any:
  "length (rest s) \<le> n \<Longrightarrow>
     star_iter False (run any_char) n s = map (\<lambda>k. forward k s) [0..<Suc (length (rest s))]"
proof (induction n arbitrary: s)
  case (Suc n)
  show ?case
  proof (cases "rest s")
    case Nil
    then show ?thesis by simp
  next
    case (Cons c cs)
    let ?t = "forward (Suc 0) s"
    have step: "run any_char s = [?t]" and len: "length (rest ?t) = length cs"
      using Cons by (simp_all add: forward_def)
    have "star_iter False (run any_char) n ?t = map (\<lambda>k. forward k ?t) [0..<Suc (length cs)]"
      using Suc.IH [of ?t] Suc.prems Cons len by (simp del: run.simps upt_Suc)
    also have "\<dots> = map (\<lambda>k. forward (Suc k) s) [0..<Suc (length cs)]"
      using Cons by (simp add: forward_step)
    also have "\<dots> = map (\<lambda>k. forward k s) [Suc 0..<Suc (Suc (length cs))]"
      by (subst map_Suc_upt [symmetric]) (simp add: comp_def del: upt_Suc)
    finally show ?thesis
      using step len Cons by (simp add: Let_def upt_conv_Cons del: upt_Suc run.simps)
  qed
qed simp

lemma run_lazy_any:
  "run (lazy any_char) s = map (\<lambda>k. forward k s) [0..<Suc (length (rest s))]"
  unfolding lazy_def run.simps(5) by (rule star_iter_any) simp

lemma concat_first:
  assumes "\<And>i. i < k \<Longrightarrow> f i = []" and "k < n"
  shows "concat (map f [0..<n]) = f k @ concat (map f [Suc k..<n])"
proof -
  have "[0..<n] = [0..<k] @ k # [Suc k..<n]"
    using assms(2) upt_add_eq_append [of 0 k "n - k"] by (simp add: upt_conv_Cons)
  moreover have "concat (map f [0..<k]) = []" using assms(1) by simp
  ultimately show ?thesis by simp
qed

text \<open>The text up to the first occurrence of a delimiter that starts with a foreign character.\<close>

lemma run_lazy_until:
  assumes "rest s = x @ d # y" and "d \<notin> set x"
  shows "\<exists>ts. run (Seq (Grp g (lazy any_char)) (Seq (chr d) r)) s
     = run r \<lparr>behind = d # rev x @ behind s, rest = y, caps = (g, x) # caps s\<rparr> @ ts"
proof -
  define h where "h = (\<lambda>k. run (Seq (chr d) r)
     ((forward k s)\<lparr>caps := (g, take k (rest s)) # caps s\<rparr>))"
  have grp: "run (Grp g (lazy any_char)) s
      = map (\<lambda>k. (forward k s)\<lparr>caps := (g, take k (rest s)) # caps s\<rparr>) [0..<Suc (length (rest s))]"
    by (simp add: run_lazy_any forward_def del: upt_Suc)
  have "h i = []" if "i < length x" for i
  proof -
    have "drop i (rest s) = x ! i # drop (Suc i) x @ d # y"
      using that assms(1) by (simp flip: Cons_nth_drop_Suc)
    moreover have "x ! i \<noteq> d" using that assms(2) nth_mem by blast
    ultimately show ?thesis by (simp add: h_def run_chr forward_def)
  qed
  moreover have "h (length x) = run r \<lparr>behind = d # rev x @ behind s, rest = y, caps = (g, x) # caps s\<rparr>"
    using assms(1) by (cases s) (simp add: h_def run_chr forward_def)
  moreover have "run (Seq (Grp g (lazy any_char)) (Seq (chr d) r)) s
      = concat (map h [0..<Suc (length (rest s))])"
    unfolding run.simps(3) [of "Grp g (lazy any_char)"] grp h_def by (simp add: comp_def del: upt_Suc run.simps)
  moreover have "length x < Suc (length (rest s))" using assms(1) by simp
  ultimately show ?thesis
    using concat_first [of "length x" h "Suc (length (rest s))"] by metis
qed

text \<open>Positions at which no match starts are skipped.\<close>

lemma exec_from_skip:
  assumes "\<And>i b'. i < length x \<Longrightarrow> match_here re b' (drop i x @ r) = None"
  shows "exec_from re b (x @ r) = exec_from re (rev x @ b) r"
  using assms
proof (induction x arbitrary: b)
  case (Cons c x)
  have "match_here re b ((c # x) @ r) = None" using Cons.prems [of 0] by simp
  moreover have "exec_from re (c # b) (x @ r) = exec_from re (rev x @ c # b) r"
    using Cons.prems [of "Suc _"] by (intro Cons.IH) auto
  ultimately show ?case by simp
qed simp

lemma exec_from_None_lit: "exec_from (lit p) b s = None \<Longrightarrow> \<not> includes_str s p"
proof (induction "lit p" b s rule: exec_from.induct)
  case (1 b)
  then show ?case by (cases p) (auto simp: match_here_def run_lit)
next
  case (2 b c cs)
  then have "match_here (lit p) b (c # cs) = None" by (auto split: option.splits)
  then have "\<not> prefix p (c # cs)" by (auto simp: match_here_def run_lit split: list.splits if_splits)
  with 2 show ?case by (auto split: option.splits)
qed

lemma exec_from_lit_text: "exec_from (lit p) b s = Some m \<Longrightarrow> m_text m = p"
proof (induction "lit p" b s rule: exec_from.induct)
  case (1 b)
  then show ?case by (auto simp: match_here_def run_lit mk_match_def split: if_splits)
next
  case (2 b c cs)
  have "m' = m \<Longrightarrow> m_text m = p" if "match_here (lit p) b (c # cs) = Some m'" for m'
    using that by (auto simp: match_here_def run_lit mk_match_def prefix_def split: if_splits)
  with 2 show ?case by (auto split: option.splits)
qed

lemma re_exec_lit: "includes_str s p \<longleftrightarrow> (\<exists>m. re_exec (lit p) s = Some m \<and> m_text m = p)"
proof
  assume "includes_str s p"
  then show "\<exists>m. re_exec (lit p) s = Some m \<and> m_text m = p"
    using exec_from_None_lit exec_from_lit_text unfolding re_exec_def by (metis not_None_eq)
next
  assume "\<exists>m. re_exec (lit p) s = Some m \<and> m_text m = p"
  then show "includes_str s p" unfolding includes_str_iff by (metis re_exec_parts)
qed

text \<open>A pattern whose every match ends with a given character.\<close>

definition ends_with_char :: "regex \<Rightarrow> char \<Rightarrow> bool" where
  "ends_with_char re c \<longleftrightarrow>
     (\<forall>s. \<forall>t\<in>set (run re s). \<exists>x. rest s = x @ c # rest t \<and> behind t = c # rev x @ behind s)"

lemma ends_with_char_Seq: "ends_with_char b c \<Longrightarrow> ends_with_char (Seq a b) c"
  unfolding ends_with_char_def
proof (intro allI ballI)
  fix s t assume b: "\<forall>s. \<forall>t\<in>set (run b s). \<exists>x. rest s = x @ c # rest t \<and> behind t = c # rev x @ behind s"
    and "t \<in> set (run (Seq a b) s)"
  then obtain u where u: "u \<in> set (run a s)" "t \<in> set (run b u)" by auto
  from b u(2) obtain x where "rest u = x @ c # rest t" "behind t = c # rev x @ behind u" by blast
  moreover from run_moved [OF u(1)] obtain y where "rest s = y @ rest u" "behind u = rev y @ behind s"
    by (auto simp: moved_def)
  ultimately show "\<exists>x. rest s = x @ c # rest t \<and> behind t = c # rev x @ behind s"
    by (intro exI [of _ "y @ x"]) simp
qed

lemma ends_with_char_Empty: "ends_with_char a c \<Longrightarrow> ends_with_char (Seq a Empty) c"
  by (simp add: ends_with_char_def)

lemma ends_with_char_Grp: "ends_with_char a c \<Longrightarrow> ends_with_char (Grp n a) c"
  by (auto simp: ends_with_char_def)

lemma star_iter_ends:
  assumes "t \<in> set (star_iter g (run (chr c)) n s)"
  shows "\<exists>k. rest s = replicate k c @ rest t \<and> behind t = replicate k c @ behind s"
  using assms
proof (induction n arbitrary: s)
  case (Suc n)
  then consider "t = s" | u where "u \<in> set (run (chr c) s)" "t \<in> set (star_iter g (run (chr c)) n u)"
    by (auto simp: Let_def split: if_splits)
  then show ?case
  proof cases
    case 1
    then show ?thesis by (intro exI [of _ 0]) simp
  next
    case 2
    from Suc.IH [OF 2(2)] obtain k where "rest u = replicate k c @ rest t" "behind t = replicate k c @ behind u"
      by blast
    moreover from 2(1) have "rest s = c # rest u" "behind u = c # behind s"
      by (auto simp: run_chr split: list.splits if_splits)
    ultimately show ?thesis
      by (intro exI [of _ "Suc k"]) (simp add: replicate_app_Cons_same)
  qed
qed (auto intro: exI [of _ 0])

lemma ends_with_char_plus: "ends_with_char (plus (chr c)) c"
  unfolding ends_with_char_def
proof (intro allI ballI)
  fix s t assume "t \<in> set (run (plus (chr c)) s)"
  then obtain u where u: "u \<in> set (run (chr c) s)" "t \<in> set (star_iter True (run (chr c)) (length (rest u)) u)"
    by (auto simp: plus_def)
  then obtain k where "rest u = replicate k c @ rest t" "behind t = replicate k c @ behind u"
    using star_iter_ends by blast
  moreover from u(1) have "rest s = c # rest u" "behind u = c # behind s"
    by (auto simp: run_chr split: list.splits if_splits)
  ultimately show "\<exists>x. rest s = x @ c # rest t \<and> behind t = c # rev x @ behind s"
    by (intro exI [of _ "replicate k c"]) (simp add: replicate_app_Cons_same)
qed

lemmas ends_with_char_intros =
  ends_with_char_Grp ends_with_char_Seq ends_with_char_plus ends_with_char_Empty

lemma exec_from_last_char:
  "ends_with_char re c \<Longrightarrow> exec_from re b s = Some m \<Longrightarrow> m_text m \<noteq> [] \<and> last (m_text m) = c"
proof (induction re b s rule: exec_from.induct)
  case (1 re b)
  then obtain t ts where "run re \<lparr>behind = b, rest = [], caps = []\<rparr> = t # ts"
    by (auto simp: match_here_def split: list.splits)
  then have "\<exists>x. [] = x @ c # rest t"
    using 1(1) unfolding ends_with_char_def by (metis list.set_intros(1) mstate.select_convs(2))
  then show ?case by simp
next
  case (2 re b d ds)
  have "m_text m \<noteq> [] \<and> last (m_text m) = c" if h: "match_here re b (d # ds) = Some m"
  proof -
    obtain t ts where "run re \<lparr>behind = b, rest = d # ds, caps = []\<rparr> = t # ts" and m: "m = mk_match b (d # ds) t"
      using h by (auto simp: match_here_def split: list.splits)
    then obtain x where "d # ds = x @ c # rest t"
      using 2(2) unfolding ends_with_char_def by (metis list.set_intros(1) mstate.select_convs(2))
    then show ?thesis by (simp add: m mk_match_def)
  qed
  with 2 show ?case by (auto split: option.splits)
qed

text \<open>Replacing the maximal runs of a character class: the closed form of the global replacement.\<close>

function squash :: "(char \<Rightarrow> bool) \<Rightarrow> string \<Rightarrow> string \<Rightarrow> string" where
  "squash p q s =
     (case dropWhile (\<lambda>c. \<not> p c) s of [] \<Rightarrow> s
      | c # cs \<Rightarrow> takeWhile (\<lambda>c. \<not> p c) s @ q @ squash p q (dropWhile p cs))"
  by pat_completeness auto
termination
proof (relation "measure (\<lambda>(p, q, s). length s)")
  fix p :: "char \<Rightarrow> bool" and q s c cs
  assume "dropWhile (\<lambda>c. \<not> p c) s = c # cs"
  then have "length (c # cs) \<le> length s" by (metis length_dropWhile_le)
  then show "((p, q, dropWhile p cs), p, q, s) \<in> measure (\<lambda>(p, q, s). length s)"
    using length_dropWhile_le [of p cs] by simp
qed simp

declare squash.simps [simp del]

lemma star_cls_longest:
  "\<exists>ts. star_cls True p b r cs
     = \<lparr>behind = rev (takeWhile p r) @ b, rest = dropWhile p r, caps = cs\<rparr> # ts"
proof (induction r arbitrary: b)
  case (Cons x r)
  from Cons.IH [of "x # b"] show ?case by auto
qed simp

lemma match_here_plus:
  "match_here (plus (Cls p)) b r =
     (case r of [] \<Rightarrow> None
      | c # cs \<Rightarrow> if p c then Some \<lparr>m_pre = rev b, m_text = takeWhile p r, m_post = dropWhile p r, m_caps = []\<rparr>
                 else None)"
proof (cases r)
  case (Cons c cs)
  show ?thesis
  proof (cases "p c")
    case True
    obtain ts where "star_cls True p (c # b) cs []
        = \<lparr>behind = rev (takeWhile p cs) @ c # b, rest = dropWhile p cs, caps = []\<rparr> # ts"
      using star_cls_longest by blast
    moreover have "run (plus (Cls p)) \<lparr>behind = b, rest = r, caps = []\<rparr> = star_cls True p (c # b) cs []"
      using True Cons star_cls_iter [of cs "length cs" True p "c # b" "[]"] by (simp add: plus_def)
    moreover have "take (length (c # cs) - length (dropWhile p cs)) (c # cs) = c # takeWhile p cs"
      by (metis True append_eq_conv_conj dropWhile.simps(2) length_append add_diff_cancel_right' takeWhile.simps(2)
          takeWhile_dropWhile_id)
    ultimately show ?thesis using True Cons
      by (simp add: match_here_def mk_match_def)
  next
    case False
    then show ?thesis using Cons by (simp add: match_here_def plus_def)
  qed
qed (simp add: match_here_def plus_def)

lemma exec_from_plus:
  "exec_from (plus (Cls p)) b r =
     (case dropWhile (\<lambda>c. \<not> p c) r of [] \<Rightarrow> None
      | c # cs \<Rightarrow> Some \<lparr>m_pre = rev b @ takeWhile (\<lambda>c. \<not> p c) r, m_text = takeWhile p (c # cs),
                       m_post = dropWhile p (c # cs), m_caps = []\<rparr>)"
proof (induction r arbitrary: b)
  case (Cons x r)
  show ?case
  proof (cases "p x")
    case False
    then show ?thesis using Cons.IH [of "x # b"]
      by (cases "dropWhile (\<lambda>c. \<not> p c) r") (simp_all add: match_here_plus del: dropWhile_eq_Nil_conv)
  qed (simp add: match_here_plus)
qed (simp add: match_here_plus)

lemma splice_squash:
  "length r < n \<Longrightarrow> splice_matches (\<lambda>_. q) (length b) r (all_from n (plus (Cls p)) b r) = squash p q r"
proof (induction n arbitrary: b r)
  case (Suc n)
  show ?case
  proof (cases "dropWhile (\<lambda>c. \<not> p c) r")
    case Nil
    then show ?thesis by (subst squash.simps) (simp add: exec_from_plus del: dropWhile_eq_Nil_conv)
  next
    case (Cons c cs)
    let ?pre = "takeWhile (\<lambda>c. \<not> p c) r" and ?run = "takeWhile p (c # cs)" and ?post = "dropWhile p (c # cs)"
    have pc: "p c" using Cons by (metis hd_dropWhile list.distinct(1) list.sel(1))
    have r: "r = ?pre @ c # cs" using Cons by (metis takeWhile_dropWhile_id)
    have r': "r = ?pre @ ?run @ ?post" using r by (metis takeWhile_dropWhile_id)
    have len: "length ?post < n" using Suc.prems r pc length_dropWhile_le [of p cs]
      by (metis (no_types, lifting) add_lessD1 dropWhile.simps(2) le_less_trans length_append length_Cons less_Suc_eq_le
          not_less_eq add.commute add_Suc_right)
    have "splice_matches (\<lambda>_. q) (length (rev (rev b @ ?pre @ ?run))) ?post
        (all_from n (plus (Cls p)) (rev (rev b @ ?pre @ ?run)) ?post) = squash p q ?post"
      by (rule Suc.IH) (rule len)
    moreover have "take (length ?pre) r = ?pre" by (metis append_eq_conv_conj r)
    moreover have "drop (length ?pre + length ?run) r = ?post"
      by (metis append_assoc append_eq_conv_conj length_append r')
    ultimately show ?thesis
      using Cons pc by (subst squash.simps) (simp add: exec_from_plus m_index_def Let_def ac_simps)
  qed
qed simp

lemma replace_all_plus: "replace_all (plus (Cls p)) (\<lambda>_. q) s = squash p q s"
  using splice_squash [of s "Suc (length s)" q "[]" p] by (simp add: replace_all_def match_all_def)

lemma squash_set: "c \<in> set (squash p q s) \<Longrightarrow> c \<in> set q \<or> (\<not> p c \<and> c \<in> set s)"
proof (induction p q s rule: squash.induct)
  case (1 p q s)
  show ?case
  proof (cases "dropWhile (\<lambda>c. \<not> p c) s")
    case Nil
    then have "\<forall>c\<in>set s. \<not> p c" by simp
    with Nil 1(2) show ?thesis by (subst (asm) squash.simps) (simp del: dropWhile_eq_Nil_conv)
  next
    case (Cons d ds)
    have sub: "set (d # ds) \<subseteq> set s" using Cons by (metis set_dropWhileD subsetI)
    from 1(2) Cons consider "c \<in> set (takeWhile (\<lambda>c. \<not> p c) s)" | "c \<in> set q" | "c \<in> set (squash p q (dropWhile p ds))"
      by (subst (asm) squash.simps) auto
    then show ?thesis
      using 1(1) [OF Cons] sub by cases (auto dest: set_takeWhileD set_dropWhileD)
  qed
qed

text \<open>First results: how a sequence, a literal and a loop begin.\<close>

lemma run_Seq_first:
  assumes "run a s = t # ts" and "run b t = u # us"
  shows "\<exists>vs. run (Seq a b) s = u # vs"
  using assms by simp

lemma run_lit_i:
  "run (lit_i x) s =
     (if map lower_char (take (length x) (rest s)) = map lower_char x
      then [s\<lparr>behind := rev (take (length x) (rest s)) @ behind s, rest := drop (length x) (rest s)\<rparr>]
      else [])"
proof (induction x arbitrary: s)
  case Nil
  then show ?case by (simp add: lit_i_def)
next
  case (Cons c x)
  show ?case
  proof (cases "rest s")
    case Nil
    then show ?thesis by (simp add: lit_i_def chr_i_def)
  next
    case (Cons d ds)
    with Cons.IH [of "s\<lparr>behind := d # behind s, rest := ds\<rparr>"] show ?thesis
      by (simp add: lit_i_def chr_i_def)
  qed
qed

text \<open>A loop over a class matches as far as it can first.\<close>

lemma run_star_first:
  "\<exists>ts. run (star (Cls p)) s
     = s\<lparr>behind := rev (takeWhile p (rest s)) @ behind s, rest := dropWhile p (rest s)\<rparr> # ts"
proof -
  have "run (star (Cls p)) s = star_cls True p (behind s) (rest s) (caps s)"
    using star_cls_iter [of "rest s" "length (rest s)" True p "behind s" "caps s"]
    by (cases s) (simp add: star_def)
  then show ?thesis using star_cls_longest [of p "behind s" "rest s" "caps s"] by (cases s) auto
qed

lemma run_plus_first:
  "rest s = c # cs \<Longrightarrow> p c \<Longrightarrow> \<exists>ts. run (plus (Cls p)) s
     = s\<lparr>behind := rev (takeWhile p (rest s)) @ behind s, rest := dropWhile p (rest s)\<rparr> # ts"
  using run_star_first [of p "s\<lparr>behind := c # behind s, rest := cs\<rparr>"]
  by (simp add: plus_def star_def)

lemma run_plus_fail: "rest s = [] \<or> \<not> p (hd (rest s)) \<Longrightarrow> run (plus (Cls p)) s = []"
  by (cases "rest s") (simp_all add: plus_def)

lemma concat_first_nonempty:
  "concat (map f xs) = t # ts \<Longrightarrow> \<exists>x\<in>set xs. \<exists>us. f x = t # us"
proof (induction xs)
  case (Cons x xs)
  then show ?case by (cases "f x") auto
qed simp

lemma concat_run_Empty [simp]: "concat (map (run Empty) xs) = xs"
  by (induction xs) auto

lemma first_stops:
  assumes "run (Seq a (Seq (plus (Cls p)) Empty)) s = t # ts"
  shows "rest t = [] \<or> \<not> p (hd (rest t))"
proof -
  have "concat (map (run (Seq (plus (Cls p)) Empty)) (run a s)) = t # ts" using assms by simp
  then obtain u us where "run (Seq (plus (Cls p)) Empty) u = t # us" using concat_first_nonempty by metis
  then have u: "run (plus (Cls p)) u = t # us" by (simp only: run.simps(3) concat_run_Empty)
  then obtain c cs where c: "rest u = c # cs" "p c"
    using run_plus_fail [of u p] by (cases "rest u") auto
  then have "rest t = dropWhile p (rest u)" using run_plus_first [of u c cs p] c u by auto
  then show ?thesis using hd_dropWhile [of p "rest u"] by auto
qed

text \<open>The search finds the leftmost position at which the pattern matches.\<close>

lemma exec_from_leftmost:
  "exec_from re b r = Some m \<Longrightarrow>
     \<exists>x y. r = x @ y \<and> match_here re (rev x @ b) y = Some m
         \<and> (\<forall>i<length x. match_here re (rev (take i x) @ b) (drop i r) = None)"
proof (induction re b r rule: exec_from.induct)
  case (1 re b)
  then show ?case by auto
next
  case (2 re b c cs)
  show ?case
  proof (cases "match_here re b (c # cs)")
    case None
    with 2 obtain x y where xy: "cs = x @ y" "match_here re (rev x @ c # b) y = Some m"
        "\<forall>i<length x. match_here re (rev (take i x) @ c # b) (drop i cs) = None"
      by fastforce
    have "match_here re (rev (take i (c # x)) @ b) (drop i (c # cs)) = None" if "i < length (c # x)" for i
      using that None xy(3) by (cases i) auto
    with xy show ?thesis by (intro exI [of _ "c # x"] exI [of _ y]) auto
  next
    case (Some m')
    with 2(2) show ?thesis by (intro exI [of _ "[]"] exI [of _ "c # cs"]) auto
  qed
qed

lemma exec_from_found:
  assumes "match_here re (rev x @ b) y = Some m"
    and "\<And>i. i < length x \<Longrightarrow> match_here re (rev (take i x) @ b) (drop i x @ y) = None"
  shows "exec_from re b (x @ y) = Some m"
  using assms
proof (induction x arbitrary: b)
  case Nil
  then show ?case using exec_from_here by simp
next
  case (Cons c x)
  have "match_here re b ((c # x) @ y) = None" using Cons.prems(2) [of 0] by simp
  moreover have "exec_from re (c # b) (x @ y) = Some m"
  proof (rule Cons.IH)
    show "match_here re (rev x @ c # b) y = Some m" using Cons.prems(1) by simp
    show "match_here re (rev (take i x) @ c # b) (drop i x @ y) = None" if "i < length x" for i
      using Cons.prems(2) [of "Suc i"] that by simp
  qed
  ultimately show ?case by simp
qed

lemma exec_from_match: "match_here re (rev x @ b) y \<noteq> None \<Longrightarrow> exec_from re b (x @ y) \<noteq> None"
proof (induction x arbitrary: b)
  case Nil
  then show ?case using exec_from_here by fastforce
next
  case (Cons c x)
  then show ?case by (auto split: option.splits)
qed


section \<open>Replacing one character\<close>

lemma exec_chr_None: "c \<notin> set r \<Longrightarrow> exec_from (chr c) b r = None"
  by (induction r arbitrary: b) (auto simp: match_here_def chr_def)

lemma exec_chr_Some:
  "c \<notin> set u \<Longrightarrow> exec_from (chr c) b (u @ c # v) = Some \<lparr>m_pre = rev b @ u, m_text = [c], m_post = v, m_caps = []\<rparr>"
  by (induction u arbitrary: b) (auto simp: match_here_def chr_def mk_match_def)

lemma splice_chr:
  "length r < n \<Longrightarrow> splice_matches (\<lambda>_. t) (length b) r (all_from n (chr c) b r)
     = concat (map (\<lambda>x. if x = c then t else [x]) r)"
proof (induction n arbitrary: b r)
  case (Suc n)
  have id: "concat (map (\<lambda>x. if x = c then t else [x]) u) = u" if "c \<notin> set u" for u
    using that by (induction u) auto
  show ?case
  proof (cases "c \<in> set r")
    case False
    then show ?thesis by (simp add: exec_chr_None id)
  next
    case True
    then obtain u v where r: "r = u @ c # v" "c \<notin> set u" by (metis split_list_first)
    have "rev (rev b @ u @ [c]) = c # rev u @ b" "length b + length u + 1 = length (c # rev u @ b)" by simp_all
    with Suc.IH [of v "c # rev u @ b"] Suc.prems show ?thesis
      by (simp add: r exec_chr_Some m_index_def id add.commute)
  qed
qed simp

lemma replace_all_chr: "replace_all (chr c) (\<lambda>_. t) s = concat (map (\<lambda>x. if x = c then t else [x]) s)"
  using splice_chr [of s "Suc (length s)" t "[]" c] by (simp add: replace_all_def match_all_def)

end
