(* ===== verification/ShellSplit.thy ===== *)
theory ShellSplit
  imports Regex
begin

text \<open>
  \<open>splitTopLevelCommands\<close> of
  \<open>src/hooks/pretool-guard/validators/forbidden-commands.ts\<close>: the scan of a shell command
  as a state machine over its characters, and what its segments are.
\<close>

record scan =
  segs :: "string list"
  cur :: string
  depth :: nat
  in_single :: bool
  in_double :: bool
  in_backtick :: bool

definition scan0 :: scan where
  "scan0 = \<lparr>segs = [], cur = [], depth = 0, in_single = False, in_double = False, in_backtick = False\<rparr>"

text \<open>\<open>current += s\<close>\<close>

definition push :: "string \<Rightarrow> scan \<Rightarrow> scan" where
  "push s st = st\<lparr>cur := cur st @ s\<rparr>"

text \<open>\<open>const seg = current.trim(); if (seg) segments.push(seg); current = ""\<close>\<close>

definition flush :: "scan \<Rightarrow> scan" where
  "flush st = (let seg = js_trim (cur st)
     in st\<lparr>segs := segs st @ (if seg = [] then [] else [seg]), cur := []\<rparr>)"

text \<open>
  One iteration of the loop on the character \<open>ch\<close>, by the context the flags put it in.
  \<open>next\<close> is the next character as a string, empty at the end of the text; the result says
  whether the iteration consumes it too (\<open>i += 2\<close>).
\<close>

definition step_subst :: "char \<Rightarrow> string \<Rightarrow> scan \<Rightarrow> scan \<times> bool" where
  "step_subst ch next st =
     (if ch = CHR ''$'' \<and> next = ''('' then ((push (ch # next) st)\<lparr>depth := depth st + 1\<rparr>, True)
      else if ch = CHR '')'' then ((push [ch] st)\<lparr>depth := depth st - 1\<rparr>, False)
      else if ch = squote then ((push [ch] st)\<lparr>in_single := True\<rparr>, False)
      else if ch = CHR 0x60 then ((push [ch] st)\<lparr>in_backtick := True\<rparr>, False)
      else (push [ch] st, False))"

definition step_double :: "char \<Rightarrow> string \<Rightarrow> scan \<Rightarrow> scan \<times> bool" where
  "step_double ch next st =
     (if ch = dquote then ((push [ch] st)\<lparr>in_double := False\<rparr>, False)
      else if ch = CHR ''$'' \<and> next = ''('' then ((push (ch # next) st)\<lparr>depth := depth st + 1\<rparr>, True)
      else if ch = CHR 0x5C then (push (ch # next) st, True)
      else (push [ch] st, False))"

definition step_top :: "char \<Rightarrow> string \<Rightarrow> scan \<Rightarrow> scan \<times> bool" where
  "step_top ch next st =
     (if ch = squote then ((push [ch] st)\<lparr>in_single := True\<rparr>, False)
      else if ch = dquote then ((push [ch] st)\<lparr>in_double := True\<rparr>, False)
      else if ch = CHR 0x60 then ((push [ch] st)\<lparr>in_backtick := True\<rparr>, False)
      else if ch = CHR ''$'' \<and> next = ''('' then ((push (ch # next) st)\<lparr>depth := depth st + 1\<rparr>, True)
      else if ch = CHR ''&'' \<and> next = ''&'' then (flush st, True)
      else if ch = CHR ''|'' \<and> next = ''|'' then (flush st, True)
      else if ch = CHR ''|'' then (flush st, False)
      else if ch = CHR '';'' then (flush st, False)
      else (push [ch] st, False))"

definition scan_step :: "char \<Rightarrow> string \<Rightarrow> scan \<Rightarrow> scan \<times> bool" where
  "scan_step ch next st =
     (if in_single st then ((push [ch] st)\<lparr>in_single := ch \<noteq> squote\<rparr>, False)
      else if in_backtick st then ((push [ch] st)\<lparr>in_backtick := ch \<noteq> CHR 0x60\<rparr>, False)
      else if depth st > 0 then step_subst ch next st
      else if in_double st then step_double ch next st
      else step_top ch next st)"

text \<open>The text the next iteration reads.\<close>

definition advance :: "scan \<times> bool \<Rightarrow> string \<Rightarrow> string" where
  "advance r cs = (if snd r then drop 1 cs else cs)"

lemma advance_simps [simp]: "advance (st, True) cs = drop 1 cs" "advance (st, False) cs = cs"
  by (simp_all add: advance_def)

lemma length_advance: "length (advance r cs) \<le> length cs"
  by (simp add: advance_def)

function scan_loop :: "string \<Rightarrow> scan \<Rightarrow> scan" where
  "scan_loop [] st = st"
| "scan_loop (ch # cs) st =
     scan_loop (advance (scan_step ch (take 1 cs) st) cs) (fst (scan_step ch (take 1 cs) st))"
  by pat_completeness auto
termination
  by (relation "measure (\<lambda>(s, _). length s)") (auto simp: length_advance le_imp_less_Suc)

definition splitTopLevelCommands :: "string \<Rightarrow> string list" where
  "splitTopLevelCommands command = segs (flush (scan_loop command scan0))"

section \<open>Lemmas\<close>

text \<open>A state outside every quote and substitution.\<close>

definition top_level :: "scan \<Rightarrow> bool" where
  "top_level st \<longleftrightarrow> depth st = 0 \<and> \<not> in_single st \<and> \<not> in_double st \<and> \<not> in_backtick st"

definition seg_ok :: "string \<Rightarrow> bool" where
  "seg_ok s \<longleftrightarrow> s \<noteq> [] \<and> js_trim s = s"

definition segs_ok :: "scan \<Rightarrow> bool" where
  "segs_ok st \<longleftrightarrow> (\<forall>s\<in>set (segs st). seg_ok s)"

lemma push_simps [simp]:
  "segs (push s st) = segs st" "cur (push s st) = cur st @ s" "depth (push s st) = depth st"
  "in_single (push s st) = in_single st" "in_double (push s st) = in_double st"
  "in_backtick (push s st) = in_backtick st"
  by (simp_all add: push_def)

lemma flush_simps [simp]:
  "cur (flush st) = []" "depth (flush st) = depth st"
  "in_single (flush st) = in_single st" "in_double (flush st) = in_double st"
  "in_backtick (flush st) = in_backtick st"
  "segs (flush st) = segs st @ (if js_trim (cur st) = [] then [] else [js_trim (cur st)])"
  by (simp_all add: flush_def Let_def)

lemma segs_ok_flush: "segs_ok st \<Longrightarrow> segs_ok (flush st)"
  by (auto simp: segs_ok_def seg_ok_def)

lemma step_segs: "segs (fst (scan_step ch nx st)) \<in> {segs st, segs (flush st)}"
  by (simp add: scan_step_def step_subst_def step_double_def step_top_def)

lemma segs_ok_step: "segs_ok st \<Longrightarrow> segs_ok (fst (scan_step ch nx st))"
  using segs_ok_flush [of st] step_segs [of ch nx st] unfolding segs_ok_def by auto

lemma segs_ok_loop: "segs_ok st \<Longrightarrow> segs_ok (scan_loop cs st)"
proof (induction cs st rule: scan_loop.induct)
  case (2 ch cs st)
  obtain st' b where s: "scan_step ch (take 1 cs) st = (st', b)" by force
  have "segs_ok st'" using segs_ok_step [OF "2.prems", of ch "take 1 cs"] s by simp
  with 2 s show ?case by (cases b) simp_all
qed simp

lemma split_segments_ok: "s \<in> set (splitTopLevelCommands c) \<Longrightarrow> seg_ok s"
  using segs_ok_flush [OF segs_ok_loop, of scan0 c]
  by (auto simp: splitTopLevelCommands_def segs_ok_def scan0_def)

text \<open>
  Scanning a text in two parts: a part whose last character cannot join with the next one
  leaves the rest to be scanned from its final state.
\<close>

definition joins :: "char \<Rightarrow> bool" where
  "joins c \<longleftrightarrow> c \<in> {CHR ''&'', CHR ''|'', CHR ''$'', CHR 0x5C}"

lemma scan_step_no_join:
  "\<not> joins ch \<Longrightarrow> scan_step ch nx st = (fst (scan_step ch [] st), False)"
  by (simp add: joins_def scan_step_def step_subst_def step_double_def step_top_def)

lemma scan_loop_append:
  assumes "a = [] \<or> \<not> joins (last a)"
  shows "scan_loop (a @ b) st = scan_loop b (scan_loop a st)"
  using assms
proof (induction a st rule: scan_loop.induct)
  case (2 ch cs st)
  show ?case
  proof (cases cs)
    case Nil
    with "2.prems" have "\<not> joins ch" by simp
    then obtain st' where "\<And>nx. scan_step ch nx st = (st', False)"
      using scan_step_no_join by blast
    with Nil show ?thesis by simp
  next
    case (Cons c ds)
    obtain st' k where s: "scan_step ch (take 1 cs) st = (st', k)" by force
    have "drop 1 cs = [] \<or> \<not> joins (last (drop 1 cs))" "cs = [] \<or> \<not> joins (last cs)"
      using "2.prems" Cons by auto
    with 2 s Cons show ?thesis by (cases k) simp_all
  qed
qed simp

text \<open>The segments already found are never read again.\<close>

definition add_segs :: "string list \<Rightarrow> scan \<Rightarrow> scan" where
  "add_segs ps st = st\<lparr>segs := ps @ segs st\<rparr>"

lemma add_segs_simps [simp]:
  "segs (add_segs ps st) = ps @ segs st" "cur (add_segs ps st) = cur st"
  "depth (add_segs ps st) = depth st" "in_single (add_segs ps st) = in_single st"
  "in_double (add_segs ps st) = in_double st" "in_backtick (add_segs ps st) = in_backtick st"
  by (simp_all add: add_segs_def)

lemma add_segs_commute:
  "push s (add_segs ps st) = add_segs ps (push s st)"
  "flush (add_segs ps st) = add_segs ps (flush st)"
  "(add_segs ps st)\<lparr>depth := d\<rparr> = add_segs ps (st\<lparr>depth := d\<rparr>)"
  "(add_segs ps st)\<lparr>in_single := b\<rparr> = add_segs ps (st\<lparr>in_single := b\<rparr>)"
  "(add_segs ps st)\<lparr>in_double := b\<rparr> = add_segs ps (st\<lparr>in_double := b\<rparr>)"
  "(add_segs ps st)\<lparr>in_backtick := b\<rparr> = add_segs ps (st\<lparr>in_backtick := b\<rparr>)"
  by (simp_all add: add_segs_def push_def flush_def Let_def)

lemma scan_step_prefix:
  "scan_step ch nx (add_segs ps st) = map_prod (add_segs ps) id (scan_step ch nx st)"
  by (simp add: scan_step_def step_subst_def step_double_def step_top_def add_segs_commute)

lemma scan_loop_prefix: "scan_loop cs (add_segs ps st) = add_segs ps (scan_loop cs st)"
proof (induction cs st rule: scan_loop.induct)
  case (2 ch cs st)
  obtain st' b where s: "scan_step ch (take 1 cs) st = (st', b)" by force
  with 2 show ?case by (cases b) (simp_all add: scan_step_prefix)
qed simp

lemma scan_loop_from_clean:
  assumes "top_level st" and "cur st = []"
  shows "segs (flush (scan_loop cs st)) = segs st @ splitTopLevelCommands cs"
proof -
  have "st = add_segs (segs st) scan0"
    using assms by (simp add: add_segs_def scan0_def top_level_def)
  then have "scan_loop cs st = add_segs (segs st) (scan_loop cs scan0)"
    using scan_loop_prefix by metis
  then show ?thesis by (simp add: splitTopLevelCommands_def)
qed

text \<open>Plain text: no character the scanner treats specially.\<close>

definition special :: "char \<Rightarrow> bool" where
  "special c \<longleftrightarrow> c \<in> {squote, dquote, CHR 0x60, CHR ''$'', CHR ''&'', CHR ''|'', CHR '';'', CHR 0x5C}"

lemma scan_plain:
  assumes "top_level st" and "\<forall>c\<in>set a. \<not> special c"
  shows "scan_loop a st = push a st"
  using assms
proof (induction a arbitrary: st)
  case (Cons c a)
  then have "scan_step c (take 1 a) st = (push [c] st, False)"
    by (simp add: scan_step_def step_top_def top_level_def special_def)
  moreover have "scan_loop a (push [c] st) = push a (push [c] st)"
    using Cons by (intro Cons.IH) (auto simp: top_level_def)
  ultimately show ?case by (simp add: push_def)
qed (simp add: push_def)

lemma not_special_joins: "\<not> special c \<Longrightarrow> \<not> joins c"
  by (auto simp: special_def joins_def)

lemma top_level_scan0 [simp]: "top_level scan0"
  by (simp add: top_level_def scan0_def)

end
