(* ===== verification/Statuses.thy ===== *)
theory Statuses
  imports Prelude
begin

text \<open>
  The enumerations of \<open>src/blueprint/core/schema.ts\<close> with their text forms, and the
  transition matrix of \<open>src/blueprint/lifecycle/transition-matrix.ts\<close>.
\<close>

datatype lifecycle_status = Draft | Planned | Parked | In_progress | Completed | Archived

datatype task_status = Todo | T_in_progress | Blocked | Done | Dropped

datatype execution_status = E_pending | E_running | E_blocked | E_completed | E_failed | E_stopped

fun status_str :: "lifecycle_status \<Rightarrow> string" where
  "status_str Draft = ''draft''"
| "status_str Planned = ''planned''"
| "status_str Parked = ''parked''"
| "status_str In_progress = ''in-progress''"
| "status_str Completed = ''completed''"
| "status_str Archived = ''archived''"

fun task_status_str :: "task_status \<Rightarrow> string" where
  "task_status_str Todo = ''todo''"
| "task_status_str T_in_progress = ''in-progress''"
| "task_status_str Blocked = ''blocked''"
| "task_status_str Done = ''done''"
| "task_status_str Dropped = ''dropped''"

fun execution_status_str :: "execution_status \<Rightarrow> string" where
  "execution_status_str E_pending = ''pending''"
| "execution_status_str E_running = ''running''"
| "execution_status_str E_blocked = ''blocked''"
| "execution_status_str E_completed = ''completed''"
| "execution_status_str E_failed = ''failed''"
| "execution_status_str E_stopped = ''stopped''"

text \<open>The options in the order of the \<open>z.enum\<close> declarations.\<close>

definition lifecycle_options :: "lifecycle_status list" where
  "lifecycle_options = [Draft, Planned, Parked, In_progress, Completed, Archived]"

definition task_status_options :: "task_status list" where
  "task_status_options = [Todo, T_in_progress, Blocked, Done, Dropped]"

definition execution_status_options :: "execution_status list" where
  "execution_status_options = [E_pending, E_running, E_blocked, E_completed, E_failed, E_stopped]"

text \<open>\<open>z.enum(...).safeParse\<close>: the option whose text is the input.\<close>

definition parse_enum :: "('a \<Rightarrow> string) \<Rightarrow> 'a list \<Rightarrow> string \<Rightarrow> 'a option" where
  "parse_enum str opts s = find (\<lambda>x. str x = s) opts"

definition parseLifecycleBlueprintStatus :: "string \<Rightarrow> lifecycle_status option" where
  "parseLifecycleBlueprintStatus s = parse_enum status_str lifecycle_options s"

definition parse_task_status :: "string \<Rightarrow> task_status option" where
  "parse_task_status s = parse_enum task_status_str task_status_options s"

definition parse_execution_status :: "string \<Rightarrow> execution_status option" where
  "parse_execution_status s = parse_enum execution_status_str execution_status_options s"

definition legal_transitions :: "lifecycle_status \<Rightarrow> lifecycle_status list" where
  "legal_transitions from = (case from of
     Draft \<Rightarrow> [Planned, Completed, Archived]
   | Planned \<Rightarrow> [In_progress, Completed, Parked, Archived]
   | In_progress \<Rightarrow> [Completed, Parked, Archived]
   | Parked \<Rightarrow> [In_progress, Planned, Archived]
   | Completed \<Rightarrow> [In_progress, Archived]
   | Archived \<Rightarrow> [])"

definition getLegalLifecycleTargets :: "lifecycle_status \<Rightarrow> lifecycle_status list" where
  "getLegalLifecycleTargets from = legal_transitions from"

definition isLegalLifecycleTransition :: "lifecycle_status \<Rightarrow> lifecycle_status \<Rightarrow> bool" where
  "isLegalLifecycleTransition from to \<longleftrightarrow> to \<in> set (getLegalLifecycleTargets from)"

section \<open>Lemmas\<close>

lemma parse_enum_Some: "parse_enum str opts s = Some x \<Longrightarrow> str x = s \<and> x \<in> set opts"
  by (auto simp: parse_enum_def find_Some_iff in_set_conv_nth)

lemma parse_enum_None: "parse_enum str opts s = None \<longleftrightarrow> (\<forall>x\<in>set opts. str x \<noteq> s)"
  by (auto simp: parse_enum_def find_None_iff)

lemma parse_enum_str:
  assumes "inj_on str (set opts)" and "x \<in> set opts"
  shows "parse_enum str opts (str x) = Some x"
proof (cases "parse_enum str opts (str x)")
  case None
  with assms(2) show ?thesis by (auto simp: parse_enum_None)
next
  case (Some y)
  with assms show ?thesis by (auto dest: parse_enum_Some inj_onD)
qed

lemma lifecycle_options_all [simp]: "s \<in> set lifecycle_options"
  by (cases s) (auto simp: lifecycle_options_def)

lemma task_status_options_all [simp]: "s \<in> set task_status_options"
  by (cases s) (auto simp: task_status_options_def)

lemma execution_status_options_all [simp]: "s \<in> set execution_status_options"
  by (cases s) (auto simp: execution_status_options_def)

lemma status_str_inj [simp]: "status_str a = status_str b \<longleftrightarrow> a = b"
  by (cases a; cases b) auto

lemma task_status_str_inj [simp]: "task_status_str a = task_status_str b \<longleftrightarrow> a = b"
  by (cases a; cases b) auto

lemma execution_status_str_inj [simp]: "execution_status_str a = execution_status_str b \<longleftrightarrow> a = b"
  by (cases a; cases b) auto

text \<open>The contract of a text form: printing and parsing are inverse on the options.\<close>

locale enum_codec =
  fixes str :: "'a \<Rightarrow> string" and opts :: "'a list"
  assumes str_inj: "str a = str b \<longleftrightarrow> a = b" and opts_all: "a \<in> set opts"
begin

lemma parse_str: "parse_enum str opts (str a) = Some a"
  by (rule parse_enum_str) (auto intro: inj_onI simp: str_inj opts_all)

lemma parse_iff: "parse_enum str opts s = Some a \<longleftrightarrow> str a = s"
  using parse_str [of a] parse_enum_Some [of str opts s a] by auto

end

interpretation lifecycle_codec: enum_codec status_str lifecycle_options
  by unfold_locales auto

interpretation task_codec: enum_codec task_status_str task_status_options
  by unfold_locales auto

interpretation execution_codec: enum_codec execution_status_str execution_status_options
  by unfold_locales auto

lemma parse_status_iff: "parseLifecycleBlueprintStatus s = Some a \<longleftrightarrow> status_str a = s"
  by (simp add: parseLifecycleBlueprintStatus_def lifecycle_codec.parse_iff)

lemma parse_task_status_iff: "parse_task_status s = Some a \<longleftrightarrow> task_status_str a = s"
  by (simp add: parse_task_status_def task_codec.parse_iff)

lemma parse_execution_status_iff: "parse_execution_status s = Some a \<longleftrightarrow> execution_status_str a = s"
  by (simp add: parse_execution_status_def execution_codec.parse_iff)

end
