(* ===== verification/Json.thy ===== *)
theory Json
  imports Prelude
begin

text \<open>
  JSON values with \<open>JSON.stringify\<close> and \<open>JSON.parse\<close>, and the proof that they are inverse.
  Numbers are exact: an integral number is its value, any other its text.  Objects keep
  their keys in order.  Text is bytes, so an escaped code unit above 127 becomes its UTF-8
  bytes and an escaped surrogate pair the bytes of its code point.
\<close>

datatype json =
    JNull | JBool bool | JNum int | JFrac string | JStr string
  | JArr "json list" | JObj "(string \<times> json) list"

section \<open>Printing\<close>

definition hex_char :: "nat \<Rightarrow> char" where
  "hex_char n = (if n < 10 then char_of (48 + n) else char_of (87 + n))"

definition esc_char :: "char \<Rightarrow> string" where
  "esc_char c =
     (if c = dquote then [backslash, dquote]
      else if c = backslash then [backslash, backslash]
      else if c = CHR 0x08 then [backslash, CHR ''b'']
      else if c = CHR 0x0C then [backslash, CHR ''f'']
      else if c = CHR 0x0A then [backslash, CHR ''n'']
      else if c = CHR 0x0D then [backslash, CHR ''r'']
      else if c = CHR 0x09 then [backslash, CHR ''t'']
      else if (of_char c :: nat) < 32
        then backslash # ''u00'' @ [hex_char (of_char c div 16), hex_char (of_char c mod 16)]
      else [c])"

definition json_quote :: "string \<Rightarrow> string" where
  "json_quote s = dquote # concat (map esc_char s) @ [dquote]"

definition int_str :: "int \<Rightarrow> string" where
  "int_str i = (if i < 0 then CHR ''-'' # nat_str (nat (- i)) else nat_str (nat i))"

fun json_str :: "json \<Rightarrow> string" and elems_str :: "json list \<Rightarrow> string"
  and members_str :: "(string \<times> json) list \<Rightarrow> string" where
  "json_str JNull = ''null''"
| "json_str (JBool b) = (if b then ''true'' else ''false'')"
| "json_str (JNum i) = int_str i"
| "json_str (JFrac t) = t"
| "json_str (JStr s) = json_quote s"
| "json_str (JArr vs) = CHR ''['' # elems_str vs"
| "json_str (JObj ms) = CHR ''{'' # members_str ms"
| "elems_str [] = '']''"
| "elems_str (v # vs) = json_str v @ (case vs of [] \<Rightarrow> '']'' | _ \<Rightarrow> CHR '','' # elems_str vs)"
| "members_str [] = ''}''"
| "members_str ((k, v) # ms) =
     json_quote k @ CHR '':'' # json_str v @ (case ms of [] \<Rightarrow> ''}'' | _ \<Rightarrow> CHR '','' # members_str ms)"

text \<open>\<open>String(v)\<close> of a JSON value.\<close>

fun js_string :: "json \<Rightarrow> string" where
  "js_string JNull = ''null''"
| "js_string (JBool b) = (if b then ''true'' else ''false'')"
| "js_string (JNum i) = int_str i"
| "js_string (JFrac t) = t"
| "js_string (JStr s) = s"
| "js_string (JArr vs) = join_with '','' (map (\<lambda>v. if v = JNull then [] else js_string v) vs)"
| "js_string (JObj ms) = ''[object Object]''"

section \<open>Parsing\<close>

definition hex_val :: "char \<Rightarrow> nat option" where
  "hex_val c =
     (if js_digit c then Some (of_char c - 48)
      else if CHR ''a'' \<le> c \<and> c \<le> CHR ''f'' then Some (of_char c - 87)
      else if CHR ''A'' \<le> c \<and> c \<le> CHR ''F'' then Some (of_char c - 55)
      else None)"

definition hex4 :: "char \<Rightarrow> char \<Rightarrow> char \<Rightarrow> char \<Rightarrow> nat option" where
  "hex4 a b c d =
     (case (hex_val a, hex_val b, hex_val c, hex_val d) of
        (Some w, Some x, Some y, Some z) \<Rightarrow> Some (4096 * w + 256 * x + 16 * y + z)
      | _ \<Rightarrow> None)"

definition simple_escape :: "char \<Rightarrow> char option" where
  "simple_escape c = map_of
     [(dquote, dquote), (backslash, backslash), (CHR ''/'', CHR ''/''), (CHR ''b'', CHR 0x08),
      (CHR ''f'', CHR 0x0C), (CHR ''n'', CHR 0x0A), (CHR ''r'', CHR 0x0D), (CHR ''t'', CHR 0x09)] c"

text \<open>The units of a string literal after its opening quote: plain bytes and \<open>\\uXXXX\<close> units.\<close>

fun scan_units :: "string \<Rightarrow> ((char + nat) list \<times> string) option" where
  "scan_units [] = None"
| "scan_units (c # s) =
     (if c = dquote then Some ([], s)
      else if c = backslash then
        (case s of [] \<Rightarrow> None
         | e # t \<Rightarrow>
             if e = CHR ''u'' then
               (case t of w # x # y # z # t' \<Rightarrow>
                  (case hex4 w x y z of None \<Rightarrow> None
                   | Some n \<Rightarrow> map_option (\<lambda>(us, r). (Inr n # us, r)) (scan_units t'))
                | _ \<Rightarrow> None)
             else (case simple_escape e of None \<Rightarrow> None
                   | Some d \<Rightarrow> map_option (\<lambda>(us, r). (Inl d # us, r)) (scan_units t)))
      else if (of_char c :: nat) < 32 then None
      else map_option (\<lambda>(us, r). (Inl c # us, r)) (scan_units s))"

definition utf8 :: "nat \<Rightarrow> string" where
  "utf8 n =
     (if n < 128 then [char_of n]
      else if n < 2048 then [char_of (192 + n div 64), char_of (128 + n mod 64)]
      else if n < 65536 then
        [char_of (224 + n div 4096), char_of (128 + n div 64 mod 64), char_of (128 + n mod 64)]
      else [char_of (240 + n div 262144), char_of (128 + n div 4096 mod 64),
            char_of (128 + n div 64 mod 64), char_of (128 + n mod 64)])"

fun encode_units :: "(char + nat) list \<Rightarrow> string" where
  "encode_units [] = []"
| "encode_units (Inl c # us) = c # encode_units us"
| "encode_units (Inr n # us) =
     (case us of
        Inr m # us' \<Rightarrow>
          if 55296 \<le> n \<and> n < 56320 \<and> 56320 \<le> m \<and> m < 57344
          then utf8 (65536 + 1024 * (n - 55296) + (m - 56320)) @ encode_units us'
          else utf8 n @ encode_units us
      | _ \<Rightarrow> utf8 n @ encode_units us)"

definition scan_string :: "string \<Rightarrow> (string \<times> string) option" where
  "scan_string s = map_option (\<lambda>(us, r). (encode_units us, r)) (scan_units s)"

text \<open>A number from its sign, integer digits, fraction digits and exponent.\<close>

definition number_of :: "string \<Rightarrow> bool \<Rightarrow> string \<Rightarrow> string \<Rightarrow> int \<Rightarrow> json" where
  "number_of txt neg ip fp e =
     (let m = (if neg then - int (dec_val (ip @ fp)) else int (dec_val (ip @ fp)));
          k = e - int (length fp)
      in if 0 \<le> k then JNum (m * 10 ^ nat k)
         else if 10 ^ nat (- k) dvd m then JNum (m div 10 ^ nat (- k))
         else JFrac txt)"

definition scan_fraction :: "string \<Rightarrow> (string \<times> string) option" where
  "scan_fraction s =
     (case s of [] \<Rightarrow> Some ([], s)
      | c # t \<Rightarrow>
          if c \<noteq> CHR ''.'' then Some ([], s)
          else if takeWhile js_digit t = [] then None
          else Some (takeWhile js_digit t, dropWhile js_digit t))"

definition scan_exponent :: "string \<Rightarrow> (int \<times> string) option" where
  "scan_exponent s =
     (case s of [] \<Rightarrow> Some (0, s)
      | c # t \<Rightarrow>
          if c \<noteq> CHR ''e'' \<and> c \<noteq> CHR ''E'' then Some (0, s)
          else
            (let neg = (t \<noteq> [] \<and> hd t = CHR ''-'');
                 u = (if t \<noteq> [] \<and> (hd t = CHR ''-'' \<or> hd t = CHR ''+'') then tl t else t);
                 n = int (dec_val (takeWhile js_digit u))
             in if takeWhile js_digit u = [] then None
                else Some (if neg then - n else n, dropWhile js_digit u)))"

definition scan_digits :: "string \<Rightarrow> string \<times> string" where
  "scan_digits s = (takeWhile js_digit s, dropWhile js_digit s)"

definition scan_number :: "string \<Rightarrow> (json \<times> string) option" where
  "scan_number s =
     (let neg = (s \<noteq> [] \<and> hd s = CHR ''-'');
          ip = fst (scan_digits (if neg then tl s else s));
          r = snd (scan_digits (if neg then tl s else s))
      in if ip = [] \<or> (hd ip = CHR ''0'' \<and> length ip > 1) then None
         else (case scan_fraction r of None \<Rightarrow> None
               | Some (fp, r1) \<Rightarrow>
                   (case scan_exponent r1 of None \<Rightarrow> None
                    | Some (e, r2) \<Rightarrow>
                        Some (number_of (take (length s - length r2) s) neg ip fp e, r2))))"

definition json_ws :: "char \<Rightarrow> bool" where
  "json_ws c \<longleftrightarrow> c \<in> {CHR 0x09, CHR 0x0A, CHR 0x0D, CHR 0x20}"

definition skip_ws :: "string \<Rightarrow> string" where
  "skip_ws s = dropWhile json_ws s"

definition scan_word :: "string \<Rightarrow> json \<Rightarrow> string \<Rightarrow> (json \<times> string) option" where
  "scan_word w v s = (if prefix w s then Some (v, drop (length w) s) else None)"

text \<open>
  The recursive-descent parser.  The fuel bounds the calls: each consumes a character or is
  followed by one that does, so twice the length of the text, plus two, is enough.
\<close>

fun scan_value :: "nat \<Rightarrow> string \<Rightarrow> (json \<times> string) option"
  and scan_elems :: "nat \<Rightarrow> string \<Rightarrow> (json list \<times> string) option"
  and scan_members :: "nat \<Rightarrow> string \<Rightarrow> ((string \<times> json) list \<times> string) option" where
  "scan_value 0 s = None"
| "scan_value (Suc n) s =
     (case skip_ws s of [] \<Rightarrow> None
      | c # t \<Rightarrow>
          if c = dquote then map_option (\<lambda>(x, r). (JStr x, r)) (scan_string t)
          else if c = CHR ''['' then
            (case skip_ws t of [] \<Rightarrow> None
             | d # u \<Rightarrow> if d = CHR '']'' then Some (JArr [], u)
                        else map_option (\<lambda>(vs, r). (JArr vs, r)) (scan_elems n (d # u)))
          else if c = CHR ''{'' then
            (case skip_ws t of [] \<Rightarrow> None
             | d # u \<Rightarrow> if d = CHR ''}'' then Some (JObj [], u)
                        else map_option (\<lambda>(ms, r). (JObj (map_from ms), r)) (scan_members n (d # u)))
          else if c = CHR ''n'' then scan_word ''null'' JNull (c # t)
          else if c = CHR ''t'' then scan_word ''true'' (JBool True) (c # t)
          else if c = CHR ''f'' then scan_word ''false'' (JBool False) (c # t)
          else scan_number (c # t))"
| "scan_elems 0 s = None"
| "scan_elems (Suc n) s =
     (case scan_value n s of None \<Rightarrow> None
      | Some (v, r) \<Rightarrow>
          (case skip_ws r of [] \<Rightarrow> None
           | d # u \<Rightarrow>
               if d = CHR '']'' then Some ([v], u)
               else if d = CHR '','' then map_option (\<lambda>(vs, r'). (v # vs, r')) (scan_elems n u)
               else None))"
| "scan_members 0 s = None"
| "scan_members (Suc n) s =
     (case skip_ws s of [] \<Rightarrow> None
      | c # t \<Rightarrow>
          if c \<noteq> dquote then None
          else (case scan_string t of None \<Rightarrow> None
                | Some (k, r) \<Rightarrow>
                    (case skip_ws r of [] \<Rightarrow> None
                     | d # u \<Rightarrow>
                         if d \<noteq> CHR '':'' then None
                         else (case scan_value n u of None \<Rightarrow> None
                               | Some (v, r') \<Rightarrow>
                                   (case skip_ws r' of [] \<Rightarrow> None
                                    | e # w \<Rightarrow>
                                        if e = CHR ''}'' then Some ([(k, v)], w)
                                        else if e = CHR '','' then
                                          map_option (\<lambda>(ms, r''). ((k, v) # ms, r'')) (scan_members n w)
                                        else None)))))"

text \<open>\<open>JSON.parse\<close>; \<open>None\<close> is the \<open>SyntaxError\<close>.\<close>

definition json_parse :: "string \<Rightarrow> json option" where
  "json_parse s =
     (case scan_value (2 * length s + 2) s of None \<Rightarrow> None
      | Some (v, r) \<Rightarrow> if skip_ws r = [] then Some v else None)"

section \<open>Round trip\<close>

lemma dec_val_snoc: "dec_val (s @ [c]) = 10 * dec_val s + digit_val c"
  by (simp add: dec_val_def)

lemma digit_char: "n < 10 \<Longrightarrow> js_digit (char_of (48 + n :: nat))"
proof -
  assume "n < 10"
  then have "n \<in> {0, 1, 2, 3, 4, 5, 6, 7, 8, 9}" by auto
  then show ?thesis by (elim insertE emptyE; simp only:; code_simp)
qed

lemma digit_val_char: "n < 10 \<Longrightarrow> digit_val (char_of (48 + n :: nat)) = n"
  by (simp add: digit_val_def)

lemma nat_str_digits: "\<forall>c\<in>set (nat_str n). js_digit c"
proof (induction n rule: nat_str.induct)
  case (1 n)
  show ?case by (subst nat_str.simps) (use 1 in \<open>auto simp: digit_char\<close>)
qed

lemma nat_str_not_Nil [simp]: "nat_str n \<noteq> []"
  by (subst nat_str.simps) simp

lemma dec_val_nat_str [simp]: "dec_val (nat_str n) = n"
proof (induction n rule: nat_str.induct)
  case (1 n)
  show ?case
    by (subst nat_str.simps) (use 1 in \<open>auto simp: dec_val_snoc digit_val_char dec_val_def [of "[_]"]\<close>)
qed

lemma char_zero_iff: "n < 10 \<Longrightarrow> char_of (48 + n :: nat) = CHR ''0'' \<longleftrightarrow> n = 0"
proof
  assume n: "n < 10" and "char_of (48 + n :: nat) = CHR ''0''"
  then have "digit_val (char_of (48 + n)) = digit_val (CHR ''0'')" by simp
  with n show "n = 0" by (simp only: digit_val_char) (simp add: digit_val_def)
next
  assume "n = 0"
  then show "char_of (48 + n :: nat) = CHR ''0''" by (simp only:) code_simp
qed

lemma nat_str_leading: "hd (nat_str n) = CHR ''0'' \<Longrightarrow> length (nat_str n) = 1"
proof (induction n rule: nat_str.induct)
  case (1 n)
  show ?case
  proof (cases "n < 10")
    case True
    then show ?thesis by (subst nat_str.simps) simp
  next
    case False
    then have eq: "nat_str n = nat_str (n div 10) @ [char_of (48 + n mod 10)]"
      by (subst nat_str.simps) simp
    with "1.prems" have z: "hd (nat_str (n div 10)) = CHR ''0''" by simp
    then have "length (nat_str (n div 10)) = 1" using "1.IH" False by simp
    then have "dec_val (nat_str (n div 10)) = 0"
      using z by (cases "nat_str (n div 10)") (auto simp: dec_val_def digit_val_def)
    with False show ?thesis by simp
  qed
qed

definition ends_number :: "string \<Rightarrow> bool" where
  "ends_number r \<longleftrightarrow>
     (case r of [] \<Rightarrow> True
      | c # _ \<Rightarrow> \<not> js_digit c \<and> c \<noteq> CHR ''.'' \<and> c \<noteq> CHR ''e'' \<and> c \<noteq> CHR ''E'')"

lemma scan_digits_append:
  "\<forall>c\<in>set s. js_digit c \<Longrightarrow> ends_number r \<Longrightarrow> scan_digits (s @ r) = (s, r)"
  unfolding scan_digits_def by (induction s) (auto simp: ends_number_def split: list.splits)

lemma digit_not_minus: "js_digit c \<Longrightarrow> c \<noteq> CHR ''-''"
  by (auto simp: js_digit_def less_eq_char_def)

lemma hd_nat_str: "js_digit (hd (nat_str n))"
  using nat_str_digits [of n] by (metis hd_in_set nat_str_not_Nil)

lemma scan_int:
  assumes "ends_number r"
  shows "scan_number (int_str i @ r) = Some (JNum i, r)"
proof -
  have frac: "scan_fraction r = Some ([], r)"
    and ex: "scan_exponent r = Some (0, r)"
    using assms by (auto simp: ends_number_def scan_fraction_def scan_exponent_def split: list.splits)
  have num: "\<not> (nat_str n = [] \<or> hd (nat_str n) = CHR ''0'' \<and> length (nat_str n) > 1)" for n
    using nat_str_leading [of n] by auto
  show ?thesis
  proof (cases "i < 0")
    case True
    then show ?thesis
      using num [of "nat (- i)"] nat_str_digits [of "nat (- i)"] assms
      by (simp add: scan_number_def int_str_def scan_digits_append frac ex number_of_def Let_def)
  next
    case False
    moreover have "hd (nat_str (nat i) @ r) \<noteq> CHR ''-''"
      using hd_nat_str [of "nat i"] digit_not_minus by simp
    ultimately show ?thesis
      using num [of "nat i"] nat_str_digits [of "nat i"] assms
      by (simp add: scan_number_def int_str_def scan_digits_append frac ex number_of_def Let_def)
  qed
qed

definition unit_of :: "char \<Rightarrow> char + nat" where
  "unit_of c =
     (if (of_char c :: nat) < 32 \<and> c \<notin> {CHR 0x08, CHR 0x0C, CHR 0x0A, CHR 0x0D, CHR 0x09}
      then Inr (of_char c) else Inl c)"

lemma hex_val_char: "n < 16 \<Longrightarrow> hex_val (hex_char n) = Some n"
proof -
  assume "n < 16"
  then have "n \<in> {0, 1, 2, 3, 4, 5, 6, 7, 8, 9, 10, 11, 12, 13, 14, 15}" unfolding insert_iff empty_iff by presburger
  then show ?thesis by (elim insertE emptyE; simp only:; code_simp)
qed

lemma hex4_control:
  "n < 32 \<Longrightarrow> hex4 (CHR ''0'') (CHR ''0'') (hex_char (n div 16)) (hex_char (n mod 16)) = Some n"
proof -
  have z: "hex_val (CHR ''0'') = Some 0" by code_simp
  assume "n < 32"
  then have "n div 16 < 16" by simp
  then show ?thesis by (simp add: hex4_def z hex_val_char)
qed

lemma scan_esc_char:
  "scan_units (esc_char c @ s) = map_option (\<lambda>(us, r). (unit_of c # us, r)) (scan_units s)"
proof -
  have one: "scan_units ([backslash, e] @ s) = map_option (\<lambda>(us, r). (Inl d # us, r)) (scan_units s)"
    if "e \<noteq> CHR ''u''" and "simple_escape e = Some d" for e d
    using that by simp
  note esc = simple_escape_def esc_char_def unit_of_def
  consider "c = dquote" | "c = backslash" | "c = CHR 0x08" | "c = CHR 0x0C" | "c = CHR 0x0A"
    | "c = CHR 0x0D" | "c = CHR 0x09"
    | "(of_char c :: nat) < 32" "c \<notin> {dquote, backslash, CHR 0x08, CHR 0x0C, CHR 0x0A, CHR 0x0D, CHR 0x09}"
    | "\<not> (of_char c :: nat) < 32" "c \<notin> {dquote, backslash, CHR 0x08, CHR 0x0C, CHR 0x0A, CHR 0x0D, CHR 0x09}"
    by blast
  then show ?thesis
  proof cases
    case 8
    then have "esc_char c = backslash # ''u00'' @ [hex_char (of_char c div 16), hex_char (of_char c mod 16)]"
      by (simp add: esc_char_def)
    with 8 show ?thesis by (simp add: hex4_control unit_of_def)
  next
    case 9
    then show ?thesis by (simp add: esc)
  qed (simp_all add: esc)
qed

lemma scan_units_quote:
  "scan_units (concat (map esc_char s) @ dquote # r) = Some (map unit_of s, r)"
  by (induction s) (simp_all add: scan_esc_char)

lemma utf8_ascii: "n < 128 \<Longrightarrow> utf8 n = [char_of n]"
  by (simp add: utf8_def)

lemma encode_map_unit: "encode_units (map unit_of s) = s"
proof (induction s)
  case (Cons c s)
  show ?case
  proof (cases "unit_of c")
    case (Inl d)
    then have "d = c" by (auto simp: unit_of_def split: if_splits)
    with Inl Cons show ?thesis by simp
  next
    case (Inr n)
    then have n: "n = of_char c" "n < 32" by (auto simp: unit_of_def split: if_splits)
    then have "encode_units (Inr n # map unit_of s) = utf8 n @ encode_units (map unit_of s)"
      by (auto split: list.splits sum.splits)
    with n Inr Cons show ?thesis by (simp add: utf8_ascii)
  qed
qed simp

lemma scan_string_quote: "scan_string (concat (map esc_char s) @ dquote # r) = Some (s, r)"
  by (simp add: scan_string_def scan_units_quote encode_map_unit)

lemma json_ws_simps [simp]:
  "\<not> json_ws (CHR '','')" "\<not> json_ws (CHR '']'')" "\<not> json_ws (CHR ''}'')" "\<not> json_ws (CHR '':'')"
  "\<not> json_ws (CHR ''['')" "\<not> json_ws (CHR ''{'')" "\<not> json_ws dquote"
  by (auto simp: json_ws_def)

text \<open>The values that have a text of their own: integral numbers, distinct keys.\<close>

fun json_ok :: "json \<Rightarrow> bool" where
  "json_ok (JFrac t) = False"
| "json_ok (JArr vs) = (\<forall>v\<in>set vs. json_ok v)"
| "json_ok (JObj ms) = (distinct (map fst ms) \<and> (\<forall>m\<in>set ms. json_ok (snd m)))"
| "json_ok _ = True"

definition plain_start :: "string \<Rightarrow> bool" where
  "plain_start s \<longleftrightarrow> (\<exists>c t. s = c # t \<and> \<not> json_ws c \<and> c \<noteq> CHR '']'')"

lemma plain_start_simps [simp]:
  "plain_start (c # t) \<longleftrightarrow> \<not> json_ws c \<and> c \<noteq> CHR '']''"
  by (auto simp: plain_start_def)

lemma digit_plain: "js_digit c \<Longrightarrow> \<not> json_ws c \<and> c \<notin> {dquote, CHR ''['', CHR '']'', CHR ''{'', CHR ''n'', CHR ''t'', CHR ''f''}"
  by (auto simp: js_digit_def json_ws_def less_eq_char_def)

lemma int_str_start:
  "\<exists>c t. int_str i = c # t \<and> \<not> json_ws c
     \<and> c \<notin> {dquote, CHR ''['', CHR '']'', CHR ''{'', CHR ''n'', CHR ''t'', CHR ''f''}"
proof (cases "i < 0")
  case True
  then show ?thesis by (simp add: int_str_def json_ws_def)
next
  case False
  obtain c t where ct: "nat_str (nat i) = c # t"
    using nat_str_not_Nil by (cases "nat_str (nat i)") auto
  with hd_nat_str [of "nat i"] have "js_digit c" by simp
  with digit_plain False ct show ?thesis by (auto simp: int_str_def)
qed

lemma json_str_start: "json_ok v \<Longrightarrow> plain_start (json_str v)"
proof (cases v)
  case (JNum i)
  with int_str_start [of i] show ?thesis by auto
qed (auto simp: json_quote_def json_ws_def)

lemma skip_ws_plain: "plain_start s \<Longrightarrow> skip_ws (s @ r) = s @ r"
  by (auto simp: plain_start_def skip_ws_def)

lemma skip_ws_Cons [simp]: "\<not> json_ws c \<Longrightarrow> skip_ws (c # s) = c # s"
  by (simp add: skip_ws_def)

lemma map_from_distinct: "distinct (map fst ms) \<Longrightarrow> map_from ms = ms"
proof -
  have "foldl (\<lambda>m (k, v). map_set k v m) acc ms = acc @ ms" if "distinct (map fst (acc @ ms))" for acc
    using that
  proof (induction ms arbitrary: acc)
    case (Cons e ms)
    obtain k v where e: "e = (k, v)" by force
    with Cons.prems have "map_set k v acc = acc @ [(k, v)]"
      by (auto simp: map_set_def) (induction acc; auto)
    with Cons e show ?case by simp
  qed simp
  from this [of "[]"] show "distinct (map fst ms) \<Longrightarrow> map_from ms = ms" by (simp add: map_from_def)
qed

lemma ends_number_simps [simp]:
  "ends_number (CHR '','' # r)" "ends_number (CHR '']'' # r)" "ends_number (CHR ''}'' # r)"
  by (auto simp: ends_number_def js_digit_def less_eq_char_def)

text \<open>The parser reads back what the printer wrote, whatever follows it.\<close>

lemma scan_value_num: "scan_value (Suc n) (int_str i @ r) = scan_number (int_str i @ r)"
proof -
  obtain c t where "int_str i = c # t" "\<not> json_ws c"
    "c \<notin> {dquote, CHR ''['', CHR '']'', CHR ''{'', CHR ''n'', CHR ''t'', CHR ''f''}"
    using int_str_start by blast
  then show ?thesis by simp
qed

lemma scan_round_trip:
  "json_ok v \<Longrightarrow> 2 * length (json_str v) < n \<Longrightarrow> ends_number r
     \<Longrightarrow> scan_value n (json_str v @ r) = Some (v, r)"
  "\<forall>v\<in>set vs. json_ok v \<Longrightarrow> vs \<noteq> [] \<Longrightarrow> 2 * length (elems_str vs) < n
     \<Longrightarrow> scan_elems n (elems_str vs @ r) = Some (vs, r)"
  "\<forall>m\<in>set ms. json_ok (snd m) \<Longrightarrow> ms \<noteq> [] \<Longrightarrow> 2 * length (members_str ms) < n
     \<Longrightarrow> scan_members n (members_str ms @ r) = Some (ms, r)"
proof (induction v and vs and ms arbitrary: n r and n r and n r rule: json_str_elems_str_members_str.induct)
  case 1
  then obtain m where "n = Suc m" by (cases n) auto
  then show ?case by (simp add: scan_word_def json_ws_def)
next
  case (2 b)
  then obtain m where "n = Suc m" by (cases n) auto
  then show ?case by (simp add: scan_word_def json_ws_def)
next
  case (3 i)
  then obtain m where m: "n = Suc m" by (cases n) auto
  show ?case unfolding m json_str.simps scan_value_num using 3 by (simp add: scan_int)
next
  case (5 s)
  then obtain m where "n = Suc m" by (cases n) auto
  then show ?case by (simp add: json_quote_def scan_string_quote)
next
  case (6 vs)
  then obtain m where m: "n = Suc m" by (cases n) auto
  show ?case
  proof (cases vs)
    case Nil
    with m show ?thesis by simp
  next
    case (Cons w ws)
    with 6 have "scan_elems m (elems_str vs @ r) = Some (vs, r)" by (simp add: m)
    moreover have "plain_start (elems_str vs @ r)"
      using json_str_start [of w] 6 Cons by (auto simp: plain_start_def)
    then obtain d u where "elems_str vs @ r = d # u" "\<not> json_ws d" "d \<noteq> CHR '']''"
      by (auto simp: plain_start_def)
    ultimately show ?thesis by (simp add: m)
  qed
next
  case (7 ms)
  then obtain m where m: "n = Suc m" by (cases n) auto
  show ?case
  proof (cases ms)
    case Nil
    with m show ?thesis by simp
  next
    case (Cons w ws)
    with 7 have "scan_members m (members_str ms @ r) = Some (ms, r)" by (simp add: m)
    moreover obtain u where "members_str ms @ r = dquote # u"
      using Cons by (cases w) (simp add: json_quote_def)
    ultimately show ?thesis using 7 by (simp add: m map_from_distinct)
  qed
next
  case (9 v vs)
  then obtain m where m: "n = Suc m" by (cases n) auto
  show ?case
  proof (cases vs)
    case Nil
    with 9 show ?thesis by (simp add: m)
  next
    case (Cons w ws)
    with 9 show ?thesis by (simp add: m)
  qed
next
  case (11 k v ms)
  then obtain m where m: "n = Suc m" by (cases n) auto
  have str: "scan_string (concat (map esc_char k) @ dquote # t) = Some (k, t)" for t
    by (rule scan_string_quote)
  show ?case
  proof (cases ms)
    case Nil
    with 11 str show ?thesis by (simp add: m json_quote_def)
  next
    case (Cons w ws)
    with 11 str show ?thesis by (simp add: m json_quote_def)
  qed
qed simp_all

theorem json_parse_str: "json_ok v \<Longrightarrow> json_parse (json_str v) = Some v"
  using scan_round_trip(1) [of v "2 * length (json_str v) + 2" "[]"]
  by (simp add: json_parse_def skip_ws_def ends_number_def)

end
