(* ===== verification/HookTypes.thy ===== *)
theory HookTypes
  imports Json
begin

text \<open>
  The tool input the hooks receive and the results of the validators
  (\<open>src/hooks/shared/types.ts\<close>, \<open>validators/skip-result.ts\<close>).
\<close>

record tool_input =
  session_id :: "string option"
  transcript_path :: "string option"
  input_cwd :: "string option"
  hook_event_name :: "string option"
  tool_name :: "string option"
  tool_args :: "(string, json) js_map option"   \<comment> \<open>\<open>tool_input\<close>\<close>

record validation_result =
  validator :: string
  passed :: bool
  message :: "string option"
  skipped :: "bool option"
  skipReason :: "string option"

definition mk_result :: "string \<Rightarrow> bool \<Rightarrow> string option \<Rightarrow> validation_result" where
  "mk_result v p m = \<lparr>validator = v, passed = p, message = m, skipped = None, skipReason = None\<rparr>"

definition createSkipResult :: "string \<Rightarrow> string \<Rightarrow> validation_result" where
  "createSkipResult v reason =
     \<lparr>validator = v, passed = True, message = None, skipped = Some True, skipReason = Some reason\<rparr>"

definition default_skip_reason :: string where
  "default_skip_reason =
     ''Bypass enabled via FORBIDDEN_COMMANDS_SKIP=1 '' @ em_dash_str
     @ '' exceptional cases only; restore guardrails immediately after the bypass run''"

text \<open>\<open>input.tool_input || {}\<close>\<close>

definition args_of :: "tool_input \<Rightarrow> (string, json) js_map" where
  "args_of i = (case tool_args i of None \<Rightarrow> [] | Some m \<Rightarrow> m)"

definition isBashInput :: "tool_input \<Rightarrow> bool" where
  "isBashInput i \<longleftrightarrow> map_has (args_of i) ''command''"

definition isFileEditInput :: "tool_input \<Rightarrow> bool" where
  "isFileEditInput i \<longleftrightarrow>
     map_has (args_of i) ''file_path'' \<and> map_has (args_of i) ''old_string''
     \<and> map_has (args_of i) ''new_string''"

definition isFileWriteInput :: "tool_input \<Rightarrow> bool" where
  "isFileWriteInput i \<longleftrightarrow> map_has (args_of i) ''file_path'' \<and> map_has (args_of i) ''content''"

definition isFileReadInput :: "tool_input \<Rightarrow> bool" where
  "isFileReadInput i \<longleftrightarrow>
     map_has (args_of i) ''file_path'' \<and> \<not> map_has (args_of i) ''content''
     \<and> \<not> map_has (args_of i) ''old_string''"

definition str_arg :: "tool_input \<Rightarrow> string \<Rightarrow> string option" where
  "str_arg i k = (case map_get (args_of i) k of Some (JStr s) \<Rightarrow> Some s | _ \<Rightarrow> None)"

definition getFilePath :: "tool_input \<Rightarrow> string option" where
  "getFilePath i = str_arg i ''file_path''"

definition getCommand :: "tool_input \<Rightarrow> string option" where
  "getCommand i = (if isBashInput i then str_arg i ''command'' else None)"

definition getContent :: "tool_input \<Rightarrow> string option" where
  "getContent i = (case str_arg i ''content'' of Some s \<Rightarrow> Some s | None \<Rightarrow> str_arg i ''new_string'')"

text \<open>The input of a shell tool call with the given command.\<close>

definition bash_input :: "string \<Rightarrow> tool_input" where
  "bash_input cmd =
     \<lparr>session_id = None, transcript_path = None, input_cwd = None, hook_event_name = None,
      tool_name = Some ''Bash'', tool_args = Some [(''command'', JStr cmd)]\<rparr>"

section \<open>Lemmas\<close>

lemma getCommand_Some_bash: "getCommand i = Some c \<Longrightarrow> isBashInput i"
  by (auto simp: getCommand_def split: if_splits)

lemma getCommand_bash_input [simp]: "getCommand (bash_input c) = Some c"
  by (simp add: getCommand_def isBashInput_def bash_input_def args_of_def str_arg_def map_has_iff
      map_get_def)

lemma isBashInput_bash_input [simp]: "isBashInput (bash_input c)"
  by (simp add: isBashInput_def bash_input_def args_of_def map_has_iff map_get_def)

lemma passed_skip [simp]: "passed (createSkipResult v r)"
  by (simp add: createSkipResult_def)

lemma passed_mk_result [simp]: "passed (mk_result v p m) = p"
  by (simp add: mk_result_def)

end
