(* ===== verification/GuardRules.thy ===== *)
theory GuardRules
  imports ShellSplit Statuses HookTypes
begin

text \<open>
  The rule table of \<open>forbidden-commands.ts\<close> and the redirect message of
  \<open>mcp-redirect.ts\<close>.  A rule holds its pattern itself; \<open>escapeRegex\<close> followed by the
  compilation of the escaped text is the literal pattern \<open>lit\<close>.
\<close>

datatype command_category =
    C_test | C_lint | C_typecheck | C_format | C_blueprint | C_e2e | C_unknown

datatype runner_kind = R_exec | R_direct | R_bare

record command_rule =
  pattern :: regex
  category :: command_category
  suggestion :: string

record tool_spec =
  tool :: string
  t_category :: command_category
  t_suggestion :: string
  runners :: "runner_kind list"

record script_spec =
  script :: string
  s_category :: command_category
  s_suggestion :: string

record module_spec =
  modulePath :: string
  m_category :: command_category
  m_suggestion :: string

definition DB_HINT :: string where
  "DB_HINT = ''Use the database MCP/tooling entrypoint instead of direct CLI execution''"

definition BLUEPRINT_HINT :: string where
  "BLUEPRINT_HINT = ''wp blueprint new|list|audit '' @ em_dash_str
     @ '' use wp_blueprint MCP tool for lifecycle transitions''"

definition LINT_BASE :: string where
  "LINT_BASE = ''wp_lint MCP tool with package/file scope''"

definition LINT_HINT :: string where
  "LINT_HINT = LINT_BASE @ '' [--fix] [--fix-unsafe]''"

definition FORMAT_HINT :: string where "FORMAT_HINT = ''wp_format MCP tool''"
definition QA_HINT :: string where "QA_HINT = ''wp_qa MCP tool''"
definition TEST_HINT :: string where "TEST_HINT = ''wp_test MCP tool with package/file scope''"
definition MUTATION_HINT :: string where "MUTATION_HINT = ''wp_test mutation workflow''"
definition TYPECHECK_HINT :: string where
  "TYPECHECK_HINT = ''wp_typecheck MCP tool with package/file scope''"
definition E2E_HINT :: string where "E2E_HINT = ''wp_e2e MCP tool''"
definition ENV_HINT :: string where
  "ENV_HINT = ''Use the repo-approved environment wrapper for secret-bearing commands''"
definition TASK_TARGET_HINT :: string where
  "TASK_TARGET_HINT = ''Use the repo-approved vp facade or MCP tool instead of raw execution''"

definition EXEC_RUNNERS :: "string list" where
  "EXEC_RUNNERS = [''vp exec'', ''pnpm exec'', ''npm exec'', ''npm exec --'', ''npx'', ''pnpx'',
     ''yarn exec'', ''yarn dlx'', ''bunx'']"

definition DIRECT_RUNNERS :: "string list" where
  "DIRECT_RUNNERS = [''vp'', ''pnpm'', ''yarn'', ''yarnpkg'']"

definition SCRIPT_RUNNERS :: "string list" where
  "SCRIPT_RUNNERS = [''vp run'', ''vp'', ''pnpm'', ''pnpm run'', ''just'']"

definition all_runners :: "runner_kind list" where
  "all_runners = [R_exec, R_direct, R_bare]"

definition mk_tool :: "string \<Rightarrow> command_category \<Rightarrow> string \<Rightarrow> runner_kind list \<Rightarrow> tool_spec" where
  "mk_tool t c s rs = \<lparr>tool = t, t_category = c, t_suggestion = s, runners = rs\<rparr>"

definition BLOCKED_TOOLS :: "tool_spec list" where
  "BLOCKED_TOOLS =
    [mk_tool ''drizzle-kit'' C_unknown DB_HINT all_runners,
     mk_tool ''vitest'' C_test TEST_HINT all_runners,
     mk_tool ''oxlint'' C_lint LINT_HINT all_runners,
     mk_tool ''oxfmt'' C_lint FORMAT_HINT all_runners,
     mk_tool ''prettier'' C_format FORMAT_HINT all_runners,
     mk_tool ''stryker'' C_test MUTATION_HINT [R_exec, R_bare],
     mk_tool ''tsc'' C_typecheck TYPECHECK_HINT all_runners,
     mk_tool ''tsgo'' C_typecheck TYPECHECK_HINT all_runners]"

definition BLOCKED_SCRIPTS :: "script_spec list" where
  "BLOCKED_SCRIPTS =
    [\<lparr>script = ''test'', s_category = C_test, s_suggestion = TEST_HINT\<rparr>,
     \<lparr>script = ''lint'', s_category = C_lint, s_suggestion = LINT_HINT\<rparr>,
     \<lparr>script = ''typecheck'', s_category = C_typecheck, s_suggestion = TYPECHECK_HINT\<rparr>,
     \<lparr>script = ''e2e'', s_category = C_e2e, s_suggestion = E2E_HINT\<rparr>,
     \<lparr>script = ''qa'', s_category = C_unknown, s_suggestion = QA_HINT\<rparr>]"

definition BLOCKED_RAW_NODE_MODULE_TOOLS :: "module_spec list" where
  "BLOCKED_RAW_NODE_MODULE_TOOLS =
    [\<lparr>modulePath = ''vitest/vitest.mjs'', m_category = C_test, m_suggestion = TEST_HINT\<rparr>,
     \<lparr>modulePath = ''typescript/bin/tsc'', m_category = C_typecheck, m_suggestion = TYPECHECK_HINT\<rparr>,
     \<lparr>modulePath = ''oxlint/bin/oxlint'', m_category = C_lint, m_suggestion = LINT_HINT\<rparr>]"

text \<open>\<open>^<prefix> <tool>(\\s|$)\<close>\<close>

definition buildToolPattern :: "string \<Rightarrow> string \<Rightarrow> regex" where
  "buildToolPattern pre t =
     Seq StartText (Seq (lit (if pre \<noteq> [] then pre @ '' '' @ t else t)) (Grp 1 (Alt ws EndText)))"

text \<open>\<open>^node\\s+(?:\\.\\/)?node_modules\\/<modulePath>(?:\\s|$)\<close>\<close>

definition buildRawNodeModulesToolPattern :: "string \<Rightarrow> regex" where
  "buildRawNodeModulesToolPattern p =
     sq [StartText, lit ''node'', plus ws, opt (lit ''./''), lit ''node_modules/'', lit p,
         Alt ws EndText]"

text \<open>\<open>(draft|planned|in-progress|parked|completed|archived)\<close>\<close>

definition lifecycle_dirs :: regex where
  "lifecycle_dirs = Grp 1 (alts [lit ''draft'', lit ''planned'', lit ''in-progress'', lit ''parked'',
     lit ''completed'', lit ''archived''])"

definition mk_rule :: "regex \<Rightarrow> command_category \<Rightarrow> string \<Rightarrow> command_rule" where
  "mk_rule p c s = \<lparr>pattern = p, category = c, suggestion = s\<rparr>"

definition BLUEPRINT_GIT_MV_RULE :: command_rule where
  "BLUEPRINT_GIT_MV_RULE =
     mk_rule (sq [StartText, lit ''git'', plus ws, lit ''mv'', WordBd]) C_blueprint BLUEPRINT_HINT"

definition tool_rules :: "tool_spec \<Rightarrow> command_rule list" where
  "tool_rules spec =
     (let rule = (\<lambda>runner. mk_rule (buildToolPattern runner (tool spec)) (t_category spec)
                             (t_suggestion spec))
      in (if R_exec \<in> set (runners spec) then map rule EXEC_RUNNERS else [])
         @ (if R_direct \<in> set (runners spec) then map rule DIRECT_RUNNERS else [])
         @ (if R_bare \<in> set (runners spec) then [rule []] else []))"

definition script_rules :: "script_spec \<Rightarrow> command_rule list" where
  "script_rules spec =
     map (\<lambda>runner. mk_rule (buildToolPattern runner (script spec)) (s_category spec) (s_suggestion spec))
       SCRIPT_RUNNERS"

definition module_rule :: "module_spec \<Rightarrow> command_rule" where
  "module_rule spec =
     mk_rule (buildRawNodeModulesToolPattern (modulePath spec)) (m_category spec) (m_suggestion spec)"

definition fixed_rules :: "command_rule list" where
  "fixed_rules =
    [mk_rule (sq [StartText, lit ''vp exec markdownlint-cli2'', WordBd]) C_unknown QA_HINT,
     mk_rule (sq [StartText, lit ''markdownlint-cli2'', WordBd]) C_unknown QA_HINT,
     mk_rule (sq [StartText, lit ''mv'', WordBd, star dot, lit ''blueprints/'', lifecycle_dirs])
       C_blueprint BLUEPRINT_HINT,
     mk_rule (sq [StartText, lit ''mkdir'', WordBd, star dot, lit ''blueprints/'', lifecycle_dirs])
       C_blueprint BLUEPRINT_HINT,
     mk_rule (sq [StartText, lit ''doppler run'']) C_unknown ENV_HINT,
     mk_rule (sq [StartText, lit ''DATABASE_URL='']) C_unknown ENV_HINT,
     mk_rule (sq [StartText, lit ''vp exec'', WordBd]) C_unknown TASK_TARGET_HINT,
     mk_rule (sq [StartText, lit ''vp run'', WordBd]) C_unknown TASK_TARGET_HINT]"

definition generateRules :: "command_rule list" where
  "generateRules =
     concat (map tool_rules BLOCKED_TOOLS) @ concat (map script_rules BLOCKED_SCRIPTS)
     @ map module_rule BLOCKED_RAW_NODE_MODULE_TOOLS @ fixed_rules"

definition COMMAND_RULES :: "command_rule list" where
  "COMMAND_RULES = generateRules"

text \<open>
  \<open>/--fix-dangerous|--write.*--unsafe|--unsafe.*--write/\<close> and \<open>/--fix|--write/\<close>.
\<close>

definition SUGGESTION_MODIFIERS :: "command_rule list" where
  "SUGGESTION_MODIFIERS =
    [mk_rule (alts [lit ''--fix-dangerous'', sq [lit ''--write'', star dot, lit ''--unsafe''],
                    sq [lit ''--unsafe'', star dot, lit ''--write'']])
       C_lint (LINT_BASE @ '' --fix-unsafe''),
     mk_rule (alts [lit ''--fix'', lit ''--write'']) C_lint (LINT_BASE @ '' --fix'')]"

definition applySuggestionModifiers :: "string \<Rightarrow> command_rule \<Rightarrow> string" where
  "applySuggestionModifiers command rule =
     (case find (\<lambda>m. category m = category rule \<and> re_test (pattern m) command) SUGGESTION_MODIFIERS of
        Some m \<Rightarrow> suggestion m | None \<Rightarrow> suggestion rule)"

section \<open>Redirect messages\<close>

record mcp_config =
  serverName :: "string option"
  toolPrefix :: "string option"

definition opt_trim_or :: "string option \<Rightarrow> string \<Rightarrow> string" where
  "opt_trim_or s d = (case s of None \<Rightarrow> d | Some t \<Rightarrow> or_else (js_trim t) d)"

text \<open>\<open>resolveMcpConfig\<close>: the server name and the tool prefix, with their defaults.\<close>

definition resolveMcpConfig :: "mcp_config option \<Rightarrow> string \<times> string" where
  "resolveMcpConfig mcp =
     (opt_trim_or (Option.bind mcp serverName) ''webpresso'',
      opt_trim_or (Option.bind mcp toolPrefix) ''wp_'')"

fun toolSuffixForCategory :: "command_category \<Rightarrow> string" where
  "toolSuffixForCategory C_test = ''test''"
| "toolSuffixForCategory C_lint = ''lint''"
| "toolSuffixForCategory C_typecheck = ''typecheck''"
| "toolSuffixForCategory C_format = ''format''"
| "toolSuffixForCategory C_e2e = ''e2e''"
| "toolSuffixForCategory C_blueprint = ''blueprint''"
| "toolSuffixForCategory C_unknown = ''qa''"

text \<open>The context of a redirect: \<open>mcpReady\<close> absent falls back to the sentinel's answer.\<close>

record redirect_ctx =
  ctx_category :: command_category
  ctx_command :: string
  mcpReady :: "bool option"
  fallbackHint :: "string option"
  ctx_mcp :: "mcp_config option"

definition resolveMcpReady :: "bool \<Rightarrow> bool option \<Rightarrow> bool" where
  "resolveMcpReady sentinel v = (case v of Some b \<Rightarrow> b | None \<Rightarrow> sentinel)"

definition buildRedirectMessage :: "bool \<Rightarrow> redirect_ctx \<Rightarrow> string" where
  "buildRedirectMessage sentinel ctx =
     (let hint = (case fallbackHint ctx of Some h \<Rightarrow> h
                  | None \<Rightarrow> ''repo-approved MCP/tooling entrypoint'')
      in if \<not> resolveMcpReady sentinel (mcpReady ctx)
         then quoted (ctx_command ctx) @ '' denied '' @ em_dash_str @ '' MCP not ready. Use: '' @ hint
         else (let (server, pre) = resolveMcpConfig (ctx_mcp ctx);
                   toolMatcher = ''mcp__'' @ server @ ''__'' @ pre
                     @ toolSuffixForCategory (ctx_category ctx) @ ''(...)''
               in join_with [nl]
                 [quoted (ctx_command ctx) @ '' denied '' @ em_dash_str @ '' use wp MCP tool:'',
                  ''  '' @ toolMatcher,
                  ''Returns structured, summary-first results. Raw output is clipped; overflow may include a log path for deeper investigation.'',
                  ''Fallback if MCP unavailable: '' @ hint]))"

section \<open>Lemmas\<close>

text \<open>A command that a rule pattern accepts: the literal followed by white space or the end.\<close>

lemma buildToolPattern_test:
  "re_test (buildToolPattern pre t) s \<longleftrightarrow>
     (\<exists>r. s = (if pre \<noteq> [] then pre @ '' '' @ t else t) @ r \<and> (r = [] \<or> js_ws (hd r)))"
proof -
  define w where "w = (if pre \<noteq> [] then pre @ '' '' @ t else t)"
  have "re_test (Seq StartText (Seq (lit w) (Grp 1 (Alt ws EndText)))) s \<longleftrightarrow>
      (\<exists>r. s = w @ r \<and> (r = [] \<or> js_ws (hd r)))"
  proof (cases "prefix w s")
    case True
    then obtain r where "s = w @ r" by (auto simp: prefix_def)
    then show ?thesis by (cases r) (simp_all add: re_test_anchored run_lit)
  next
    case False
    then show ?thesis by (auto simp: re_test_anchored run_lit prefix_def)
  qed
  then show ?thesis by (simp add: buildToolPattern_def w_def)
qed

lemma tool_rule_in_rules:
  assumes "spec \<in> set BLOCKED_TOOLS"
    and "(R_exec \<in> set (runners spec) \<and> runner \<in> set EXEC_RUNNERS) \<or>
         (R_direct \<in> set (runners spec) \<and> runner \<in> set DIRECT_RUNNERS) \<or>
         (R_bare \<in> set (runners spec) \<and> runner = [])"
  shows "mk_rule (buildToolPattern runner (tool spec)) (t_category spec) (t_suggestion spec)
           \<in> set COMMAND_RULES"
proof -
  have "mk_rule (buildToolPattern runner (tool spec)) (t_category spec) (t_suggestion spec)
      \<in> set (tool_rules spec)"
    using assms(2) by (auto simp: tool_rules_def Let_def)
  with assms(1) show ?thesis by (auto simp: COMMAND_RULES_def generateRules_def)
qed

lemma script_rule_in_rules:
  assumes "spec \<in> set BLOCKED_SCRIPTS" and "runner \<in> set SCRIPT_RUNNERS"
  shows "mk_rule (buildToolPattern runner (script spec)) (s_category spec) (s_suggestion spec)
           \<in> set COMMAND_RULES"
proof -
  have "mk_rule (buildToolPattern runner (script spec)) (s_category spec) (s_suggestion spec)
      \<in> set (script_rules spec)"
    using assms(2) by (auto simp: script_rules_def)
  with assms(1) show ?thesis by (auto simp: COMMAND_RULES_def generateRules_def)
qed

lemma mk_rule_sel [simp]:
  "pattern (mk_rule p c s) = p" "category (mk_rule p c s) = c" "suggestion (mk_rule p c s) = s"
  by (simp_all add: mk_rule_def)

end
