(* ===== verification/ForbiddenCommands.thy ===== *)
theory ForbiddenCommands
  imports GuardRules
begin

text \<open>
  The forbidden-commands validator of the pretool guard
  (\<open>src/hooks/pretool-guard/validators/forbidden-commands.ts\<close>): the variants of a command,
  the first matching rule, the lifecycle check of \<open>git mv\<close>, the audit redirects and the
  verdict.  The process environment, the repository configuration and the answer of the
  MCP sentinel are the fields of \<open>guard_env\<close>.
\<close>

section \<open>Scope flags\<close>

definition flag_value :: regex where \<comment> \<open>\<open>(?:"[^"]+"|'[^']+'|\\S+)\<close>\<close>
  "flag_value = alts [sq [chr dquote, plus (none_of [dquote]), chr dquote],
     sq [chr squote, plus (none_of [squote]), chr squote], plus non_ws]"

definition scope_with_value :: regex where \<comment> \<open>\<open>(?:--filter|-F|--dir|-C)\\s+(?:...)\<close>\<close>
  "scope_with_value =
     sq [alts [lit ''--filter'', lit ''-F'', lit ''--dir'', lit ''-C''], plus ws, flag_value]"

definition VP_SCOPE_FLAG_REGEX :: regex where
  "VP_SCOPE_FLAG_REGEX =
     sq [plus ws, alts [scope_with_value, alts [lit ''--workspace-root'', lit ''-w'']]]"

definition PNPM_SCOPE_FLAG_REGEX :: regex where
  "PNPM_SCOPE_FLAG_REGEX =
     sq [plus ws, alts [scope_with_value,
           alts [lit ''--workspace-root'', lit ''-w'', lit ''--recursive'', lit ''-r'', lit ''--workspace'']],
         Look True (Alt ws EndText)]"

definition squeeze_ws :: "string \<Rightarrow> string" where \<comment> \<open>\<open>s.replace(/\\s+/g, " ").trim()\<close>\<close>
  "squeeze_ws s = js_trim (replace_all (plus ws) (\<lambda>_. '' '') s)"

definition drop_flag :: "regex \<Rightarrow> string \<Rightarrow> string" where
  "drop_flag re s = replace_first re (\<lambda>_. []) s"

function strip_vp_loop :: "string \<Rightarrow> string" where
  "strip_vp_loop next =
     (if re_test VP_SCOPE_FLAG_REGEX next \<and> drop_flag VP_SCOPE_FLAG_REGEX next \<noteq> next
      then strip_vp_loop (drop_flag VP_SCOPE_FLAG_REGEX next) else next)"
  by pat_completeness auto
termination
  by (relation "measure length") (auto simp: drop_flag_def length_delete_first_less)

definition stripVpScopeFlags :: "string \<Rightarrow> string" where
  "stripVpScopeFlags command =
     (if \<not> starts_with command ''vp '' then command else squeeze_ws (strip_vp_loop command))"

lemma length_js_trim: "length (js_trim s) \<le> length s"
proof -
  have "length (js_trim s) \<le> length (js_trim_start s)"
    by (simp add: js_trim_def js_trim_end_def) (metis length_dropWhile_le length_rev)
  also have "\<dots> \<le> length s" by (simp add: js_trim_start_def length_dropWhile_le)
  finally show ?thesis .
qed

lemma length_replace_consuming:
  assumes "consuming re"
  shows "length (replace_all re (\<lambda>_. [c]) s) \<le> length s"
proof -
  have eq: "replace_all re (\<lambda>_. [c]) s = replace_all re (\<lambda>m. if m_text m = [] then [] else [c]) s"
  proof -
    have "splice_matches (\<lambda>_. [c]) pos r (all_from n re b x) =
          splice_matches (\<lambda>m. if m_text m = [] then [] else [c]) pos r (all_from n re b x)" for pos r n b x
      by (induction n arbitrary: pos r b x)
         (auto simp: Let_def dest: exec_from_consuming [OF assms] split: option.splits)
    then show ?thesis by (simp add: replace_all_def match_all_def del: all_from.simps)
  qed
  have "length (if m_text m = [] then [] else [c]) \<le> length (m_text m)" for m :: rmatch
    by (cases "m_text m") auto
  then show ?thesis unfolding eq by (intro length_replace_all)
qed

lemma length_squeeze_ws: "length (squeeze_ws s) \<le> length s"
proof -
  have "length (replace_all (plus ws) (\<lambda>_. '' '') s) \<le> length s"
    by (rule length_replace_consuming) simp
  with length_js_trim show ?thesis unfolding squeeze_ws_def by (rule le_trans)
qed

function strip_pnpm_loop :: "string \<Rightarrow> string" where
  "strip_pnpm_loop next =
     (if re_test PNPM_SCOPE_FLAG_REGEX next \<and> drop_flag PNPM_SCOPE_FLAG_REGEX next \<noteq> next
      then strip_pnpm_loop (squeeze_ws (drop_flag PNPM_SCOPE_FLAG_REGEX next)) else next)"
  by pat_completeness auto
termination
proof (relation "measure length")
  fix "next" :: string
  assume "re_test PNPM_SCOPE_FLAG_REGEX next \<and> drop_flag PNPM_SCOPE_FLAG_REGEX next \<noteq> next"
  then have "length (drop_flag PNPM_SCOPE_FLAG_REGEX next) < length next"
    by (simp add: drop_flag_def length_delete_first_less)
  then show "(squeeze_ws (drop_flag PNPM_SCOPE_FLAG_REGEX next), next) \<in> measure length"
    using length_squeeze_ws le_less_trans by (simp, blast)
qed simp

declare strip_vp_loop.simps [simp del] strip_pnpm_loop.simps [simp del]

definition stripPnPmScopeFlags :: "string \<Rightarrow> string" where
  "stripPnPmScopeFlags command =
     (if \<not> starts_with command ''pnpm '' then command else strip_pnpm_loop command)"

definition stripKnownScopeFlags :: "string \<Rightarrow> string" where
  "stripKnownScopeFlags command =
     (if starts_with command ''vp '' then stripVpScopeFlags command
      else if starts_with command ''pnpm '' then stripPnPmScopeFlags command
      else command)"

section \<open>Variants and rules\<close>

definition LOGICAL_OPERATOR_REGEX :: regex where \<comment> \<open>\<open>/(?:&&|\\|\\||;)/\<close>\<close>
  "LOGICAL_OPERATOR_REGEX = alts [lit ''&&'', lit ''||'', lit '';'']"

text \<open>\<open>if (x && x !== self && !variants.includes(x)) variants.push(x)\<close>\<close>

definition add_variant :: "string \<Rightarrow> string list \<Rightarrow> string list" where
  "add_variant x vs = (if x \<in> set vs then vs else vs @ [x])"

definition vp_segment_variants :: "string \<Rightarrow> string list \<Rightarrow> string \<Rightarrow> string list" where
  "vp_segment_variants normalized vs segment =
     (let beforePipe = js_trim (hd (re_split (sq [star ws, chr (CHR ''|''), star ws]) segment));
          vs1 = (if beforePipe \<noteq> [] \<and> beforePipe \<noteq> segment then add_variant beforePipe vs else vs)
      in if segment \<noteq> normalized then add_variant segment vs1 else vs1)"

definition segment_variants :: "string \<Rightarrow> string list" where
  "segment_variants normalized =
     (let start = (if normalized \<noteq> [] then [normalized] else [])
      in if starts_with normalized ''vp ''
         then foldl (vp_segment_variants normalized) start
                (filter (\<lambda>s. s \<noteq> []) (map js_trim (re_split LOGICAL_OPERATOR_REGEX normalized)))
         else foldl (\<lambda>vs segment. add_variant segment vs) start (splitTopLevelCommands normalized))"

definition flag_variants :: "string list \<Rightarrow> string \<Rightarrow> string list" where
  "flag_variants vs variant =
     (if variant = [] then vs
      else let vp = stripVpScopeFlags variant;
               vs1 = (if vp \<noteq> variant then add_variant vp vs else vs);
               known = stripKnownScopeFlags variant
           in if known \<noteq> variant then add_variant known vs1 else vs1)"

definition getCommandVariants :: "string \<Rightarrow> string list" where
  "getCommandVariants command =
     (let variants = segment_variants (js_trim command) in foldl flag_variants variants variants)"

definition rule_for :: "string \<Rightarrow> command_rule option" where
  "rule_for variant = find (\<lambda>r. re_test (pattern r) variant) COMMAND_RULES"

fun first_rule :: "string list \<Rightarrow> command_rule option" where
  "first_rule [] = None"
| "first_rule (v # vs) = (case rule_for v of Some r \<Rightarrow> Some r | None \<Rightarrow> first_rule vs)"

definition findMatchingRule :: "string \<Rightarrow> command_rule option" where
  "findMatchingRule command = first_rule (getCommandVariants command)"

definition getApprovedEquivalent :: "string \<Rightarrow> string" where
  "getApprovedEquivalent command =
     (case findMatchingRule command of
        None \<Rightarrow> ''repo-approved MCP/tooling entrypoint''
      | Some rule \<Rightarrow> applySuggestionModifiers command rule)"

definition getCommandCategory :: "string \<Rightarrow> command_category" where
  "getCommandCategory command =
     (case findMatchingRule command of None \<Rightarrow> C_unknown | Some rule \<Rightarrow> category rule)"

section \<open>Lifecycle moves by git mv\<close>

definition splitShellArgs :: "string \<Rightarrow> string list" where \<comment> \<open>\<open>/"[^"]*"|'[^']*'|\\S+/g\<close>\<close>
  "splitShellArgs command =
     map m_text (match_all (alts [sq [chr dquote, star (none_of [dquote]), chr dquote],
       sq [chr squote, star (none_of [squote]), chr squote], plus non_ws]) command)"

definition unquoteShellArg :: "string \<Rightarrow> string" where \<comment> \<open>\<open>/^['"]|['"]$/g\<close>\<close>
  "unquoteShellArg arg =
     replace_all (Alt (Seq StartText (one_of [squote, dquote])) (Seq (one_of [squote, dquote]) EndText))
       (\<lambda>_. []) arg"

definition extractBlueprintLifecycleStatusFromPathArg :: "string \<Rightarrow> lifecycle_status option" where
  "extractBlueprintLifecycleStatusFromPathArg arg =
     (let normalized = map (\<lambda>c. if c = backslash then CHR ''/'' else c) (unquoteShellArg arg);
          m = re_exec (sq [Alt StartText (chr (CHR ''/'')), lit ''blueprints/'', lifecycle_dirs,
                Alt (chr (CHR ''/'')) EndText]) normalized
      in parseLifecycleBlueprintStatus
           (case Option.bind m (\<lambda>x. group x 1) of Some s \<Rightarrow> s | None \<Rightarrow> []))"

text \<open>The source and target statuses of one segment, when it is a \<open>git mv\<close> between them.\<close>

definition git_mv_transition :: "string \<Rightarrow> (lifecycle_status \<times> lifecycle_status) option" where
  "git_mv_transition segment =
     (if \<not> re_test (pattern BLUEPRINT_GIT_MV_RULE) segment then None
      else let args = splitShellArgs segment in
        if length args < 4 then None
        else (case (extractBlueprintLifecycleStatusFromPathArg (args ! 2),
                    extractBlueprintLifecycleStatusFromPathArg (args ! 3)) of
                (Some f, Some t) \<Rightarrow> Some (f, t) | _ \<Rightarrow> None))"

fun first_git_mv :: "string list \<Rightarrow> (string \<times> lifecycle_status \<times> lifecycle_status) option" where
  "first_git_mv [] = None"
| "first_git_mv (segment # segments) =
     (case git_mv_transition segment of
        None \<Rightarrow> first_git_mv segments
      | Some (f, t) \<Rightarrow> if isLegalLifecycleTransition f t then None else Some (segment, f, t))"

definition findIllegalBlueprintGitMv ::
    "string \<Rightarrow> (string \<times> lifecycle_status \<times> lifecycle_status) option" where
  "findIllegalBlueprintGitMv command = first_git_mv (splitTopLevelCommands (js_trim command))"

section \<open>Verdicts\<close>

record guard_config =
  packageManager :: "string option"
  scriptRoutes :: "(string, string) js_map option"

record guard_env =
  env_skip :: bool                      \<comment> \<open>\<open>FORBIDDEN_COMMANDS_SKIP === "1"\<close>\<close>
  env_audit :: bool                     \<comment> \<open>\<open>FORBIDDEN_COMMANDS_AUDIT === "1"\<close>\<close>
  sentinel_ready :: bool                \<comment> \<open>\<open>isMcpReady()\<close>\<close>
  rc_mcp :: "mcp_config option"         \<comment> \<open>\<open>readConfig(repoRoot)?.mcp\<close>\<close>
  rc_guard :: "guard_config option"     \<comment> \<open>\<open>readConfig(repoRoot)?.guard\<close>\<close>

record blocked_result = validation_result +
  b_command :: string
  b_suggestion :: string
  b_category :: command_category
  docsRef :: string
  matchedPattern :: regex

record redirect_options =
  o_mcpReady :: "bool option"
  o_mcp :: "mcp_config option"

definition no_options :: redirect_options where
  "no_options = \<lparr>o_mcpReady = None, o_mcp = None\<rparr>"

definition VALIDATOR_NAME :: string where "VALIDATOR_NAME = ''forbidden-commands''"

definition DOCS_REF :: string where
  "DOCS_REF = ''AGENTS.md '' @ quoted ''Forbidden Commands (CRITICAL)'' @ '' section''"

definition redirect_text :: "guard_env \<Rightarrow> string \<Rightarrow> command_rule \<Rightarrow> redirect_options \<Rightarrow> string" where
  "redirect_text env command rule opts =
     buildRedirectMessage (sentinel_ready env)
       \<lparr>ctx_category = category rule, ctx_command = command, mcpReady = o_mcpReady opts,
        fallbackHint = Some (applySuggestionModifiers command rule),
        ctx_mcp = (case o_mcp opts of Some m \<Rightarrow> Some m | None \<Rightarrow> rc_mcp env)\<rparr>"

definition createBlockedResult ::
    "guard_env \<Rightarrow> string \<Rightarrow> command_rule \<Rightarrow> redirect_options \<Rightarrow> blocked_result" where
  "createBlockedResult env command rule opts =
     \<lparr>validator = VALIDATOR_NAME, passed = False, message = Some (redirect_text env command rule opts),
      skipped = None, skipReason = None, b_command = command,
      b_suggestion = applySuggestionModifiers command rule, b_category = category rule,
      docsRef = DOCS_REF, matchedPattern = pattern rule\<rparr>"

definition audit_prefix :: string where
  "audit_prefix = ''[AUDIT] Would block:'' @ [nl]"

definition createAuditResult ::
    "guard_env \<Rightarrow> string \<Rightarrow> command_rule \<Rightarrow> redirect_options \<Rightarrow> blocked_result" where
  "createAuditResult env command rule opts =
     \<lparr>validator = VALIDATOR_NAME, passed = True,
      message = Some (audit_prefix @ redirect_text env command rule opts),
      skipped = None, skipReason = None, b_command = command,
      b_suggestion = applySuggestionModifiers command rule, b_category = category rule,
      docsRef = DOCS_REF, matchedPattern = pattern rule\<rparr>"

definition guardRedirect :: "guard_env \<Rightarrow> string \<Rightarrow> validation_result" where
  "guardRedirect env msg =
     (if env_audit env then mk_result VALIDATOR_NAME True (Some (audit_prefix @ msg))
      else mk_result VALIDATOR_NAME False (Some msg))"

definition MCP_AUDIT_KINDS :: "string list" where
  "MCP_AUDIT_KINDS =
    [''tph'', ''tph-e2e'', ''agents'', ''catalog-drift'', ''package-surface'',
     ''reference-parity-matrix'', ''docs-frontmatter'', ''blueprint-readme-drift'',
     ''blueprint-pr-coverage'', ''blueprint-lifecycle'', ''blueprint-trust'', ''architecture-drift'',
     ''cloudflare-deploy-contract'', ''absolute-path-policy'', ''no-first-party-mjs'',
     ''no-math-random'', ''roadmap-links'', ''bundle-budget'', ''commit-message'', ''tech-debt'',
     ''supported-agent-clis'', ''hook-surface'', ''harness-surfaces'', ''weakness-mining'',
     ''harness-overlay-evidence'', ''ai-contracts'', ''atomic-state-writes'',
     ''no-relative-package-scripts'', ''toolchain-isolation'', ''open-source-licenses'',
     ''secrets-policy'', ''no-dev-vars'', ''github-actions-secrets'', ''secret-provider-quarantine'',
     ''security-quality-regressions'', ''secrets-config'', ''consumer-agent-kit-dependency'',
     ''session-memory-hardcut'']"

definition isMCPAuditKind :: "string \<Rightarrow> bool" where
  "isMCPAuditKind v \<longleftrightarrow> v \<in> set MCP_AUDIT_KINDS"

definition lower_digit_dash :: regex where \<comment> \<open>\<open>[a-z0-9-]\<close>\<close>
  "lower_digit_dash = Cls (\<lambda>c. js_lower_char c \<or> js_digit c \<or> c = CHR ''-'')"

definition WP_AUDIT_RE :: regex where \<comment> \<open>\<open>/^wp\\s+audit\\s+([a-z0-9-]+)\\b/\<close>\<close>
  "WP_AUDIT_RE = sq [StartText, lit ''wp'', plus ws, lit ''audit'', plus ws,
     Grp 1 (plus lower_digit_dash), WordBd]"

definition SCRIPT_INVOCATION_RE :: regex where
  \<comment> \<open>\<open>/^(?:pnpm run|vp run|npm run|pnpm|npm)\\s+([A-Za-z0-9:_-]+)/\<close>\<close>
  "SCRIPT_INVOCATION_RE =
     sq [StartText, alts [lit ''pnpm run'', lit ''vp run'', lit ''npm run'', lit ''pnpm'', lit ''npm''],
         plus ws, Grp 1 (plus (Cls (\<lambda>c. js_word c \<or> c = CHR '':'' \<or> c = CHR ''-'')))]"

definition RAW_PM_RE :: regex where \<comment> \<open>\<open>/^(?:pnpm|npm)\\b/\<close>\<close>
  "RAW_PM_RE = sq [StartText, alts [lit ''pnpm'', lit ''npm''], WordBd]"

definition capture1 :: "regex \<Rightarrow> string \<Rightarrow> string option" where \<comment> \<open>\<open>RE.exec(s)?.[1]\<close>\<close>
  "capture1 re s = Option.bind (re_exec re s) (\<lambda>m. group m 1)"

definition denied_use :: string where
  "denied_use = '' denied '' @ em_dash_str @ '' use the MCP ''"

text \<open>
  The loop of \<open>findWpAuditRedirect\<close>: \<open>Inl\<close> is the early return for the guardrails batch,
  \<open>Inr\<close> the known kinds in order with the first variant that named one.
\<close>

fun wp_audit_loop ::
    "string list \<Rightarrow> string list \<times> string option \<Rightarrow> string + string list \<times> string option" where
  "wp_audit_loop [] acc = Inr acc"
| "wp_audit_loop (variant # vs) (kinds, firstV) =
     (case capture1 WP_AUDIT_RE variant of
        None \<Rightarrow> wp_audit_loop vs (kinds, firstV)
      | Some kind \<Rightarrow>
          if kind = ''guardrails'' then
            Inl (quoted variant @ denied_use @ ''batch audit tool: mcp__webpresso__wp_audits(preset=''
                 @ quoted ''guardrails'' @ ''). Returns aggregate structured, summary-first results.'')
          else if \<not> isMCPAuditKind kind then wp_audit_loop vs (kinds, firstV)
          else wp_audit_loop vs
                 (set_add kind kinds, case firstV of Some v \<Rightarrow> Some v | None \<Rightarrow> Some variant))"

definition findWpAuditRedirect :: "string \<Rightarrow> string option" where
  "findWpAuditRedirect command =
     (case wp_audit_loop (getCommandVariants command) ([], None) of
        Inl msg \<Rightarrow> Some msg
      | Inr (kinds, firstV) \<Rightarrow>
          if length kinds > 1 then
            Some (''Multiple wp audit commands'' @ denied_use
                  @ ''batch audit tool: mcp__webpresso__wp_audits(kinds=[''
                  @ join_with '', '' (map quoted kinds)
                  @ '']). Returns aggregate structured, summary-first results.'')
          else (case (kinds, firstV) of
                  (kind # _, Some v) \<Rightarrow>
                    Some (quoted v @ denied_use @ ''audit tool: mcp__webpresso__wp_audit(kind=''
                          @ quoted kind @ ''). Returns structured, summary-first results.'')
                | _ \<Rightarrow> None))"

fun script_route_loop :: "(string, string) js_map \<Rightarrow> string list \<Rightarrow> string option" where
  "script_route_loop routes [] = None"
| "script_route_loop routes (variant # vs) =
     (case capture1 SCRIPT_INVOCATION_RE variant of
        None \<Rightarrow> script_route_loop routes vs
      | Some name \<Rightarrow>
          (case map_get routes name of
             None \<Rightarrow> script_route_loop routes vs
           | Some kind \<Rightarrow>
               if kind = [] \<or> \<not> isMCPAuditKind kind then script_route_loop routes vs
               else Some (quoted variant @ '' denied '' @ em_dash_str @ '' this repo routes `'' @ name
                 @ ''` to an audit: mcp__webpresso__wp_audit(kind='' @ quoted kind @ '').'')))"

definition findScriptRouteRedirect :: "string \<Rightarrow> (string, string) js_map \<Rightarrow> string option" where
  "findScriptRouteRedirect command routes = script_route_loop routes (getCommandVariants command)"

definition findVpOnlyRedirect :: "string \<Rightarrow> string option" where
  "findVpOnlyRedirect command =
     map_option (\<lambda>variant. quoted variant @ '' denied '' @ em_dash_str
         @ '' this repo is vp-only. Use the vp facade (`vp install`, `vp run <script>`, `vp exec <bin>`) or the matching wp_* MCP tool.'')
       (find (re_test RAW_PM_RE) (getCommandVariants command))"

definition decorated_rule :: "lifecycle_status \<Rightarrow> lifecycle_status \<Rightarrow> command_rule" where
  "decorated_rule f t =
     BLUEPRINT_GIT_MV_RULE\<lparr>suggestion := BLUEPRINT_HINT @ ''. Illegal transition '' @ status_str f
       @ '' '' @ arrow_str @ '' '' @ status_str t @ ''; legal targets: ''
       @ or_else (join_with '', '' (map status_str (getLegalLifecycleTargets f))) ''(none)''\<rparr>"

datatype verdict = Plain validation_result | Ruled blocked_result

fun verdict_passed :: "verdict \<Rightarrow> bool" where
  "verdict_passed (Plain r) = passed r"
| "verdict_passed (Ruled r) = passed r"

definition ruled :: "guard_env \<Rightarrow> string \<Rightarrow> command_rule \<Rightarrow> verdict" where
  "ruled env command rule =
     Ruled (if env_audit env then createAuditResult env command rule no_options
            else createBlockedResult env command rule no_options)"

definition config_redirect :: "guard_env \<Rightarrow> string \<Rightarrow> string option" where
  "config_redirect env command =
     (case rc_guard env of
        None \<Rightarrow> None
      | Some guard \<Rightarrow>
          (case Option.bind (scriptRoutes guard) (findScriptRouteRedirect command) of
             Some msg \<Rightarrow> Some msg
           | None \<Rightarrow> if packageManager guard = Some ''vp-only'' then findVpOnlyRedirect command else None))"

definition validateForbiddenCommands :: "guard_env \<Rightarrow> tool_input \<Rightarrow> verdict" where
  "validateForbiddenCommands env input =
     (if env_skip env then Plain (createSkipResult VALIDATOR_NAME default_skip_reason)
      else if \<not> isBashInput input then Plain (createSkipResult VALIDATOR_NAME ''Not a Bash command'')
      else case getCommand input of
        None \<Rightarrow> Plain (createSkipResult VALIDATOR_NAME ''No command found'')
      | Some command \<Rightarrow>
          if command = [] then Plain (createSkipResult VALIDATOR_NAME ''No command found'')
          else (case findIllegalBlueprintGitMv command of
            Some (segment, f, t) \<Rightarrow> ruled env segment (decorated_rule f t)
          | None \<Rightarrow> (case findMatchingRule command of
              Some rule \<Rightarrow> ruled env command rule
            | None \<Rightarrow> (case findWpAuditRedirect command of
                Some msg \<Rightarrow> Plain (guardRedirect env msg)
              | None \<Rightarrow> (case config_redirect env command of
                  Some msg \<Rightarrow> Plain (guardRedirect env msg)
                | None \<Rightarrow> Plain (mk_result VALIDATOR_NAME True None))))))"

section \<open>Lemmas: variants and rules\<close>

lemma set_add_variant [simp]: "set (add_variant x vs) = insert x (set vs)"
  by (auto simp: add_variant_def)

lemma distinct_add_variant [simp]: "distinct vs \<Longrightarrow> distinct (add_variant x vs)"
  by (auto simp: add_variant_def)

lemma add_variant_extends: "\<exists>ws. add_variant x vs = vs @ ws"
  by (auto simp: add_variant_def)

text \<open>What the loops that collect variants share: they only append, and keep the list distinct.\<close>

definition grows :: "('a list \<Rightarrow> 'b \<Rightarrow> 'a list) \<Rightarrow> bool" where
  "grows f \<longleftrightarrow> (\<forall>vs x. (\<exists>ws. f vs x = vs @ ws) \<and> (distinct vs \<longrightarrow> distinct (f vs x)))"

lemma growsI:
  "(\<And>vs x. \<exists>ws. f vs x = vs @ ws) \<Longrightarrow> (\<And>vs x. distinct vs \<Longrightarrow> distinct (f vs x)) \<Longrightarrow> grows f"
  by (simp add: grows_def)

lemma grows_foldl:
  assumes "grows f"
  shows "\<exists>ws. foldl f vs xs = vs @ ws" and "distinct vs \<Longrightarrow> distinct (foldl f vs xs)"
proof -
  show "\<exists>ws. foldl f vs xs = vs @ ws"
  proof (induction xs arbitrary: vs)
    case (Cons x xs)
    obtain us where us: "f vs x = vs @ us" using assms by (auto simp: grows_def)
    obtain ws where "foldl f (f vs x) xs = f vs x @ ws" using Cons.IH by blast
    with us show ?case by simp
  qed simp
  show "distinct vs \<Longrightarrow> distinct (foldl f vs xs)"
    using assms by (induction xs arbitrary: vs) (auto simp: grows_def)
qed

lemma grows_add_variant: "grows (\<lambda>vs segment. add_variant segment vs)"
  by (rule growsI) (simp_all add: add_variant_extends)

lemma append_trans: "\<exists>ws. b = a @ ws \<Longrightarrow> \<exists>ws. c = b @ ws \<Longrightarrow> \<exists>ws. c = a @ (ws :: 'a list)"
  by auto

lemma grows_vp_segment_variants: "grows (vp_segment_variants n)"
proof (rule growsI)
  show "\<exists>ws. vp_segment_variants n vs x = vs @ ws" for vs x
    unfolding vp_segment_variants_def Let_def
    by (auto intro: add_variant_extends append_trans [OF add_variant_extends add_variant_extends])
  show "distinct vs \<Longrightarrow> distinct (vp_segment_variants n vs x)" for vs x
    by (simp add: vp_segment_variants_def Let_def)
qed

lemma grows_flag_variants: "grows flag_variants"
proof (rule growsI)
  show "\<exists>ws. flag_variants vs x = vs @ ws" for vs x
    unfolding flag_variants_def Let_def
    by (auto intro: add_variant_extends append_trans [OF add_variant_extends add_variant_extends])
  show "distinct vs \<Longrightarrow> distinct (flag_variants vs x)" for vs x
    by (simp add: flag_variants_def Let_def)
qed

lemma segment_variants_start: "n \<noteq> [] \<Longrightarrow> \<exists>ws. segment_variants n = n # ws"
  using grows_foldl(1) [OF grows_vp_segment_variants, of n "[n]"]
    grows_foldl(1) [OF grows_add_variant, of "[n]"]
  by (simp add: segment_variants_def Let_def)

lemma segment_variants_distinct: "distinct (segment_variants n)"
  unfolding segment_variants_def Let_def
  by (auto intro!: grows_foldl(2) grows_vp_segment_variants grows_add_variant)

lemma variants_extend_segments: "\<exists>ws. getCommandVariants c = segment_variants (js_trim c) @ ws"
  unfolding getCommandVariants_def Let_def by (rule grows_foldl(1)) (rule grows_flag_variants)

lemma foldl_add_variant_set: "set (foldl (\<lambda>vs s. add_variant s vs) vs xs) = set vs \<union> set xs"
  by (induction xs arbitrary: vs) auto

lemma segment_in_variants:
  assumes "\<not> starts_with (js_trim c) ''vp ''" and "s \<in> set (splitTopLevelCommands (js_trim c))"
  shows "s \<in> set (getCommandVariants c)"
proof -
  have "s \<in> set (segment_variants (js_trim c))"
    using assms by (simp add: segment_variants_def Let_def foldl_add_variant_set)
  with variants_extend_segments [of c] show ?thesis by auto
qed

lemma trimmed_in_variants: "js_trim c \<noteq> [] \<Longrightarrow> js_trim c \<in> set (getCommandVariants c)"
  using variants_extend_segments [of c] segment_variants_start [of "js_trim c"] by auto

lemma first_rule_None: "first_rule vs = None \<longleftrightarrow> (\<forall>v\<in>set vs. rule_for v = None)"
  by (induction vs) (auto split: option.splits)

lemma rule_for_None: "rule_for v = None \<longleftrightarrow> (\<forall>r\<in>set COMMAND_RULES. \<not> re_test (pattern r) v)"
  by (auto simp: rule_for_def find_None_iff)

lemma findMatchingRule_Some:
  assumes "v \<in> set (getCommandVariants c)" and "r \<in> set COMMAND_RULES" and "re_test (pattern r) v"
  shows "\<exists>r'. findMatchingRule c = Some r'"
  using assms by (cases "findMatchingRule c") (auto simp: findMatchingRule_def first_rule_None rule_for_None)

lemma ruled_passed [simp]: "verdict_passed (ruled env c r) = env_audit env"
  by (simp add: ruled_def createAuditResult_def createBlockedResult_def)

lemma guardRedirect_passed [simp]: "passed (guardRedirect env m) = env_audit env"
  by (simp add: guardRedirect_def)

lemma rule_blocks:
  assumes "findMatchingRule c = Some r" and "c \<noteq> []" and "\<not> env_skip env" and "\<not> env_audit env"
  shows "\<not> verdict_passed (validateForbiddenCommands env (bash_input c))"
  using assms by (simp add: validateForbiddenCommands_def split: option.splits)

section \<open>Lemmas: trimming and scanning around a command word\<close>

lemma dropWhile_append_stop: "\<not> P c \<Longrightarrow> dropWhile P (xs @ c # ys) = dropWhile P xs @ c # ys"
  by (induction xs) auto

lemma js_trim_word:
  assumes "w \<noteq> []" and "\<not> js_ws (hd w)" and "\<not> js_ws (last w)"
    and "\<forall>c\<in>set pad. js_ws c" and "args = [] \<or> js_ws (hd args)"
  shows "\<exists>r. js_trim (pad @ w @ args) = w @ r \<and> (r = [] \<or> js_ws (hd r))"
proof -
  obtain c cs where w: "w = c # cs" using assms(1) by (cases w) auto
  have start: "js_trim_start (pad @ w @ args) = w @ args"
  proof -
    have "dropWhile js_ws (pad @ xs) = dropWhile js_ws xs" for xs
      using assms(4) by (simp add: dropWhile_append2)
    then show ?thesis using assms(2) by (simp add: js_trim_start_def w)
  qed
  obtain ds d where wd: "w = ds @ [d]" using assms(1) by (cases w rule: rev_cases) auto
  with assms(3) have nd: "\<not> js_ws d" by simp
  have "rev (w @ args) = rev args @ d # rev ds" by (simp add: wd)
  then have "js_trim_end (w @ args) = w @ js_trim_end args"
    using nd by (simp add: js_trim_end_def dropWhile_append_stop wd)
  moreover have "js_trim_end args = [] \<or> js_ws (hd (js_trim_end args))"
  proof (cases "js_trim_end args = []")
    case False
    have "prefix (js_trim_end args) args"
      using suffix_dropWhile [of js_ws "rev args"] by (simp add: js_trim_end_def suffix_to_prefix)
    then obtain zs where "args = js_trim_end args @ zs" by (auto simp: prefix_def)
    with False have "hd (js_trim_end args) = hd args" "args \<noteq> []" by (metis hd_append2, auto)
    with assms(5) show ?thesis by simp
  qed simp
  ultimately show ?thesis using start by (simp add: js_trim_def)
qed

text \<open>The first segment a scan closes is the text it had collected with what it read until then.\<close>

lemma step_shape:
  assumes "scan_step ch nx st = (st', k)"
  shows "st' = flush st \<or>
    (segs st' = segs st \<and> cur st' = cur st @ ch # (if k then nx else []))"
  using assms
  by (auto simp: scan_step_def step_subst_def step_double_def step_top_def split: if_splits)

lemma segs_mono: "set (segs st) \<subseteq> set (segs (scan_loop cs st))"
proof (induction cs st rule: scan_loop.induct)
  case (2 ch cs st)
  obtain st' k where s: "scan_step ch (take 1 cs) st = (st', k)" by force
  from step_shape [OF s] have "set (segs st) \<subseteq> set (segs st')" by auto
  with 2 s show ?case by (cases k) auto
qed simp

lemma scan_first_segment:
  assumes "js_trim (cur st @ cs) \<noteq> [] \<and> (\<forall>x. prefix x cs \<longrightarrow> js_trim (cur st @ x) \<noteq> [])"
  shows "\<exists>x. prefix x cs \<and> js_trim (cur st @ x) \<in> set (segs (flush (scan_loop cs st)))"
  using assms
proof (induction cs st rule: scan_loop.induct)
  case (1 st)
  then show ?case by auto
next
  case (2 ch cs st)
  obtain st' k where s: "scan_step ch (take 1 cs) st = (st', k)" by force
  define cs' where "cs' = (if k then drop 1 cs else cs)"
  define y where "y = ch # (if k then take 1 cs else [])"
  have yc: "ch # cs = y @ cs'" by (simp add: y_def cs'_def)
  have loop: "scan_loop (ch # cs) st = scan_loop cs' st'" using s by (cases k) (auto simp: cs'_def)
  have IH: "js_trim (cur st' @ cs') \<noteq> [] \<and> (\<forall>x. prefix x cs' \<longrightarrow> js_trim (cur st' @ x) \<noteq> []) \<Longrightarrow>
      \<exists>x. prefix x cs' \<and> js_trim (cur st' @ x) \<in> set (segs (flush (scan_loop cs' st')))"
    using "2.IH" s by (cases k) (auto simp: cs'_def)
  from step_shape [OF s] consider "st' = flush st" | "cur st' = cur st @ y"
    by (auto simp: y_def)
  then show ?case
  proof cases
    case 1
    have "js_trim (cur st) \<noteq> []" using "2.prems" by (metis append_Nil2 Nil_prefix)
    then have "js_trim (cur st) \<in> set (segs st')" using 1 by simp
    then have "js_trim (cur st @ []) \<in> set (segs (flush (scan_loop cs' st')))"
      using segs_mono [of st' cs'] by auto
    with loop show ?thesis by (metis Nil_prefix)
  next
    case 2
    have "js_trim (cur st' @ x) \<noteq> []" if "prefix x cs'" for x
      using "2.prems" that 2 yc by (metis append.assoc same_prefix_prefix)
    then have "\<exists>x. prefix x cs' \<and> js_trim (cur st' @ x) \<in> set (segs (flush (scan_loop cs' st')))"
      by (intro IH) auto
    then obtain x where "prefix x cs'" "js_trim (cur st' @ x) \<in> set (segs (flush (scan_loop cs' st')))"
      by blast
    then show ?thesis using 2 yc loop by (metis append.assoc same_prefix_prefix)
  qed
qed

text \<open>The command words of the table: a runner and a tool, without special characters.\<close>

definition tool_word :: "string \<Rightarrow> string \<Rightarrow> string" where
  "tool_word runner t = (if runner \<noteq> [] then runner @ '' '' @ t else t)"

definition runs_tool :: "tool_spec \<Rightarrow> string \<Rightarrow> bool" where
  "runs_tool spec runner \<longleftrightarrow>
     (R_exec \<in> set (runners spec) \<and> runner \<in> set EXEC_RUNNERS) \<or>
     (R_direct \<in> set (runners spec) \<and> runner \<in> set DIRECT_RUNNERS) \<or>
     (R_bare \<in> set (runners spec) \<and> runner = [])"

definition plain_word :: "string \<Rightarrow> bool" where
  "plain_word w \<longleftrightarrow> w \<noteq> [] \<and> \<not> js_ws (hd w) \<and> \<not> js_ws (last w) \<and> list_all (\<lambda>c. \<not> special c) w"

lemma runner_words_plain:
  "list_all (\<lambda>spec. list_all (\<lambda>runner. plain_word (tool_word runner (tool spec)))
     ([] # EXEC_RUNNERS @ DIRECT_RUNNERS)) BLOCKED_TOOLS"
  by code_simp

lemma tool_word_plain:
  assumes "spec \<in> set BLOCKED_TOOLS" and "runs_tool spec runner"
  shows "plain_word (tool_word runner (tool spec))"
  using runner_words_plain assms by (auto simp: list_all_iff runs_tool_def)

lemma tool_rule_matches:
  assumes "spec \<in> set BLOCKED_TOOLS" and "runs_tool spec runner" and "r = [] \<or> js_ws (hd r)"
  shows "\<exists>rule\<in>set COMMAND_RULES. re_test (pattern rule) (tool_word runner (tool spec) @ r)"
  using tool_rule_in_rules [OF assms(1), of runner] assms(2,3)
  unfolding runs_tool_def
  by (intro bexI [where x = "mk_rule (buildToolPattern runner (tool spec)) (t_category spec) (t_suggestion spec)"])
     (auto simp: buildToolPattern_test tool_word_def)

lemma scan_step_operator:
  assumes "top_level st"
  shows "scan_step CHR ''&'' ''&'' st = (flush st, True)"
    and "scan_step CHR ''|'' ''|'' st = (flush st, True)"
    and "nx \<noteq> ''|'' \<Longrightarrow> scan_step CHR ''|'' nx st = (flush st, False)"
    and "scan_step CHR '';'' nx st = (flush st, False)"
  using assms by (simp_all add: top_level_def scan_step_def step_top_def)

lemma scan_operator:
  assumes "top_level st" and "op \<in> {''&&'', ''||'', ''|'', '';''}"
    and "b = [] \<or> hd b \<noteq> CHR ''|''"
  shows "scan_loop (op @ b) st = scan_loop b (flush st)"
proof -
  from assms(3) have "take 1 b \<noteq> ''|''" by (cases b) auto
  then show ?thesis using assms(2) by (auto simp: scan_step_operator [OF assms(1)])
qed

lemma split_after_operator:
  assumes "a = [] \<or> \<not> joins (last a)" and "top_level (scan_loop a scan0)"
    and "op \<in> {''&&'', ''||'', ''|'', '';''}" and "b = [] \<or> hd b \<noteq> CHR ''|''"
  shows "splitTopLevelCommands (a @ op @ b) = splitTopLevelCommands a @ splitTopLevelCommands b"
proof -
  define st where "st = flush (scan_loop a scan0)"
  have "scan_loop (a @ op @ b) scan0 = scan_loop b st"
    using assms by (simp add: scan_loop_append scan_operator st_def)
  moreover have "segs (flush (scan_loop b st)) = segs st @ splitTopLevelCommands b"
    using assms(2) by (intro scan_loop_from_clean) (auto simp: st_def top_level_def)
  ultimately show ?thesis by (simp add: splitTopLevelCommands_def st_def)
qed

end
