(* ===== verification/GuardProps.thy ===== *)
theory GuardProps
  imports ForbiddenCommands
begin

text \<open>What the pretool guard promises about forbidden commands.\<close>

lemma plain_word_scan:
  "plain_word w \<Longrightarrow> top_level st \<Longrightarrow> scan_loop w st = push w st"
  by (rule scan_plain) (auto simp: plain_word_def list_all_iff)

lemma plain_word_joins: "plain_word w \<Longrightarrow> w = [] \<or> \<not> joins (last w)"
  by (auto simp: plain_word_def list_all_iff dest: not_special_joins)

lemma ws_not_special: "js_ws c \<Longrightarrow> \<not> special c"
  by (auto simp: js_ws_def special_def)

text \<open>The first segment of a padded command word keeps the word and what follows it.\<close>

lemma word_segment:
  assumes w: "plain_word w" and pad: "\<forall>c\<in>set pad. js_ws c" and args: "args = [] \<or> js_ws (hd args)"
  shows "\<exists>r. w @ r \<in> set (splitTopLevelCommands (pad @ w @ args)) \<and> (r = [] \<or> js_ws (hd r))"
proof -
  define st where "st = push (pad @ w) scan0"
  have tl: "top_level (push pad scan0)" by (simp add: top_level_def scan0_def)
  have "scan_loop (pad @ w) scan0 = st"
  proof (cases "pad = []")
    case True
    then show ?thesis using plain_word_scan [OF w] by (simp add: st_def)
  next
    case False
    then have "scan_loop (pad @ w) scan0 = scan_loop w (scan_loop pad scan0)"
      using pad ws_not_special not_special_joins by (intro scan_loop_append) auto
    also have "scan_loop pad scan0 = push pad scan0"
      using pad ws_not_special by (intro scan_plain) auto
    finally show ?thesis using plain_word_scan [OF w tl] by (simp add: st_def push_def)
  qed
  then have loop: "scan_loop (pad @ w @ args) scan0 = scan_loop args st"
    using scan_loop_append [of "pad @ w" args scan0] plain_word_joins [OF w] w
    by (auto simp: plain_word_def)
  have trim: "\<exists>r. js_trim (cur st @ x) = w @ r \<and> (r = [] \<or> js_ws (hd r))" if "prefix x args" for x
  proof -
    have "x = [] \<or> js_ws (hd x)" using that args by (cases x) (auto simp: prefix_def)
    then show ?thesis
      using js_trim_word [of w pad x] w pad by (simp add: plain_word_def st_def scan0_def push_def)
  qed
  then have "\<forall>x. prefix x args \<longrightarrow> js_trim (cur st @ x) \<noteq> []"
    using w by (fastforce simp: plain_word_def)
  then obtain x where "prefix x args"
      and "js_trim (cur st @ x) \<in> set (segs (flush (scan_loop args st)))"
    using scan_first_segment [of st args] by auto
  moreover obtain r where "js_trim (cur st @ x) = w @ r" "r = [] \<or> js_ws (hd r)"
    using trim [OF calculation(1)] by blast
  ultimately show ?thesis using loop by (auto simp: splitTopLevelCommands_def)
qed

text \<open>A blocked tool under one of its runners is matched by a rule, with any arguments.\<close>

lemma forbidden_tool_rule:
  assumes "spec \<in> set BLOCKED_TOOLS" and "runs_tool spec runner"
    and "\<forall>c\<in>set pad. js_ws c" and "args = [] \<or> js_ws (hd args)"
  shows "\<exists>rule. findMatchingRule (pad @ tool_word runner (tool spec) @ args) = Some rule"
proof -
  let ?w = "tool_word runner (tool spec)"
  let ?c = "pad @ ?w @ args"
  have w: "plain_word ?w" using assms(1,2) by (rule tool_word_plain)
  then obtain r where r: "js_trim ?c = ?w @ r" "r = [] \<or> js_ws (hd r)"
    using js_trim_word [of ?w pad args] assms(3,4) by (auto simp: plain_word_def)
  have "js_trim ?c \<in> set (getCommandVariants ?c)"
    using w r by (intro trimmed_in_variants) (auto simp: plain_word_def)
  then show ?thesis
    using tool_rule_matches [OF assms(1,2) r(2)] r(1) findMatchingRule_Some by metis
qed

text \<open>
  C1.  A forbidden tool is blocked under every runner the table lists for it and with any
  arguments: unless the guard is skipped or only audits, a shell call whose command is the
  runner, the tool and nothing or white space and anything is not passed.
\<close>

theorem forbidden_tool_blocked:
  assumes "spec \<in> set BLOCKED_TOOLS" and "runs_tool spec runner"
    and "\<forall>c\<in>set pad. js_ws c" and "args = [] \<or> js_ws (hd args)"
    and "\<not> env_skip env" and "\<not> env_audit env"
  shows "\<not> verdict_passed (validateForbiddenCommands env
           (bash_input (pad @ tool_word runner (tool spec) @ args)))"
proof -
  obtain rule where "findMatchingRule (pad @ tool_word runner (tool spec) @ args) = Some rule"
    using forbidden_tool_rule [OF assms(1-4)] by blast
  moreover have "plain_word (tool_word runner (tool spec))" using assms(1,2) by (rule tool_word_plain)
  ultimately show ?thesis using assms(5,6) by (intro rule_blocks) (auto simp: plain_word_def)
qed

definition plain_env :: guard_env where
  "plain_env = \<lparr>env_skip = False, env_audit = False, sentinel_ready = True, rc_mcp = None, rc_guard = None\<rparr>"

theorem forbidden_tool_blocked_witness:
  "\<not> verdict_passed (validateForbiddenCommands plain_env (bash_input '' pnpm exec vitest run x''))"
proof -
  have "mk_tool ''vitest'' C_test TEST_HINT all_runners \<in> set BLOCKED_TOOLS"
    by (simp add: BLOCKED_TOOLS_def)
  moreover have "runs_tool (mk_tool ''vitest'' C_test TEST_HINT all_runners) ''pnpm exec''"
    by (simp add: runs_tool_def mk_tool_def all_runners_def EXEC_RUNNERS_def)
  ultimately show ?thesis
    using forbidden_tool_blocked [of "mk_tool ''vitest'' C_test TEST_HINT all_runners" "''pnpm exec''"
        "'' ''" "'' run x''" plain_env]
    by (simp add: js_ws_def plain_env_def tool_word_def mk_tool_def)
qed

text \<open>
  C5.  Hiding the tool behind another command does not help: after any prefix the shell leaves
  at top level and any of the operators \<open>&&\<close>, \<open>||\<close>, \<open>|\<close>, \<open>;\<close>, the tool is still
  blocked, provided the whole command does not start with \<open>vp\<close> and a space.
\<close>

theorem compound_tool_blocked:
  assumes "spec \<in> set BLOCKED_TOOLS" and "runs_tool spec runner"
    and "js_trim c = a @ op @ pad @ tool_word runner (tool spec) @ args"
    and "op \<in> {''&&'', ''||'', ''|'', '';''}"
    and "a = [] \<or> \<not> joins (last a)" and "top_level (scan_loop a scan0)"
    and "\<forall>x\<in>set pad. js_ws x" and "args = [] \<or> js_ws (hd args)"
    and "\<not> starts_with (js_trim c) ''vp ''"
    and "\<not> env_skip env" and "\<not> env_audit env"
  shows "\<not> verdict_passed (validateForbiddenCommands env (bash_input c))"
proof -
  let ?w = "tool_word runner (tool spec)"
  let ?b = "pad @ ?w @ args"
  have w: "plain_word ?w" using assms(1,2) by (rule tool_word_plain)
  then obtain ch cs where wc: "?w = ch # cs" "\<not> special ch"
    by (cases ?w) (auto simp: plain_word_def)
  then have "hd ?b \<noteq> CHR ''|''"
    using assms(7) by (cases pad) (auto simp: special_def js_ws_def)
  then have split: "splitTopLevelCommands (js_trim c) = splitTopLevelCommands a @ splitTopLevelCommands ?b"
    unfolding assms(3) by (intro split_after_operator assms(4,5,6)) simp
  obtain r where r: "?w @ r \<in> set (splitTopLevelCommands ?b)" "r = [] \<or> js_ws (hd r)"
    using word_segment [OF w assms(7,8)] by blast
  have "?w @ r \<in> set (getCommandVariants c)"
    using r(1) by (intro segment_in_variants assms(9)) (simp add: split)
  then obtain rule where rule: "findMatchingRule c = Some rule"
    using tool_rule_matches [OF assms(1,2) r(2)] findMatchingRule_Some by metis
  have "c \<noteq> []" using assms(3,4) by auto
  with rule assms(10,11) show ?thesis by (intro rule_blocks)
qed

theorem compound_tool_blocked_witness:
  "\<not> verdict_passed (validateForbiddenCommands plain_env (bash_input ''cd pkg && npx tsc --watch''))"
proof -
  let ?spec = "mk_tool ''tsc'' C_typecheck TYPECHECK_HINT all_runners"
  let ?c = "''cd pkg && npx tsc --watch''"
  have c: "js_trim ?c = ''cd pkg '' @ ''&&'' @ '' '' @ tool_word ''npx'' (tool ?spec) @ '' --watch''"
    by code_simp
  have st: "top_level (scan_loop ''cd pkg '' scan0)" by code_simp
  show ?thesis
  proof (rule compound_tool_blocked [OF _ _ c _ _ st])
    show "?spec \<in> set BLOCKED_TOOLS" by (simp add: BLOCKED_TOOLS_def)
    show "runs_tool ?spec ''npx''"
      by (simp add: runs_tool_def mk_tool_def all_runners_def EXEC_RUNNERS_def)
    show "\<not> starts_with (js_trim ?c) ''vp ''" by code_simp
  qed (auto simp: joins_def js_ws_def plain_env_def)
qed

text \<open>
  \<open>splitTopLevelCommands\<close> yields only non-empty trimmed segments, and it is
  compositional: after a prefix that ends at top level, an operator splits the command into
  the segments of the two sides.
\<close>

theorem split_segments_and_composition:
  assumes "a = [] \<or> \<not> joins (last a)" and "top_level (scan_loop a scan0)"
    and "op \<in> {''&&'', ''||'', ''|'', '';''}" and "b = [] \<or> hd b \<noteq> CHR ''|''"
  shows "splitTopLevelCommands (a @ op @ b) = splitTopLevelCommands a @ splitTopLevelCommands b \<and>
    (\<forall>s\<in>set (splitTopLevelCommands (a @ op @ b)). s \<noteq> [] \<and> js_trim s = s)"
  using split_after_operator [OF assms] split_segments_ok by (auto simp: seg_ok_def)

theorem split_segments_and_composition_witness:
  "splitTopLevelCommands (''echo $(a;b) '' @ ''||'' @ '' ls'') =
     splitTopLevelCommands ''echo $(a;b) '' @ splitTopLevelCommands '' ls'' \<and>
   splitTopLevelCommands ''echo $(a;b) '' = [''echo $(a;b)'']"
proof -
  have "top_level (scan_loop ''echo $(a;b) '' scan0)" by code_simp
  then have "splitTopLevelCommands (''echo $(a;b) '' @ ''||'' @ '' ls'') =
     splitTopLevelCommands ''echo $(a;b) '' @ splitTopLevelCommands '' ls''"
    using split_segments_and_composition [of "''echo $(a;b) ''" "''||''" "'' ls''"]
    by (simp add: joins_def)
  moreover have "splitTopLevelCommands ''echo $(a;b) '' = [''echo $(a;b)'']" by code_simp
  ultimately show ?thesis by simp
qed

text \<open>
  The verdict on a shell call, in full: it passes exactly when the guard is skipped or
  only audits, the command is empty, or none of the four checks (illegal \<open>git mv\<close>, rule
  table, audit redirect, repository redirect) finds something.
\<close>

theorem forbidden_verdict_iff:
  "verdict_passed (validateForbiddenCommands env (bash_input c)) \<longleftrightarrow>
     env_skip env \<or> env_audit env \<or> c = [] \<or>
     (findIllegalBlueprintGitMv c = None \<and> findMatchingRule c = None \<and>
      findWpAuditRedirect c = None \<and> config_redirect env c = None)"
  by (simp add: validateForbiddenCommands_def split: option.splits)

lemma first_git_mv_Some:
  "first_git_mv ss = Some (s, f, t) \<Longrightarrow>
     s \<in> set ss \<and> git_mv_transition s = Some (f, t) \<and> \<not> isLegalLifecycleTransition f t"
  by (induction ss) (auto split: option.splits if_splits)

lemma first_git_mv_skip:
  "\<forall>s\<in>set ss. git_mv_transition s = None \<Longrightarrow> first_git_mv (ss @ ys) = first_git_mv ys"
  by (induction ss) auto

text \<open>
  A move the lifecycle check reports is a real one: it is a segment of the command, it is
  a \<open>git mv\<close> between two lifecycle folders, the transition is not in the matrix, and the
  command is blocked.
\<close>

theorem reported_git_mv_is_illegal:
  assumes "findIllegalBlueprintGitMv c = Some (seg, f, t)" and "\<not> env_skip env" and "\<not> env_audit env"
    and "c \<noteq> []"
  shows "seg \<in> set (splitTopLevelCommands (js_trim c)) \<and> git_mv_transition seg = Some (f, t) \<and>
    t \<notin> set (getLegalLifecycleTargets f) \<and>
    \<not> verdict_passed (validateForbiddenCommands env (bash_input c))"
  using assms first_git_mv_Some [of "splitTopLevelCommands (js_trim c)" seg f t]
  by (auto simp: findIllegalBlueprintGitMv_def isLegalLifecycleTransition_def
      validateForbiddenCommands_def)

theorem reported_git_mv_is_illegal_witness:
  "Parked \<notin> set (getLegalLifecycleTargets Draft) \<and>
   \<not> verdict_passed (validateForbiddenCommands plain_env
       (bash_input ''git mv blueprints/draft/b blueprints/parked/b''))"
proof -
  let ?c = "''git mv blueprints/draft/b blueprints/parked/b''"
  have "findIllegalBlueprintGitMv ?c = Some (?c, Draft, Parked)" by code_simp
  from reported_git_mv_is_illegal [OF this, of plain_env] show ?thesis by (simp add: plain_env_def)
qed

text \<open>
  The lifecycle check stops at the first lifecycle move it sees: when that one is legal,
  an illegal move later in the same command is not reported.
\<close>

theorem legal_move_hides_later_moves:
  assumes "splitTopLevelCommands (js_trim c) = before @ seg # after"
    and "\<forall>s\<in>set before. git_mv_transition s = None"
    and "git_mv_transition seg = Some (f, t)" and "isLegalLifecycleTransition f t"
  shows "findIllegalBlueprintGitMv c = None"
  using assms by (simp add: findIllegalBlueprintGitMv_def first_git_mv_skip)

theorem legal_move_hides_later_moves_witness:
  "findIllegalBlueprintGitMv
     ''git mv blueprints/draft/a blueprints/planned/a && git mv blueprints/draft/b blueprints/parked/b'' = None \<and>
   findIllegalBlueprintGitMv ''git mv blueprints/draft/b blueprints/parked/b'' =
     Some (''git mv blueprints/draft/b blueprints/parked/b'', Draft, Parked)"
proof -
  let ?a = "''git mv blueprints/draft/a blueprints/planned/a''"
  let ?b = "''git mv blueprints/draft/b blueprints/parked/b''"
  have "splitTopLevelCommands (js_trim (?a @ '' && '' @ ?b)) = [] @ ?a # [?b]" by code_simp
  moreover have "git_mv_transition ?a = Some (Draft, Planned)" by code_simp
  ultimately have "findIllegalBlueprintGitMv (?a @ '' && '' @ ?b) = None"
    using legal_move_hides_later_moves [of "?a @ '' && '' @ ?b" "[]" ?a "[?b]" Draft Planned]
    by (simp add: isLegalLifecycleTransition_def getLegalLifecycleTargets_def legal_transitions_def)
  moreover have "findIllegalBlueprintGitMv ?b = Some (?b, Draft, Parked)" by code_simp
  ultimately show ?thesis by simp
qed

text \<open>
  A command that starts with \<open>vp\<close> is not split at a pipe beyond the text before it, so a
  tool after the pipe escapes the table that blocks it elsewhere.
\<close>

lemma vp_pipe_unchecked:
  "findMatchingRule ''vp install | vitest'' = None"
  "findMatchingRule ''ls | vitest'' \<noteq> None"
  by code_simp+

end
