(* ===== verification/Markdown.thy ===== *)
theory Markdown
  imports Regex Statuses
begin

text \<open>
  The patching of blueprint markdown: \<open>src/blueprint/markdown/task-heading.ts\<close> and
  \<open>helpers.ts\<close>.  A task id is inserted into the patterns after \<open>escapeRegex\<close>, so it
  is a literal there.  A replacement string is expanded as \<open>String.prototype.replace\<close> does
  for a pattern without groups.
\<close>

section \<open>Replacement strings\<close>

abbreviation dollar :: char where
  "dollar \<equiv> CHR 0x24"

fun expand_repl :: "rmatch \<Rightarrow> string \<Rightarrow> string" where
  "expand_repl m [] = []"
| "expand_repl m [c] = [c]"
| "expand_repl m (c # d # s) =
     (if c = dollar \<and> d = dollar then dollar # expand_repl m s
      else if c = dollar \<and> d = CHR ''&'' then m_text m @ expand_repl m s
      else if c = dollar \<and> d = CHR 0x60 then m_pre m @ expand_repl m s
      else if c = dollar \<and> d = squote then m_post m @ expand_repl m s
      else c # expand_repl m (d # s))"

text \<open>\<open>s.replace(re, r)\<close> with a replacement string, and \<open>s.replace(p, r)\<close> with a string pattern.\<close>

definition replace_with :: "regex \<Rightarrow> string \<Rightarrow> string \<Rightarrow> string" where
  "replace_with re r s = replace_first re (\<lambda>m. expand_repl m r) s"

definition replace_str :: "string \<Rightarrow> string \<Rightarrow> string \<Rightarrow> string" where
  "replace_str p r s = replace_first (lit p) (\<lambda>m. expand_repl m r) s"

section \<open>Headings\<close>

definition TASK_HEADING_PREFIX_PATTERN :: regex where
  "TASK_HEADING_PREFIX_PATTERN = opt (sq [chr CHR ''['', plus (none_of '']''), chr CHR '']'', plus ws])"

definition TASK_ID_PATTERN :: regex where
  "TASK_ID_PATTERN = Seq (plus digit) (plus (Seq (chr CHR ''.'') (plus digit)))"

definition task_word :: regex where
  "task_word = sq [lit ''####'', plus ws, TASK_HEADING_PREFIX_PATTERN, lit ''Task'']"

definition taskHeadingPatternSource :: "regex \<Rightarrow> regex" where
  "taskHeadingPatternSource idp =
     sq [task_word, plus ws, Grp 1 idp, chr CHR '':'', star ws, Grp 2 (plus dot)]"

definition buildTaskHeadingRegex :: regex where
  "buildTaskHeadingRegex = sq [StartLine, taskHeadingPatternSource TASK_ID_PATTERN, EndLine]"

definition buildTaskHeaderRegexForId :: "string \<Rightarrow> regex" where
  "buildTaskHeaderRegexForId taskId =
     sq [StartLine, task_word, plus ws, lit taskId, chr CHR '':'']"

definition buildTaskSectionBoundaryRegex :: regex where
  "buildTaskSectionBoundaryRegex =
     Seq StartLine (Alt task_word (sq [lit ''###'', plus ws, lit ''Phase'']))"

definition isTaskHeaderLine :: "string \<Rightarrow> bool" where
  "isTaskHeaderLine line = re_test buildTaskHeadingRegex line"

section \<open>Patching a task section\<close>

text \<open>With the \<open>s\<close> flag the dot matches every character.\<close>

definition buildTaskPattern :: "string \<Rightarrow> regex" where
  "buildTaskPattern taskId =
     sq [Grp 1 (sq [task_word, plus ws, lit taskId, Alt (chr CHR '':'') ws, lazy any_char]),
         Look True (alts [lit (nl # ''####''), lit (nl # ''###''), EndText])]"

definition title_pattern :: regex where
  "title_pattern = Grp 1 (sq [task_word, plus ws, plus (none_of [nl]), plus (chr nl)])"

definition status_marker :: string where
  "status_marker = ''**Status:**''"

definition blocked_marker :: string where
  "blocked_marker = ''**Blocked:**''"

text \<open>\<open>/\*\*Status:\*\*\s*.+/i\<close>, and the form that takes the line ends along.\<close>

definition marker_line :: "string \<Rightarrow> regex" where
  "marker_line mk = sq [lit_i mk, star ws, plus dot]"

definition status_line_pattern :: regex where
  "status_line_pattern = Grp 1 (sq [lit_i status_marker, star ws, plus dot, plus (chr nl)])"

definition insertAfterTaskTitle :: "string \<Rightarrow> string \<Rightarrow> string" where
  "insertAfterTaskTitle section line =
     (case re_exec title_pattern section of
        None \<Rightarrow> section @ [nl] @ line @ [nl]
      | Some m \<Rightarrow> replace_str (m_text m) (m_text m @ line @ [nl, nl]) section)"

definition insertAfterStatusLine :: "string \<Rightarrow> string \<Rightarrow> string" where
  "insertAfterStatusLine section line =
     (case re_exec status_line_pattern section of
        None \<Rightarrow> insertAfterTaskTitle section line
      | Some m \<Rightarrow> replace_str (m_text m) (m_text m @ line @ [nl, nl]) section)"

definition fence :: string where
  "fence = [CHR 0x60, CHR 0x60, CHR 0x60]"

definition extractCodeBlocks :: "string \<Rightarrow> string \<Rightarrow> string list" where
  "extractCodeBlocks content language =
     map (\<lambda>m. js_trim (case group m 1 of None \<Rightarrow> [] | Some t \<Rightarrow> t))
       (match_all
         (sq [StartLine, lit fence, star ws, lit language, star ws, chr nl,
              Grp 1 (lazy any_char), chr nl, lit fence, star ws, EndLine])
         content)"

text \<open>
  The section of a task runs from its heading to the next boundary.  Here a boundary at
  offset 0 of the remaining text does not count (\<open>index\<close> is tested for truth).
\<close>

definition extractTaskSection :: "string \<Rightarrow> string \<Rightarrow> string option" where
  "extractTaskSection raw taskId =
     (case re_exec (buildTaskHeaderRegexForId taskId) raw of None \<Rightarrow> None
      | Some h \<Rightarrow>
          (let n = (case re_exec buildTaskSectionBoundaryRegex (m_post h) of
                      Some b \<Rightarrow> if m_index b = 0 then length (m_post h) else m_index b
                    | None \<Rightarrow> length (m_post h))
           in Some (js_trim (m_text h @ take n (m_post h)))))"

definition open_box :: string where
  "open_box = ''- [ ]''"

definition checked_box :: string where
  "checked_box = ''- [x]''"

definition checkFirstCheckbox :: "string \<Rightarrow> string \<Rightarrow> string" where
  "checkFirstCheckbox content taskId =
     replace_first (buildTaskPattern taskId)
       (\<lambda>m. replace_first (lit open_box) (\<lambda>_. checked_box) (m_text m)) content"

definition checkAllCheckboxes :: "string \<Rightarrow> string \<Rightarrow> string" where
  "checkAllCheckboxes content taskId =
     replace_first (buildTaskPattern taskId)
       (\<lambda>m. replace_all (lit open_box) (\<lambda>_. checked_box) (m_text m)) content"

definition remove_blocked_pattern :: regex where
  "remove_blocked_pattern =
     sq [opt (chr nl), lit_i blocked_marker, star ws, star dot, opt (plus (chr nl))]"

definition collapse_blank_lines :: "string \<Rightarrow> string" where
  "collapse_blank_lines s = replace_all (at_least 3 (chr nl)) (\<lambda>_. [nl, nl]) s"

definition set_blocked_in_section :: "string \<Rightarrow> string \<Rightarrow> string" where
  "set_blocked_in_section reason section =
     (if js_trim reason = []
      then js_trim_end (collapse_blank_lines (replace_first remove_blocked_pattern (\<lambda>_. [nl]) section))
      else
        (let blockedLine = blocked_marker @ '' '' @ js_trim reason
         in if re_test (lit_i blocked_marker) section
            then replace_with (marker_line blocked_marker) blockedLine section
            else insertAfterStatusLine section blockedLine))"

definition updateBlockedReason :: "string \<Rightarrow> string \<Rightarrow> string \<Rightarrow> string" where
  "updateBlockedReason content taskId reason =
     replace_first (buildTaskPattern taskId) (\<lambda>m. set_blocked_in_section reason (m_text m)) content"

definition set_status_in_section :: "task_status \<Rightarrow> string \<Rightarrow> string" where
  "set_status_in_section status section =
     (let statusLine = status_marker @ '' '' @ task_status_str status
      in if re_test (lit_i status_marker) section
         then replace_with (marker_line status_marker) statusLine section
         else insertAfterTaskTitle section statusLine)"

definition updateTaskStatus :: "string \<Rightarrow> string \<Rightarrow> task_status \<Rightarrow> string" where
  "updateTaskStatus content taskId status =
     replace_first (buildTaskPattern taskId) (\<lambda>m. set_status_in_section status (m_text m)) content"

definition completeTask :: "string \<Rightarrow> string \<Rightarrow> string" where
  "completeTask content taskId =
     checkAllCheckboxes
       (updateBlockedReason (updateTaskStatus content taskId Done) taskId []) taskId"

section \<open>Lemmas\<close>

lemma expand_repl_plain [simp]: "dollar \<notin> set r \<Longrightarrow> expand_repl m r = r"
  by (induction m r rule: expand_repl.induct) auto

lemma status_str_no_dollar [simp]: "dollar \<notin> set (task_status_str s)"
  by (cases s) auto

end
