(* ===== verification/TaskParser.thy ===== *)
theory TaskParser
  imports Markdown
begin

text \<open>
  The task and phase extraction of \<open>src/blueprint/core/parser.ts\<close>: everything the
  parser reads from the body of a blueprint.
\<close>

record acceptance_criteria =
  total :: nat
  checked :: nat

record task =
  t_id :: string
  t_title :: string
  t_status :: task_status
  statusExplicit :: bool
  depends :: "string list option"
  blockedReason :: "string option"
  acceptanceCriteria :: acceptance_criteria
  t_description :: "string option"
  stepType :: string
  targetPackage :: "string option"
  targetFile :: "string option"
  t_complexity :: "string option"

record phase =
  p_number :: nat
  p_title :: string
  p_complexity :: string
  p_tasks :: "task list"

text \<open>\<open>match[n] ?? ""\<close>\<close>

definition group_or_empty :: "rmatch \<Rightarrow> nat \<Rightarrow> string" where
  "group_or_empty m n = (case group m n of None \<Rightarrow> [] | Some s \<Rightarrow> s)"

section \<open>Checkboxes and the explicit status\<close>

definition checkboxRegex :: regex where
  "checkboxRegex = sq [StartLine, lit ''- ['', Grp 1 (one_of '' x''), lit '']'']"

definition extractCheckboxStatus :: "string \<Rightarrow> task_status \<times> acceptance_criteria" where
  "extractCheckboxStatus section =
     (let ms = match_all checkboxRegex section;
          t = length ms;
          c = length (filter (\<lambda>m. group m 1 = Some ''x'') ms)
      in (if t > 0 \<and> c = t then Done else if t > 0 \<and> c > 0 then T_in_progress else Todo,
          \<lparr>total = t, checked = c\<rparr>))"

definition metadata_split_pattern :: regex where
  "metadata_split_pattern =
     Alt (sq [star ws, chr CHR ''|'', star ws])
       (sq [plus ws,
            Look True (sq [lit ''**'',
              alts (map lit_i [''Status'', ''Depends'', ''Blocked'', ''Wave'', ''Files'', ''Acceptance'']),
              lit '':**''])])"

definition extractInlineMetadataValue :: "string \<Rightarrow> string" where
  "extractInlineMetadataValue rawValue =
     (case re_split metadata_split_pattern (js_trim rawValue) of [] \<Rightarrow> [] | p # _ \<Rightarrow> js_trim p)"

text \<open>\<open>/\*\*Name:\*\*\s*(.+)/i\<close>\<close>

definition marker_value :: "string \<Rightarrow> regex" where
  "marker_value mk = sq [lit_i mk, star ws, Grp 1 (plus dot)]"

definition in_progress_pattern :: regex where
  "in_progress_pattern = sq [WordBd, lit_i ''in_progress'', WordBd]"

definition normalize_status :: "string \<Rightarrow> string" where
  "normalize_status rawStatus =
     replace_all in_progress_pattern (\<lambda>_. ''in-progress'') (extractInlineMetadataValue rawStatus)"

definition extractExplicitTaskStatus :: "string \<Rightarrow> task_status option throws" where
  "extractExplicitTaskStatus section =
     (case re_exec (marker_value status_marker) section of None \<Rightarrow> Inr None
      | Some m \<Rightarrow>
          (let rawStatus = js_trim (group_or_empty m 1)
           in case parse_task_status (normalize_status rawStatus) of
                Some st \<Rightarrow> Inr (Some st)
              | None \<Rightarrow>
                  Inl (''Invalid task status '' @ quoted rawStatus @ ''. Valid statuses: ''
                       @ join_with '', '' (map task_status_str task_status_options))))"

section \<open>The pieces of a task\<close>

definition section_delimiter :: regex where
  "section_delimiter = Seq (chr nl) (Alt (Seq (lit ''##'') ws) (sq [lit ''---'', chr nl]))"

definition findTaskSectionEnd :: "string \<Rightarrow> nat \<Rightarrow> nat \<Rightarrow> nat" where
  "findTaskSectionEnd content taskStart nextTaskIndex =
     min nextTaskIndex
       (case re_exec section_delimiter (drop taskStart content) of
          Some m \<Rightarrow> taskStart + m_index m + 1
        | None \<Rightarrow> length content)"

definition wrong_format_pattern :: regex where
  "wrong_format_pattern =
     sq [StartLine, lit ''###'', plus ws, TASK_HEADING_PREFIX_PATTERN, lit ''Task'', plus ws,
         TASK_ID_PATTERN, chr CHR '':'']"

definition validateTaskFormat :: "string \<Rightarrow> unit throws" where
  "validateTaskFormat content =
     (let wrong = match_all wrong_format_pattern content
      in if wrong \<noteq> [] then
           Inl (''Plan parsing failed: Found '' @ nat_str (length wrong)
                @ '' task(s) using '' @ [squote] @ ''### Task'' @ [squote] @ '' (3 hashes). ''
                @ ''BLUEPRINT plans require '' @ [squote] @ ''#### Task'' @ [squote] @ '' (4 hashes). ''
                @ ''See docs/templates/blueprint.md for correct format.'')
         else Inr ())"

definition taskRegex :: regex where
  "taskRegex =
     sq [StartLine, lit ''####'', plus ws, TASK_HEADING_PREFIX_PATTERN, lit ''Task'', plus ws,
         Grp 1 TASK_ID_PATTERN, chr CHR '':'', star ws, Grp 2 (plus dot), EndLine]"

definition TASK_TYPE_RULES :: "(string list \<times> string) list" where
  "TASK_TYPE_RULES =
     [([''lint'', ''biome''], ''lint-fix''),
      ([''type'', ''tsc'', ''tsgo''], ''typecheck-fix''),
      ([''test'', ''vitest''], ''test-fix''),
      ([''research'', ''investigate''], ''research''),
      ([''verify'', ''check''], ''verify'')]"

definition inferTaskType :: "string \<Rightarrow> string" where
  "inferTaskType desc =
     (case find (\<lambda>r. \<exists>kw\<in>set (fst r). includes_str (js_lower desc) kw) TASK_TYPE_RULES of
        Some r \<Rightarrow> snd r | None \<Rightarrow> ''implement'')"

definition package_name :: regex where
  "package_name = Grp 1 (Seq word_char (star (Cls (\<lambda>c. js_word c \<or> c = CHR ''-''))))"

definition pkgPatterns :: "regex list" where
  "pkgPatterns =
     [sq [WordBd, lit_i ''in'', plus ws, opt (lit_i ''@webpresso/''), package_name],
      sq [WordBd, lit_i ''for'', plus ws, opt (lit_i ''@webpresso/''), package_name],
      Seq (lit ''@webpresso/'') (Grp 1 (plus (Cls (\<lambda>c. js_word c \<or> c = CHR ''-''))))]"

definition filePattern :: regex where
  "filePattern =
     sq [WordBd,
         Grp 1 (sq [plus (Cls (\<lambda>c. js_word c \<or> c \<in> {CHR ''/'', CHR ''.'', CHR ''-''})), chr CHR ''.'',
                    alts (map lit [''ts'', ''tsx'', ''js'', ''jsx'', ''json'', ''md'', ''yaml'', ''yml''])]),
         WordBd]"

fun first_match :: "regex list \<Rightarrow> string \<Rightarrow> rmatch option" where
  "first_match [] s = None"
| "first_match (p # ps) s = (case re_exec p s of Some m \<Rightarrow> Some m | None \<Rightarrow> first_match ps s)"

definition extractTaskMetadata :: "string \<Rightarrow> string option \<times> string option" where
  "extractTaskMetadata desc =
     ((case first_match pkgPatterns desc of None \<Rightarrow> None | Some m \<Rightarrow> group m 1),
      (case re_exec filePattern desc of None \<Rightarrow> None | Some m \<Rightarrow> group m 1))"

definition extractComplexity :: "string \<Rightarrow> string option" where
  "extractComplexity desc =
     (case re_exec
        (sq [lit_i ''[Complexity:'', star ws,
             Grp 1 (alts (map lit_i [''XS'', ''S'', ''M'', ''L'', ''XL''])), lit '']'']) desc of
        None \<Rightarrow> None | Some m \<Rightarrow> map_option js_upper (group m 1))"

definition taskIdRegex :: regex where
  "taskIdRegex =
     Seq (opt (sq [lit_i ''Task'', opt (chr_i CHR ''s''), plus ws])) (Grp 1 TASK_ID_PATTERN)"

definition extractDepends :: "string \<Rightarrow> string list" where
  "extractDepends section =
     (case re_exec (marker_value ''**Depends:**'') section of None \<Rightarrow> []
      | Some m \<Rightarrow>
          (let dependsText = js_trim (group_or_empty m 1)
           in if js_lower dependsText = ''none'' then []
              else filter (\<lambda>i. i \<noteq> []) (map (\<lambda>d. group_or_empty d 1) (match_all taskIdRegex dependsText))))"

definition extractBlocked :: "string \<Rightarrow> string option" where
  "extractBlocked section =
     (case re_exec (marker_value blocked_marker) section of None \<Rightarrow> None
      | Some m \<Rightarrow>
          (let blockedText = js_trim (group_or_empty m 1)
           in if blockedText = [] \<or> js_lower blockedText = ''none'' then None else Some blockedText))"

section \<open>The description\<close>

definition isTaskHeader :: "string \<Rightarrow> bool" where
  "isTaskHeader line =
     re_test (sq [StartText, lit ''####'', plus ws, TASK_HEADING_PREFIX_PATTERN, lit ''Task'',
                  plus ws, TASK_ID_PATTERN, chr CHR '':'']) line"

definition isMetadataLine :: "string \<Rightarrow> bool" where
  "isMetadataLine line =
     re_test (sq [StartText, lit ''**'', alts (map lit_i [''Depends'', ''Blocked'', ''Status'']),
                  lit '':**'']) line"

definition isChecklistItem :: "string \<Rightarrow> bool" where
  "isChecklistItem line =
     re_test (sq [StartText, chr CHR ''-'', star ws, chr CHR ''['', Grp 1 (one_of '' x''), chr CHR '']''])
       line"

definition shouldSkipLine :: "string \<Rightarrow> bool \<Rightarrow> nat \<Rightarrow> bool" where
  "shouldSkipLine line inDescription collectedCount \<longleftrightarrow>
     isTaskHeader line \<or> isMetadataLine line \<or> isChecklistItem line \<or> \<not> inDescription
     \<or> (js_trim line = [] \<and> collectedCount = 0)"

fun description_lines :: "bool \<Rightarrow> string list \<Rightarrow> string list \<Rightarrow> string list" where
  "description_lines inDescription acc [] = acc"
| "description_lines inDescription acc (line # ls) =
     (if isTaskHeader line then description_lines True acc ls
      else if shouldSkipLine line inDescription (length acc) then description_lines inDescription acc ls
      else description_lines inDescription (acc @ [line]) ls)"

definition extractTaskDescription :: "string \<Rightarrow> string option" where
  "extractTaskDescription section =
     (let d = js_trim (join_with [nl] (description_lines False [] (split_char nl section)))
      in if d = [] then None else Some d)"

section \<open>Tasks and phases\<close>

definition or_title :: "string option \<Rightarrow> string \<Rightarrow> string" where
  "or_title d t = (case d of Some x \<Rightarrow> or_else x t | None \<Rightarrow> t)"

definition build_task :: "rmatch \<Rightarrow> string \<Rightarrow> task throws" where
  "build_task m taskSection =
     and_then (extractExplicitTaskStatus taskSection) (\<lambda>explicitStatus.
       (let d = extractDepends taskSection;
            derived = extractCheckboxStatus taskSection;
            description = extractTaskDescription taskSection;
            meta = extractTaskMetadata (or_title description (group_or_empty m 2))
        in Inr \<lparr>t_id = group_or_empty m 1,
                t_title = js_trim (group_or_empty m 2),
                t_status = (case explicitStatus of Some st \<Rightarrow> st | None \<Rightarrow> fst derived),
                statusExplicit = (explicitStatus \<noteq> None),
                depends = (if d = [] then None else Some d),
                blockedReason = extractBlocked taskSection,
                acceptanceCriteria = snd derived,
                t_description = description,
                stepType = inferTaskType (or_title description (group_or_empty m 2)),
                targetPackage = fst meta,
                targetFile = snd meta,
                t_complexity = extractComplexity (or_title description [])\<rparr>))"

definition task_section_of :: "string \<Rightarrow> rmatch \<Rightarrow> rmatch list \<Rightarrow> string" where
  "task_section_of content m later =
     (let taskStart = m_index m;
          nextTaskIndex = (case later of [] \<Rightarrow> length content | n # _ \<Rightarrow> m_index n)
      in take (findTaskSectionEnd content taskStart nextTaskIndex - taskStart) (drop taskStart content))"

fun build_tasks :: "string \<Rightarrow> rmatch list \<Rightarrow> task list throws" where
  "build_tasks content [] = Inr []"
| "build_tasks content (m # ms) =
     and_then (build_task m (task_section_of content m ms)) (\<lambda>t.
       and_then (build_tasks content ms) (\<lambda>ts. Inr (t # ts)))"

definition extractTasks :: "string \<Rightarrow> task list throws" where
  "extractTasks content =
     and_then (validateTaskFormat content) (\<lambda>_. build_tasks content (match_all taskRegex content))"

definition phaseRegex :: regex where
  "phaseRegex =
     sq [StartLine, lit ''###'', plus ws, lit ''Phase'', plus ws, Grp 1 (plus digit), chr CHR '':'',
         star ws, Grp 2 (plus (none_of ''['')), star ws, lit ''[Complexity:'', star ws,
         Grp 3 (plus word_char), lit '']'']"

definition task_phase :: "task \<Rightarrow> nat" where
  "task_phase t = dec_val (hd (split_char (CHR ''.'') (t_id t)))"

definition extractPhases :: "string \<Rightarrow> task list \<Rightarrow> phase list" where
  "extractPhases content allTasks =
     map (\<lambda>m. let n = dec_val (group_or_empty m 1)
              in \<lparr>p_number = n, p_title = js_trim (group_or_empty m 2),
                  p_complexity = (case group m 3 of Some c \<Rightarrow> c | None \<Rightarrow> ''S''),
                  p_tasks = filter (\<lambda>t. task_phase t = n) allTasks\<rparr>)
       (match_all phaseRegex content)"

definition requiresExplicitTaskStatus :: "string \<Rightarrow> bool" where
  "requiresExplicitTaskStatus st \<longleftrightarrow>
     st = ''draft'' \<or> st = ''planned'' \<or> st = ''parked'' \<or> st = ''in-progress''"

definition assertExplicitTaskStatuses :: "task list \<Rightarrow> string \<Rightarrow> string \<Rightarrow> unit throws" where
  "assertExplicitTaskStatuses tasks blueprintStatus blueprintName =
     (if \<not> requiresExplicitTaskStatus blueprintStatus then Inr ()
      else
        (let missing = map t_id (filter (\<lambda>t. \<not> statusExplicit t) tasks)
         in if missing \<noteq> [] then
              Inl (''Blueprint '' @ blueprintName
                   @ '' requires explicit **Status:** on every task. Missing: ''
                   @ join_with '', '' missing)
            else Inr ()))"

end
