(* ===== verification/Blueprint.thy ===== *)
theory Blueprint
  imports TaskParser Json
begin

text \<open>
  Blueprint documents: the front matter schema of \<open>src/blueprint/core/schema.ts\<close>, and
  \<open>parseBlueprint\<close> and \<open>serializeBlueprint\<close> of \<open>core/parser.ts\<close>.  The front matter
  reader and writer (gray-matter) and the text of the errors the schema library (zod) throws are
  the parameter \<open>docs\<close>.
\<close>

section \<open>Front matter values\<close>

text \<open>YAML values: a JSON value, or a date (its \<open>toISOString()\<close> text).\<close>

datatype fm_value = FVal json | FDate string

type_synonym fm = "(string, fm_value) js_map"

text \<open>
  The external functions: \<open>matter\<close> splits a document in data and content or throws,
  \<open>stringify\<close> writes content under data, \<open>schema_error\<close> is the message of the thrown
  \<open>ZodError\<close>.
\<close>

record docs =
  matter :: "string \<Rightarrow> (fm \<times> string) throws"
  stringify :: "string \<Rightarrow> fm \<Rightarrow> string"
  schema_error :: "fm \<Rightarrow> string"

section \<open>The schema\<close>

datatype complexity = C_XS | C_S | C_M | C_L | C_XL

fun complexity_str :: "complexity \<Rightarrow> string" where
  "complexity_str C_XS = ''XS''"
| "complexity_str C_S = ''S''"
| "complexity_str C_M = ''M''"
| "complexity_str C_L = ''L''"
| "complexity_str C_XL = ''XL''"

definition complexity_options :: "complexity list" where
  "complexity_options = [C_XS, C_S, C_M, C_L, C_XL]"

datatype execution_backend = Omx_team | Omx_pll_interactive | Claude_subagent | Codex_exec | Local_worktree

fun backend_str :: "execution_backend \<Rightarrow> string" where
  "backend_str Omx_team = ''omx-team''"
| "backend_str Omx_pll_interactive = ''omx-pll-interactive''"
| "backend_str Claude_subagent = ''claude-subagent''"
| "backend_str Codex_exec = ''codex-exec''"
| "backend_str Local_worktree = ''local-worktree''"

definition backend_options :: "execution_backend list" where
  "backend_options = [Omx_team, Omx_pll_interactive, Claude_subagent, Codex_exec, Local_worktree]"

interpretation complexity_codec: enum_codec complexity_str complexity_options
proof unfold_locales
  show "complexity_str a = complexity_str b \<longleftrightarrow> a = b" for a b by (cases a; cases b) auto
  show "a \<in> set complexity_options" for a by (cases a) (auto simp: complexity_options_def)
qed

interpretation backend_codec: enum_codec backend_str backend_options
proof unfold_locales
  show "backend_str a = backend_str b \<longleftrightarrow> a = b" for a b by (cases a; cases b) auto
  show "a \<in> set backend_options" for a by (cases a) (auto simp: backend_options_def)
qed

datatype blueprint_type = Blueprint_doc | Parent_roadmap

fun type_str :: "blueprint_type \<Rightarrow> string" where
  "type_str Blueprint_doc = ''blueprint''"
| "type_str Parent_roadmap = ''parent-roadmap''"

text \<open>The kinds of field a schema object declares.\<close>

definition is_string :: "fm_value \<Rightarrow> bool" where
  "is_string v = (case v of FVal (JStr _) \<Rightarrow> True | _ \<Rightarrow> False)"

definition is_string_or_date :: "fm_value \<Rightarrow> bool" where
  "is_string_or_date v = (case v of FDate _ \<Rightarrow> True | FVal (JStr _) \<Rightarrow> True | _ \<Rightarrow> False)"

definition is_number :: "fm_value \<Rightarrow> bool" where
  "is_number v = (case v of FVal (JNum _) \<Rightarrow> True | FVal (JFrac _) \<Rightarrow> True | _ \<Rightarrow> False)"

definition json_is_str :: "json \<Rightarrow> bool" where
  "json_is_str v = (case v of JStr _ \<Rightarrow> True | _ \<Rightarrow> False)"

definition is_strings :: "fm_value \<Rightarrow> bool" where
  "is_strings v = (case v of FVal (JArr vs) \<Rightarrow> list_all json_is_str vs | _ \<Rightarrow> False)"

definition is_enum :: "string list \<Rightarrow> fm_value \<Rightarrow> bool" where
  "is_enum opts v = (case v of FVal (JStr s) \<Rightarrow> s \<in> set opts | _ \<Rightarrow> False)"

definition nonempty_str :: "json option \<Rightarrow> bool" where
  "nonempty_str v = (case v of Some (JStr s) \<Rightarrow> s \<noteq> [] | _ \<Rightarrow> False)"

definition crossRepoDependencySchema :: "json \<Rightarrow> bool" where
  "crossRepoDependencySchema v =
     (case v of
        JObj ms \<Rightarrow>
          nonempty_str (map_get ms ''repo'') \<and> nonempty_str (map_get ms ''slug'')
          \<and> (case map_get ms ''require_status'' of None \<Rightarrow> True
             | Some r \<Rightarrow> is_enum (map status_str lifecycle_options) (FVal r))
      | _ \<Rightarrow> False)"

definition is_dependencies :: "fm_value \<Rightarrow> bool" where
  "is_dependencies v = (case v of FVal (JArr vs) \<Rightarrow> list_all crossRepoDependencySchema vs | _ \<Rightarrow> False)"

definition field_ok :: "(fm_value \<Rightarrow> bool) \<Rightarrow> fm \<Rightarrow> string \<Rightarrow> bool" where
  "field_ok p d k = (case map_get d k of None \<Rightarrow> False | Some v \<Rightarrow> p v)"

definition optional_ok :: "(fm_value \<Rightarrow> bool) \<Rightarrow> fm \<Rightarrow> string \<Rightarrow> bool" where
  "optional_ok p d k = (case map_get d k of None \<Rightarrow> True | Some v \<Rightarrow> p v)"

definition planFrontmatterSchema :: "fm \<Rightarrow> bool" where
  "planFrontmatterSchema d \<longleftrightarrow>
     field_ok (is_enum [''blueprint'', ''parent-roadmap'']) d ''type''
     \<and> field_ok (is_enum (map status_str lifecycle_options)) d ''status''
     \<and> optional_ok (is_enum (map complexity_str complexity_options)) d ''complexity''
     \<and> list_all (optional_ok is_string d)
         [''title'', ''description'', ''progress'', ''execution_id'', ''execution_log_path'',
          ''worktree_owner_id'', ''worktree_owner_branch'', ''parent_roadmap'']
     \<and> list_all (optional_ok is_string_or_date d)
         [''last_updated'', ''created'', ''completed_at'', ''execution_updated_at'']
     \<and> optional_ok (is_enum (map backend_str backend_options)) d ''execution_backend''
     \<and> optional_ok (is_enum (map execution_status_str execution_status_options)) d ''execution_status''
     \<and> list_all (optional_ok is_strings d)
         [''execution_verifications'', ''execution_artifacts'', ''depends_on'', ''tags'']
     \<and> optional_ok is_number d ''max_parallel_agents''
     \<and> optional_ok is_dependencies d ''cross_repo_depends_on''"

section \<open>The blueprint\<close>

record blueprint =
  b_name :: string
  b_type :: string
  b_title :: string
  b_status :: string
  b_complexity :: string
  b_description :: "string option"
  lastUpdated :: string
  created :: "string option"
  progress :: "string option"
  completedAt :: "string option"
  worktreeOwnerId :: "string option"
  worktreeOwnerBranch :: "string option"
  parentRoadmap :: "string option"
  dependsOn :: "string list option"
  tags :: "string list option"
  b_tasks :: "task list"
  phases :: "phase list"
  raw :: string

definition fm_str :: "fm \<Rightarrow> string \<Rightarrow> string option" where
  "fm_str d k = (case map_get d k of Some (FVal (JStr s)) \<Rightarrow> Some s | _ \<Rightarrow> None)"

text \<open>A date field: the day of a date, a string as it is.\<close>

definition fm_day :: "fm \<Rightarrow> string \<Rightarrow> string option" where
  "fm_day d k =
     (case map_get d k of
        Some (FDate day) \<Rightarrow> Some (hd (split_char (CHR ''T'') day))
      | Some (FVal (JStr s)) \<Rightarrow> Some s
      | _ \<Rightarrow> None)"

definition fm_strings :: "fm \<Rightarrow> string \<Rightarrow> string list option" where
  "fm_strings d k =
     (case map_get d k of
        Some (FVal (JArr vs)) \<Rightarrow>
          Some (concat (map (\<lambda>v. case v of JStr s \<Rightarrow> [s] | _ \<Rightarrow> []) vs))
      | _ \<Rightarrow> None)"

definition keep_truthy :: "string option \<Rightarrow> string option" where
  "keep_truthy s = (if truthy s then s else None)"

definition keep_nonempty :: "'a list option \<Rightarrow> 'a list option" where
  "keep_nonempty xs = (case xs of Some (x # ys) \<Rightarrow> Some (x # ys) | _ \<Rightarrow> None)"

definition title_heading :: regex where
  "title_heading = sq [StartLine, lit ''# '', Grp 1 (plus dot), EndLine]"

definition document_title :: "fm \<Rightarrow> string \<Rightarrow> string \<Rightarrow> string" where
  "document_title d content name =
     (case fm_str d ''title'' of Some t \<Rightarrow> t
      | None \<Rightarrow> (case re_exec title_heading content of
                    Some m \<Rightarrow> js_trim (group_or_empty m 1) | None \<Rightarrow> name))"

definition document_status :: "fm \<Rightarrow> string" where
  "document_status d = (case fm_str d ''status'' of Some s \<Rightarrow> s | None \<Rightarrow> [])"

definition parseWithSchema :: "docs \<Rightarrow> string \<Rightarrow> (fm \<times> string) throws" where
  "parseWithSchema dx markdown =
     and_then (matter dx markdown) (\<lambda>(rawData, content).
       if planFrontmatterSchema rawData then Inr (rawData, content)
       else Inl (schema_error dx rawData))"

definition build_blueprint :: "string \<Rightarrow> string \<Rightarrow> fm \<Rightarrow> string \<Rightarrow> task list \<Rightarrow> blueprint" where
  "build_blueprint markdown name d content tasks =
     \<lparr>b_name = name,
      b_type = (case fm_str d ''type'' of Some t \<Rightarrow> t | None \<Rightarrow> []),
      b_title = document_title d content name,
      b_status = document_status d,
      b_complexity = (case fm_str d ''complexity'' of Some c \<Rightarrow> c | None \<Rightarrow> ''M''),
      b_description =
        (case fm_str d ''description'' of Some x \<Rightarrow> Some x
         | None \<Rightarrow> (case tasks of [] \<Rightarrow> None | t # _ \<Rightarrow> t_description t)),
      lastUpdated = (case fm_day d ''last_updated'' of Some x \<Rightarrow> x | None \<Rightarrow> []),
      created = keep_truthy (fm_day d ''created''),
      progress = (case fm_str d ''progress'' of Some p \<Rightarrow> if js_trim p = [] then None else Some p
                  | None \<Rightarrow> None),
      completedAt = keep_truthy (fm_day d ''completed_at''),
      worktreeOwnerId = keep_truthy (fm_str d ''worktree_owner_id''),
      worktreeOwnerBranch = keep_truthy (fm_str d ''worktree_owner_branch''),
      parentRoadmap = keep_truthy (map_option js_trim (fm_str d ''parent_roadmap'')),
      dependsOn = keep_nonempty (fm_strings d ''depends_on''),
      tags = keep_nonempty (fm_strings d ''tags''),
      b_tasks = tasks,
      phases = extractPhases content tasks,
      raw = markdown\<rparr>"

definition parseBlueprint :: "docs \<Rightarrow> string \<Rightarrow> string \<Rightarrow> blueprint throws" where
  "parseBlueprint dx markdown name =
     and_then (parseWithSchema dx markdown) (\<lambda>(d, content).
       and_then (extractTasks content) (\<lambda>tasks.
         and_then (assertExplicitTaskStatuses tasks (document_status d) name) (\<lambda>_.
           Inr (build_blueprint markdown name d content tasks))))"

section \<open>Writing a blueprint back\<close>

definition quoteGeneratedProgressScalar :: "string \<Rightarrow> string option \<Rightarrow> string" where
  "quoteGeneratedProgressScalar serialized prog =
     (if \<not> truthy prog then serialized
      else
        (let escaped = concat (map (\<lambda>c. if c = squote then [squote, squote] else [c]) (the prog))
         in replace_with (sq [StartLine, lit ''progress: '', plus dot, EndLine])
              (''progress: '' @ [squote] @ escaped @ [squote]) serialized))"

definition put_str :: "string \<Rightarrow> string \<Rightarrow> fm \<Rightarrow> fm" where
  "put_str k v d = map_set k (FVal (JStr v)) d"

definition put_if :: "string \<Rightarrow> string \<Rightarrow> fm \<Rightarrow> fm" where
  "put_if k v d = (if v = [] then d else put_str k v d)"

definition put_or_delete :: "string \<Rightarrow> string option \<Rightarrow> fm \<Rightarrow> fm" where
  "put_or_delete k v d = (if truthy v then put_str k (the v) d else map_delete k d)"

definition serializeBlueprint :: "docs \<Rightarrow> blueprint \<Rightarrow> string throws" where
  "serializeBlueprint dx bp =
     and_then (matter dx (raw bp)) (\<lambda>(data, content).
       (let d1 = put_if ''status'' (b_status bp) data;
            d2 = put_if ''complexity'' (b_complexity bp) d1;
            d3 = put_if ''last_updated'' (lastUpdated bp) d2;
            d4 = put_or_delete ''progress'' (progress bp) d3;
            d5 = put_or_delete ''completed_at'' (completedAt bp) d4;
            cleanedData = map_delete ''task_statuses'' (map_delete ''tasks'' d5)
        in Inr (quoteGeneratedProgressScalar (stringify dx content cleanedData) (progress bp))))"

section \<open>Lemmas\<close>

lemma keep_truthy_Some: "keep_truthy s = Some x \<longleftrightarrow> s = Some x \<and> x \<noteq> []"
  by (auto simp: keep_truthy_def truthy_def split: option.splits)

lemma parseBlueprint_Inr:
  assumes "parseBlueprint dx md name = Inr bp"
  obtains d content tasks where "matter dx md = Inr (d, content)" "planFrontmatterSchema d"
    "extractTasks content = Inr tasks"
    "assertExplicitTaskStatuses tasks (document_status d) name = Inr ()"
    "bp = build_blueprint md name d content tasks"
  using assms by (auto simp: parseBlueprint_def parseWithSchema_def and_then_Inr_iff split: if_splits)

lemma schema_status:
  assumes "planFrontmatterSchema d"
  shows "\<exists>s. document_status d = status_str s"
  using assms
  by (auto simp: planFrontmatterSchema_def field_ok_def is_enum_def document_status_def fm_str_def
      split: option.splits fm_value.splits json.splits)

lemma build_blueprint_simps [simp]:
  "b_name (build_blueprint md n d c ts) = n"
  "b_status (build_blueprint md n d c ts) = document_status d"
  "b_tasks (build_blueprint md n d c ts) = ts"
  "raw (build_blueprint md n d c ts) = md"
  by (simp_all add: build_blueprint_def)

text \<open>A parsed blueprint has a lifecycle status, whatever the document.\<close>

lemma parsed_status: "parseBlueprint dx md n = Inr bp \<Longrightarrow> \<exists>s. b_status bp = status_str s"
  by (elim parseBlueprint_Inr) (simp add: schema_status)

end
