(* ===== verification/Evidence.thy ===== *)
theory Evidence
  imports Json
begin

text \<open>
  The evidence contract of \<open>src/blueprint/evidence.ts\<close>: the schemas as checks that list
  their issues, the parsed evidence, and its canonical text.  The schema library (zod) supplies
  the wording of its own issues and \<open>Date.parse\<close> decides which time stamps are dates: both
  are in the parameter \<open>zenv\<close>.
\<close>

section \<open>Issues\<close>

datatype builtin_issue =
    Invalid_type string | Invalid_option "string list" | Too_small | Unsafe_integer
  | Unrecognized_keys "string list" | Invalid_discriminator

datatype issue_message = Custom string | Builtin builtin_issue

type_synonym issue = "string list \<times> issue_message"

record zenv =
  issue_text :: "builtin_issue \<Rightarrow> string"
  zod_message :: "issue list \<Rightarrow> string"      \<comment> \<open>the message of a thrown \<open>ZodError\<close>\<close>
  date_parses :: "string \<Rightarrow> bool"

text \<open>
  A failed constraint on a value of the right type does not stop the later refinements of
  the object; a wrong type does.
\<close>

definition continues :: "issue \<Rightarrow> bool" where
  "continues i =
     (case snd i of Custom _ \<Rightarrow> True | Builtin Too_small \<Rightarrow> True | Builtin Unsafe_integer \<Rightarrow> True
      | Builtin _ \<Rightarrow> False)"

type_synonym check = "json option \<Rightarrow> issue list"

definition string_check :: check where
  "string_check v = (case v of Some (JStr _) \<Rightarrow> [] | _ \<Rightarrow> [([], Builtin (Invalid_type ''string''))])"

definition string_min1 :: check where
  "string_min1 v =
     (case v of Some (JStr s) \<Rightarrow> if s = [] then [([], Builtin Too_small)] else []
      | _ \<Rightarrow> [([], Builtin (Invalid_type ''string''))])"

definition optional :: "check \<Rightarrow> check" where
  "optional c v = (if v = None then [] else c v)"

definition enum_check :: "string list \<Rightarrow> check" where
  "enum_check opts v =
     (case v of Some (JStr s) \<Rightarrow> if s \<in> set opts then [] else [([], Builtin (Invalid_option opts))]
      | _ \<Rightarrow> [([], Builtin (Invalid_option opts))])"

definition max_safe_integer :: int where
  "max_safe_integer = 9007199254740991"

definition int_check :: check where
  "int_check v =
     (case v of
        Some (JNum i) \<Rightarrow> if \<bar>i\<bar> \<le> max_safe_integer then [] else [([], Builtin Unsafe_integer)]
      | Some (JFrac _) \<Rightarrow> [([], Builtin (Invalid_type ''int''))]
      | _ \<Rightarrow> [([], Builtin (Invalid_type ''number''))])"

definition bool_check :: check where
  "bool_check v = (case v of Some (JBool _) \<Rightarrow> [] | _ \<Rightarrow> [([], Builtin (Invalid_type ''boolean''))])"

definition true_literal :: check where
  "true_literal v =
     (case v of Some (JBool True) \<Rightarrow> [] | _ \<Rightarrow> [([], Builtin (Invalid_option [''true'']))])"

definition ts_check :: "zenv \<Rightarrow> check" where
  "ts_check ze v =
     (case v of
        Some (JStr s) \<Rightarrow>
          if date_parses ze s then [] else [([], Custom ''ts must be an ISO 8601 date-time string'')]
      | _ \<Rightarrow> [([], Builtin (Invalid_type ''string''))])"

definition MANUAL_LOG_MAX_BYTES :: nat where
  "MANUAL_LOG_MAX_BYTES = 4096"

definition log_check :: check where
  "log_check v =
     string_min1 v
     @ (case v of
          Some (JStr s) \<Rightarrow>
            if length s \<le> MANUAL_LOG_MAX_BYTES then []
            else [([], Custom (''log_excerpt must be '' @ [CHR 0xE2, CHR 0x89, CHR 0xA4] @ '' ''
                               @ nat_str MANUAL_LOG_MAX_BYTES @ '' bytes''))]
        | _ \<Rightarrow> [])"

definition indexed_issues :: "('a \<Rightarrow> issue list) \<Rightarrow> 'a list \<Rightarrow> issue list" where
  "indexed_issues f xs =
     concat (map (\<lambda>(i, x). map (\<lambda>(p, m). (nat_str i # p, m)) (f x)) (zip [0..<length xs] xs))"

definition strings_min1 :: check where
  "strings_min1 v =
     (case v of
        Some (JArr vs) \<Rightarrow>
          indexed_issues (\<lambda>x. string_min1 (Some x)) vs
          @ (if vs = [] then [([], Builtin Too_small)] else [])
      | _ \<Rightarrow> [([], Builtin (Invalid_type ''array''))])"

section \<open>The schemas\<close>

type_synonym shape = "(string \<times> check) list"

definition shape_issues :: "shape \<Rightarrow> (string \<times> json) list \<Rightarrow> issue list" where
  "shape_issues sh ms = concat (map (\<lambda>(k, c). map (\<lambda>(p, m). (k # p, m)) (c (map_get ms k))) sh)"

text \<open>\<open>z.object(shape).strict()\<close>\<close>

definition strict_issues :: "shape \<Rightarrow> (string \<times> json) list \<Rightarrow> issue list" where
  "strict_issues sh ms =
     (let unknown = filter (\<lambda>k. k \<notin> fst ` set sh) (map_keys ms)
      in shape_issues sh ms @ (if unknown = [] then [] else [([], Builtin (Unrecognized_keys unknown))]))"

definition refine :: "issue list \<Rightarrow> issue list \<Rightarrow> issue list" where
  "refine is extra = (if list_all continues is then is @ extra else is)"

definition kind_field :: shape where
  "kind_field = [(''kind'', string_check)]"

definition baseFields :: "zenv \<Rightarrow> shape" where
  "baseFields ze =
     [(''result'', enum_check [''pass'', ''fail'']), (''ts'', ts_check ze),
      (''agent'', optional string_min1)]"

definition commandExitCodeFields :: shape where
  "commandExitCodeFields = [(''command'', string_min1), (''exit_code'', int_check)]"

definition passing :: "(string \<times> json) list \<Rightarrow> bool" where
  "passing ms \<longleftrightarrow> map_get ms ''result'' = Some (JStr ''pass'')"

definition testEvidenceSchema :: "zenv \<Rightarrow> (string \<times> json) list \<Rightarrow> issue list" where
  "testEvidenceSchema ze ms =
     refine (strict_issues (kind_field @ baseFields ze @ commandExitCodeFields) ms)
       (if passing ms \<and> map_get ms ''exit_code'' \<noteq> Some (JNum 0)
        then [([''exit_code''], Custom ''passing test evidence requires exit_code === 0'')] else [])"

definition integrationEvidenceSchema :: "zenv \<Rightarrow> (string \<times> json) list \<Rightarrow> issue list" where
  "integrationEvidenceSchema ze ms =
     refine
       (strict_issues
          (kind_field @ baseFields ze @ commandExitCodeFields @ [(''target_files'', strings_min1)]) ms)
       (if passing ms \<and> map_get ms ''exit_code'' \<noteq> Some (JNum 0)
        then [([''exit_code''], Custom ''passing integration evidence requires exit_code === 0'')]
        else [])"

definition auditEvidenceSchema :: "zenv \<Rightarrow> (string \<times> json) list \<Rightarrow> issue list" where
  "auditEvidenceSchema ze ms =
     refine
       (strict_issues
          (kind_field @ baseFields ze
           @ [(''audit_kind'', string_min1), (''passed'', bool_check),
              (''command'', optional string_min1), (''exit_code'', optional int_check)]) ms)
       (if passing ms \<and> map_get ms ''passed'' \<noteq> Some (JBool True)
        then [([''passed''], Custom ''passing audit evidence requires passed: true'')] else [])"

definition manualEvidenceSchema :: "zenv \<Rightarrow> (string \<times> json) list \<Rightarrow> issue list" where
  "manualEvidenceSchema ze ms =
     strict_issues
       (kind_field @ baseFields ze
        @ [(''actor'', string_min1), (''description'', string_min1), (''allow_manual'', true_literal),
           (''log_excerpt'', log_check)]) ms"

text \<open>The discriminated union over \<open>kind\<close>.\<close>

definition evidenceSchema :: "zenv \<Rightarrow> json \<Rightarrow> issue list" where
  "evidenceSchema ze v =
     (case v of
        JObj ms \<Rightarrow>
          (case map_get ms ''kind'' of
             Some (JStr k) \<Rightarrow>
               if k = ''test'' then testEvidenceSchema ze ms
               else if k = ''integration'' then integrationEvidenceSchema ze ms
               else if k = ''audit'' then auditEvidenceSchema ze ms
               else if k = ''manual'' then manualEvidenceSchema ze ms
               else [([''kind''], Builtin Invalid_discriminator)]
           | _ \<Rightarrow> [([''kind''], Builtin Invalid_discriminator)])
      | _ \<Rightarrow> [([], Builtin (Invalid_type ''object''))])"

definition evidence_list_issues :: "zenv \<Rightarrow> json \<Rightarrow> issue list" where
  "evidence_list_issues ze v =
     (case v of
        JArr vs \<Rightarrow>
          indexed_issues (evidenceSchema ze) vs @ (if vs = [] then [([], Builtin Too_small)] else [])
      | _ \<Rightarrow> [([], Builtin (Invalid_type ''array''))])"

section \<open>Parsed evidence\<close>

datatype outcome = Pass | Fail

fun outcome_str :: "outcome \<Rightarrow> string" where
  "outcome_str Pass = ''pass''"
| "outcome_str Fail = ''fail''"

record evidence_base =
  e_result :: outcome
  e_ts :: string
  e_agent :: "string option"

datatype evidence =
    Test_evidence evidence_base string int
  | Integration_evidence evidence_base string int "string list"
  | Audit_evidence evidence_base string bool "string option" "int option"
  | Manual_evidence evidence_base string string string

fun base_of :: "evidence \<Rightarrow> evidence_base" where
  "base_of (Test_evidence b c x) = b"
| "base_of (Integration_evidence b c x fs) = b"
| "base_of (Audit_evidence b k p c x) = b"
| "base_of (Manual_evidence b a d l) = b"

definition result_of :: "evidence \<Rightarrow> outcome" where
  "result_of e = e_result (base_of e)"

fun kind_of :: "evidence \<Rightarrow> string" where
  "kind_of (Test_evidence b c x) = ''test''"
| "kind_of (Integration_evidence b c x fs) = ''integration''"
| "kind_of (Audit_evidence b k p c x) = ''audit''"
| "kind_of (Manual_evidence b a d l) = ''manual''"

text \<open>The fields of a value that has no issue.\<close>

definition get_str :: "(string \<times> json) list \<Rightarrow> string \<Rightarrow> string" where
  "get_str ms k = (case map_get ms k of Some (JStr s) \<Rightarrow> s | _ \<Rightarrow> [])"

definition get_int :: "(string \<times> json) list \<Rightarrow> string \<Rightarrow> int" where
  "get_int ms k = (case map_get ms k of Some (JNum i) \<Rightarrow> i | _ \<Rightarrow> 0)"

definition opt_str :: "(string \<times> json) list \<Rightarrow> string \<Rightarrow> string option" where
  "opt_str ms k = (case map_get ms k of Some (JStr s) \<Rightarrow> Some s | _ \<Rightarrow> None)"

definition opt_int :: "(string \<times> json) list \<Rightarrow> string \<Rightarrow> int option" where
  "opt_int ms k = (case map_get ms k of Some (JNum i) \<Rightarrow> Some i | _ \<Rightarrow> None)"

definition get_strs :: "(string \<times> json) list \<Rightarrow> string \<Rightarrow> string list" where
  "get_strs ms k =
     (case map_get ms k of
        Some (JArr vs) \<Rightarrow> concat (map (\<lambda>v. case v of JStr s \<Rightarrow> [s] | _ \<Rightarrow> []) vs) | _ \<Rightarrow> [])"

definition read_base :: "(string \<times> json) list \<Rightarrow> evidence_base" where
  "read_base ms =
     \<lparr>e_result = (if passing ms then Pass else Fail), e_ts = get_str ms ''ts'',
      e_agent = opt_str ms ''agent''\<rparr>"

definition read_evidence :: "json \<Rightarrow> evidence" where
  "read_evidence v =
     (case v of
        JObj ms \<Rightarrow>
          (let k = get_str ms ''kind''
           in if k = ''test'' then
                Test_evidence (read_base ms) (get_str ms ''command'') (get_int ms ''exit_code'')
              else if k = ''integration'' then
                Integration_evidence (read_base ms) (get_str ms ''command'') (get_int ms ''exit_code'')
                  (get_strs ms ''target_files'')
              else if k = ''audit'' then
                Audit_evidence (read_base ms) (get_str ms ''audit_kind'')
                  (map_get ms ''passed'' = Some (JBool True)) (opt_str ms ''command'')
                  (opt_int ms ''exit_code'')
              else
                Manual_evidence (read_base ms) (get_str ms ''actor'') (get_str ms ''description'')
                  (get_str ms ''log_excerpt''))
      | _ \<Rightarrow> Manual_evidence (read_base []) [] [] [])"

text \<open>\<open>evidenceListSchema.safeParse\<close>: the issues, or the parsed list.\<close>

definition evidenceListSchema :: "zenv \<Rightarrow> json \<Rightarrow> issue list + evidence list" where
  "evidenceListSchema ze v =
     (if evidence_list_issues ze v \<noteq> [] then Inl (evidence_list_issues ze v)
      else (case v of JArr vs \<Rightarrow> Inr (map read_evidence vs) | _ \<Rightarrow> Inr []))"

section \<open>Canonical text\<close>

definition opt_field :: "string \<Rightarrow> json option \<Rightarrow> (string \<times> json) list" where
  "opt_field k v = (case v of None \<Rightarrow> [] | Some x \<Rightarrow> [(k, x)])"

definition base_members :: "evidence_base \<Rightarrow> (string \<times> json) list" where
  "base_members b =
     [(''result'', JStr (outcome_str (e_result b))), (''ts'', JStr (e_ts b))]
     @ opt_field ''agent'' (map_option JStr (e_agent b))"

fun evidence_members :: "evidence \<Rightarrow> (string \<times> json) list" where
  "evidence_members (Test_evidence b c x) =
     [(''kind'', JStr ''test'')] @ base_members b @ [(''command'', JStr c), (''exit_code'', JNum x)]"
| "evidence_members (Integration_evidence b c x fs) =
     [(''kind'', JStr ''integration'')] @ base_members b
     @ [(''command'', JStr c), (''exit_code'', JNum x), (''target_files'', JArr (map JStr fs))]"
| "evidence_members (Audit_evidence b k p c x) =
     [(''kind'', JStr ''audit'')] @ base_members b
     @ [(''audit_kind'', JStr k), (''passed'', JBool p)]
     @ opt_field ''command'' (map_option JStr c) @ opt_field ''exit_code'' (map_option JNum x)"
| "evidence_members (Manual_evidence b a d l) =
     [(''kind'', JStr ''manual'')] @ base_members b
     @ [(''actor'', JStr a), (''description'', JStr d), (''allow_manual'', JBool True),
        (''log_excerpt'', JStr l)]"

definition evidence_json :: "evidence \<Rightarrow> json" where
  "evidence_json e = JObj (evidence_members e)"

definition key_cmp :: "(string \<times> json) \<Rightarrow> (string \<times> json) \<Rightarrow> int" where
  "key_cmp a b = code_unit_cmp (fst a) (fst b)"

interpretation key_order: comparator key_cmp
  by unfold_locales (auto simp: key_cmp_def code_unit_cmp_def split: if_splits)

fun sortKeys :: "json \<Rightarrow> json" where
  "sortKeys (JArr vs) = JArr (map sortKeys vs)"
| "sortKeys (JObj ms) = JObj (js_sort key_cmp (map (\<lambda>(k, v). (k, sortKeys v)) ms))"
| "sortKeys v = v"

definition canonicalizeEvidence :: "evidence \<Rightarrow> string" where
  "canonicalizeEvidence e = json_str (sortKeys (evidence_json e))"

definition canonicalizeEvidenceList :: "evidence list \<Rightarrow> string" where
  "canonicalizeEvidenceList es = json_str (JArr (map (\<lambda>e. sortKeys (evidence_json e)) es))"

section \<open>Lemmas\<close>

lemma map_get_perm:
  assumes "distinct (map fst ms)" and "mset ms' = mset ms"
  shows "map_get ms' k = map_get ms k"
proof -
  have "mset (map fst ms') = mset (map fst ms)" using assms(2) by simp
  then have "distinct (map fst ms')" using assms(1) by (metis mset_eq_imp_distinct_iff)
  moreover have "set ms' = set ms" using assms(2) by (rule mset_eq_setD)
  ultimately show ?thesis using assms(1) unfolding map_get_def by (metis map_of_inject_set)
qed

lemma evidence_members_distinct: "distinct (map fst (evidence_members e))"
  by (cases e) (auto simp: base_members_def opt_field_def split: option.splits)

lemma sortKeys_evidence: "sortKeys (evidence_json e) = JObj (js_sort key_cmp (evidence_members e))"
proof -
  have "map (\<lambda>(k, v). (k, sortKeys v)) (evidence_members e) = evidence_members e"
    by (cases e) (auto simp: base_members_def opt_field_def split: option.splits)
  then show ?thesis by (simp add: evidence_json_def)
qed

lemma map_get_sorted_members: "map_get (js_sort key_cmp (evidence_members e)) k = map_get (evidence_members e) k"
  by (rule map_get_perm) (simp_all add: evidence_members_distinct)

lemma read_base_cong: "(\<And>k. map_get ms' k = map_get ms k) \<Longrightarrow> read_base ms' = read_base ms"
  by (simp add: read_base_def passing_def get_str_def opt_str_def)

lemma read_evidence_cong:
  assumes "\<And>k. map_get ms' k = map_get ms k"
  shows "read_evidence (JObj ms') = read_evidence (JObj ms)"
proof -
  have "read_base ms' = read_base ms" by (rule read_base_cong) (rule assms)
  moreover have "get_str ms' = get_str ms" "get_int ms' = get_int ms" "get_strs ms' = get_strs ms"
    "opt_str ms' = opt_str ms" "opt_int ms' = opt_int ms"
    by (simp_all add: fun_eq_iff assms get_str_def get_int_def get_strs_def opt_str_def opt_int_def)
  ultimately show ?thesis by (simp only: read_evidence_def json.case assms)
qed

lemma concat_map_str: "concat (map (\<lambda>v. case v of JStr s \<Rightarrow> [s] | _ \<Rightarrow> []) (map JStr fs)) = fs"
  by (induction fs) auto

lemma read_evidence_json: "read_evidence (evidence_json e) = e"
proof -
  have base: "read_base ms = b"
    if "map_get ms ''result'' = Some (JStr (outcome_str (e_result b)))"
      and "map_get ms ''ts'' = Some (JStr (e_ts b))"
      and "map_get ms ''agent'' = map_option JStr (e_agent b)" for ms b
    using that by (cases "e_result b"; cases "e_agent b")
      (auto simp: read_base_def passing_def get_str_def opt_str_def)
  show ?thesis
  proof (cases e)
    case (Test_evidence b c x)
    moreover have "read_base (evidence_members e) = b"
      by (rule base) (auto simp: Test_evidence map_get_def base_members_def opt_field_def split: option.splits)
    ultimately show ?thesis
      by (auto simp: read_evidence_def evidence_json_def get_str_def get_int_def map_get_def
          base_members_def opt_field_def split: option.splits)
  next
    case (Integration_evidence b c x fs)
    moreover have "read_base (evidence_members e) = b"
      by (rule base) (auto simp: Integration_evidence map_get_def base_members_def opt_field_def split: option.splits)
    ultimately show ?thesis
      using concat_map_str [of fs]
      by (auto simp: read_evidence_def evidence_json_def get_str_def get_int_def get_strs_def
          map_get_def base_members_def opt_field_def simp del: map_map split: option.splits)
  next
    case (Audit_evidence b k p c x)
    moreover have "read_base (evidence_members e) = b"
      by (rule base) (auto simp: Audit_evidence map_get_def base_members_def opt_field_def split: option.splits)
    ultimately show ?thesis
      by (auto simp: read_evidence_def evidence_json_def get_str_def opt_str_def opt_int_def
          map_get_def base_members_def opt_field_def split: option.splits)
  next
    case (Manual_evidence b a d l)
    moreover have "read_base (evidence_members e) = b"
      by (rule base) (auto simp: Manual_evidence map_get_def base_members_def opt_field_def split: option.splits)
    ultimately show ?thesis
      by (auto simp: read_evidence_def evidence_json_def get_str_def map_get_def
          base_members_def opt_field_def split: option.splits)
  qed
qed

lemma read_sorted_evidence: "read_evidence (sortKeys (evidence_json e)) = e"
  using read_evidence_cong [OF map_get_sorted_members, of e] read_evidence_json [of e]
  by (simp only: sortKeys_evidence) (simp only: evidence_json_def)

lemma json_ok_members: "\<forall>m\<in>set (evidence_members e). json_ok (snd m)"
  by (cases e) (auto simp: base_members_def opt_field_def split: option.splits)

lemma json_ok_sorted_evidence: "json_ok (sortKeys (evidence_json e))"
proof -
  have "mset (map fst (js_sort key_cmp (evidence_members e))) = mset (map fst (evidence_members e))"
    by simp
  then have "distinct (map fst (js_sort key_cmp (evidence_members e)))"
    using evidence_members_distinct by (metis mset_eq_imp_distinct_iff)
  with json_ok_members show ?thesis by (auto simp: sortKeys_evidence)
qed

text \<open>No issue: every declared field passes its check and no other key is there.\<close>

lemma strict_issues_Nil:
  "strict_issues sh ms = [] \<longleftrightarrow>
     (\<forall>(k, c)\<in>set sh. c (map_get ms k) = []) \<and> set (map_keys ms) \<subseteq> fst ` set sh"
  by (auto simp: strict_issues_def shape_issues_def filter_empty_conv Let_def)

lemma refine_Nil: "refine is extra = [] \<longleftrightarrow> is = [] \<and> extra = []"
  by (auto simp: refine_def)

lemma strict_issues_cong:
  assumes "\<And>k. map_get ms' k = map_get ms k"
  shows "strict_issues sh ms' = [] \<longleftrightarrow> strict_issues sh ms = []"
proof -
  have "set (map_keys ms') = set (map_keys ms)"
    using assms by (auto simp: map_keys_has map_has_iff)
  with assms show ?thesis by (simp add: strict_issues_Nil)
qed

lemma evidenceSchema_cong:
  assumes "\<And>k. map_get ms' k = map_get ms k"
  shows "evidenceSchema ze (JObj ms') = [] \<longleftrightarrow> evidenceSchema ze (JObj ms) = []"
  using assms strict_issues_cong [OF assms]
  by (auto simp: evidenceSchema_def testEvidenceSchema_def integrationEvidenceSchema_def
      auditEvidenceSchema_def manualEvidenceSchema_def refine_Nil passing_def
      split: option.splits json.splits)

definition evidence_ok :: "zenv \<Rightarrow> evidence \<Rightarrow> bool" where
  "evidence_ok ze e \<longleftrightarrow> evidenceSchema ze (evidence_json e) = []"

lemma sorted_evidence_ok:
  "evidenceSchema ze (sortKeys (evidence_json e)) = [] \<longleftrightarrow> evidence_ok ze e"
  using evidenceSchema_cong [OF map_get_sorted_members, of ze e]
  by (simp only: sortKeys_evidence evidence_ok_def) (simp only: evidence_json_def)

lemma indexed_issues_Nil: "indexed_issues f xs = [] \<longleftrightarrow> (\<forall>x\<in>set xs. f x = [])"
proof -
  have "snd ` set (zip [0..<length xs] xs) = set xs"
    using map_snd_zip [of "[0..<length xs]" xs] by (metis diff_zero length_upt list.set_map)
  then show ?thesis by (force simp: indexed_issues_def)
qed

lemma evidence_list_ok:
  "evidence_list_issues ze (JArr vs) = [] \<longleftrightarrow> vs \<noteq> [] \<and> (\<forall>v\<in>set vs. evidenceSchema ze v = [])"
  by (auto simp: evidence_list_issues_def indexed_issues_Nil)

lemma evidenceListSchema_Inr:
  "evidenceListSchema ze v = Inr es \<longleftrightarrow>
     (\<exists>vs. v = JArr vs \<and> vs \<noteq> [] \<and> (\<forall>x\<in>set vs. evidenceSchema ze x = []) \<and> es = map read_evidence vs)"
  by (cases v) (auto simp: evidenceListSchema_def evidence_list_issues_def indexed_issues_Nil)

text \<open>The canonical text of a valid list is read back as the list.\<close>

lemma canonical_round_trip:
  assumes "es \<noteq> []" and "\<forall>e\<in>set es. evidence_ok ze e"
  shows "\<exists>v. json_parse (canonicalizeEvidenceList es) = Some v \<and> evidenceListSchema ze v = Inr es"
proof -
  let ?v = "JArr (map (\<lambda>e. sortKeys (evidence_json e)) es)"
  have "json_parse (canonicalizeEvidenceList es) = Some ?v"
    unfolding canonicalizeEvidenceList_def
    by (rule json_parse_str) (auto simp: json_ok_sorted_evidence)
  moreover have "map read_evidence (map (\<lambda>e. sortKeys (evidence_json e)) es) = es"
    by (simp add: map_idI read_sorted_evidence)
  then have "evidenceListSchema ze ?v = Inr es"
    using assms by (simp add: evidenceListSchema_Inr sorted_evidence_ok)
  ultimately show ?thesis by blast
qed

text \<open>What the contract says of each kind, and that a value without issues is read as such.\<close>

definition base_ok :: "zenv \<Rightarrow> evidence_base \<Rightarrow> bool" where
  "base_ok ze b \<longleftrightarrow> date_parses ze (e_ts b) \<and> e_agent b \<noteq> Some []"

fun contract :: "zenv \<Rightarrow> evidence \<Rightarrow> bool" where
  "contract ze (Test_evidence b c x) \<longleftrightarrow>
     base_ok ze b \<and> c \<noteq> [] \<and> \<bar>x\<bar> \<le> max_safe_integer \<and> (e_result b = Pass \<longrightarrow> x = 0)"
| "contract ze (Integration_evidence b c x fs) \<longleftrightarrow>
     base_ok ze b \<and> c \<noteq> [] \<and> \<bar>x\<bar> \<le> max_safe_integer \<and> (e_result b = Pass \<longrightarrow> x = 0)
     \<and> fs \<noteq> [] \<and> [] \<notin> set fs"
| "contract ze (Audit_evidence b k p c x) \<longleftrightarrow>
     base_ok ze b \<and> k \<noteq> [] \<and> c \<noteq> Some [] \<and> (\<forall>i. x = Some i \<longrightarrow> \<bar>i\<bar> \<le> max_safe_integer)
     \<and> (e_result b = Pass \<longrightarrow> p)"
| "contract ze (Manual_evidence b a d l) \<longleftrightarrow>
     base_ok ze b \<and> a \<noteq> [] \<and> d \<noteq> [] \<and> l \<noteq> [] \<and> length l \<le> MANUAL_LOG_MAX_BYTES"

lemmas check_simps =
  string_check_def string_min1_def optional_def enum_check_def int_check_def bool_check_def
  true_literal_def ts_check_def log_check_def strings_min1_def

lemma outcome_str_option: "outcome_str r \<in> {''pass'', ''fail''}" "outcome_str r = ''pass'' \<longleftrightarrow> r = Pass"
  by (cases r; simp)+

lemma base_members_get:
  "map_of (base_members b) k =
     (if k = ''result'' then Some (JStr (outcome_str (e_result b)))
      else if k = ''ts'' then Some (JStr (e_ts b))
      else if k = ''agent'' then map_option JStr (e_agent b) else None)"
  by (cases "e_agent b") (auto simp: base_members_def opt_field_def)

lemma strict_issues_declared:
  "list_all (\<lambda>k. k \<in> set (map fst sh)) (map_keys ms) \<Longrightarrow>
     strict_issues sh ms = [] \<longleftrightarrow> list_all (\<lambda>p. snd p (map_get ms (fst p)) = []) sh"
  by (auto simp: strict_issues_Nil list_all_iff)

lemma base_shape:
  "list_all (\<lambda>p. snd p (map_get ms (fst p)) = []) (kind_field @ baseFields ze @ sh) \<longleftrightarrow>
     string_check (map_get ms ''kind'') = [] \<and> enum_check [''pass'', ''fail''] (map_get ms ''result'') = []
     \<and> ts_check ze (map_get ms ''ts'') = [] \<and> optional string_min1 (map_get ms ''agent'') = []
     \<and> list_all (\<lambda>p. snd p (map_get ms (fst p)) = []) sh"
  by (simp add: kind_field_def baseFields_def)

lemma check_values [simp]:
  "string_check (Some (JStr s)) = []"
  "string_min1 (Some (JStr s)) = [] \<longleftrightarrow> s \<noteq> []"
  "int_check (Some (JNum i)) = [] \<longleftrightarrow> \<bar>i\<bar> \<le> max_safe_integer"
  "bool_check (Some (JBool p)) = []"
  "true_literal (Some (JBool True)) = []"
  "ts_check ze (Some (JStr s)) = [] \<longleftrightarrow> date_parses ze s"
  "log_check (Some (JStr s)) = [] \<longleftrightarrow> s \<noteq> [] \<and> length s \<le> MANUAL_LOG_MAX_BYTES"
  "strings_min1 (Some (JArr (map JStr fs))) = [] \<longleftrightarrow> fs \<noteq> [] \<and> [] \<notin> set fs"
  "enum_check [''pass'', ''fail''] (Some (JStr (outcome_str r))) = []"
  by (auto simp: check_simps indexed_issues_Nil) (cases r; simp)+

lemma optional_values [simp]:
  "optional string_min1 (map_option JStr a) = [] \<longleftrightarrow> a \<noteq> Some []"
  "optional int_check (map_option JNum x) = [] \<longleftrightarrow> (\<forall>i. x = Some i \<longrightarrow> \<bar>i\<bar> \<le> max_safe_integer)"
  by (cases a; simp add: optional_def) (cases x; simp add: optional_def)

lemma members_get [simp]:
  "map_get (x # ms) k = (if fst x = k then Some (snd x) else map_get ms k)"
  "map_get (base_members b @ ms) k =
     (if k = ''result'' then Some (JStr (outcome_str (e_result b)))
      else if k = ''ts'' then Some (JStr (e_ts b))
      else if k = ''agent'' then
        (case e_agent b of Some a \<Rightarrow> Some (JStr a) | None \<Rightarrow> map_get ms k)
      else map_get ms k)"
  by (cases x) (auto simp: map_get_def base_members_def opt_field_def split: option.splits)

lemma opt_field_get [simp]:
  "map_get (opt_field k v @ ms) k' = (if k' = k \<and> v \<noteq> None then v else map_get ms k')"
  "map_get (opt_field k v) k' = (if k' = k then v else None)"
  by (cases v; simp add: opt_field_def map_get_def)+

lemma members_keys [simp]:
  "map_keys (x # ms) = fst x # map_keys ms" "map_keys (as @ bs) = map_keys as @ map_keys bs"
  "map_keys ([] :: (string \<times> json) list) = []"
  by (simp_all add: map_keys_def)

lemma list_all_keys [simp]:
  "list_all P (map_keys (base_members b)) \<longleftrightarrow> P ''result'' \<and> P ''ts'' \<and> (e_agent b \<noteq> None \<longrightarrow> P ''agent'')"
  "list_all P (map_keys (opt_field k v)) \<longleftrightarrow> (v \<noteq> None \<longrightarrow> P k)"
  by (cases "e_agent b"; simp add: base_members_def opt_field_def) (cases v; simp add: opt_field_def)

lemma outcome_pass [simp]: "outcome_str r = ''pass'' \<longleftrightarrow> r = Pass"
  by (cases r) auto

lemma base_checks:
  assumes "map_get ms ''result'' = Some (JStr (outcome_str (e_result b)))"
    and "map_get ms ''ts'' = Some (JStr (e_ts b))" and "map_get ms ''agent'' = map_option JStr (e_agent b)"
    and "map_get ms ''kind'' = Some (JStr k)"
    and "list_all (\<lambda>k. k \<in> set (map fst (kind_field @ baseFields ze @ sh))) (map_keys ms)"
  shows "strict_issues (kind_field @ baseFields ze @ sh) ms = [] \<longleftrightarrow>
     base_ok ze b \<and> list_all (\<lambda>p. snd p (map_get ms (fst p)) = []) sh"
  by (simp only: strict_issues_declared [OF assms(5)] base_shape) (simp add: assms(1-4) base_ok_def)

lemma kind_get: "map_get (evidence_members e) ''kind'' = Some (JStr (kind_of e))"
  by (cases e) simp_all

lemma base_get:
  "map_get (evidence_members e) ''result'' = Some (JStr (outcome_str (e_result (base_of e))))"
  "map_get (evidence_members e) ''ts'' = Some (JStr (e_ts (base_of e)))"
  "map_get (evidence_members e) ''agent'' = map_option JStr (e_agent (base_of e))"
  by (cases e; cases "e_agent (base_of e)"; simp)+

lemma passing_members: "passing (evidence_members e) \<longleftrightarrow> result_of e = Pass"
  by (simp add: passing_def base_get result_of_def)

lemma evidence_ok_contract: "evidence_ok ze e \<longleftrightarrow> contract ze e"
proof (cases e)
  case (Test_evidence b c x)
  let ?ms = "evidence_members e"
  have "evidence_ok ze e \<longleftrightarrow> testEvidenceSchema ze ?ms = []"
    using kind_get [of e] by (simp add: evidence_ok_def evidence_json_def evidenceSchema_def Test_evidence)
  moreover have "strict_issues (kind_field @ baseFields ze @ commandExitCodeFields) ?ms = [] \<longleftrightarrow>
      base_ok ze b \<and> list_all (\<lambda>p. snd p (map_get ?ms (fst p)) = []) commandExitCodeFields"
    using kind_get base_get [of e]
    by (intro base_checks) (simp_all add: Test_evidence kind_field_def baseFields_def commandExitCodeFields_def)
  ultimately show ?thesis
    using passing_members [of e]
    by (simp add: testEvidenceSchema_def refine_Nil commandExitCodeFields_def Test_evidence result_of_def)
next
  case (Integration_evidence b c x fs)
  let ?ms = "evidence_members e" and ?sh = "commandExitCodeFields @ [(''target_files'', strings_min1)]"
  have "evidence_ok ze e \<longleftrightarrow> integrationEvidenceSchema ze ?ms = []"
    using kind_get [of e]
    by (simp add: evidence_ok_def evidence_json_def evidenceSchema_def Integration_evidence)
  moreover have "strict_issues (kind_field @ baseFields ze @ ?sh) ?ms = [] \<longleftrightarrow>
      base_ok ze b \<and> list_all (\<lambda>p. snd p (map_get ?ms (fst p)) = []) ?sh"
    using kind_get base_get [of e]
    by (intro base_checks)
      (simp_all add: Integration_evidence kind_field_def baseFields_def commandExitCodeFields_def)
  ultimately show ?thesis
    using passing_members [of e]
    by (simp add: integrationEvidenceSchema_def refine_Nil commandExitCodeFields_def
        Integration_evidence result_of_def)
next
  case (Audit_evidence b k p c x)
  let ?ms = "evidence_members e"
    and ?sh = "[(''audit_kind'', string_min1), (''passed'', bool_check),
      (''command'', optional string_min1), (''exit_code'', optional int_check)]"
  have "evidence_ok ze e \<longleftrightarrow> auditEvidenceSchema ze ?ms = []"
    using kind_get [of e]
    by (simp add: evidence_ok_def evidence_json_def evidenceSchema_def Audit_evidence)
  moreover have "strict_issues (kind_field @ baseFields ze @ ?sh) ?ms = [] \<longleftrightarrow>
      base_ok ze b \<and> list_all (\<lambda>p. snd p (map_get ?ms (fst p)) = []) ?sh"
    using kind_get base_get [of e]
    by (intro base_checks)
      (simp_all add: Audit_evidence kind_field_def baseFields_def commandExitCodeFields_def)
  ultimately show ?thesis
    using passing_members [of e]
    by (cases c; cases x)
      (simp_all add: auditEvidenceSchema_def refine_Nil Audit_evidence result_of_def optional_def)
next
  case (Manual_evidence b a d l)
  let ?ms = "evidence_members e"
    and ?sh = "[(''actor'', string_min1), (''description'', string_min1),
      (''allow_manual'', true_literal), (''log_excerpt'', log_check)]"
  have "evidence_ok ze e \<longleftrightarrow> manualEvidenceSchema ze ?ms = []"
    using kind_get [of e]
    by (simp add: evidence_ok_def evidence_json_def evidenceSchema_def Manual_evidence)
  moreover have "strict_issues (kind_field @ baseFields ze @ ?sh) ?ms = [] \<longleftrightarrow>
      base_ok ze b \<and> list_all (\<lambda>p. snd p (map_get ?ms (fst p)) = []) ?sh"
    using kind_get base_get [of e]
    by (intro base_checks)
      (simp_all add: Manual_evidence kind_field_def baseFields_def)
  ultimately show ?thesis
    by (simp add: manualEvidenceSchema_def Manual_evidence)
qed

text \<open>A value without issues is read as evidence that satisfies the contract.\<close>

lemma check_Nil:
  "string_min1 v = [] \<longleftrightarrow> (\<exists>s. v = Some (JStr s) \<and> s \<noteq> [])"
  "int_check v = [] \<longleftrightarrow> (\<exists>i. v = Some (JNum i) \<and> \<bar>i\<bar> \<le> max_safe_integer)"
  "ts_check ze v = [] \<longleftrightarrow> (\<exists>s. v = Some (JStr s) \<and> date_parses ze s)"
  "log_check v = [] \<longleftrightarrow> (\<exists>s. v = Some (JStr s) \<and> s \<noteq> [] \<and> length s \<le> MANUAL_LOG_MAX_BYTES)"
  "optional c v = [] \<longleftrightarrow> v = None \<or> c v = []"
  by (auto simp: check_simps split: option.splits json.splits if_splits)

lemma strings_Nil:
  "strings_min1 v = [] \<longleftrightarrow> (\<exists>fs. v = Some (JArr (map JStr fs)) \<and> fs \<noteq> [] \<and> [] \<notin> set fs)"
proof
  assume "strings_min1 v = []"
  then obtain vs where v: "v = Some (JArr vs)" "vs \<noteq> []" "\<forall>x\<in>set vs. string_min1 (Some x) = []"
    by (auto simp: strings_min1_def indexed_issues_Nil split: option.splits json.splits if_splits)
  then have "\<forall>x\<in>set vs. \<exists>s. x = JStr s \<and> s \<noteq> []" by (auto simp: check_Nil)
  then obtain f where f: "\<forall>x\<in>set vs. x = JStr (f x) \<and> f x \<noteq> []" by metis
  then have "vs = map JStr (map f vs)" by (simp add: map_idI)
  with v f show "\<exists>fs. v = Some (JArr (map JStr fs)) \<and> fs \<noteq> [] \<and> [] \<notin> set fs"
    by (intro exI [of _ "map f vs"]) auto
qed auto

lemma base_checks_read:
  assumes "strict_issues (kind_field @ baseFields ze @ sh) ms = []"
  shows "base_ok ze (read_base ms)" and "\<forall>p\<in>set sh. snd p (map_get ms (fst p)) = []"
    and "e_result (read_base ms) = Pass \<longleftrightarrow> passing ms"
proof -
  from assms have f: "\<forall>p\<in>set (baseFields ze @ sh). snd p (map_get ms (fst p)) = []"
    by (auto simp: strict_issues_Nil)
  then show "\<forall>p\<in>set sh. snd p (map_get ms (fst p)) = []" by auto
  from f have "ts_check ze (map_get ms ''ts'') = []" "optional string_min1 (map_get ms ''agent'') = []"
    by (simp_all add: baseFields_def)
  then show "base_ok ze (read_base ms)"
    by (auto simp: check_Nil base_ok_def read_base_def get_str_def opt_str_def)
  show "e_result (read_base ms) = Pass \<longleftrightarrow> passing ms" by (simp add: read_base_def)
qed

lemma read_contract:
  assumes "evidenceSchema ze v = []"
  shows "contract ze (read_evidence v)"
proof -
  obtain ms k where v: "v = JObj ms" and k: "map_get ms ''kind'' = Some (JStr k)"
    using assms by (auto simp: evidenceSchema_def split: json.splits option.splits)
  note get = get_str_def get_int_def get_strs_def opt_str_def opt_int_def
  consider "k = ''test''" | "k = ''integration''" | "k = ''audit''" | "k = ''manual''"
    using assms by (auto simp: evidenceSchema_def v k split: if_splits)
  then show ?thesis
  proof cases
    case 1
    then have t: "testEvidenceSchema ze ms = []" using assms by (simp add: evidenceSchema_def v k)
    then have s: "strict_issues (kind_field @ baseFields ze @ commandExitCodeFields) ms = []"
      by (simp add: testEvidenceSchema_def refine_Nil)
    show ?thesis using t base_checks_read [OF s]
      by (auto simp: 1 read_evidence_def v k get commandExitCodeFields_def check_Nil
          testEvidenceSchema_def refine_Nil split: if_splits)
  next
    case 2
    then have t: "integrationEvidenceSchema ze ms = []" using assms by (simp add: evidenceSchema_def v k)
    then have s: "strict_issues (kind_field @ baseFields ze @ commandExitCodeFields
        @ [(''target_files'', strings_min1)]) ms = []"
      by (simp add: integrationEvidenceSchema_def refine_Nil)
    show ?thesis using t base_checks_read [OF s]
      by (auto simp: 2 read_evidence_def v k get commandExitCodeFields_def check_Nil strings_Nil
          integrationEvidenceSchema_def refine_Nil concat_map_str split: if_splits)
  next
    case 3
    then have t: "auditEvidenceSchema ze ms = []" using assms by (simp add: evidenceSchema_def v k)
    then have s: "strict_issues (kind_field @ baseFields ze @ [(''audit_kind'', string_min1),
        (''passed'', bool_check), (''command'', optional string_min1),
        (''exit_code'', optional int_check)]) ms = []"
      by (simp add: auditEvidenceSchema_def refine_Nil)
    show ?thesis using t base_checks_read [OF s]
      by (auto simp: 3 read_evidence_def v k get check_Nil
          auditEvidenceSchema_def refine_Nil split: if_splits)
  next
    case 4
    then have s: "strict_issues (kind_field @ baseFields ze @ [(''actor'', string_min1),
        (''description'', string_min1), (''allow_manual'', true_literal), (''log_excerpt'', log_check)]) ms = []"
      using assms by (simp add: evidenceSchema_def v k manualEvidenceSchema_def)
    show ?thesis using base_checks_read [OF s]
      by (auto simp: 4 read_evidence_def v k get check_Nil)
  qed
qed

lemma parsed_contract: "evidenceListSchema ze v = Inr es \<Longrightarrow> es \<noteq> [] \<and> (\<forall>e\<in>set es. evidence_ok ze e)"
  by (auto simp: evidenceListSchema_Inr evidence_ok_contract read_contract)

end
