(* ===== verification/Verification.thy ===== *)
theory Verification
  imports TaskParser Evidence
begin

text \<open>
  The verification block of a task, \<open>src/blueprint/verification.ts\<close>: evidence is checked,
  written as canonical text into the section of its task, and read back from there.
  \<open>writeVerification\<close> is \<open>applyVerification\<close> between a file read and a file write and is
  a step on the file's text here.
\<close>

definition VERIFICATION_BLOCK_HEADER :: string where
  "VERIFICATION_BLOCK_HEADER = ''**Verification:**''"

definition VERIFICATION_FENCE_LANG :: string where
  "VERIFICATION_FENCE_LANG = ''webpresso-evidence-v1''"

definition VERIFICATION_BLOCK_PATTERN :: regex where
  "VERIFICATION_BLOCK_PATTERN =
     sq [star (chr nl), lit VERIFICATION_BLOCK_HEADER, plus (chr nl),
         lit (fence @ VERIFICATION_FENCE_LANG), chr nl, lazy any_char, chr nl, lit fence, star (chr nl)]"

datatype verification_outcome =
    Verified string                 \<comment> \<open>the rewritten markdown; the task is done\<close>
  | Not_verified "string list"      \<comment> \<open>the failures; the next action is to verify\<close>

definition formatZodIssue :: "zenv \<Rightarrow> issue \<Rightarrow> string" where
  "formatZodIssue ze i =
     (if fst i = [] then ''(root)'' else join_with ''.'' (fst i)) @ '': ''
     @ (case snd i of Custom t \<Rightarrow> t | Builtin b \<Rightarrow> issue_text ze b)"

text \<open>A transformation of the section of one task; the text around it stays.\<close>

definition section_length :: "rmatch \<Rightarrow> nat" where
  "section_length h =
     length (m_text h)
     + (case re_exec buildTaskSectionBoundaryRegex (m_post h) of
          Some b \<Rightarrow> m_index b | None \<Rightarrow> length (m_post h))"

definition mapTaskSection :: "string \<Rightarrow> string \<Rightarrow> (string \<Rightarrow> string) \<Rightarrow> string" where
  "mapTaskSection markdown taskId transform =
     (case re_exec (buildTaskHeaderRegexForId taskId) markdown of None \<Rightarrow> markdown
      | Some h \<Rightarrow>
          (let n = section_length h; later = drop (m_index h) markdown
           in m_pre h @ transform (take n later) @ drop n later))"

definition readTaskSection :: "string \<Rightarrow> string \<Rightarrow> string option" where
  "readTaskSection markdown taskId =
     (case re_exec (buildTaskHeaderRegexForId taskId) markdown of None \<Rightarrow> None
      | Some h \<Rightarrow> Some (take (section_length h) (drop (m_index h) markdown)))"

definition remove_block :: "string \<Rightarrow> string" where
  "remove_block section =
     replace_all (at_least 3 (chr nl)) (\<lambda>_. [nl, nl])
       (replace_all VERIFICATION_BLOCK_PATTERN (\<lambda>_. [nl, nl]) section)"

definition removeVerificationFromTask :: "string \<Rightarrow> string \<Rightarrow> string" where
  "removeVerificationFromTask markdown taskId = mapTaskSection markdown taskId remove_block"

text \<open>The block is a replacement string: its dollar sequences are expanded.\<close>

definition insert_block :: "string \<Rightarrow> string \<Rightarrow> string" where
  "insert_block block section =
     (case re_exec status_line_pattern section of
        Some m \<Rightarrow> replace_str (m_text m) (m_text m @ block @ [nl, nl]) section
      | None \<Rightarrow>
          (case re_exec title_pattern section of
             None \<Rightarrow> section @ [nl, nl] @ block @ [nl]
           | Some m \<Rightarrow> replace_str (m_text m) (m_text m @ block @ [nl, nl]) section))"

definition insertVerificationAfterStatus :: "string \<Rightarrow> string \<Rightarrow> string \<Rightarrow> string" where
  "insertVerificationAfterStatus markdown taskId block =
     mapTaskSection markdown taskId (insert_block block)"

definition serializeVerificationBlock :: "evidence list \<Rightarrow> string" where
  "serializeVerificationBlock es =
     VERIFICATION_BLOCK_HEADER @ [nl, nl] @ fence @ VERIFICATION_FENCE_LANG @ [nl]
     @ canonicalizeEvidenceList es @ [nl] @ fence"

definition parse_block_pattern :: regex where
  "parse_block_pattern =
     sq [lit VERIFICATION_BLOCK_HEADER, star ws, plus (chr nl),
         lit (fence @ VERIFICATION_FENCE_LANG), chr nl, Grp 1 (lazy any_char), chr nl, lit fence]"

definition parseVerificationBlock :: "zenv \<Rightarrow> string \<Rightarrow> evidence list option" where
  "parseVerificationBlock ze block =
     (case re_exec parse_block_pattern block of None \<Rightarrow> None
      | Some m \<Rightarrow>
          (case group m 1 of None \<Rightarrow> None
           | Some jsonText \<Rightarrow>
               (case json_parse jsonText of None \<Rightarrow> None
                | Some v \<Rightarrow> (case evidenceListSchema ze v of Inl _ \<Rightarrow> None | Inr es \<Rightarrow> Some es))))"

definition fail_message :: "nat \<Rightarrow> evidence \<Rightarrow> string" where
  "fail_message idx e =
     ''evidence['' @ nat_str idx @ ''] (kind='' @ kind_of e @ '') has result: '' @ [squote] @ ''fail''
     @ [squote] @ '' '' @ em_dash_str @ '' cannot transition to done''"

definition applyVerification :: "zenv \<Rightarrow> string \<Rightarrow> string \<Rightarrow> json \<Rightarrow> verification_outcome" where
  "applyVerification ze markdown taskId evidence =
     (case evidenceListSchema ze evidence of
        Inl issues \<Rightarrow> Not_verified (map (formatZodIssue ze) issues)
      | Inr items \<Rightarrow>
          (let failingItems = filter (\<lambda>e. result_of e = Fail) items
           in if failingItems \<noteq> [] then
                Not_verified (map (\<lambda>(i, e). fail_message i e) (zip [0..<length failingItems] failingItems))
              else if filter (\<lambda>e. result_of e = Pass) items = [] then
                Not_verified [''evidence list contains zero passing items'']
              else if \<not> re_test (buildTaskHeaderRegexForId taskId) markdown then
                Not_verified [''task '' @ taskId @ '' not found in blueprint markdown'']
              else
                Verified
                  (insertVerificationAfterStatus
                    (completeTask (removeVerificationFromTask markdown taskId) taskId) taskId
                    (serializeVerificationBlock items))))"

text \<open>
  The file step: the new text of the file, whether it is written, whether the projection is
  ingested again, and the outcome.
\<close>

record write_step =
  w_file :: string
  w_written :: bool
  w_reingested :: bool
  w_outcome :: verification_outcome

definition writeVerification :: "zenv \<Rightarrow> string \<Rightarrow> string \<Rightarrow> json \<Rightarrow> write_step" where
  "writeVerification ze markdown taskId evidence =
     (case applyVerification ze markdown taskId evidence of
        Not_verified fs \<Rightarrow>
          \<lparr>w_file = markdown, w_written = False, w_reingested = False, w_outcome = Not_verified fs\<rparr>
      | Verified md \<Rightarrow>
          \<lparr>w_file = md, w_written = (md \<noteq> markdown), w_reingested = True, w_outcome = Verified md\<rparr>)"

definition readTaskVerification :: "zenv \<Rightarrow> string \<Rightarrow> string \<Rightarrow> evidence list option" where
  "readTaskVerification ze markdown taskId =
     (case readTaskSection markdown taskId of None \<Rightarrow> None
      | Some section \<Rightarrow> parseVerificationBlock ze section)"

definition assertTaskHasCanonicalPassingEvidence ::
    "zenv \<Rightarrow> string \<Rightarrow> string \<Rightarrow> evidence list throws" where
  "assertTaskHasCanonicalPassingEvidence ze markdown taskId =
     (case readTaskVerification ze markdown taskId of
        None \<Rightarrow> Inl (''Task '' @ taskId @ '' is missing task-local canonical verification evidence'')
      | Some es \<Rightarrow>
          if \<exists>e\<in>set es. result_of e = Pass then Inr es
          else Inl (''Task '' @ taskId @ '' verification contains no passing evidence''))"

fun assertAllTasksHaveCanonicalPassingEvidence ::
    "zenv \<Rightarrow> string \<Rightarrow> string list \<Rightarrow> unit throws" where
  "assertAllTasksHaveCanonicalPassingEvidence ze markdown [] = Inr ()"
| "assertAllTasksHaveCanonicalPassingEvidence ze markdown (t # ts) =
     and_then (assertTaskHasCanonicalPassingEvidence ze markdown t)
       (\<lambda>_. assertAllTasksHaveCanonicalPassingEvidence ze markdown ts)"

section \<open>The block round trip\<close>

lemma esc_char_no_nl: "nl \<notin> set (esc_char c)"
proof -
  have "nl \<noteq> hex_char n" if "n < 16" for n
  proof -
    from that have "hex_val (hex_char n) = Some n" by (rule hex_val_char)
    moreover have "hex_val nl = None" by code_simp
    ultimately show ?thesis by auto
  qed
  moreover have "(of_char c :: nat) < 32 \<Longrightarrow> of_char c div 16 < (16 :: nat)" by simp
  ultimately show ?thesis by (auto simp: esc_char_def)
qed

lemma json_quote_no_nl: "nl \<notin> set (json_quote s)"
  using esc_char_no_nl by (auto simp: json_quote_def)

lemma int_str_no_nl: "nl \<notin> set (int_str i)"
proof -
  have "\<not> js_digit nl" by code_simp
  then show ?thesis using nat_str_digits by (auto simp: int_str_def)
qed

lemma json_str_no_nl:
  "json_ok v \<Longrightarrow> nl \<notin> set (json_str v)"
  "\<forall>v\<in>set vs. json_ok v \<Longrightarrow> nl \<notin> set (elems_str vs)"
  "\<forall>m\<in>set ms. json_ok (snd m) \<Longrightarrow> nl \<notin> set (members_str ms)"
  by (induction v and vs and ms rule: json_str_elems_str_members_str.induct)
     (auto simp: int_str_no_nl json_quote_no_nl split: list.splits)

lemma canonical_no_nl: "nl \<notin> set (canonicalizeEvidenceList es)"
  unfolding canonicalizeEvidenceList_def by (rule json_str_no_nl) (auto simp: json_ok_sorted_evidence)

lemma run_fence_gap:
  assumes "rest s = nl # nl # CHR 0x60 # t"
  shows "\<exists>ts. run (Seq (star ws) (Seq (plus (chr nl)) (Seq (lit (CHR 0x60 # w)) r))) s
    = run (Seq (lit (CHR 0x60 # w)) r)
        (s\<lparr>behind := nl # nl # behind s, rest := CHR 0x60 # t\<rparr>) @ ts"
proof -
  have ws: "js_ws nl" "\<not> js_ws (CHR 0x60)" by (simp_all add: js_ws_def)
  show ?thesis
    using assms by (simp add: star_def plus_def chr_def run_lit Let_def ws)
qed

lemma parse_block_run:
  assumes "nl \<notin> set j"
  shows "\<exists>m. match_here parse_block_pattern b0
      (VERIFICATION_BLOCK_HEADER @ [nl, nl] @ fence @ VERIFICATION_FENCE_LANG @ [nl] @ j @ [nl] @ fence @ post)
     = Some m \<and> group m 1 = Some j"
proof -
  let ?text = "VERIFICATION_BLOCK_HEADER @ [nl, nl] @ fence @ VERIFICATION_FENCE_LANG @ [nl] @ j @ [nl] @ fence @ post"
  define fence_line where "fence_line = fence @ VERIFICATION_FENCE_LANG"
  define r1 where "r1 = Seq (chr nl) (Seq (Grp 1 (lazy any_char)) (Seq (chr nl) (Seq (lit fence) Empty)))"
  obtain w where w: "fence_line = CHR 0x60 # w" by (simp add: fence_line_def fence_def)
  let ?s0 = "\<lparr>behind = b0, rest = ?text, caps = []\<rparr>"
  obtain b1 where "run (lit VERIFICATION_BLOCK_HEADER) ?s0
      = [\<lparr>behind = b1, rest = nl # nl # fence_line @ nl # j @ nl # fence @ post, caps = []\<rparr>]"
    by (simp add: run_lit_append fence_line_def)
  note hd = run_Seq_single [OF this]
  obtain ts1 where gap: "run (Seq (star ws) (Seq (plus (chr nl)) (Seq (lit fence_line) r1)))
       \<lparr>behind = b1, rest = nl # nl # fence_line @ nl # j @ nl # fence @ post, caps = []\<rparr>
     = run (Seq (lit fence_line) r1)
       \<lparr>behind = nl # nl # b1, rest = fence_line @ nl # j @ nl # fence @ post, caps = []\<rparr> @ ts1"
    using run_fence_gap [of "\<lparr>behind = b1, rest = nl # nl # fence_line @ nl # j @ nl # fence @ post, caps = []\<rparr>"
        "w @ nl # j @ nl # fence @ post" w r1]
    by (auto simp: w)
  obtain b2 where op: "run (Seq (lit fence_line) r1)
       \<lparr>behind = nl # nl # b1, rest = fence_line @ nl # j @ nl # fence @ post, caps = []\<rparr>
     = run (Seq (Grp 1 (lazy any_char)) (Seq (chr nl) (Seq (lit fence) Empty)))
       \<lparr>behind = b2, rest = j @ nl # fence @ post, caps = []\<rparr>"
    by (simp add: r1_def run_lit_append run_chr del: run.simps(4,5,6))
  obtain ts2 where "run (Seq (Grp 1 (lazy any_char)) (Seq (chr nl) (Seq (lit fence) Empty)))
       \<lparr>behind = b2, rest = j @ nl # fence @ post, caps = []\<rparr>
     = run (Seq (lit fence) Empty)
       \<lparr>behind = nl # rev j @ b2, rest = fence @ post, caps = [(1, j)]\<rparr> @ ts2"
    using run_lazy_until [of "\<lparr>behind = b2, rest = j @ nl # fence @ post, caps = []\<rparr>" j nl
        "fence @ post" 1 "Seq (lit fence) Empty"] assms
    by (auto simp del: run.simps)
  moreover have "run (Seq (lit fence) Empty) \<lparr>behind = nl # rev j @ b2, rest = fence @ post, caps = [(1, j)]\<rparr>
      = [\<lparr>behind = rev fence @ nl # rev j @ b2, rest = post, caps = [(1, j)]\<rparr>]"
    by (simp add: run_lit_append)
  ultimately obtain t ts where t: "run parse_block_pattern ?s0 = t # ts" "caps t = [(1, j)]"
    unfolding parse_block_pattern_def sq.simps hd
    using gap op by (simp add: r1_def fence_line_def del: run.simps(3))
  then have "match_here parse_block_pattern b0 ?text = Some (mk_match b0 ?text t)"
    by (simp add: match_here_def)
  with t(2) show ?thesis by (auto simp: group_def mk_match_def)
qed

lemma parse_block_needs_header:
  "\<not> prefix VERIFICATION_BLOCK_HEADER r \<Longrightarrow> match_here parse_block_pattern b r = None"
  by (simp add: match_here_def parse_block_pattern_def run_lit_fail)

text \<open>A block is read back wherever it stands, if no header comes before it.\<close>

lemma parse_serialized_at:
  assumes "es \<noteq> []" and "\<forall>e\<in>set es. evidence_ok ze e"
    and "\<And>i. i < length pre \<Longrightarrow>
      \<not> prefix VERIFICATION_BLOCK_HEADER (drop i pre @ serializeVerificationBlock es @ post)"
  shows "parseVerificationBlock ze (pre @ serializeVerificationBlock es @ post) = Some es"
proof -
  obtain m where m: "match_here parse_block_pattern (rev pre) (serializeVerificationBlock es @ post) = Some m"
      "group m 1 = Some (canonicalizeEvidenceList es)"
    using parse_block_run [OF canonical_no_nl, of "rev pre" es post]
    by (auto simp: serializeVerificationBlock_def)
  have "re_exec parse_block_pattern (pre @ serializeVerificationBlock es @ post) = Some m"
    unfolding re_exec_def
    using exec_from_skip [of pre parse_block_pattern "serializeVerificationBlock es @ post" "[]"]
      exec_from_here [OF m(1)] parse_block_needs_header assms(3) by simp
  moreover obtain v where "json_parse (canonicalizeEvidenceList es) = Some v" "evidenceListSchema ze v = Inr es"
    using canonical_round_trip [OF assms(1,2)] by blast
  ultimately show ?thesis using m(2) by (simp add: parseVerificationBlock_def)
qed

text \<open>A match of the status line ends with a line end.\<close>

lemma last_nl_match:
  assumes "re_exec (Grp g (sq [a, b, c, plus (chr nl)])) s = Some m"
  shows "m_text m \<noteq> [] \<and> last (m_text m) = nl"
  using assms unfolding re_exec_def
  by (rule exec_from_last_char [rotated]) (simp add: ends_with_char_intros)

lemma header_no_nl: "nl \<notin> set VERIFICATION_BLOCK_HEADER"
  by (simp add: VERIFICATION_BLOCK_HEADER_def)

lemma no_header_before:
  assumes "\<not> includes_str pre VERIFICATION_BLOCK_HEADER" and "pre = [] \<or> last pre = nl" and "i < length pre"
  shows "\<not> prefix VERIFICATION_BLOCK_HEADER (drop i pre @ q)"
proof
  assume "prefix VERIFICATION_BLOCK_HEADER (drop i pre @ q)"
  then consider "prefix VERIFICATION_BLOCK_HEADER (drop i pre)"
    | w where "VERIFICATION_BLOCK_HEADER = drop i pre @ w"
    by (auto simp: prefix_append)
  then show False
  proof cases
    case 1
    then obtain z where "pre = take i pre @ VERIFICATION_BLOCK_HEADER @ z"
      by (metis append_take_drop_id prefixE)
    then show False using assms(1) includes_str_iff by blast
  next
    case (2 w)
    have "last (drop i pre) = nl" "drop i pre \<noteq> []" using assms(2,3) by auto
    then have "nl \<in> set VERIFICATION_BLOCK_HEADER" unfolding 2 by (metis UnCI last_in_set set_append)
    then show False using header_no_nl by simp
  qed
qed

lemma prefix_no_header:
  "\<not> includes_str (a @ b) VERIFICATION_BLOCK_HEADER \<Longrightarrow> \<not> includes_str a VERIFICATION_BLOCK_HEADER"
  unfolding includes_str_iff by (metis append.assoc)

lemma replace_str_found:
  assumes "includes_str s p" and "dollar \<notin> set r"
  shows "\<exists>a b. s = a @ p @ b \<and> replace_str p r s = a @ r @ b"
proof -
  obtain m where m: "re_exec (lit p) s = Some m" "m_text m = p"
    using re_exec_lit assms(1) by blast
  then show ?thesis
    using re_exec_parts [OF m(1)] assms(2) by (auto simp: replace_str_def replace_first_def)
qed

end
