(* ===== verification/Lifecycle.thy ===== *)
theory Lifecycle
  imports Blueprint Verification
begin

text \<open>
  The lifecycle engine, \<open>src/blueprint/lifecycle/engine.ts\<close>, and the execution metadata
  of \<open>execution/metadata.ts\<close>.  The environment holds the external functions and the day
  (\<open>todayIsoDate()\<close>, taken as constant during one call).
\<close>

record env =
  docs_of :: docs
  zenv_of :: zenv
  today :: string

datatype intent =
    Start "string option" "string option"
  | Park
  | Finalize
  | Task_start string
  | Task_block string string
  | Task_unblock string
  | Task_complete string
  | Task_verify string json

fun intent_type :: "intent \<Rightarrow> string" where
  "intent_type (Start _ _) = ''start''"
| "intent_type Park = ''park''"
| "intent_type Finalize = ''finalize''"
| "intent_type (Task_start _) = ''task_start''"
| "intent_type (Task_block _ _) = ''task_block''"
| "intent_type (Task_unblock _) = ''task_unblock''"
| "intent_type (Task_complete _) = ''task_complete''"
| "intent_type (Task_verify _ _) = ''task_verify''"

fun intent_task :: "intent \<Rightarrow> string" where
  "intent_task (Task_start t) = t"
| "intent_task (Task_block t _) = t"
| "intent_task (Task_unblock t) = t"
| "intent_task (Task_complete t) = t"
| "intent_task (Task_verify t _) = t"
| "intent_task _ = []"

record lifecycle_result =
  auditEvents :: "string list"
  r_blueprint :: blueprint
  r_markdown :: string
  r_progress :: string
  targetStatus :: lifecycle_status

section \<open>Front matter updates\<close>

text \<open>An absent or empty value deletes its key.\<close>

definition update_field :: "fm \<Rightarrow> string \<times> json option \<Rightarrow> fm" where
  "update_field d u =
     (case snd u of
        None \<Rightarrow> map_delete (fst u) d
      | Some v \<Rightarrow> if v = JStr [] then map_delete (fst u) d else map_set (fst u) (FVal v) d)"

definition update_fields :: "(string \<times> json option) list \<Rightarrow> fm \<Rightarrow> fm" where
  "update_fields us d = foldl update_field d us"

definition setBlueprintFrontmatterFields ::
    "docs \<Rightarrow> string \<Rightarrow> (string \<times> json option) list \<Rightarrow> string throws" where
  "setBlueprintFrontmatterFields dx markdown updates =
     and_then (matter dx markdown) (\<lambda>(data, content).
       Inr (stringify dx content (update_fields updates data)))"

section \<open>Checks\<close>

definition assertExecutableStatus :: "string \<Rightarrow> lifecycle_status throws" where
  "assertExecutableStatus st =
     (case parseLifecycleBlueprintStatus st of
        Some s \<Rightarrow> Inr s
      | None \<Rightarrow>
          Inl (''Blueprint status '' @ quoted st @ '' is not executable. Normalize it to one of: ''
               @ join_with '', '' (map status_str lifecycle_options)))"

definition settled :: "task \<Rightarrow> bool" where
  "settled t \<longleftrightarrow> t_status t = Done \<or> t_status t = Dropped"

text \<open>\<open>Math.round((done / total) * 100)\<close>, rounded in exact arithmetic.\<close>

definition percent_done :: "nat \<Rightarrow> nat \<Rightarrow> nat" where
  "percent_done done_count total_count =
     (if total_count = 0 then 0 else (200 * done_count + total_count) div (2 * total_count))"

definition formatProgress :: "string \<Rightarrow> blueprint \<Rightarrow> string" where
  "formatProgress day bp =
     (let total_count = length (b_tasks bp);
          done_count = length (filter settled (b_tasks bp));
          blocked_count = length (filter (\<lambda>t. t_status t = Blocked) (b_tasks bp))
      in nat_str (percent_done done_count total_count) @ ''% ('' @ nat_str done_count @ ''/''
         @ nat_str total_count @ '' tasks done, '' @ nat_str blocked_count @ '' blocked, updated ''
         @ day @ '')'')"

definition deriveBlueprintStatus :: "lifecycle_status \<Rightarrow> lifecycle_status" where
  "deriveBlueprintStatus current =
     (if current = Completed \<or> current = Archived then current else In_progress)"

definition assertTaskExists :: "blueprint \<Rightarrow> string \<Rightarrow> task throws" where
  "assertTaskExists bp taskId =
     (case find (\<lambda>t. t_id t = taskId) (b_tasks bp) of
        Some t \<Rightarrow> Inr t
      | None \<Rightarrow> Inl (''Task '' @ taskId @ '' not found in blueprint '' @ b_name bp))"

definition cannot_finalize :: "blueprint \<Rightarrow> string" where
  "cannot_finalize bp = ''Blueprint '' @ b_name bp @ '' cannot finalize: ''"

text \<open>The loop over the tasks collects the ids that need evidence.\<close>

fun check_done_tasks :: "blueprint \<Rightarrow> task list \<Rightarrow> string list throws" where
  "check_done_tasks bp [] = Inr []"
| "check_done_tasks bp (t # ts) =
     (if t_status t \<noteq> Done \<and> t_status t \<noteq> Dropped then
        Inl (cannot_finalize bp @ ''Task '' @ t_id t @ '' is '' @ task_status_str (t_status t))
      else if t_status t = Done \<and> total (acceptanceCriteria t) > 0
              \<and> checked (acceptanceCriteria t) \<noteq> total (acceptanceCriteria t) then
        Inl (cannot_finalize bp @ ''Task '' @ t_id t @ '' has ''
             @ nat_str (checked (acceptanceCriteria t)) @ ''/'' @ nat_str (total (acceptanceCriteria t))
             @ '' acceptance criteria checked'')
      else and_then (check_done_tasks bp ts)
             (\<lambda>ids. Inr (if t_status t = Done then t_id t # ids else ids)))"

definition assertTaskDoneRequirements :: "zenv \<Rightarrow> string \<Rightarrow> blueprint \<Rightarrow> unit throws" where
  "assertTaskDoneRequirements ze markdown bp =
     (if b_tasks bp = [] then
        Inl (cannot_finalize bp
             @ ''zero-task blueprints cannot complete through the public lifecycle surface'')
      else and_then (check_done_tasks bp (b_tasks bp))
             (assertAllTasksHaveCanonicalPassingEvidence ze markdown))"

section \<open>Task intents\<close>

definition already_settled :: "task \<Rightarrow> string" where
  "already_settled t = ''Task '' @ t_id t @ '' is already '' @ task_status_str (t_status t)"

definition applyTaskIntent :: "zenv \<Rightarrow> string \<Rightarrow> blueprint \<Rightarrow> intent \<Rightarrow> string throws" where
  "applyTaskIntent ze markdown bp i =
     and_then (assertTaskExists bp (intent_task i)) (\<lambda>t.
       case i of
         Task_start _ \<Rightarrow>
           if settled t then Inl (already_settled t)
           else Inr (updateBlockedReason (updateTaskStatus markdown (t_id t) T_in_progress) (t_id t) [])
       | Task_block _ reason \<Rightarrow>
           if settled t then Inl (already_settled t)
           else if js_trim reason = [] then
             Inl (''Task '' @ t_id t @ '' requires a non-empty block reason'')
           else
             Inr (updateBlockedReason (updateTaskStatus markdown (t_id t) Blocked) (t_id t)
                    (js_trim reason))
       | Task_unblock _ \<Rightarrow>
           if t_status t \<noteq> Blocked \<and> blockedReason t = None then
             Inl (''Task '' @ t_id t @ '' is not blocked'')
           else Inr (updateBlockedReason (updateTaskStatus markdown (t_id t) Todo) (t_id t) [])
       | Task_complete _ \<Rightarrow>
           Inl (''Task '' @ t_id t
                @ '' cannot be completed without evidence; use task_verify / wp_blueprint_task_verify'')
       | Task_verify _ evidence \<Rightarrow>
           (case applyVerification ze markdown (t_id t) evidence of
              Not_verified failures \<Rightarrow> Inl (join_with ''; '' failures)
            | Verified md \<Rightarrow> Inr md)
       | _ \<Rightarrow> Inr markdown)"

section \<open>The engine\<close>

definition no_owner :: "(string \<times> json option) list" where
  "no_owner = [(''worktree_owner_id'', None), (''worktree_owner_branch'', None)]"

definition is_closed :: "lifecycle_status \<Rightarrow> bool" where
  "is_closed st \<longleftrightarrow> st = Completed \<or> st = Archived"

text \<open>The switch over the intent: the next markdown, the target status, the audit event.\<close>

definition intent_step ::
    "env \<Rightarrow> string \<Rightarrow> string \<Rightarrow> intent \<Rightarrow> blueprint \<Rightarrow> lifecycle_status
       \<Rightarrow> (string \<times> lifecycle_status \<times> string) throws" where
  "intent_step en markdown slug i bp current =
     (case i of
        Start owner branch \<Rightarrow>
          if is_closed current then
            Inl (''Blueprint '' @ slug @ '' cannot start from '' @ status_str current)
          else
            and_then (setBlueprintFrontmatterFields (docs_of en) markdown
                [(''worktree_owner_id'', map_option JStr owner),
                 (''worktree_owner_branch'', map_option JStr branch)])
              (\<lambda>md. Inr (md, In_progress, ''blueprint.start:'' @ slug))
      | Park \<Rightarrow>
          if is_closed current then
            Inl (''Blueprint '' @ slug @ '' cannot park from '' @ status_str current)
          else
            and_then (setBlueprintFrontmatterFields (docs_of en) markdown no_owner)
              (\<lambda>md. Inr (md, Parked, ''blueprint.park:'' @ slug))
      | Finalize \<Rightarrow>
          and_then (assertTaskDoneRequirements (zenv_of en) markdown bp) (\<lambda>_.
            and_then (setBlueprintFrontmatterFields (docs_of en) markdown no_owner)
              (\<lambda>md. Inr (md, Completed, ''blueprint.finalize:'' @ slug)))
      | _ \<Rightarrow>
          and_then (applyTaskIntent (zenv_of en) markdown bp i) (\<lambda>md.
            Inr (md,
                 deriveBlueprintStatus
                   (if current = Draft \<or> current = Planned \<or> current = Parked then In_progress
                    else current),
                 ''blueprint.'' @ intent_type i @ '':'' @ slug @ '':'' @ intent_task i)))"

definition completed_field :: "env \<Rightarrow> lifecycle_status \<Rightarrow> string \<times> json option" where
  "completed_field en target =
     (''completed_at'', if target = Completed then Some (JStr (today en)) else None)"

definition applyBlueprintLifecycle ::
    "env \<Rightarrow> string \<Rightarrow> string \<Rightarrow> intent \<Rightarrow> lifecycle_result throws" where
  "applyBlueprintLifecycle en markdown slug i =
     and_then (parseBlueprint (docs_of en) markdown slug) (\<lambda>bp.
     and_then (assertExecutableStatus (b_status bp)) (\<lambda>current.
       if is_closed current \<and> i \<noteq> Finalize then
         Inl (''Blueprint '' @ slug @ '' is already '' @ status_str current)
       else
         and_then (intent_step en markdown slug i bp current) (\<lambda>(md, target, event).
         and_then (setBlueprintFrontmatterFields (docs_of en) md
             [(''status'', Some (JStr (status_str target))), (''last_updated'', Some (JStr (today en))),
              completed_field en target]) (\<lambda>md2.
         and_then (parseBlueprint (docs_of en) md2 slug) (\<lambda>reparsed.
         and_then (setBlueprintFrontmatterFields (docs_of en) md2
             [(''progress'', Some (JStr (formatProgress (today en) reparsed))),
              (''last_updated'', Some (JStr (today en))), completed_field en target]) (\<lambda>md3.
         and_then (parseBlueprint (docs_of en) md3 slug) (\<lambda>final.
           Inr \<lparr>auditEvents = [event], r_blueprint = final, r_markdown = md3,
                r_progress = formatProgress (today en) reparsed, targetStatus = target\<rparr>)))))))"

section \<open>Execution metadata\<close>

record execution_metadata =
  x_backend :: execution_backend
  x_executionId :: string
  x_status :: execution_status
  x_updatedAt :: string

definition normalizeString :: "fm_value option \<Rightarrow> string option" where
  "normalizeString v =
     (case v of
        Some (FVal (JStr s)) \<Rightarrow> if js_trim s = [] then None else Some (js_trim s)
      | Some (FDate day) \<Rightarrow> Some day
      | _ \<Rightarrow> None)"

definition readBlueprintExecutionMetadata ::
    "docs \<Rightarrow> string \<Rightarrow> execution_metadata option throws" where
  "readBlueprintExecutionMetadata dx markdown =
     and_then (matter dx markdown) (\<lambda>(data, content).
       let backend = (case fm_str data ''execution_backend'' of None \<Rightarrow> None
                      | Some s \<Rightarrow> parse_enum backend_str backend_options s);
           st = (case fm_str data ''execution_status'' of None \<Rightarrow> None
                 | Some s \<Rightarrow> parse_execution_status s);
           executionId = normalizeString (map_get data ''execution_id'');
           updatedAt = normalizeString (map_get data ''execution_updated_at'')
       in case (backend, st, executionId, updatedAt) of
            (Some b, Some s, Some i, Some u) \<Rightarrow>
              if i = [] \<or> u = [] then Inr None
              else Inr (Some \<lparr>x_backend = b, x_executionId = i, x_status = s, x_updatedAt = u\<rparr>)
          | _ \<Rightarrow> Inr None)"

definition metadata_fields :: "execution_metadata \<Rightarrow> (string \<times> json option) list" where
  "metadata_fields x =
     [(''execution_backend'', Some (JStr (backend_str (x_backend x)))),
      (''execution_id'', Some (JStr (x_executionId x))),
      (''execution_status'', Some (JStr (execution_status_str (x_status x)))),
      (''execution_updated_at'', Some (JStr (x_updatedAt x)))]"

definition writeBlueprintExecutionMetadata :: "docs \<Rightarrow> string \<Rightarrow> execution_metadata \<Rightarrow> string throws" where
  "writeBlueprintExecutionMetadata dx markdown x =
     setBlueprintFrontmatterFields dx markdown (metadata_fields x)"

definition clearBlueprintExecutionMetadata :: "docs \<Rightarrow> string \<Rightarrow> string throws" where
  "clearBlueprintExecutionMetadata dx markdown =
     setBlueprintFrontmatterFields dx markdown
       [(''execution_backend'', None), (''execution_id'', None), (''execution_status'', None),
        (''execution_updated_at'', None)]"

end
