(* ===== verification/SampleDocs.thy ===== *)
theory SampleDocs
  imports Lifecycle
begin

text \<open>
  What the sources rely on of the front matter library, as the predicate \<open>front_matter_laws\<close>,
  and one document format that satisfies it: the front matter is one line of JSON between two
  lines of dashes.  The witnesses run on it.
\<close>

text \<open>Data the writer can write and the reader reads back: distinct keys, printable values.\<close>

definition fm_plain :: "fm \<Rightarrow> bool" where
  "fm_plain d \<longleftrightarrow>
     map_wf d \<and> (\<forall>p\<in>set d. case snd p of FVal v \<Rightarrow> json_ok v | FDate _ \<Rightarrow> True)"

definition final_newline :: "string \<Rightarrow> string" where
  "final_newline c = (if ends_with c [nl] then c else c @ [nl])"

text \<open>
  Reading what was written gives the data and the content with a final newline, for data that
  is not empty and content that does not itself open a front matter block.
\<close>

definition front_matter_laws :: "docs \<Rightarrow> bool" where
  "front_matter_laws dx \<longleftrightarrow>
     (\<forall>c d. fm_plain d \<and> d \<noteq> [] \<and> \<not> starts_with c ''---'' \<longrightarrow>
        matter dx (stringify dx c d) = Inr (d, final_newline c))"

section \<open>The sample format\<close>

fun enc_value :: "fm_value \<Rightarrow> json" where
  "enc_value (FVal v) = JArr [v]"
| "enc_value (FDate s) = JStr s"

definition dec_value :: "json \<Rightarrow> fm_value" where
  "dec_value v = (case v of JArr [x] \<Rightarrow> FVal x | JStr s \<Rightarrow> FDate s | _ \<Rightarrow> FVal JNull)"

definition dashes :: string where
  "dashes = ''---'' @ [nl]"

definition sample_stringify :: "string \<Rightarrow> fm \<Rightarrow> string" where
  "sample_stringify c d =
     (if d = [] then final_newline c
      else dashes @ json_str (JObj (map (\<lambda>p. (fst p, enc_value (snd p))) d)) @ [nl] @ dashes
           @ final_newline c)"

definition sample_matter :: "string \<Rightarrow> (fm \<times> string) throws" where
  "sample_matter s =
     (if \<not> starts_with s dashes then Inr ([], s)
      else
        (let body = drop 4 s; later = tl (dropWhile (\<lambda>c. c \<noteq> nl) body)
         in if \<not> starts_with later dashes then Inl ''no end of front matter''
            else (case json_parse (takeWhile (\<lambda>c. c \<noteq> nl) body) of
                    Some (JObj ms) \<Rightarrow> Inr (map (\<lambda>p. (fst p, dec_value (snd p))) ms, drop 4 later)
                  | _ \<Rightarrow> Inl ''invalid front matter'')))"

definition sample_docs :: docs where
  "sample_docs =
     \<lparr>matter = sample_matter, stringify = sample_stringify, schema_error = (\<lambda>_. ''invalid data'')\<rparr>"

definition sample_zenv :: zenv where
  "sample_zenv = \<lparr>issue_text = (\<lambda>_. ''invalid''), zod_message = (\<lambda>_. ''invalid input''), date_parses = (\<lambda>s. s \<noteq> [])\<rparr>"

definition sample_env :: env where
  "sample_env = \<lparr>docs_of = sample_docs, zenv_of = sample_zenv, today = ''2026-01-01''\<rparr>"

lemma dec_enc [simp]: "dec_value (enc_value v) = v"
  by (cases v) (simp_all add: dec_value_def)

lemma json_ok_enc [simp]:
  "json_ok (enc_value v) = (case v of FVal x \<Rightarrow> json_ok x | FDate _ \<Rightarrow> True)"
  by (cases v) simp_all

lemma sample_laws: "front_matter_laws sample_docs"
  unfolding front_matter_laws_def
proof (intro allI impI)
  fix c :: string and d :: fm
  assume a: "fm_plain d \<and> d \<noteq> [] \<and> \<not> starts_with c ''---''"
  let ?v = "JObj (map (\<lambda>p. (fst p, enc_value (snd p))) d)"
  have ok: "json_ok ?v"
    using a by (auto simp: fm_plain_def map_wf_def comp_def split: fm_value.splits)
  then have no: "\<forall>x\<in>set (json_str ?v). x \<noteq> nl" using json_str_no_nl(1) by metis
  have take: "takeWhile (\<lambda>x. x \<noteq> nl) (json_str ?v @ nl # q) = json_str ?v"
    and drop: "dropWhile (\<lambda>x. x \<noteq> nl) (json_str ?v @ nl # q) = nl # q" for q
    using no by (auto simp del: json_str.simps)
  have "json_parse (json_str ?v) = Some ?v" by (rule json_parse_str) (rule ok)
  then show "matter sample_docs (stringify sample_docs c d) = Inr (d, final_newline c)"
    using a take drop
    by (simp add: sample_docs_def sample_stringify_def sample_matter_def dashes_def starts_with_def
        Let_def comp_def del: json_str.simps)
qed

section \<open>Sample documents\<close>

definition sample_doc :: "string \<Rightarrow> string \<Rightarrow> string" where
  "sample_doc st body =
     sample_stringify body [(''type'', FVal (JStr ''blueprint'')), (''status'', FVal (JStr st))]"

definition sample_section :: "string \<Rightarrow> string \<Rightarrow> string" where
  "sample_section st later =
     ''#### Task 1.1: A'' @ [nl, nl] @ ''**Status:** '' @ st @ [nl, nl] @ later"

definition todo_doc :: string where
  "todo_doc = sample_doc ''draft'' (sample_section ''todo'' [])"

definition sample_proof :: evidence where
  "sample_proof = Test_evidence \<lparr>e_result = Pass, e_ts = ''t'', e_agent = None\<rparr> ''c'' 0"

definition proved_doc :: string where
  "proved_doc =
     sample_doc ''planned'' (sample_section ''done'' (serializeVerificationBlock [sample_proof]))"

end
