(* ===== verification/ExecutionTypes.thy ===== *)
theory ExecutionTypes
  imports Lifecycle
begin

text \<open>
  The execution contract of \<open>src/blueprint/execution/types.ts\<close>: launch specifications and
  runtime snapshots with the checks of their schemas.
\<close>

definition LEGACY_BLUEPRINT_ROOT_SEGMENT :: string where
  "LEGACY_BLUEPRINT_ROOT_SEGMENT = ''webpresso/blueprints/''"

definition GENERIC_BLUEPRINT_ROOT_SEGMENT :: string where
  "GENERIC_BLUEPRINT_ROOT_SEGMENT = ''blueprints/''"

definition DEFAULT_RUNTIME_STATE_ROOT :: string where
  "DEFAULT_RUNTIME_STATE_ROOT = ''.omx/state''"

definition isBlueprintPath :: "string \<Rightarrow> bool" where
  "isBlueprintPath path \<longleftrightarrow>
     includes_str path LEGACY_BLUEPRINT_ROOT_SEGMENT
     \<or> starts_with path LEGACY_BLUEPRINT_ROOT_SEGMENT
     \<or> includes_str path (CHR ''/'' # GENERIC_BLUEPRINT_ROOT_SEGMENT)
     \<or> starts_with path GENERIC_BLUEPRINT_ROOT_SEGMENT"

definition isOmxStatePath :: "string \<Rightarrow> bool" where
  "isOmxStatePath path \<longleftrightarrow>
     path = DEFAULT_RUNTIME_STATE_ROOT \<or> starts_with path (DEFAULT_RUNTIME_STATE_ROOT @ ''/'')"

datatype execution_mode = Durable | Interactive

record backend_hints =
  buildHeavy :: "bool option"
  longRunning :: "bool option"
  testHeavy :: "bool option"

record launch_task =
  l_id :: string
  l_title :: string
  l_dependsOn :: "string list"
  l_files :: "string list"
  verificationCommands :: "string list"
  concurrencyGroup :: "string option"
  backendHints :: backend_hints

definition blueprintTaskLaunchSpecSchema :: "launch_task \<Rightarrow> bool" where
  "blueprintTaskLaunchSpecSchema t \<longleftrightarrow> l_id t \<noteq> [] \<and> l_title t \<noteq> []"

record execution_policy =
  maxParallelism :: "int option"
  preferWorktree :: bool
  requireVerificationForCompletion :: bool
  runtimeStateRoot :: string

definition blueprintExecutionPolicySchema :: "execution_policy \<Rightarrow> bool" where
  "blueprintExecutionPolicySchema p \<longleftrightarrow>
     (case maxParallelism p of None \<Rightarrow> True | Some n \<Rightarrow> 0 < n \<and> n \<le> max_safe_integer)
     \<and> isOmxStatePath (runtimeStateRoot p)"

record launch_spec =
  s_backend :: execution_backend
  s_blueprintPath :: string
  s_blueprintSlug :: string
  s_mode :: execution_mode
  s_policy :: execution_policy
  s_tasks :: "launch_task list"

definition blueprintLaunchSpecSchema :: "launch_spec \<Rightarrow> bool" where
  "blueprintLaunchSpecSchema s \<longleftrightarrow>
     s_blueprintPath s \<noteq> [] \<and> isBlueprintPath (s_blueprintPath s) \<and> s_blueprintSlug s \<noteq> []
     \<and> blueprintExecutionPolicySchema (s_policy s)
     \<and> list_all blueprintTaskLaunchSpecSchema (s_tasks s)"

section \<open>Runtime snapshots\<close>

record runtime_snapshot =
  rs_backend :: execution_backend
  rs_evidence :: "evidence list option"
  rs_executionId :: string
  rs_status :: execution_status
  rs_taskId :: "string option"
  rs_updatedAt :: string

definition evidence_check :: "zenv \<Rightarrow> check" where
  "evidence_check ze v =
     (case v of None \<Rightarrow> [([], Builtin (Invalid_type ''array''))] | Some x \<Rightarrow> evidence_list_issues ze x)"

definition runtimeStateSnapshotSchema :: "zenv \<Rightarrow> shape" where
  "runtimeStateSnapshotSchema ze =
     [(''backend'', enum_check (map backend_str backend_options)),
      (''evidence'', optional (evidence_check ze)),
      (''executionId'', string_min1),
      (''status'', enum_check (map execution_status_str execution_status_options)),
      (''taskId'', optional string_check),
      (''updatedAt'', string_min1)]"

definition read_evidence_list :: "json option \<Rightarrow> evidence list option" where
  "read_evidence_list v = (case v of Some (JArr vs) \<Rightarrow> Some (map read_evidence vs) | _ \<Rightarrow> None)"

definition parse_runtime_snapshot :: "zenv \<Rightarrow> (string \<times> json) list \<Rightarrow> runtime_snapshot throws" where
  "parse_runtime_snapshot ze ms =
     (let issues = shape_issues (runtimeStateSnapshotSchema ze) ms
      in case (parse_enum backend_str backend_options (get_str ms ''backend''),
               parse_execution_status (get_str ms ''status'')) of
           (Some b, Some s) \<Rightarrow>
             if issues \<noteq> [] then Inl (zod_message ze issues)
             else Inr \<lparr>rs_backend = b, rs_evidence = read_evidence_list (map_get ms ''evidence''),
                       rs_executionId = get_str ms ''executionId'', rs_status = s,
                       rs_taskId = opt_str ms ''taskId'', rs_updatedAt = get_str ms ''updatedAt''\<rparr>
         | _ \<Rightarrow> Inl (zod_message ze issues))"

end
