(* ===== verification/ProgressBridge.thy ===== *)
theory ProgressBridge
  imports ExecutionTypes
begin

text \<open>
  The progress bridge, \<open>src/blueprint/execution/progress-bridge.ts\<close>: runtime task
  snapshots are projected to lifecycle intents, and a runtime snapshot is applied to the
  blueprint through the lifecycle engine.
\<close>

datatype omx_status = O_pending | O_blocked | O_in_progress | O_completed | O_failed

fun omx_status_str :: "omx_status \<Rightarrow> string" where
  "omx_status_str O_pending = ''pending''"
| "omx_status_str O_blocked = ''blocked''"
| "omx_status_str O_in_progress = ''in_progress''"
| "omx_status_str O_completed = ''completed''"
| "omx_status_str O_failed = ''failed''"

definition omx_status_options :: "omx_status list" where
  "omx_status_options = [O_pending, O_blocked, O_in_progress, O_completed, O_failed]"

interpretation omx_codec: enum_codec omx_status_str omx_status_options
proof unfold_locales
  show "omx_status_str a = omx_status_str b \<longleftrightarrow> a = b" for a b by (cases a; cases b) auto
  show "a \<in> set omx_status_options" for a by (cases a) (auto simp: omx_status_options_def)
qed

record omx_task =
  o_description :: "string option"
  o_error :: "string option"
  o_evidence :: "evidence list option"
  o_result :: "string option"
  o_runtimeTaskId :: string
  o_status :: omx_status
  o_subject :: string

record task_binding =
  bd_blueprintTaskId :: string
  bd_runtimeTaskId :: string
  bd_title :: string

record bridge_state =
  bs_backend :: execution_backend
  bs_blueprintPath :: string
  bs_blueprintSlug :: string
  bs_executionId :: string
  bs_tasks :: "task_binding list"
  bs_updatedAt :: string

record projection =
  pj_intents :: "intent list"
  pj_status :: execution_status

record bridge_result =
  appliedTransitions :: "string list"
  br_blueprint :: blueprint
  br_execution :: execution_metadata
  br_markdown :: string

section \<open>Reading a runtime task\<close>

definition task_mention :: regex where
  "task_mention =
     sq [WordBd, lit_i ''Task'', plus ws, Grp 1 TASK_ID_PATTERN, star ws, chr CHR '':'']"

definition extractBlueprintTaskId :: "omx_task \<Rightarrow> string option" where
  "extractBlueprintTaskId o' =
     (let candidate = join_with [nl]
            (filter (\<lambda>s. s \<noteq> []) (o_subject o' # (case o_description o' of None \<Rightarrow> [] | Some d \<Rightarrow> [d])))
      in case re_exec task_mention candidate of None \<Rightarrow> None | Some m \<Rightarrow> group m 1)"

definition trimmed :: "string option \<Rightarrow> string" where
  "trimmed s = (case s of None \<Rightarrow> [] | Some t \<Rightarrow> js_trim t)"

definition buildFailureReason :: "omx_task \<Rightarrow> string" where
  "buildFailureReason o' =
     or_else (trimmed (o_error o'))
       (or_else (trimmed (o_result o'))
         (or_else (trimmed (o_description o'))
           (''OMX runtime task '' @ o_runtimeTaskId o' @ '' reported ''
            @ omx_status_str (o_status o') @ ''.'')))"

definition summarizeRuntimeStatus :: "omx_task list \<Rightarrow> execution_status" where
  "summarizeRuntimeStatus os =
     (if os = [] then E_pending
      else
        (let sts = map o_status os
         in if O_failed \<in> set sts then E_failed
            else if O_blocked \<in> set sts then E_blocked
            else if list_all (\<lambda>s. s = O_completed) sts then E_completed
            else if list_ex (\<lambda>s. s = O_in_progress \<or> s = O_completed) sts then E_running
            else E_pending))"

definition applyProjectedIntent ::
    "(string, task_status) js_map \<Rightarrow> intent \<Rightarrow> (string, task_status) js_map" where
  "applyProjectedIntent sts i =
     (case i of
        Start _ _ \<Rightarrow> sts
      | Park \<Rightarrow> sts
      | Finalize \<Rightarrow> sts
      | _ \<Rightarrow>
          map_set (intent_task i)
            (case i of Task_start _ \<Rightarrow> T_in_progress | Task_verify _ _ \<Rightarrow> Done
             | Task_block _ _ \<Rightarrow> Blocked | _ \<Rightarrow> Todo) sts)"

section \<open>The bridge state\<close>

fun bind_tasks :: "launch_task list \<Rightarrow> omx_task list \<Rightarrow> task_binding list throws" where
  "bind_tasks [] os = Inr []"
| "bind_tasks (t # ts) os =
     (case find (\<lambda>c. extractBlueprintTaskId c = Some (l_id t)) os of
        None \<Rightarrow>
          Inl (''Could not map runtime task for blueprint task '' @ l_id t
               @ ''. Ensure OMX team launch uses Task <id>: prefixes.'')
      | Some r \<Rightarrow>
          and_then (bind_tasks ts os) (\<lambda>bs.
            Inr (\<lparr>bd_blueprintTaskId = l_id t, bd_runtimeTaskId = o_runtimeTaskId r,
                  bd_title = l_title t\<rparr> # bs)))"

text \<open>The values that occur at an earlier index, in order.\<close>

fun repeated :: "string list \<Rightarrow> string list \<Rightarrow> string list" where
  "repeated seen [] = []"
| "repeated seen (x # xs) = (if x \<in> set seen then x # repeated seen xs else repeated (x # seen) xs)"

definition binding_ok :: "task_binding \<Rightarrow> bool" where
  "binding_ok b \<longleftrightarrow> bd_blueprintTaskId b \<noteq> [] \<and> bd_runtimeTaskId b \<noteq> [] \<and> bd_title b \<noteq> []"

definition blueprintProgressBridgeStateSchema :: "bridge_state \<Rightarrow> bool" where
  "blueprintProgressBridgeStateSchema s \<longleftrightarrow>
     bs_blueprintPath s \<noteq> [] \<and> bs_blueprintSlug s \<noteq> [] \<and> bs_executionId s \<noteq> []
     \<and> list_all binding_ok (bs_tasks s) \<and> bs_updatedAt s \<noteq> []"

definition buildBlueprintProgressBridgeState ::
    "zenv \<Rightarrow> launch_spec \<Rightarrow> string \<Rightarrow> omx_task list \<Rightarrow> string \<Rightarrow> bridge_state throws" where
  "buildBlueprintProgressBridgeState ze spec executionId runtimeTasks updatedAt =
     and_then (bind_tasks (s_tasks spec) runtimeTasks) (\<lambda>bindings.
       (let duplicates = repeated [] (map bd_runtimeTaskId bindings);
            st = \<lparr>bs_backend = s_backend spec, bs_blueprintPath = s_blueprintPath spec,
                  bs_blueprintSlug = s_blueprintSlug spec, bs_executionId = executionId,
                  bs_tasks = bindings, bs_updatedAt = updatedAt\<rparr>
        in if duplicates \<noteq> [] then
             Inl (''Duplicate runtime task bindings detected: '' @ join_with '', '' duplicates)
           else if blueprintProgressBridgeStateSchema st then Inr st
           else Inl (zod_message ze [([], Builtin Too_small)])))"

section \<open>Projection\<close>

definition buildMissingEvidenceReason :: "string \<Rightarrow> string" where
  "buildMissingEvidenceReason taskId =
     ''Runtime reported task '' @ taskId @ '' completed without task-local verification evidence.''"

definition hasPassingEvidence :: "evidence list option \<Rightarrow> bool" where
  "hasPassingEvidence ev =
     (case ev of None \<Rightarrow> False | Some es \<Rightarrow> list_ex (\<lambda>e. result_of e = Pass) es)"

definition evidence_value :: "evidence list \<Rightarrow> json" where
  "evidence_value es = JArr (map evidence_json es)"

definition taskVerifyIntent :: "string \<Rightarrow> evidence list option \<Rightarrow> intent option" where
  "taskVerifyIntent taskId ev =
     (if \<not> hasPassingEvidence ev then None
      else (case ev of None \<Rightarrow> None | Some es \<Rightarrow> Some (Task_verify taskId (evidence_value es))))"

definition project_task :: "string \<Rightarrow> omx_task \<Rightarrow> task_status \<Rightarrow> intent option" where
  "project_task taskId o' current =
     (case o_status o' of
        O_in_progress \<Rightarrow>
          if current = Todo \<or> current = Blocked then Some (Task_start taskId) else None
      | O_completed \<Rightarrow>
          if current \<noteq> Done then
            (case taskVerifyIntent taskId (o_evidence o') of
               Some i \<Rightarrow> Some i
             | None \<Rightarrow> Some (Task_block taskId (buildMissingEvidenceReason taskId)))
          else None
      | O_pending \<Rightarrow> None
      | _ \<Rightarrow>
          if current \<noteq> Done then Some (Task_block taskId (buildFailureReason o')) else None)"

definition runtime_map :: "omx_task list \<Rightarrow> (string, omx_task) js_map" where
  "runtime_map os = map_from (map (\<lambda>r. (o_runtimeTaskId r, r)) os)"

definition status_map :: "task list \<Rightarrow> (string, task_status) js_map" where
  "status_map ts = map_from (map (\<lambda>t. (t_id t, t_status t)) ts)"

definition project_binding ::
    "blueprint \<Rightarrow> (string, omx_task) js_map \<Rightarrow> (string, task_status) js_map \<Rightarrow> task_binding \<Rightarrow> intent option" where
  "project_binding bp byId sts b =
     (case (map_get byId (bd_runtimeTaskId b),
            find (\<lambda>t. t_id t = bd_blueprintTaskId b) (b_tasks bp)) of
        (Some r, Some t) \<Rightarrow>
          project_task (bd_blueprintTaskId b) r
            (case map_get sts (bd_blueprintTaskId b) of Some s \<Rightarrow> s | None \<Rightarrow> t_status t)
      | _ \<Rightarrow> None)"

fun project_bindings ::
    "blueprint \<Rightarrow> (string, omx_task) js_map \<Rightarrow> task_binding list \<Rightarrow> (string, task_status) js_map
       \<Rightarrow> intent list \<Rightarrow> (string, task_status) js_map \<times> intent list" where
  "project_bindings bp byId [] sts acc = (sts, acc)"
| "project_bindings bp byId (b # bs) sts acc =
     (case project_binding bp byId sts b of
        None \<Rightarrow> project_bindings bp byId bs sts acc
      | Some i \<Rightarrow> project_bindings bp byId bs (applyProjectedIntent sts i) (acc @ [i]))"

definition completed_with_evidence :: "(string, omx_task) js_map \<Rightarrow> task_binding \<Rightarrow> bool" where
  "completed_with_evidence byId b =
     (case map_get byId (bd_runtimeTaskId b) of None \<Rightarrow> False
      | Some r \<Rightarrow> o_status r = O_completed \<and> hasPassingEvidence (o_evidence r))"

definition projectBlueprintLifecycleFromRuntime ::
    "blueprint \<Rightarrow> bridge_state \<Rightarrow> omx_task list \<Rightarrow> projection" where
  "projectBlueprintLifecycleFromRuntime bp bridge os =
     (let byId = runtime_map os;
          projected = project_bindings bp byId (bs_tasks bridge) (status_map (b_tasks bp)) [];
          is_done = (\<lambda>b. map_get (fst projected) (bd_blueprintTaskId b) = Some Done);
          st = summarizeRuntimeStatus os;
          allDone = (bs_tasks bridge \<noteq> [] \<and> list_all is_done (bs_tasks bridge));
          allEvidence = (allDone
            \<and> list_all (\<lambda>b. \<not> is_done b \<or> completed_with_evidence byId b) (bs_tasks bridge))
      in \<lparr>pj_intents = snd projected
            @ (if st = E_completed \<and> allDone \<and> allEvidence \<and> b_status bp \<noteq> ''completed''
               then [Finalize] else []),
          pj_status = st\<rparr>)"

section \<open>Normalising input and paths\<close>

definition omxTeamTaskSnapshotSchema :: "zenv \<Rightarrow> shape" where
  "omxTeamTaskSnapshotSchema ze =
     [(''description'', optional string_check), (''error'', optional string_check),
      (''evidence'', optional (evidence_check ze)), (''result'', optional string_check),
      (''runtimeTaskId'', string_min1),
      (''status'', enum_check (map omx_status_str omx_status_options)),
      (''subject'', string_min1)]"

definition keep_kind :: "(json \<Rightarrow> bool) \<Rightarrow> string \<Rightarrow> (string \<times> json) list \<Rightarrow> (string \<times> json) list" where
  "keep_kind p k ms = (case map_get ms k of None \<Rightarrow> [] | Some v \<Rightarrow> if p v then [(k, v)] else [])"

definition is_arr :: "json \<Rightarrow> bool" where
  "is_arr v = (case v of JArr _ \<Rightarrow> True | _ \<Rightarrow> False)"

definition normalized_members :: "(string \<times> json) list \<Rightarrow> (string \<times> json) list" where
  "normalized_members ms =
     keep_kind json_is_str ''description'' ms @ keep_kind json_is_str ''error'' ms
     @ keep_kind is_arr ''evidence'' ms @ keep_kind json_is_str ''result'' ms
     @ [(''runtimeTaskId'', JStr (case map_get ms ''id'' of None \<Rightarrow> [] | Some JNull \<Rightarrow> []
                                  | Some v \<Rightarrow> js_string v))]
     @ keep_kind (\<lambda>_. True) ''status'' ms
     @ [(''subject'', JStr (get_str ms ''subject''))]"

definition normalizeOmxTeamTaskSnapshot :: "zenv \<Rightarrow> (string \<times> json) list \<Rightarrow> omx_task throws" where
  "normalizeOmxTeamTaskSnapshot ze input =
     (let ms = normalized_members input;
          issues = shape_issues (omxTeamTaskSnapshotSchema ze) ms
      in case parse_enum omx_status_str omx_status_options (get_str ms ''status'') of
           Some s \<Rightarrow>
             if issues \<noteq> [] then Inl (zod_message ze issues)
             else Inr \<lparr>o_description = opt_str ms ''description'', o_error = opt_str ms ''error'',
                       o_evidence = read_evidence_list (map_get ms ''evidence''),
                       o_result = opt_str ms ''result'', o_runtimeTaskId = get_str ms ''runtimeTaskId'',
                       o_status = s, o_subject = get_str ms ''subject''\<rparr>
         | None \<Rightarrow> Inl (zod_message ze issues))"

definition id_char :: "char \<Rightarrow> bool" where
  "id_char c \<longleftrightarrow> js_word c \<or> c = CHR ''-''"

definition sanitizeBlueprintExecutionId :: "string \<Rightarrow> string" where
  "sanitizeBlueprintExecutionId executionId =
     replace_all (plus (Cls (\<lambda>c. \<not> id_char c))) (\<lambda>_. ''-'') (js_trim executionId)"

definition strip_trailing_slashes :: "string \<Rightarrow> string" where
  "strip_trailing_slashes s = replace_first (Seq (plus (chr CHR ''/'')) EndText) (\<lambda>_. []) s"

definition resolveBlueprintProgressBridgePath :: "string \<Rightarrow> execution_backend \<Rightarrow> string \<Rightarrow> string" where
  "resolveBlueprintProgressBridgePath root backend executionId =
     join_with ''/''
       (filter (\<lambda>s. s \<noteq> [])
         [strip_trailing_slashes root, ''blueprint-execution'', backend_str backend,
          sanitizeBlueprintExecutionId executionId @ ''.json''])"

definition uri_unreserved :: "char \<Rightarrow> bool" where
  "uri_unreserved c \<longleftrightarrow> js_word c \<or> c \<in> set ''-.!~*()'' \<or> c = squote"

definition encodeURIComponent :: "string \<Rightarrow> string" where
  "encodeURIComponent s =
     concat (map (\<lambda>c. if uri_unreserved c then [c]
       else CHR ''%'' # js_upper [hex_char (of_char c div 16), hex_char (of_char c mod 16)]) s)"

definition runtimeSnapshotPathForExecution :: "string \<Rightarrow> string \<Rightarrow> string" where
  "runtimeSnapshotPathForExecution executionId root =
     root @ ''/blueprint-executions/'' @ encodeURIComponent executionId @ ''.json''"

section \<open>Applying a runtime snapshot\<close>

definition shouldStartBlueprint :: "blueprint \<Rightarrow> runtime_snapshot \<Rightarrow> bool" where
  "shouldStartBlueprint bp sn \<longleftrightarrow>
     rs_status sn \<in> {E_running, E_blocked, E_failed, E_completed}
     \<and> b_status bp \<in> {''draft'', ''planned'', ''parked''}"

definition buildBlockedReason :: "runtime_snapshot \<Rightarrow> string" where
  "buildBlockedReason sn =
     (if rs_status sn = E_failed then ''Runtime failed'' else ''Runtime blocked'')
     @ '' in '' @ backend_str (rs_backend sn) @ '' execution '' @ rs_executionId sn
     @ (if truthy (rs_taskId sn) then '' for task '' @ the (rs_taskId sn) else []) @ ''.''"

definition shouldFinalizeBlueprint :: "zenv \<Rightarrow> string \<Rightarrow> blueprint \<Rightarrow> runtime_snapshot \<Rightarrow> bool" where
  "shouldFinalizeBlueprint ze markdown bp sn =
     (if rs_status sn \<noteq> E_completed \<or> b_status bp = ''completed'' \<or> b_status bp = ''archived''
         \<or> b_tasks bp = [] \<or> \<not> list_all settled (b_tasks bp)
      then False
      else (case assertAllTasksHaveCanonicalPassingEvidence ze markdown
                   (map t_id (filter (\<lambda>t. t_status t = Done) (b_tasks bp))) of
              Inl _ \<Rightarrow> False | Inr _ \<Rightarrow> True))"

type_synonym bridge_step = "string \<times> blueprint \<times> string list"

text \<open>\<open>applyIntent\<close> followed by the reparse of its callers.\<close>

definition applyIntent :: "env \<Rightarrow> string \<Rightarrow> intent \<Rightarrow> bridge_step \<Rightarrow> bridge_step throws" where
  "applyIntent en slug i st =
     and_then (applyBlueprintLifecycle en (fst st) slug i) (\<lambda>r.
     and_then (parseBlueprint (docs_of en) (r_markdown r) slug) (\<lambda>bp.
       Inr (r_markdown r, bp, snd (snd st) @ [intent_type i])))"

definition when_ok :: "bool \<Rightarrow> (bridge_step \<Rightarrow> bridge_step throws) \<Rightarrow> bridge_step \<Rightarrow> bridge_step throws" where
  "when_ok c f st = (if c then f st else Inr st)"

definition snapshot_intent :: "runtime_snapshot \<Rightarrow> string \<Rightarrow> task_status \<Rightarrow> intent option" where
  "snapshot_intent sn taskId st =
     (if rs_status sn = E_running \<and> st = Todo then Some (Task_start taskId)
      else if (rs_status sn = E_blocked \<or> rs_status sn = E_failed)
              \<and> st \<noteq> Done \<and> st \<noteq> Dropped \<and> st \<noteq> Blocked
      then Some (Task_block taskId (buildBlockedReason sn))
      else if rs_status sn = E_completed \<and> st \<noteq> Done \<and> st \<noteq> Dropped then
        (case taskVerifyIntent taskId (rs_evidence sn) of
           Some i \<Rightarrow> Some i
         | None \<Rightarrow> Some (Task_block taskId (buildMissingEvidenceReason taskId)))
      else None)"

definition task_transition :: "env \<Rightarrow> string \<Rightarrow> runtime_snapshot \<Rightarrow> bridge_step \<Rightarrow> bridge_step throws" where
  "task_transition en slug sn st =
     (if \<not> truthy (rs_taskId sn) then Inr st
      else
        (let taskId = the (rs_taskId sn)
         in case find (\<lambda>t. t_id t = taskId) (b_tasks (fst (snd st))) of
              None \<Rightarrow> Inl (''Task '' @ taskId @ '' not found in blueprint '' @ slug)
            | Some t \<Rightarrow>
                (case snapshot_intent sn taskId (t_status t) of
                   None \<Rightarrow> Inr st | Some i \<Rightarrow> applyIntent en slug i st)))"

definition applyRuntimeProgressSnapshot ::
    "env \<Rightarrow> string \<Rightarrow> string \<Rightarrow> (string \<times> json) list \<Rightarrow> bridge_result throws" where
  "applyRuntimeProgressSnapshot en markdown slug input =
     and_then (parse_runtime_snapshot (zenv_of en) input) (\<lambda>sn.
       (let execution = \<lparr>x_backend = rs_backend sn, x_executionId = rs_executionId sn,
                         x_status = rs_status sn, x_updatedAt = rs_updatedAt sn\<rparr>
        in and_then (writeBlueprintExecutionMetadata (docs_of en) markdown execution) (\<lambda>md0.
           and_then (parseBlueprint (docs_of en) md0 slug) (\<lambda>bp0.
           and_then (when_ok (shouldStartBlueprint bp0 sn) (applyIntent en slug (Start None None))
                      (md0, bp0, [])) (\<lambda>st1.
           and_then (task_transition en slug sn st1) (\<lambda>st2.
           and_then (when_ok (shouldFinalizeBlueprint (zenv_of en) (fst st2) (fst (snd st2)) sn)
                      (applyIntent en slug Finalize) st2) (\<lambda>st3.
             Inr \<lparr>appliedTransitions = snd (snd st3), br_blueprint = fst (snd st3),
                  br_execution = execution, br_markdown = fst st3\<rparr>)))))))"

end
