(* ===== verification/LifecycleFacts.thy ===== *)
theory LifecycleFacts
  imports SampleDocs ProgressBridge
begin

text \<open>
  Facts about the lifecycle engine, the verification step and the progress bridge that the
  properties rest on.
\<close>

section \<open>Verification\<close>

lemma applyVerification_Verified:
  "(\<exists>md'. applyVerification ze md t ev = Verified md') \<longleftrightarrow>
     (\<exists>items. evidenceListSchema ze ev = Inr items \<and> (\<forall>e\<in>set items. result_of e = Pass)
        \<and> re_test (buildTaskHeaderRegexForId t) md)"
proof (cases "evidenceListSchema ze ev")
  case (Inr items)
  have pf: "result_of e \<noteq> Fail \<longleftrightarrow> result_of e = Pass" for e by (cases "result_of e") auto
  have ne: "items \<noteq> []" using parsed_contract [OF Inr] by simp
  show ?thesis
  proof (cases "\<exists>e\<in>set items. result_of e = Fail")
    case True
    then have "filter (\<lambda>e. result_of e = Fail) items \<noteq> []" by (auto simp: filter_empty_conv)
    with True Inr show ?thesis by (fastforce simp: applyVerification_def Let_def)
  next
    case False
    then have "filter (\<lambda>e. result_of e = Fail) items = []" by (auto simp: filter_empty_conv)
    moreover have "filter (\<lambda>e. result_of e = Pass) items = items"
      using False pf by (simp add: filter_id_conv)
    ultimately show ?thesis using False pf ne Inr by (simp add: applyVerification_def)
  qed
qed (simp add: applyVerification_def)

lemma verified_items:
  assumes "applyVerification ze md t ev = Verified md'"
  obtains items where "evidenceListSchema ze ev = Inr items" "items \<noteq> []"
    "\<forall>e\<in>set items. result_of e = Pass \<and> contract ze e"
  using assms applyVerification_Verified [of ze md t ev] parsed_contract [of ze ev]
  by (metis evidence_ok_contract)

lemma all_evidence_iff:
  "assertAllTasksHaveCanonicalPassingEvidence ze md ts = Inr u \<longleftrightarrow>
     (\<forall>t\<in>set ts. \<exists>es. readTaskVerification ze md t = Some es \<and> (\<exists>e\<in>set es. result_of e = Pass))"
  by (induction ts)
     (auto simp: and_then_Inr_iff assertTaskHasCanonicalPassingEvidence_def split: option.splits)

lemma read_contract_block:
  "parseVerificationBlock ze s = Some es \<Longrightarrow> es \<noteq> [] \<and> (\<forall>e\<in>set es. contract ze e)"
  by (auto simp: parseVerificationBlock_def evidence_ok_contract [symmetric] dest: parsed_contract
      split: option.splits sum.splits)

lemma read_task_contract:
  "readTaskVerification ze md t = Some es \<Longrightarrow> es \<noteq> [] \<and> (\<forall>e\<in>set es. contract ze e)"
  by (auto simp: readTaskVerification_def dest: read_contract_block split: option.splits)

section \<open>Finalization checks\<close>

definition criteria_met :: "task \<Rightarrow> bool" where
  "criteria_met t \<longleftrightarrow>
     total (acceptanceCriteria t) = 0 \<or> checked (acceptanceCriteria t) = total (acceptanceCriteria t)"

lemma check_done_tasks_iff:
  "check_done_tasks bp ts = Inr ids \<longleftrightarrow>
     (\<forall>t\<in>set ts. settled t \<and> (t_status t = Done \<longrightarrow> criteria_met t))
     \<and> ids = map t_id (filter (\<lambda>t. t_status t = Done) ts)"
  by (induction ts arbitrary: ids) (auto simp: and_then_Inr_iff settled_def criteria_met_def)

lemma done_requirements_iff:
  "assertTaskDoneRequirements ze md bp = Inr u \<longleftrightarrow>
     b_tasks bp \<noteq> []
     \<and> (\<forall>t\<in>set (b_tasks bp). settled t \<and> (t_status t = Done \<longrightarrow> criteria_met t
          \<and> (\<exists>es. readTaskVerification ze md (t_id t) = Some es \<and> (\<exists>e\<in>set es. result_of e = Pass))))"
  by (auto simp: assertTaskDoneRequirements_def and_then_Inr_iff check_done_tasks_iff all_evidence_iff)

section \<open>The shape of a successful run\<close>

lemma lifecycle_run:
  assumes "applyBlueprintLifecycle en md slug i = Inr r"
  obtains bp current md1 target event md2 reparsed where
    "parseBlueprint (docs_of en) md slug = Inr bp" "b_status bp = status_str current"
    "\<not> (is_closed current \<and> i \<noteq> Finalize)"
    "intent_step en md slug i bp current = Inr (md1, target, event)"
    "setBlueprintFrontmatterFields (docs_of en) md1
       [(''status'', Some (JStr (status_str target))), (''last_updated'', Some (JStr (today en))),
        completed_field en target] = Inr md2"
    "parseBlueprint (docs_of en) md2 slug = Inr reparsed"
    "setBlueprintFrontmatterFields (docs_of en) md2
       [(''progress'', Some (JStr (formatProgress (today en) reparsed))),
        (''last_updated'', Some (JStr (today en))), completed_field en target] = Inr (r_markdown r)"
    "parseBlueprint (docs_of en) (r_markdown r) slug = Inr (r_blueprint r)"
    "targetStatus r = target" "auditEvents r = [event]"
    "r_progress r = formatProgress (today en) reparsed"
proof -
  from assms obtain bp current where bp: "parseBlueprint (docs_of en) md slug = Inr bp"
    and cur: "assertExecutableStatus (b_status bp) = Inr current"
    unfolding applyBlueprintLifecycle_def and_then_Inr_iff by blast
  from cur have st: "b_status bp = status_str current"
    by (auto simp: assertExecutableStatus_def parse_status_iff split: option.splits)
  from assms bp cur have "\<not> (is_closed current \<and> i \<noteq> Finalize)"
    by (auto simp: applyBlueprintLifecycle_def split: if_splits)
  note open' = this
  with assms bp cur obtain md1 target event where
    step: "intent_step en md slug i bp current = Inr (md1, target, event)"
    by (auto simp: applyBlueprintLifecycle_def and_then_Inr_iff split: if_splits)
  note start = assms [unfolded applyBlueprintLifecycle_def bp cur and_then.simps step if_not_P [OF open'] prod.case]
  then obtain md2 where md2: "setBlueprintFrontmatterFields (docs_of en) md1
       [(''status'', Some (JStr (status_str target))), (''last_updated'', Some (JStr (today en))),
        completed_field en target] = Inr md2"
    by (auto simp: and_then_Inr_iff)
  note next1 = start [unfolded md2 and_then.simps]
  then obtain reparsed where re: "parseBlueprint (docs_of en) md2 slug = Inr reparsed"
    by (auto simp: and_then_Inr_iff)
  note next2 = next1 [unfolded re and_then.simps]
  then obtain md3 final where "setBlueprintFrontmatterFields (docs_of en) md2
       [(''progress'', Some (JStr (formatProgress (today en) reparsed))),
        (''last_updated'', Some (JStr (today en))), completed_field en target] = Inr md3"
      "parseBlueprint (docs_of en) md3 slug = Inr final"
      "r = \<lparr>auditEvents = [event], r_blueprint = final, r_markdown = md3,
            r_progress = formatProgress (today en) reparsed, targetStatus = target\<rparr>"
    by (auto simp: and_then_Inr_iff)
  with bp st open' step md2 re that show ?thesis by simp
qed

lemma start_step:
  "intent_step en md slug (Start a b) bp c = Inr (md1, target, event) \<Longrightarrow> target = In_progress \<and> \<not> is_closed c"
  by (auto simp: intent_step_def and_then_Inr_iff split: if_splits)

lemma park_step:
  "intent_step en md slug Park bp c = Inr (md1, target, event) \<Longrightarrow> target = Parked \<and> \<not> is_closed c"
  by (auto simp: intent_step_def and_then_Inr_iff split: if_splits)

lemma finalize_step:
  "intent_step en md slug Finalize bp c = Inr (md1, target, event) \<Longrightarrow>
     target = Completed \<and> assertTaskDoneRequirements (zenv_of en) md bp = Inr ()"
  by (auto simp: intent_step_def and_then_Inr_iff)

lemma task_step:
  assumes "intent_step en md slug i bp c = Inr (md1, target, event)"
    and "i \<noteq> Park" "i \<noteq> Finalize" "\<And>a b. i \<noteq> Start a b"
  shows "applyTaskIntent (zenv_of en) md bp i = Inr md1"
    and "target = (if is_closed c then c else In_progress)"
proof -
  have "applyTaskIntent (zenv_of en) md bp i = Inr md1
      \<and> target = deriveBlueprintStatus (if c = Draft \<or> c = Planned \<or> c = Parked then In_progress else c)"
    using assms by (cases i) (auto simp: intent_step_def and_then_Inr_iff)
  then show "applyTaskIntent (zenv_of en) md bp i = Inr md1"
    and "target = (if is_closed c then c else In_progress)"
    by (auto simp: deriveBlueprintStatus_def is_closed_def)
qed

lemma complete_step: "applyTaskIntent ze md bp (Task_complete t) \<noteq> Inr x"
  by (auto simp: applyTaskIntent_def and_then_Inr_iff)

lemma verify_step:
  assumes "applyTaskIntent ze md bp (Task_verify t ev) = Inr md1"
  shows "t \<in> t_id ` set (b_tasks bp) \<and> applyVerification ze md t ev = Verified md1"
proof -
  from assms obtain tk where "find (\<lambda>x. t_id x = t) (b_tasks bp) = Some tk"
      "(case applyVerification ze md (t_id tk) ev of Not_verified fs \<Rightarrow> Inl (join_with ''; '' fs)
        | Verified m \<Rightarrow> Inr m) = Inr md1"
    by (auto simp: applyTaskIntent_def assertTaskExists_def and_then_Inr_iff split: option.splits)
  then show ?thesis
    by (auto simp: find_Some_iff split: verification_outcome.splits)
qed

section \<open>Front matter\<close>

lemma update_fields_Nil [simp]: "update_fields [] d = d"
  by (simp add: update_fields_def)

lemma update_fields_Cons [simp]: "update_fields (u # us) d = update_fields us (update_field d u)"
  by (simp add: update_fields_def)

lemma update_field_get [simp]:
  "map_get (update_field d u) k =
     (if k = fst u then (case snd u of None \<Rightarrow> None | Some v \<Rightarrow> if v = JStr [] then None else Some (FVal v))
      else map_get d k)"
  by (auto simp: update_field_def split: option.splits)

lemma set_map_set: "set (map_set k v m) \<subseteq> insert (k, v) (set m)"
  by (induction m) (auto simp: map_set_def)

lemma set_map_delete: "set (map_delete k m) \<subseteq> set m"
  by (auto simp: map_delete_def AList.delete_eq)

lemma fm_plain_update:
  assumes "fm_plain d" and "\<And>v. snd u = Some v \<Longrightarrow> json_ok v"
  shows "fm_plain (update_field d u)"
proof -
  have "fm_plain (map_set k (FVal v) d)" if "json_ok v" for k v
    using assms(1) set_map_set [of k "FVal v" d] that by (fastforce simp: fm_plain_def)
  moreover have "fm_plain (map_delete k d)" for k
    using assms(1) set_map_delete [of k d] by (auto simp: fm_plain_def)
  ultimately show ?thesis using assms(2) by (auto simp: update_field_def split: option.splits)
qed

lemma not_Nil_get: "map_get d k \<noteq> None \<Longrightarrow> d \<noteq> []"
  by auto

lemma final_newline_dashes: "\<not> starts_with c ''---'' \<Longrightarrow> \<not> starts_with (final_newline c) ''---''"
proof
  assume a: "\<not> starts_with c ''---''" and b: "starts_with (final_newline c) ''---''"
  then have "prefix ''---'' (c @ [nl])" by (auto simp: starts_with_def final_newline_def split: if_splits)
  then have "''---'' = c @ [nl] \<or> prefix ''---'' c" by (simp add: prefix_snoc)
  then show False
  proof
    assume "''---'' = c @ [nl]"
    then have "last ''---'' = nl" by (metis snoc_eq_iff_butlast)
    then show False by simp
  qed (use a in \<open>simp add: starts_with_def\<close>)
qed

lemma final_newline_idem [simp]: "final_newline (final_newline c) = final_newline c"
  by (auto simp: final_newline_def ends_with_def)

lemma set_fields_laws:
  assumes laws: "front_matter_laws dx" and m: "matter dx md = Inr (d, c)" and d: "fm_plain d"
    and c: "\<not> starts_with c ''---''" and ne: "update_fields us d \<noteq> []"
    and us: "\<forall>u\<in>set us. \<forall>v. snd u = Some v \<longrightarrow> json_ok v"
    and ok: "setBlueprintFrontmatterFields dx md us = Inr md'"
  shows "matter dx md' = Inr (update_fields us d, final_newline c)" and "fm_plain (update_fields us d)"
proof -
  show plain: "fm_plain (update_fields us d)" using d us
    by (induction us arbitrary: d) (simp_all add: fm_plain_update)
  have "md' = stringify dx c (update_fields us d)"
    using ok m by (simp add: setBlueprintFrontmatterFields_def)
  with laws plain ne c show "matter dx md' = Inr (update_fields us d, final_newline c)"
    by (simp add: front_matter_laws_def)
qed

section \<open>Fields an intent writes\<close>

lemma document_status_get: "map_get d ''status'' = Some (FVal (JStr s)) \<Longrightarrow> document_status d = s"
  by (simp add: document_status_def fm_str_def)

lemma intent_fields:
  assumes "intent_step en md slug i bp c = Inr (md1, target, event)" and "i = Park \<or> i = Finalize \<or> (\<exists>a b. i = Start a b)"
  shows "setBlueprintFrontmatterFields (docs_of en) md
     (case i of Start a b \<Rightarrow> [(''worktree_owner_id'', map_option JStr a), (''worktree_owner_branch'', map_option JStr b)]
      | _ \<Rightarrow> no_owner) = Inr md1"
  using assms by (auto simp: intent_step_def and_then_Inr_iff split: if_splits)

lemma json_ok_option: "map_option JStr a = Some v \<Longrightarrow> json_ok v"
  by auto

lemma status_kept: "map_get d ''status'' \<noteq> None \<Longrightarrow> \<forall>u\<in>set us. fst u \<noteq> ''status'' \<Longrightarrow>
   map_get (update_fields us d) ''status'' \<noteq> None"
  by (induction us arbitrary: d) auto

lemma schema_has_status: "planFrontmatterSchema d \<Longrightarrow> map_get d ''status'' \<noteq> None"
  by (auto simp: planFrontmatterSchema_def field_ok_def split: option.splits)

definition owner_fields :: "intent \<Rightarrow> (string \<times> json option) list" where
  "owner_fields i = (case i of
     Start a b \<Rightarrow> [(''worktree_owner_id'', map_option JStr a), (''worktree_owner_branch'', map_option JStr b)]
   | _ \<Rightarrow> no_owner)"

lemma owner_fields_ok: "\<forall>u\<in>set (owner_fields i). \<forall>v. snd u = Some v \<longrightarrow> json_ok v"
  by (cases i) (auto simp: owner_fields_def no_owner_def)

lemma owner_fields_status: "\<forall>u\<in>set (owner_fields i). fst u \<noteq> ''status''"
  by (cases i) (auto simp: owner_fields_def no_owner_def)

lemma sample_doc_read:
  assumes "\<not> starts_with body ''---''"
  shows "matter sample_docs (sample_doc st body)
     = Inr ([(''type'', FVal (JStr ''blueprint'')), (''status'', FVal (JStr st))], final_newline body)"
    and "fm_plain [(''type'', FVal (JStr ''blueprint'')), (''status'', FVal (JStr st))]"
proof -
  show plain: "fm_plain [(''type'', FVal (JStr ''blueprint'')), (''status'', FVal (JStr st))]"
    by (simp add: fm_plain_def map_wf_def)
  have "stringify sample_docs = sample_stringify" by (simp add: sample_docs_def)
  with sample_laws plain assms show "matter sample_docs (sample_doc st body)
     = Inr ([(''type'', FVal (JStr ''blueprint'')), (''status'', FVal (JStr st))], final_newline body)"
    unfolding front_matter_laws_def sample_doc_def by (metis list.distinct(1))
qed

end
