(* ===== verification/LifecycleProps.thy ===== *)
theory LifecycleProps
  imports LifecycleFacts
begin

text \<open>
  The properties of the lifecycle engine: what a successful intent implies, what it writes,
  and where it leaves the transition matrix.
\<close>

section \<open>Sample runs\<close>

definition dropped_doc :: string where
  "dropped_doc = sample_doc ''archived'' (sample_section ''dropped'' [])"

definition result_matches :: "lifecycle_result throws \<Rightarrow> lifecycle_status \<Rightarrow> bool" where
  "result_matches r st = (case r of Inr x \<Rightarrow> targetStatus x = st | Inl _ \<Rightarrow> False)"

lemma result_matches_ex: "result_matches r st \<Longrightarrow> \<exists>x. r = Inr x \<and> targetStatus x = st"
  by (auto simp: result_matches_def split: sum.splits)

lemma sample_finalize:
  "result_matches (applyBlueprintLifecycle sample_env dropped_doc ''b'' Finalize) Completed"
  by code_simp

lemma sample_start:
  "result_matches (applyBlueprintLifecycle sample_env todo_doc ''b'' (Start None None)) In_progress"
  by code_simp

lemma sample_verify:
  "result_matches (applyBlueprintLifecycle sample_env todo_doc ''b''
     (Task_verify ''1.1'' (JArr [evidence_json sample_proof]))) In_progress"
  by code_simp

definition has_status :: "blueprint throws \<Rightarrow> lifecycle_status \<Rightarrow> bool" where
  "has_status r st = (case r of Inr bp \<Rightarrow> b_status bp = status_str st | Inl _ \<Rightarrow> False)"

lemma has_status_ex: "has_status r st \<Longrightarrow> \<exists>bp. r = Inr bp \<and> b_status bp = status_str st"
  by (auto simp: has_status_def split: sum.splits)

lemma sample_draft: "has_status (parseBlueprint sample_docs todo_doc ''b'') Draft"
  by code_simp

section \<open>Properties\<close>

text \<open>
  C3. A blueprint is finalized only when it has tasks, every task is done or dropped, every
  done task has all its acceptance criteria checked, and every done task carries, in its own
  section, a verification block that satisfies the evidence contract and has a passing item.
\<close>

theorem finalize_requires_evidence:
  assumes "applyBlueprintLifecycle en md slug Finalize = Inr r"
  shows "\<exists>bp. parseBlueprint (docs_of en) md slug = Inr bp \<and> b_tasks bp \<noteq> []
    \<and> (\<forall>t\<in>set (b_tasks bp). t_status t = Dropped
         \<or> (t_status t = Done \<and> criteria_met t
            \<and> (\<exists>es. readTaskVerification (zenv_of en) md (t_id t) = Some es
                 \<and> (\<forall>e\<in>set es. contract (zenv_of en) e) \<and> (\<exists>e\<in>set es. result_of e = Pass))))
    \<and> targetStatus r = Completed"
proof -
  from assms obtain bp current md1 target event
    where bp: "parseBlueprint (docs_of en) md slug = Inr bp"
      and step: "intent_step en md slug Finalize bp current = Inr (md1, target, event)"
      and t: "targetStatus r = target"
    by (rule lifecycle_run)
  from finalize_step [OF step] t have "targetStatus r = Completed"
    "assertTaskDoneRequirements (zenv_of en) md bp = Inr ()" by auto
  with bp show ?thesis
    unfolding done_requirements_iff settled_def using read_task_contract by blast
qed

theorem finalize_requires_evidence_witness:
  "\<exists>bp. parseBlueprint sample_docs dropped_doc ''b'' = Inr bp \<and> b_tasks bp \<noteq> []"
  using result_matches_ex [OF sample_finalize]
    finalize_requires_evidence [of sample_env dropped_doc "''b''"]
  by (fastforce simp: sample_env_def)



text \<open>
  C27. What a successful intent does to the lifecycle status: starting and every task intent
  lead to in-progress, parking to parked, finalizing to completed; a completed or archived
  blueprint accepts finalizing only, and completing a task without evidence never succeeds.
\<close>

theorem lifecycle_target:
  assumes "applyBlueprintLifecycle en md slug i = Inr r"
  shows "(\<exists>bp current. parseBlueprint (docs_of en) md slug = Inr bp
            \<and> b_status bp = status_str current \<and> (is_closed current \<longrightarrow> i = Finalize))
    \<and> targetStatus r = (case i of Park \<Rightarrow> Parked | Finalize \<Rightarrow> Completed | _ \<Rightarrow> In_progress)
    \<and> (\<forall>t. i \<noteq> Task_complete t)"
proof -
  from assms obtain bp current md1 target event
    where bp: "parseBlueprint (docs_of en) md slug = Inr bp" "b_status bp = status_str current"
      and c: "\<not> (is_closed current \<and> i \<noteq> Finalize)"
      and step: "intent_step en md slug i bp current = Inr (md1, target, event)"
      and t: "targetStatus r = target"
    by (rule lifecycle_run)
  have tgt: "target = (case i of Park \<Rightarrow> Parked | Finalize \<Rightarrow> Completed | _ \<Rightarrow> In_progress)"
  proof (cases "i = Park \<or> i = Finalize \<or> (\<exists>a b. i = Start a b)")
    case True
    with step show ?thesis by (auto dest: park_step finalize_step start_step)
  next
    case False
    then have "target = (if is_closed current then current else In_progress)"
      using step by (intro task_step(2)) auto
    with c False show ?thesis by (cases i) auto
  qed
  have "i \<noteq> Task_complete t'" for t'
    using task_step(1) [OF step] complete_step by auto
  with bp c t tgt show ?thesis by blast
qed

theorem lifecycle_target_witness:
  "\<exists>r. applyBlueprintLifecycle sample_env todo_doc ''b'' (Start None None) = Inr r
       \<and> targetStatus r = In_progress"
  using result_matches_ex [OF sample_start] lifecycle_target by fastforce

text \<open>
  The engine does not consult the transition matrix: starting or parking a draft succeeds
  although the matrix has neither transition, and so does finalizing an archived blueprint.
\<close>

theorem engine_leaves_matrix:
  assumes "applyBlueprintLifecycle en md slug i = Inr r"
    and "parseBlueprint (docs_of en) md slug = Inr bp" and "b_status bp = status_str st"
    and "(st, i) \<in> {(Draft, Park), (Archived, Finalize)} \<or> (\<exists>a b. (st, i) = (Draft, Start a b))"
  shows "\<not> isLegalLifecycleTransition st (targetStatus r)"
proof -
  from assms(1) obtain bp' current md1 target event
    where bp': "parseBlueprint (docs_of en) md slug = Inr bp'" "b_status bp' = status_str current"
      and step: "intent_step en md slug i bp' current = Inr (md1, target, event)"
      and t: "targetStatus r = target"
    by (rule lifecycle_run)
  from assms(4) consider "st = Draft" "i = Park" | "st = Archived" "i = Finalize"
    | a b where "st = Draft" "i = Start a b" by auto
  then show ?thesis
    using step t
    by cases (auto simp: isLegalLifecycleTransition_def getLegalLifecycleTargets_def
        legal_transitions_def dest: start_step park_step finalize_step)
qed

theorem engine_leaves_matrix_witness:
  "\<exists>r. applyBlueprintLifecycle sample_env todo_doc ''b'' (Start None None) = Inr r
       \<and> \<not> isLegalLifecycleTransition Draft (targetStatus r)"
proof -
  obtain r bp where "applyBlueprintLifecycle sample_env todo_doc ''b'' (Start None None) = Inr r"
      "parseBlueprint (docs_of sample_env) todo_doc ''b'' = Inr bp" "b_status bp = status_str Draft"
    using result_matches_ex [OF sample_start] has_status_ex [OF sample_draft] by (auto simp: sample_env_def)
  then show ?thesis using engine_leaves_matrix [of sample_env todo_doc "''b''" _ r bp Draft] by blast
qed

text \<open>The fields the engine writes after the intent, and the document they leave.\<close>

definition status_fields :: "env \<Rightarrow> lifecycle_status \<Rightarrow> (string \<times> json option) list" where
  "status_fields en target =
     [(''status'', Some (JStr (status_str target))), (''last_updated'', Some (JStr (today en))),
      completed_field en target]"

definition progress_fields :: "env \<Rightarrow> lifecycle_status \<Rightarrow> string \<Rightarrow> (string \<times> json option) list" where
  "progress_fields en target pr =
     [(''progress'', Some (JStr pr)), (''last_updated'', Some (JStr (today en))), completed_field en target]"

definition written_fields :: "env \<Rightarrow> intent \<Rightarrow> lifecycle_result \<Rightarrow> fm \<Rightarrow> fm" where
  "written_fields en i r d =
     update_fields (progress_fields en (targetStatus r) (r_progress r))
       (update_fields (status_fields en (targetStatus r)) (update_fields (owner_fields i) d))"

lemma engine_fields_ok:
  "\<forall>u\<in>set (status_fields en t). \<forall>v. snd u = Some v \<longrightarrow> json_ok v"
  "\<forall>u\<in>set (progress_fields en t pr). \<forall>v. snd u = Some v \<longrightarrow> json_ok v"
  by (auto simp: status_fields_def progress_fields_def completed_field_def split: if_splits)

lemma written_status: "map_get (written_fields en i r d) ''status'' = Some (FVal (JStr (status_str (targetStatus r))))"
proof -
  have "status_str (targetStatus r) \<noteq> []" by (cases "targetStatus r") auto
  then show ?thesis
    by (simp add: written_fields_def status_fields_def progress_fields_def completed_field_def)
qed

lemma progress_text: "js_trim (formatProgress d bp) \<noteq> []"
proof -
  have "hd (formatProgress d bp) = hd (nat_str (percent_done (length (filter settled (b_tasks bp)))
      (length (b_tasks bp))))"
    by (simp add: formatProgress_def Let_def)
  moreover have "\<not> js_ws c" if "js_digit c" for c
    using that js_ws_not_word [of c] by (auto simp: js_word_def)
  ultimately have "\<not> js_ws (hd (formatProgress d bp))" using hd_nat_str by simp
  moreover have "formatProgress d bp \<noteq> []" by (simp add: formatProgress_def Let_def)
  ultimately show ?thesis using hd_in_set js_trim_Nil_iff by blast
qed

lemma written_document:
  assumes laws: "front_matter_laws (docs_of en)"
    and m: "matter (docs_of en) md = Inr (d, c)" "fm_plain d" "\<not> starts_with c ''---''"
    and i: "i = Park \<or> i = Finalize \<or> (\<exists>a b. i = Start a b)"
    and run: "applyBlueprintLifecycle en md slug i = Inr r"
  shows "matter (docs_of en) (r_markdown r) = Inr (written_fields en i r d, final_newline c)
    \<and> parseBlueprint (docs_of en) (r_markdown r) slug = Inr (r_blueprint r)
    \<and> js_trim (r_progress r) \<noteq> []"
proof -
  let ?dx = "docs_of en"
  from run obtain bp current md1 target event md2 reparsed where
    bp: "parseBlueprint ?dx md slug = Inr bp" and
    step: "intent_step en md slug i bp current = Inr (md1, target, event)" and
    md2: "setBlueprintFrontmatterFields ?dx md1 (status_fields en target) = Inr md2" and
    md3: "setBlueprintFrontmatterFields ?dx md2
       (progress_fields en target (formatProgress (today en) reparsed)) = Inr (r_markdown r)" and
    final: "parseBlueprint ?dx (r_markdown r) slug = Inr (r_blueprint r)" and
    r: "targetStatus r = target" "r_progress r = formatProgress (today en) reparsed"
    unfolding status_fields_def progress_fields_def by (rule lifecycle_run)
  define d1 where "d1 = update_fields (owner_fields i) d"
  have st: "map_get d1 ''status'' \<noteq> None"
    unfolding d1_def using bp m(1) schema_has_status owner_fields_status
    by (intro status_kept) (auto elim!: parseBlueprint_Inr)
  have "setBlueprintFrontmatterFields ?dx md (owner_fields i) = Inr md1"
    using intent_fields [OF step i] by (simp add: owner_fields_def)
  note s1 = set_fields_laws [OF laws m not_Nil_get [OF st [unfolded d1_def]] owner_fields_ok this, folded d1_def]
  have ne: "status_str target \<noteq> []" by (cases target) auto
  have st2: "map_get (update_fields (status_fields en target) d1) ''status'' = Some (FVal (JStr (status_str target)))"
    using ne by (simp add: status_fields_def completed_field_def)
  note s2 = set_fields_laws [OF laws s1 final_newline_dashes [OF m(3)] not_Nil_get engine_fields_ok(1) md2]
  then have s2: "matter ?dx md2 = Inr (update_fields (status_fields en target) d1, final_newline c)"
      "fm_plain (update_fields (status_fields en target) d1)"
    using st2 by auto
  have "map_get (written_fields en i r d) ''status'' \<noteq> None" by (simp add: written_status)
  then have "matter ?dx (r_markdown r) = Inr (written_fields en i r d, final_newline c)"
    using set_fields_laws [OF laws s2 final_newline_dashes [OF m(3)] not_Nil_get engine_fields_ok(2) md3] r
    by (auto simp: written_fields_def d1_def)
  then show ?thesis using final progress_text r by simp
qed

text \<open>
  C4. Starting, parking and finalizing rewrite the front matter only: the body stays (with a
  final newline), every key but the lifecycle ones keeps its value, the written status is the
  target status, the reported progress is the written one, and the completion day is there
  exactly when the blueprint completes.
\<close>

theorem document_written:
  assumes laws: "front_matter_laws (docs_of en)"
    and m: "matter (docs_of en) md = Inr (d, c)" "fm_plain d" "\<not> starts_with c ''---''"
    and i: "i = Park \<or> i = Finalize \<or> (\<exists>a b. i = Start a b)"
    and run: "applyBlueprintLifecycle en md slug i = Inr r"
  shows "\<exists>d'. matter (docs_of en) (r_markdown r) = Inr (d', final_newline c)
    \<and> (\<forall>k. k \<notin> {''status'', ''last_updated'', ''completed_at'', ''progress'',
                   ''worktree_owner_id'', ''worktree_owner_branch''} \<longrightarrow> map_get d' k = map_get d k)
    \<and> b_status (r_blueprint r) = status_str (targetStatus r)
    \<and> progress (r_blueprint r) = Some (r_progress r)
    \<and> fm_str d' ''completed_at'' = (if targetStatus r = Completed \<and> today en \<noteq> [] then Some (today en) else None)"
proof -
  note w = written_document [OF laws m i run]
  let ?d = "written_fields en i r d"
  have ne: "r_progress r \<noteq> []" using w by auto
  then have get: "map_get ?d ''progress'' = Some (FVal (JStr (r_progress r)))"
    "map_get ?d ''completed_at''
       = (if targetStatus r = Completed \<and> today en \<noteq> [] then Some (FVal (JStr (today en))) else None)"
    by (auto simp: written_fields_def status_fields_def progress_fields_def completed_field_def)
  from w obtain tasks where fin: "r_blueprint r = build_blueprint (r_markdown r) slug ?d (final_newline c) tasks"
    by (auto elim!: parseBlueprint_Inr)
  have "b_status (r_blueprint r) = status_str (targetStatus r)"
    by (simp add: fin document_status_get written_status)
  moreover have "progress (r_blueprint r) = Some (r_progress r)"
    using get w by (simp add: fin build_blueprint_def fm_str_def)
  moreover have "fm_str ?d ''completed_at''
      = (if targetStatus r = Completed \<and> today en \<noteq> [] then Some (today en) else None)"
    using get by (simp add: fm_str_def)
  moreover have "map_get ?d k = map_get d k" if "k \<notin> {''status'', ''last_updated'', ''completed_at'',
      ''progress'', ''worktree_owner_id'', ''worktree_owner_branch''}" for k
    using that
    by (cases i) (auto simp: written_fields_def status_fields_def progress_fields_def completed_field_def
          owner_fields_def no_owner_def)
  ultimately show ?thesis using w by blast
qed

theorem document_written_witness:
  "\<exists>r. b_status (r_blueprint r) = ''completed'' \<and> progress (r_blueprint r) = Some (r_progress r)
       \<and> applyBlueprintLifecycle sample_env dropped_doc ''b'' Finalize = Inr r"
proof -
  obtain r where r: "applyBlueprintLifecycle sample_env dropped_doc ''b'' Finalize = Inr r"
      "targetStatus r = Completed"
    using result_matches_ex [OF sample_finalize] by blast
  have body: "\<not> starts_with (sample_section ''dropped'' []) ''---''"
    by (simp add: sample_section_def starts_with_def)
  note doc = sample_doc_read [OF body, of "''archived''", folded dropped_doc_def]
  have "front_matter_laws (docs_of sample_env)"
    "matter (docs_of sample_env) dropped_doc
       = Inr ([(''type'', FVal (JStr ''blueprint'')), (''status'', FVal (JStr ''archived''))],
              final_newline (sample_section ''dropped'' []))"
    using sample_laws doc(1) by (simp_all add: sample_env_def)
  from document_written [OF this doc(2) final_newline_dashes [OF body] _ r(1)] r
  show ?thesis by auto
qed

text \<open>
  Execution metadata is read back as it was written, when the id and the time stamp are
  trimmed and not empty.
\<close>

theorem metadata_round_trip:
  assumes laws: "front_matter_laws dx"
    and m: "matter dx md = Inr (d, c)" "fm_plain d" "\<not> starts_with c ''---''"
    and x: "js_trim (x_executionId x) = x_executionId x" "x_executionId x \<noteq> []"
      "js_trim (x_updatedAt x) = x_updatedAt x" "x_updatedAt x \<noteq> []"
    and written: "writeBlueprintExecutionMetadata dx md x = Inr md'"
  shows "readBlueprintExecutionMetadata dx md' = Inr (Some x)"
proof -
  let ?d = "update_fields (metadata_fields x) d"
  have ne: "backend_str b \<noteq> []" "execution_status_str s \<noteq> []" for b s
    by (cases b; simp) (cases s; simp)
  have get: "map_get ?d ''execution_backend'' = Some (FVal (JStr (backend_str (x_backend x))))"
    "map_get ?d ''execution_id'' = Some (FVal (JStr (x_executionId x)))"
    "map_get ?d ''execution_status'' = Some (FVal (JStr (execution_status_str (x_status x))))"
    "map_get ?d ''execution_updated_at'' = Some (FVal (JStr (x_updatedAt x)))"
    using x(2,4) by (simp_all add: metadata_fields_def ne)
  have "map_get ?d ''execution_backend'' \<noteq> None" unfolding get(1) by simp
  then have "?d \<noteq> []" by (rule not_Nil_get)
  moreover have "\<forall>u\<in>set (metadata_fields x). \<forall>v. snd u = Some v \<longrightarrow> json_ok v"
    by (simp add: metadata_fields_def)
  ultimately have "matter dx md' = Inr (?d, final_newline c)"
    using set_fields_laws(1) [OF laws m] written by (simp add: writeBlueprintExecutionMetadata_def)
  moreover have "fm_str ?d ''execution_backend'' = Some (backend_str (x_backend x))"
    "fm_str ?d ''execution_status'' = Some (execution_status_str (x_status x))"
    "normalizeString (map_get ?d ''execution_id'') = Some (x_executionId x)"
    "normalizeString (map_get ?d ''execution_updated_at'') = Some (x_updatedAt x)"
    unfolding fm_str_def normalizeString_def get using x by simp_all
  moreover have "parse_enum backend_str backend_options (backend_str (x_backend x)) = Some (x_backend x)"
    "parse_execution_status (execution_status_str (x_status x)) = Some (x_status x)"
    by (simp_all only: backend_codec.parse_str parse_execution_status_iff)
  ultimately show ?thesis
    using x by (simp only: readBlueprintExecutionMetadata_def and_then.simps prod.case option.case Let_def) simp
qed

definition sample_metadata :: execution_metadata where
  "sample_metadata =
     \<lparr>x_backend = Codex_exec, x_executionId = ''e1'', x_status = E_running, x_updatedAt = ''t1''\<rparr>"

theorem metadata_round_trip_witness:
  "\<exists>md'. writeBlueprintExecutionMetadata sample_docs todo_doc sample_metadata = Inr md'
     \<and> readBlueprintExecutionMetadata sample_docs md' = Inr (Some sample_metadata)"
proof -
  have body: "\<not> starts_with (sample_section ''todo'' []) ''---''"
    by (simp add: sample_section_def starts_with_def)
  note doc = sample_doc_read [OF body, of "''draft''", folded todo_doc_def]
  obtain md' where w: "writeBlueprintExecutionMetadata sample_docs todo_doc sample_metadata = Inr md'"
    using doc(1) by (simp add: writeBlueprintExecutionMetadata_def setBlueprintFrontmatterFields_def)
  have "js_trim ''e1'' = ''e1''" "js_trim ''t1'' = ''t1''" by code_simp+
  then have "readBlueprintExecutionMetadata sample_docs md' = Inr (Some sample_metadata)"
    by (intro metadata_round_trip [OF sample_laws doc(1) doc(2) final_newline_dashes [OF body] _ _ _ _ w])
       (simp_all add: sample_metadata_def)
  with w show ?thesis by blast
qed

end
