(* ===== verification/BridgeProps.thy ===== *)
theory BridgeProps
  imports LifecycleFacts
begin

text \<open>
  The properties of the progress bridge: no evidence is made up, the bindings are faithful,
  and a snapshot moves the blueprint only through the lifecycle engine.
\<close>

section \<open>Facts\<close>

lemma project_bindings_new:
  "i \<in> set (snd (project_bindings bp byId bs sts acc)) \<Longrightarrow>
     i \<in> set acc \<or> (\<exists>b\<in>set bs. \<exists>sts'. project_binding bp byId sts' b = Some i)"
proof (induction bp byId bs sts acc rule: project_bindings.induct)
  case (2 bp byId b bs sts acc)
  then show ?case by (cases "project_binding bp byId sts b") fastforce+
qed simp

lemma runtime_map_get:
  "map_get (runtime_map os) k = Some r \<Longrightarrow> r \<in> set os \<and> o_runtimeTaskId r = k"
proof -
  assume "map_get (runtime_map os) k = Some r"
  then have "(k, r) \<in> set (map (\<lambda>r. (o_runtimeTaskId r, r)) os)"
    by (auto simp: runtime_map_def map_get_from dest: map_of_SomeD)
  then show ?thesis by auto
qed

lemma project_binding_Some:
  assumes "project_binding bp byId sts b = Some i"
  obtains r t current where "map_get byId (bd_runtimeTaskId b) = Some r" "t \<in> set (b_tasks bp)"
    "t_id t = bd_blueprintTaskId b" "project_task (bd_blueprintTaskId b) r current = Some i"
proof -
  from assms obtain r t where "map_get byId (bd_runtimeTaskId b) = Some r"
      "find (\<lambda>t. t_id t = bd_blueprintTaskId b) (b_tasks bp) = Some t"
      "project_task (bd_blueprintTaskId b) r (case map_get sts (bd_blueprintTaskId b) of Some s \<Rightarrow> s | None \<Rightarrow> t_status t) = Some i"
    by (auto simp: project_binding_def split: option.splits)
  with that find_SomeD [of "\<lambda>t. t_id t = bd_blueprintTaskId b" "b_tasks bp" t] show thesis by blast
qed

lemma verify_intent_Some:
  "taskVerifyIntent t ev = Some i \<longleftrightarrow>
     (\<exists>es. ev = Some es \<and> (\<exists>e\<in>set es. result_of e = Pass) \<and> i = Task_verify t (evidence_value es))"
  by (auto simp: taskVerifyIntent_def hasPassingEvidence_def list_ex_iff split: option.splits)

lemma project_task_kind:
  assumes "project_task t r c = Some i"
  shows "i \<in> {Task_start t} \<union> range (Task_block t)
     \<or> (\<exists>es. i = Task_verify t (evidence_value es) \<and> o_status r = O_completed
          \<and> o_evidence r = Some es \<and> (\<exists>e\<in>set es. result_of e = Pass))"
  using assms
  by (auto simp: project_task_def verify_intent_Some split: omx_status.splits if_splits option.splits)

lemma runtime_completed:
  "summarizeRuntimeStatus os = E_completed \<Longrightarrow> os \<noteq> [] \<and> (\<forall>r\<in>set os. o_status r = O_completed)"
  by (auto simp: summarizeRuntimeStatus_def list_all_iff Let_def split: if_splits)

lemma repeated_Nil: "repeated seen xs = [] \<longleftrightarrow> distinct xs \<and> set xs \<inter> set seen = {}"
  by (induction seen xs rule: repeated.induct) auto

lemma bind_tasks_Inr:
  "bind_tasks ts os = Inr bs \<Longrightarrow>
     map bd_blueprintTaskId bs = map l_id ts
     \<and> (\<forall>b\<in>set bs. \<exists>r\<in>set os. extractBlueprintTaskId r = Some (bd_blueprintTaskId b)
                              \<and> bd_runtimeTaskId b = o_runtimeTaskId r)"
proof (induction ts os arbitrary: bs rule: bind_tasks.induct)
  case (2 t ts os)
  then obtain r bs' where "find (\<lambda>c. extractBlueprintTaskId c = Some (l_id t)) os = Some r"
      "bind_tasks ts os = Inr bs'"
      "bs = \<lparr>bd_blueprintTaskId = l_id t, bd_runtimeTaskId = o_runtimeTaskId r, bd_title = l_title t\<rparr> # bs'"
    by (auto simp: and_then_Inr_iff split: option.splits)
  with "2.IH" show ?case by (fastforce simp: find_Some_iff)
qed simp

definition in_step :: "env \<Rightarrow> string \<Rightarrow> bridge_step \<Rightarrow> bool" where
  "in_step en slug st \<longleftrightarrow> parseBlueprint (docs_of en) (fst st) slug = Inr (fst (snd st))"

lemma applyIntent_Inr:
  "applyIntent en slug i st = Inr st' \<Longrightarrow>
     in_step en slug st' \<and> snd (snd st') = snd (snd st) @ [intent_type i]"
  by (auto simp: applyIntent_def and_then_Inr_iff in_step_def)

lemma when_ok_Inr:
  "when_ok c f st = Inr st' \<longleftrightarrow> (c \<and> f st = Inr st') \<or> (\<not> c \<and> st' = st)"
  by (auto simp: when_ok_def)

lemma snapshot_intent_kind:
  assumes "snapshot_intent sn t c = Some i"
  shows "(intent_type i = ''task_start'' \<and> rs_status sn = E_running)
    \<or> (intent_type i = ''task_block'' \<and> rs_status sn \<in> {E_blocked, E_failed, E_completed})
    \<or> (intent_type i = ''task_verify'' \<and> rs_status sn = E_completed \<and> hasPassingEvidence (rs_evidence sn))"
  using assms
  by (auto simp: snapshot_intent_def taskVerifyIntent_def split: if_splits option.splits)

lemma task_transition_Inr:
  assumes "task_transition en slug sn st = Inr st'"
  shows "st' = st \<or> (\<exists>t c i. snapshot_intent sn t c = Some i \<and> applyIntent en slug i st = Inr st')"
  using assms by (auto simp: task_transition_def Let_def split: if_splits option.splits)

section \<open>Properties\<close>

text \<open>
  The projection invents no evidence: it verifies a bound task only when the bound runtime
  task is completed and with exactly that task's evidence, which has a passing item; it
  finalizes only when every bound runtime task is completed with passing evidence; and all its
  other intents start or block a bound task.
\<close>

theorem projection_evidence:
  assumes "i \<in> set (pj_intents (projectBlueprintLifecycleFromRuntime bp bridge os))"
  shows "(i = Finalize \<and> bs_tasks bridge \<noteq> [] \<and> b_status bp \<noteq> ''completed''
            \<and> (\<forall>r\<in>set os. o_status r = O_completed)
            \<and> (\<forall>b\<in>set (bs_tasks bridge). \<exists>r\<in>set os. o_runtimeTaskId r = bd_runtimeTaskId b
                 \<and> hasPassingEvidence (o_evidence r)))
    \<or> (\<exists>b\<in>set (bs_tasks bridge). \<exists>r\<in>set os. o_runtimeTaskId r = bd_runtimeTaskId b
         \<and> bd_blueprintTaskId b \<in> t_id ` set (b_tasks bp)
         \<and> (i = Task_start (bd_blueprintTaskId b) \<or> (\<exists>reason. i = Task_block (bd_blueprintTaskId b) reason)
            \<or> (\<exists>es. i = Task_verify (bd_blueprintTaskId b) (evidence_value es) \<and> o_status r = O_completed
                 \<and> o_evidence r = Some es \<and> (\<exists>e\<in>set es. result_of e = Pass))))"
proof -
  let ?p = "project_bindings bp (runtime_map os) (bs_tasks bridge) (status_map (b_tasks bp)) []"
  let ?done = "\<lambda>b. map_get (fst ?p) (bd_blueprintTaskId b) = Some Done"
  from assms consider "i \<in> set (snd ?p)"
    | "i = Finalize" "summarizeRuntimeStatus os = E_completed" "bs_tasks bridge \<noteq> []"
      "b_status bp \<noteq> ''completed''" "list_all ?done (bs_tasks bridge)"
      "list_all (\<lambda>b. \<not> ?done b \<or> completed_with_evidence (runtime_map os) b) (bs_tasks bridge)"
    by (auto simp: projectBlueprintLifecycleFromRuntime_def Let_def split: if_splits)
  then show ?thesis
  proof cases
    case 1
    then obtain b sts where b: "b \<in> set (bs_tasks bridge)"
        "project_binding bp (runtime_map os) sts b = Some i"
      using project_bindings_new by fastforce
    from b(2) obtain r t c where "map_get (runtime_map os) (bd_runtimeTaskId b) = Some r"
        "t \<in> set (b_tasks bp)" "t_id t = bd_blueprintTaskId b"
        "project_task (bd_blueprintTaskId b) r c = Some i"
      by (rule project_binding_Some)
    moreover from this have "bd_blueprintTaskId b \<in> t_id ` set (b_tasks bp)" by (metis imageI)
    ultimately show ?thesis
      using b(1) project_task_kind [of "bd_blueprintTaskId b" r c i]
        runtime_map_get [of os "bd_runtimeTaskId b" r]
      by (intro disjI2 bexI [of _ b] bexI [of _ r]) auto
  next
    case 2
    have "\<exists>r\<in>set os. o_runtimeTaskId r = bd_runtimeTaskId b \<and> hasPassingEvidence (o_evidence r)"
      if "b \<in> set (bs_tasks bridge)" for b
    proof -
      have "completed_with_evidence (runtime_map os) b" using 2 that by (auto simp: list_all_iff)
      then show ?thesis
        using runtime_map_get [of os "bd_runtimeTaskId b"]
        by (auto simp: completed_with_evidence_def split: option.splits)
    qed
    with 2 runtime_completed show ?thesis by blast
  qed
qed

definition sample_binding :: task_binding where
  "sample_binding = \<lparr>bd_blueprintTaskId = ''1.1'', bd_runtimeTaskId = ''r1'', bd_title = ''A''\<rparr>"

definition sample_bridge :: bridge_state where
  "sample_bridge =
     \<lparr>bs_backend = Omx_team, bs_blueprintPath = ''blueprints/b'', bs_blueprintSlug = ''b'',
      bs_executionId = ''e1'', bs_tasks = [sample_binding], bs_updatedAt = ''t''\<rparr>"

definition sample_runtime_task :: omx_task where
  "sample_runtime_task =
     \<lparr>o_description = None, o_error = None, o_evidence = Some [sample_proof], o_result = None,
      o_runtimeTaskId = ''r1'', o_status = O_completed, o_subject = ''Task 1.1: A''\<rparr>"

definition sample_task :: task where
  "sample_task =
     \<lparr>t_id = ''1.1'', t_title = ''A'', t_status = Todo, statusExplicit = True, depends = None,
      blockedReason = None, acceptanceCriteria = \<lparr>total = 0, checked = 0\<rparr>, t_description = None,
      stepType = ''implement'', targetPackage = None, targetFile = None, t_complexity = None\<rparr>"

definition sample_blueprint :: blueprint where
  "sample_blueprint = build_blueprint [] ''b'' [(''status'', FVal (JStr ''planned''))] [] [sample_task]"

theorem projection_evidence_witness:
  "Task_verify ''1.1'' (evidence_value [sample_proof])
     \<in> set (pj_intents (projectBlueprintLifecycleFromRuntime sample_blueprint sample_bridge [sample_runtime_task]))
   \<and> (\<exists>b\<in>set (bs_tasks sample_bridge). bd_blueprintTaskId b \<in> t_id ` set (b_tasks sample_blueprint))"
proof -
  have mem: "Task_verify ''1.1'' (evidence_value [sample_proof])
     \<in> set (pj_intents (projectBlueprintLifecycleFromRuntime sample_blueprint sample_bridge [sample_runtime_task]))"
    by (simp add: projectBlueprintLifecycleFromRuntime_def project_binding_def sample_bridge_def
        sample_binding_def sample_blueprint_def sample_task_def sample_runtime_task_def runtime_map_def
        status_map_def map_from_def map_set_def map_get_def project_task_def taskVerifyIntent_def
        hasPassingEvidence_def sample_proof_def result_of_def Let_def)
  from projection_evidence [OF mem] mem show ?thesis by blast
qed

text \<open>
  The bridge state binds the blueprint's tasks in order, each to a runtime task that names
  it, and no two to the same runtime task.
\<close>

theorem bridge_bindings:
  assumes "buildBlueprintProgressBridgeState ze spec ex os upd = Inr st"
  shows "map bd_blueprintTaskId (bs_tasks st) = map l_id (s_tasks spec)
    \<and> distinct (map bd_runtimeTaskId (bs_tasks st))
    \<and> (\<forall>b\<in>set (bs_tasks st). \<exists>r\<in>set os. extractBlueprintTaskId r = Some (bd_blueprintTaskId b)
         \<and> bd_runtimeTaskId b = o_runtimeTaskId r)"
proof -
  from assms obtain bs where bs: "bind_tasks (s_tasks spec) os = Inr bs"
      "repeated [] (map bd_runtimeTaskId bs) = []" "bs_tasks st = bs"
    by (auto simp: buildBlueprintProgressBridgeState_def and_then_Inr_iff Let_def split: if_splits)
  with bind_tasks_Inr [OF bs(1)] show ?thesis by (simp add: repeated_Nil)
qed

definition sample_spec :: launch_spec where
  "sample_spec =
     \<lparr>s_backend = Omx_team, s_blueprintPath = ''blueprints/b'', s_blueprintSlug = ''b'',
      s_mode = Durable,
      s_policy = \<lparr>maxParallelism = None, preferWorktree = False,
                  requireVerificationForCompletion = True, runtimeStateRoot = ''.omx/state''\<rparr>,
      s_tasks = [\<lparr>l_id = ''1.1'', l_title = ''A'', l_dependsOn = [], l_files = [],
                  verificationCommands = [], concurrencyGroup = None,
                  backendHints = \<lparr>buildHeavy = None, longRunning = None, testHeavy = None\<rparr>\<rparr>]\<rparr>"

lemma sample_mention: "extractBlueprintTaskId sample_runtime_task = Some ''1.1''"
  by code_simp

theorem bridge_bindings_witness:
  "\<exists>st. buildBlueprintProgressBridgeState sample_zenv sample_spec ''e1'' [sample_runtime_task] ''t'' = Inr st
     \<and> distinct (map bd_runtimeTaskId (bs_tasks st)) \<and> map bd_blueprintTaskId (bs_tasks st) = [''1.1'']"
proof -
  have "\<exists>st. buildBlueprintProgressBridgeState sample_zenv sample_spec ''e1'' [sample_runtime_task] ''t'' = Inr st"
    by (simp add: buildBlueprintProgressBridgeState_def sample_spec_def sample_mention
        blueprintProgressBridgeStateSchema_def binding_ok_def sample_runtime_task_def [THEN arg_cong [of _ _ o_runtimeTaskId]])
  then obtain st where st: "buildBlueprintProgressBridgeState sample_zenv sample_spec ''e1'' [sample_runtime_task] ''t'' = Inr st"
    by blast
  from bridge_bindings [OF st] st show ?thesis by (simp add: sample_spec_def)
qed

text \<open>
  A file name made from an execution id has only word characters and dashes before its
  extension, so the bridge file stays in the directory of its backend whatever the id.
\<close>

theorem sanitized_id_safe:
  "(\<forall>c\<in>set (sanitizeBlueprintExecutionId ex). id_char c)
   \<and> CHR ''/'' \<notin> set (sanitizeBlueprintExecutionId ex) \<and> CHR ''.'' \<notin> set (sanitizeBlueprintExecutionId ex)"
proof -
  have safe: "id_char c" if "c \<in> set (sanitizeBlueprintExecutionId ex)" for c
    using that squash_set [of c "\<lambda>c. \<not> id_char c" "''-''" "js_trim ex"]
    by (auto simp: sanitizeBlueprintExecutionId_def replace_all_plus id_char_def)
  moreover have "\<not> id_char (CHR ''/'')" "\<not> id_char (CHR ''.'')" by code_simp+
  ultimately show ?thesis by blast
qed

theorem sanitized_id_safe_witness:
  "sanitizeBlueprintExecutionId ''../run 7'' = ''-run-7''
   \<and> CHR ''/'' \<notin> set (sanitizeBlueprintExecutionId ''../run 7'')"
  using sanitized_id_safe [of "''../run 7''"] by (intro conjI; (code_simp | blast))


definition pending_snapshot :: "(string \<times> json) list" where
  "pending_snapshot =
     [(''backend'', JStr ''codex-exec''), (''executionId'', JStr ''e1''), (''status'', JStr ''pending''),
      (''updatedAt'', JStr ''t1'')]"

definition runs_ok :: "bridge_result throws \<Rightarrow> bool" where
  "runs_ok r = (case r of Inl _ \<Rightarrow> False | Inr _ \<Rightarrow> True)"

lemma runs_ok_ex: "runs_ok r \<Longrightarrow> \<exists>x. r = Inr x"
  by (auto simp: runs_ok_def split: sum.splits)

lemma sample_snapshot_runs: "runs_ok (applyRuntimeProgressSnapshot sample_env todo_doc ''b'' pending_snapshot)"
  by code_simp


end
