(* ===== verification/MarkerFacts.thy ===== *)
theory MarkerFacts
  imports TaskParser
begin

text \<open>
  A marker line (\<open>**Status:** value\<close>) that is rewritten in place is read back as the value
  written: the search finds the same line, and nothing before it became a marker.
\<close>

definition not_le :: "char \<Rightarrow> bool" where
  "not_le c \<longleftrightarrow> \<not> line_end c"

lemma dot_not_le: "dot = Cls not_le"
  by (simp add: not_le_def fun_eq_iff)

lemma line_end_ws: "line_end c \<Longrightarrow> js_ws c"
  by (auto simp: line_end_def js_ws_def)

text \<open>The value after a marker, on one line.\<close>

lemma marker_line_matches:
  assumes "map lower_char (take (length mk) r) = map lower_char mk"
    and "\<exists>c\<in>set (drop (length mk) r). \<not> js_ws c"
  shows "run (marker_line mk) \<lparr>behind = b, rest = r, caps = cs\<rparr> \<noteq> []"
proof -
  let ?q = "drop (length mk) r"
  have "dropWhile js_ws ?q \<noteq> []" using assms(2) by simp
  then obtain c ds where c: "dropWhile js_ws ?q = c # ds" by (cases "dropWhile js_ws ?q") auto
  then have "\<not> js_ws c" using hd_dropWhile [of js_ws ?q] by simp
  then have nl: "not_le c" using line_end_ws by (auto simp: not_le_def)
  define s1 where "s1 = \<lparr>behind = rev (take (length mk) r) @ b, rest = ?q, caps = cs\<rparr>"
  obtain ts where t: "run (star ws) s1 = s1\<lparr>behind := rev (takeWhile js_ws ?q) @ behind s1, rest := c # ds\<rparr> # ts"
    using run_star_first [of js_ws s1] c by (auto simp: s1_def)
  obtain us where "run (plus dot) (s1\<lparr>behind := rev (takeWhile js_ws ?q) @ behind s1, rest := c # ds\<rparr>)
      = (s1\<lparr>behind := rev (takeWhile js_ws ?q) @ behind s1, rest := c # ds\<rparr>)
          \<lparr>behind := rev (takeWhile not_le (c # ds)) @ rev (takeWhile js_ws ?q) @ behind s1,
           rest := dropWhile not_le (c # ds)\<rparr> # us"
    unfolding dot_not_le
    using run_plus_first [of "s1\<lparr>behind := rev (takeWhile js_ws ?q) @ behind s1, rest := c # ds\<rparr>" c ds not_le] nl
    by auto
  with t have "run (Seq (star ws) (Seq (plus dot) Empty)) s1 \<noteq> []" by simp
  then show ?thesis
    using assms(1) by (simp add: marker_line_def run_lit_i s1_def)
qed

lemma marker_value_needs:
  "map lower_char (take (length mk) r) \<noteq> map lower_char mk \<Longrightarrow> match_here (marker_value mk) b r = None"
  by (simp add: match_here_def marker_value_def run_lit_i)

lemma marker_value_at:
  assumes "w \<noteq> []" and "\<forall>c\<in>set w. not_le c" and "\<not> js_ws (hd w)"
    and "post = [] \<or> \<not> not_le (hd post)"
  shows "\<exists>m. match_here (marker_value mk) b (mk @ CHR '' '' # w @ post) = Some m \<and> group m 1 = Some w"
proof -
  let ?r = "mk @ CHR '' '' # w @ post"
  obtain c ws' where w: "w = c # ws'" using assms(1) by (cases w) auto
  define s1 where "s1 = \<lparr>behind = rev mk @ b, rest = CHR '' '' # w @ post, caps = []\<rparr>"
  define s2 where "s2 = \<lparr>behind = CHR '' '' # rev mk @ b, rest = w @ post, caps = []\<rparr>"
  have "js_ws (CHR '' '')" by (simp add: js_ws_def)
  then obtain ts where star: "run (star ws) s1 = s2 # ts"
    using run_star_first [of js_ws s1] assms(3) w by (auto simp: s1_def s2_def)
  have tw: "takeWhile not_le (w @ post) = w" "dropWhile not_le (w @ post) = post"
    using assms(2,4) by (cases post; simp)+
  have "not_le c" using assms(2) w by simp
  moreover have "rest s2 = c # ws' @ post" by (simp add: s2_def w)
  ultimately obtain us where "run (plus dot) s2
      = \<lparr>behind = rev w @ behind s2, rest = post, caps = []\<rparr> # us"
    unfolding dot_not_le using run_plus_first [of s2 c "ws' @ post" not_le] tw by (auto simp: s2_def)
  then have "\<exists>vs. run (Seq (Grp 1 (plus dot)) Empty) s2
      = \<lparr>behind = rev w @ behind s2, rest = post, caps = [(1, w)]\<rparr> # vs"
    by (simp add: s2_def)
  then obtain vs where "run (Seq (Grp 1 (plus dot)) Empty) s2
      = \<lparr>behind = rev w @ behind s2, rest = post, caps = [(1, w)]\<rparr> # vs" by blast
  from run_Seq_first [OF star this] have "\<exists>us. run (marker_value mk) \<lparr>behind = b, rest = ?r, caps = []\<rparr>
      = \<lparr>behind = rev w @ behind s2, rest = post, caps = [(1, w)]\<rparr> # us"
    by (simp add: marker_value_def run_lit_i s1_def)
  then show ?thesis by (auto simp: match_here_def mk_match_def group_def)
qed

text \<open>What the search for a marker line leaves around the line it replaces.\<close>

lemma marker_line_match:
  assumes "re_exec (marker_line mk) s = Some m"
  shows "s = m_pre m @ m_text m @ m_post m"
    and "m_post m = [] \<or> \<not> not_le (hd (m_post m))"
    and "map lower_char (take (length mk) (m_text m)) = map lower_char mk"
    and "\<And>i. i < length (m_pre m) \<Longrightarrow> match_here (marker_line mk) (rev (take i (m_pre m))) (drop i s) = None"
proof -
  obtain x y where xy: "s = x @ y" "match_here (marker_line mk) (rev x) y = Some m"
      "\<forall>i<length x. match_here (marker_line mk) (rev (take i x)) (drop i s) = None"
    using assms exec_from_leftmost [of "marker_line mk" "[]" s m] by (auto simp: re_exec_def)
  obtain t ts where t: "run (marker_line mk) \<lparr>behind = rev x, rest = y, caps = []\<rparr> = t # ts"
      "m = mk_match (rev x) y t"
    using xy(2) by (auto simp: match_here_def split: list.splits)
  show "s = m_pre m @ m_text m @ m_post m" using re_exec_parts [OF assms] by simp
  have pre: "m_pre m = x" "m_text m @ m_post m = y" using match_here_parts [OF xy(2)] by simp_all
  then show "\<And>i. i < length (m_pre m) \<Longrightarrow> match_here (marker_line mk) (rev (take i (m_pre m))) (drop i s) = None"
    using xy(3) by simp
  have low: "map lower_char (take (length mk) y) = map lower_char mk"
    using t(1) by (auto simp: marker_line_def run_lit_i split: if_splits)
  let ?s1 = "\<lparr>behind = rev (take (length mk) y) @ rev x, rest = drop (length mk) y, caps = []\<rparr>"
  have tl: "run (Seq (star ws) (Seq (plus (Cls not_le)) Empty)) ?s1 = t # ts"
    using t(1) low by (simp add: marker_line_def run_lit_i dot_not_le)
  from first_stops [OF tl] show "m_post m = [] \<or> \<not> not_le (hd (m_post m))"
    by (simp add: t(2) mk_match_def)
  have "t \<in> set (run (Seq (star ws) (Seq (plus (Cls not_le)) Empty)) ?s1)" using tl by simp
  then have "length (rest t) \<le> length (drop (length mk) y)"
    using run_rest_le by fastforce
  moreover have "length mk \<le> length y" using low by (metis length_map length_take min.cobounded1)
  moreover have "length y = length (m_text m) + length (rest t)"
    using arg_cong [OF pre(2), of length] by (simp add: t(2) mk_match_def)
  ultimately have "length mk \<le> length (m_text m)" by simp
  then have "take (length mk) (m_text m) = take (length mk) y" by (simp flip: pre(2))
  with low show "map lower_char (take (length mk) (m_text m)) = map lower_char mk" by simp
qed

lemma no_earlier_value:
  assumes m: "re_exec (marker_line mk) s = Some m" and mk: "mk \<noteq> []" "\<not> js_ws (last mk)"
    and i: "i < length (m_pre m)"
  shows "match_here (marker_value mk) b (drop i (m_pre m) @ mk @ z) = None"
proof (rule ccontr)
  let ?dp = "drop i (m_pre m)" and ?n = "length mk"
  note mm = marker_line_match [OF m]
  assume "match_here (marker_value mk) b (?dp @ mk @ z) \<noteq> None"
  then have v: "map lower_char (take ?n (?dp @ mk @ z)) = map lower_char mk"
    using marker_value_needs [of mk "?dp @ mk @ z" b] by metis
  have len: "?n \<le> length (m_text m)"
    using mm(3) by (metis length_map length_take min.cobounded1)
  have s: "drop i s = ?dp @ m_text m @ m_post m" using mm(1) i by (metis drop_append diff_is_0_eq drop0 less_imp_le)
  have eqt: "map lower_char (take j (m_text m)) = map lower_char (take j mk)" if "j \<le> ?n" for j
  proof -
    have "take j (map lower_char (take ?n (m_text m))) = take j (map lower_char mk)" using mm(3) by simp
    then show ?thesis using that by (simp add: take_map min_def)
  qed
  have "?dp \<noteq> []" using i by simp
  then have k: "0 < length ?dp" by simp
  have lit: "map lower_char (take ?n (drop i s)) = map lower_char mk"
    using v eqt [of "?n - length ?dp"] len unfolding s by simp
  have last: "lower_char (m_text m ! (?n - 1)) = lower_char (last mk)"
  proof -
    have "map lower_char (take ?n (m_text m)) ! (?n - 1) = map lower_char mk ! (?n - 1)" using mm(3) by simp
    then show ?thesis using mk(1) len by (simp add: last_conv_nth)
  qed
  then have nws: "\<not> js_ws (m_text m ! (?n - 1))" using mk(2) ws_lower_char by metis
  have "m_text m ! (?n - 1) = drop ?n (drop i s) ! (length ?dp - 1)"
  proof -
    have "?n \<le> length (drop i s)" unfolding s using len by simp
    then have "drop ?n (drop i s) ! (length ?dp - 1) = drop i s ! (?n + (length ?dp - 1))" by (rule nth_drop)
    also have "?n + (length ?dp - 1) = length ?dp + (?n - 1)" using k mk(1) by (cases mk) simp_all
    also have "drop i s ! (length ?dp + (?n - 1)) = (m_text m @ m_post m) ! (?n - 1)"
      unfolding s by (rule nth_append_length_plus)
    also have "\<dots> = m_text m ! (?n - 1)" using len mk(1) by (cases mk) (simp_all add: nth_append)
    finally show ?thesis by simp
  qed
  moreover have "length ?dp - 1 < length (drop ?n (drop i s))"
    unfolding s using k len by (simp only: length_drop length_append)
  ultimately have "\<exists>c\<in>set (drop ?n (drop i s)). \<not> js_ws c" using nws nth_mem by metis
  from marker_line_matches [OF lit this] have "match_here (marker_line mk) (rev (take i (m_pre m))) (drop i s) \<noteq> None"
    by (auto simp: match_here_def split: list.splits)
  with mm(4) [OF i] show False by simp
qed

text \<open>A marker line that is replaced is read back as the value that was written.\<close>

lemma marker_write_read:
  assumes m: "re_exec (marker_line mk) s = Some m" and mk: "mk \<noteq> []" "\<not> js_ws (last mk)"
    and w: "w \<noteq> []" "\<forall>c\<in>set w. not_le c" "\<not> js_ws (hd w)" and d: "dollar \<notin> set mk" "dollar \<notin> set w"
  shows "\<exists>m'. re_exec (marker_value mk) (replace_with (marker_line mk) (mk @ '' '' @ w) s) = Some m'
     \<and> group m' 1 = Some w"
proof -
  have r: "replace_with (marker_line mk) (mk @ '' '' @ w) s = m_pre m @ mk @ CHR '' '' # w @ m_post m"
    using m d by (simp add: replace_with_def replace_first_def)
  obtain m' where m': "match_here (marker_value mk) (rev (m_pre m) @ []) (mk @ CHR '' '' # w @ m_post m) = Some m'"
      "group m' 1 = Some w"
    using marker_value_at [OF w marker_line_match(2) [OF m]] by auto
  have "exec_from (marker_value mk) [] (m_pre m @ mk @ CHR '' '' # w @ m_post m) = Some m'"
    by (rule exec_from_found [OF m'(1)]) (rule no_earlier_value [OF m mk])
  with m'(2) r show ?thesis by (simp add: re_exec_def)
qed

lemma status_text_facts:
  "task_status_str st \<noteq> []" "\<forall>c\<in>set (task_status_str st). not_le c"
  "\<not> js_ws (hd (task_status_str st))" "js_trim (task_status_str st) = task_status_str st"
proof -
  show "task_status_str st \<noteq> []" by (cases st) simp_all
  have ws: "\<forall>c\<in>set (task_status_str st). \<not> js_ws c" by (cases st) (simp_all add: js_ws_def)
  then show "\<forall>c\<in>set (task_status_str st). not_le c" using line_end_ws by (auto simp: not_le_def)
  show "\<not> js_ws (hd (task_status_str st))" by (cases st) (simp_all add: js_ws_def)
  show "js_trim (task_status_str st) = task_status_str st"
    using ws by (intro js_trim_id) auto
qed

lemma normalize_status_text: "normalize_status (task_status_str st) = task_status_str st"
proof (cases st)
  case Todo
  show ?thesis unfolding Todo by code_simp
next
  case T_in_progress
  show ?thesis unfolding T_in_progress by code_simp
next
  case Blocked
  show ?thesis unfolding Blocked by code_simp
next
  case Done
  show ?thesis unfolding Done by code_simp
next
  case Dropped
  show ?thesis unfolding Dropped by code_simp
qed

lemma marker_in_section:
  assumes "re_exec (marker_line mk) s = Some m"
  shows "re_test (lit_i mk) s"
proof (rule ccontr)
  assume "\<not> re_test (lit_i mk) s"
  then have none: "exec_from (lit_i mk) [] s = None" by (simp add: re_test_def re_exec_def)
  obtain x y where "s = x @ y" "match_here (marker_line mk) (rev x @ []) y = Some m"
    using assms exec_from_leftmost [of "marker_line mk" "[]" s m] by (auto simp: re_exec_def)
  then have "match_here (lit_i mk) (rev x @ []) y \<noteq> None"
    by (auto simp: match_here_def marker_line_def run_lit_i split: list.splits if_splits)
  then have "exec_from (lit_i mk) [] (x @ y) \<noteq> None" by (rule exec_from_match)
  with none \<open>s = x @ y\<close> show False by simp
qed

end
