(* ===== verification/VerificationProps.thy ===== *)
theory VerificationProps
  imports LifecycleFacts MarkerFacts
begin

text \<open>
  The properties of the markdown helpers and of the verification block: what is written is
  read back, and where the replacement strings of the host language break that.
\<close>

text \<open>
  A verification block put into a task section that has a status line and no block yet is
  read back as exactly the evidence it was made from, if neither the evidence text nor the
  section contains a dollar sign.
\<close>

theorem block_inserted:
  assumes es: "es \<noteq> []" "\<forall>e\<in>set es. evidence_ok ze e"
    and nodollar: "dollar \<notin> set (canonicalizeEvidenceList es)" "dollar \<notin> set section"
    and nohead: "\<not> includes_str section VERIFICATION_BLOCK_HEADER"
    and status: "re_test status_line_pattern section"
  shows "parseVerificationBlock ze (insert_block (serializeVerificationBlock es) section) = Some es"
proof -
  let ?b = "serializeVerificationBlock es"
  obtain m where m: "re_exec status_line_pattern section = Some m"
    using status by (auto simp: re_test_def)
  have mt: "m_text m \<noteq> []" "last (m_text m) = nl"
    using m last_nl_match by (auto simp: status_line_pattern_def)
  note parts = re_exec_parts [OF m]
  then have inc: "includes_str section (m_text m)" unfolding includes_str_iff by metis
  have sub: "set (m_text m) \<subseteq> set section" using parts by (metis Un_upper1 Un_upper2 order_trans set_append)
  have "dollar \<notin> set ?b"
    using nodollar(1) by (auto simp: serializeVerificationBlock_def VERIFICATION_BLOCK_HEADER_def
        VERIFICATION_FENCE_LANG_def fence_def)
  then have "dollar \<notin> set (m_text m @ ?b @ [nl, nl])" using nodollar(2) sub by auto
  then obtain x y where xy: "section = x @ m_text m @ y"
      "replace_str (m_text m) (m_text m @ ?b @ [nl, nl]) section = x @ (m_text m @ ?b @ [nl, nl]) @ y"
    using replace_str_found [OF inc] by blast
  let ?pre = "x @ m_text m"
  have "\<not> includes_str ?pre VERIFICATION_BLOCK_HEADER"
    using nohead prefix_no_header [of ?pre y] by (simp add: xy(1))
  then have "parseVerificationBlock ze (?pre @ ?b @ nl # nl # y) = Some es"
    using mt by (intro parse_serialized_at [OF es] no_header_before) auto
  then show ?thesis using xy(2) m by (simp add: insert_block_def)
qed

definition sample_todo_section :: string where
  "sample_todo_section = sample_section ''todo'' ''text''"

theorem block_inserted_witness:
  "parseVerificationBlock sample_zenv
     (insert_block (serializeVerificationBlock [sample_proof]) sample_todo_section) = Some [sample_proof]"
proof (rule block_inserted)
  show "\<forall>e\<in>set [sample_proof]. evidence_ok sample_zenv e"
    by (simp add: evidence_ok_contract sample_proof_def base_ok_def sample_zenv_def max_safe_integer_def)
  show "dollar \<notin> set (canonicalizeEvidenceList [sample_proof])" by code_simp
  show "dollar \<notin> set sample_todo_section" by code_simp
  show "\<not> includes_str sample_todo_section VERIFICATION_BLOCK_HEADER" by code_simp
  show "re_test status_line_pattern sample_todo_section" by code_simp
qed simp

definition dollar_proof :: "string \<Rightarrow> evidence" where
  "dollar_proof c = Test_evidence \<lparr>e_result = Pass, e_ts = ''t'', e_agent = None\<rparr> c 0"

text \<open>
  Evidence with a doubled dollar sign in its command is not recorded as it was given: the
  block is a replacement string, so the recorded command has a single dollar sign.
\<close>

theorem dollar_evidence_altered:
  "parseVerificationBlock sample_zenv
     (insert_block (serializeVerificationBlock [dollar_proof [dollar, dollar]]) sample_todo_section)
   = Some [dollar_proof [dollar]]"
  by code_simp

text \<open>
  Setting the block reason of a section twice is not setting it once: a reason with the
  replacement sequence for the whole match takes in the old line each time.
\<close>

theorem blocked_reason_not_idempotent:
  "set_blocked_in_section (dollar # ''&'') (set_blocked_in_section (dollar # ''&'') sample_todo_section)
   \<noteq> set_blocked_in_section (dollar # ''&'') sample_todo_section"
  by code_simp

text \<open>
  A status written into a task section that has a status line is the status the parser
  reads from the section, for each of the five statuses.
\<close>

theorem status_write_read:
  assumes "re_test (marker_line status_marker) section"
  shows "extractExplicitTaskStatus (set_status_in_section st section) = Inr (Some st)"
proof -
  obtain m where m: "re_exec (marker_line status_marker) section = Some m"
    using assms by (auto simp: re_test_def)
  have "re_test (lit_i status_marker) section" by (rule marker_in_section [OF m])
  then have "set_status_in_section st section
      = replace_with (marker_line status_marker) (status_marker @ '' '' @ task_status_str st) section"
    by (simp add: set_status_in_section_def)
  moreover have "status_marker \<noteq> []" "\<not> js_ws (last status_marker)" "dollar \<notin> set status_marker"
    by (simp_all add: status_marker_def js_ws_def)
  then obtain m' where "re_exec (marker_value status_marker)
      (replace_with (marker_line status_marker) (status_marker @ '' '' @ task_status_str st) section) = Some m'"
      "group m' 1 = Some (task_status_str st)"
    using marker_write_read [OF m _ _ status_text_facts(1-3)] by force
  ultimately show ?thesis
    using status_text_facts(4) [of st] normalize_status_text [of st] parse_task_status_iff [of "task_status_str st" st]
    by (simp add: extractExplicitTaskStatus_def group_or_empty_def Let_def)
qed

theorem status_write_read_witness:
  "extractExplicitTaskStatus (set_status_in_section Dropped sample_todo_section) = Inr (Some Dropped)"
proof (rule status_write_read)
  show "re_test (marker_line status_marker) sample_todo_section" by code_simp
qed

end
