(* ===== verification/Validation.thy ===== *)
theory Validation
  imports TaskParser
begin

text \<open>
  The document validators of \<open>src/blueprint/core/validation/\<close>: task blocks, acceptance
  criteria, required sections, the state of a plan against its folder, and the dependency
  graph with its cycle search.
\<close>

record validation_result =
  valid :: bool
  v_error :: "string option"

record dependency_details =
  d_cycles :: "string list option"
  d_danglingRefs :: "string list option"

record dependency_result = validation_result +
  details :: "dependency_details option"

definition all_valid :: validation_result where
  "all_valid = \<lparr>valid = True, v_error = None\<rparr>"

definition invalid :: "string \<Rightarrow> validation_result" where
  "invalid msg = \<lparr>valid = False, v_error = Some msg\<rparr>"

lemma valid_simps [simp]: "valid all_valid" "\<not> valid (invalid msg)"
  by (simp_all add: all_valid_def invalid_def)

section \<open>Task blocks (task-blocks.ts)\<close>

record task_block =
  tb_taskId :: string
  block :: string

text \<open>\<open>/^####\s+Task\s+(\d+\.\d+):/\<close> on one line\<close>

definition dotted_id :: regex where
  "dotted_id = sq [plus digit, chr CHR ''.'', plus digit]"

definition TASK_HEADING_REGEX :: regex where
  "TASK_HEADING_REGEX =
     sq [StartText, lit ''####'', plus ws, lit ''Task'', plus ws, Grp 1 dotted_id, chr CHR '':'']"

definition block_end_pattern :: regex where
  "block_end_pattern = sq [StartText, between 1 3 (chr CHR ''#''), ws]"

definition heading_id :: "string \<Rightarrow> string option" where
  "heading_id line =
     (case re_exec TASK_HEADING_REGEX line of None \<Rightarrow> None
      | Some m \<Rightarrow> (case group m 1 of None \<Rightarrow> None | Some i \<Rightarrow> if i = [] then None else Some i))"

definition ends_block :: "string \<Rightarrow> bool" where
  "ends_block line \<longleftrightarrow> re_test block_end_pattern line \<and> \<not> starts_with line ''####''"

text \<open>The blocks found so far and the open block with its task id.\<close>

record block_scan =
  taskBlocks :: "task_block list"
  current :: "(string \<times> string) option"

definition finalizeBlock :: "block_scan \<Rightarrow> block_scan" where
  "finalizeBlock s =
     (case current s of None \<Rightarrow> s
      | Some (i, b) \<Rightarrow> s\<lparr>taskBlocks := taskBlocks s @ [\<lparr>tb_taskId = i, block = b\<rparr>], current := None\<rparr>)"

definition block_step :: "block_scan \<Rightarrow> string \<Rightarrow> block_scan" where
  "block_step s line =
     (case heading_id line of
        Some i \<Rightarrow> (finalizeBlock s)\<lparr>current := Some (i, line @ [nl])\<rparr>
      | None \<Rightarrow>
          (case current s of None \<Rightarrow> s
           | Some (i, b) \<Rightarrow>
               if ends_block line then finalizeBlock s
               else s\<lparr>current := Some (i, b @ line @ [nl])\<rparr>))"

definition parseTaskBlocks :: "string \<Rightarrow> task_block list" where
  "parseTaskBlocks markdown =
     taskBlocks (finalizeBlock
       (foldl block_step \<lparr>taskBlocks = [], current = None\<rparr> (split_char nl markdown)))"

section \<open>Acceptance criteria (criteria.ts) and embedded phases (phases.ts)\<close>

record criteria_result =
  cr_total :: nat
  cr_checked :: nat
  allChecked :: bool

definition criteriaRegex :: regex where
  "criteriaRegex = sq [StartLine, lit ''- ['', Grp 1 (one_of '' x''), lit '']'']"

definition checkAcceptanceCriteria :: "string \<Rightarrow> criteria_result" where
  "checkAcceptanceCriteria markdown =
     (let matches = match_all criteriaRegex markdown;
          t = length matches;
          c = length (filter (\<lambda>m. group m 1 = Some ''x'') matches)
      in \<lparr>cr_total = t, cr_checked = c, allChecked = (t = 0 \<or> c = t)\<rparr>)"

record embedded_phases =
  hasEmbedded :: bool
  phases :: "string list"
  warning :: "string option"

definition phase_header_pattern :: regex where
  "phase_header_pattern =
     sq [StartLine, lit ''##'', opt (chr CHR ''#''), lit '' Phase '', plus digit]"

definition validateEmbeddedPhases :: "string \<Rightarrow> embedded_phases" where
  "validateEmbeddedPhases markdown =
     (let phaseHeaders = map m_text (match_all phase_header_pattern markdown)
      in if length phaseHeaders > 0 then
           \<lparr>hasEmbedded = True, phases = phaseHeaders,
            warning = Some (''Plan has '' @ nat_str (length phaseHeaders)
              @ '' embedded phase(s). Consider using separate phase-N-*.md files'')\<rparr>
         else \<lparr>hasEmbedded = False, phases = [], warning = None\<rparr>)"

section \<open>Template sections (template.ts)\<close>

definition line_start :: "string \<Rightarrow> regex" where
  "line_start s = Seq StartLine (lit s)"

definition checkRequiredOverview :: "string \<Rightarrow> validation_result" where
  "checkRequiredOverview markdown =
     (if \<not> (re_test (line_start ''## Overview'') markdown
            \<or> re_test (line_start ''## Problem Statement'') markdown
            \<or> re_test (line_start ''## Problem & Goal'') markdown) then
        invalid ''Plan missing required section: ## Overview (or ## Problem Statement)''
      else all_valid)"

definition checkRequiredCriteria :: "string \<Rightarrow> validation_result" where
  "checkRequiredCriteria markdown =
     (if \<not> re_test (line_start ''## Acceptance Criteria'') markdown
         \<and> cr_total (checkAcceptanceCriteria markdown) = 0 then
        invalid ''Plan missing required section: ## Acceptance Criteria (with checkboxes)''
      else all_valid)"

definition checkRequiredImplementation :: "string \<Rightarrow> validation_result" where
  "checkRequiredImplementation markdown =
     (if \<not> (re_test (line_start ''## Phases'') markdown
            \<or> re_test (line_start ''## Tasks'') markdown
            \<or> re_test (line_start ''## Implementation'') markdown
            \<or> re_test (Seq (line_start ''### Phase '') digit) markdown) then
        invalid ''Plan missing required section: ## Phases (or ## Tasks or ## Implementation)''
      else all_valid)"

definition validatePlanTemplate :: "string \<Rightarrow> validation_result" where
  "validatePlanTemplate markdown =
     (let o1 = checkRequiredOverview markdown; o2 = checkRequiredCriteria markdown;
          o3 = checkRequiredImplementation markdown
      in if \<not> valid o1 then o1 else if \<not> valid o2 then o2 else if \<not> valid o3 then o3 else all_valid)"

section \<open>Task sections (task-sections.ts)\<close>

record task_section_issue =
  is_taskId :: string
  missingDepends :: bool
  missingAcceptance :: bool

definition DEPENDS_REGEX :: regex where
  "DEPENDS_REGEX = lit ''**Depends:**''"

definition ACCEPTANCE_WITH_CHECKBOX_REGEX :: regex where
  "ACCEPTANCE_WITH_CHECKBOX_REGEX =
     sq [lit ''**Acceptance'', opt (Seq (plus ws) (lit ''Criteria'')), lit '':**'', lazy any_char,
         lit ''- ['', one_of '' x'', chr CHR '']'']"

definition field_pattern :: "string \<Rightarrow> regex" where
  "field_pattern key = sq [StartLine, lit key, chr CHR '':'', star ws, Grp 1 (plus non_ws)]"

definition extractDocType :: "string \<Rightarrow> string option" where
  "extractDocType markdown =
     (case re_exec (field_pattern ''type'') markdown of None \<Rightarrow> None | Some m \<Rightarrow> group m 1)"

definition checkBlock :: "task_block \<Rightarrow> task_section_issue" where
  "checkBlock b =
     \<lparr>is_taskId = tb_taskId b, missingDepends = (\<not> re_test DEPENDS_REGEX (block b)),
      missingAcceptance = (\<not> re_test ACCEPTANCE_WITH_CHECKBOX_REGEX (block b))\<rparr>"

definition findTaskSectionIssues :: "string \<Rightarrow> task_section_issue list" where
  "findTaskSectionIssues markdown =
     filter (\<lambda>i. missingDepends i \<or> missingAcceptance i) (map checkBlock (parseTaskBlocks markdown))"

definition section_issue_message :: "task_section_issue \<Rightarrow> string" where
  "section_issue_message i =
     ''Task '' @ is_taskId i @ '' missing required sections: ''
     @ join_with '', '' ((if missingDepends i then [''**Depends:**''] else [])
         @ (if missingAcceptance i then [''**Acceptance:** with checkbox''] else []))"

definition validateTaskSections :: "string \<Rightarrow> string option \<Rightarrow> validation_result" where
  "validateTaskSections markdown docType =
     (let ty = (case docType of Some t \<Rightarrow> Some t | None \<Rightarrow> extractDocType markdown)
      in if ty \<noteq> Some ''blueprint'' then all_valid
         else (let issues = findTaskSectionIssues markdown
               in if issues = [] then all_valid
                  else invalid (join_with ''; '' (map section_issue_message issues))))"

section \<open>Plan state against the folder (state.ts)\<close>

definition validateCompletedFolder :: "lifecycle_status \<Rightarrow> bool \<Rightarrow> criteria_result \<Rightarrow> validation_result" where
  "validateCompletedFolder status isInCompleted criteria =
     (if status = Completed \<and> \<not> isInCompleted then
        invalid ''Plan has status: completed but is not in completed/ folder. Move it with: git mv <path> webpresso/blueprints/completed/''
      else if isInCompleted \<and> status \<noteq> Completed then
        invalid (''Plan is in completed/ folder but has status: '' @ status_str status
                 @ '' (expected status: completed)'')
      else if status = Completed \<and> \<not> allChecked criteria then
        invalid (''Plan has status: completed but only '' @ nat_str (cr_checked criteria) @ ''/''
                 @ nat_str (cr_total criteria) @ '' acceptance criteria are checked'')
      else all_valid)"

definition validateDraftFolder :: "lifecycle_status \<Rightarrow> bool \<Rightarrow> criteria_result \<Rightarrow> validation_result" where
  "validateDraftFolder status isInDraft criteria =
     (if status = Draft \<and> \<not> isInDraft then
        invalid ''Plan has status: draft but is not in draft/ folder. Move it with: git mv <path> webpresso/blueprints/draft/''
      else if isInDraft \<and> status \<noteq> Draft then
        invalid (''Plan is in draft/ folder but has status: '' @ status_str status
                 @ '' (expected status: draft)'')
      else if status = Draft \<and> cr_checked criteria > 0 then
        invalid (''Plan has status: draft but '' @ nat_str (cr_checked criteria)
                 @ '' acceptance criteria are checked (expected 0)'')
      else all_valid)"

definition validateParkedFolder :: "lifecycle_status \<Rightarrow> bool \<Rightarrow> validation_result" where
  "validateParkedFolder status isInParked =
     (if status = Parked \<and> \<not> isInParked then
        invalid ''Plan has status: parked but is not in parked/ folder. Move it with: git mv <path> webpresso/blueprints/parked/''
      else if isInParked \<and> status \<noteq> Parked then
        invalid (''Plan is in parked/ folder but has status: '' @ status_str status
                 @ '' (expected status: parked)'')
      else all_valid)"

definition validateStateOnly :: "lifecycle_status \<Rightarrow> criteria_result \<Rightarrow> validation_result" where
  "validateStateOnly status criteria =
     (if status = Completed \<and> \<not> allChecked criteria then
        invalid ''Plan completed but criteria not met''
      else if status = Draft \<and> cr_checked criteria > 0 then invalid ''Plan draft but criteria checked''
      else all_valid)"

definition in_folder :: "string \<Rightarrow> string \<Rightarrow> bool" where
  "in_folder filePath name \<longleftrightarrow>
     includes_str filePath (''/'' @ name @ ''/'') \<or> includes_str filePath (name @ ''/'')"

definition validateStateWithPath :: "lifecycle_status \<Rightarrow> string \<Rightarrow> criteria_result \<Rightarrow> validation_result" where
  "validateStateWithPath status filePath criteria =
     (let r1 = validateCompletedFolder status (in_folder filePath ''completed'') criteria;
          r2 = validateDraftFolder status (in_folder filePath ''draft'') criteria;
          r3 = validateParkedFolder status (in_folder filePath ''parked'')
      in if \<not> valid r1 then r1 else if \<not> valid r2 then r2 else if \<not> valid r3 then r3 else all_valid)"

definition stated_status :: "string \<Rightarrow> string option" where
  "stated_status markdown =
     (case re_exec (field_pattern ''status'') markdown of None \<Rightarrow> None | Some m \<Rightarrow> group m 1)"

definition validatePlanState :: "string \<Rightarrow> string option \<Rightarrow> validation_result" where
  "validatePlanState markdown filePath =
     (case stated_status markdown of None \<Rightarrow> all_valid
      | Some s \<Rightarrow>
          if s = [] then all_valid
          else (case parseLifecycleBlueprintStatus s of
             None \<Rightarrow> invalid (''Plan has invalid status: '' @ s @ ''. Valid statuses: ''
                       @ join_with '', '' (map status_str lifecycle_options))
           | Some st \<Rightarrow>
               (let criteria = checkAcceptanceCriteria markdown
                in case filePath of
                     None \<Rightarrow> validateStateOnly st criteria
                   | Some p \<Rightarrow> if p = [] then validateStateOnly st criteria
                               else validateStateWithPath st p criteria)))"

section \<open>The dependency graph (dependencies.ts)\<close>

type_synonym task_deps = "(string, string list) js_map"

definition depends_line :: regex where
  "depends_line = sq [lit ''**Depends:**'', star ws, Grp 1 (star dot)]"

definition TASK_ID_IN_DEPENDS_REGEX :: regex where
  "TASK_ID_IN_DEPENDS_REGEX = sq [lit ''Task'', plus ws, Grp 1 dotted_id]"

definition block_deps :: "string \<Rightarrow> string list" where
  "block_deps b =
     (case re_exec depends_line b of None \<Rightarrow> []
      | Some m \<Rightarrow>
          (if group_or_empty m 1 = [] then []
           else filter (\<lambda>i. i \<noteq> [])
                  (map (\<lambda>r. group_or_empty r 1)
                    (match_all TASK_ID_IN_DEPENDS_REGEX (group_or_empty m 1)))))"

definition extractTaskDeps :: "string \<Rightarrow> task_deps" where
  "extractTaskDeps markdown =
     foldl (\<lambda>m b. map_set (tb_taskId b) (block_deps (block b)) m) [] (parseTaskBlocks markdown)"

definition dangling_message :: "string \<Rightarrow> string \<Rightarrow> string" where
  "dangling_message t d =
     ''Task '' @ t @ '' '' @ arrow_str @ '' Task '' @ d @ '' (does not exist)''"

definition findDanglingRefs :: "task_deps \<Rightarrow> string list" where
  "findDanglingRefs taskDeps =
     concat (map (\<lambda>(t, deps). map (dangling_message t)
                    (filter (\<lambda>d. \<not> map_has taskDeps d) deps)) taskDeps)"

datatype colour = White | Gray | Black

record dfs_state =
  color :: "(string, colour) js_map"
  cycles :: "string list"

definition set_color :: "string \<Rightarrow> colour \<Rightarrow> dfs_state \<Rightarrow> dfs_state" where
  "set_color v c s = s\<lparr>color := map_set v c (color s)\<rparr>"

text \<open>\<open>path.slice(path.indexOf(neighbor))\<close>\<close>

definition path_from :: "string \<Rightarrow> string list \<Rightarrow> string list" where
  "path_from v path = dropWhile (\<lambda>x. x \<noteq> v) path"

definition cycle_message :: "string list \<Rightarrow> string" where
  "cycle_message c = join_with ('' '' @ arrow_str @ '' '') (map (\<lambda>i. ''Task '' @ i) c)"

text \<open>
  The loop over the neighbours of a node; \<open>rec\<close> is the search of a white neighbour.  The
  depth of the recursion is the first argument of \<open>dfs\<close>; \<open>None\<close> means that it did not suffice.
\<close>

fun visit :: "(string \<Rightarrow> dfs_state \<Rightarrow> dfs_state option) \<Rightarrow> string list \<Rightarrow> string list \<Rightarrow> dfs_state
    \<Rightarrow> dfs_state option" where
  "visit rec path [] s = Some s"
| "visit rec path (v # vs) s =
     (case map_get (color s) v of
        Some Gray \<Rightarrow>
          visit rec path vs
            (if v \<in> set path then s\<lparr>cycles := cycles s @ [cycle_message (path_from v path @ [v])]\<rparr> else s)
      | Some White \<Rightarrow> (case rec v s of None \<Rightarrow> None | Some s' \<Rightarrow> visit rec path vs s')
      | _ \<Rightarrow> visit rec path vs s)"

definition successors :: "task_deps \<Rightarrow> string \<Rightarrow> string list" where
  "successors taskDeps v = (case map_get taskDeps v of None \<Rightarrow> [] | Some ds \<Rightarrow> ds)"

fun dfs :: "nat \<Rightarrow> task_deps \<Rightarrow> string list \<Rightarrow> string \<Rightarrow> dfs_state \<Rightarrow> dfs_state option" where
  "dfs 0 taskDeps path node s = None"
| "dfs (Suc n) taskDeps path node s =
     map_option (set_color node Black)
       (visit (dfs n taskDeps (path @ [node])) (path @ [node]) (successors taskDeps node)
          (set_color node Gray s))"

fun dfs_all :: "nat \<Rightarrow> task_deps \<Rightarrow> string list \<Rightarrow> dfs_state \<Rightarrow> dfs_state option" where
  "dfs_all n taskDeps [] s = Some s"
| "dfs_all n taskDeps (v # vs) s =
     (if map_get (color s) v = Some White then
        (case dfs n taskDeps [] v s of None \<Rightarrow> None | Some s' \<Rightarrow> dfs_all n taskDeps vs s')
      else dfs_all n taskDeps vs s)"

definition all_white :: "task_deps \<Rightarrow> dfs_state" where
  "all_white taskDeps =
     \<lparr>color = map_from (map (\<lambda>v. (v, White)) (map_keys taskDeps)), cycles = []\<rparr>"

definition findCycles :: "task_deps \<Rightarrow> string list option" where
  "findCycles taskDeps =
     map_option cycles (dfs_all (Suc (length taskDeps)) taskDeps (map_keys taskDeps) (all_white taskDeps))"

definition some_if_any :: "string list \<Rightarrow> string list option" where
  "some_if_any xs = (if length xs > 0 then Some xs else None)"

definition validateTaskDependencies :: "string \<Rightarrow> dependency_result option" where
  "validateTaskDependencies markdown =
     (let taskDeps = extractTaskDeps markdown
      in if taskDeps = [] then Some \<lparr>valid = True, v_error = None, details = None\<rparr>
         else (let danglingRefs = findDanglingRefs taskDeps
               in map_option (\<lambda>cs.
                    if danglingRefs = [] \<and> cs = [] then
                      \<lparr>valid = True, v_error = None, details = None\<rparr>
                    else
                      \<lparr>valid = False,
                       v_error = Some (join_with ''. ''
                         ((if cs \<noteq> [] then [''Circular dependencies detected: '' @ join_with ''; '' cs] else [])
                          @ (if danglingRefs \<noteq> []
                             then [''Dangling dependency references: '' @ join_with ''; '' danglingRefs] else []))),
                       details = Some \<lparr>d_cycles = some_if_any cs, d_danglingRefs = some_if_any danglingRefs\<rparr>\<rparr>)
                    (findCycles taskDeps)))"

end
