(* ===== verification/GraphFacts.thy ===== *)
theory GraphFacts
  imports Main
begin

text \<open>
  A generic fact for the depth-first searches: the finished nodes of a search lead only to
  finished nodes and lie on no cycle.
\<close>

definition closed_off :: "('a \<times> 'a) set \<Rightarrow> 'a set \<Rightarrow> bool" where
  "closed_off E B \<longleftrightarrow> E `` B \<subseteq> B \<and> (\<forall>u\<in>B. (u, u) \<notin> E\<^sup>+)"

lemma closed_off_empty [simp]: "closed_off E {}"
  by (simp add: closed_off_def)

lemma closed_off_reach:
  assumes "closed_off E B" and "(x, y) \<in> E\<^sup>*" and "x \<in> B"
  shows "y \<in> B"
  using assms(2,3) by (induction rule: rtrancl_induct) (use assms(1) in \<open>auto simp: closed_off_def\<close>)

text \<open>A node all of whose successors are finished can be added.\<close>

lemma closed_off_insert:
  assumes B: "closed_off E B" and u: "u \<notin> B" and succ: "\<And>v. (u, v) \<in> E \<Longrightarrow> v \<in> B"
  shows "closed_off E (insert u B)"
proof -
  have "(u, u) \<notin> E\<^sup>+"
  proof
    assume "(u, u) \<in> E\<^sup>+"
    then obtain v where "(u, v) \<in> E" "(v, u) \<in> E\<^sup>*" by (meson tranclD)
    then show False using closed_off_reach [OF B] succ u by blast
  qed
  with B succ show ?thesis by (auto simp: closed_off_def)
qed

text \<open>No cycle can be reached from a finished node.\<close>

lemma closed_off_acyclic:
  assumes "closed_off E B" and "x \<in> B"
  shows "\<not> (\<exists>v. (x, v) \<in> E\<^sup>* \<and> (v, v) \<in> E\<^sup>+)"
  using assms closed_off_reach [OF assms(1)] by (auto simp: closed_off_def)

end
