(* ===== verification/CycleFacts.thy ===== *)
theory CycleFacts
  imports Validation GraphFacts
begin

text \<open>
  The depth-first search of \<open>findCycles\<close>: the gray nodes are the path, black nodes lead
  only to black nodes unless a cycle was reported, and the recursion is never deeper than
  the number of white nodes.
\<close>

definition edge :: "task_deps \<Rightarrow> string \<Rightarrow> string \<Rightarrow> bool" where
  "edge deps u v \<longleftrightarrow> v \<in> set (successors deps u) \<and> map_has deps v"

definition edges :: "task_deps \<Rightarrow> (string \<times> string) set" where
  "edges deps = {(u, v). edge deps u v}"

definition is_cycle :: "task_deps \<Rightarrow> string list \<Rightarrow> bool" where
  "is_cycle deps ns \<longleftrightarrow> length ns \<ge> 2 \<and> hd ns = last ns \<and> successively (edge deps) ns"

definition coloured :: "colour \<Rightarrow> dfs_state \<Rightarrow> string set" where
  "coloured c s = {v. map_get (color s) v = Some c}"

lemma coloured_set [simp]:
  "coloured c (set_color v d s) = (if c = d then insert v (coloured c s) else coloured c s - {v})"
  by (auto simp: coloured_def set_color_def)

lemma coloured_cycles [simp]: "coloured c (s\<lparr>cycles := x\<rparr>) = coloured c s"
  by (simp add: coloured_def)

lemma cycles_set_color [simp]: "cycles (set_color v c s) = cycles s"
  by (simp add: set_color_def)

lemma known_source: "edge deps u v \<Longrightarrow> map_has deps u"
  by (cases "map_get deps u") (simp_all add: edge_def successors_def map_has_iff)

text \<open>The state between two steps of the search with the given path.\<close>

definition search_inv :: "task_deps \<Rightarrow> string list \<Rightarrow> dfs_state \<Rightarrow> bool" where
  "search_inv deps path s \<longleftrightarrow>
     coloured White s \<union> coloured Gray s \<union> coloured Black s = {v. map_has deps v}
     \<and> coloured Gray s = set path \<and> distinct path \<and> successively (edge deps) path
     \<and> (\<forall>c\<in>set (cycles s). \<exists>ns. c = cycle_message ns \<and> is_cycle deps ns)
     \<and> (cycles s = [] \<longrightarrow> closed_off (edges deps) (coloured Black s))"

definition grows :: "dfs_state \<Rightarrow> dfs_state \<Rightarrow> bool" where
  "grows s t \<longleftrightarrow> coloured Black s \<subseteq> coloured Black t \<and> coloured White t \<subseteq> coloured White s
     \<and> (cycles t = [] \<longrightarrow> cycles s = [])"

lemma grows_refl [simp]: "grows s s"
  by (simp add: grows_def)

lemma grows_trans: "grows s t \<Longrightarrow> grows t u \<Longrightarrow> grows s u"
  by (auto simp: grows_def)

lemma colour_disjoint: "c \<noteq> d \<Longrightarrow> v \<in> coloured c s \<Longrightarrow> v \<notin> coloured d s"
  by (simp add: coloured_def)

lemma white_finite: "search_inv deps path s \<Longrightarrow> finite (coloured White s)"
  by (rule finite_subset [of _ "fst ` set deps"]) (auto simp: search_inv_def map_has_def)

lemma white_fewer:
  assumes "search_inv deps path s" and "grows s t"
  shows "card (coloured White t) \<le> card (coloured White s)"
  using assms white_finite by (auto simp: grows_def intro: card_mono)

lemma inv_colour:
  assumes "search_inv deps path s"
  shows "map_get (color s) v = None \<longleftrightarrow> \<not> map_has deps v"
proof -
  have "map_has deps v \<longleftrightarrow> v \<in> coloured White s \<union> coloured Gray s \<union> coloured Black s"
    using assms unfolding search_inv_def by blast
  also have "\<dots> \<longleftrightarrow> (\<exists>c. map_get (color s) v = Some c)"
    by (simp add: coloured_def) (metis (full_types) colour.exhaust)
  finally show ?thesis by (cases "map_get (color s) v") simp_all
qed

lemma cycle_found:
  assumes "successively (edge deps) path" and "v \<in> set path" and "edge deps (last path) v"
  shows "is_cycle deps (path_from v path @ [v])"
proof -
  define c where "c = path_from v path"
  have ne: "c \<noteq> []" using assms(2) by (auto simp: c_def path_from_def dropWhile_eq_Nil_conv)
  have hd: "hd c = v" using hd_dropWhile [of "\<lambda>x. x \<noteq> v" path] ne by (simp add: c_def path_from_def)
  have split: "path = takeWhile (\<lambda>x. x \<noteq> v) path @ c" by (simp add: c_def path_from_def)
  then have last: "last path = last c" using ne by (metis last_appendR)
  have "successively (edge deps) c" using assms(1) split by (metis successively_append_iff)
  then have "successively (edge deps) (c @ [v])"
    using ne assms(3) last by (simp add: successively_append_iff)
  then show ?thesis using ne hd by (cases c) (auto simp: is_cycle_def c_def [symmetric])
qed

lemma inv_report:
  assumes "search_inv deps path s" and "v \<in> set path" and "edge deps (last path) v"
  shows "search_inv deps path (s\<lparr>cycles := cycles s @ [cycle_message (path_from v path @ [v])]\<rparr>)"
  using assms cycle_found by (auto simp: search_inv_def)

text \<open>The loop over the neighbours, given what the recursive search promises.\<close>

definition searched :: "task_deps \<Rightarrow> string list \<Rightarrow> string \<Rightarrow> dfs_state \<Rightarrow> dfs_state \<Rightarrow> bool" where
  "searched deps path v s t \<longleftrightarrow> search_inv deps path t \<and> grows s t \<and> v \<in> coloured Black t"

lemma visit_ok:
  assumes rec: "\<And>v s. search_inv deps path s \<Longrightarrow> v \<in> coloured White s \<Longrightarrow> edge deps (last path) v
      \<Longrightarrow> card (coloured White s) \<le> n \<Longrightarrow> \<exists>t. rec v s = Some t \<and> searched deps path v s t"
    and inv: "search_inv deps path s" and n: "card (coloured White s) \<le> n"
    and vs: "set vs \<subseteq> set (successors deps (last path))"
  shows "\<exists>t. visit rec path vs s = Some t \<and> search_inv deps path t \<and> grows s t
    \<and> (cycles t = [] \<longrightarrow> (\<forall>v\<in>set vs. map_has deps v \<longrightarrow> v \<in> coloured Black t))"
  using inv n vs
proof (induction vs arbitrary: s)
  case (Cons v vs)
  show ?case
  proof (cases "map_get (color s) v")
    case None
    then have "\<not> map_has deps v" using inv_colour [OF Cons.prems(1), of v] by simp
    then show ?thesis using Cons None by simp
  next
    case (Some c)
    then have v: "v \<in> coloured c s" and known: "map_has deps v"
      using inv_colour [OF Cons.prems(1), of v] by (simp_all add: coloured_def)
    then have e: "edge deps (last path) v" using Cons.prems(3) by (simp add: edge_def)
    show ?thesis
    proof (cases c)
      case Gray
      then have p: "v \<in> set path" using v Cons.prems(1) by (simp add: search_inv_def)
      let ?s = "s\<lparr>cycles := cycles s @ [cycle_message (path_from v path @ [v])]\<rparr>"
      have "grows s ?s" by (simp add: grows_def)
      moreover have "search_inv deps path ?s" using Cons.prems(1) p e by (rule inv_report)
      ultimately obtain t where "visit rec path vs ?s = Some t" "search_inv deps path t" "grows ?s t"
        using Cons.IH [of ?s] Cons.prems(2,3) by auto
      moreover from this have "cycles t \<noteq> []" by (auto simp: grows_def)
      ultimately show ?thesis using Some Gray p \<open>grows s ?s\<close> grows_trans by auto
    next
      case White
      then obtain u where u: "rec v s = Some u" "searched deps path v s u"
        using rec [OF Cons.prems(1) _ e Cons.prems(2)] v by blast
      then have inv: "search_inv deps path u" and g: "grows s u" and b: "v \<in> coloured Black u"
        by (auto simp: searched_def)
      then have "card (coloured White u) \<le> n"
        using white_fewer [OF Cons.prems(1) g] Cons.prems(2) by linarith
      then obtain t where "visit rec path vs u = Some t" "search_inv deps path t" "grows u t"
        "cycles t = [] \<longrightarrow> (\<forall>v\<in>set vs. map_has deps v \<longrightarrow> v \<in> coloured Black t)"
        using Cons.IH [OF inv] Cons.prems(3) by auto
      then show ?thesis using Some White u(1) g b grows_trans [OF g] by (auto simp: grows_def)
    next
      case Black
      then show ?thesis using Cons Some v by (fastforce simp: grows_def)
    qed
  qed
qed simp

lemma dfs_ok:
  assumes "search_inv deps path s" and "v \<in> coloured White s"
    and "path = [] \<or> edge deps (last path) v" and "card (coloured White s) \<le> n"
  shows "\<exists>t. dfs n deps path v s = Some t \<and> searched deps path v s t"
  using assms
proof (induction n arbitrary: path v s)
  case 0
  then show ?case using white_finite by fastforce
next
  case (Suc n)
  let ?s = "set_color v Gray s" and ?p = "path @ [v]"
  have fresh: "v \<notin> coloured Gray s" "v \<notin> coloured Black s"
    using Suc.prems(2) colour_disjoint by blast+
  have inv: "search_inv deps ?p ?s"
    using Suc.prems fresh by (auto simp: search_inv_def successively_append_iff)
  have "card (coloured White ?s) \<le> n"
    using Suc.prems white_finite by (fastforce simp: card_Diff_singleton_if)
  moreover have "\<And>w t. search_inv deps ?p t \<Longrightarrow> w \<in> coloured White t \<Longrightarrow> edge deps (last ?p) w \<Longrightarrow>
      card (coloured White t) \<le> n \<Longrightarrow> \<exists>u. dfs n deps ?p w t = Some u \<and> searched deps ?p w t u"
    using Suc.IH by blast
  ultimately obtain t where t: "visit (dfs n deps ?p) ?p (successors deps v) ?s = Some t"
      "search_inv deps ?p t" "grows ?s t"
      "cycles t = [] \<longrightarrow> (\<forall>w\<in>set (successors deps v). map_has deps w \<longrightarrow> w \<in> coloured Black t)"
    using visit_ok [of deps ?p n "dfs n deps ?p" ?s "successors deps v"] inv by auto
  have "v \<in> coloured Gray t" using t(2) by (simp add: search_inv_def)
  then have nb: "v \<notin> coloured Black t" "v \<notin> coloured White t" using colour_disjoint by blast+
  have "cycles t = [] \<longrightarrow> closed_off (edges deps) (insert v (coloured Black t))"
    using t(2,4) nb(1) closed_off_insert [of "edges deps" "coloured Black t" v]
    by (auto simp: search_inv_def edge_def edges_def)
  then have "search_inv deps path (set_color v Black t)"
    using t(2) nb by (auto simp: search_inv_def successively_append_iff)
  moreover have "grows s (set_color v Black t)"
    using t(3) fresh by (auto simp: grows_def)
  ultimately show ?case using t(1) by (auto simp: searched_def)
qed

lemma dfs_all_ok:
  assumes "search_inv deps [] s" and "card (coloured White s) \<le> n" and "set vs \<subseteq> {v. map_has deps v}"
  shows "\<exists>t. dfs_all n deps vs s = Some t \<and> search_inv deps [] t \<and> grows s t
    \<and> set vs \<subseteq> coloured Black t"
  using assms
proof (induction vs arbitrary: s)
  case (Cons v vs)
  show ?case
  proof (cases "map_get (color s) v = Some White")
    case True
    then obtain u where u: "dfs n deps [] v s = Some u" "searched deps [] v s u"
      using dfs_ok [OF Cons.prems(1), of v n] Cons.prems(2) by (auto simp: coloured_def)
    then have "search_inv deps [] u" "grows s u" "v \<in> coloured Black u" by (auto simp: searched_def)
    moreover from this have "card (coloured White u) \<le> n"
      using white_fewer [OF Cons.prems(1), of u] Cons.prems(2) by linarith
    ultimately obtain t where "dfs_all n deps vs u = Some t" "search_inv deps [] t" "grows u t"
        "set vs \<subseteq> coloured Black t"
      using Cons.IH [of u] Cons.prems(3) by auto
    then show ?thesis
      using True u(1) \<open>v \<in> coloured Black u\<close> grows_trans [OF \<open>grows s u\<close>, of t]
      by (auto simp: grows_def)
  next
    case False
    then have "v \<in> coloured Black s"
      using Cons.prems(1,3) inv_colour [OF Cons.prems(1), of v]
      by (cases "map_get (color s) v"; cases "the (map_get (color s) v)")
         (auto simp: search_inv_def coloured_def)
    then show ?thesis using Cons.IH [OF Cons.prems(1,2)] Cons.prems(3) False by (auto simp: grows_def)
  qed
qed simp

lemma all_white_color:
  "map_get (color (all_white deps)) v = (if map_has deps v then Some White else None)"
  by (simp add: all_white_def map_get_from rev_map map_of_map_restrict map_keys_has
        restrict_map_def)

lemma all_white_inv: "search_inv deps [] (all_white deps)"
  by (simp add: search_inv_def coloured_def all_white_color closed_off_def)
     (simp add: all_white_def)

lemma all_white_card: "card (coloured White (all_white deps)) \<le> length deps"
proof -
  have "coloured White (all_white deps) = set (map fst deps)"
    by (auto simp: coloured_def all_white_color map_has_def)
  then show ?thesis using card_length [of "map fst deps"] by simp
qed

text \<open>The search returns, reports only real cycles, and reports one if there is any.\<close>

lemma findCycles_ok:
  "\<exists>cs. findCycles deps = Some cs \<and> (\<forall>c\<in>set cs. \<exists>ns. c = cycle_message ns \<and> is_cycle deps ns)
     \<and> (cs = [] \<longrightarrow> acyclic (edges deps))"
proof -
  obtain t where t: "dfs_all (Suc (length deps)) deps (map_keys deps) (all_white deps) = Some t"
      "search_inv deps [] t" "set (map_keys deps) \<subseteq> coloured Black t"
    using dfs_all_ok [OF all_white_inv, of deps "Suc (length deps)" "map_keys deps"] all_white_card [of deps]
    by (fastforce simp: map_keys_has le_SucI)
  have "acyclic (edges deps)" if "cycles t = []"
  proof -
    have B: "closed_off (edges deps) (coloured Black t)" using t(2) that by (simp add: search_inv_def)
    have "(u, u) \<notin> (edges deps)\<^sup>+" for u
    proof
      assume c: "(u, u) \<in> (edges deps)\<^sup>+"
      then have "map_has deps u" by (auto simp: edges_def dest!: tranclD intro: known_source)
      then have "u \<in> coloured Black t" using t(3) by (auto simp: map_keys_has)
      then show False using B c by (simp add: closed_off_def)
    qed
    then show ?thesis by (simp add: acyclic_def)
  qed
  then show ?thesis using t(1,2) by (auto simp: findCycles_def search_inv_def)
qed

lemma cycle_in_edges: "is_cycle deps ns \<Longrightarrow> (hd ns, hd ns) \<in> (edges deps)\<^sup>+"
proof -
  have chain: "(hd xs, last xs) \<in> (edges deps)\<^sup>+" if "successively (edge deps) xs" "length xs \<ge> 2" for xs
    using that
  proof (induction xs rule: induct_list012)
    case (3 x y zs)
    then have "(x, y) \<in> edges deps" by (simp add: edges_def)
    with 3 show ?case by (cases zs) (auto intro: trancl_into_trancl2)
  qed auto
  assume "is_cycle deps ns"
  then show ?thesis using chain [of ns] by (simp add: is_cycle_def)
qed

lemma findCycles_iff: "(\<exists>cs. findCycles deps = Some cs \<and> cs \<noteq> []) \<longleftrightarrow> \<not> acyclic (edges deps)"
proof -
  obtain cs where cs: "findCycles deps = Some cs" "\<forall>c\<in>set cs. \<exists>ns. c = cycle_message ns \<and> is_cycle deps ns"
      "cs = [] \<longrightarrow> acyclic (edges deps)"
    using findCycles_ok by blast
  have "\<not> acyclic (edges deps)" if "cs \<noteq> []"
  proof -
    from that cs(2) obtain ns where "is_cycle deps ns" by (cases cs) auto
    then show ?thesis using cycle_in_edges by (auto simp: acyclic_def)
  qed
  with cs show ?thesis by auto
qed

end
