(* ===== verification/ValidationProps.thy ===== *)
theory ValidationProps
  imports CycleFacts
begin

text \<open>What the document validators promise.\<close>

lemma findDanglingRefs_Nil:
  assumes "map_wf deps"
  shows "findDanglingRefs deps = [] \<longleftrightarrow>
    {(u, v). v \<in> set (successors deps u) \<and> \<not> map_has deps v} = {}"
proof -
  have get: "(u, ds) \<in> set deps \<longleftrightarrow> map_get deps u = Some ds" for u ds
    using assms by (simp add: map_get_def map_wf_def)
  have "findDanglingRefs deps = [] \<longleftrightarrow> (\<forall>u ds. (u, ds) \<in> set deps \<longrightarrow> (\<forall>v\<in>set ds. map_has deps v))"
    by (auto simp: findDanglingRefs_def filter_empty_conv)
  also have "\<dots> \<longleftrightarrow> (\<forall>u. \<forall>v\<in>set (successors deps u). map_has deps v)"
  proof -
    have "(\<forall>v\<in>set (successors deps u). map_has deps v)
        \<longleftrightarrow> (\<forall>ds. map_get deps u = Some ds \<longrightarrow> (\<forall>v\<in>set ds. map_has deps v))" for u
      by (cases "map_get deps u") (simp_all add: successors_def)
    then show ?thesis by (simp add: get)
  qed
  finally show ?thesis by auto
qed

lemma extractTaskDeps_wf: "map_wf (extractTaskDeps md)"
proof -
  have "map_wf (foldl (\<lambda>m b. map_set (tb_taskId b) (block_deps (block b)) m) m bs)" if "map_wf m" for m bs
    using that by (induction bs arbitrary: m) auto
  from this [of "[]"] show ?thesis by (simp add: extractTaskDeps_def)
qed

lemma no_edges_Nil: "edges [] = {}"
  by (auto simp: edges_def edge_def map_has_def)

text \<open>
  C30. \<open>validateTaskDependencies\<close> always returns, and it accepts a document exactly if the
  graph of its \<open>Depends\<close> lines has no cycle and no reference to a task that is not there.
\<close>

theorem dependencies_valid_iff:
  "\<exists>r. validateTaskDependencies md = Some r
     \<and> (valid r \<longleftrightarrow> acyclic (edges (extractTaskDeps md))
         \<and> {(u, v). v \<in> set (successors (extractTaskDeps md) u)
                   \<and> \<not> map_has (extractTaskDeps md) v} = {})"
proof (cases "extractTaskDeps md = []")
  case True
  then show ?thesis
    by (simp add: validateTaskDependencies_def no_edges_Nil acyclic_def successors_def)
next
  case False
  obtain cs where cs: "findCycles (extractTaskDeps md) = Some cs" using findCycles_ok by blast
  then have "cs = [] \<longleftrightarrow> acyclic (edges (extractTaskDeps md))"
    using findCycles_iff [of "extractTaskDeps md"] by auto
  then show ?thesis
    using False cs findDanglingRefs_Nil [OF extractTaskDeps_wf]
    by (simp add: validateTaskDependencies_def Let_def)
qed

text \<open>
  Every cycle named in the result is a cycle of the dependency graph: a chain of tasks,
  each depending on the next, that ends where it began.
\<close>

theorem reported_cycles_real:
  assumes "validateTaskDependencies md = Some r" and "details r = Some d" and "d_cycles d = Some cs"
    and "c \<in> set cs"
  shows "\<exists>ns. c = cycle_message ns \<and> is_cycle (extractTaskDeps md) ns"
proof -
  let ?deps = "extractTaskDeps md"
  obtain xs where xs: "findCycles ?deps = Some xs" "\<forall>c\<in>set xs. \<exists>ns. c = cycle_message ns \<and> is_cycle ?deps ns"
    using findCycles_ok by blast
  have "d_cycles d = some_if_any xs"
    using assms(1,2) xs(1) by (auto simp: validateTaskDependencies_def Let_def split: if_splits)
  then have "cs = xs" using assms(3) by (simp add: some_if_any_def split: if_splits)
  then show ?thesis using xs(2) assms(4) by blast
qed

definition cyclic_doc :: string where
  "cyclic_doc = join_with [nl]
     [''#### Task 1.1: A'', ''**Depends:** Task 1.2'', ''#### Task 1.2: B'', ''**Depends:** Task 1.1'']"

lemma cyclic_doc_deps: "extractTaskDeps cyclic_doc = [(''1.1'', [''1.2'']), (''1.2'', [''1.1''])]"
  by code_simp

lemma cyclic_doc_cycles:
  "findCycles [(''1.1'', [''1.2'']), (''1.2'', [''1.1''])] = Some [cycle_message [''1.1'', ''1.2'', ''1.1'']]"
  by code_simp

lemma cyclic_doc_refs: "findDanglingRefs [(''1.1'', [''1.2'']), (''1.2'', [''1.1''])] = []"
  by (simp add: findDanglingRefs_def map_has_def)

theorem reported_cycles_real_witness:
  "\<exists>r d. validateTaskDependencies cyclic_doc = Some r \<and> details r = Some d
     \<and> d_cycles d = Some [cycle_message [''1.1'', ''1.2'', ''1.1'']]
     \<and> (\<exists>ns. cycle_message [''1.1'', ''1.2'', ''1.1''] = cycle_message ns
            \<and> is_cycle (extractTaskDeps cyclic_doc) ns)"
proof -
  obtain r where r: "validateTaskDependencies cyclic_doc = Some r"
      "details r = Some \<lparr>d_cycles = Some [cycle_message [''1.1'', ''1.2'', ''1.1'']], d_danglingRefs = None\<rparr>"
    by (simp add: validateTaskDependencies_def cyclic_doc_deps cyclic_doc_cycles cyclic_doc_refs some_if_any_def)
  then show ?thesis using reported_cycles_real [OF r] by simp
qed

section \<open>Task blocks\<close>

definition open_ids :: "block_scan \<Rightarrow> string list" where
  "open_ids s = map tb_taskId (taskBlocks s) @ (case current s of None \<Rightarrow> [] | Some (i, _) \<Rightarrow> [i])"

lemma finalize_ids: "map tb_taskId (taskBlocks (finalizeBlock s)) = open_ids s"
    "current (finalizeBlock s) = None"
  by (simp_all add: finalizeBlock_def open_ids_def split: option.splits prod.splits)

lemma block_step_ids:
  "open_ids (block_step s line) = open_ids s @ (case heading_id line of None \<Rightarrow> [] | Some i \<Rightarrow> [i])"
  using finalize_ids [of s]
  by (auto simp: block_step_def open_ids_def split: option.splits prod.splits)

lemma block_steps_ids: "open_ids (foldl block_step s ls) = open_ids s @ List.map_filter heading_id ls"
  by (induction ls arbitrary: s) (simp_all add: block_step_ids map_filter_simps split: option.splits)

text \<open>
  \<open>parseTaskBlocks\<close> yields one block per task heading line, in the order of the
  document: no heading is lost, merged or invented, whatever stands between them.
\<close>

theorem task_block_ids:
  "map tb_taskId (parseTaskBlocks md) = List.map_filter heading_id (split_char nl md)"
  by (simp add: parseTaskBlocks_def finalize_ids block_steps_ids)
     (simp add: open_ids_def)

definition lane_doc :: string where
  "lane_doc = join_with [nl] [''type: blueprint'', ''#### [ui] Task 1.1: A'', ''No sections.'']"

text \<open>
  The validators read no task heading with a lane prefix: a blueprint whose task
  \<open>#### [ui] Task 1.1:\<close> has neither required section passes, although the header
  of task-sections.ts names that form and the blueprint parser finds the task.
\<close>

theorem lane_task_unchecked:
  "validateTaskSections lane_doc None = all_valid \<and> parseTaskBlocks lane_doc = []
   \<and> map (\<lambda>m. group m 1) (match_all taskRegex lane_doc) = [Some ''1.1'']"
  by code_simp

section \<open>State against folder\<close>

text \<open>
  With a file path, a plan with a known status is consistent exactly if each of the
  three folder names stands in the path precisely for its status, a completed plan has all
  criteria checked and a draft none.
\<close>

theorem plan_state_valid_iff:
  assumes "stated_status md = Some (status_str st)" and "p \<noteq> []"
  shows "valid (validatePlanState md (Some p)) \<longleftrightarrow>
    (in_folder p ''completed'' \<longleftrightarrow> st = Completed) \<and> (in_folder p ''draft'' \<longleftrightarrow> st = Draft)
    \<and> (in_folder p ''parked'' \<longleftrightarrow> st = Parked)
    \<and> (st = Completed \<longrightarrow> cr_checked (checkAcceptanceCriteria md) = cr_total (checkAcceptanceCriteria md))
    \<and> (st = Draft \<longrightarrow> cr_checked (checkAcceptanceCriteria md) = 0)"
proof -
  have ne: "status_str st \<noteq> []" by (cases st) simp_all
  have parse: "parseLifecycleBlueprintStatus (status_str st) = Some st"
    by (simp add: parse_status_iff)
  have all: "allChecked (checkAcceptanceCriteria md) \<longleftrightarrow>
      cr_checked (checkAcceptanceCriteria md) = cr_total (checkAcceptanceCriteria md)"
    by (auto simp: checkAcceptanceCriteria_def Let_def)
  have "validatePlanState md (Some p) = validateStateWithPath st p (checkAcceptanceCriteria md)"
    using assms ne by (simp add: validatePlanState_def parse)
  then show ?thesis
    using all
    by (cases st; cases "in_folder p ''completed''"; cases "in_folder p ''draft''";
        cases "in_folder p ''parked''")
       (simp_all add: validateStateWithPath_def validateCompletedFolder_def validateDraftFolder_def
          validateParkedFolder_def)
qed

definition stated_planned :: string where
  "stated_planned = ''status: planned''"

theorem plan_state_valid_iff_witness:
  "stated_status stated_planned = Some (status_str Planned)
   \<and> \<not> valid (validatePlanState stated_planned (Some ''completed/a.md''))"
proof -
  have s: "stated_status stated_planned = Some (status_str Planned)" by code_simp
  have "in_folder ''completed/a.md'' ''completed''" by code_simp
  then show ?thesis using plan_state_valid_iff [OF s, of "''completed/a.md''"] s by simp
qed

text \<open>
  The folder test looks for the folder name anywhere in the path, so a planned blueprint
  whose slug ends in \<open>-draft\<close> is reported as standing in the draft folder.
\<close>

theorem draft_slug_rejected:
  "validatePlanState stated_planned (Some ''webpresso/blueprints/planned/first-draft/_overview.md'')
   = invalid ''Plan is in draft/ folder but has status: planned (expected status: draft)''"
  by code_simp

end
