(* ===== verification/Conflict.thy ===== *)
theory Conflict
  imports Prelude
begin

text \<open>
  The last-write-wins conflict resolver, \<open>src/blueprint/utils/conflict.ts\<close>.  A time is
  the integer of \<open>getTime()\<close>; \<open>clock n\<close> is the time at which the entry number \<open>n\<close> of the
  audit log is written.
\<close>

record write_info =
  w_content :: string
  w_timestamp :: int
  w_author :: string

record conflict_info =
  cf_filePath :: string
  writes :: "write_info list"

record resolved_conflict =
  rc_filePath :: string
  winningContent :: string
  winningAuthor :: string
  winningTimestamp :: int
  losingWrites :: "write_info list"

record conflict_resolution =
  resolved :: "resolved_conflict list"
  totalConflicts :: nat
  resolvedCount :: nat

record audit_entry =
  ae_timestamp :: int
  ae_filePath :: string
  winner :: write_info
  losers :: "write_info list"
  reason :: string
  ae_projectId :: "string option"

record resolver =
  auditLog :: "audit_entry list"
  projectId :: "string option"

definition createConflictResolver :: "string option \<Rightarrow> resolver" where
  "createConflictResolver projId = \<lparr>auditLog = [], projectId = projId\<rparr>"

text \<open>\<open>(a, b) => b.timestamp.getTime() - a.timestamp.getTime()\<close>\<close>

definition newest_first :: "write_info \<Rightarrow> write_info \<Rightarrow> int" where
  "newest_first a b = w_timestamp b - w_timestamp a"

interpretation newest: comparator newest_first
  by unfold_locales (auto simp: newest_first_def)

definition resolveSingleConflict :: "conflict_info \<Rightarrow> resolved_conflict option" where
  "resolveSingleConflict c =
     (case js_sort newest_first (writes c) of [] \<Rightarrow> None
      | w # ls \<Rightarrow> Some \<lparr>rc_filePath = cf_filePath c, winningContent = w_content w,
          winningAuthor = w_author w, winningTimestamp = w_timestamp w, losingWrites = ls\<rparr>)"

definition winning_write :: "resolved_conflict \<Rightarrow> write_info" where
  "winning_write r =
     \<lparr>w_content = winningContent r, w_timestamp = winningTimestamp r, w_author = winningAuthor r\<rparr>"

definition recordAuditEntry :: "int \<Rightarrow> string \<Rightarrow> resolved_conflict \<Rightarrow> resolver \<Rightarrow> resolver" where
  "recordAuditEntry now path r s =
     s\<lparr>auditLog := auditLog s @
        [\<lparr>ae_timestamp = now, ae_filePath = path, winner = winning_write r, losers = losingWrites r,
          reason = ''last-write-wins: timestamp comparison'',
          ae_projectId = (if truthy (projectId s) then projectId s else None)\<rparr>]\<rparr>"

fun resolve_loop :: "(nat \<Rightarrow> int) \<Rightarrow> conflict_info list \<Rightarrow> resolved_conflict list \<Rightarrow> resolver
    \<Rightarrow> resolved_conflict list \<times> resolver" where
  "resolve_loop clock [] acc s = (acc, s)"
| "resolve_loop clock (c # cs) acc s =
     (case resolveSingleConflict c of
        None \<Rightarrow> resolve_loop clock cs acc s
      | Some r \<Rightarrow> resolve_loop clock cs (acc @ [r])
                    (recordAuditEntry (clock (length (auditLog s))) (cf_filePath c) r s))"

definition resolve :: "(nat \<Rightarrow> int) \<Rightarrow> conflict_info list \<Rightarrow> resolver \<Rightarrow> conflict_resolution \<times> resolver" where
  "resolve clock conflicts s =
     (case resolve_loop clock conflicts [] s of
        (rs, s') \<Rightarrow> (\<lparr>resolved = rs, totalConflicts = length conflicts, resolvedCount = length rs\<rparr>, s'))"

definition getAuditLog :: "resolver \<Rightarrow> audit_entry list" where
  "getAuditLog s = auditLog s"

definition clearAuditLog :: "resolver \<Rightarrow> resolver" where
  "clearAuditLog s = s\<lparr>auditLog := []\<rparr>"

section \<open>Lemmas\<close>

lemma winning_write_of:
  "resolveSingleConflict c = Some r \<longleftrightarrow>
    (\<exists>w ls. js_sort newest_first (writes c) = w # ls \<and> winning_write r = w \<and> losingWrites r = ls
       \<and> rc_filePath r = cf_filePath c)"
  by (cases "js_sort newest_first (writes c)"; cases r)
     (auto simp: resolveSingleConflict_def winning_write_def)

lemma find_filter: "filter P xs = y # ys \<Longrightarrow> find P xs = Some y"
  by (induction xs) (auto split: if_splits)

lemma resolve_loop_spec:
  "resolve_loop clock cs acc s = (rs, s') \<Longrightarrow>
    rs = acc @ List.map_filter resolveSingleConflict cs
    \<and> projectId s' = projectId s
    \<and> (\<exists>new. auditLog s' = auditLog s @ new \<and> map winner new = map winning_write (drop (length acc) rs)
         \<and> map losers new = map losingWrites (drop (length acc) rs)
         \<and> map ae_filePath new = map rc_filePath (drop (length acc) rs))"
proof (induction cs arbitrary: acc s)
  case (Cons c cs)
  show ?case
  proof (cases "resolveSingleConflict c")
    case None
    then show ?thesis using Cons by (simp add:)
  next
    case (Some r)
    let ?s = "recordAuditEntry (clock (length (auditLog s))) (cf_filePath c) r s"
    from Cons.prems Some have "resolve_loop clock cs (acc @ [r]) ?s = (rs, s')" by simp
    from Cons.IH [OF this] obtain new where
      "rs = acc @ r # List.map_filter resolveSingleConflict cs" "projectId s' = projectId s"
      "auditLog s' = auditLog ?s @ new" "map winner new = map winning_write (drop (Suc (length acc)) rs)"
      "map losers new = map losingWrites (drop (Suc (length acc)) rs)"
      "map ae_filePath new = map rc_filePath (drop (Suc (length acc)) rs)"
      by (auto simp: recordAuditEntry_def)
    moreover have "rc_filePath r = cf_filePath c" using Some by (auto simp: winning_write_of)
    ultimately show ?thesis
      using Some by (auto simp: recordAuditEntry_def)
  qed
qed (simp add:)

section \<open>What the resolver promises\<close>

text \<open>
  The write that wins a conflict is at least as new as every other one and, among the
  newest, the first of the input; the losers are exactly the remaining writes, newest first.
\<close>

theorem last_write_wins:
  assumes "resolveSingleConflict c = Some r"
  shows "add_mset (winning_write r) (mset (losingWrites r)) = mset (writes c)
    \<and> (\<forall>w\<in>set (writes c). w_timestamp w \<le> w_timestamp (winning_write r))
    \<and> find (\<lambda>w. w_timestamp w = w_timestamp (winning_write r)) (writes c) = Some (winning_write r)
    \<and> sorted_wrt (\<lambda>a b. w_timestamp b \<le> w_timestamp a) (losingWrites r)"
proof -
  let ?w = "winning_write r" and ?p = "\<lambda>w. w_timestamp w = w_timestamp (winning_write r)"
  have sort: "js_sort newest_first (writes c) = ?w # losingWrites r"
    using assms by (auto simp: winning_write_of)
  have "add_mset ?w (mset (losingWrites r)) = mset (writes c)"
    using mset_js_sort [of newest_first "writes c"] sort by simp
  moreover have "\<forall>w\<in>set (writes c). w_timestamp w \<le> w_timestamp ?w"
    using newest.sort_head_least [OF sort] by (simp add: newest_first_def)
  moreover have "filter ?p (writes c) = ?w # filter ?p (losingWrites r)"
    using newest.sort_stable [of ?p "writes c"] sort by (simp add: newest_first_def)
  then have "find ?p (writes c) = Some ?w" by (rule find_filter)
  moreover have "sorted_wrt (\<lambda>a b. w_timestamp b \<le> w_timestamp a) (losingWrites r)"
    using newest.sorted_sort [of "writes c"] sort by (simp add: newest_first_def)
  ultimately show ?thesis by blast
qed

definition sample_conflict :: conflict_info where
  "sample_conflict = \<lparr>cf_filePath = ''a.md'', writes =
     [\<lparr>w_content = ''x'', w_timestamp = 1, w_author = ''p''\<rparr>,
      \<lparr>w_content = ''y'', w_timestamp = 5, w_author = ''q''\<rparr>,
      \<lparr>w_content = ''z'', w_timestamp = 5, w_author = ''r''\<rparr>]\<rparr>"

theorem last_write_wins_witness:
  "\<exists>r. resolveSingleConflict sample_conflict = Some r
     \<and> winning_write r = \<lparr>w_content = ''y'', w_timestamp = 5, w_author = ''q''\<rparr>
     \<and> (\<forall>w\<in>set (writes sample_conflict). w_timestamp w \<le> w_timestamp (winning_write r))"
proof -
  obtain r where r: "resolveSingleConflict sample_conflict = Some r"
      "winning_write r = \<lparr>w_content = ''y'', w_timestamp = 5, w_author = ''q''\<rparr>"
    by (simp add: resolveSingleConflict_def sample_conflict_def newest_first_def winning_write_def)
  then show ?thesis using last_write_wins [OF r(1)] by blast
qed

text \<open>
  Resolving appends to the audit log exactly one entry for every conflict it resolves, in
  order, with the same file, winner and losers, and touches no earlier entry; the counts of
  the result are those of its lists, and only conflicts without writes are left out.
\<close>

theorem resolution_audited:
  assumes "resolve clock conflicts s = (res, s')"
  shows "resolved res = List.map_filter resolveSingleConflict conflicts
    \<and> resolvedCount res = length (filter (\<lambda>c. writes c \<noteq> []) conflicts)
    \<and> totalConflicts res = length conflicts
    \<and> (\<exists>new. getAuditLog s' = getAuditLog s @ new
        \<and> map winner new = map winning_write (resolved res)
        \<and> map losers new = map losingWrites (resolved res)
        \<and> map ae_filePath new = map rc_filePath (resolved res))"
proof -
  obtain rs where loop: "resolve_loop clock conflicts [] s = (rs, s')"
      and res: "res = \<lparr>resolved = rs, totalConflicts = length conflicts, resolvedCount = length rs\<rparr>"
    using assms by (auto simp: resolve_def split: prod.splits)
  have none: "resolveSingleConflict c = None \<longleftrightarrow> writes c = []" for c
    using js_sort_Nil_iff [of newest_first "writes c"]
    by (cases "js_sort newest_first (writes c)") (auto simp: resolveSingleConflict_def)
  have "length (List.map_filter resolveSingleConflict cs) = length (filter (\<lambda>c. writes c \<noteq> []) cs)" for cs
    by (induction cs) (auto simp: none [symmetric])
  then show ?thesis
    using resolve_loop_spec [OF loop] res by (auto simp: getAuditLog_def)
qed

theorem resolution_audited_witness:
  "resolvedCount (fst (resolve (\<lambda>_. 9) [sample_conflict, sample_conflict\<lparr>writes := []\<rparr>]
     (createConflictResolver None))) = 1"
  using resolution_audited [OF surjective_pairing, of "\<lambda>_. 9"
      "[sample_conflict, sample_conflict\<lparr>writes := []\<rparr>]" "createConflictResolver None"]
  by (simp add: sample_conflict_def)

end
