(* ===== verification/ReleaseOrder.thy ===== *)
theory ReleaseOrder
  imports Prelude
begin

text \<open>
  The release order of the workspace packages, \<open>src/build/workspace-release-order.ts\<close>:
  packages are taken as soon as their local dependencies are, in name order among the ready
  ones, and a cycle is an error.  \<open>lc\<close> is \<open>localeCompare\<close>.
\<close>

record release_package =
  rp_name :: string
  workspaceDependencies :: "string list"

type_synonym name_sets = "(string, string list) js_map"

definition byName :: "release_package list \<Rightarrow> (string, release_package) js_map" where
  "byName packages = map_from (map (\<lambda>p. (rp_name p, p)) packages)"

definition no_names :: "release_package list \<Rightarrow> name_sets" where
  "no_names packages = foldl (\<lambda>m p. map_set (rp_name p) [] m) [] packages"

text \<open>\<open>m.get(k)?.add(v)\<close>\<close>

definition add_to :: "string \<Rightarrow> string \<Rightarrow> name_sets \<Rightarrow> name_sets" where
  "add_to k v m = (case map_get m k of None \<Rightarrow> m | Some s \<Rightarrow> map_set k (set_add v s) m)"

text \<open>The pairs (package, local dependency) in the order of the two nested loops.\<close>

definition local_links :: "release_package list \<Rightarrow> (string \<times> string) list" where
  "local_links packages =
     concat (map (\<lambda>p. map (\<lambda>d. (rp_name p, d))
               (filter (\<lambda>d. map_has (byName packages) d \<and> d \<noteq> rp_name p) (workspaceDependencies p)))
             packages)"

definition incoming_of :: "release_package list \<Rightarrow> name_sets" where
  "incoming_of packages = foldl (\<lambda>m (n, d). add_to n d m) (no_names packages) (local_links packages)"

definition outgoing_of :: "release_package list \<Rightarrow> name_sets" where
  "outgoing_of packages = foldl (\<lambda>m (n, d). add_to d n m) (no_names packages) (local_links packages)"

definition names_at :: "name_sets \<Rightarrow> string \<Rightarrow> string list" where
  "names_at m k = (case map_get m k of None \<Rightarrow> [] | Some s \<Rightarrow> s)"

text \<open>
  The loop over the dependents of \<open>name\<close>: the incoming sets and the names it makes ready.
\<close>

fun release_deps :: "string \<Rightarrow> string list \<Rightarrow> name_sets \<Rightarrow> string list \<Rightarrow> name_sets \<times> string list" where
  "release_deps name [] incoming ready = (incoming, ready)"
| "release_deps name (d # ds) incoming ready =
     (let incoming' = (case map_get incoming d of None \<Rightarrow> incoming
                       | Some s \<Rightarrow> map_set d (filter (\<lambda>x. x \<noteq> name) s) incoming)
      in release_deps name ds incoming'
           (if names_at incoming' d = [] then ready @ [d] else ready))"

text \<open>The \<open>while\<close> loop; a run that does not end has the value \<open>None\<close>.\<close>

partial_function (option) release_loop ::
  "(string \<Rightarrow> string \<Rightarrow> int) \<Rightarrow> release_package list \<Rightarrow> name_sets \<Rightarrow> string list
    \<Rightarrow> release_package list \<Rightarrow> release_package list option" where
  [code]: "release_loop lc packages incoming ready ordered =
     (case ready of [] \<Rightarrow> Some ordered
      | name # later \<Rightarrow>
          if name = [] then Some ordered
          else (case map_get (byName packages) name of
             None \<Rightarrow> release_loop lc packages incoming later ordered
           | Some pkg \<Rightarrow>
               (case release_deps name (js_sort lc (names_at (outgoing_of packages) name)) incoming later of
                  (incoming', ready') \<Rightarrow>
                    release_loop lc packages incoming' (js_sort lc ready') (ordered @ [pkg]))))"

definition orderWorkspacePackagesForRelease ::
  "(string \<Rightarrow> string \<Rightarrow> int) \<Rightarrow> release_package list \<Rightarrow> release_package list throws option" where
  "orderWorkspacePackagesForRelease lc packages =
     map_option (\<lambda>ordered.
         if length ordered \<noteq> length packages then
           Inl (''workspace release package graph contains a cycle or unresolved local dependency: ''
                @ join_with '', '' (js_sort lc
                    (filter (\<lambda>n. \<not> list_ex (\<lambda>p. rp_name p = n) ordered) (map rp_name packages))))
         else Inr ordered)
       (release_loop lc packages (incoming_of packages)
         (js_sort lc (map rp_name
           (filter (\<lambda>p. names_at (incoming_of packages) (rp_name p) = []) packages))) [])"

section \<open>The maps the loop works on\<close>

text \<open>The packages have distinct, non-empty names.\<close>

definition well_named :: "release_package list \<Rightarrow> bool" where
  "well_named packages \<longleftrightarrow> distinct (map rp_name packages) \<and> [] \<notin> rp_name ` set packages"

definition names :: "release_package list \<Rightarrow> string set" where
  "names packages = rp_name ` set packages"

text \<open>\<open>needs packages n d\<close>: the package named \<open>n\<close> depends on the other local package \<open>d\<close>.\<close>

definition needs :: "release_package list \<Rightarrow> (string \<times> string) set" where
  "needs packages =
     {(rp_name p, d) | p d. p \<in> set packages \<and> d \<in> set (workspaceDependencies p)
        \<and> d \<in> names packages \<and> d \<noteq> rp_name p}"

lemma byName_get: "map_get (byName packages) n = None \<longleftrightarrow> n \<notin> names packages"
    "map_get (byName packages) n = Some p \<Longrightarrow> p \<in> set packages \<and> rp_name p = n"
proof -
  show "map_get (byName packages) n = None \<longleftrightarrow> n \<notin> names packages"
    by (simp add: byName_def map_get_from map_of_eq_None_iff names_def image_image)
  assume "map_get (byName packages) n = Some p"
  then show "p \<in> set packages \<and> rp_name p = n"
    by (auto simp: byName_def map_get_from dest!: map_of_SomeD)
qed

lemma no_names_get: "map_get (no_names packages) n = (if n \<in> names packages then Some [] else None)"
proof -
  have "map_get (foldl (\<lambda>m p. map_set (rp_name p) [] m) m ps) n
      = (if n \<in> names ps then Some [] else map_get m n)" for m :: name_sets and ps
    by (induction ps arbitrary: m) (auto simp: names_def)
  then show ?thesis by (simp add: no_names_def)
qed

lemma add_to_get [simp]:
  "map_get (add_to k v m) n = (if n = k then map_option (set_add v) (map_get m k) else map_get m n)"
  by (simp add: add_to_def split: option.split)

lemma local_links_set: "set (local_links packages) = needs packages"
  by (auto simp: local_links_def needs_def map_has_iff byName_get(1))

lemma names_at_add_to:
  "map_has m k \<Longrightarrow> names_at (add_to k v m) n = (if n = k then set_add v (names_at m k) else names_at m n)"
  by (auto simp: names_at_def map_has_iff)

lemma add_to_has [simp]: "map_has (add_to k v m) n \<longleftrightarrow> map_has m n"
  by (simp add: map_has_iff)

text \<open>Collecting links into sets, for the incoming and the outgoing direction alike.\<close>

definition collect :: "('l \<Rightarrow> string) \<Rightarrow> ('l \<Rightarrow> string) \<Rightarrow> 'l list \<Rightarrow> name_sets \<Rightarrow> name_sets" where
  "collect key val ls m = foldl (\<lambda>m l. add_to (key l) (val l) m) m ls"

lemma collect_simps [simp]:
  "collect key val [] m = m" "collect key val (l # ls) m = collect key val ls (add_to (key l) (val l) m)"
  by (simp_all add: collect_def)

lemma collect_has [simp]: "map_has (collect key val ls m) n \<longleftrightarrow> map_has m n"
  by (induction ls arbitrary: m) simp_all

lemma collect_at:
  "\<forall>l\<in>set ls. map_has m (key l) \<Longrightarrow>
    set (names_at (collect key val ls m) n) = set (names_at m n) \<union> val ` {l \<in> set ls. key l = n}"
  by (induction ls arbitrary: m) (auto simp: names_at_add_to)

lemma add_to_distinct:
  "map_has m k \<Longrightarrow> distinct (names_at m n) \<Longrightarrow> distinct (names_at (add_to k v m) n)"
  by (auto simp: names_at_add_to)

lemma collect_distinct:
  "\<forall>l\<in>set ls. map_has m (key l) \<Longrightarrow> distinct (names_at m n) \<Longrightarrow> distinct (names_at (collect key val ls m) n)"
  by (induction ls arbitrary: m) (simp_all add: add_to_distinct)

lemma no_names_at [simp]: "names_at (no_names packages) n = []"
  by (simp add: names_at_def no_names_get)

lemma no_names_has [simp]: "map_has (no_names packages) n \<longleftrightarrow> n \<in> names packages"
  by (simp add: map_has_iff no_names_get)

lemma needs_names: "(n, d) \<in> needs packages \<Longrightarrow> n \<in> names packages \<and> d \<in> names packages"
  by (auto simp: needs_def names_def)

lemma incoming_of_spec:
  "set (names_at (incoming_of packages) n) = {d. (n, d) \<in> needs packages}"
  "map_has (incoming_of packages) n \<longleftrightarrow> n \<in> names packages"
proof -
  have eq: "incoming_of packages = collect fst snd (local_links packages) (no_names packages)"
    by (simp add: incoming_of_def collect_def case_prod_unfold)
  show "map_has (incoming_of packages) n \<longleftrightarrow> n \<in> names packages" by (simp add: eq)
  have "set (names_at (incoming_of packages) n) = snd ` {l \<in> needs packages. fst l = n}"
    unfolding eq by (subst collect_at) (auto simp: local_links_set dest: needs_names)
  also have "\<dots> = {d. (n, d) \<in> needs packages}" by force
  finally show "set (names_at (incoming_of packages) n) = \<dots>" .
qed

lemma outgoing_of_spec:
  "set (names_at (outgoing_of packages) d) = {n. (n, d) \<in> needs packages}"
  "distinct (names_at (outgoing_of packages) d)"
proof -
  have eq: "outgoing_of packages = collect snd fst (local_links packages) (no_names packages)"
    by (simp add: outgoing_of_def collect_def case_prod_unfold)
  show "distinct (names_at (outgoing_of packages) d)"
    unfolding eq by (intro collect_distinct) (auto simp: local_links_set dest: needs_names)
  have "set (names_at (outgoing_of packages) d) = fst ` {l \<in> needs packages. snd l = d}"
    unfolding eq by (subst collect_at) (auto simp: local_links_set dest: needs_names)
  also have "\<dots> = {n. (n, d) \<in> needs packages}" by force
  finally show "set (names_at (outgoing_of packages) d) = \<dots>" .
qed

section \<open>The loop\<close>

lemma release_deps_spec:
  assumes "distinct ds" and "\<forall>d\<in>set ds. map_has incoming d"
  shows "release_deps name ds incoming ready = (incoming', ready') \<Longrightarrow>
    (\<forall>n. names_at incoming' n =
       (if n \<in> set ds then filter (\<lambda>x. x \<noteq> name) (names_at incoming n) else names_at incoming n))
    \<and> (\<forall>n. map_has incoming' n \<longleftrightarrow> map_has incoming n)
    \<and> ready' = ready @ filter (\<lambda>d. set (names_at incoming d) \<subseteq> {name}) ds"
  using assms
proof (induction ds arbitrary: incoming ready)
  case (Cons d ds)
  define inc where "inc = map_set d (filter (\<lambda>x. x \<noteq> name) (names_at incoming d)) incoming"
  have at: "names_at inc n = (if n = d then filter (\<lambda>x. x \<noteq> name) (names_at incoming d)
      else names_at incoming n)" for n
    by (simp add: inc_def names_at_def)
  have has: "map_has inc n \<longleftrightarrow> map_has incoming n" for n
    using Cons.prems(3) by (auto simp: inc_def)
  have "release_deps name ds inc (if names_at inc d = [] then ready @ [d] else ready) = (incoming', ready')"
    using Cons.prems(1,3) by (auto simp: inc_def names_at_def map_has_iff Let_def split: option.splits)
  from Cons.IH [OF this] Cons.prems(2,3)
  have IH: "\<forall>n. names_at incoming' n =
       (if n \<in> set ds then filter (\<lambda>x. x \<noteq> name) (names_at inc n) else names_at inc n)"
    "\<forall>n. map_has incoming' n \<longleftrightarrow> map_has inc n"
    "ready' = (if names_at inc d = [] then ready @ [d] else ready)
       @ filter (\<lambda>d. set (names_at inc d) \<subseteq> {name}) ds"
    by (simp_all add: has)
  have "filter (\<lambda>d. set (names_at inc d) \<subseteq> {name}) ds
      = filter (\<lambda>d. set (names_at incoming d) \<subseteq> {name}) ds"
    using Cons.prems(2) by (intro filter_cong) (auto simp: at)
  moreover have "names_at inc d = [] \<longleftrightarrow> set (names_at incoming d) \<subseteq> {name}"
    by (auto simp: at filter_empty_conv)
  ultimately show ?case using IH Cons.prems(2) by (auto simp: at has)
qed simp

text \<open>What holds at the head of the \<open>while\<close> loop.\<close>

definition deps_first :: "release_package list \<Rightarrow> release_package list \<Rightarrow> bool" where
  "deps_first packages ordered \<longleftrightarrow>
     (\<forall>xs p ys. ordered = xs @ p # ys \<longrightarrow> needs packages `` {rp_name p} \<subseteq> names xs)"

definition loop_inv :: "release_package list \<Rightarrow> name_sets \<Rightarrow> string list \<Rightarrow> release_package list \<Rightarrow> bool" where
  "loop_inv packages incoming ready ordered \<longleftrightarrow>
     distinct (map rp_name ordered) \<and> distinct ready \<and> set ordered \<subseteq> set packages
     \<and> (\<forall>n. map_has incoming n \<longleftrightarrow> n \<in> names packages)
     \<and> (\<forall>n. set (names_at incoming n) = needs packages `` {n} - names ordered)
     \<and> set ready = {n \<in> names packages - names ordered. needs packages `` {n} \<subseteq> names ordered}
     \<and> deps_first packages ordered"

lemma deps_first_snoc:
  "deps_first packages ordered \<Longrightarrow> needs packages `` {rp_name p} \<subseteq> names ordered \<Longrightarrow>
    deps_first packages (ordered @ [p])"
  by (auto simp: deps_first_def append_eq_append_conv2 Cons_eq_append_conv append_eq_Cons_conv)

lemma deps_first_done:
  assumes "deps_first packages ordered" and "n \<in> names ordered"
  shows "needs packages `` {n} \<subseteq> names ordered"
proof -
  obtain p where "p \<in> set ordered" "rp_name p = n" using assms(2) by (auto simp: names_def)
  then obtain xs ys where "ordered = xs @ p # ys" by (meson split_list)
  then show ?thesis using assms(1) \<open>rp_name p = n\<close> by (auto simp: deps_first_def names_def)
qed

lemma needs_irrefl: "(n, n) \<notin> needs packages"
  by (auto simp: needs_def)

lemma names_snoc [simp]: "names (ordered @ [p]) = insert (rp_name p) (names ordered)"
  by (simp add: names_def)

lemma loop_step:
  assumes inv: "loop_inv packages incoming (name # later) ordered"
    and pkg: "rp_name pkg = name" "pkg \<in> set packages"
    and step: "release_deps name (js_sort lc (names_at (outgoing_of packages) name)) incoming later
      = (incoming', ready')"
  shows "loop_inv packages incoming' (js_sort lc ready') (ordered @ [pkg])"
proof -
  let ?ds = "js_sort lc (names_at (outgoing_of packages) name)"
  have ds: "distinct ?ds" "set ?ds = {n. (n, name) \<in> needs packages}"
    using outgoing_of_spec [of packages name] by simp_all
  have name: "name \<notin> names ordered" "needs packages `` {name} \<subseteq> names ordered"
    using inv by (auto simp: loop_inv_def)
  have inc: "set (names_at incoming n) = needs packages `` {n} - names ordered" for n
    using inv by (simp add: loop_inv_def)
  have fresh: "d \<notin> names ordered \<and> d \<notin> set later" if "(d, name) \<in> needs packages" for d
    using that name(1) deps_first_done inv by (fastforce simp: loop_inv_def)
  have "\<forall>d\<in>set ?ds. map_has incoming d"
    using inv ds(2) by (auto simp: loop_inv_def dest: needs_names)
  note spec = release_deps_spec [OF ds(1) this step]
  then have r: "ready' = later @ filter (\<lambda>d. set (names_at incoming d) \<subseteq> {name}) ?ds" by blast
  have "distinct ready'"
    unfolding r using inv ds fresh by (auto simp: loop_inv_def)
  then have "distinct (js_sort lc ready')"
    by simp
  moreover have "set (names_at incoming' n) = needs packages `` {n} - names (ordered @ [pkg])" for n
    using spec ds(2) inc [of n] by (auto simp: pkg(1))
  moreover have "set ready' = {n \<in> names packages - names (ordered @ [pkg]).
      needs packages `` {n} \<subseteq> names (ordered @ [pkg])}"
  proof (intro equalityI subsetI)
    fix n assume "n \<in> set ready'"
    then consider "n \<in> set later" | "(n, name) \<in> needs packages" "needs packages `` {n} - names ordered \<subseteq> {name}"
      unfolding r using ds(2) inc by auto
    then show "n \<in> {n \<in> names packages - names (ordered @ [pkg]).
        needs packages `` {n} \<subseteq> names (ordered @ [pkg])}"
    proof cases
      case 1
      then show ?thesis using inv by (auto simp: loop_inv_def pkg(1))
    next
      case 2
      then show ?thesis using fresh [OF 2(1)] needs_names [OF 2(1)] needs_irrefl
        by (auto simp: pkg(1))
    qed
  next
    fix n assume n: "n \<in> {n \<in> names packages - names (ordered @ [pkg]).
        needs packages `` {n} \<subseteq> names (ordered @ [pkg])}"
    show "n \<in> set ready'"
    proof (cases "(n, name) \<in> needs packages")
      case True
      then show ?thesis unfolding r using n ds(2) inc by (auto simp: pkg(1))
    next
      case False
      then have "n \<in> set (name # later)"
        using n inv by (auto simp: loop_inv_def pkg(1))
      then show ?thesis unfolding r using n by (auto simp: pkg(1))
    qed
  qed
  ultimately show ?thesis
    using inv name spec pkg deps_first_snoc [of packages ordered pkg]
    by (auto simp: loop_inv_def names_def)
qed

lemma loop_ends:
  assumes "well_named packages" and "loop_inv packages incoming ready ordered"
  shows "\<exists>incoming' ordered'. release_loop lc packages incoming ready ordered = Some ordered'
    \<and> loop_inv packages incoming' [] ordered'"
  using assms(2)
proof (induction "card (names packages - names ordered)" arbitrary: incoming ready ordered rule: less_induct)
  case less
  show ?case
  proof (cases ready)
    case Nil
    then show ?thesis using less.prems by (subst release_loop.simps) auto
  next
    case (Cons name later)
    then have n: "name \<in> names packages" "name \<notin> names ordered"
      using less.prems by (auto simp: loop_inv_def)
    then have ne: "name \<noteq> []" using assms(1) unfolding well_named_def names_def by blast
    obtain pkg where pkg: "map_get (byName packages) name = Some pkg" "rp_name pkg = name" "pkg \<in> set packages"
      using n(1) byName_get [of packages name] by (cases "map_get (byName packages) name") auto
    obtain incoming' ready' where step:
      "release_deps name (js_sort lc (names_at (outgoing_of packages) name)) incoming later = (incoming', ready')"
      by fastforce
    have inv: "loop_inv packages incoming' (js_sort lc ready') (ordered @ [pkg])"
      using loop_step [OF _ pkg(2,3) step] less.prems Cons by simp
    have "card (names packages - names (ordered @ [pkg])) < card (names packages - names ordered)"
      using n pkg(2) by (intro psubset_card_mono) (auto simp: names_def)
    from less.hyps [OF this inv] show ?thesis
      by (subst release_loop.simps) (simp add: Cons ne pkg(1) step)
  qed
qed

section \<open>What the order promises\<close>

lemma start_inv:
  assumes "well_named packages"
  shows "loop_inv packages (incoming_of packages) (js_sort lc (map rp_name
      (filter (\<lambda>p. names_at (incoming_of packages) (rp_name p) = []) packages))) []"
proof -
  have "names_at (incoming_of packages) n = [] \<longleftrightarrow> needs packages `` {n} = {}" for n
    using incoming_of_spec(1) [of packages n] by (auto simp flip: set_empty)
  moreover have "distinct (map rp_name (filter P packages))" for P
    using assms by (simp add: well_named_def distinct_map_filter)
  ultimately show ?thesis
    using incoming_of_spec [of packages]
    by (auto simp: loop_inv_def deps_first_def names_def)
qed

lemma finite_needs: "finite (needs packages)"
  by (rule finite_subset [of _ "names packages \<times> names packages"])
     (auto simp: names_def dest: needs_names)

lemma all_done_acyclic:
  assumes "deps_first packages ordered" and "names packages \<subseteq> names ordered"
  shows "acyclic (needs packages)"
proof (rule acyclicI_order)
  fix n d assume nd: "(n, d) \<in> needs packages"
  let ?before = "\<lambda>n. takeWhile (\<lambda>p. rp_name p \<noteq> n) ordered"
  have "n \<in> names ordered" using needs_names [OF nd] assms(2) by blast
  then have "\<exists>p\<in>set ordered. rp_name p = n" unfolding names_def by blast
  then obtain p ys where "dropWhile (\<lambda>p. rp_name p \<noteq> n) ordered = p # ys"
    by (cases "dropWhile (\<lambda>p. rp_name p \<noteq> n) ordered") (auto simp: dropWhile_eq_Nil_conv)
  moreover from this have "rp_name p = n"
    using hd_dropWhile [of "\<lambda>p. rp_name p \<noteq> n" ordered] by simp
  moreover note takeWhile_dropWhile_id [of "\<lambda>p. rp_name p \<noteq> n" ordered]
  ultimately have "ordered = ?before n @ p # ys" "rp_name p = n" by auto
  moreover from this have "d \<in> names (?before n)"
    using assms(1) nd unfolding deps_first_def by (metis Image_singleton_iff subsetD)
  ultimately obtain q where q: "q \<in> set (?before n)" "rp_name q = d" by (auto simp: names_def)
  then obtain us vs where "?before n = us @ q # vs" by (meson split_list)
  then have "ordered = us @ q # vs @ p # ys" using \<open>ordered = ?before n @ p # ys\<close> by simp
  then have "length (?before d) \<le> length us" using q(2) by (simp add: takeWhile_tail length_takeWhile_le)
  then show "length (?before d) < length (?before n)"
    using \<open>?before n = us @ q # vs\<close> by simp
qed

lemma acyclic_all_done:
  assumes "acyclic (needs packages)" and "loop_inv packages incoming [] ordered"
  shows "names packages \<subseteq> names ordered"
proof (rule ccontr)
  assume "\<not> names packages \<subseteq> names ordered"
  then obtain n0 where "n0 \<in> names packages - names ordered" by blast
  have "wf ((needs packages)\<inverse>)"
    using finite_needs assms(1) by (rule finite_acyclic_wf_converse)
  from wfE_min [OF this \<open>n0 \<in> names packages - names ordered\<close>] obtain n where n: "n \<in> names packages - names ordered"
      "\<And>d. (d, n) \<in> (needs packages)\<inverse> \<Longrightarrow> d \<notin> names packages - names ordered"
    by blast
  then have "needs packages `` {n} \<subseteq> names ordered" by (auto dest: needs_names)
  then show False using n(1) assms(2) by (auto simp: loop_inv_def)
qed

lemma complete_iff:
  assumes "well_named packages" and "loop_inv packages incoming [] ordered"
  shows "length ordered = length packages \<longleftrightarrow> names packages \<subseteq> names ordered"
    and "length ordered = length packages \<Longrightarrow> mset ordered = mset packages"
proof -
  have sub: "set ordered \<subseteq> set packages" "distinct ordered" "distinct packages"
    using assms by (simp_all add: loop_inv_def well_named_def distinct_map)
  have inj: "inj_on rp_name (set packages)"
    using assms(1) by (simp add: well_named_def distinct_map)
  have len: "length ordered = card (set ordered)" "length packages = card (set packages)"
    using sub by (simp_all add: distinct_card)
  have eq: "length ordered = length packages \<longleftrightarrow> set ordered = set packages"
    using sub(1) len card_subset_eq [of "set packages" "set ordered"] by auto
  show "length ordered = length packages \<longleftrightarrow> names packages \<subseteq> names ordered"
  proof
    assume "names packages \<subseteq> names ordered"
    then have "set packages \<subseteq> set ordered"
    proof (intro subsetI)
      fix p assume p: "p \<in> set packages"
      have "rp_name p \<in> rp_name ` set ordered"
        using \<open>names packages \<subseteq> names ordered\<close> p unfolding names_def by blast
      then obtain q where "q \<in> set ordered" "rp_name q = rp_name p" by (metis imageE)
      then show "p \<in> set ordered" using inj_onD [OF inj, of q p] p sub(1) by auto
    qed
    then show "length ordered = length packages" using eq sub(1) by blast
  qed (simp add: eq names_def)
  assume "length ordered = length packages"
  then show "mset ordered = mset packages" using eq sub by (simp add: set_eq_iff_mset_eq_distinct)
qed

lemma release_run:
  assumes "well_named packages"
  obtains incoming ordered where "loop_inv packages incoming [] ordered"
    "\<exists>e. orderWorkspacePackagesForRelease lc packages
      = Some (if length ordered = length packages then Inr ordered else Inl e)"
  using loop_ends [OF assms start_inv [OF assms], of lc lc]
  by (auto simp: orderWorkspacePackagesForRelease_def)

text \<open>
  C33. An order the function returns holds every package exactly once, and every package comes
  after all the local packages it depends on.
\<close>

theorem release_order_sound:
  assumes "well_named packages" and "orderWorkspacePackagesForRelease lc packages = Some (Inr ordered)"
  shows "mset ordered = mset packages \<and> deps_first packages ordered"
proof -
  obtain incoming xs where "loop_inv packages incoming [] xs"
      "\<exists>e. orderWorkspacePackagesForRelease lc packages
        = Some (if length xs = length packages then Inr xs else Inl e)"
    using release_run [OF assms(1)] by blast
  moreover from this have "xs = ordered" "length xs = length packages"
    using assms(2) by (auto split: if_splits)
  ultimately show ?thesis using complete_iff(2) [OF assms(1)] by (auto simp: loop_inv_def)
qed

definition sample_packages :: "release_package list" where
  "sample_packages =
     [\<lparr>rp_name = ''cli'', workspaceDependencies = [''core'', ''zod'']\<rparr>,
      \<lparr>rp_name = ''core'', workspaceDependencies = []\<rparr>]"

lemma sample_packages_run:
  "orderWorkspacePackagesForRelease code_unit_cmp sample_packages
     = Some (Inr [\<lparr>rp_name = ''core'', workspaceDependencies = []\<rparr>,
                  \<lparr>rp_name = ''cli'', workspaceDependencies = [''core'', ''zod'']\<rparr>])"
  by code_simp

lemma sample_packages_named: "well_named sample_packages"
  by (simp add: well_named_def sample_packages_def)

theorem release_order_sound_witness:
  "deps_first sample_packages [\<lparr>rp_name = ''core'', workspaceDependencies = []\<rparr>,
     \<lparr>rp_name = ''cli'', workspaceDependencies = [''core'', ''zod'']\<rparr>]"
  using release_order_sound [OF sample_packages_named sample_packages_run] by simp

text \<open>
  C32. The function always returns, with an order exactly if the local dependencies have no
  cycle and with the cycle error otherwise.
\<close>

theorem release_order_iff_acyclic:
  assumes "well_named packages"
  shows "\<exists>r. orderWorkspacePackagesForRelease lc packages = Some r
    \<and> ((\<exists>ordered. r = Inr ordered) \<longleftrightarrow> acyclic (needs packages))"
proof -
  obtain incoming xs where inv: "loop_inv packages incoming [] xs"
      and run: "\<exists>e. orderWorkspacePackagesForRelease lc packages
        = Some (if length xs = length packages then Inr xs else Inl e)"
    using release_run [OF assms] by blast
  have "length xs = length packages \<longleftrightarrow> acyclic (needs packages)"
    using complete_iff(1) [OF assms inv] all_done_acyclic [of packages xs] acyclic_all_done [OF _ inv] inv
    by (auto simp: loop_inv_def)
  then show ?thesis using run by auto
qed

theorem release_order_iff_acyclic_witness: "acyclic (needs sample_packages)"
  using release_order_iff_acyclic [OF sample_packages_named, of code_unit_cmp] sample_packages_run by auto

end
