(* ===== verification/Versions.thy ===== *)
theory Versions
  imports Regex
begin

text \<open>
  The version order of the updater, \<open>src/cli/auto-update/version.ts\<close>.  Numbers are exact;
  \<open>lc\<close> is \<open>localeCompare\<close>.
\<close>

text \<open>A comparator whose result changes sign with its arguments.\<close>

locale sign_comparator = comparator +
  assumes cmp_flip: "cmp x y < 0 \<longleftrightarrow> cmp y x > 0"
begin

lemma cmp_refl: "cmp x x = 0"
  using cmp_flip [of x x] by linarith

lemma cmp_zero: "cmp x y = 0 \<longleftrightarrow> cmp y x = 0"
  using cmp_flip [of x y] cmp_flip [of y x] by linarith

lemma cmp_neg_trans: "cmp x y < 0 \<Longrightarrow> cmp y z \<le> 0 \<Longrightarrow> cmp x z < 0"
  using cmp_trans [of x y z] cmp_trans [of y z x] cmp_flip [of x y] cmp_flip [of x z] cmp_zero [of x z]
  by linarith

lemma cmp_neg_trans': "cmp x y \<le> 0 \<Longrightarrow> cmp y z < 0 \<Longrightarrow> cmp x z < 0"
  using cmp_trans [of x y z] cmp_trans [of z x y] cmp_flip [of y z] cmp_flip [of x z] cmp_zero [of x z]
  by linarith

lemma cmp_zero_left: "cmp x y = 0 \<Longrightarrow> cmp y z = 0 \<Longrightarrow> cmp x z = 0"
  using cmp_trans [of x y z] cmp_trans [of z y x] cmp_flip [of x z] cmp_zero [of y z] cmp_zero [of x y]
  by linarith

end

interpretation code_unit_sign: sign_comparator code_unit_cmp
  by unfold_locales (auto simp: code_unit_cmp_def)

section \<open>Parsing\<close>

datatype version_id = Num nat | Txt string

record parsed_version =
  major :: nat
  minor :: nat
  patch :: nat
  prerelease :: "version_id list"

definition version_char :: "char \<Rightarrow> bool" where
  "version_char c \<longleftrightarrow> js_digit c \<or> js_upper_char c \<or> js_lower_char c \<or> c = CHR ''.'' \<or> c = CHR ''-''"

definition version_pattern :: regex where
  "version_pattern =
     sq [StartText, opt (chr CHR ''v''), Grp 1 (plus digit), chr CHR ''.'', Grp 2 (plus digit),
         chr CHR ''.'', Grp 3 (plus digit), opt (Seq (chr CHR ''-'') (Grp 4 (plus (Cls version_char)))),
         opt (Seq (chr CHR ''+'') (plus (Cls version_char))), EndText]"

definition identifier_of :: "string \<Rightarrow> version_id" where
  "identifier_of part = (if part \<noteq> [] \<and> list_all js_digit part then Num (dec_val part) else Txt part)"

definition number_group :: "rmatch \<Rightarrow> nat \<Rightarrow> nat" where
  "number_group m n = (case group m n of None \<Rightarrow> 0 | Some s \<Rightarrow> dec_val s)"

definition parseVersion :: "string \<Rightarrow> parsed_version option" where
  "parseVersion version =
     (case re_exec version_pattern (js_trim version) of None \<Rightarrow> None
      | Some m \<Rightarrow> Some \<lparr>major = number_group m 1, minor = number_group m 2, patch = number_group m 3,
          prerelease = (case group m 4 of None \<Rightarrow> [] | Some p \<Rightarrow> map identifier_of (split_char CHR ''.'' p))\<rparr>)"

section \<open>Comparing\<close>

fun compare_identifier :: "(string \<Rightarrow> string \<Rightarrow> int) \<Rightarrow> version_id \<Rightarrow> version_id \<Rightarrow> int" where
  "compare_identifier lc (Num l) (Num r) = int l - int r"
| "compare_identifier lc (Num l) (Txt r) = -1"
| "compare_identifier lc (Txt l) (Num r) = 1"
| "compare_identifier lc (Txt l) (Txt r) = lc l r"

text \<open>The loop over the positions, for a comparison of two identifiers.\<close>

fun compare_from :: "('a \<Rightarrow> 'a \<Rightarrow> int) \<Rightarrow> 'a list \<Rightarrow> 'a list \<Rightarrow> int" where
  "compare_from cmp [] [] = 0"
| "compare_from cmp [] (r # rs) = -1"
| "compare_from cmp (l # ls) [] = 1"
| "compare_from cmp (l # ls) (r # rs) =
     (let delta = cmp l r in if delta \<noteq> 0 then delta else compare_from cmp ls rs)"

definition empty_last :: "('a list \<Rightarrow> 'a list \<Rightarrow> int) \<Rightarrow> 'a list \<Rightarrow> 'a list \<Rightarrow> int" where
  "empty_last c left right =
     (if left = [] \<and> right = [] then 0 else if left = [] then 1 else if right = [] then -1
      else c left right)"

definition comparePrerelease :: "(string \<Rightarrow> string \<Rightarrow> int) \<Rightarrow> version_id list \<Rightarrow> version_id list \<Rightarrow> int" where
  "comparePrerelease lc left right = empty_last (compare_from (compare_identifier lc)) left right"

definition compare_parsed :: "(string \<Rightarrow> string \<Rightarrow> int) \<Rightarrow> parsed_version \<Rightarrow> parsed_version \<Rightarrow> int" where
  "compare_parsed lc l r =
     (if major l \<noteq> major r then int (major l) - int (major r)
      else if minor l \<noteq> minor r then int (minor l) - int (minor r)
      else if patch l \<noteq> patch r then int (patch l) - int (patch r)
      else comparePrerelease lc (prerelease l) (prerelease r))"

definition compareVersions :: "(string \<Rightarrow> string \<Rightarrow> int) \<Rightarrow> string \<Rightarrow> string \<Rightarrow> int" where
  "compareVersions lc left right =
     (case (parseVersion left, parseVersion right) of
        (Some l, Some r) \<Rightarrow> compare_parsed lc l r
      | _ \<Rightarrow> lc left right)"

definition isNewerVersion :: "(string \<Rightarrow> string \<Rightarrow> int) \<Rightarrow> string \<Rightarrow> string \<Rightarrow> bool" where
  "isNewerVersion lc latest current \<longleftrightarrow> compareVersions lc latest current > 0"

section \<open>The order laws\<close>

text \<open>Comparing by an integer key and then by another comparator.\<close>

lemma sign_comparatorI:
  assumes "\<And>x y. c x y < 0 \<longleftrightarrow> c y x > 0" and "\<And>x y z. c x y \<le> 0 \<Longrightarrow> c y z \<le> 0 \<Longrightarrow> c x z \<le> 0"
  shows "sign_comparator c"
proof unfold_locales
  fix x y
  show "c x y \<le> 0 \<or> c y x \<le> 0" using assms(1) [of y x] by linarith
qed (use assms in auto)

context sign_comparator
begin

lemma key_then:
  "sign_comparator (\<lambda>x y. if k x \<noteq> k y then int (k x) - int (k y) else cmp (f x) (f y))"
proof (rule sign_comparatorI, goal_cases)
  case (1 x y)
  then show ?case using cmp_flip [of "f x" "f y"] by auto
next
  case (2 x y z)
  then show ?case using cmp_trans [of "f x" "f y" "f z"] by (auto split: if_splits)
qed

lemma compare_from_flip: "compare_from cmp x y < 0 \<longleftrightarrow> compare_from cmp y x > 0"
proof (induction x arbitrary: y)
  case Nil
  then show ?case by (cases y) auto
next
  case (Cons l ls)
  show ?case
  proof (cases y)
    case (Cons r rs)
    then show ?thesis using Cons.IH [of rs] cmp_flip [of l r] cmp_zero [of l r] by (auto simp: Let_def)
  qed simp
qed

lemma compare_from_trans:
  "compare_from cmp x y \<le> 0 \<Longrightarrow> compare_from cmp y z \<le> 0 \<Longrightarrow> compare_from cmp x z \<le> 0"
proof (induction x arbitrary: y z)
  case Nil
  then show ?case by (cases z) auto
next
  case (Cons l ls)
  then obtain r rs where y: "y = r # rs" by (cases y) auto
  with Cons.prems obtain t ts where z: "z = t # ts" by (cases z) auto
  show ?case
    using Cons.prems Cons.IH [of rs ts] cmp_neg_trans [of l r t] cmp_neg_trans' [of l r t]
      cmp_zero_left [of l r t]
    by (auto simp: y z Let_def split: if_splits)
qed

lemma compare_from_order: "sign_comparator (compare_from cmp)"
  by (rule sign_comparatorI) (auto simp: compare_from_flip intro: compare_from_trans)

end

lemma empty_last_order: "sign_comparator c \<Longrightarrow> sign_comparator (empty_last c)"
proof (rule sign_comparatorI, goal_cases)
  case (1 x y)
  then show ?case using sign_comparator.cmp_flip [of c x y] by (auto simp: empty_last_def)
next
  case (2 x y z)
  then have "comparator c" by (simp add: sign_comparator_def)
  with 2 show ?case using comparator.cmp_trans [of c x y z] by (auto simp: empty_last_def split: if_splits)
qed

lemma identifier_order:
  assumes "sign_comparator lc"
  shows "sign_comparator (compare_identifier lc)"
proof -
  have c: "comparator lc" using assms by (simp add: sign_comparator_def)
  show ?thesis
  proof (rule sign_comparatorI, goal_cases)
    case (1 x y)
    then show ?case using sign_comparator.cmp_flip [OF assms] by (cases x; cases y) auto
  next
    case (2 x y z)
    then show ?case using comparator.cmp_trans [OF c] by (cases x; cases y; cases z) auto
  qed
qed

lemma parsed_order:
  assumes "sign_comparator lc"
  shows "sign_comparator (compare_parsed lc)"
proof -
  have "sign_comparator (comparePrerelease lc)"
    using empty_last_order sign_comparator.compare_from_order identifier_order assms
    unfolding comparePrerelease_def [abs_def] by blast
  note p = sign_comparator.key_then [OF this, of patch prerelease]
  note mi = sign_comparator.key_then [OF p, of minor "\<lambda>x. x"]
  note ma = sign_comparator.key_then [OF mi, of major "\<lambda>x. x"]
  then show ?thesis unfolding compare_parsed_def [abs_def] .
qed

text \<open>
  On version strings that parse, \<open>isNewerVersion\<close> is a strict order: nothing is newer
  than itself, and newer than newer is newer, for any consistent \<open>localeCompare\<close>.
\<close>

theorem newer_strict_order:
  assumes "sign_comparator lc"
    and "parseVersion a = Some x" and "parseVersion b = Some y" and "parseVersion c = Some z"
    and "isNewerVersion lc a b" and "isNewerVersion lc b c"
  shows "isNewerVersion lc a c \<and> \<not> isNewerVersion lc b a \<and> \<not> isNewerVersion lc a a"
proof -
  note ord = parsed_order [OF assms(1)]
  have "compare_parsed lc y x < 0" "compare_parsed lc z y < 0"
    using assms sign_comparator.cmp_flip [OF ord] by (simp_all add: isNewerVersion_def compareVersions_def)
  then have "compare_parsed lc z x < 0" "\<not> compare_parsed lc y x > 0"
    using sign_comparator.cmp_neg_trans [OF ord, of z y x] by simp_all
  then show ?thesis
    using assms(2-4) sign_comparator.cmp_flip [OF ord] sign_comparator.cmp_refl [OF ord]
    by (simp add: isNewerVersion_def compareVersions_def)
qed

theorem newer_strict_order_witness:
  "isNewerVersion code_unit_cmp ''1.10.0'' ''1.9.0-rc.2''"
proof -
  have "parseVersion ''1.10.0'' = Some \<lparr>major = 1, minor = 10, patch = 0, prerelease = []\<rparr>"
      "parseVersion ''v1.9.0'' = Some \<lparr>major = 1, minor = 9, patch = 0, prerelease = []\<rparr>"
      "parseVersion ''1.9.0-rc.2'' = Some \<lparr>major = 1, minor = 9, patch = 0, prerelease = [Txt ''rc'', Num 2]\<rparr>"
    by code_simp+
  then show ?thesis
    using newer_strict_order [of code_unit_cmp "''1.10.0''" _ "''v1.9.0''" _ "''1.9.0-rc.2''"]
      code_unit_sign.sign_comparator_axioms
    by (simp add: isNewerVersion_def compareVersions_def compare_parsed_def comparePrerelease_def empty_last_def)
qed

text \<open>
  A release is newer than each prerelease of the same three numbers, whatever the
  collation of words.
\<close>

theorem release_above_prerelease:
  assumes "parseVersion a = Some \<lparr>major = j, minor = i, patch = p, prerelease = []\<rparr>"
    and "parseVersion b = Some \<lparr>major = j, minor = i, patch = p, prerelease = q\<rparr>" and "q \<noteq> []"
  shows "isNewerVersion lc a b \<and> \<not> isNewerVersion lc b a"
  using assms
  by (simp add: isNewerVersion_def compareVersions_def compare_parsed_def comparePrerelease_def empty_last_def)

theorem release_above_prerelease_witness: "isNewerVersion code_unit_cmp ''2.0.0'' ''2.0.0-beta''"
proof -
  have "parseVersion ''2.0.0'' = Some \<lparr>major = 2, minor = 0, patch = 0, prerelease = []\<rparr>"
      "parseVersion ''2.0.0-beta'' = Some \<lparr>major = 2, minor = 0, patch = 0, prerelease = [Txt ''beta'']\<rparr>"
    by code_simp+
  from release_above_prerelease [OF this] show ?thesis by simp
qed

end
