(* ===== verification/IpGuard.thy ===== *)
theory IpGuard
  imports Regex
begin

text \<open>
  The address guard of \<open>src/session-memory/ip-guard.ts\<close>: which hosts count as internal.
  An octet is a natural number, a group an integer, an address its text.  The resolver behind
  \<open>boundedLookup\<close> (the DNS query raced against a timer and an abort signal) is a
  parameter: the addresses it yields, or \<open>None\<close> when it rejects.
\<close>

section \<open>The address grammar of the platform\<close>

text \<open>\<open>net.isIP\<close>: 4, 6 or 0, by the platform's own patterns.\<close>

definition octet_pattern :: regex where
  "octet_pattern = alts [sq [lit ''25'', one_of ''012345''], sq [chr CHR ''2'', one_of ''01234'', digit],
     sq [chr CHR ''1'', digit, digit], sq [one_of ''123456789'', digit], digit]"

definition v4_pattern :: regex where
  "v4_pattern = sq [octet_pattern, chr CHR ''.'', octet_pattern, chr CHR ''.'', octet_pattern,
     chr CHR ''.'', octet_pattern]"

definition hex_digit :: "char \<Rightarrow> bool" where
  "hex_digit c = (js_digit c \<or> c \<in> set ''abcdefABCDEF'')"

definition v6_seg :: regex where
  "v6_seg = between 1 4 (Cls hex_digit)"

definition v6_pattern :: regex where
  "v6_pattern =
     (let seg = Seq v6_seg (chr CHR '':''); cseg = Seq (chr CHR '':'') v6_seg; colon = chr CHR '':'';
          tail = (\<lambda>k. sq [times (6 - k) seg,
            alts [sq [between 0 (k - 1) cseg, colon, v4_pattern], between 1 (k + 1) cseg, colon]])
      in sq [StartText,
           alts [Seq (times 7 seg) (Alt v6_seg colon),
                 Seq (times 6 seg) (alts [v4_pattern, cseg, colon]),
                 tail 1, tail 2, tail 3, tail 4, tail 5,
                 Seq colon (alts [sq [between 0 5 cseg, colon, v4_pattern], between 1 7 cseg, colon])],
           opt (Seq (chr CHR ''%'') (plus (Cls (\<lambda>c. js_digit c \<or> js_lower_char c \<or> js_upper_char c
             \<or> c \<in> set ''-.:'')))),
           EndText])"

definition isIP :: "string \<Rightarrow> nat" where
  "isIP s = (if re_test (sq [StartText, v4_pattern, EndText]) s then 4
             else if re_test v6_pattern s then 6 else 0)"

section \<open>Host names and IPv4\<close>

definition drop_last :: "string \<Rightarrow> string" where
  "drop_last s = butlast s"

definition normalizeHostname :: "string \<Rightarrow> string" where
  "normalizeHostname hostname =
     (let trimmed = js_lower (js_trim hostname);
          withoutBrackets = (if starts_with trimmed ''['' \<and> ends_with trimmed '']''
                             then drop_last (drop 1 trimmed) else trimmed)
      in if ends_with withoutBrackets ''.'' then drop_last withoutBrackets else withoutBrackets)"

definition isCommonInternalHostname :: "string \<Rightarrow> bool" where
  "isCommonInternalHostname hostname \<longleftrightarrow>
     hostname = ''localhost'' \<or> ends_with hostname ''.localhost'' \<or> ends_with hostname ''.local''
     \<or> ends_with hostname ''.internal''"

definition parse_octet :: "string \<Rightarrow> nat option" where
  "parse_octet part =
     (if length part \<in> {1, 2, 3} \<and> list_all js_digit part \<and> dec_val part \<le> 255
      then Some (dec_val part) else None)"

fun all_some :: "'a option list \<Rightarrow> 'a list option" where
  "all_some [] = Some []"
| "all_some (None # xs) = None"
| "all_some (Some x # xs) = map_option ((#) x) (all_some xs)"

definition parseIpv4 :: "string \<Rightarrow> nat list option" where
  "parseIpv4 address =
     (let parts = split_char CHR ''.'' address
      in if length parts \<noteq> 4 then None else all_some (map parse_octet parts))"

definition internal_octets :: "nat \<Rightarrow> nat \<Rightarrow> nat \<Rightarrow> bool" where
  "internal_octets first second third \<longleftrightarrow>
     first = 0 \<or> first = 10
     \<or> (first = 100 \<and> second \<ge> 64 \<and> second \<le> 127)
     \<or> first = 127
     \<or> (first = 169 \<and> second = 254)
     \<or> (first = 172 \<and> second \<ge> 16 \<and> second \<le> 31)
     \<or> (first = 192 \<and> second = 0 \<and> (third = 0 \<or> third = 2))
     \<or> (first = 192 \<and> second = 168)
     \<or> (first = 198 \<and> (second = 18 \<or> second = 19))
     \<or> (first = 198 \<and> second = 51 \<and> third = 100)
     \<or> (first = 203 \<and> second = 0 \<and> third = 113)"

definition isInternalIpv4 :: "string \<Rightarrow> bool" where
  "isInternalIpv4 address =
     (case parseIpv4 address of None \<Rightarrow> False
      | Some octets \<Rightarrow> internal_octets (octets ! 0) (octets ! 1) (octets ! 2))"

section \<open>IPv6\<close>

definition hex_val :: "char \<Rightarrow> int" where
  "hex_val c = (if js_digit c then of_char c - 48 else of_char (lower_char c) - 87)"

definition parse_group :: "string \<Rightarrow> int option" where
  "parse_group g =
     (if length g \<in> {1, 2, 3, 4} \<and> list_all (\<lambda>c. js_digit c \<or> c \<in> set ''abcdef'') g
      then Some (foldl (\<lambda>n c. 16 * n + hex_val c) 0 g) else None)"

text \<open>
  \<open>Array(missing)\<close> throws a \<open>RangeError\<close> for a negative length: the outer \<open>None\<close>.  On the
  addresses \<open>isIP\<close> accepts there are at most eight groups around \<open>::\<close>.
\<close>

definition expandIpv6 :: "string \<Rightarrow> int list option option" where
  "expandIpv6 address =
     (let lower = js_lower address; pieces = re_split (lit ''::'') lower
      in if includes_str lower ''.'' then Some None
         else if length pieces > 2 then Some None
         else (let headRaw = pieces ! 0; tailRaw = (if length pieces = 2 then pieces ! 1 else []);
                   groups_of = (\<lambda>s. if length s > 0 then split_char CHR '':'' s else []);
                   hd6 = groups_of headRaw; tl6 = groups_of tailRaw;
                   n = length hd6 + length tl6
               in if includes_str lower ''::'' \<and> n > 8 then None
                  else (let groups = (if includes_str lower ''::''
                                      then hd6 @ replicate (8 - n) ''0'' @ tl6 else hd6)
                        in if length groups \<noteq> 8 then Some None
                           else Some (all_some (map parse_group groups)))))"

definition dotted_of :: "int \<Rightarrow> int \<Rightarrow> string" where
  "dotted_of high low =
     join_with ''.'' (map (\<lambda>n. nat_str (nat n)) [(high div 256) mod 256, high mod 256, (low div 256) mod 256, low mod 256])"

definition ipv4MappedIpv6Suffix :: "string \<Rightarrow> string option" where
  "ipv4MappedIpv6Suffix address =
     (let lower = js_lower address
      in if \<not> starts_with lower ''::ffff:'' then None
         else (let suffix = drop 7 lower
               in case parseIpv4 suffix of
                    Some dotted \<Rightarrow> Some (join_with ''.'' (map nat_str dotted))
                  | None \<Rightarrow>
                      (let groups = split_char CHR '':'' suffix
                       in if length groups \<noteq> 2 then None
                          else (case all_some (map parse_group groups) of None \<Rightarrow> None
                                | Some parsed \<Rightarrow> Some (dotted_of (parsed ! 0) (parsed ! 1))))))"

definition embeddedIpv4Suffix :: "int list \<Rightarrow> string" where
  "embeddedIpv4Suffix groups = dotted_of (groups ! 6) (groups ! 7)"

definition internal_groups :: "string \<Rightarrow> int list \<Rightarrow> bool" where
  "internal_groups address groups \<longleftrightarrow>
     (let first = groups ! 0; second = groups ! 1; third = groups ! 2; fourth = groups ! 3;
          allZero = list_all (\<lambda>g. g = 0) groups;
          ipv4Compatible = list_all (\<lambda>g. g = 0) (take 6 groups);
          ipv4Mapped = (list_all (\<lambda>g. g = 0) (take 5 groups) \<and> groups ! 5 = 0xffff);
          nat64WellKnown = (first = 0x0064 \<and> second = 0xff9b \<and> list_all (\<lambda>g. g = 0) (take 4 (drop 2 groups)))
      in allZero \<or> address = ''::1'' \<or> ipv4Compatible
         \<or> (ipv4Mapped \<and> isInternalIpv4 (embeddedIpv4Suffix groups))
         \<or> (nat64WellKnown \<and> isInternalIpv4 (embeddedIpv4Suffix groups))
         \<or> (first = 0x0064 \<and> second = 0xff9b \<and> third = 0x0001)
         \<or> (first = 0x0100 \<and> second = 0 \<and> third = 0 \<and> fourth = 0)
         \<or> first = 0x2002
         \<or> (first = 0x2001 \<and> second = 0x0002 \<and> third = 0)
         \<or> (first = 0x2001 \<and> second = 0x0db8)
         \<or> (first \<ge> 0xfe80 \<and> first \<le> 0xfebf)
         \<or> (first \<ge> 0xfc00 \<and> first \<le> 0xfdff)
         \<or> (first \<ge> 0xff00 \<and> first \<le> 0xffff))"

text \<open>\<open>None\<close> is the exception of \<open>expandIpv6\<close>.\<close>

definition isInternalIpv6 :: "string \<Rightarrow> bool option" where
  "isInternalIpv6 address =
     (if (case ipv4MappedIpv6Suffix address of None \<Rightarrow> False
          | Some m \<Rightarrow> m \<noteq> [] \<and> isInternalIpv4 m) then Some True
      else (case expandIpv6 address of None \<Rightarrow> None
            | Some None \<Rightarrow> Some False
            | Some (Some groups) \<Rightarrow> Some (internal_groups address groups)))"

definition isInternalAddress :: "string \<Rightarrow> bool option" where
  "isInternalAddress address =
     (let normalized = normalizeHostname address; ipVersion = isIP normalized
      in if ipVersion = 4 then Some (isInternalIpv4 normalized)
         else if ipVersion = 6 then isInternalIpv6 normalized
         else Some False)"

section \<open>Hosts\<close>

type_synonym host_lookup = "string \<Rightarrow> string list option"

definition resolveHostAddresses :: "host_lookup \<Rightarrow> string \<Rightarrow> string list option" where
  "resolveHostAddresses boundedLookup hostname =
     (let normalized = normalizeHostname hostname; ipVersion = isIP normalized
      in if ipVersion = 4 \<or> ipVersion = 6 then Some [normalized] else boundedLookup normalized)"

text \<open>\<open>addresses.some(...)\<close>; an exception inside the \<open>try\<close> yields \<open>true\<close>.\<close>

fun some_internal :: "string list \<Rightarrow> bool" where
  "some_internal [] = False"
| "some_internal (a # as) =
     (case isInternalAddress a of None \<Rightarrow> True | Some b \<Rightarrow> b \<or> some_internal as)"

definition isInternalHost :: "host_lookup \<Rightarrow> string \<Rightarrow> bool option" where
  "isInternalHost boundedLookup hostname =
     (let normalized = normalizeHostname hostname
      in if isCommonInternalHostname normalized then Some True
         else if isIP normalized \<noteq> 0 then isInternalAddress normalized
         else (case resolveHostAddresses boundedLookup normalized of
                 None \<Rightarrow> Some True
               | Some addresses \<Rightarrow> Some (some_internal addresses)))"

end
