(* ===== verification/IpGuardProps.thy ===== *)
theory IpGuardProps
  imports IpGuard Json
begin

text \<open>
  What the address guard promises: its IPv4 test is the table of reserved blocks, the mapped
  spelling of an IPv4 address is judged like the address, a failing lookup fails closed; and
  the spellings it misses.
\<close>

definition dotted4 :: "nat \<Rightarrow> nat \<Rightarrow> nat \<Rightarrow> nat \<Rightarrow> string" where
  "dotted4 a b c d = join_with ''.'' (map nat_str [a, b, c, d])"

lemma nat_str_short: "n < 1000 \<Longrightarrow> length (nat_str n) \<in> {1, 2, 3}"
proof -
  have one: "length (nat_str k) = 1" if "k < 10" for k using that by (subst nat_str.simps) simp
  have two: "length (nat_str k) \<in> {1, 2}" if "k < 100" for k
    using that one [of "k div 10"] by (subst nat_str.simps) auto
  assume "n < 1000"
  then show ?thesis using two [of "n div 10"] by (subst nat_str.simps) auto
qed

lemma parse_octet_str: "n < 256 \<Longrightarrow> parse_octet (nat_str n) = Some n"
  using nat_str_short [of n] nat_str_digits [of n] by (auto simp: parse_octet_def list_all_iff)

lemma octet_no_dot: "CHR ''.'' \<notin> set (nat_str n)"
  using nat_str_digits [of n] by (auto simp: digit_bits)

lemma parse_dotted4:
  assumes "a < 256" "b < 256" "c < 256" "d < 256"
  shows "parseIpv4 (dotted4 a b c d) = Some [a, b, c, d]"
  using assms
  by (simp add: parseIpv4_def dotted4_def split_char_append octet_no_dot split_char_no_sep parse_octet_str)

section \<open>The reserved IPv4 blocks\<close>

definition ipv4_value :: "nat \<Rightarrow> nat \<Rightarrow> nat \<Rightarrow> nat \<Rightarrow> nat" where
  "ipv4_value a b c d = ((a * 256 + b) * 256 + c) * 256 + d"

definition in_block :: "nat \<Rightarrow> nat \<times> nat \<Rightarrow> bool" where
  "in_block addr blk = (addr div 2 ^ (32 - snd blk) = fst blk div 2 ^ (32 - snd blk))"

text \<open>Network address and prefix length, as in the special-purpose address registry.\<close>

definition reserved_blocks :: "(nat \<times> nat) list" where
  "reserved_blocks =
     [(ipv4_value 0 0 0 0, 8), (ipv4_value 10 0 0 0, 8), (ipv4_value 100 64 0 0, 10),
      (ipv4_value 127 0 0 0, 8), (ipv4_value 169 254 0 0, 16), (ipv4_value 172 16 0 0, 12),
      (ipv4_value 192 0 0 0, 24), (ipv4_value 192 0 2 0, 24), (ipv4_value 192 168 0 0, 16),
      (ipv4_value 198 18 0 0, 15), (ipv4_value 198 51 100 0, 24), (ipv4_value 203 0 113 0, 24)]"

lemma ipv4_div:
  assumes "b < 256" "c < 256" "d < 256"
  shows "ipv4_value a b c d div 2 ^ 8 = (a * 256 + b) * 256 + c"
    and "ipv4_value a b c d div 2 ^ 16 = a * 256 + b"
    and "ipv4_value a b c d div 2 ^ 24 = a"
  using assms by (simp_all add: ipv4_value_def)

lemma div_chain: "(n::nat) div 2 ^ (i + j) = n div 2 ^ i div 2 ^ j"
  by (simp add: power_add div_mult2_eq)

lemma two_digits:
  fixes b q m :: nat
  assumes "b < m" "q < m"
  shows "a * m + b = p * m + q \<longleftrightarrow> a = p \<and> b = q"
proof
  assume eq: "a * m + b = p * m + q"
  then have "(a * m + b) div m = (p * m + q) div m" by simp
  then have "a = p" using assms by simp
  with eq show "a = p \<and> b = q" by simp
qed simp

lemma high_bits:
  fixes b q k m :: nat
  assumes "b < k * m" "q < k * m" "0 < m"
  shows "(a * (k * m) + b) div m = (p * (k * m) + q) div m \<longleftrightarrow> a = p \<and> b div m = q div m"
proof -
  have "(x * (k * m) + y) div m = x * k + y div m" for x y
    using assms(3) by (metis add.commute div_mult_self1 mult.assoc not_less_zero)
  moreover have "b div m < k" "q div m < k"
    using assms by (simp_all add: less_mult_imp_div_less)
  ultimately show ?thesis using two_digits by simp
qed

definition octets_value :: "nat \<Rightarrow> nat \<Rightarrow> nat \<Rightarrow> nat \<Rightarrow> nat \<Rightarrow> bool" where
  "octets_value a b c d v \<longleftrightarrow> b < 256 \<and> c < 256 \<and> d < 256 \<and> v = ipv4_value a b c d"

lemma octets_div:
  assumes "octets_value a b c d v"
  shows "v div 2 ^ 8 = (a * 256 + b) * 256 + c" "v div 2 ^ 16 = a * 256 + b" "v div 2 ^ 24 = a"
  using assms ipv4_div [of b c d a] by (simp_all only: octets_value_def)

lemma block8: "octets_value a b c d v \<Longrightarrow> in_block v (ipv4_value p 0 0 0, 8) \<longleftrightarrow> a = p"
  using octets_div(3) [of a b c d v] by (simp add: in_block_def ipv4_div(3) [simplified])

lemma block16:
  "octets_value a b c d v \<Longrightarrow> q < 256 \<Longrightarrow> in_block v (ipv4_value p q 0 0, 16) \<longleftrightarrow> a = p \<and> b = q"
  using octets_div(2) [of a b c d v]
  by (simp add: in_block_def ipv4_div(2) [simplified] two_digits octets_value_def)

lemma block24:
  "octets_value a b c d v \<Longrightarrow> q < 256 \<Longrightarrow> r < 256 \<Longrightarrow>
    in_block v (ipv4_value p q r 0, 24) \<longleftrightarrow> a = p \<and> b = q \<and> c = r"
  using octets_div(1) [of a b c d v] two_digits [of c 256 r "a * 256 + b" "p * 256 + q"]
    two_digits [of b 256 q a p]
  by (simp add: in_block_def ipv4_div(1) [simplified] octets_value_def)

lemma block_short:
  assumes v: "octets_value a b c d v" and "q < 256" "i \<le> 8" "len = 16 - i"
  shows "in_block v (ipv4_value p q 0 0, len) \<longleftrightarrow> a = p \<and> b div 2 ^ i = q div 2 ^ i"
proof -
  have len: "32 - len = 16 + i" using assms(3,4) by simp
  have m: "256 = 2 ^ (8 - i) * (2 ^ i :: nat)"
    using assms(3) by (simp flip: power_add)
  have "in_block v (ipv4_value p q 0 0, len)
      \<longleftrightarrow> (a * 256 + b) div 2 ^ i = (p * 256 + q) div 2 ^ i"
    using assms(2) unfolding in_block_def snd_conv fst_conv len div_chain octets_div(2) [OF v]
    by (simp add: ipv4_div(2) [simplified])
  also have "\<dots> \<longleftrightarrow> a = p \<and> b div 2 ^ i = q div 2 ^ i"
    using v assms(2) unfolding m octets_value_def by (intro high_bits) auto
  finally show ?thesis .
qed

lemma quotient_iff:
  fixes n m k :: nat
  assumes "0 < m"
  shows "n div m = k \<longleftrightarrow> m * k \<le> n \<and> n < m * Suc k"
  using assms dividend_less_times_div [of m n] by (auto intro: div_nat_eqI)

lemma internal_octets_blocks:
  assumes "b < 256" "c < 256" "d < 256"
  shows "internal_octets a b c \<longleftrightarrow> list_ex (in_block (ipv4_value a b c d)) reserved_blocks"
proof -
  have v: "octets_value a b c d (ipv4_value a b c d)" using assms by (simp add: octets_value_def)
  note short = block_short [OF v]
  have spans: "b div 64 = 1 \<longleftrightarrow> 64 \<le> b \<and> b \<le> 127" "b div 16 = 1 \<longleftrightarrow> 16 \<le> b \<and> b \<le> 31"
      "b div 2 = 9 \<longleftrightarrow> b = 18 \<or> b = 19"
    by (auto simp: quotient_iff)
  have ten: "in_block (ipv4_value a b c d) (ipv4_value 100 64 0 0, 10) \<longleftrightarrow> a = 100 \<and> 64 \<le> b \<and> b \<le> 127"
    using short [of 64 6 10 100] spans by simp
  have twelve: "in_block (ipv4_value a b c d) (ipv4_value 172 16 0 0, 12) \<longleftrightarrow> a = 172 \<and> 16 \<le> b \<and> b \<le> 31"
    using short [of 16 4 12 172] spans by simp
  have fifteen: "in_block (ipv4_value a b c d) (ipv4_value 198 18 0 0, 15) \<longleftrightarrow> a = 198 \<and> (b = 18 \<or> b = 19)"
    using short [of 18 1 15 198] spans by simp
  show ?thesis
    by (simp add: reserved_blocks_def internal_octets_def ten twelve fifteen
        block8 [OF v] block16 [OF v] block24 [OF v]
        conj_disj_distribL disj_assoc)
qed

text \<open>
  C31. On a dotted IPv4 address the guard says internal exactly if the address, read as a
  32-bit number, lies in one of the reserved blocks, given as network and prefix length.
\<close>

theorem internal_ipv4_blocks:
  assumes "a < 256" "b < 256" "c < 256" "d < 256"
  shows "isInternalIpv4 (dotted4 a b c d) \<longleftrightarrow> list_ex (in_block (ipv4_value a b c d)) reserved_blocks"
  using assms internal_octets_blocks [of b c d a] by (simp add: isInternalIpv4_def parse_dotted4)

theorem internal_ipv4_blocks_witness:
  "isInternalIpv4 (dotted4 172 20 0 1) \<and> \<not> isInternalIpv4 (dotted4 8 8 8 8)"
  using internal_ipv4_blocks [of 172 20 0 1] internal_ipv4_blocks [of 8 8 8 8]
  by (simp add: reserved_blocks_def in_block_def ipv4_value_def)

section \<open>Mapped addresses\<close>

lemma digit_not_upper: "js_digit c \<Longrightarrow> \<not> js_upper_char c"
  using order_trans [of "CHR ''A''" c "CHR ''9''"]
  by (auto simp: js_digit_def js_upper_char_def less_eq_char_def)

lemma lower_octets: "js_lower (dotted4 a b c d) = dotted4 a b c d"
proof -
  have "js_lower (nat_str n) = nat_str n" for n
    using nat_str_digits [of n]
    by (auto simp: js_lower_def lower_char_def digit_not_upper intro!: map_idI)
  moreover have "js_lower (p @ q) = js_lower p @ js_lower q" for p q by (simp add: js_lower_def)
  moreover have "js_lower (CHR ''.'' # q) = CHR ''.'' # js_lower q" for q
    by (simp add: js_lower_def lower_char_def upper_bits)
  ultimately show ?thesis by (simp add: dotted4_def)
qed

lemma dotted_has_dot: "includes_str (p @ dotted4 a b c d) ''.''"
  unfolding includes_str_iff dotted4_def
  by (rule exI [of _ "p @ nat_str a"]) simp

text \<open>
  An IPv4-mapped IPv6 address is judged as the IPv4 address inside it, whatever the
  octets: writing an internal address as \<open>::ffff:a.b.c.d\<close> does not evade the guard.
\<close>

theorem mapped_judged_as_ipv4:
  assumes "a < 256" "b < 256" "c < 256" "d < 256"
  shows "isInternalIpv6 (''::ffff:'' @ dotted4 a b c d) = Some (isInternalIpv4 (dotted4 a b c d))"
proof -
  have lower: "js_lower (''::ffff:'' @ dotted4 a b c d) = ''::ffff:'' @ dotted4 a b c d"
    using lower_octets [of a b c d] by (simp add: js_lower_def lower_char_def upper_bits)
  have "ipv4MappedIpv6Suffix (''::ffff:'' @ dotted4 a b c d) = Some (dotted4 a b c d)"
    unfolding ipv4MappedIpv6Suffix_def lower
    using assms by (simp add: starts_with_def parse_dotted4) (simp add: dotted4_def)
  moreover have "expandIpv6 (''::ffff:'' @ dotted4 a b c d) = Some None"
    unfolding expandIpv6_def lower Let_def by (simp only: dotted_has_dot if_True)
  moreover have "dotted4 a b c d \<noteq> []" by (simp add: dotted4_def)
  ultimately show ?thesis by (simp add: isInternalIpv6_def)
qed

theorem mapped_judged_as_ipv4_witness:
  "isInternalIpv6 (''::ffff:'' @ dotted4 10 0 0 1) = Some True"
  using mapped_judged_as_ipv4 [of 10 0 0 1]
  by (simp add: isInternalIpv4_def parse_dotted4 internal_octets_def)

section \<open>Hosts\<close>

text \<open>
  A host name that is no address literal is declared external only if the lookup
  succeeded and every address it yielded is external: a failing, aborted or timed-out
  lookup counts as internal.
\<close>

theorem host_fails_closed:
  assumes "isInternalHost boundedLookup host = Some False" and "isIP (normalizeHostname host) = 0"
  shows "\<not> isCommonInternalHostname (normalizeHostname host)
    \<and> (\<exists>addresses. resolveHostAddresses boundedLookup (normalizeHostname host) = Some addresses
         \<and> (\<forall>x\<in>set addresses. isInternalAddress x = Some False))"
proof -
  have "\<forall>x\<in>set xs. isInternalAddress x = Some False" if "\<not> some_internal xs" for xs
    using that by (induction xs rule: some_internal.induct) (auto split: option.splits)
  then show ?thesis
    using assms by (auto simp: isInternalHost_def Let_def split: if_splits option.splits)
qed

definition public_lookup :: host_lookup where
  "public_lookup host = (if host = ''example.com'' then Some [''93.184.215.14''] else None)"

theorem host_fails_closed_witness:
  "resolveHostAddresses public_lookup (normalizeHostname ''example.com'') = Some [''93.184.215.14'']
   \<and> \<not> isCommonInternalHostname (normalizeHostname ''example.com'')"
proof -
  have "isInternalHost public_lookup ''example.com'' = Some False" "isIP (normalizeHostname ''example.com'') = 0"
    by code_simp+
  note host_fails_closed [OF this]
  moreover have "resolveHostAddresses public_lookup (normalizeHostname ''example.com'') = Some [''93.184.215.14'']"
    by code_simp
  ultimately show ?thesis by blast
qed

text \<open>
  The guard misses internal addresses in other spellings the platform accepts: the
  loopback address mapped with its zeros written out, in the IPv4-compatible and the NAT64
  form with a dotted tail, and link-local and loopback addresses with a zone.
\<close>

theorem internal_spellings_missed:
  "list_all (\<lambda>s. isIP s = 6 \<and> isInternalAddress s = Some False)
     [''0:0:0:0:0:ffff:127.0.0.1'', ''::127.0.0.1'', ''64:ff9b::127.0.0.1'', ''fe80::1%eth0'', ''::1%lo'']
   \<and> list_all (\<lambda>s. isIP s = 6 \<and> isInternalAddress s = Some True)
     [''::ffff:127.0.0.1'', ''0:0:0:0:0:ffff:7f00:1'', ''::7f00:1'', ''64:ff9b::7f00:1'', ''fe80::1'', ''::1'']"
  by code_simp

end
