(* ===== verification/TrustDossier.thy ===== *)
theory TrustDossier
  imports Markdown
begin

text \<open>
  The trust dossier of a blueprint, \<open>src/blueprint/trust/\<close>: its parser (dossier.ts), the
  grammar of the commands a promotion may run (gates.ts), the search for open questions
  (ambiguity.ts).
\<close>

section \<open>The dossier (dossier.ts)\<close>

record readiness_verdict =
  promotionReady :: bool
  unresolvedCount :: "int option" \<comment> \<open>\<open>None\<close> is \<open>NaN\<close>\<close>
  verifiedAt :: string
  verifiedHead :: string
  trustGateVersion :: string

record material_claim =
  mc_id :: string
  mc_claim :: string
  mc_evidence :: string

record material_decision =
  md_id :: string
  decision :: string
  chosenOption :: string
  rejectedAlternatives :: string
  rationale :: string

record promotion_gate =
  gate :: string
  gate_command :: string
  expectedOutcome :: string
  lastResult :: string

record trust_dossier =
  readiness :: readiness_verdict
  claims :: "material_claim list"
  decisions :: "material_decision list"
  gates :: "promotion_gate list"
  residualUnknowns :: string

record dossier_violation =
  vi_section :: string
  vi_claimId :: "string option"
  vi_message :: string

definition violation :: "string \<Rightarrow> string \<Rightarrow> dossier_violation" where
  "violation sec msg = \<lparr>vi_section = sec, vi_claimId = None, vi_message = msg\<rparr>"

definition claim_violation :: "string \<Rightarrow> string \<Rightarrow> string \<Rightarrow> dossier_violation" where
  "claim_violation sec cid msg = \<lparr>vi_section = sec, vi_claimId = Some cid, vi_message = msg\<rparr>"

definition REQUIRED_SUBSECTIONS :: "string list" where
  "REQUIRED_SUBSECTIONS =
     [''Readiness Verdict'', ''Material Claims'', ''Material Decisions'', ''Promotion Gates'',
      ''Residual Unknowns'']"

definition fenced_block :: regex where
  "fenced_block = sq [StartLine, lit fence, lazy any_char, StartLine, lit fence]"

definition stripFencedCodeBlocks :: "string \<Rightarrow> string" where
  "stripFencedCodeBlocks markdown = replace_all fenced_block (\<lambda>_. []) markdown"

text \<open>The titles contain no character that \<open>escapeRegExp\<close> would escape.\<close>

definition heading_pattern :: "nat \<Rightarrow> string \<Rightarrow> regex" where
  "heading_pattern level title =
     sq [StartLine, times level (chr CHR ''#''), plus ws, lit_i title, star ws, EndLine]"

definition sectionBlock :: "string \<Rightarrow> nat \<Rightarrow> string \<Rightarrow> string option" where
  "sectionBlock markdown level title =
     (case re_exec (heading_pattern level title) markdown of None \<Rightarrow> None
      | Some m \<Rightarrow>
          (let later = m_post m
           in case re_exec (sq [StartLine, between 1 level (chr CHR ''#''), plus ws]) later of
                None \<Rightarrow> Some (js_trim later)
              | Some n \<Rightarrow> Some (js_trim (m_pre n))))"

definition countHeading :: "string \<Rightarrow> nat \<Rightarrow> string \<Rightarrow> nat" where
  "countHeading markdown level title = length (match_all (heading_pattern level title) markdown)"

text \<open>\<open>Number.parseInt(s, 10)\<close>\<close>

definition parse_int :: "string \<Rightarrow> int option" where
  "parse_int s =
     (let t = js_trim_start s;
          neg = (t \<noteq> [] \<and> hd t = CHR ''-'');
          u = (if t \<noteq> [] \<and> hd t \<in> {CHR ''-'', CHR ''+''} then tl t else t);
          ds = takeWhile js_digit u
      in if ds = [] then None else Some (if neg then - int (dec_val ds) else int (dec_val ds)))"

definition readiness_line :: regex where
  "readiness_line =
     sq [StartText, chr CHR ''-'', star ws, Grp 1 (plus (none_of '':'')), chr CHR '':'', star ws,
         Grp 2 (Seq dot (lazy dot)), star ws, EndText]"

definition readiness_values :: "string \<Rightarrow> (string, string) js_map" where
  "readiness_values block =
     foldl (\<lambda>m line. case re_exec readiness_line (js_trim line) of None \<Rightarrow> m
          | Some r \<Rightarrow>
              (case (group r 1, group r 2) of
                 (Some k, Some v) \<Rightarrow> map_set (js_trim k) (js_trim v) m | _ \<Rightarrow> m))
       [] (split_char nl block)"

definition readiness_keys :: "string list" where
  "readiness_keys =
     [''promotion-ready'', ''unresolved-count'', ''verified-at'', ''verified-head'', ''trust-gate-version'']"

definition requiredValue :: "(string, string) js_map \<Rightarrow> string \<Rightarrow> string" where
  "requiredValue values key = (case map_get values key of None \<Rightarrow> [] | Some v \<Rightarrow> v)"

text \<open>The verdict and the violations found on the way; \<open>requiredValue\<close> is asked for keys that are there.\<close>

definition parseReadiness :: "string \<Rightarrow> readiness_verdict option \<times> dossier_violation list" where
  "parseReadiness block =
     (let values = readiness_values block;
          missing = filter (\<lambda>k. \<not> map_has values k) readiness_keys
      in (if missing \<noteq> [] then None
          else Some \<lparr>promotionReady = (requiredValue values ''promotion-ready'' = ''true''),
                     unresolvedCount = parse_int (requiredValue values ''unresolved-count''),
                     verifiedAt = requiredValue values ''verified-at'',
                     verifiedHead = requiredValue values ''verified-head'',
                     trustGateVersion = requiredValue values ''trust-gate-version''\<rparr>,
          map (\<lambda>k. violation ''Readiness Verdict'' (''missing '' @ k)) missing))"

definition splitRow :: "string \<Rightarrow> string list" where
  "splitRow row = map js_trim (split_char CHR ''|'' (butlast (drop 1 row)))"

definition table_rows :: "string \<Rightarrow> string list" where
  "table_rows block =
     filter (\<lambda>l. starts_with l ''|'' \<and> ends_with l ''|'') (map js_trim (split_char nl block))"

definition parseTable ::
    "string \<Rightarrow> string \<Rightarrow> string list \<Rightarrow> (string list \<Rightarrow> 'a) \<Rightarrow> 'a list \<times> dossier_violation list" where
  "parseTable block sec expectedHeader build =
     (let rows = table_rows block
      in if length rows < 2 then ([], [violation sec ''missing markdown table''])
         else if js_lower (join_with ''|'' (splitRow (rows ! 0))) \<noteq> js_lower (join_with ''|'' expectedHeader)
         then ([], [violation sec (''malformed table header for '' @ sec)])
         else (let cells = map splitRow (drop 2 rows)
               in (map build (filter (\<lambda>c. length c = length expectedHeader) cells),
                   map (\<lambda>_. violation sec (''malformed table row in '' @ sec))
                     (filter (\<lambda>c. length c \<noteq> length expectedHeader) cells))))"

definition placeholder_pattern :: regex where
  "placeholder_pattern =
     alts [sq [chr CHR ''<'', plus (none_of ''>''), chr CHR ''>''], sq [WordBd, lit ''TBD'', WordBd],
           sq [WordBd, lit ''TODO'', WordBd]]"

definition containsPlaceholder :: "string \<Rightarrow> bool" where
  "containsPlaceholder v = re_test placeholder_pattern v"

fun mk_claim :: "string list \<Rightarrow> material_claim" where
  "mk_claim cs = \<lparr>mc_id = cs ! 0, mc_claim = cs ! 1, mc_evidence = cs ! 2\<rparr>"

fun mk_decision :: "string list \<Rightarrow> material_decision" where
  "mk_decision cs = \<lparr>md_id = cs ! 0, decision = cs ! 1, chosenOption = cs ! 2,
     rejectedAlternatives = cs ! 3, rationale = cs ! 4\<rparr>"

fun mk_gate :: "string list \<Rightarrow> promotion_gate" where
  "mk_gate cs = \<lparr>gate = cs ! 0, gate_command = cs ! 1, expectedOutcome = cs ! 2, lastResult = cs ! 3\<rparr>"

text \<open>The block of a subsection with the violations of its presence.\<close>

definition subsection_violations :: "string \<Rightarrow> string \<times> string option \<Rightarrow> dossier_violation list" where
  "subsection_violations dossierBlock e =
     (if snd e = None then [violation (fst e) (''missing '' @ fst e @ '' subsection'')] else [])
     @ (if countHeading dossierBlock 3 (fst e) > 1
        then [violation (fst e) (''duplicate '' @ fst e @ '' subsection'')] else [])"

definition requiredBlock :: "(string \<times> string option) list \<Rightarrow> string \<Rightarrow> string" where
  "requiredBlock blocks key = (case map_of blocks key of Some (Some b) \<Rightarrow> b | _ \<Rightarrow> [])"

definition parseTrustDossier :: "string \<Rightarrow> trust_dossier option \<times> dossier_violation list" where
  "parseTrustDossier markdown =
     (case sectionBlock (stripFencedCodeBlocks markdown) 2 ''Trust Dossier'' of
        None \<Rightarrow> (None, [violation ''Trust Dossier'' ''missing Trust Dossier section''])
      | Some dossierBlock \<Rightarrow>
          (let blocks = map (\<lambda>s. (s, sectionBlock dossierBlock 3 s)) REQUIRED_SUBSECTIONS;
               missing = concat (map (subsection_violations dossierBlock) blocks)
           in if missing \<noteq> [] then (None, missing)
              else
                (let block = requiredBlock blocks;
                     (ready, v1) = parseReadiness (block ''Readiness Verdict'');
                     (cs, v2) = parseTable (block ''Material Claims'') ''Material Claims''
                        [''ID'', ''Claim'', ''Evidence''] mk_claim;
                     (ds, v3) = parseTable (block ''Material Decisions'') ''Material Decisions''
                        [''ID'', ''Decision'', ''Chosen option'', ''Rejected alternatives'', ''Rationale'']
                        mk_decision;
                     (gs, v4) = parseTable (block ''Promotion Gates'') ''Promotion Gates''
                        [''Gate'', ''Command'', ''Expected outcome'', ''Last result''] mk_gate;
                     v5 = map (\<lambda>s. violation s ''placeholder values are not allowed'')
                            (filter (\<lambda>s. containsPlaceholder (block s)) REQUIRED_SUBSECTIONS);
                     violations = v1 @ v2 @ v3 @ v4 @ v5
                 in (if violations \<noteq> [] then None
                     else map_option (\<lambda>r. \<lparr>readiness = r, claims = cs, decisions = ds, gates = gs,
                            residualUnknowns = js_trim (block ''Residual Unknowns'')\<rparr>) ready,
                     violations))))"

section \<open>Promotion gate commands (gates.ts)\<close>

definition unsafe_char_pattern :: regex where
  "unsafe_char_pattern = one_of [CHR ''|'', CHR '';'', CHR ''&'', CHR 0x60, CHR ''$'', CHR ''<'', CHR ''>'']"

definition unsafe_flag_pattern :: regex where
  "unsafe_flag_pattern = sq [ws, lit ''--'', alts [lit ''fix'', lit ''mutation''], WordBd]"

definition kind_pattern :: regex where
  "kind_pattern = sq [StartText, plus (Cls (\<lambda>c. js_lower_char c \<or> js_digit c \<or> c = CHR ''-'')), EndText]"

fun audit_args_ok :: "string list \<Rightarrow> bool" where
  "audit_args_ok [] = True"
| "audit_args_ok (arg # args) =
     (if arg \<in> {''--json'', ''--affected'', ''--branch''} then audit_args_ok args
      else (case args of [] \<Rightarrow> False
            | next # later \<Rightarrow>
                arg = ''--base'' \<and> next \<noteq> [] \<and> \<not> starts_with next ''-'' \<and> audit_args_ok later))"

fun test_args_ok :: "string list \<Rightarrow> bool" where
  "test_args_ok [] = True"
| "test_args_ok [arg] = False"
| "test_args_ok (arg # next # args) =
     (arg = ''--file'' \<and> next \<noteq> [] \<and> \<not> starts_with next ''-'' \<and> test_args_ok args)"

definition gate_words :: "string \<Rightarrow> string list" where
  "gate_words command = re_split (plus ws) (js_trim command)"

definition parseAllowedWpCommand :: "string \<Rightarrow> string list throws" where
  "parseAllowedWpCommand command =
     (if re_test unsafe_char_pattern command \<or> re_test unsafe_flag_pattern command then
        Inl (''Rejected unsafe promotion gate command: '' @ command)
      else
        (let argv = gate_words command; binary = hd argv; args = tl argv;
             sub = (case args of [] \<Rightarrow> [] | s # _ \<Rightarrow> s)
         in if binary \<noteq> ''wp'' \<and> binary \<noteq> ''./bin/wp'' then
              Inl (''Promotion gates must use wp facade commands: '' @ command)
            else if sub = ''typecheck'' \<or> sub = ''lint'' then
              (if length args \<noteq> 1 then
                 Inl (''Unsupported promotion gate wp '' @ sub @ '' arguments: '' @ command)
               else Inr argv)
            else if sub = ''format'' \<or> sub = ''sync'' then
              (if length args \<noteq> 2 \<or> args ! 1 \<noteq> ''--check'' then
                 Inl (''Promotion gate wp '' @ sub @ '' must be read-only: '' @ command)
               else Inr argv)
            else if sub = ''audit'' then
              (if length args < 2 \<or> \<not> re_test kind_pattern (args ! 1) then
                 Inl (''Promotion gate wp audit requires an audit kind: '' @ command)
               else if \<not> audit_args_ok (drop 2 args) then
                 Inl (''Unsupported promotion gate wp audit arguments: '' @ command)
               else Inr argv)
            else if sub = ''test'' then
              (if \<not> test_args_ok (tl args) then
                 Inl (''Unsupported promotion gate wp test arguments: '' @ command)
               else Inr argv)
            else Inl (''Unsupported promotion gate wp subcommand: '' @ sub)))"

section \<open>Open questions (ambiguity.ts)\<close>

definition task_banned_pattern :: regex where
  "task_banned_pattern =
     alts [sq [WordBd, alts [lit ''TBD'', lit ''TODO''], WordBd],
           sq [WordBd, lit ''decide during implementation'', WordBd],
           sq [WordBd, lit ''open question'', WordBd]]"

definition banned_pattern :: regex where
  "banned_pattern =
     Alt task_banned_pattern (sq [chr CHR ''<'', plus (none_of ''>''), chr CHR ''>''])"

definition task_start_pattern :: regex where
  "task_start_pattern = sq [StartText, between 3 6 (chr CHR ''#''), plus ws, lit_i ''Task'', WordBd]"

definition task_end_pattern :: regex where
  "task_end_pattern = sq [StartText, between 1 3 (chr CHR ''#''), plus ws]"

fun task_blocks :: "string list \<Rightarrow> string list option \<Rightarrow> string list" where
  "task_blocks [] current = (case current of None \<Rightarrow> [] | Some ls \<Rightarrow> [join_with [nl] ls])"
| "task_blocks (line # lines) current =
     (if re_test task_start_pattern line then
        (case current of None \<Rightarrow> [] | Some ls \<Rightarrow> [join_with [nl] ls]) @ task_blocks lines (Some [line])
      else (case current of None \<Rightarrow> task_blocks lines None
            | Some ls \<Rightarrow>
                if re_test task_end_pattern line then join_with [nl] ls # task_blocks lines None
                else task_blocks lines (Some (ls @ [line]))))"

definition extractTaskBlocks :: "string \<Rightarrow> string list" where
  "extractTaskBlocks markdown = task_blocks (split_char nl markdown) None"

definition ambiguity_checks :: "trust_dossier \<Rightarrow> (string \<times> string \<times> string option) list" where
  "ambiguity_checks d =
     (''Residual Unknowns'', residualUnknowns d, None)
     # concat (map (\<lambda>x. map (\<lambda>v. (''Material Decisions'', v, Some (md_id x)))
                      [decision x, chosenOption x, rationale x]) (decisions d))
     @ concat (map (\<lambda>g. map (\<lambda>v. (''Promotion Gates'', v, Some (gate g)))
                      [gate_command g, expectedOutcome g, lastResult g]) (gates d))"

definition validateTrustAmbiguity :: "trust_dossier \<Rightarrow> string option \<Rightarrow> dossier_violation list" where
  "validateTrustAmbiguity d markdown =
     map (\<lambda>(sec, v, cid). \<lparr>vi_section = sec, vi_claimId = cid,
            vi_message = ''unresolved ambiguity is not allowed in executable trust sections''\<rparr>)
       (filter (\<lambda>(sec, v, cid). re_test banned_pattern v) (ambiguity_checks d))
     @ (if js_trim (residualUnknowns d) \<noteq> ''None.''
        then [violation ''Residual Unknowns'' (''Residual Unknowns must be exactly '' @ [CHR 0x60]
               @ ''None.'' @ [CHR 0x60])] else [])
     @ (if truthy markdown \<and> list_ex (re_test task_banned_pattern) (extractTaskBlocks (the markdown))
        then [violation ''Tasks'' ''unresolved ambiguity is not allowed in executable task sections'']
        else [])"

end
