(* ===== verification/TrustGate.thy ===== *)
theory TrustGate
  imports TrustDossier
begin

text \<open>
  The trust gate of \<open>src/blueprint/trust/\<close>: the evidence of the claims (evidence.ts), the
  validator (validator.ts) and the promotion (promotion.ts).  The file system, the URL parser, git
  and the processes a promotion runs are fields of \<open>trust_env\<close>.
\<close>

record trust_env =
  repo_has :: "string \<Rightarrow> bool"              \<comment> \<open>\<open>existsSync(path.join(repoRoot, rel))\<close>\<close>
  url_parses :: "string \<Rightarrow> bool"            \<comment> \<open>\<open>new URL(url)\<close> does not throw\<close>
  git_head :: "string option"               \<comment> \<open>\<open>readHead\<close>, \<open>None\<close> if it throws\<close>
  now_iso :: string
  gate_run :: "string list \<Rightarrow> string option"  \<comment> \<open>the failure message of a run, if it fails\<close>

section \<open>Evidence (evidence.ts)\<close>

definition MC :: string where "MC = ''Material Claims''"

definition escaped_mark :: regex where
  "escaped_mark = Seq (chr CHR 0x5C)
     (Grp 1 (one_of (CHR 0x5C # CHR 0x60 # ''*_{}[]()#+-.!|'')))"

definition unescapeMarkdownPathToken :: "string \<Rightarrow> string" where
  "unescapeMarkdownPathToken v =
     replace_all escaped_mark (\<lambda>m. case group m 1 of None \<Rightarrow> [] | Some s \<Rightarrow> s) v"

definition web_pattern :: regex where
  "web_pattern =
     sq [StartText, lit ''web:'', Grp 1 (plus non_ws), plus ws, chr CHR ''('',
         Grp 2 (sq [times 4 digit, chr CHR ''-'', times 2 digit, chr CHR ''-'', times 2 digit]),
         chr CHR '')'', EndText]"

definition trimmed_parts :: "char \<Rightarrow> string \<Rightarrow> string list" where
  "trimmed_parts c s = filter (\<lambda>t. t \<noteq> []) (map js_trim (split_char c s))"

definition derived_refs :: "string \<Rightarrow> string list" where
  "derived_refs token = trimmed_parts CHR '','' (drop (length ''derived:'') token)"

definition token_violations :: "trust_env \<Rightarrow> string list \<Rightarrow> string \<Rightarrow> string \<Rightarrow> dossier_violation list" where
  "token_violations env ids cid token =
     (if starts_with token ''repo:'' then
        (let rel = unescapeMarkdownPathToken (js_trim (drop (length ''repo:'') token))
         in if starts_with rel ''/'' \<or> ''..'' \<in> set (re_split (plus (one_of [CHR 0x5C, CHR ''/''])) rel) then
              [claim_violation MC cid (''repo evidence must stay under repo root: '' @ rel)]
            else if \<not> repo_has env rel then
              [claim_violation MC cid (''repo evidence path does not exist: '' @ rel)]
            else [])
      else if starts_with token ''web:'' then
        (case re_exec web_pattern token of
           None \<Rightarrow> [claim_violation MC cid (''web evidence must include URL and date: '' @ token)]
         | Some m \<Rightarrow>
             (let url = (case group m 1 of None \<Rightarrow> [] | Some u \<Rightarrow> u)
              in if url_parses env url then []
                 else [claim_violation MC cid (''invalid web evidence URL: '' @ url)]))
      else if starts_with token ''derived:'' then
        concat (map (\<lambda>r.
            (if r = cid then [claim_violation MC cid ''derived evidence cannot reference itself''] else [])
            @ (if r \<notin> set ids then [claim_violation MC cid (''unknown derived claim id: '' @ r)] else []))
          (derived_refs token))
      else [claim_violation MC cid (''unknown evidence token: '' @ token)])"

definition evidence_tokens :: "material_claim \<Rightarrow> string list" where
  "evidence_tokens c = trimmed_parts CHR '';'' (mc_evidence c)"

definition claim_violations :: "trust_env \<Rightarrow> string list \<Rightarrow> material_claim \<Rightarrow> dossier_violation list" where
  "claim_violations env ids c =
     (if js_trim (mc_evidence c) = [] then [claim_violation MC (mc_id c) ''claim evidence is required'']
      else concat (map (token_violations env ids (mc_id c)) (evidence_tokens c)))"

text \<open>\<open>derived.set(claim.id, refs)\<close> for each derived token, in the order of the loops.\<close>

definition derived_graph :: "material_claim list \<Rightarrow> (string, string list) js_map" where
  "derived_graph cs =
     foldl (\<lambda>m (i, t). map_set i (derived_refs t) m) []
       (concat (map (\<lambda>c. map (\<lambda>t. (mc_id c, t))
           (filter (\<lambda>t. starts_with t ''derived:'') (evidence_tokens c))) cs))"

fun duplicate_ids :: "string list \<Rightarrow> string list \<Rightarrow> string list" where
  "duplicate_ids seen [] = []"
| "duplicate_ids seen (i # is) = (if i \<in> set seen then [i] else []) @ duplicate_ids (i # seen) is"

text \<open>
  The recursion of \<open>hasCycle\<close>: the set \<open>visiting\<close> holds the nodes of the current path, the
  set \<open>visited\<close> is threaded through.  \<open>None\<close>: the recursion is deeper than the first argument.
\<close>

fun cycle_loop :: "(string list \<Rightarrow> string \<Rightarrow> (bool \<times> string list) option) \<Rightarrow> string list \<Rightarrow> string list
    \<Rightarrow> (bool \<times> string list) option" where
  "cycle_loop rec visited [] = Some (False, visited)"
| "cycle_loop rec visited (v # vs) =
     (case rec visited v of None \<Rightarrow> None
      | Some (True, visited') \<Rightarrow> Some (True, visited')
      | Some (False, visited') \<Rightarrow> cycle_loop rec visited' vs)"

definition graph_at :: "(string, string list) js_map \<Rightarrow> string \<Rightarrow> string list" where
  "graph_at g i = (case map_get g i of None \<Rightarrow> [] | Some vs \<Rightarrow> vs)"

fun hasCycle :: "nat \<Rightarrow> (string, string list) js_map \<Rightarrow> string list \<Rightarrow> string list \<Rightarrow> string
    \<Rightarrow> (bool \<times> string list) option" where
  "hasCycle 0 g visiting visited i = None"
| "hasCycle (Suc n) g visiting visited i =
     (if i \<in> set visiting then Some (True, visited)
      else if i \<in> set visited then Some (False, visited)
      else (case cycle_loop (hasCycle n g (i # visiting)) visited (graph_at g i) of
              None \<Rightarrow> None
            | Some (True, visited') \<Rightarrow> Some (True, visited')
            | Some (False, visited') \<Rightarrow> Some (False, i # visited')))"

definition on_cycle :: "(string, string list) js_map \<Rightarrow> string \<Rightarrow> bool" where
  "on_cycle g i = (case hasCycle (Suc (length g)) g [] [] i of None \<Rightarrow> False | Some (b, _) \<Rightarrow> b)"

definition validateTrustEvidence :: "trust_env \<Rightarrow> trust_dossier \<Rightarrow> dossier_violation list" where
  "validateTrustEvidence env d =
     (let all = map mc_id (claims d); ids = set_of_list all; derived = derived_graph (claims d)
      in map (\<lambda>i. claim_violation MC i (''duplicate claim id '' @ i)) (duplicate_ids [] all)
         @ concat (map (claim_violations env ids) (claims d))
         @ map (\<lambda>i. claim_violation MC i ''derived evidence cycle detected'') (filter (on_cycle derived) ids))"

section \<open>The validator (validator.ts)\<close>

datatype trust_status = TS_draft | TS_planned | TS_in_progress | TS_completed

record trust_input =
  ti_status :: trust_status
  ti_markdown :: string
  promotionCandidate :: bool
  requirePassingGates :: bool
  scanTaskAmbiguity :: bool

definition iso_pattern :: regex where
  "iso_pattern = sq [StartText, times 4 digit, chr CHR ''-'', times 2 digit, chr CHR ''-'', times 2 digit, chr CHR ''T'']"

definition sha_pattern :: regex where
  "sha_pattern = sq [StartText,
     times 40 (Cls (\<lambda>c. js_digit c \<or> c \<in> set ''abcdefABCDEF'')), EndText]"

definition pass_pattern :: regex where
  "pass_pattern = sq [StartText, lit_i ''pass'', WordBd]"

definition readiness_violations :: "readiness_verdict \<Rightarrow> dossier_violation list" where
  "readiness_violations r =
     (if \<not> promotionReady r then [violation ''Readiness Verdict'' ''promotion-ready must be true''] else [])
     @ (if unresolvedCount r \<noteq> Some 0 then [violation ''Readiness Verdict'' ''unresolved-count must be 0''] else [])
     @ (if \<not> re_test iso_pattern (verifiedAt r)
        then [violation ''Readiness Verdict'' ''verified-at must be an ISO timestamp''] else [])
     @ (if \<not> re_test sha_pattern (verifiedHead r)
        then [violation ''Readiness Verdict'' ''verified-head must be a full git SHA''] else [])"

definition presence_violations :: "trust_dossier \<Rightarrow> dossier_violation list" where
  "presence_violations d =
     (if claims d = [] then [violation MC ''at least one material claim is required''] else [])
     @ (if decisions d = []
        then [violation ''Material Decisions'' ''at least one material decision is required''] else [])
     @ (if gates d = []
        then [violation ''Promotion Gates'' ''at least one promotion gate is required''] else [])"

definition gate_violations :: "bool \<Rightarrow> promotion_gate \<Rightarrow> dossier_violation list" where
  "gate_violations requirePass g =
     (case parseAllowedWpCommand (gate_command g) of
        Inl e \<Rightarrow> [claim_violation ''Promotion Gates'' (gate g) e] | Inr _ \<Rightarrow> [])
     @ (if requirePass \<and> \<not> re_test pass_pattern (lastResult g)
        then [claim_violation ''Promotion Gates'' (gate g) ''promotion gate Last result must be pass''] else [])"

text \<open>The violations; \<open>ok\<close> is that there are none.\<close>

definition validateBlueprintTrust :: "trust_env \<Rightarrow> trust_input \<Rightarrow> dossier_violation list" where
  "validateBlueprintTrust env input =
     (if ti_status input = TS_draft \<and> \<not> promotionCandidate input then []
      else (case parseTrustDossier (ti_markdown input) of
              (None, vs) \<Rightarrow> vs
            | (Some d, vs) \<Rightarrow>
                vs @ validateTrustEvidence env d
                @ validateTrustAmbiguity d (if scanTaskAmbiguity input then Some (ti_markdown input) else None)
                @ readiness_violations (readiness d) @ presence_violations d
                @ concat (map (gate_violations (requirePassingGates input)) (gates d))))"

section \<open>Promotion (promotion.ts)\<close>

definition readiness_entry :: "string \<Rightarrow> regex" where
  "readiness_entry key = sq [StartLine, lit (''- '' @ key @ '': ''), star dot, EndLine]"

definition verdict_heading :: regex where
  "verdict_heading = sq [StartText, lit ''###'', plus ws, lit_i ''Readiness Verdict'', star ws, EndText]"

definition insert_line :: "string \<Rightarrow> string list \<Rightarrow> string list" where
  "insert_line entry lines =
     (let ahead = takeWhile (\<lambda>l. \<not> re_test verdict_heading l) lines;
          after = drop (Suc (length ahead)) lines;
          blank = takeWhile (\<lambda>l. js_trim l = []) after
      in ahead @ [lines ! length ahead] @ blank @ [entry] @ drop (length blank) after)"

definition upsertReadinessValue :: "string \<Rightarrow> string \<Rightarrow> string \<Rightarrow> string" where
  "upsertReadinessValue markdown key v =
     (let entry = ''- '' @ key @ '': '' @ v; lines = split_char nl markdown
      in if re_test (readiness_entry key) markdown then replace_with (readiness_entry key) entry markdown
         else if \<not> list_ex (re_test verdict_heading) lines then markdown
         else join_with [nl] (insert_line entry lines))"

definition gate_cells :: "string \<Rightarrow> string list" where
  "gate_cells line =
     (if starts_with (js_trim line) ''|''
      then map js_trim (split_char CHR ''|'' (butlast (drop 1 line))) else [])"

definition update_gate_line :: "string \<Rightarrow> string \<Rightarrow> string \<Rightarrow> string" where
  "update_gate_line g result line =
     (let cells = gate_cells line
      in if length cells = 4 \<and> cells ! 0 = g
         then ''| '' @ cells ! 0 @ '' | '' @ cells ! 1 @ '' | '' @ cells ! 2 @ '' | '' @ result @ '' |''
         else line)"

definition updateGateLastResult :: "string \<Rightarrow> string \<Rightarrow> string \<Rightarrow> string" where
  "updateGateLastResult markdown g result =
     join_with [nl] (map (update_gate_line g result) (split_char nl markdown))"

definition runPromotionCommand :: "trust_env \<Rightarrow> string \<Rightarrow> unit throws" where
  "runPromotionCommand env command =
     and_then (parseAllowedWpCommand command)
       (\<lambda>argv. case gate_run env argv of None \<Rightarrow> Inr () | Some failure \<Rightarrow> Inl failure)"

fun run_gates :: "trust_env \<Rightarrow> promotion_gate list \<Rightarrow> string \<Rightarrow> string throws" where
  "run_gates env [] markdown = Inr markdown"
| "run_gates env (g # gs) markdown =
     and_then (runPromotionCommand env (gate_command g))
       (\<lambda>_. run_gates env gs (updateGateLastResult markdown (gate g) (''pass at '' @ now_iso env)))"

definition gate_failed :: "dossier_violation list \<Rightarrow> string" where
  "gate_failed vs = ''Blueprint trust gate failed: ''
     @ join_with ''; '' (map (\<lambda>v. vi_section v @ '': '' @ vi_message v) vs)"

definition candidate :: "string \<Rightarrow> bool \<Rightarrow> trust_input" where
  "candidate markdown pass =
     \<lparr>ti_status = TS_draft, ti_markdown = markdown, promotionCandidate = True,
      requirePassingGates = pass, scanTaskAmbiguity = True\<rparr>"

definition applyPromotionTrustGate :: "trust_env \<Rightarrow> string \<Rightarrow> string throws" where
  "applyPromotionTrustGate env markdown =
     (let now = now_iso env;
          syntactic = upsertReadinessValue (upsertReadinessValue markdown ''verified-at'' now)
            ''verified-head'' ''0123456789abcdef0123456789abcdef01234567'';
          early = snd (parseTrustDossier syntactic)
      in if early \<noteq> [] then Inl (gate_failed early)
         else (case git_head env of
             None \<Rightarrow> Inl ''Blueprint trust gate failed: git HEAD is unavailable''
           | Some head \<Rightarrow>
               (let md1 = upsertReadinessValue (upsertReadinessValue markdown ''verified-at'' now)
                      ''verified-head'' head;
                    preflight = validateBlueprintTrust env (candidate md1 False)
                in if preflight \<noteq> [] then Inl (gate_failed preflight)
                   else
                     and_then (run_gates env (case fst (parseTrustDossier md1) of None \<Rightarrow> [] | Some d \<Rightarrow> gates d) md1)
                       (\<lambda>md2. let after = validateBlueprintTrust env (candidate md2 True)
                              in if after \<noteq> [] then Inl (gate_failed after) else Inr md2))))"

end
