(* ===== verification/TrustSample.thy ===== *)
theory TrustSample
  imports TrustGate
begin

text \<open>
  A small trust dossier, with the results of the definitions of \<open>TrustGate\<close> on it: the concrete input
  at which the theorems of \<open>TrustProps\<close> are applied.
\<close>

definition sample_dossier :: string where
  "sample_dossier = join_with [nl]
     [''## Trust Dossier'', ''### Readiness Verdict'', ''- promotion-ready: true'', ''- unresolved-count: 0'',
      ''- verified-at: 2026-01-02T'', ''- verified-head: 0123456789abcdef0123456789abcdef01234567'',
      ''- trust-gate-version: 1'',
      ''### Material Claims'', ''| ID | Claim | Evidence |'', ''| - | - | - |'', ''| C1 | c | repo:a |'',
      ''### Material Decisions'', ''| ID | Decision | Chosen option | Rejected alternatives | Rationale |'',
      ''| - | - | - | - | - |'', ''| D1 | d | o | r | s |'',
      ''### Promotion Gates'', ''| Gate | Command | Expected outcome | Last result |'', ''| - | - | - | - |'',
      ''| lint | wp lint | ok | pass at 2026-01-02T |'', ''### Residual Unknowns'', ''None.'']"

definition sample_trust_env :: trust_env where
  "sample_trust_env = \<lparr>repo_has = (\<lambda>p. p = ''a''), url_parses = (\<lambda>_. False),
     git_head = Some ''0123456789abcdef0123456789abcdef01234567'', now_iso = ''2026-01-02T'',
     gate_run = (\<lambda>a. if a = [''wp'', ''lint''] then None else Some ''no'')\<rparr>"

definition sample_parsed :: trust_dossier where
  "sample_parsed =
     \<lparr>readiness = \<lparr>promotionReady = True, unresolvedCount = Some 0, verifiedAt = ''2026-01-02T'',
        verifiedHead = ''0123456789abcdef0123456789abcdef01234567'', trustGateVersion = ''1''\<rparr>,
      claims = [\<lparr>mc_id = ''C1'', mc_claim = ''c'', mc_evidence = ''repo:a''\<rparr>],
      decisions = [\<lparr>md_id = ''D1'', decision = ''d'', chosenOption = ''o'', rejectedAlternatives = ''r'', rationale = ''s''\<rparr>],
      gates = [\<lparr>gate = ''lint'', gate_command = ''wp lint'', expectedOutcome = ''ok'', lastResult = ''pass at 2026-01-02T''\<rparr>],
      residualUnknowns = ''None.''\<rparr>"

lemma sample_dossier_parsed: "parseTrustDossier sample_dossier = (Some sample_parsed, [])"
  by code_simp

lemma sample_stamped:
  "upsertReadinessValue sample_dossier ''verified-at'' ''2026-01-02T'' = sample_dossier"
  "upsertReadinessValue sample_dossier ''verified-head'' ''0123456789abcdef0123456789abcdef01234567'' = sample_dossier"
  by code_simp+

lemma sample_recorded: "updateGateLastResult sample_dossier ''lint'' ''pass at 2026-01-02T'' = sample_dossier"
  by code_simp

lemma sample_checks:
  "validateTrustEvidence sample_trust_env sample_parsed = []"
  "readiness_violations (readiness sample_parsed) = []" "presence_violations sample_parsed = []"
  "validateTrustAmbiguity sample_parsed (Some sample_dossier) = []"
  "gate_violations True (hd (gates sample_parsed)) = []" "gate_violations False (hd (gates sample_parsed)) = []"
  by code_simp+

lemma sample_gate: "parseAllowedWpCommand ''wp lint'' = Inr [''wp'', ''lint'']"
  by code_simp

lemma sample_accepted: "validateBlueprintTrust sample_trust_env (candidate sample_dossier p) = []"
proof -
  have "gates sample_parsed = [hd (gates sample_parsed)]" by (simp add: sample_parsed_def)
  then have "concat (map (gate_violations p) (gates sample_parsed)) = gate_violations p (hd (gates sample_parsed))"
    by (metis append_Nil2 concat.simps list.map)
  then show ?thesis using sample_checks
    by (cases p) (simp_all add: validateBlueprintTrust_def candidate_def sample_dossier_parsed)
qed

lemma sample_promoted: "applyPromotionTrustGate sample_trust_env sample_dossier = Inr sample_dossier"
proof -
  have "run_gates sample_trust_env (gates sample_parsed) sample_dossier = Inr sample_dossier"
    using sample_recorded
    by (simp add: sample_parsed_def runPromotionCommand_def sample_gate sample_trust_env_def)
  moreover have "now_iso sample_trust_env = ''2026-01-02T''"
      "git_head sample_trust_env = Some ''0123456789abcdef0123456789abcdef01234567''"
    by (simp_all add: sample_trust_env_def)
  ultimately show ?thesis
    by (simp only: applyPromotionTrustGate_def Let_def sample_stamped sample_dossier_parsed sample_accepted
        option.case prod.sel if_False simp_thms and_then.simps)
qed

end
