(* ===== verification/TrustProps.thy ===== *)
theory TrustProps
  imports TrustGate GraphFacts TrustSample
begin

text \<open>What the trust gate promises, and where it misses something.\<close>

section \<open>The commands a promotion may run\<close>

lemma split_at_chars: "p \<in> set (split_at pos r ms) \<Longrightarrow> set p \<subseteq> set r"
proof (induction ms arbitrary: pos r)
  case (Cons m ms)
  from Cons.prems consider "p = take (m_index m - pos) r"
    | "p \<in> set (split_at (m_index m + length (m_text m)) (drop (m_index m - pos + length (m_text m)) r) ms)"
    by (auto simp: Let_def)
  then show ?case
  proof cases
    case 1
    then show ?thesis by (simp add: set_take_subset)
  next
    case 2
    from Cons.IH [OF this] show ?thesis using set_drop_subset by fastforce
  qed
qed simp

lemma gate_words_chars: "w \<in> set (gate_words command) \<Longrightarrow> set w \<subseteq> set command"
proof -
  assume "w \<in> set (gate_words command)"
  then have "set w \<subseteq> set (js_trim command)"
    unfolding gate_words_def re_split_def by (rule split_at_chars)
  also have "\<dots> \<subseteq> set command"
    by (auto simp: js_trim_def js_trim_start_def js_trim_end_def dest!: set_dropWhileD)
  finally show ?thesis .
qed

lemma one_of_absent: "\<not> re_test (one_of cs) s \<Longrightarrow> set s \<inter> set cs = {}"
proof -
  have "exec_from (one_of cs) b s = None \<Longrightarrow> set s \<inter> set cs = {}" for b
  proof (induction s arbitrary: b)
    case (Cons c s)
    then show ?case by (auto simp: match_here_def one_of_def split: option.splits if_splits)
  qed simp
  then show "\<not> re_test (one_of cs) s \<Longrightarrow> set s \<inter> set cs = {}"
    by (auto simp: re_test_def re_exec_def)
qed

text \<open>The grammar of the accepted argument vectors.\<close>

inductive audit_options :: "string list \<Rightarrow> bool" where
  audit_end: "audit_options []"
| audit_flag: "f \<in> {''--json'', ''--affected'', ''--branch''} \<Longrightarrow> audit_options os \<Longrightarrow> audit_options (f # os)"
| audit_base: "r \<noteq> [] \<Longrightarrow> \<not> starts_with r ''-'' \<Longrightarrow> audit_options os \<Longrightarrow> audit_options (''--base'' # r # os)"

inductive test_options :: "string list \<Rightarrow> bool" where
  test_end: "test_options []"
| test_file: "f \<noteq> [] \<Longrightarrow> \<not> starts_with f ''-'' \<Longrightarrow> test_options os \<Longrightarrow> test_options (''--file'' # f # os)"

inductive gate_argv :: "string list \<Rightarrow> bool" where
  g_check: "b \<in> {''wp'', ''./bin/wp''} \<Longrightarrow> sub \<in> {''typecheck'', ''lint''} \<Longrightarrow> gate_argv [b, sub]"
| g_readonly: "b \<in> {''wp'', ''./bin/wp''} \<Longrightarrow> sub \<in> {''format'', ''sync''} \<Longrightarrow> gate_argv [b, sub, ''--check'']"
| g_audit: "b \<in> {''wp'', ''./bin/wp''} \<Longrightarrow> re_test kind_pattern kind \<Longrightarrow> audit_options os \<Longrightarrow>
    gate_argv (b # ''audit'' # kind # os)"
| g_test: "b \<in> {''wp'', ''./bin/wp''} \<Longrightarrow> test_options os \<Longrightarrow> gate_argv (b # ''test'' # os)"

inductive_simps audit_options_Nil: "audit_options []"
inductive_simps audit_options_Cons: "audit_options (a # os)"
inductive_simps test_options_simps: "test_options []" "test_options [a]" "test_options (a # b # os)"
inductive_cases gate_argvE: "gate_argv argv"

lemma audit_args_iff: "audit_args_ok os \<longleftrightarrow> audit_options os"
proof (induction os rule: audit_args_ok.induct)
  case (2 arg args)
  then show ?case by (subst audit_options_Cons) (auto split: list.splits)
qed (simp add: audit_end)

lemma test_args_iff: "test_args_ok os \<longleftrightarrow> test_options os"
  by (induction os rule: test_args_ok.induct) (auto simp: test_options_simps)

lemma gate_words_not_Nil: "gate_words command \<noteq> []"
proof -
  have "split_at pos r ms \<noteq> []" for pos r ms by (cases ms) (simp_all add: Let_def)
  then show ?thesis by (simp add: gate_words_def re_split_def)
qed

inductive_simps gate_argv_short: "gate_argv [b]"
inductive_simps gate_argv_check: "gate_argv (b # ''typecheck'' # os)" "gate_argv (b # ''lint'' # os)"
inductive_simps gate_argv_readonly: "gate_argv (b # ''format'' # os)" "gate_argv (b # ''sync'' # os)"
inductive_simps gate_argv_audit: "gate_argv (b # ''audit'' # os)"
inductive_simps gate_argv_test: "gate_argv (b # ''test'' # os)"
inductive_simps gate_argv_any: "gate_argv (b # sub # os)"

lemma safe_parse:
  assumes safe: "\<not> re_test unsafe_char_pattern command" "\<not> re_test unsafe_flag_pattern command"
    and w: "gate_words command = b # args"
  shows "parseAllowedWpCommand command = Inr argv \<longleftrightarrow> argv = b # args \<and> gate_argv (b # args)"
proof (cases args)
  case Nil
  then show ?thesis using safe w by (simp add: parseAllowedWpCommand_def Let_def gate_argv_short)
next
  case args: (Cons sub os)
  note run = parseAllowedWpCommand_def Let_def safe w args
  consider "sub = ''typecheck''" | "sub = ''lint''" | "sub = ''format''" | "sub = ''sync''" | "sub = ''audit''"
    | "sub = ''test''" | "sub \<notin> {''typecheck'', ''lint'', ''format'', ''sync'', ''audit'', ''test''}"
    unfolding insert_iff empty_iff by argo
  then show ?thesis
  proof cases
    case 1
    then show ?thesis by (cases os) (auto simp: run gate_argv_check)
  next
    case 2
    then show ?thesis by (cases os) (auto simp: run gate_argv_check)
  next
    case 3
    then show ?thesis by (cases os) (auto simp: run gate_argv_readonly length_Suc_conv)
  next
    case 4
    then show ?thesis by (cases os) (auto simp: run gate_argv_readonly length_Suc_conv)
  next
    case 5
    then show ?thesis by (cases os) (auto simp: run gate_argv_audit audit_args_iff)
  next
    case 6
    then show ?thesis by (auto simp: run gate_argv_test test_args_iff)
  next
    case 7
    then have "\<not> gate_argv (b # sub # os)" by (simp add: gate_argv_any)
    then show ?thesis using 7 by (simp add: run)
  qed
qed

lemma allowed_gate_words:
  "parseAllowedWpCommand command = Inr argv \<longleftrightarrow>
      \<not> re_test unsafe_char_pattern command \<and> \<not> re_test unsafe_flag_pattern command
      \<and> argv = gate_words command \<and> gate_argv argv"
proof -
  obtain b args where w: "gate_words command = b # args"
    using gate_words_not_Nil by (cases "gate_words command") auto
  then show ?thesis
    using safe_parse [OF _ _ w]
    by (cases "re_test unsafe_char_pattern command \<or> re_test unsafe_flag_pattern command")
       (auto simp: parseAllowedWpCommand_def)
qed

text \<open>
  A promotion gate command is accepted exactly if it has none of the unsafe characters and
  flags and its words form one of the read-only invocations of the grammar; what is returned
  are these words, and none of them contains a character special to a shell.
\<close>

theorem allowed_gate_commands:
  "(parseAllowedWpCommand command = Inr argv \<longleftrightarrow>
      \<not> re_test unsafe_char_pattern command \<and> \<not> re_test unsafe_flag_pattern command
      \<and> argv = gate_words command \<and> gate_argv argv)
   \<and> (parseAllowedWpCommand command = Inr argv \<longrightarrow>
      (\<forall>w\<in>set argv. set w \<inter> {CHR ''|'', CHR '';'', CHR ''&'', CHR 0x60, CHR ''$'', CHR ''<'', CHR ''>''} = {}))"
proof -
  have "set x \<inter> {CHR ''|'', CHR '';'', CHR ''&'', CHR 0x60, CHR ''$'', CHR ''<'', CHR ''>''} = {}"
    if "\<not> re_test unsafe_char_pattern command" "x \<in> set (gate_words command)" for x
    using one_of_absent [OF that(1) [unfolded unsafe_char_pattern_def]] gate_words_chars [OF that(2)]
    by auto
  then show ?thesis by (simp add: allowed_gate_words)
qed

theorem allowed_gate_commands_witness:
  "gate_argv [''wp'', ''audit'', ''tech-debt'', ''--base'', ''main'']"
proof -
  have "parseAllowedWpCommand '' wp audit  tech-debt --base main''
      = Inr [''wp'', ''audit'', ''tech-debt'', ''--base'', ''main'']"
    by code_simp
  then show ?thesis using allowed_gate_commands by blast
qed

section \<open>Derived evidence\<close>

definition derives :: "(string, string list) js_map \<Rightarrow> (string \<times> string) set" where
  "derives g = {(u, v). v \<in> set (graph_at g u)}"

definition reaches_cycle :: "(string, string list) js_map \<Rightarrow> string \<Rightarrow> bool" where
  "reaches_cycle g i \<longleftrightarrow> (\<exists>v. (i, v) \<in> (derives g)\<^sup>* \<and> (v, v) \<in> (derives g)\<^sup>+)"

definition keys_left :: "(string, string list) js_map \<Rightarrow> string list \<Rightarrow> nat" where
  "keys_left g visiting = card (fst ` set g - set visiting)"

definition search_post :: "(string, string list) js_map \<Rightarrow> string list \<Rightarrow> string set \<Rightarrow> bool
    \<Rightarrow> bool \<Rightarrow> string list \<Rightarrow> bool" where
  "search_post g visited goals reach b visited' \<longleftrightarrow>
     (if b then reach
      else closed_off (derives g) (set visited') \<and> set visited \<subseteq> set visited' \<and> goals \<subseteq> set visited')"

lemma cycle_loop_ok:
  assumes rec: "\<And>visited v. closed_off (derives g) (set visited) \<Longrightarrow> v \<in> set vs \<Longrightarrow>
      \<exists>b visited'. rec visited v = Some (b, visited')
        \<and> search_post g visited {v} (reaches_cycle g v) b visited'"
    and "closed_off (derives g) (set visited)"
  shows "\<exists>b visited'. cycle_loop rec visited vs = Some (b, visited')
    \<and> search_post g visited (set vs) (\<exists>v\<in>set vs. reaches_cycle g v) b visited'"
  using assms
proof (induction vs arbitrary: visited)
  case Nil
  then show ?case by (intro exI [of _ False] exI [of _ visited]) (simp add: search_post_def)
next
  case (Cons v vs)
  obtain b u where u: "rec visited v = Some (b, u)" "search_post g visited {v} (reaches_cycle g v) b u"
    using Cons.prems(1) [OF Cons.prems(2) list.set_intros(1)] by blast
  show ?case
  proof (cases b)
    case True
    then show ?thesis using u
      by (intro exI [of _ True] exI [of _ u]) (simp add: search_post_def)
  next
    case False
    then have c: "closed_off (derives g) (set u)" "set visited \<subseteq> set u" "v \<in> set u"
      using u(2) by (auto simp: search_post_def)
    have "\<exists>b visited'. cycle_loop rec u vs = Some (b, visited')
        \<and> search_post g u (set vs) (\<exists>v\<in>set vs. reaches_cycle g v) b visited'"
      by (rule Cons.IH [OF Cons.prems(1) c(1)]) auto
    then obtain b' w where "cycle_loop rec u vs = Some (b', w)"
        "search_post g u (set vs) (\<exists>v\<in>set vs. reaches_cycle g v) b' w"
      by blast
    then show ?thesis using u False c by (auto simp: search_post_def split: if_splits)
  qed
qed

lemma reaches_cycle_step: "v \<in> set (graph_at g i) \<Longrightarrow> reaches_cycle g v \<Longrightarrow> reaches_cycle g i"
  unfolding reaches_cycle_def derives_def by (blast intro: converse_rtrancl_into_rtrancl)

lemma hasCycle_ok:
  assumes "closed_off (derives g) (set visited)" and "\<forall>v\<in>set visiting. (v, i) \<in> (derives g)\<^sup>+"
    and "keys_left g visiting < n"
  shows "\<exists>b visited'. hasCycle n g visiting visited i = Some (b, visited')
    \<and> search_post g visited {i} (reaches_cycle g i) b visited'"
  using assms
proof (induction n arbitrary: visiting visited i)
  case (Suc n)
  show ?case
  proof (cases "i \<in> set visiting")
    case True
    then have "reaches_cycle g i" using Suc.prems(2) unfolding reaches_cycle_def by blast
    then show ?thesis using True by (intro exI [of _ True] exI [of _ visited]) (simp add: search_post_def)
  next
    case fresh: False
    show ?thesis
    proof (cases "i \<in> set visited")
      case True
      then show ?thesis using fresh Suc.prems(1)
        by (intro exI [of _ False] exI [of _ visited]) (simp add: search_post_def)
    next
      case False
      have rec: "\<exists>b u. hasCycle n g (i # visiting) vis v = Some (b, u)
          \<and> search_post g vis {v} (reaches_cycle g v) b u"
        if "closed_off (derives g) (set vis)" "v \<in> set (graph_at g i)" for vis v
      proof (rule Suc.IH [OF that(1)])
        have iv: "(i, v) \<in> derives g" using that(2) by (simp add: derives_def)
        then show "\<forall>x\<in>set (i # visiting). (x, v) \<in> (derives g)\<^sup>+"
          using Suc.prems(2) by (auto intro: trancl_into_trancl)
        have "i \<in> fst ` set g"
          using that(2) map_of_eq_None_iff [of g i]
          by (cases "map_of g i") (auto simp: graph_at_def map_get_def)
        then have "fst ` set g - set (i # visiting) \<subset> fst ` set g - set visiting" using fresh by auto
        then have "keys_left g (i # visiting) < keys_left g visiting"
          unfolding keys_left_def by (intro psubset_card_mono) auto
        then show "keys_left g (i # visiting) < n" using Suc.prems(3) by linarith
      qed
      have "\<exists>b u. cycle_loop (hasCycle n g (i # visiting)) visited (graph_at g i) = Some (b, u)
          \<and> search_post g visited (set (graph_at g i)) (\<exists>v\<in>set (graph_at g i). reaches_cycle g v) b u"
        by (rule cycle_loop_ok [OF _ Suc.prems(1)]) (rule rec)
      then obtain b u where u: "cycle_loop (hasCycle n g (i # visiting)) visited (graph_at g i) = Some (b, u)"
          "search_post g visited (set (graph_at g i)) (\<exists>v\<in>set (graph_at g i). reaches_cycle g v) b u"
        by (elim exE conjE)
      show ?thesis
      proof (cases b)
        case True
        then show ?thesis using u fresh False reaches_cycle_step by (auto simp: search_post_def)
      next
        case no: False
        then have c: "closed_off (derives g) (set u)" "set visited \<subseteq> set u" "set (graph_at g i) \<subseteq> set u"
          using u(2) by (auto simp: search_post_def)
        then have "closed_off (derives g) (insert i (set u))"
          using closed_off_insert [OF c(1), of i] by (cases "i \<in> set u") (auto simp: derives_def insert_absorb)
        then show ?thesis using u fresh False no c by (auto simp: search_post_def)
      qed
    qed
  qed
qed simp

lemma cycle_search_ends:
  "\<exists>b u. hasCycle (Suc (length g)) g [] [] i = Some (b, u) \<and> search_post g [] {i} (reaches_cycle g i) b u"
proof -
  have "keys_left g [] < Suc (length g)"
    using card_image_le [of "set g" fst] card_length [of g] by (simp add: keys_left_def)
  then show ?thesis
    using hasCycle_ok [of g "[]" "[]" i "Suc (length g)"] by (auto simp del: hasCycle.simps)
qed

lemma on_cycle_reaches: "on_cycle g i \<longleftrightarrow> reaches_cycle g i"
proof -
  obtain b u where "hasCycle (Suc (length g)) g [] [] i = Some (b, u)"
      "search_post g [] {i} (reaches_cycle g i) b u"
    using cycle_search_ends by blast
  then show ?thesis
    using closed_off_acyclic [of "derives g" "set u" i]
    by (cases b) (auto simp: on_cycle_def search_post_def reaches_cycle_def)
qed

text \<open>
  The search for derived-evidence cycles always ends, and it reports a claim exactly if the
  claims it is derived from, directly or not, contain one that is derived from itself.
\<close>

theorem derived_cycle_iff:
  "(\<exists>b u. hasCycle (Suc (length g)) g [] [] i = Some (b, u)) \<and> (on_cycle g i \<longleftrightarrow> reaches_cycle g i)"
  using cycle_search_ends [of g i] on_cycle_reaches [of g i] by blast

section \<open>What an accepted dossier guarantees\<close>

definition token_supported :: "trust_env \<Rightarrow> trust_dossier \<Rightarrow> string \<Rightarrow> string \<Rightarrow> bool" where
  "token_supported env d cid token \<longleftrightarrow>
     (\<exists>rel. rel = unescapeMarkdownPathToken (js_trim (drop (length ''repo:'') token)) \<and> starts_with token ''repo:''
        \<and> repo_has env rel \<and> \<not> starts_with rel ''/''
        \<and> ''..'' \<notin> set (re_split (plus (one_of [CHR 0x5C, CHR ''/''])) rel))
     \<or> (\<exists>m. starts_with token ''web:'' \<and> re_exec web_pattern token = Some m
          \<and> url_parses env (case group m 1 of None \<Rightarrow> [] | Some u \<Rightarrow> u))
     \<or> (starts_with token ''derived:'' \<and> set (derived_refs token) \<subseteq> mc_id ` set (claims d) - {cid})"

lemma no_token_violations:
  "token_violations env ids cid token = [] \<Longrightarrow> set ids = mc_id ` set (claims d) \<Longrightarrow>
    token_supported env d cid token"
proof -
  assume none: "token_violations env ids cid token = []" and ids: "set ids = mc_id ` set (claims d)"
  consider "starts_with token ''repo:''" | "\<not> starts_with token ''repo:''" "starts_with token ''web:''"
    | "\<not> starts_with token ''repo:''" "\<not> starts_with token ''web:''" "starts_with token ''derived:''"
    using none by (cases "starts_with token ''repo:''"; cases "starts_with token ''web:''";
        cases "starts_with token ''derived:''") (simp_all add: token_violations_def)
  then show ?thesis
  proof cases
    case 1
    then show ?thesis using none unfolding token_violations_def token_supported_def Let_def
      by (simp only: if_True) (auto split: if_splits)
  next
    case 2
    then show ?thesis using none unfolding token_violations_def token_supported_def Let_def
      by (simp only: if_True if_False) (auto split: if_splits option.splits)
  next
    case 3
    then have "\<forall>r\<in>set (derived_refs token). r \<noteq> cid \<and> r \<in> set ids"
      using none unfolding token_violations_def by (simp only: if_True if_False) (auto split: if_splits)
    then show ?thesis using 3 ids unfolding token_supported_def by blast
  qed
qed

lemma no_duplicates: "duplicate_ids seen is = [] \<Longrightarrow> distinct is \<and> set seen \<inter> set is = {}"
  by (induction "is" arbitrary: seen) (fastforce split: if_splits)+

lemma evidence_supported:
  assumes "validateTrustEvidence env d = []"
  shows "distinct (map mc_id (claims d))
    \<and> (\<forall>c\<in>set (claims d). js_trim (mc_evidence c) \<noteq> []
         \<and> (\<forall>t\<in>set (evidence_tokens c). token_supported env d (mc_id c) t)
         \<and> \<not> reaches_cycle (derived_graph (claims d)) (mc_id c))"
proof -
  let ?ids = "set_of_list (map mc_id (claims d))"
  have none: "duplicate_ids [] (map mc_id (claims d)) = []"
      "\<forall>c\<in>set (claims d). claim_violations env ?ids c = []"
      "\<forall>i\<in>set ?ids. \<not> on_cycle (derived_graph (claims d)) i"
    using assms by (auto simp: validateTrustEvidence_def Let_def filter_empty_conv)
  have "js_trim (mc_evidence c) \<noteq> [] \<and> (\<forall>t\<in>set (evidence_tokens c). token_supported env d (mc_id c) t)"
    if "c \<in> set (claims d)" for c
  proof -
    have "claim_violations env ?ids c = []" using none(2) that by blast
    then have "js_trim (mc_evidence c) \<noteq> []"
        "\<forall>t\<in>set (evidence_tokens c). token_violations env ?ids (mc_id c) t = []"
      by (auto simp: claim_violations_def split: if_splits)
    then show ?thesis using no_token_violations [of env ?ids] by simp
  qed
  then show ?thesis using no_duplicates [OF none(1)] none(3) by (auto simp: on_cycle_reaches)
qed

lemma trust_checks:
  assumes "validateBlueprintTrust env input = []" and "ti_status input \<noteq> TS_draft \<or> promotionCandidate input"
  obtains d where "parseTrustDossier (ti_markdown input) = (Some d, [])"
    "validateTrustEvidence env d = []" "readiness_violations (readiness d) = []" "presence_violations d = []"
    "\<forall>g\<in>set (gates d). gate_violations (requirePassingGates input) g = []"
    "validateTrustAmbiguity d (if scanTaskAmbiguity input then Some (ti_markdown input) else None) = []"
proof -
  have run: "(case parseTrustDossier (ti_markdown input) of
              (None, vs) \<Rightarrow> vs
            | (Some d, vs) \<Rightarrow>
                vs @ validateTrustEvidence env d
                @ validateTrustAmbiguity d (if scanTaskAmbiguity input then Some (ti_markdown input) else None)
                @ readiness_violations (readiness d) @ presence_violations d
                @ concat (map (gate_violations (requirePassingGates input)) (gates d))) = []"
    using assms unfolding validateBlueprintTrust_def by (auto split: if_splits)
  have "snd (parseTrustDossier m) \<noteq> []" if "fst (parseTrustDossier m) = None" for m
    using that by (auto simp: parseTrustDossier_def parseReadiness_def Let_def filter_empty_conv
        split: option.splits prod.splits if_splits)
  then have no: "fst (parseTrustDossier (ti_markdown input)) \<noteq> None"
    using run by (cases "parseTrustDossier (ti_markdown input)") (metis fst_conv option.case(1) prod.case snd_conv)
  then obtain d vs where p: "parseTrustDossier (ti_markdown input) = (Some d, vs)"
    by (cases "parseTrustDossier (ti_markdown input)") auto
  show thesis using run by (intro that [of d]) (auto simp: p)
qed



section \<open>What a promotion guarantees\<close>

lemma run_gates_ran:
  "run_gates env gs md = Inr md' \<Longrightarrow>
    \<forall>g\<in>set gs. gate_argv (gate_words (gate_command g)) \<and> gate_run env (gate_words (gate_command g)) = None"
proof (induction gs arbitrary: md)
  case (Cons g gs)
  then obtain argv where a: "parseAllowedWpCommand (gate_command g) = Inr argv" "gate_run env argv = None"
      "run_gates env gs (updateGateLastResult md (gate g) (''pass at '' @ now_iso env)) = Inr md'"
    by (auto simp: runPromotionCommand_def and_then_Inr_iff split: sum.splits option.splits)
  then have "argv = gate_words (gate_command g)" "gate_argv argv" using allowed_gate_words by blast+
  then show ?case using Cons.IH [OF a(3)] a(2) by auto
qed simp

lemma promotion_steps:
  assumes "applyPromotionTrustGate env markdown = Inr md'"
  shows "\<exists>head md1. git_head env = Some head
    \<and> md1 = upsertReadinessValue (upsertReadinessValue markdown ''verified-at'' (now_iso env)) ''verified-head'' head
    \<and> validateBlueprintTrust env (candidate md1 False) = []
    \<and> run_gates env (case fst (parseTrustDossier md1) of None \<Rightarrow> [] | Some d \<Rightarrow> gates d) md1 = Inr md'
    \<and> validateBlueprintTrust env (candidate md' True) = []"
proof (cases "git_head env")
  case None
  then show ?thesis using assms by (simp add: applyPromotionTrustGate_def Let_def split: if_splits)
next
  case (Some head)
  then show ?thesis using assms unfolding applyPromotionTrustGate_def Let_def
    by (simp add: and_then_Inr_iff split: if_splits)
qed



section \<open>What the checks miss\<close>

text \<open>
  A second \<open>derived:\<close> token of a claim replaces the first in the graph of the cycle search, so two
  claims that derive from each other pass when one of them has a later derived token.
\<close>

definition circular_claims :: "material_claim list" where
  "circular_claims =
     [\<lparr>mc_id = ''A'', mc_claim = ''c'', mc_evidence = ''derived: B; derived: C''\<rparr>,
      \<lparr>mc_id = ''B'', mc_claim = ''c'', mc_evidence = ''derived: A''\<rparr>,
      \<lparr>mc_id = ''C'', mc_claim = ''c'', mc_evidence = ''repo:a''\<rparr>]"

lemma derived_tokens_overwritten:
  "validateTrustEvidence sample_trust_env (sample_parsed\<lparr>claims := circular_claims\<rparr>) = []
    \<and> ''derived: B'' \<in> set (evidence_tokens (circular_claims ! 0)) \<and> derived_refs ''derived: B'' = [''B'']
    \<and> ''derived: A'' \<in> set (evidence_tokens (circular_claims ! 1)) \<and> derived_refs ''derived: A'' = [''A'']"
  by code_simp

text \<open>
  A row of the gates table with white space after its last bar is a row for the parser, but the
  result of its gate is not recorded: such a dossier cannot be promoted.
\<close>

lemma padded_row_not_recorded:
  "table_rows ''| a | wp lint | c | d | '' = [''| a | wp lint | c | d |'']
    \<and> splitRow ''| a | wp lint | c | d |'' = [''a'', ''wp lint'', ''c'', ''d'']
    \<and> updateGateLastResult ''| a | wp lint | c | d | '' ''a'' ''pass'' = ''| a | wp lint | c | d | ''
    \<and> updateGateLastResult ''| a | wp lint | c | d |'' ''a'' ''pass'' = ''| a | wp lint | c | pass |''"
  by code_simp

end
