(* ===== verification/RegexFacts.thy ===== *)
theory RegexFacts
  imports Regex
begin

text \<open>
  Further facts of the matcher: captures are kept by patterns without groups, the shape of
  loops over a character class, and where a search finds its match.
\<close>

section \<open>Captures\<close>

primrec no_group :: "regex \<Rightarrow> bool" where
  "no_group Empty = True"
| "no_group (Cls p) = True"
| "no_group (Seq a b) = (no_group a \<and> no_group b)"
| "no_group (Alt a b) = (no_group a \<and> no_group b)"
| "no_group (Star g a) = no_group a"
| "no_group (Grp n a) = False"
| "no_group (Look pos a) = no_group a"
| "no_group StartText = True"
| "no_group EndText = True"
| "no_group StartLine = True"
| "no_group EndLine = True"
| "no_group WordBd = True"

lemma star_iter_caps:
  assumes "\<And>s t. t \<in> set (f s) \<Longrightarrow> caps t = caps s" and "t \<in> set (star_iter g f n s)"
  shows "caps t = caps s"
  using assms(2)
proof (induction n arbitrary: s)
  case (Suc n)
  then consider "t = s" | u where "u \<in> set (f s)" "t \<in> set (star_iter g f n u)"
    by (auto simp: Let_def split: if_splits)
  then show ?case using Suc.IH assms(1) by cases auto
qed simp

lemma no_group_caps: "no_group re \<Longrightarrow> t \<in> set (run re s) \<Longrightarrow> caps t = caps s"
proof (induction re arbitrary: s t)
  case (Cls p)
  then show ?case by (auto split: list.splits if_splits)
next
  case (Seq a b)
  then obtain u where "u \<in> set (run a s)" "t \<in> set (run b u)" by auto
  then show ?case using Seq by (metis no_group.simps(3))
next
  case (Star g a)
  then have t: "t \<in> set (star_iter g (run a) (length (rest s)) s)" and "no_group a" by simp_all
  then have "caps v = caps u" if "v \<in> set (run a u)" for u v using Star.IH that by blast
  then show ?case using t by (rule star_iter_caps)
next
  case (Look pos a)
  then show ?case by (auto split: list.splits if_splits)
next
  case (Alt a b)
  then have "t \<in> set (run a s) \<or> t \<in> set (run b s)" "no_group a" "no_group b" by simp_all
  then show ?case using Alt.IH by blast
qed (simp_all split: if_splits)

section \<open>Loops over a character class\<close>

text \<open>The first state of a greedy loop has consumed all it can.\<close>

lemma star_cls_first:
  "\<exists>ts. star_cls True p b r cs
     = \<lparr>behind = rev (takeWhile p r) @ b, rest = dropWhile p r, caps = cs\<rparr> # ts"
  by (induction True p b r cs rule: star_cls.induct) (auto simp: Let_def)

lemma star_first:
  "\<exists>ts. run (star (Cls p)) s
     = s\<lparr>behind := rev (takeWhile p (rest s)) @ behind s, rest := dropWhile p (rest s)\<rparr> # ts"
  using star_cls_first [of p "behind s" "rest s" "caps s"] star_cls_iter [of "rest s" "length (rest s)" True p "behind s" "caps s"]
  by (cases s) (simp add: star_def)

lemma plus_none: "rest s = [] \<or> \<not> p (hd (rest s)) \<Longrightarrow> run (plus (Cls p)) s = []"
  by (cases "rest s") (auto simp: plus_def)

lemma plus_first:
  assumes "rest s \<noteq> []" and "p (hd (rest s))"
  shows "\<exists>ts. run (plus (Cls p)) s
     = s\<lparr>behind := rev (takeWhile p (rest s)) @ behind s, rest := dropWhile p (rest s)\<rparr> # ts"
proof -
  obtain c cs where r: "rest s = c # cs" using assms(1) by (cases "rest s") auto
  with assms(2) have "run (plus (Cls p)) s = run (star (Cls p)) (s\<lparr>behind := c # behind s, rest := cs\<rparr>)"
    by (simp add: plus_def star_def)
  then show ?thesis
    using star_first [of p "s\<lparr>behind := c # behind s, rest := cs\<rparr>"] r assms(2) by simp
qed

text \<open>A loop over a class, then a pattern that cannot start in the class: only the whole run counts.\<close>

lemma star_cls_until:
  assumes "\<And>b c cs k. p c \<Longrightarrow> run re \<lparr>behind = b, rest = c # cs, caps = k\<rparr> = []"
    and "\<forall>c\<in>set x. p c" and "y = [] \<or> \<not> p (hd y)"
  shows "concat (map (run re) (star_cls g p b (x @ y) k))
     = run re \<lparr>behind = rev x @ b, rest = y, caps = k\<rparr>"
  using assms(2)
proof (induction x arbitrary: b)
  case Nil
  then show ?case using assms(3) by (cases y) simp_all
next
  case (Cons c x)
  then show ?case using assms(1) by (cases g) (simp_all add: Let_def)
qed

lemma run_star_until:
  assumes "\<And>b c cs k. p c \<Longrightarrow> run re \<lparr>behind = b, rest = c # cs, caps = k\<rparr> = []"
    and "rest s = x @ y" and "\<forall>c\<in>set x. p c" and "y = [] \<or> \<not> p (hd y)"
  shows "run (Seq (Star g (Cls p)) re) s = run re (s\<lparr>behind := rev x @ behind s, rest := y\<rparr>)"
proof -
  have "run (Star g (Cls p)) s = star_cls g p (behind s) (x @ y) (caps s)"
    using star_cls_iter [of "rest s" "length (rest s)" g p "behind s" "caps s"] assms(2) by (cases s) simp
  then show ?thesis
    using star_cls_until [OF assms(1) assms(3,4), of g "behind s" "caps s"] by (cases s) simp
qed

lemma run_plus_until:
  assumes "\<And>b c cs k. p c \<Longrightarrow> run re \<lparr>behind = b, rest = c # cs, caps = k\<rparr> = []"
    and "rest s = x @ y" and "x \<noteq> []" and "\<forall>c\<in>set x. p c" and "y = [] \<or> \<not> p (hd y)"
  shows "run (Seq (plus (Cls p)) re) s = run re (s\<lparr>behind := rev x @ behind s, rest := y\<rparr>)"
proof -
  obtain c x' where x: "x = c # x'" using assms(3) by (cases x) auto
  have "run (Seq (plus (Cls p)) re) s = run (Seq (Star True (Cls p)) re) (s\<lparr>behind := c # behind s, rest := x' @ y\<rparr>)"
    using assms(2,4) x by (simp add: plus_def)
  also have "\<dots> = run re (s\<lparr>behind := rev x @ behind s, rest := y\<rparr>)"
    by (subst run_star_until [where x = x' and y = y, OF assms(1)]) (use assms(4,5) x in simp_all)
  finally show ?thesis .
qed

section \<open>Loops in a group, and blanks\<close>

lemma star_cls_until_map:
  assumes "\<And>b c cs k. p c \<Longrightarrow> run re \<lparr>behind = b, rest = c # cs, caps = k\<rparr> = []"
    and "\<forall>c\<in>set x. p c" and "y = [] \<or> \<not> p (hd y)" and "\<And>t :: mstate. \<exists>k. f t = t\<lparr>caps := k\<rparr>"
  shows "concat (map (\<lambda>t. run re (f t)) (star_cls g p b (x @ y) k))
     = run re (f \<lparr>behind = rev x @ b, rest = y, caps = k\<rparr>)"
  using assms(2)
proof (induction x arbitrary: b)
  case Nil
  then show ?case using assms(3) by (cases y) simp_all
next
  case (Cons c x)
  have "run re (f \<lparr>behind = b, rest = c # x @ y, caps = k\<rparr>) = []"
    using assms(1) [of c] Cons.prems assms(4) [of "\<lparr>behind = b, rest = c # x @ y, caps = k\<rparr>"] by auto
  then show ?case using Cons by (cases g) (simp_all add: Let_def)
qed

lemma run_group_until:
  assumes "\<And>b c cs k. p c \<Longrightarrow> run re \<lparr>behind = b, rest = c # cs, caps = k\<rparr> = []"
    and "rest s = x @ y" and "\<forall>c\<in>set x. p c" and "y = [] \<or> \<not> p (hd y)"
  shows "run (Seq (Grp n (Star g (Cls p))) re) s
     = run re (s\<lparr>behind := rev x @ behind s, rest := y, caps := (n, x) # caps s\<rparr>)"
proof -
  define f where "f = (\<lambda>t :: mstate. t\<lparr>caps := (n, take (length (rest s) - length (rest t)) (rest s)) # caps t\<rparr>)"
  have f: "\<And>t :: mstate. \<exists>k. f t = t\<lparr>caps := k\<rparr>" by (auto simp: f_def)
  have "run (Star g (Cls p)) s = star_cls g p (behind s) (x @ y) (caps s)"
    using star_cls_iter [of "rest s" "length (rest s)" g p "behind s" "caps s"] assms(2) by (cases s) simp
  then have "run (Seq (Grp n (Star g (Cls p))) re) s
      = concat (map (\<lambda>t. run re (f t)) (star_cls g p (behind s) (x @ y) (caps s)))"
    by (simp add: f_def comp_def)
  also have "\<dots> = run re (f \<lparr>behind = rev x @ behind s, rest = y, caps = caps s\<rparr>)"
    by (rule star_cls_until_map [OF assms(1) assms(3,4) f])
  also have "f \<lparr>behind = rev x @ behind s, rest = y, caps = caps s\<rparr>
      = s\<lparr>behind := rev x @ behind s, rest := y, caps := (n, x) # caps s\<rparr>"
    using assms(2) by (cases s) (simp add: f_def)
  finally show ?thesis .
qed

lemma run_lit_Seq:
  "run (Seq (lit x) re) s =
     (if prefix x (rest s) then run re (s\<lparr>behind := rev x @ behind s, rest := drop (length x) (rest s)\<rparr>) else [])"
  by (simp add: run_lit)

lemma ws_lit_fail: "js_ws c \<Longrightarrow> x \<noteq> [] \<Longrightarrow> \<not> js_ws (hd x) \<Longrightarrow> run (lit x) \<lparr>behind = b, rest = c # cs, caps = k\<rparr> = []"
  by (cases x) (auto simp: run_lit)

lemma run_blank:
  assumes "\<And>b c cs k. js_ws c \<Longrightarrow> run re \<lparr>behind = b, rest = c # cs, caps = k\<rparr> = []"
    and "y = [] \<or> \<not> js_ws (hd y)"
  shows "run (Seq (plus ws) re) \<lparr>behind = b, rest = CHR '' '' # y, caps = k\<rparr>
     = run re \<lparr>behind = CHR '' '' # b, rest = y, caps = k\<rparr>"
  using run_plus_until [of js_ws re "\<lparr>behind = b, rest = CHR '' '' # y, caps = k\<rparr>" "'' ''" y] assms
  by (simp add: js_ws_def)

lemma run_blank_lit:
  assumes "x \<noteq> []" and "\<not> js_ws (hd x)" and "y = [] \<or> \<not> js_ws (hd y)"
  shows "run (Seq (plus ws) (Seq (lit x) re)) \<lparr>behind = b, rest = CHR '' '' # y, caps = k\<rparr>
     = run (Seq (lit x) re) \<lparr>behind = CHR '' '' # b, rest = y, caps = k\<rparr>"
  by (rule run_blank) (use assms in \<open>simp_all add: ws_lit_fail\<close>)

lemma run_opt_skip: "run a s = [] \<Longrightarrow> run (opt a) s = [s]"
  by (simp add: opt_def)

section \<open>Reaching a state\<close>

lemma run_star_cls: "run (Star g (Cls p)) s = star_cls g p (behind s) (rest s) (caps s)"
  using star_cls_iter [of "rest s" "length (rest s)" g p "behind s" "caps s"] by (cases s) simp

lemma run_star_none: "run r s = [] \<Longrightarrow> run (star r) s = [s]"
  by (cases "rest s") (simp_all add: star_def Let_def)

lemma star_cls_reaches:
  "\<forall>c\<in>set x. p c \<Longrightarrow> \<lparr>behind = rev x @ b, rest = y, caps = k\<rparr> \<in> set (star_cls g p b (x @ y) k)"
proof (induction x arbitrary: b)
  case Nil
  show ?case by (cases y; cases g) (auto simp: Let_def)
next
  case (Cons c x)
  from Cons.IH [of "c # b"] Cons.prems show ?case by (cases g) (auto simp: Let_def)
qed

lemma run_star_some:
  assumes "rest s = x @ y" and "\<forall>c\<in>set x. p c" and "run re (s\<lparr>behind := rev x @ behind s, rest := y\<rparr>) \<noteq> []"
  shows "run (Seq (Star g (Cls p)) re) s \<noteq> []"
proof -
  have "run (Star g (Cls p)) s = star_cls g p (behind s) (x @ y) (caps s)"
    using star_cls_iter [of "rest s" "length (rest s)" g p "behind s" "caps s"] assms(1) by (cases s) simp
  moreover have "s\<lparr>behind := rev x @ behind s, rest := y\<rparr> \<in> set (star_cls g p (behind s) (x @ y) (caps s))"
    using star_cls_reaches [OF assms(2), of "behind s" y "caps s" g] by (cases s) simp
  ultimately show ?thesis using assms(3) by auto
qed

lemma run_plus_some:
  assumes "rest s = x @ y" and "x \<noteq> []" and "\<forall>c\<in>set x. p c" and "run re (s\<lparr>behind := rev x @ behind s, rest := y\<rparr>) \<noteq> []"
  shows "run (Seq (plus (Cls p)) re) s \<noteq> []"
proof -
  obtain c x' where x: "x = c # x'" using assms(2) by (cases x) auto
  have "run (Seq (plus (Cls p)) re) s = run (Seq (Star True (Cls p)) re) (s\<lparr>behind := c # behind s, rest := x' @ y\<rparr>)"
    using assms(1,3) x by (simp add: plus_def)
  then show ?thesis
    using run_star_some [of "s\<lparr>behind := c # behind s, rest := x' @ y\<rparr>" x' y p re True] assms(3,4) x by simp
qed

lemma run_lit_here: "run (Seq (lit x) re) \<lparr>behind = b, rest = x @ y, caps = k\<rparr>
    = run re \<lparr>behind = rev x @ b, rest = y, caps = k\<rparr>"
  by (simp add: run_lit)

section \<open>Where a search finds its match\<close>

lemma exec_from_at:
  "exec_from re b r = Some m \<Longrightarrow>
     \<exists>k\<le>length r. match_here re (rev (take k r) @ b) (drop k r) = Some m
       \<and> (\<forall>j<k. match_here re (rev (take j r) @ b) (drop j r) = None)"
proof (induction re b r rule: exec_from.induct)
  case (1 re b)
  then show ?case by (intro exI [of _ 0]) simp
next
  case (2 re b c cs)
  show ?case
  proof (cases "match_here re b (c # cs)")
    case (Some m')
    with 2(2) show ?thesis by (intro exI [of _ 0]) simp
  next
    case None
    with 2 obtain k where k: "k \<le> length cs" "match_here re (rev (take k cs) @ c # b) (drop k cs) = Some m"
        "\<forall>j<k. match_here re (rev (take j cs) @ c # b) (drop j cs) = None"
      by auto
    have "match_here re (rev (take j (c # cs)) @ b) (drop j (c # cs)) = None" if "j < Suc k" for j
      using that None k(3) by (cases j) auto
    with k show ?thesis by (intro exI [of _ "Suc k"]) simp
  qed
qed

text \<open>A search succeeds if the pattern matches somewhere.\<close>

lemma exec_from_someI:
  "run re \<lparr>behind = rev x @ b, rest = y, caps = []\<rparr> \<noteq> [] \<Longrightarrow> exec_from re b (x @ y) \<noteq> None"
proof (induction x arbitrary: b)
  case Nil
  then show ?case by (cases y) (auto simp: match_here_def split: list.splits option.splits)
next
  case (Cons c x)
  then show ?case by (auto split: option.splits)
qed

lemma re_testI: "run re \<lparr>behind = rev x, rest = y, caps = []\<rparr> \<noteq> [] \<Longrightarrow> re_test re (x @ y)"
  using exec_from_someI [of re x "[]" y] by (simp add: re_test_def re_exec_def)

section \<open>Replacement and the matches\<close>

lemma all_from_here: "m \<in> set (all_from n re b r) \<Longrightarrow> \<exists>b' r'. match_here re b' r' = Some m"
proof (induction n arbitrary: b r)
  case (Suc n)
  then obtain m' where m': "exec_from re b r = Some m'" by (cases "exec_from re b r") auto
  then have "\<exists>b' r'. match_here re b' r' = Some m'" using exec_from_at by blast
  then show ?case
    using Suc m' by (auto split: if_splits list.splits)
qed simp

lemma splice_cong:
  "\<forall>m\<in>set ms. f m = g m \<Longrightarrow> splice_matches f pos r ms = splice_matches g pos r ms"
  by (induction ms arbitrary: pos r) (simp_all add: Let_def)

text \<open>A replacement that does not lengthen the matches does not lengthen the text.\<close>

lemma length_replace_matches:
  assumes "\<And>m b r. match_here re b r = Some m \<Longrightarrow> length (f m) \<le> length (m_text m)"
  shows "length (replace_all re f s) \<le> length s"
proof -
  define g where "g = (\<lambda>m. if length (f m) \<le> length (m_text m) then f m else [])"
  have "\<forall>m\<in>set (match_all re s). f m = g m"
    using assms all_from_here unfolding g_def match_all_def by metis
  then have "replace_all re f s = replace_all re g s"
    unfolding replace_all_def by (rule splice_cong)
  also have "length \<dots> \<le> length s" by (rule length_replace_all) (simp add: g_def)
  finally show ?thesis .
qed

end
