(* ===== verification/HookEnv.thy ===== *)
theory HookEnv
  imports ForbiddenCommands
begin

text \<open>
  What the pretool guard takes from its surroundings, as one record, and the \<open>posix\<close> functions of
  \<open>node:path\<close> that its validators call.  The file system, js-yaml and the process environment
  are parameters.
\<close>

record hook_env =
  cmd_env :: guard_env                       \<comment> \<open>the environment of the command validator\<close>
  env_one :: "string \<Rightarrow> bool"               \<comment> \<open>\<open>process.env[name] === "1"\<close>\<close>
  guard_on :: bool                           \<comment> \<open>\<open>isGuardEnabled()\<close>\<close>
  proc_cwd :: string                         \<comment> \<open>\<open>process.cwd()\<close>\<close>
  home_dir :: string                         \<comment> \<open>\<open>homedir()\<close>\<close>
  file_exists :: "string \<Rightarrow> bool"           \<comment> \<open>\<open>existsSync\<close>\<close>
  yaml_load :: "string \<Rightarrow> json option"      \<comment> \<open>\<open>jsYaml.load\<close>, \<open>None\<close> if it throws\<close>

text \<open>The text of an optional string, empty if there is none.\<close>

definition text_of :: "string option \<Rightarrow> string" where
  "text_of s = (case s of None \<Rightarrow> [] | Some t \<Rightarrow> t)"

section \<open>Paths (node:path, posix)\<close>

definition path_is_absolute :: "string \<Rightarrow> bool" where
  "path_is_absolute p \<longleftrightarrow> starts_with p ''/''"

text \<open>
  The segments of a path with \<open>.\<close> and \<open>..\<close> resolved; the list kept is in reverse order.  A
  \<open>..\<close> with nothing before it is kept in a relative path and dropped in an absolute one.
\<close>

fun norm_segments :: "bool \<Rightarrow> string list \<Rightarrow> string list \<Rightarrow> string list" where
  "norm_segments up acc [] = rev acc"
| "norm_segments up acc (s # ss) =
     (if s = [] \<or> s = ''.'' then norm_segments up acc ss
      else if s = ''..'' then
        (case acc of
           [] \<Rightarrow> norm_segments up (if up then [s] else []) ss
         | t # ts \<Rightarrow> if t = ''..'' then norm_segments up (s # acc) ss else norm_segments up ts ss)
      else norm_segments up (s # acc) ss)"

definition path_segments :: "bool \<Rightarrow> string \<Rightarrow> string list" where
  "path_segments up p = norm_segments up [] (split_char CHR ''/'' p)"

definition path_normalize :: "string \<Rightarrow> string" where
  "path_normalize p =
     (if p = [] then ''.''
      else
        (let absolute = path_is_absolute p; trailing = ends_with p ''/'';
             body = join_with ''/'' (path_segments (\<not> absolute) p)
         in if body = [] then (if absolute then ''/'' else if trailing then ''./'' else ''.'')
            else (if absolute then ''/'' else []) @ body @ (if trailing then ''/'' else [])))"

definition path_join :: "string list \<Rightarrow> string" where
  "path_join parts =
     (let present = filter (\<lambda>p. p \<noteq> []) parts
      in if present = [] then ''.'' else path_normalize (join_with ''/'' present))"

text \<open>\<open>path.resolve(base, p)\<close> of a process in the absolute directory \<open>cwd\<close>.\<close>

definition path_resolve :: "string \<Rightarrow> string \<Rightarrow> string \<Rightarrow> string" where
  "path_resolve cwd base p =
     (let full = (if path_is_absolute p then p
                  else if path_is_absolute base then base @ ''/'' @ p
                  else cwd @ ''/'' @ base @ ''/'' @ p)
      in ''/'' @ join_with ''/'' (path_segments False full))"

fun common_prefix :: "string list \<Rightarrow> string list \<Rightarrow> nat" where
  "common_prefix (x # xs) (y # ys) = (if x = y then Suc (common_prefix xs ys) else 0)"
| "common_prefix _ _ = 0"

definition path_relative :: "string \<Rightarrow> string \<Rightarrow> string \<Rightarrow> string" where
  "path_relative cwd from_path to_path =
     (let fs = path_segments False (path_resolve cwd [] from_path);
          ts = path_segments False (path_resolve cwd [] to_path);
          n = common_prefix fs ts
      in join_with ''/'' (replicate (length fs - n) ''..'' @ drop n ts))"

definition path_basename :: "string \<Rightarrow> string" where
  "path_basename p =
     rev (takeWhile (\<lambda>c. c \<noteq> CHR ''/'') (dropWhile (\<lambda>c. c = CHR ''/'') (rev p)))"

section \<open>Lemmas\<close>

text \<open>Resolved segments are names: no empty one, no \<open>.\<close>, and no \<open>..\<close> in an absolute path.\<close>

definition plain_name :: "string \<Rightarrow> bool" where
  "plain_name s \<longleftrightarrow> s \<noteq> [] \<and> s \<noteq> ''.'' \<and> s \<noteq> ''..''"

lemma norm_segments_step:
  "s = [] \<or> s = ''.'' \<Longrightarrow> norm_segments up acc (s # ss) = norm_segments up acc ss"
  "plain_name s \<Longrightarrow> norm_segments up acc (s # ss) = norm_segments up (s # acc) ss"
  "\<forall>x\<in>set acc. plain_name x \<Longrightarrow>
     norm_segments False acc (''..'' # ss) = norm_segments False (tl acc) ss"
proof -
  show "s = [] \<or> s = ''.'' \<Longrightarrow> norm_segments up acc (s # ss) = norm_segments up acc ss"
    by (simp only: norm_segments.simps if_True)
  show "plain_name s \<Longrightarrow> norm_segments up acc (s # ss) = norm_segments up (s # acc) ss"
    by (simp only: plain_name_def norm_segments.simps simp_thms if_False)
  have dots: "norm_segments False acc (''..'' # ss) =
      (case acc of [] \<Rightarrow> norm_segments False [] ss
       | t # ts \<Rightarrow> if t = ''..'' then norm_segments False (''..'' # acc) ss else norm_segments False ts ss)"
    by (subst norm_segments.simps) (simp split: list.split)
  show "\<forall>x\<in>set acc. plain_name x \<Longrightarrow> norm_segments False acc (''..'' # ss) = norm_segments False (tl acc) ss"
    unfolding dots by (cases acc) (simp_all add: plain_name_def)
qed

lemma norm_segments_names:
  "\<forall>s\<in>set acc. plain_name s \<Longrightarrow> \<forall>s\<in>set (norm_segments False acc ss). plain_name s"
proof (induction ss arbitrary: acc)
  case (Cons s ss)
  consider "s = [] \<or> s = ''.''" | "s = ''..''" | "plain_name s" unfolding plain_name_def by argo
  then show ?case
  proof cases
    case 1
    then show ?thesis using Cons.IH [OF Cons.prems] by (simp only: norm_segments_step(1))
  next
    case 2
    have "\<forall>x\<in>set (tl acc). plain_name x" using Cons.prems by (cases acc) simp_all
    then show ?thesis unfolding 2 norm_segments_step(3) [OF Cons.prems] by (rule Cons.IH)
  next
    case 3
    then have "\<forall>x\<in>set (s # acc). plain_name x" using Cons.prems by simp
    then show ?thesis unfolding norm_segments_step(2) [OF 3] by (rule Cons.IH)
  qed
qed simp

lemma norm_segments_plain:
  "\<forall>s\<in>set ss. plain_name s \<Longrightarrow> norm_segments up acc ss = rev acc @ ss"
proof (induction ss arbitrary: acc)
  case (Cons s ss)
  then have "plain_name s" "\<forall>s\<in>set ss. plain_name s" by simp_all
  then show ?case using Cons.IH [of "s # acc"] by (simp only: norm_segments_step(2) rev.simps append_assoc append.simps)
qed simp

lemma path_segments_names: "s \<in> set (path_segments False p) \<Longrightarrow> plain_name s"
  using norm_segments_names [of "[]" "split_char CHR ''/'' p"] by (simp add: path_segments_def)

end
