(* ===== verification/GuardLogProps.thy ===== *)
theory GuardLogProps
  imports GuardLog
begin

text \<open>
  Properties of the run log: how the pattern of a line matches what the logger writes, the round
  trip of a line, the lines the file holds after a sequence of runs, and the lines that are lost.
\<close>

section \<open>The pattern of a line\<close>

definition iso_timestamp :: "string \<Rightarrow> bool" where
  "iso_timestamp ts \<longleftrightarrow>
     list_all2 (\<lambda>k c. if k = CHR ''0'' then js_digit c else c = k) ''0000-00-00T00:00:00.000Z'' ts"

lemma run_timestamp:
  assumes "iso_timestamp ts" and "rest s = ts @ y"
  shows "run timestamp_pattern s = [s\<lparr>behind := rev ts @ behind s, rest := y\<rparr>]"
  using assms
  by (auto simp: iso_timestamp_def list_all2_Cons1 timestamp_pattern_def times_def lit_def chr_def numeral_eq_Suc)


lemma run_failures_part:
  assumes "CHR '']'' \<notin> set x"
  shows "run failures_part \<lparr>behind = b, rest = '' failures=['' @ x @ '']'' @ y, caps = k\<rparr>
     = [\<lparr>behind = rev ('' failures=['' @ x @ '']'') @ b, rest = y, caps = (5, x) # k\<rparr>]"
proof -
  have "run failures_part \<lparr>behind = b, rest = '' failures=['' @ x @ '']'' @ y, caps = k\<rparr>
      = run (sq [lit ''failures='', chr CHR ''['', Grp 5 (star (none_of '']'')), lit '']''])
          \<lparr>behind = '' '' @ b, rest = ''failures=['' @ x @ '']'' @ y, caps = k\<rparr>"
    unfolding failures_part_def sq.simps
    by (simp add: run_blank_lit js_ws_def del: run.simps)
  also have "\<dots> = run (sq [Grp 5 (star (none_of '']'')), lit '']''])
          \<lparr>behind = rev '' failures=['' @ b, rest = x @ '']'' @ y, caps = k\<rparr>"
    unfolding sq.simps by (simp only: run_lit_Seq) (simp add: chr_def)
  also have "\<dots> = run (sq [lit '']'']) \<lparr>behind = rev ('' failures=['' @ x) @ b, rest = '']'' @ y, caps = (5, x) # k\<rparr>"
    unfolding sq.simps none_of_def star_def
    by (subst run_group_until [where x = x and y = "'']'' @ y"]) (use assms in \<open>auto simp: run_lit\<close>)
  also have "\<dots> = [\<lparr>behind = rev ('' failures=['' @ x @ '']'') @ b, rest = y, caps = (5, x) # k\<rparr>]"
    by (simp add: run_lit)
  finally show ?thesis .
qed

lemma run_error_part:
  assumes "dquote \<notin> set x"
  shows "run error_part \<lparr>behind = b, rest = '' error='' @ quoted x @ y, caps = k\<rparr>
     = [\<lparr>behind = rev ('' error='' @ quoted x) @ b, rest = y, caps = (6, x) # k\<rparr>]"
proof -
  have "run error_part \<lparr>behind = b, rest = '' error='' @ quoted x @ y, caps = k\<rparr>
      = run (sq [lit ''error='', chr dquote, Grp 6 (star (none_of [dquote])), chr dquote])
          \<lparr>behind = '' '' @ b, rest = ''error='' @ quoted x @ y, caps = k\<rparr>"
    unfolding error_part_def sq.simps
    by (simp add: run_blank_lit js_ws_def del: run.simps)
  also have "\<dots> = run (sq [Grp 6 (star (none_of [dquote])), chr dquote])
          \<lparr>behind = dquote # rev '' error='' @ b, rest = x @ [dquote] @ y, caps = k\<rparr>"
    unfolding sq.simps by (simp only: run_lit_Seq) (simp add: chr_def quoted_def)
  also have "\<dots> = run (sq [chr dquote]) \<lparr>behind = rev x @ dquote # rev '' error='' @ b, rest = [dquote] @ y, caps = (6, x) # k\<rparr>"
    unfolding sq.simps none_of_def star_def
    by (subst run_group_until [where x = x and y = "[dquote] @ y"]) (use assms in \<open>auto simp: run_chr\<close>)
  also have "\<dots> = [\<lparr>behind = rev ('' error='' @ quoted x) @ b, rest = y, caps = (6, x) # k\<rparr>]"
    by (simp add: run_chr quoted_def)
  finally show ?thesis .
qed

lemma run_failures_part_error: "run failures_part \<lparr>behind = b, rest = '' error='' @ y, caps = k\<rparr> = []"
  unfolding failures_part_def sq.simps
  by (simp add: run_blank_lit js_ws_def run_lit_Seq del: run.simps)

lemma run_part_end: "run failures_part \<lparr>behind = b, rest = [], caps = k\<rparr> = []"
   "run error_part \<lparr>behind = b, rest = [], caps = k\<rparr> = []"
  by (simp_all add: failures_part_def error_part_def plus_def)


definition clean_failures :: "string list option \<Rightarrow> bool" where
  "clean_failures fs \<longleftrightarrow>
     (case fs of None \<Rightarrow> True
      | Some l \<Rightarrow> list_all (\<lambda>f. f \<noteq> [] \<and> CHR '','' \<notin> set f \<and> CHR '']'' \<notin> set f) l)"

definition clean_error :: "string option \<Rightarrow> bool" where
  "clean_error e \<longleftrightarrow> (case e of None \<Rightarrow> True | Some t \<Rightarrow> dquote \<notin> set (take 100 t))"

definition failure_caps :: "string list option \<Rightarrow> (nat \<times> string) list" where
  "failure_caps fs = (case fs of Some (f # gs) \<Rightarrow> [(5, join_with '','' (f # gs))] | _ \<Rightarrow> [])"

definition error_caps :: "string option \<Rightarrow> (nat \<times> string) list" where
  "error_caps e = (if truthy e then [(6, take 100 (the e))] else [])"

lemma run_end_parts:
  assumes "clean_error e"
  shows "\<exists>t ts. run (sq [opt error_part, EndText]) \<lparr>behind = b, rest = error_text e, caps = k\<rparr> = t # ts
     \<and> rest t = [] \<and> caps t = error_caps e @ k"
proof (cases "truthy e")
  case True
  then obtain x where e: "e = Some x" by (auto simp: truthy_def split: option.splits)
  then have d: "dquote \<notin> set (take 100 x)" using assms by (simp add: clean_error_def)
  have t: "error_text e = '' error='' @ quoted (take 100 x) @ []" using True e by (simp add: error_text_def)
  have r: "run error_part \<lparr>behind = b, rest = error_text e, caps = k\<rparr>
      = [\<lparr>behind = rev ('' error='' @ quoted (take 100 x)) @ b, rest = [], caps = (6, take 100 x) # k\<rparr>]"
    unfolding t by (rule run_error_part [OF d])
  have "run (sq [opt error_part, EndText]) \<lparr>behind = b, rest = error_text e, caps = k\<rparr>
      = [\<lparr>behind = rev ('' error='' @ quoted (take 100 x)) @ b, rest = [], caps = (6, take 100 x) # k\<rparr>]"
    using r t by (simp add: opt_def)
  then show ?thesis using True e by (auto simp: error_caps_def)
next
  case False
  then show ?thesis by (simp add: error_text_def error_caps_def opt_def run_part_end)
qed

lemma run_tail_parts:
  assumes "clean_failures fs" and "clean_error e"
  shows "\<exists>t ts. run (sq [opt failures_part, opt error_part, EndText])
       \<lparr>behind = b, rest = failures_text fs @ error_text e, caps = k\<rparr> = t # ts
     \<and> rest t = [] \<and> caps t = error_caps e @ failure_caps fs @ k"
proof (cases "\<exists>f gs. fs = Some (f # gs)")
  case True
  then obtain f gs where fs: "fs = Some (f # gs)" by blast
  let ?x = "join_with '','' (f # gs)"
  have "CHR '']'' \<notin> set ?x"
    using assms(1) set_join_with [of "'',''" "f # gs"] by (auto simp: fs clean_failures_def list_all_iff)
  then have r: "run failures_part \<lparr>behind = b, rest = failures_text fs @ error_text e, caps = k\<rparr>
      = [\<lparr>behind = rev ('' failures=['' @ ?x @ '']'') @ b, rest = error_text e, caps = (5, ?x) # k\<rparr>]"
    using run_failures_part [of ?x b "error_text e" k] by (simp add: fs failures_text_def del: join_with.simps)
  obtain t ts where t: "run (sq [opt error_part, EndText])
      \<lparr>behind = rev ('' failures=['' @ ?x @ '']'') @ b, rest = error_text e, caps = (5, ?x) # k\<rparr> = t # ts"
      "rest t = []" "caps t = error_caps e @ (5, ?x) # k"
    using run_end_parts [OF assms(2)] by blast
  have "run (sq [opt failures_part, opt error_part, EndText])
       \<lparr>behind = b, rest = failures_text fs @ error_text e, caps = k\<rparr>
      = run (sq [opt error_part, EndText])
          \<lparr>behind = rev ('' failures=['' @ ?x @ '']'') @ b, rest = error_text e, caps = (5, ?x) # k\<rparr>
        @ run (sq [opt error_part, EndText]) \<lparr>behind = b, rest = failures_text fs @ error_text e, caps = k\<rparr>"
    by (subst sq.simps, subst run.simps, subst opt_def) (simp add: r del: sq.simps)
  then show ?thesis using t by (auto simp: failure_caps_def fs)
next
  case False
  then have n: "failures_text fs = []" "failure_caps fs = []"
    by (auto simp: failures_text_def failure_caps_def split: option.splits list.splits)
  have "run failures_part \<lparr>behind = b, rest = error_text e, caps = k\<rparr> = []"
    using run_failures_part_error [of b "quoted (take 100 (the e))" k]
    by (cases "truthy e") (simp_all add: error_text_def run_part_end)
  then have "run (sq [opt failures_part, opt error_part, EndText]) \<lparr>behind = b, rest = error_text e, caps = k\<rparr>
      = run (sq [opt error_part, EndText]) \<lparr>behind = b, rest = error_text e, caps = k\<rparr>"
    by (subst sq.simps, subst run.simps, subst opt_def) (simp del: sq.simps)
  then show ?thesis using run_end_parts [OF assms(2), of b k] n by simp
qed


lemma run_status:
  "run (Grp 2 (alts [lit ''PASS'', lit ''BLOCK'', lit ''WARN'', lit ''ERROR'']))
       \<lparr>behind = b, rest = status_text st @ y, caps = k\<rparr>
     = [\<lparr>behind = rev (status_text st) @ b, rest = y, caps = (2, status_text st) # k\<rparr>]"
  by (cases st) (simp_all add: status_text_def run_lit)

lemma run_tool:
  "run (Grp 3 (alts [lit ''Bash'', lit ''Write'', lit ''Edit'']))
       \<lparr>behind = b, rest = tool_text w @ y, caps = k\<rparr>
     = [\<lparr>behind = rev (tool_text w) @ b, rest = y, caps = (3, tool_text w) # k\<rparr>]"
  by (cases w) (simp_all add: tool_text_def run_lit)

lemma blank_status:
  "run (Seq (plus ws) (Seq (Grp 2 (alts [lit ''PASS'', lit ''BLOCK'', lit ''WARN'', lit ''ERROR''])) re))
       \<lparr>behind = b, rest = CHR '' '' # status_text st @ y, caps = k\<rparr>
     = run re \<lparr>behind = rev (status_text st) @ CHR '' '' # b, rest = y, caps = (2, status_text st) # k\<rparr>"
  by (subst run_blank)
    (cases st; simp add: status_text_def js_ws_def run_lit; auto simp: js_ws_def run_lit)+

lemma blank_tool:
  "run (Seq (plus ws) (Seq (Grp 3 (alts [lit ''Bash'', lit ''Write'', lit ''Edit''])) re))
       \<lparr>behind = b, rest = CHR '' '' # tool_text w @ y, caps = k\<rparr>
     = run re \<lparr>behind = rev (tool_text w) @ CHR '' '' # b, rest = y, caps = (3, tool_text w) # k\<rparr>"
  by (subst run_blank)
    (cases w; simp add: tool_text_def js_ws_def run_lit; auto simp: js_ws_def run_lit)+


definition clean_entry :: "log_entry \<Rightarrow> bool" where
  "clean_entry e \<longleftrightarrow>
     dquote \<notin> set (le_target e) \<and> clean_failures (le_failures e) \<and> clean_error (le_error e)"

lemma run_target:
  assumes "dquote \<notin> set tg"
  shows "run (Seq (plus ws) (Seq (lit ''target='') (Seq (chr dquote)
        (Seq (Grp 4 (star (none_of [dquote]))) (Seq (chr dquote) re)))))
       \<lparr>behind = b, rest = '' target='' @ quoted tg @ y, caps = k\<rparr>
     = run re \<lparr>behind = dquote # rev tg @ dquote # rev '' target='' @ b, rest = y, caps = (4, tg) # k\<rparr>"
proof -
  have "run (Seq (plus ws) (Seq (lit ''target='') (Seq (chr dquote)
        (Seq (Grp 4 (star (none_of [dquote]))) (Seq (chr dquote) re)))))
       \<lparr>behind = b, rest = '' target='' @ quoted tg @ y, caps = k\<rparr>
     = run (Seq (Grp 4 (star (none_of [dquote]))) (Seq (chr dquote) re))
         \<lparr>behind = dquote # rev '' target='' @ b, rest = tg @ dquote # y, caps = k\<rparr>"
    by (simp add: run_blank_lit js_ws_def del: run.simps, simp only: run_lit_Seq)
      (simp add: chr_def quoted_def)
  also have "\<dots> = run (Seq (chr dquote) re)
      \<lparr>behind = rev tg @ dquote # rev '' target='' @ b, rest = dquote # y, caps = (4, tg) # k\<rparr>"
    unfolding none_of_def star_def
    by (subst run_group_until [where x = tg and y = "dquote # y"]) (use assms in \<open>auto simp: run_chr\<close>)
  also have "\<dots> = run re \<lparr>behind = dquote # rev tg @ dquote # rev '' target='' @ b, rest = y, caps = (4, tg) # k\<rparr>"
    by (simp add: run_chr)
  finally show ?thesis .
qed

definition line_tail :: regex where
  "line_tail = sq [opt failures_part, opt error_part, EndText]"

text \<open>Up to the quote that closes the target there is one way to match a line.\<close>

lemma run_log_line:
  assumes "iso_timestamp ts" and "dquote \<notin> set tg"
  shows "\<exists>re b. log_line_pattern = Seq StartText re
     \<and> run re \<lparr>behind = [],
          rest = ts @ '' '' @ status_text st @ '' '' @ tool_text w @ '' target='' @ quoted tg @ y, caps = []\<rparr>
       = run line_tail \<lparr>behind = b, rest = y, caps = [(4, tg), (3, tool_text w), (2, status_text st), (1, ts)]\<rparr>"
proof -
  let ?y3 = "'' target='' @ quoted tg @ y"
  let ?y2 = "CHR '' '' # tool_text w @ ?y3"
  let ?y1 = "CHR '' '' # status_text st @ ?y2"
  let ?P3 = "Seq (plus ws) (Seq (lit ''target='') (Seq (chr dquote)
        (Seq (Grp 4 (star (none_of [dquote]))) (Seq (chr dquote) line_tail))))"
  let ?P2 = "Seq (plus ws) (Seq (Grp 3 (alts [lit ''Bash'', lit ''Write'', lit ''Edit''])) ?P3)"
  let ?P1 = "Seq (plus ws) (Seq (Grp 2 (alts [lit ''PASS'', lit ''BLOCK'', lit ''WARN'', lit ''ERROR''])) ?P2)"
  have pat: "log_line_pattern = Seq StartText (Seq (Grp 1 timestamp_pattern) ?P1)"
    by (simp only: log_line_pattern_def line_tail_def sq.simps)
  let ?s = "\<lparr>behind = [], rest = ts @ ?y1, caps = []\<rparr>"
  have ts: "run (Grp 1 timestamp_pattern) ?s = [\<lparr>behind = rev ts, rest = ?y1, caps = [(1, ts)]\<rparr>]"
    using run_timestamp [OF assms(1), of ?s ?y1] by simp
  have "run (Seq (Grp 1 timestamp_pattern) ?P1) ?s
      = run ?P1 \<lparr>behind = rev ts, rest = ?y1, caps = [(1, ts)]\<rparr>"
    by (rule run_Seq_single [OF ts])
  also have "\<dots> = run line_tail \<lparr>behind = dquote # rev tg @ dquote # rev '' target=''
        @ rev (tool_text w) @ CHR '' '' # rev (status_text st) @ CHR '' '' # rev ts,
      rest = y, caps = [(4, tg), (3, tool_text w), (2, status_text st), (1, ts)]\<rparr>"
    unfolding blank_status blank_tool by (rule run_target [OF assms(2)])
  finally show ?thesis using pat by (intro exI conjI) (assumption, simp)
qed

lemma exec_log_line:
  assumes "iso_timestamp ts" and "clean_entry e"
  shows "\<exists>m. re_exec log_line_pattern (formatLogLine e ts) = Some m
     \<and> m_caps m = error_caps (le_error e) @ failure_caps (le_failures e)
         @ [(4, le_target e), (3, tool_text (le_tool e)), (2, status_text (le_status e)), (1, ts)]"
proof -
  let ?y = "failures_text (le_failures e) @ error_text (le_error e)"
  let ?caps = "[(4, le_target e), (3, tool_text (le_tool e)), (2, status_text (le_status e)), (1, ts)]"
  have cl: "dquote \<notin> set (le_target e)" "clean_failures (le_failures e)" "clean_error (le_error e)"
    using assms(2) by (auto simp: clean_entry_def)
  obtain re b where pat: "log_line_pattern = Seq StartText re"
    and r: "run re \<lparr>behind = [], rest = formatLogLine e ts, caps = []\<rparr>
      = run line_tail \<lparr>behind = b, rest = ?y, caps = ?caps\<rparr>"
    using run_log_line [OF assms(1) cl(1), of "le_status e" "le_tool e" ?y]
    unfolding formatLogLine_def by blast
  obtain t us where "run line_tail \<lparr>behind = b, rest = ?y, caps = ?caps\<rparr> = t # us"
      and "caps t = error_caps (le_error e) @ failure_caps (le_failures e) @ ?caps"
    using run_tail_parts [OF cl(2,3)] unfolding line_tail_def by metis
  then show ?thesis
    unfolding pat re_exec_anchored match_here_def r by (simp add: mk_match_def)
qed

definition logged :: "string \<Rightarrow> log_entry \<Rightarrow> parsed_line" where
  "logged ts e =
     \<lparr>pl_timestamp = ts, pl_status = le_status e, pl_tool = le_tool e, pl_target = le_target e,
      pl_failures = (case le_failures e of Some (f # gs) \<Rightarrow> Some (f # gs) | _ \<Rightarrow> None),
      pl_error = (if truthy (le_error e) then Some (take 100 (the (le_error e))) else None)\<rparr>"

lemma status_of_text [simp]: "status_of (status_text s) = Some s"
  by (cases s) (simp_all add: status_of_def status_text_def)

lemma tool_of_text [simp]: "tool_of (tool_text t) = Some t"
  by (cases t) (simp_all add: tool_of_def tool_text_def)

lemma error_group:
  "map_of (error_caps e @ failure_caps fs @ [(4, a), (3, b), (2, c), (1, d)]) (6 :: nat)
     = (if truthy e then Some (take 100 (the e)) else None)"
  by (auto simp: error_caps_def failure_caps_def split: option.splits list.splits)

lemma failure_group:
  "map_of (error_caps e @ failure_caps fs @ [(4, a), (3, b), (2, c), (1, d)]) (5 :: nat)
     = (case fs of Some (f # gs) \<Rightarrow> Some (join_with '','' (f # gs)) | _ \<Rightarrow> None)"
  by (auto simp: error_caps_def failure_caps_def split: option.splits list.splits)

lemma plain_groups:
  "n < (5 :: nat) \<Longrightarrow> map_of (error_caps e @ failure_caps fs @ ks) n = map_of ks n"
  by (auto simp: error_caps_def failure_caps_def split: option.splits list.splits)

lemma parsed_failures:
  assumes "clean_failures fs"
  shows "(if truthy (case fs of Some (f # gs) \<Rightarrow> Some (join_with '','' (f # gs)) | _ \<Rightarrow> None)
     then Some (filter (\<lambda>f. f \<noteq> []) (split_char CHR '',''
       (the (case fs of Some (f # gs) \<Rightarrow> Some (join_with '','' (f # gs)) | _ \<Rightarrow> None)))) else None)
     = (case fs of Some (f # gs) \<Rightarrow> Some (f # gs) | _ \<Rightarrow> None)"
proof (cases "\<exists>f gs. fs = Some (f # gs)")
  case True
  then obtain f gs where fs: "fs = Some (f # gs)" by blast
  have c: "\<forall>x\<in>set (f # gs). CHR '','' \<notin> set x" and n: "\<forall>x\<in>set (f # gs). x \<noteq> []"
    using assms by (auto simp: fs clean_failures_def list_all_iff)
  have "split_char CHR '','' (join_with '','' (f # gs)) = f # gs"
    by (rule split_join_with [OF _ c]) simp
  moreover have "join_with '','' (f # gs) \<noteq> []"
    by (rule join_with_not_Nil [OF _ n]) simp
  moreover have "filter (\<lambda>f. f \<noteq> []) (f # gs) = f # gs" using n by (simp add: filter_id_conv)
  ultimately show ?thesis by (simp add: fs truthy_def del: join_with.simps filter.simps)
qed (auto simp: truthy_def split: option.splits list.splits)

lemma iso_timestamp_parts: "iso_timestamp ts \<Longrightarrow> ts \<noteq> [] \<and> js_digit (hd ts) \<and> nl \<notin> set ts"
  by (auto simp: iso_timestamp_def list_all2_Cons1 js_digit_def)

definition sample_entry :: log_entry where
  "sample_entry = \<lparr>le_status = BLOCK, le_target = ''git add'', le_tool = Bash,
     le_failures = Some [''a'', ''b''], le_error = None\<rparr>"

definition sample_time :: string where
  "sample_time = ''2026-01-02T03:04:05.678Z''"

lemma sample_time_iso: "iso_timestamp sample_time"
  by (simp add: sample_time_def iso_timestamp_def js_digit_def)

lemma sample_entry_clean: "clean_entry sample_entry"
  by (simp add: sample_entry_def clean_entry_def clean_failures_def clean_error_def)

lemma parse_matched:
  assumes "re_exec log_line_pattern (formatLogLine e ts) = Some m"
    and "m_caps m = error_caps (le_error e) @ failure_caps (le_failures e)
         @ [(4, le_target e), (3, tool_text (le_tool e)), (2, status_text (le_status e)), (1, ts)]"
    and "iso_timestamp ts" and "clean_entry e"
  shows "parseLogLine (formatLogLine e ts) = Some (logged ts e)"
proof -
  note m = assms(1) and k = assms(2)
  have cf: "clean_failures (le_failures e)" using assms(4) by (simp add: clean_entry_def)
  have g: "group m 1 = Some ts" "group m 2 = Some (status_text (le_status e))"
      "group m 3 = Some (tool_text (le_tool e))" "group m 4 = Some (le_target e)"
    by (simp_all add: group_def k plain_groups del: map_of_append)
  have g56: "group m 5 = (case le_failures e of Some (f # gs) \<Rightarrow> Some (join_with '','' (f # gs)) | _ \<Rightarrow> None)"
      "group m 6 = (if truthy (le_error e) then Some (take 100 (the (le_error e))) else None)"
    unfolding group_def k by (rule failure_group, rule error_group)
  have e6: "(if truthy (group m 6) then group m 6 else None) = pl_error (logged ts e)"
    unfolding g56(2) by (auto simp: logged_def truthy_def split: option.splits)
  have "parseLogLine (formatLogLine e ts) = Some \<lparr>pl_timestamp = ts, pl_status = le_status e,
      pl_tool = le_tool e, pl_target = le_target e,
      pl_failures = (if truthy (group m 5)
        then Some (filter (\<lambda>f. f \<noteq> []) (split_char CHR '','' (the (group m 5)))) else None),
      pl_error = (if truthy (group m 6) then group m 6 else None)\<rparr>"
    using m g iso_timestamp_parts [OF assms(3)] by (simp add: parseLogLine_def)
  then show ?thesis
    unfolding e6 g56(1) parsed_failures [OF cf] by (simp add: logged_def)
qed

text \<open>C22. A line of the run log is read back: for a timestamp in the form of \<open>toISOString\<close> and an
  entry whose target, failures and error hold none of the delimiters, parsing the formatted line
  gives the entry, its error cut to 100 characters.\<close>
theorem log_line_roundtrip:
  assumes "iso_timestamp ts" and "clean_entry e"
  shows "parseLogLine (formatLogLine e ts) = Some (logged ts e)"
proof -
  obtain m where "re_exec log_line_pattern (formatLogLine e ts) = Some m"
    and "m_caps m = error_caps (le_error e) @ failure_caps (le_failures e)
         @ [(4, le_target e), (3, tool_text (le_tool e)), (2, status_text (le_status e)), (1, ts)]"
    using exec_log_line [OF assms] by blast
  then show ?thesis using assms by (rule parse_matched)
qed

theorem log_line_roundtrip_witness:
  "parseLogLine (formatLogLine sample_entry sample_time) = Some (logged sample_time sample_entry)"
  by (rule log_line_roundtrip [OF sample_time_iso sample_entry_clean])

section \<open>What is in the file\<close>

definition clean_line :: "string \<Rightarrow> bool" where
  "clean_line l \<longleftrightarrow> l \<noteq> [] \<and> nl \<notin> set l \<and> \<not> js_ws (hd l) \<and> \<not> js_ws (last l)"

definition one_line :: "log_entry \<Rightarrow> bool" where
  "one_line e \<longleftrightarrow>
     nl \<notin> set (le_target e @ failures_text (le_failures e) @ error_text (le_error e))"

definition last_lines :: "nat \<Rightarrow> 'a list \<Rightarrow> 'a list" where
  "last_lines n xs = drop (length xs - n) xs"

lemma last_lines_map: "last_lines n (map f xs) = map f (last_lines n xs)"
  by (simp add: last_lines_def drop_map)

lemma rotateLines_last: "0 < n \<Longrightarrow> rotateLines xs n = last_lines n xs"
  by (simp add: rotateLines_def last_lines_def)

lemma last_lines_snoc: "last_lines n (last_lines n xs @ [x]) = last_lines n (xs @ [x])"
proof (cases "n < length xs")
  case True
  then have "Suc (length xs) - n = Suc (length xs - n)" by simp
  with True show ?thesis by (cases n) (simp_all add: last_lines_def)
qed (simp add: last_lines_def)

lemma js_trim_line: "s \<noteq> [] \<Longrightarrow> \<not> js_ws (hd s) \<Longrightarrow> \<not> js_ws (last s) \<Longrightarrow> js_trim (s @ [nl]) = s"
  by (simp add: js_trim_def js_trim_start_def js_trim_end_def dropWhile_hd_id hd_rev js_ws_def)

lemma join_ends:
  "ls \<noteq> [] \<Longrightarrow> list_all clean_line ls \<Longrightarrow>
     hd (join_with sep ls) = hd (hd ls) \<and> last (join_with sep ls) = last (last ls) \<and> join_with sep ls \<noteq> []"
  by (induction sep ls rule: join_with.induct) (auto simp: clean_line_def)

lemma read_written:
  assumes "list_all clean_line ls"
  shows "readLogLines file (writeLogLines file ls fs) = ls"
proof (cases "ls = []")
  case True
  then show ?thesis by (simp add: readLogLines_def writeLogLines_def js_trim_Nil_iff [THEN iffD2] js_ws_def)
next
  case False
  let ?t = "join_with [nl] ls"
  have j: "hd ?t = hd (hd ls)" "last ?t = last (last ls)" "?t \<noteq> []"
    using join_ends [OF False assms] by auto
  have "js_trim (?t @ [nl]) = ?t"
    using assms False j by (intro js_trim_line) (auto simp: clean_line_def list_all_iff)
  moreover have "split_char nl ?t = ls"
    using assms by (intro split_join_with [OF False]) (auto simp: clean_line_def list_all_iff)
  moreover have "filter (\<lambda>l. l \<noteq> []) ls = ls"
    using assms by (auto simp: filter_id_conv clean_line_def list_all_iff)
  ultimately show ?thesis by (simp add: readLogLines_def writeLogLines_def)
qed

lemma last_format: "last (formatLogLine e ts) = dquote \<or> last (formatLogLine e ts) = CHR '']''"
  by (auto simp: formatLogLine_def failures_text_def error_text_def quoted_def split: option.splits list.splits)

lemma clean_formatted:
  assumes "iso_timestamp ts" and "one_line e"
  shows "clean_line (formatLogLine e ts)"
proof -
  have t: "ts \<noteq> []" "js_digit (hd ts)" "nl \<notin> set ts" using iso_timestamp_parts [OF assms(1)] by auto
  have "nl \<notin> set (formatLogLine e ts)"
    using t(3) assms(2) by (auto simp: formatLogLine_def one_line_def quoted_def status_text_def tool_text_def
        split: log_status.splits tool_type.splits)
  moreover have "hd (formatLogLine e ts) = hd ts" "formatLogLine e ts \<noteq> []"
    using t(1) by (simp_all add: formatLogLine_def)
  moreover have "\<not> js_ws (last (formatLogLine e ts))"
    using last_format [of e ts] by (auto simp: js_ws_def)
  moreover have "\<not> js_ws (hd ts)" using t(2) by (auto simp: js_ws_def js_digit_def)
  ultimately show ?thesis by (simp add: clean_line_def)
qed

definition run_log :: "log_config \<Rightarrow> (string \<times> log_entry) list \<Rightarrow> files \<Rightarrow> files" where
  "run_log config runs fs = foldl (\<lambda>f (ts, e). logRun config ts e f) fs runs"

definition fits_line :: "string \<times> log_entry \<Rightarrow> bool" where
  "fits_line r \<longleftrightarrow> iso_timestamp (fst r) \<and> clean_entry (snd r) \<and> one_line (snd r)"

lemma clean_last_lines: "list_all clean_line xs \<Longrightarrow> list_all clean_line (last_lines n xs)"
  by (auto simp: list_all_iff last_lines_def dest: in_set_dropD)

lemma log_lines_kept:
  assumes "log_enabled config" and "0 < max_lines config"
    and "fs (log_file config) = None" and "list_all fits_line runs"
  shows "readLogLines (log_file config) (run_log config runs fs)
     = last_lines (max_lines config) (map (\<lambda>(ts, e). formatLogLine e ts) runs)"
  using assms(4)
proof (induction runs rule: rev_induct)
  case Nil
  then show ?case using assms(3) by (simp add: run_log_def readLogLines_def last_lines_def)
next
  case (snoc r runs)
  let ?f = "\<lambda>(ts, e). formatLogLine e ts" and ?n = "max_lines config"
  have cl: "list_all clean_line (map ?f (runs @ [r]))"
    using snoc.prems clean_formatted by (auto simp: list_all_iff fits_line_def split: prod.splits)
  have ih: "readLogLines (log_file config) (run_log config runs fs) = last_lines ?n (map ?f runs)"
    using snoc by simp
  have "run_log config (runs @ [r]) fs
      = writeLogLines (log_file config) (last_lines ?n (map ?f (runs @ [r]))) (run_log config runs fs)"
    using assms(1,2) ih by (cases r) (simp add: run_log_def logRun_def rotateLines_last last_lines_snoc)
  then show ?case using read_written [OF clean_last_lines [OF cl]] by simp
qed



lemma part_needs_blank:
  "\<not> js_ws c \<Longrightarrow> run failures_part \<lparr>behind = b, rest = c # y, caps = k\<rparr> = []"
  "\<not> js_ws c \<Longrightarrow> run error_part \<lparr>behind = b, rest = c # y, caps = k\<rparr> = []"
  by (simp_all add: failures_part_def error_part_def plus_none)

text \<open>A target with a double quote cannot be read back: unless a blank follows the first quote,
  the line the logger writes for it does not parse, so \<open>readLogs\<close> drops the entry (a
  commit with a quoted message, for one).\<close>
theorem quoted_target_unreadable:
  assumes "iso_timestamp ts" and "le_target e = a @ dquote # b" and "dquote \<notin> set a"
    and "b = [] \<or> \<not> js_ws (hd b)"
  shows "parseLogLine (formatLogLine e ts) = None"
proof -
  let ?y = "b @ dquote # failures_text (le_failures e) @ error_text (le_error e)"
  let ?caps = "[(4, a), (3, tool_text (le_tool e)), (2, status_text (le_status e)), (1, ts)]"
  obtain c z where y: "?y = c # z" and c: "\<not> js_ws c"
    using assms(4) by (cases b) (auto simp: js_ws_def)
  have line: "formatLogLine e ts = ts @ '' '' @ status_text (le_status e) @ '' '' @ tool_text (le_tool e)
      @ '' target='' @ quoted a @ ?y"
    by (simp add: formatLogLine_def quoted_def assms(2))
  obtain re p where pat: "log_line_pattern = Seq StartText re"
    and r: "run re \<lparr>behind = [], rest = formatLogLine e ts, caps = []\<rparr>
      = run line_tail \<lparr>behind = p, rest = ?y, caps = ?caps\<rparr>"
    using run_log_line [OF assms(1,3), of "le_status e" "le_tool e" ?y] unfolding line by blast
  have "run line_tail \<lparr>behind = p, rest = ?y, caps = ?caps\<rparr> = []"
    unfolding y line_tail_def sq.simps using c by (simp add: run_opt_skip part_needs_blank)
  then show ?thesis
    unfolding parseLogLine_def pat re_exec_anchored match_here_def r by simp
qed

theorem quoted_target_unreadable_witness:
  "parseLogLine (formatLogLine (sample_entry\<lparr>le_target := ''git commit -m '' @ quoted ''x''\<rparr>) sample_time) = None"
  using quoted_target_unreadable [OF sample_time_iso, of "sample_entry\<lparr>le_target := ''git commit -m '' @ quoted ''x''\<rparr>"
      "''git commit -m ''" "''x'' @ [dquote]"]
  by (simp add: quoted_def js_ws_def)

end
