(* ===== verification/DangerousCommands.thy ===== *)
theory DangerousCommands
  imports HookEnv
begin

text \<open>
  The dangerous-commands validator of the pretool guard
  (\<open>src/hooks/pretool-guard/validators/dangerous-commands.ts\<close>).
\<close>

section \<open>The patterns\<close>

definition letter :: regex where \<comment> \<open>\<open>[a-zA-Z]\<close>\<close>
  "letter = Cls (\<lambda>c. js_lower_char c \<or> js_upper_char c)"

definition force_push_pattern :: regex where
  "force_push_pattern =
     sq [WordBd, lit ''git'', plus ws, lit ''push'', plus ws, star dot, lit ''--force'',
         alts [ws, chr CHR ''='', EndText]]"

text \<open>\<open>(-[a-zA-Z]*r[a-zA-Z]*f|--recursive\\b.*--force|-[a-zA-Z]*f[a-zA-Z]*r)\<close>\<close>

definition rm_flags :: regex where
  "rm_flags =
     Grp 1 (alts
       [sq [chr CHR ''-'', star letter, chr CHR ''r'', star letter, chr CHR ''f''],
        sq [lit ''--recursive'', WordBd, star dot, lit ''--force''],
        sq [chr CHR ''-'', star letter, chr CHR ''f'', star letter, chr CHR ''r'']])"

definition secret_source :: regex where
  "secret_source =
     sq [WordBd,
       alts [sq [lit ''gh'', plus ws, lit ''auth'', plus ws, lit ''token''],
         sq [lit ''op'', plus ws, lit ''read''],
         sq [lit ''doppler'', plus ws, lit ''secrets'', plus ws, lit ''get''],
         sq [lit ''aws'', plus ws, lit ''sts'', plus ws, lit ''get-'',
             alts [lit ''session-token'', lit ''caller-identity'']],
         sq [lit ''gcloud'', plus ws, lit ''auth'', plus ws, lit ''print-'',
             alts [lit ''access'', lit ''identity''], lit ''-token''],
         sq [lit ''az'', plus ws, lit ''account'', plus ws, lit ''get-access-token''],
         sq [lit ''vault'', plus ws, lit ''kv'', plus ws, lit ''get''],
         sq [lit ''kubectl'', plus ws, lit ''get'', plus ws, lit ''secret'']],
       WordBd]"

definition secret_variable :: regex where
  "secret_variable =
     alts [lit ''GH_PACKAGES_TOKEN'', lit ''GITHUB_TOKEN'', lit ''NPM_TOKEN'', lit ''OPENAI_API_KEY'',
       lit ''ANTHROPIC_API_KEY'', lit ''DOPPLER_TOKEN'', lit ''DATABASE_URL'', lit ''GEMINI_API_KEY'',
       lit ''GOOGLE_API_KEY'',
       sq [lit ''AWS_'', opt (lit ''SECRET_''), lit ''ACCESS_KEY'', opt (lit ''_ID'')]]"

text \<open>The patterns with their descriptions, in the order of the table.\<close>

definition DANGEROUS_PATTERNS :: "(regex \<times> string) list" where
  "DANGEROUS_PATTERNS =
    [(force_push_pattern, ''git push --force can overwrite remote history''),
     (sq [WordBd, lit ''git'', plus ws, lit ''push'', plus ws, lit ''-f'', WordBd],
      ''git push -f can overwrite remote history''),
     (sq [WordBd, lit ''rm'', plus ws, rm_flags, plus ws, chr CHR ''/'', Alt ws EndText],
      ''rm -rf / is catastrophically destructive''),
     (sq [WordBd, lit ''rm'', plus ws, rm_flags, plus ws, chr CHR ''~'',
          alts [ws, EndText, Seq (chr CHR ''/'') ws]],
      ''rm -rf ~ deletes entire home directory''),
     (sq [WordBd, lit ''git'', plus ws, lit ''reset'', plus ws, lit ''--hard'', WordBd],
      ''git reset --hard discards uncommitted changes''),
     (sq [WordBd, lit ''git'', plus ws, lit ''clean'', plus ws, star dot, lit ''-f''],
      ''git clean -f deletes untracked files permanently''),
     (sq [WordBd, lit ''mkfs'', WordBd], ''mkfs formats filesystems''),
     (sq [WordBd, lit ''dd'', plus ws, star dot, lit ''of=/dev/''], ''dd to device can overwrite disk''),
     (sq [secret_source, star (none_of ''|<&''), chr CHR ''>'', star ws, non_ws],
      ''redirecting a secret-source command into a file persists credentials to disk '' @ em_dash_str
      @ '' never cache secrets (see .agent/rules/agent-guide.md)''),
     (sq [secret_source, star (none_of ''|''), chr CHR ''|'', star ws,
          alts [lit ''tee'', lit ''sponge'', sq [lit ''dd'', plus ws, lit ''of='']]],
      ''piping a secret-source command through tee/sponge/dd persists credentials to disk '' @ em_dash_str
      @ '' never cache secrets''),
     (sq [WordBd, alts [lit ''echo'', lit ''printf''], WordBd, star (none_of ''>''), chr CHR ''$'',
          opt (chr CHR ''{''), secret_variable, opt (chr CHR ''}''), star (none_of ''>''), chr CHR ''>'',
          opt (chr CHR ''>''), star ws, non_ws],
      ''redirecting a secret env var (echo/printf) to a file persists credentials to disk '' @ em_dash_str
      @ '' never cache secrets'')]"

section \<open>The validator\<close>

definition dangerous_name :: string where
  "dangerous_name = ''dangerous-commands''"

definition validateDangerousCommands :: "hook_env \<Rightarrow> tool_input \<Rightarrow> validation_result" where
  "validateDangerousCommands env input =
     (if env_one env ''DANGEROUS_COMMANDS_SKIP'' then createSkipResult dangerous_name default_skip_reason
      else if \<not> isBashInput input then createSkipResult dangerous_name ''Not a Bash command''
      else
        (case getCommand input of
           None \<Rightarrow> mk_result dangerous_name True None
         | Some command \<Rightarrow>
             if command = [] then mk_result dangerous_name True None
             else
               (case find (\<lambda>(p, _). re_test p command) DANGEROUS_PATTERNS of
                  None \<Rightarrow> mk_result dangerous_name True None
                | Some (_, description) \<Rightarrow>
                    mk_result dangerous_name False
                      (Some (quoted command @ '' '' @ arrow_str @ '' '' @ description)))))"

end
