(* ===== verification/PathContract.thy ===== *)
theory PathContract
  imports HookEnv
begin

text \<open>
  Where blueprint documents may live: \<open>src/blueprint/utils/document-paths.ts\<close> and
  \<open>src/hooks/pretool-guard/validators/path-contract.ts\<close>.
\<close>

section \<open>Document paths (document-paths.ts)\<close>

definition BLUEPRINT_OVERVIEW_FILENAME :: string where
  "BLUEPRINT_OVERVIEW_FILENAME = ''_overview.md''"

definition BLUEPRINT_STATUSES :: "string list" where
  "BLUEPRINT_STATUSES = [''draft'', ''planned'', ''parked'', ''in-progress'', ''completed'', ''archived'']"

datatype blueprint_shape = Flat | Folder

record document_path =
  relativePath :: string
  shape :: blueprint_shape
  slug :: string
  state :: string

definition slug_segment_pattern :: regex where
  "slug_segment_pattern =
     (let part = plus (Cls (\<lambda>c. js_lower_char c \<or> js_digit c))
      in sq [StartText, part, star (Seq (chr CHR ''-'') part), EndText])"

definition forward_slashes :: "string \<Rightarrow> string" where \<comment> \<open>\<open>replace(/\\\\/g, "/")\<close>\<close>
  "forward_slashes p = replace_all (chr backslash) (\<lambda>_. ''/'') p"

lemma forward_slashes_map [code]: "forward_slashes p = map (\<lambda>x. if x = backslash then CHR ''/'' else x) p"
  by (induction p) (simp_all add: forward_slashes_def replace_all_chr)

definition normalizeBlueprintPath :: "string \<Rightarrow> string" where
  "normalizeBlueprintPath p =
     replace_first (Seq StartText (plus (chr CHR ''/''))) (\<lambda>_. []) (forward_slashes p)"

definition isBlueprintStatus :: "string \<Rightarrow> bool" where
  "isBlueprintStatus s \<longleftrightarrow> s \<in> set BLUEPRINT_STATUSES"

definition isBlueprintSlugSegment :: "string \<Rightarrow> bool" where
  "isBlueprintSlugSegment s \<longleftrightarrow> re_test slug_segment_pattern s"

definition nonempty_segments :: "string \<Rightarrow> string list" where
  "nonempty_segments p = filter (\<lambda>s. s \<noteq> []) (split_char CHR ''/'' p)"

definition drop_md :: "string \<Rightarrow> string" where \<comment> \<open>\<open>slice(0, -3)\<close>\<close>
  "drop_md s = take (length s - 3) s"

definition parseBlueprintDocumentRelativePath :: "string \<Rightarrow> document_path option" where
  "parseBlueprintDocumentRelativePath p =
     (case nonempty_segments (normalizeBlueprintPath p) of
        [st, second] \<Rightarrow>
          if isBlueprintStatus st \<and> ends_with second ''.md'' \<and> isBlueprintSlugSegment (drop_md second)
          then Some \<lparr>relativePath = st @ ''/'' @ drop_md second @ ''.md'', shape = Flat,
                     slug = drop_md second, state = st\<rparr>
          else None
      | [st, second, third] \<Rightarrow>
          if isBlueprintStatus st \<and> isBlueprintSlugSegment second \<and> third = BLUEPRINT_OVERVIEW_FILENAME
          then Some \<lparr>relativePath = st @ ''/'' @ second @ ''/'' @ BLUEPRINT_OVERVIEW_FILENAME,
                     shape = Folder, slug = second, state = st\<rparr>
          else None
      | _ \<Rightarrow> None)"

definition isBlueprintSupportingMarkdownRelativePath :: "string \<Rightarrow> bool" where
  "isBlueprintSupportingMarkdownRelativePath p =
     (case nonempty_segments (normalizeBlueprintPath p) of
        [st, sl, doc] \<Rightarrow>
          isBlueprintStatus st \<and> isBlueprintSlugSegment sl \<and> ends_with doc ''.md''
          \<and> doc \<noteq> BLUEPRINT_OVERVIEW_FILENAME
      | _ \<Rightarrow> False)"

definition flat_document_path :: "string \<Rightarrow> string \<Rightarrow> string \<Rightarrow> string" where
  "flat_document_path root st sl = path_join [root, st, sl @ ''.md'']"

definition folder_document_path :: "string \<Rightarrow> string \<Rightarrow> string \<Rightarrow> string" where
  "folder_document_path root st sl = path_join [path_join [root, st, sl], BLUEPRINT_OVERVIEW_FILENAME]"

definition getBlueprintDocumentCandidates :: "string \<Rightarrow> string \<Rightarrow> string list" where
  "getBlueprintDocumentCandidates root sl =
     (case nonempty_segments (normalizeBlueprintPath sl) of
        [st, name] \<Rightarrow>
          if isBlueprintStatus st \<and> isBlueprintSlugSegment name
          then [flat_document_path root st name, folder_document_path root st name] else []
      | _ \<Rightarrow> [])"

definition getBlueprintAlternateDocumentPath :: "string \<Rightarrow> string \<Rightarrow> string \<Rightarrow> string option" where
  "getBlueprintAlternateDocumentPath cwd root p =
     map_option (\<lambda>d. if shape d = Flat then folder_document_path root (state d) (slug d)
                     else flat_document_path root (state d) (slug d))
       (parseBlueprintDocumentRelativePath (normalizeBlueprintPath (path_relative cwd root p)))"

section \<open>The path contract (path-contract.ts)\<close>

definition BLUEPRINTS_ROOT :: string where "BLUEPRINTS_ROOT = ''webpresso/blueprints''"
definition TECH_DEBT_ROOT :: string where "TECH_DEBT_ROOT = ''webpresso/tech-debt''"

definition CANONICAL_BLUEPRINTS_ROOTS :: "string list" where
  "CANONICAL_BLUEPRINTS_ROOTS = [BLUEPRINTS_ROOT, ''blueprints'']"

definition CANONICAL_TECH_DEBT_ROOTS :: "string list" where
  "CANONICAL_TECH_DEBT_ROOTS = [TECH_DEBT_ROOT, ''tech-debt'']"

definition normalizePlanningPath :: "string \<Rightarrow> string" where
  "normalizePlanningPath p = replace_first (Seq StartText (chr CHR ''/'')) (\<lambda>_. []) (forward_slashes p)"

definition matchesRoot :: "string \<Rightarrow> string \<Rightarrow> bool" where
  "matchesRoot normalized root \<longleftrightarrow> normalized = root \<or> starts_with normalized (root @ ''/'')"

fun stripBlueprintRoot :: "string \<Rightarrow> string list \<Rightarrow> (string \<times> string) option" where
  "stripBlueprintRoot normalized [] = None"
| "stripBlueprintRoot normalized (root # roots) =
     (if normalized = root then Some ([], root)
      else if starts_with normalized (root @ ''/'') then Some (drop (length root + 1) normalized, root)
      else stripBlueprintRoot normalized roots)"

definition isBlueprintPath :: "string \<Rightarrow> string option \<Rightarrow> bool" where
  "isBlueprintPath p bp =
     (let normalized = normalizePlanningPath p
      in case bp of Some root \<Rightarrow> matchesRoot normalized root
         | None \<Rightarrow> list_ex (matchesRoot normalized) CANONICAL_BLUEPRINTS_ROOTS)"

definition roots_of :: "string option \<Rightarrow> string list \<Rightarrow> string list" where
  "roots_of configured canonical = (if truthy configured then [the configured] else canonical)"

definition getNonCanonicalPlanningPathViolation ::
    "string \<Rightarrow> string option \<Rightarrow> string option \<Rightarrow> string option" where
  "getNonCanonicalPlanningPathViolation p bp td =
     (let normalized = normalizePlanningPath p; parts = split_char CHR ''/'' normalized
      in if list_ex (matchesRoot normalized) (roots_of bp CANONICAL_BLUEPRINTS_ROOTS)
            \<or> list_ex (matchesRoot normalized) (roots_of td CANONICAL_TECH_DEBT_ROOTS) then None
         else if \<not> ends_with normalized ''.md'' then None
         else if length parts < 2 then None
         else if parts ! 1 \<in> {''blueprints'', ''tech-debt'', ''plan-history''} then
           (let bpLabel = (if truthy bp then text_of bp @ ''/'' else ''blueprints/ or '' @ BLUEPRINTS_ROOT @ ''/'');
                tdLabel = (if truthy td then text_of td @ ''/'' else ''tech-debt/ or '' @ TECH_DEBT_ROOT @ ''/'')
            in Some (''Planning markdown must live under '' @ bpLabel @ '' or '' @ tdLabel @ ''. Got: '' @ normalized))
         else if parts ! 0 = ''platform'' then
           Some (''Legacy planning paths under platform/* are no longer supported. Move blueprints to ''
             @ (case bp of Some r \<Rightarrow> r | None \<Rightarrow> BLUEPRINTS_ROOT) @ ''/.'')
         else None)"

definition getCanonicalBlueprintDocument :: "string \<Rightarrow> string option \<Rightarrow> document_path option" where
  "getCanonicalBlueprintDocument p bp =
     (case stripBlueprintRoot (normalizePlanningPath p) (roots_of bp CANONICAL_BLUEPRINTS_ROOTS) of
        None \<Rightarrow> None | Some (rel, _) \<Rightarrow> parseBlueprintDocumentRelativePath rel)"

definition isCanonicalBlueprintOverviewPath :: "string \<Rightarrow> string option \<Rightarrow> bool" where
  "isCanonicalBlueprintOverviewPath p bp =
     (case getCanonicalBlueprintDocument p bp of None \<Rightarrow> False | Some d \<Rightarrow> shape d = Folder)"

definition isCanonicalBlueprintDocumentPath :: "string \<Rightarrow> string option \<Rightarrow> bool" where
  "isCanonicalBlueprintDocumentPath p bp = (getCanonicalBlueprintDocument p bp \<noteq> None)"

text \<open>The two forms of one document: the path in the form that is not \<open>p\<close>'s, if it exists.\<close>

definition doubled_violation :: "hook_env \<Rightarrow> string \<Rightarrow> string \<Rightarrow> string \<Rightarrow> document_path \<Rightarrow> string option" where
  "doubled_violation env p root cwd parsed =
     (let blueprintRoot = (if path_is_absolute p then path_join [''/'', root] else path_join [cwd, root]);
          currentPath = (if path_is_absolute p then p else path_join [cwd, normalizePlanningPath p])
      in case getBlueprintAlternateDocumentPath (proc_cwd env) blueprintRoot currentPath of
           None \<Rightarrow> None
         | Some alternate \<Rightarrow>
             if alternate \<noteq> [] \<and> file_exists env alternate then
               Some (''Blueprint slug '' @ quoted (state parsed @ ''/'' @ slug parsed)
                 @ '' cannot exist in both flat and folder forms. Remove either ''
                 @ forward_slashes (path_relative (proc_cwd env) cwd p) @ '' or ''
                 @ forward_slashes (path_relative (proc_cwd env) cwd alternate) @ ''.'')
             else None)"

definition getBlueprintPathViolation ::
    "hook_env \<Rightarrow> string \<Rightarrow> string option \<Rightarrow> string option \<Rightarrow> string option" where
  "getBlueprintPathViolation env p bp dir =
     (let cwd = (case dir of None \<Rightarrow> proc_cwd env | Some d \<Rightarrow> d); normalized = normalizePlanningPath p
      in if \<not> isBlueprintPath normalized bp then None
         else
           (case stripBlueprintRoot normalized (roots_of bp CANONICAL_BLUEPRINTS_ROOTS) of
              None \<Rightarrow> None
            | Some (rel, root) \<Rightarrow>
                (case parseBlueprintDocumentRelativePath rel of
                   Some parsed \<Rightarrow> doubled_violation env p root cwd parsed
                 | None \<Rightarrow>
                     (let parts = nonempty_segments rel;
                          at = (\<lambda>n. if n < length parts then parts ! n else [])
                      in if length parts = 2 \<and> ends_with (at 1) ''.md'' then
                           Some (''Blueprint markdown under '' @ root
                             @ ''/<status>/ must be either <slug>.md or <slug>/_overview.md. Got: '' @ normalized)
                         else if length parts = 3 \<and> at 2 = BLUEPRINT_OVERVIEW_FILENAME then
                           Some (''Blueprint overview files must live at '' @ root
                             @ ''/<status>/<slug>/_overview.md. Got: '' @ normalized)
                         else if length parts = 3 \<and> isBlueprintSupportingMarkdownRelativePath rel then
                           (if \<not> file_exists env (path_join [cwd, root, at 0, at 1, BLUEPRINT_OVERVIEW_FILENAME])
                            then Some (''Supporting blueprint markdown requires '' @ root @ ''/'' @ at 0 @ ''/''
                              @ at 1 @ ''/_overview.md. Got: '' @ normalized)
                            else None)
                         else if 3 \<le> length parts \<and> isBlueprintStatus (at 0) then
                           Some (''Blueprint markdown must use one of '' @ root @ ''/<status>/<slug>.md or '' @ root
                             @ ''/<status>/<slug>/_overview.md. Supporting markdown is only allowed beside _overview.md. Got: ''
                             @ normalized)
                         else None))))"

end
