(* ===== verification/FileValidators.thy ===== *)
theory FileValidators
  imports PathContract
begin

text \<open>
  The validators of file writes in \<open>src/hooks/pretool-guard/validators/\<close> and
  \<open>src/hooks/shared/validators/\<close>: blueprint, docs-governance, plan-frontmatter, complexity,
  file-conventions, command-file, test-quality and ux-quality.
\<close>

definition strip_slash :: "string \<Rightarrow> string" where \<comment> \<open>\<open>startsWith("/") ? slice(1) : it\<close>\<close>
  "strip_slash p = (if starts_with p ''/'' then drop 1 p else p)"

definition line_count :: "string \<Rightarrow> nat" where
  "line_count s = length (split_char nl s)"

definition path_start :: regex where \<comment> \<open>\<open>(^|\\/)\<close>\<close>
  "path_start = Grp 1 (Alt StartText (chr CHR ''/''))"

definition ext_of :: "string list \<Rightarrow> regex" where \<comment> \<open>\<open>\\.(a|b|...)$\<close>\<close>
  "ext_of es = sq [chr CHR ''.'', Grp 1 (alts (map lit es)), EndText]"

section \<open>Blueprint files (shared/validators/blueprint.ts, validators/blueprint.ts)\<close>

definition SKIP_PATTERNS :: "regex list" where
  "SKIP_PATTERNS =
     (let ts = [''ts'', ''tsx'', ''js'', ''jsx'']; test_spec = Grp 1 (alts [lit ''test'', lit ''spec'']);
          config_rc = Grp 1 (alts [lit ''config'', lit ''rc'']); dotted = (\<lambda>r. Seq (chr CHR ''.'') r);
          name = plus (none_of ''/'')
      in [dotted (Seq test_spec (ext_of (ts @ [''mjs'']))),
          dotted (Seq test_spec EndText),
          Seq (lit ''.e2e'') (ext_of [''ts'', ''tsx'', ''js'']),
          Seq (lit ''.e2e'') EndText,
          dotted (Seq config_rc (ext_of [''ts'', ''js'', ''mjs'', ''cjs'', ''json'', ''yaml'', ''yml''])),
          sq [path_start, chr CHR ''.'', name, lit ''rc'', EndText],
          sq [path_start, name, dotted config_rc, EndText],
          ext_of [''json'', ''yaml'', ''yml''],
          ext_of [''md''],
          Seq (lit ''.d.ts'') EndText,
          Seq path_start (alts [lit ''__tests__'', lit ''__mocks__'', lit ''test/'', lit ''tests/'', lit ''e2e/'']),
          Seq path_start (lit ''node_modules/''),
          Seq path_start (lit ''dist/''),
          Seq path_start (lit ''build/''),
          sq [path_start, dotted (alts [lit ''next'', lit ''wrangler'', lit ''cache'']), chr CHR ''/''],
          Seq path_start (lit ''coverage/''),
          Seq path_start (lit ''.claude/''),
          Seq path_start (lit ''.git/''),
          Seq (lit ''.gitignore'') EndText,
          Seq path_start (lit ''infra/''),
          lit ''.env'',
          Seq (alts [lit ''pnpm-lock.yaml'', lit ''package-lock.json'', lit ''yarn.lock'', lit ''bun.lockb'']) EndText])"

definition shouldSkipFile :: "string \<Rightarrow> bool" where
  "shouldSkipFile p =
     (let normalized = strip_slash p
      in p \<noteq> [] \<and> \<not> starts_with normalized ''blueprints/''
         \<and> \<not> starts_with normalized ''webpresso/blueprints/''
         \<and> list_ex (\<lambda>r. re_test r normalized) SKIP_PATTERNS)"

definition skip_checks :: "(regex \<times> string) list" where
  "skip_checks =
     (let dot_or_end = Alt (chr CHR ''.'') EndText
      in [(sq [chr CHR ''.'', alts [lit ''test'', lit ''spec''], dot_or_end], ''test file''),
          (Seq (lit ''.e2e'') dot_or_end, ''e2e test file''),
          (ext_of [''md''], ''documentation''),
          (sq [chr CHR ''.'', alts [lit ''config'', lit ''rc''], dot_or_end], ''config file''),
          (ext_of [''json'', ''yaml'', ''yml''], ''data file''),
          (Seq (lit ''.d.ts'') EndText, ''type definitions''),
          (lit ''node_modules'', ''node_modules''),
          (lit ''.claude/'', ''Claude config''),
          (lit ''infra/'', ''infrastructure'')])"

definition getSkipReason :: "string \<Rightarrow> string" where
  "getSkipReason p =
     (case find (\<lambda>(r, _). re_test r p) skip_checks of Some (_, reason) \<Rightarrow> reason | None \<Rightarrow> ''excluded file'')"

text \<open>The shared check accepts every file; what is left of its result is the reason to skip.\<close>

definition shared_skip_reason :: "hook_env \<Rightarrow> string option \<Rightarrow> string option" where
  "shared_skip_reason env p =
     (if env_one env ''BLUEPRINT_GUARD_SKIP'' \<or> env_one env ''DBLUEPRINT_GUARD_SKIP''
      then Some ''Bypass enabled (BLUEPRINT_GUARD_SKIP=1)''
      else if truthy p \<and> shouldSkipFile (text_of p) then Some (getSkipReason (text_of p))
      else None)"

definition normalizeFilePath :: "hook_env \<Rightarrow> string \<Rightarrow> string option \<Rightarrow> string" where
  "normalizeFilePath env p cwd =
     (if \<not> path_is_absolute p then p
      else if \<not> truthy cwd then replace_first (Seq StartText (plus (chr CHR ''/''))) (\<lambda>_. []) p
      else forward_slashes (path_relative (proc_cwd env) (text_of cwd) p))"

definition blueprint_redirect :: "hook_env \<Rightarrow> string \<Rightarrow> string" where
  "blueprint_redirect env p =
     buildRedirectMessage (sentinel_ready (cmd_env env))
       \<lparr>ctx_category = C_blueprint, ctx_command = p, mcpReady = None,
        fallbackHint = Some ''wp_blueprint MCP tool for lifecycle transitions'', ctx_mcp = None\<rparr>"

definition validateBlueprint :: "hook_env \<Rightarrow> tool_input \<Rightarrow> validation_result" where
  "validateBlueprint env input =
     (let p = getFilePath input;
          normalized = normalizeFilePath env (text_of p) (input_cwd input)
      in if truthy p \<and> (isFileWriteInput input \<or> isFileEditInput input)
            \<and> isCanonicalBlueprintDocumentPath normalized None
         then mk_result ''blueprint'' False (Some (blueprint_redirect env normalized))
         else (case shared_skip_reason env p of
                 Some reason \<Rightarrow> createSkipResult ''blueprint'' reason
               | None \<Rightarrow> mk_result ''blueprint'' True None))"

section \<open>Root documents (shared/validators/docs-governance.ts)\<close>

definition root_doc_pattern :: regex where
  "root_doc_pattern = sq [StartText, lit ''docs/'', plus (none_of ''/''), lit ''.md'', EndText]"

definition validateDocsGovernance :: "hook_env \<Rightarrow> tool_input \<Rightarrow> validation_result" where
  "validateDocsGovernance env input =
     (let p = getFilePath input; normalized = strip_slash (text_of p); ok = mk_result ''docs-governance'' True None
      in if env_one env ''DOCS_GOVERNANCE_SKIP'' then createSkipResult ''docs-governance'' ''Bypass enabled''
         else if \<not> truthy p then ok
         else if \<not> starts_with normalized ''docs/'' then ok
         else if \<not> ends_with normalized ''.md'' then ok
         else if re_test root_doc_pattern normalized
                 \<and> normalized \<notin> {''docs/README.md'', ''docs/FILE-TYPE-TAXONOMY.md''} then
           mk_result ''docs-governance'' False
             (Some (''Root docs/*.md files must be README.md or FILE-TYPE-TAXONOMY.md. Got: '' @ normalized))
         else ok)"

section \<open>Plan front matter (validators/plan-frontmatter.ts)\<close>

definition VALID_TYPES :: "string list" where
  "VALID_TYPES = [''blueprint'', ''parent-roadmap'']"

definition VALID_STATUSES :: "string list" where
  "VALID_STATUSES = [''draft'', ''planned'', ''parked'', ''in-progress'', ''completed'', ''archived'']"

definition VALID_COMPLEXITIES :: "string list" where
  "VALID_COMPLEXITIES = [''XS'', ''S'', ''M'', ''L'', ''XL'']"

definition shouldValidatePath :: "string \<Rightarrow> bool" where
  "shouldValidatePath p =
     (let normalized = strip_slash p
      in getNonCanonicalPlanningPathViolation normalized None None = None
         \<and> isBlueprintPath normalized None \<and> isCanonicalBlueprintDocumentPath normalized None)"

definition frontmatter_pattern :: regex where
  "frontmatter_pattern = sq [StartText, lit (''---'' @ [nl]), Grp 1 (lazy any_char), lit ([nl] @ ''---'')]"

definition extractFrontmatterBlock :: "string \<Rightarrow> string option" where
  "extractFrontmatterBlock content =
     (case re_exec frontmatter_pattern content of None \<Rightarrow> None | Some m \<Rightarrow> group m 1)"

text \<open>The fields of the loaded front matter: an object or an array, which has none of them.\<close>

definition parseFrontmatter :: "hook_env \<Rightarrow> string \<Rightarrow> (string, json) js_map option" where
  "parseFrontmatter env block =
     (case yaml_load env block of Some (JObj ms) \<Rightarrow> Some ms | Some (JArr _) \<Rightarrow> Some [] | _ \<Rightarrow> None)"

definition validateField :: "json option \<Rightarrow> string \<Rightarrow> string list \<Rightarrow> (string \<times> string) option" where
  "validateField v field valid =
     (case v of
        None \<Rightarrow> Some (field, ''Missing required field: '' @ field)
      | Some j \<Rightarrow>
          if (case j of JStr s \<Rightarrow> s \<in> set valid | _ \<Rightarrow> False) then None
          else Some (field, ''Invalid '' @ field @ '': '' @ quoted (js_string j) @ ''. Valid values: ''
                 @ join_with '', '' valid))"

definition collectFieldViolations :: "(string, json) js_map \<Rightarrow> (string \<times> string) list" where
  "collectFieldViolations data =
     concat (map (\<lambda>(field, valid). case validateField (map_get data field) field valid of
                    None \<Rightarrow> [] | Some v \<Rightarrow> [v])
       [(''type'', VALID_TYPES), (''status'', VALID_STATUSES), (''complexity'', VALID_COMPLEXITIES)])"

definition task_heading_at :: "nat \<Rightarrow> regex" where
  "task_heading_at n =
     sq [StartLine, times n (chr CHR ''#''), plus ws, lit ''Task'', plus ws, plus digit,
         plus (Seq (chr CHR ''.'') (plus digit)), chr CHR '':'']"

definition countTaskHeadings :: "string \<Rightarrow> nat" where
  "countTaskHeadings content = length (match_all (task_heading_at 4) content)"

definition detectWrongTaskFormat :: "string \<Rightarrow> nat" where
  "detectWrongTaskFormat content = length (match_all (task_heading_at 3) content)"

definition plan_failure :: "string \<Rightarrow> validation_result" where
  "plan_failure m = mk_result ''plan-frontmatter'' False (Some m)"

definition plan_violations :: "(string, json) js_map \<Rightarrow> string \<Rightarrow> (string \<times> string) list" where
  "plan_violations data content =
     collectFieldViolations data
     @ (if detectWrongTaskFormat content > 0
        then [(''task_format'', ''Found '' @ nat_str (detectWrongTaskFormat content)
                @ '' task heading(s) with wrong format (use '' @ quoted ''#### Task X.Y:'' @ '' not ''
                @ quoted ''### Task X.Y:'' @ '')'')] else [])"

definition validatePlanFrontmatter :: "hook_env \<Rightarrow> tool_input \<Rightarrow> validation_result" where
  "validatePlanFrontmatter env input =
     (let p = getFilePath input; ok = mk_result ''plan-frontmatter'' True None
      in if env_one env ''PLAN_FRONTMATTER_SKIP'' then createSkipResult ''plan-frontmatter'' default_skip_reason
         else if \<not> truthy p then ok
         else if \<not> shouldValidatePath (text_of p) then
           (case getNonCanonicalPlanningPathViolation (text_of p) None None of
              Some m \<Rightarrow> plan_failure m | None \<Rightarrow> ok)
         else if map_get (args_of input) ''old_string'' \<noteq> None then ok
         else if \<not> truthy (getContent input) then ok
         else
           (let content = text_of (getContent input); block = extractFrontmatterBlock content
            in if \<not> truthy block then
                 plan_failure ''Missing YAML frontmatter block (expected --- at start of file)''
               else
                 (case parseFrontmatter env (text_of block) of
                    None \<Rightarrow> plan_failure ''Invalid YAML in frontmatter block''
                  | Some data \<Rightarrow>
                      (let vs = plan_violations data content
                       in if vs \<noteq> [] then
                            plan_failure (''Blueprint validation failed:'' @ [nl]
                              @ join_with [nl] (map (\<lambda>(f, m). ''  '' @ f @ '': '' @ m) (take 4 vs))
                              @ (if length vs > 4
                                 then [nl] @ ''  ...and '' @ nat_str (length vs - 4) @ '' more issues'' else []))
                          else if countTaskHeadings content = 0 then
                            mk_result ''plan-frontmatter'' True
                              (Some (''Warning: no task headings found (expected '' @ quoted ''#### Task X.Y:'' @ '' format)''))
                          else ok))))"

end
