(* ===== verification/ContentValidators.thy ===== *)
theory ContentValidators
  imports FileValidators
begin

text \<open>
  The remaining validators of file writes in \<open>src/hooks/pretool-guard/validators/\<close>: complexity,
  file-conventions, command-file, test-quality, ux-quality and package-imports, the last with
  the registry and the detection of \<open>src/quality-engine/package-import-rules.ts\<close>.
\<close>

section \<open>File size (complexity.ts, command-file.ts)\<close>

definition MAX_FILE_LINES :: nat where "MAX_FILE_LINES = 500"
definition MAX_COMMAND_LINES :: nat where "MAX_COMMAND_LINES = 600"
definition MAX_SKILL_LINES :: nat where "MAX_SKILL_LINES = 400"

definition code_ext :: regex where \<comment> \<open>\<open>\\.(ts|tsx|js|jsx)$\<close>\<close>
  "code_ext = ext_of [''ts'', ''tsx'', ''js'', ''jsx'']"

definition any_ext :: regex where \<comment> \<open>\<open>\\.[^/]+$\<close>\<close>
  "any_ext = sq [chr CHR ''.'', plus (none_of ''/''), EndText]"

definition validateComplexity :: "hook_env \<Rightarrow> tool_input \<Rightarrow> validation_result" where
  "validateComplexity env input =
     (let p = getFilePath input; content = getContent input; ok = mk_result ''complexity'' True None
      in if env_one env ''COMPLEXITY_WARNING_SKIP'' then createSkipResult ''complexity'' default_skip_reason
         else if \<not> truthy content \<or> \<not> truthy p then ok
         else if re_test any_ext (text_of p) \<and> \<not> re_test code_ext (text_of p) then ok
         else if line_count (text_of content) > MAX_FILE_LINES then
           mk_result ''complexity'' True
             (Some (''Warning: File has '' @ nat_str (line_count (text_of content)) @ '' lines (>''
               @ nat_str MAX_FILE_LINES @ ''). Consider splitting.''))
         else ok)"

definition validateCommandFile :: "hook_env \<Rightarrow> tool_input \<Rightarrow> validation_result" where
  "validateCommandFile env input =
     (let p = getFilePath input; content = getContent input; ok = mk_result ''command-file'' True None;
          normalized = strip_slash (text_of p); lines = line_count (text_of content)
      in if env_one env ''COMMAND_FILE_SKIP'' then createSkipResult ''command-file'' default_skip_reason
         else if \<not> truthy p \<or> \<not> truthy content then ok
         else if includes_str normalized ''.claude/commands/'' then
           (if lines > MAX_COMMAND_LINES then
              mk_result ''command-file'' False
                (Some (''Command file exceeds '' @ nat_str MAX_COMMAND_LINES @ '' lines ('' @ nat_str lines
                  @ ''). Split into smaller commands.''))
            else ok)
         else if includes_str normalized ''.claude/skills/'' then
           (if lines > MAX_SKILL_LINES then
              mk_result ''command-file'' False
                (Some (''Skill file exceeds '' @ nat_str MAX_SKILL_LINES @ '' lines ('' @ nat_str lines
                  @ ''). Simplify the skill.''))
            else ok)
         else ok)"

section \<open>File conventions (file-conventions.ts)\<close>

definition SYSTEM_PATH_PREFIXES :: "string list" where
  "SYSTEM_PATH_PREFIXES =
     [''/etc/'', ''/usr/'', ''/bin/'', ''/sbin/'', ''/var/'', ''/sys/'', ''/proc/'', ''/dev/'']"

definition system_path :: "string \<Rightarrow> bool" where
  "system_path p \<longleftrightarrow>
     starts_with p ''/'' \<and> list_ex (\<lambda>d. starts_with p d \<or> p = butlast d) SYSTEM_PATH_PREFIXES"

definition kebab_pattern :: regex where
  "kebab_pattern =
     sq [StartText, plus (Cls (\<lambda>c. js_lower_char c \<or> js_digit c \<or> c = CHR ''-'')), EndText]"

definition convention_failure :: "string \<Rightarrow> validation_result" where
  "convention_failure m = mk_result ''file-conventions'' False (Some m)"

definition validateFileConventions :: "hook_env \<Rightarrow> tool_input \<Rightarrow> validation_result" where
  "validateFileConventions env input =
     (let p = getFilePath input; ok = mk_result ''file-conventions'' True None; normalized = strip_slash (text_of p)
      in if env_one env ''FILE_CONVENTIONS_SKIP'' then createSkipResult ''file-conventions'' default_skip_reason
         else if \<not> truthy p then ok
         else if system_path (text_of p) then
           convention_failure (''Cannot write to system path: '' @ text_of p)
         else if includes_str (text_of p) ''/generated/'' then
           convention_failure ''Cannot edit files inside generated/ directories. These are auto-generated and should not be modified manually.''
         else
           (case getNonCanonicalPlanningPathViolation normalized None None of
              Some m \<Rightarrow> convention_failure m
            | None \<Rightarrow>
                (case getBlueprintPathViolation env normalized None (input_cwd input) of
                   Some m \<Rightarrow> convention_failure m
                 | None \<Rightarrow>
                     if \<not> isBlueprintPath normalized None \<or> ends_with normalized ''.md'' then ok
                     else
                       (let parts = split_char CHR ''/'' normalized
                        in if 3 < length parts \<and> parts ! 3 \<noteq> [] \<and> \<not> re_test kebab_pattern (parts ! 3)
                           then convention_failure
                             (''Implementation plan directories must be kebab-case. Got: '' @ parts ! 3)
                           else ok))))"

section \<open>Test quality (test-quality.ts)\<close>

record line_finding =
  f_line :: nat
  f_pattern :: string
  f_match :: string

definition any_quote :: regex where \<comment> \<open>\<open>['"`]\<close>\<close>
  "any_quote = one_of [squote, dquote, CHR 0x60]"

text \<open>The patterns on file names, then those on lines, all under the \<open>i\<close> flag.\<close>

definition gaming_file_patterns :: "(regex \<times> string) list" where
  "gaming_file_patterns =
     (let dash = one_of ''_-''
      in [(sq [lit_i ''mutation'', dash, lit_i ''kill''], ''File name suggests mutation gaming''),
          (sq [lit_i ''kill'', dash, lit_i ''mutant''], ''File name suggests mutation gaming''),
          (sq [lit_i ''for'', dash, lit_i ''coverage''], ''File name suggests coverage gaming''),
          (sq [lit_i ''increase'', dash, lit_i ''mutation''], ''File name suggests mutation gaming'')])"

definition named_block :: "string \<Rightarrow> regex \<Rightarrow> regex" where \<comment> \<open>\<open>w\\s*\\(\\s*['"`].*r\<close>\<close>
  "named_block w r = sq [lit_i w, star ws, chr CHR ''('', star ws, any_quote, star dot, r]"

definition gaming_line_patterns :: "(regex \<times> string) list" where
  "gaming_line_patterns =
     (let dash = one_of ''_-''
      in [(named_block ''describe'' (sq [lit_i ''mutation'', dash, lit_i ''kill'']),
             ''Test suite name suggests mutation gaming''),
          (named_block ''describe'' (sq [lit_i ''kill'', dash, lit_i ''mutant'']),
             ''Test suite name suggests mutation gaming''),
          (named_block ''it'' (sq [lit_i ''kill'', plus ws, opt (Grp 1 (Seq (lit_i ''the'') (plus ws))), lit_i ''mutant'']),
             ''Test name suggests mutation gaming''),
          (named_block ''it'' (sq [lit_i ''for'', plus ws, lit_i ''mutation'', plus ws, lit_i ''score'']),
             ''Test name suggests mutation gaming''),
          (named_block ''it'' (sq [lit_i ''increase'', plus ws, Grp 1 (alts [lit_i ''mutation'', lit_i ''coverage''])]),
             ''Test name suggests coverage gaming'')])"

definition in_parens :: "regex \<Rightarrow> regex" where \<comment> \<open>\<open>\\(\\s*r\\s*\\)\<close>\<close>
  "in_parens r = sq [chr CHR ''('', star ws, r, star ws, chr CHR '')'']"

text \<open>\<open>expect\\s*\\(\\s*arg\\s*\\)\\s*\\.method\\s*\<close>, then the argument list of the method.\<close>

definition assertion :: "regex \<Rightarrow> string \<Rightarrow> regex \<Rightarrow> regex" where
  "assertion arg method params =
     sq [lit ''expect'', star ws, in_parens arg, star ws, chr CHR ''.'', lit method, star ws, params]"

definition same_assertion :: "regex \<Rightarrow> string \<Rightarrow> regex" where
  "same_assertion arg method = assertion arg method (in_parens arg)"

definition bare_assertion :: "regex \<Rightarrow> string \<Rightarrow> regex" where
  "bare_assertion arg method = assertion arg method (sq [chr CHR ''('', star ws, chr CHR '')''])"

definition TAUTOLOGICAL_PATTERNS :: "(regex \<times> string) list" where
  "TAUTOLOGICAL_PATTERNS =
     (let q = one_of [dquote, squote]; text = none_of [dquote, squote];
          some_text = sq [q, plus text, q]; any_text = sq [q, star text, q];
          brackets = sq [chr CHR ''['', star ws, chr CHR '']'']; braces = sq [chr CHR ''{'', star ws, chr CHR ''}''];
          object = (\<lambda>r. assertion r ''toBeInstanceOf'' (in_parens (lit ''Object'')));
          shown = (\<lambda>a b. ''expect('' @ a @ '').'' @ b); str = quoted ''string''
      in [(same_assertion (lit ''true'') ''toBe'', shown ''true'' ''toBe(true)''),
          (same_assertion (lit ''false'') ''toBe'', shown ''false'' ''toBe(false)''),
          (same_assertion (lit ''true'') ''toEqual'', shown ''true'' ''toEqual(true)''),
          (same_assertion (lit ''false'') ''toEqual'', shown ''false'' ''toEqual(false)''),
          (same_assertion (lit ''null'') ''toBe'', shown ''null'' ''toBe(null)''),
          (same_assertion (lit ''undefined'') ''toBe'', shown ''undefined'' ''toBe(undefined)''),
          (same_assertion (lit ''null'') ''toEqual'', shown ''null'' ''toEqual(null)''),
          (same_assertion (lit ''undefined'') ''toEqual'', shown ''undefined'' ''toEqual(undefined)''),
          (same_assertion brackets ''toEqual'', shown ''[]'' ''toEqual([])''),
          (same_assertion braces ''toEqual'', shown ''{}'' ''toEqual({})''),
          (bare_assertion (lit ''true'') ''toBeTruthy'', shown ''true'' ''toBeTruthy()''),
          (bare_assertion (lit ''false'') ''toBeFalsy'', shown ''false'' ''toBeFalsy()''),
          (bare_assertion (lit ''1'') ''toBeTruthy'', shown ''1'' ''toBeTruthy()''),
          (bare_assertion (lit ''0'') ''toBeFalsy'', shown ''0'' ''toBeFalsy()''),
          (bare_assertion some_text ''toBeTruthy'', shown str ''toBeTruthy()''),
          (bare_assertion (Seq q q) ''toBeFalsy'', shown (quoted []) ''toBeFalsy()''),
          (bare_assertion (lit ''true'') ''toBeDefined'', shown ''true'' ''toBeDefined()''),
          (bare_assertion (lit ''false'') ''toBeDefined'', shown ''false'' ''toBeDefined()''),
          (bare_assertion (plus digit) ''toBeDefined'', shown ''number'' ''toBeDefined()''),
          (bare_assertion any_text ''toBeDefined'', shown str ''toBeDefined()''),
          (object (lit ''true''), shown ''true'' ''toBeInstanceOf(Object)''),
          (object (lit ''false''), shown ''false'' ''toBeInstanceOf(Object)''),
          (object (plus digit), shown ''number'' ''toBeInstanceOf(Object)''),
          (object any_text, shown str ''toBeInstanceOf(Object)'')])"

definition findings_in :: "(regex \<times> string) list \<Rightarrow> nat \<Rightarrow> string \<Rightarrow> line_finding list" where
  "findings_in ps n text =
     concat (map (\<lambda>(r, d). case re_exec r text of None \<Rightarrow> []
                  | Some m \<Rightarrow> [\<lparr>f_line = n, f_pattern = d, f_match = m_text m\<rparr>]) ps)"

definition line_findings :: "(regex \<times> string) list \<Rightarrow> string \<Rightarrow> line_finding list" where
  "line_findings ps content =
     concat (map (\<lambda>(i, line). if line = [] then [] else findings_in ps (i + 1) line)
       (enumerate 0 (split_char nl content)))"

definition findTautologicalAssertions :: "string \<Rightarrow> line_finding list" where
  "findTautologicalAssertions content = line_findings TAUTOLOGICAL_PATTERNS content"

definition findMutationGamingPatterns :: "string \<Rightarrow> string option \<Rightarrow> line_finding list" where
  "findMutationGamingPatterns content p =
     (if truthy p then findings_in gaming_file_patterns 0 (text_of p) else [])
     @ line_findings gaming_line_patterns content"

definition shown_finding :: "line_finding \<Rightarrow> string" where
  "shown_finding f =
     (if f_line f = 0 then ''  File path: '' @ f_pattern f
      else ''  Line '' @ nat_str (f_line f) @ '': '' @ f_pattern f)"

definition quality_failure :: "string \<Rightarrow> line_finding list \<Rightarrow> validation_result" where
  "quality_failure title fs =
     mk_result ''test-quality'' False
       (Some (title @ [nl] @ join_with [nl] (map shown_finding (take 3 fs))
         @ (if length fs > 3 then [nl] @ ''  ...and '' @ nat_str (length fs - 3) @ '' more'' else [])))"

definition test_file_pattern :: regex where
  "test_file_pattern = Seq (lit ''.test'') code_ext"

definition validateTestQuality :: "tool_input \<Rightarrow> validation_result" where
  "validateTestQuality input =
     (let p = getFilePath input; content = getContent input;
          gaming = findMutationGamingPatterns (text_of content) p;
          tautologies = findTautologicalAssertions (text_of content)
      in if \<not> truthy content \<or> \<not> truthy p then mk_result ''test-quality'' True None
         else if \<not> re_test test_file_pattern (text_of p) then createSkipResult ''test-quality'' ''Not a test file''
         else if includes_str (text_of p) ''test-quality.test.ts'' then
           createSkipResult ''test-quality'' ''Validator self-test''
         else if gaming \<noteq> [] then quality_failure ''Mutation gaming detected:'' gaming
         else if tautologies \<noteq> [] then quality_failure ''Tautological assertions detected:'' tautologies
         else mk_result ''test-quality'' True None)"

section \<open>User interface code (ux-quality.ts)\<close>

definition ALERT_PATTERN :: regex where
  "ALERT_PATTERN = sq [WordBd, opt (lit ''window.''), lit ''alert'', star ws, chr CHR ''('']"

definition CATCH_CONSOLE_ERROR_ONLY_PATTERN :: regex where
  "CATCH_CONSOLE_ERROR_ONLY_PATTERN =
     sq [lit ''catch'', star ws, opt (sq [chr CHR ''('', star (none_of '')''), chr CHR '')'']), star ws,
         chr CHR ''{'', star ws, lit ''console.error'', star ws, chr CHR ''('', lazy any_char, chr CHR '')'',
         star ws, opt (chr CHR '';''), star ws, chr CHR ''}'']"

definition use_query :: regex where
  "use_query = sq [chr CHR ''='', star ws, lit ''useQuery'', star ws, chr CHR ''('']"

definition USE_QUERY_DESTRUCTURE_PATTERN :: regex where
  "USE_QUERY_DESTRUCTURE_PATTERN =
     sq [lit ''const'', star ws, chr CHR ''{'', Grp 1 (star (none_of ''}'')), chr CHR ''}'', star ws, use_query]"

definition USE_QUERY_ASSIGNMENT_PATTERN :: regex where
  "USE_QUERY_ASSIGNMENT_PATTERN =
     sq [alts [lit ''const'', lit ''let'', lit ''var''], plus ws, plus word_char, star ws, use_query]"

definition at_line :: "rmatch \<Rightarrow> string \<Rightarrow> nat \<times> string" where
  "at_line m msg = (line_count (m_pre m), msg)"

definition collectAlertViolations :: "string \<Rightarrow> (nat \<times> string) list" where
  "collectAlertViolations content =
     map (\<lambda>m. at_line m (''Avoid '' @ (if m_text m = ''window.alert('' then ''window.alert()'' else ''alert()'')
            @ ''; use non-blocking UI feedback instead.''))
       (match_all ALERT_PATTERN content)"

definition collectCatchViolations :: "string \<Rightarrow> (nat \<times> string) list" where
  "collectCatchViolations content =
     map (\<lambda>m. at_line m ''catch block only logs with console.error; add user-facing handling and recovery.'')
       (match_all CATCH_CONSOLE_ERROR_ONLY_PATTERN content)"

definition buildMissingFieldsMessage :: "bool \<Rightarrow> bool \<Rightarrow> string" where
  "buildMissingFieldsMessage hasIsPending hasIsError =
     ''useQuery destructuring must include ''
     @ join_with '' and '' ((if hasIsPending then [] else [''isPending'']) @ (if hasIsError then [] else [''isError'']))
     @ ''.''"

definition collectUseQueryViolations :: "string \<Rightarrow> (nat \<times> string) list" where
  "collectUseQueryViolations content =
     concat (map (\<lambda>m.
        (let fields = (case group m 1 of None \<Rightarrow> [] | Some f \<Rightarrow> f);
             pending = re_test (sq [WordBd, lit ''isPending'', WordBd]) fields;
             err = re_test (sq [WordBd, lit ''isError'', WordBd]) fields
         in if \<not> pending \<or> \<not> err then [at_line m (buildMissingFieldsMessage pending err)] else []))
       (match_all USE_QUERY_DESTRUCTURE_PATTERN content))
     @ map (\<lambda>m. at_line m ''useQuery result must handle isPending and isError states.'')
         (match_all USE_QUERY_ASSIGNMENT_PATTERN content)"

definition ux_skip_reason :: string where
  "ux_skip_reason =
     ''Bypass enabled via UX_QUALITY_SKIP=1 '' @ em_dash_str
     @ '' exceptional cases only; restore UX guardrails immediately after the bypass run''"

definition validateUxQuality :: "hook_env \<Rightarrow> tool_input \<Rightarrow> validation_result" where
  "validateUxQuality env input =
     (let p = getFilePath input; content = getContent input; ok = mk_result ''ux-quality'' True None;
          vs = collectAlertViolations (text_of content) @ collectCatchViolations (text_of content)
            @ collectUseQueryViolations (text_of content)
      in if env_one env ''UX_QUALITY_SKIP'' then createSkipResult ''ux-quality'' ux_skip_reason
         else if \<not> truthy p \<or> \<not> truthy content then ok
         else if \<not> re_test code_ext (text_of p) then ok
         else if vs = [] then ok
         else mk_result ''ux-quality'' False
           (Some (''UX anti-patterns detected:'' @ [nl]
             @ join_with [nl] (map (\<lambda>(l, m). ''  Line '' @ nat_str l @ '': '' @ m) (take 4 vs))
             @ (if length vs > 4 then [nl] @ ''  ...and '' @ nat_str (length vs - 4) @ '' more'' else []))))"

end
