(* ===== verification/PackageImports.thy ===== *)
theory PackageImports
  imports ContentValidators
begin

text \<open>
  Local copies of shared functions: the registry and the detection of
  \<open>src/quality-engine/package-import-rules.ts\<close>, and the validator
  \<open>src/hooks/pretool-guard/validators/package-imports.ts\<close>.
\<close>

section \<open>The registry\<close>

datatype function_category =
  FC_string | FC_date | FC_duration | FC_format | FC_id | FC_error | FC_validation

record shared_function =
  fn_name :: string
  fn_package :: string
  fn_source :: string
  fn_category :: function_category

datatype import_profile = Generic | Webpresso

definition shared_in :: "string \<Rightarrow> string \<Rightarrow> function_category \<Rightarrow> string \<Rightarrow> shared_function" where
  "shared_in pkg src cat n = \<lparr>fn_name = n, fn_package = pkg, fn_source = src, fn_category = cat\<rparr>"

definition framework :: "string \<Rightarrow> function_category \<Rightarrow> string \<Rightarrow> shared_function" where
  "framework = shared_in ''@webpresso/framework''"

definition string_functions :: "shared_function list" where
  "string_functions =
     map (framework ''runtime/format/string'' FC_string)
       [''capitalize'', ''truncate'', ''slugify'', ''toTitleCase'', ''toKebabCase'', ''toCamelCase'',
        ''toSnakeCase'', ''removeSpecialChars'', ''getInitials'', ''maskEmail'', ''countWords'',
        ''containsIgnoreCase'', ''randomString'', ''levenshteinDistance'', ''closestMatch'',
        ''findClosestMatch'', ''escapeRegex'']"

definition date_functions :: "shared_function list" where
  "date_functions =
     map (framework ''runtime/format/date'' FC_date)
       [''formatDate'', ''formatRelativeTime'', ''isToday'', ''isWithinDays'', ''addDays'', ''subtractDays'',
        ''startOfDay'', ''endOfDay'']"

definition format_functions :: "shared_function list" where
  "format_functions =
     map (framework ''runtime/format/duration'' FC_duration) [''formatDuration'', ''formatDurationSeconds'']
     @ map (framework ''runtime/format/format'' FC_format)
         [''formatNumber'', ''formatPercentage'', ''formatCompactNumber'', ''formatBytes'', ''formatPhoneNumber'']
     @ map (framework ''runtime/utils/id'' FC_id) [''generateId'', ''generateSlug'', ''generateSlugUnderscore'']"

definition error_functions :: "shared_function list" where
  "error_functions =
     map (framework ''runtime/format/errors'' FC_error)
       [''createErrorContext'', ''getErrorMessage'', ''isRetryableError'', ''serializeError'',
        ''serializeUnknownError'', ''toError'']
     @ [framework ''runtime/validation/validation'' FC_validation ''validateProjectName'']"

definition response_functions :: "shared_function list" where
  "response_functions =
     map (shared_in ''@webpresso/hono-utils'' [] FC_error)
       [''errorResponse'', ''badRequest'', ''notFound'', ''forbidden'', ''internalError'', ''authRequired'',
        ''authFailed'', ''noToken'', ''missingApiKey'', ''invalidApiKey'', ''expiredApiKey'', ''dbError'',
        ''apiKeyDbError'', ''invalidSession'', ''missingHeaders'', ''invalidSignature'', ''webhookFailed'']"

fun getSharedFunctions :: "import_profile \<Rightarrow> shared_function list" where
  "getSharedFunctions Generic = []"
| "getSharedFunctions Webpresso =
     string_functions @ date_functions @ format_functions @ error_functions @ response_functions"

section \<open>Detection\<close>

definition findSharedFunction :: "string \<Rightarrow> import_profile \<Rightarrow> shared_function option" where
  "findSharedFunction n profile = find (\<lambda>f. fn_name f = n) (getSharedFunctions profile)"

definition funcDeclPattern :: regex where
  "funcDeclPattern =
     sq [opt (Seq (lit ''export'') (plus ws)), opt (Seq (lit ''default'') (plus ws)), lit ''function'',
         plus ws, Grp 1 (plus word_char), star ws, chr CHR ''('']"

definition const_name :: regex where \<comment> \<open>\<open>(?:export\\s+)?const\\s+(\\w+)\\s*\<close>\<close>
  "const_name =
     sq [opt (Seq (lit ''export'') (plus ws)), lit ''const'', plus ws, Grp 1 (plus word_char), star ws]"

definition arrowFuncPattern :: regex where
  "arrowFuncPattern = sq [const_name, one_of ''=:'', star ws, one_of ''<('']"

definition funcExprPattern :: regex where
  "funcExprPattern = sq [const_name, chr CHR ''='', star ws, lit ''function'', star ws, chr CHR ''('']"

definition name_of :: "rmatch \<Rightarrow> string" where
  "name_of m = (case group m 1 of None \<Rightarrow> [] | Some n \<Rightarrow> n)"

definition extractNamesFromPattern :: "string \<Rightarrow> regex \<Rightarrow> string list" where
  "extractNamesFromPattern content r = filter (\<lambda>n. n \<noteq> []) (map name_of (match_all r content))"

definition isLikelyArrowFunction :: "rmatch \<Rightarrow> bool" where
  "isLikelyArrowFunction m \<longleftrightarrow>
     includes_str (m_post m) ''=>'' \<or> includes_str (m_post m) ''function''
     \<or> starts_with (js_trim (m_post m)) ''(''"

text \<open>The names of the matches, each once, that are not known yet and whose match passes the test.\<close>

fun new_names :: "(rmatch \<Rightarrow> bool) \<Rightarrow> string list \<Rightarrow> string list \<Rightarrow> rmatch list \<Rightarrow> string list" where
  "new_names ok known names [] = names"
| "new_names ok known names (m # ms) =
     (let n = name_of m
      in new_names ok known
           (if n \<noteq> [] \<and> n \<notin> set known \<and> n \<notin> set names \<and> ok m then names @ [n] else names) ms)"

definition extractArrowFunctions :: "string \<Rightarrow> string list \<Rightarrow> string list" where
  "extractArrowFunctions content known =
     new_names isLikelyArrowFunction known [] (match_all arrowFuncPattern content)"

definition extractFunctionExpressions :: "string \<Rightarrow> string list \<Rightarrow> string list" where
  "extractFunctionExpressions content known =
     new_names (\<lambda>_. True) known [] (match_all funcExprPattern content)"

definition extractFunctionDefinitions :: "string \<Rightarrow> string list" where
  "extractFunctionDefinitions content =
     (let declarations = extractNamesFromPattern content funcDeclPattern;
          arrows = extractArrowFunctions content declarations
      in declarations @ arrows @ extractFunctionExpressions content (declarations @ arrows))"

definition findDuplicateFunctions :: "string \<Rightarrow> import_profile \<Rightarrow> shared_function list" where
  "findDuplicateFunctions content profile =
     concat (map (\<lambda>n. case findSharedFunction n profile of None \<Rightarrow> [] | Some f \<Rightarrow> [f])
       (extractFunctionDefinitions content))"

text \<open>The suggested import and the message of \<open>createBlockedResult\<close>.\<close>

definition import_suggestion :: "shared_function \<Rightarrow> string" where
  "import_suggestion f =
     ''import { '' @ fn_name f @ '' } from '' @ [squote]
     @ (if fn_source f \<noteq> [] then fn_package f @ ''/'' @ fn_source f else fn_package f) @ [squote]"

definition blocked_message :: "shared_function \<Rightarrow> string" where
  "blocked_message f =
     ''Function '' @ [squote] @ fn_name f @ [squote] @ '' already exists in a shared package.'' @ [nl, nl]
     @ ''Use a shared utility instead of redefining it locally:'' @ [nl]
     @ ''  '' @ import_suggestion f @ [nl, nl]
     @ ''This reduces code duplication and keeps shared utilities consistent across the codebase.''"

section \<open>The validator (package-imports.ts)\<close>

record duplicate_result = validation_result +
  dr_functionName :: string
  dr_suggestion :: string
  dr_package :: string
  dr_source :: string

definition package_dir :: "string \<Rightarrow> string" where \<comment> \<open>\<open>replace("@", "").replace("/", "-")\<close>\<close>
  "package_dir p = replace_first (chr CHR ''/'') (\<lambda>_. ''-'') (replace_first (chr CHR ''@'') (\<lambda>_. []) p)"

definition in_shared_package :: "string \<Rightarrow> shared_function \<Rightarrow> bool" where
  "in_shared_package p f \<longleftrightarrow>
     includes_str p (''/'' @ fn_source f @ ''/'') \<or> includes_str p (''/'' @ package_dir (fn_package f) @ ''/'')"

definition plain_import_result :: "validation_result \<Rightarrow> duplicate_result option \<Rightarrow> validation_result" where
  "plain_import_result ok d = (case d of None \<Rightarrow> ok | Some r \<Rightarrow> validation_result.truncate r)"

text \<open>The duplicate the validator reports, if any.\<close>

definition reported_duplicate :: "hook_env \<Rightarrow> tool_input \<Rightarrow> import_profile \<Rightarrow> duplicate_result option" where
  "reported_duplicate env input profile =
     (let p = getFilePath input; content = getContent input
      in if \<not> truthy content \<or> \<not> truthy p then None
         else if \<not> re_test code_ext (text_of p) then None
         else if list_ex (in_shared_package (text_of p)) (getSharedFunctions profile) then None
         else (case findDuplicateFunctions (text_of content) profile of
                 [] \<Rightarrow> None
               | f # _ \<Rightarrow>
                   Some \<lparr>validator = ''package-imports'', passed = False,
                     message = Some (''Local implementation of '' @ quoted (fn_name f) @ '' detected. '' @ blocked_message f),
                     skipped = None, skipReason = None, dr_functionName = fn_name f,
                     dr_suggestion = import_suggestion f, dr_package = fn_package f, dr_source = fn_source f\<rparr>))"

definition validatePackageImports :: "hook_env \<Rightarrow> tool_input \<Rightarrow> import_profile \<Rightarrow> validation_result" where
  "validatePackageImports env input profile =
     (if env_one env ''PACKAGE_IMPORTS_SKIP'' then createSkipResult ''package-imports'' default_skip_reason
      else plain_import_result (mk_result ''package-imports'' True None) (reported_duplicate env input profile))"

end
