(* ===== verification/WrappedWp.thy ===== *)
theory WrappedWp
  imports ForbiddenCommands RegexFacts
begin

text \<open>
  Commands that run \<open>wp\<close> through a package manager: \<open>src/cli/wrapped-wp.ts\<close>.  Its helpers
  \<open>tokenizeCommand\<close>, \<open>directToolBasename\<close>, \<open>normalizedPackageManagerBin\<close>,
  \<open>skipPackageManagerOptions\<close>, \<open>stripCorepackPackageManagerProxy\<close> and
  \<open>stripLeadingEnvironmentAssignments\<close>, and its tables, are repeated word for word in
  \<open>hooks/pretool-guard/dev-routing.ts\<close>, whose model uses these.
\<close>

section \<open>Tables\<close>

definition SECRET_WRAPPER_BINS :: "string list" where
  "SECRET_WRAPPER_BINS = [''with-secrets'', ''doppler'', ''infisical'']"

definition PACKAGE_MANAGER_BINS :: "string list" where
  "PACKAGE_MANAGER_BINS =
     [''vp'', ''pnpm'', ''pnpx'', ''npm'', ''npx'', ''yarn'', ''yarnpkg'', ''bun'', ''bunx'']"

definition PACKAGE_MANAGER_RUN_SUBCOMMANDS :: "string list" where
  "PACKAGE_MANAGER_RUN_SUBCOMMANDS = [''run'', ''run-script'']"

definition PACKAGE_MANAGER_OPTION_VALUE_FLAGS :: "string list" where
  "PACKAGE_MANAGER_OPTION_VALUE_FLAGS =
     [''--dir'', ''-C'', ''--filter'', ''-F'', ''--workspace'', ''-w'', ''--workspace-root'', ''--cwd'',
      ''--package'', ''--cache'', ''--config'']"

definition PACKAGE_MANAGER_OPTION_VALUE_PREFIXES :: "string list" where
  "PACKAGE_MANAGER_OPTION_VALUE_PREFIXES =
     [''--dir='', ''--filter='', ''-F='', ''--workspace='', ''--cwd='', ''--package='', ''--cache='', ''--config='']"

definition PACKAGE_MANAGER_FLAG_ONLY :: "string list" where
  "PACKAGE_MANAGER_FLAG_ONLY =
     [''--yes'', ''-y'', ''--recursive'', ''-r'', ''--workspace-root'', ''-w'', ''--parallel'', ''--silent'',
      ''--if-present'', ''--ignore-scripts'', ''--immutable-cache'', ''--bun'', ''--always-auth'']"

definition PNPM_BUILTIN_SUBCOMMANDS :: "string list" where
  "PNPM_BUILTIN_SUBCOMMANDS =
     [''add'', ''approve-builds'', ''audit'', ''build'', ''config'', ''dedupe'', ''deploy'', ''env'', ''fetch'',
      ''help'', ''import'', ''init'', ''install'', ''link'', ''list'', ''outdated'', ''pack'', ''patch'', ''publish'',
      ''rebuild'', ''remove'', ''root'', ''setup'', ''store'', ''unlink'', ''update'', ''why'']"

definition YARN_BUILTIN_SUBCOMMANDS :: "string list" where
  "YARN_BUILTIN_SUBCOMMANDS =
     [''add'', ''bin'', ''cache'', ''config'', ''constraints'', ''dedupe'', ''explain'', ''help'', ''init'',
      ''install'', ''link'', ''node'', ''npm'', ''pack'', ''patch'', ''plugin'', ''rebuild'', ''remove'', ''set'',
      ''unplug'', ''up'', ''why'', ''workspace'', ''workspaces'']"

definition BUN_BUILTIN_SUBCOMMANDS :: "string list" where
  "BUN_BUILTIN_SUBCOMMANDS =
     [''add'', ''build'', ''create'', ''fig'', ''help'', ''init'', ''install'', ''link'', ''outdated'', ''pm'',
      ''publish'', ''remove'', ''repl'', ''run'', ''test'', ''update'', ''upgrade'', ''x'']"

section \<open>Tokens\<close>

text \<open>\<open>(?:\\\\.|[^"\\\\])*\<close> for the given quote.\<close>

definition quoted_body :: "char \<Rightarrow> regex" where
  "quoted_body q = star (Alt (Seq (chr backslash) dot) (none_of [q, backslash]))"

definition quoted_token :: "nat \<Rightarrow> char \<Rightarrow> regex" where
  "quoted_token n q = Seq (chr q) (Seq (Grp n (quoted_body q)) (chr q))"

definition token_pattern :: regex where
  "token_pattern =
     Alt (quoted_token 1 dquote) (Alt (quoted_token 2 squote) (Grp 3 (plus non_ws)))"

definition unescape_token :: "string \<Rightarrow> string" where \<comment> \<open>\<open>replace(/\\\\(['"\\\\])/gu, "$1")\<close>\<close>
  "unescape_token t =
     replace_all (Seq (chr backslash) (Grp 1 (one_of [squote, dquote, backslash])))
       (\<lambda>m. case group m 1 of None \<Rightarrow> [] | Some c \<Rightarrow> c) t"

text \<open>\<open>match[1] ?? match[2] ?? match[3]\<close>\<close>

definition raw_token :: "rmatch \<Rightarrow> string" where
  "raw_token m =
     (case group m 1 of Some t \<Rightarrow> t
      | None \<Rightarrow> (case group m 2 of Some t \<Rightarrow> t
          | None \<Rightarrow> (case group m 3 of Some t \<Rightarrow> t | None \<Rightarrow> [])))"

definition tokenizeCommand :: "string \<Rightarrow> string list" where
  "tokenizeCommand command =
     map unescape_token (filter (\<lambda>t. t \<noteq> []) (map raw_token (match_all token_pattern command)))"

text \<open>\<open>tokens[i]\<close>: the empty string stands for \<open>undefined\<close>, which no token is.\<close>

definition token_at :: "string list \<Rightarrow> nat \<Rightarrow> string" where
  "token_at ts i = (if i < length ts then ts ! i else [])"

text \<open>The file name of a tool path, without the extension of a shim; empty for \<open>null\<close>.\<close>

definition shim_extension :: regex where
  "shim_extension = sq [chr CHR ''.'', alts [lit_i ''cmd'', lit_i ''ps1'', lit_i ''bat''], EndText]"

definition directToolBasename :: "string \<Rightarrow> string" where
  "directToolBasename bin =
     (let normalized = replace_all (chr backslash) (\<lambda>_. ''/'') bin
      in replace_first shim_extension (\<lambda>_. []) (last (split_char CHR ''/'' normalized)))"

definition version_suffix :: regex where \<comment> \<open>\<open>@[^@/]+$\<close>\<close>
  "version_suffix = sq [chr CHR ''@'', plus (none_of ''@/''), EndText]"

definition normalizedPackageManagerBin :: "string \<Rightarrow> string option" where
  "normalizedPackageManagerBin token =
     (let base = directToolBasename token; manager = replace_first version_suffix (\<lambda>_. []) base
      in if base \<noteq> [] \<and> manager \<in> set PACKAGE_MANAGER_BINS then Some manager else None)"

text \<open>The index after the options at \<open>i\<close>; the last argument is the tokens from there on.\<close>

fun skip_options :: "nat \<Rightarrow> string list \<Rightarrow> nat" where
  "skip_options i [] = i"
| "skip_options i (t # ts) =
     (if t = ''--'' then i + 1
      else if list_ex (starts_with t) PACKAGE_MANAGER_OPTION_VALUE_PREFIXES then skip_options (i + 1) ts
      else if t \<in> set PACKAGE_MANAGER_OPTION_VALUE_FLAGS then
        (case ts of [] \<Rightarrow> i + 2 | _ # us \<Rightarrow> skip_options (i + 2) us)
      else if t \<in> set PACKAGE_MANAGER_FLAG_ONLY then skip_options (i + 1) ts
      else i)"

definition skipPackageManagerOptions :: "string list \<Rightarrow> nat \<Rightarrow> nat" where
  "skipPackageManagerOptions ts i = skip_options i (drop i ts)"

section \<open>Prefixes that are stripped\<close>

definition corepack_pattern :: regex where
  "corepack_pattern =
     sq [StartText, lit ''corepack'', plus ws,
         Grp 1 (alts [lit ''pnpm'', lit ''pnpx'', lit ''yarn'', lit ''yarnpkg'', lit ''npm'', lit ''npx'']),
         opt (Seq (chr CHR ''@'') (plus non_ws)), opt (Grp 2 (Seq (plus ws) (plus any_char))), EndText]"

definition stripCorepackPackageManagerProxy :: "string \<Rightarrow> string" where
  "stripCorepackPackageManagerProxy command =
     (case re_exec corepack_pattern command of None \<Rightarrow> command
      | Some m \<Rightarrow>
          (let tail = (case group m 2 of None \<Rightarrow> [] | Some t \<Rightarrow> t)
           in case group m 1 of None \<Rightarrow> command
              | Some manager \<Rightarrow>
                  js_trim ((if manager = ''pnpx'' then ''pnpm exec''
                            else if manager = ''npx'' then ''npm exec'' else manager) @ tail)))"

definition assignment_value :: regex where
  "assignment_value =
     alts [sq [chr dquote, quoted_body dquote, chr dquote], sq [chr squote, quoted_body squote, chr squote],
           star non_ws]"

definition assignments :: regex where \<comment> \<open>\<open>(?:[A-Za-z_][A-Za-z0-9_]*=VALUE\\s+)+\<close>\<close>
  "assignments =
     plus (sq [Cls (\<lambda>c. js_word c \<and> \<not> js_digit c), star word_char, chr CHR ''='', assignment_value, plus ws])"

definition strip_env_once :: "string \<Rightarrow> string" where
  "strip_env_once s =
     js_trim (replace_first (Seq StartText assignments) (\<lambda>_. [])
       (replace_first (sq [StartText, lit ''env'', plus ws, assignments]) (\<lambda>_. []) s))"

lemma js_trim_same_length: "length (js_trim s) = length s \<Longrightarrow> js_trim s = s"
proof -
  assume len: "length (js_trim s) = length s"
  have le1: "length (js_trim_start s) \<le> length s" by (simp add: js_trim_start_def length_dropWhile_le)
  have le2: "length (js_trim s) \<le> length (js_trim_start s)"
    by (simp add: js_trim_def js_trim_end_def) (metis length_dropWhile_le length_rev)
  have same: "dropWhile P xs = xs" if "length (dropWhile P xs) = length xs" for P and xs :: string
    using that length_dropWhile_le [of P "tl xs"] by (cases xs) (auto split: if_splits)
  have "js_trim_start s = s"
    using len le1 le2 unfolding js_trim_start_def by (intro same) simp
  moreover from this have "rev (dropWhile js_ws (rev s)) = s"
    using len same [of js_ws "rev s"] by (simp add: js_trim_def js_trim_end_def)
  ultimately show ?thesis by (simp add: js_trim_def js_trim_end_def)
qed

text \<open>A text that is unchanged or shorter: the measure of the stripping loops.\<close>

definition shrinks :: "string \<Rightarrow> string \<Rightarrow> bool" where
  "shrinks s t \<longleftrightarrow> t = s \<or> length t < length s"

lemma shrinks_refl [simp]: "shrinks s s"
  by (simp add: shrinks_def)

lemma shrinks_trans: "shrinks s t \<Longrightarrow> shrinks t u \<Longrightarrow> shrinks s u"
  by (auto simp: shrinks_def)

lemma shrinks_trim: "shrinks s (js_trim s)"
  using length_js_trim [of s] js_trim_same_length [of s] by (auto simp: shrinks_def)

lemma shrinks_delete: "shrinks s (replace_first re (\<lambda>_. []) s)"
  using length_delete_first_less [of re s] by (auto simp: shrinks_def)

lemma shrinks_less: "shrinks s t \<Longrightarrow> t \<noteq> s \<Longrightarrow> length t < length s"
  by (simp add: shrinks_def)

lemma strip_env_once_shrinks: "shrinks s (strip_env_once s)"
  unfolding strip_env_once_def by (blast intro: shrinks_trans shrinks_trim shrinks_delete)

function strip_env_loop :: "string \<Rightarrow> string" where
  "strip_env_loop next =
     (if next = [] \<or> strip_env_once next = next then next else strip_env_loop (strip_env_once next))"
  by pat_completeness auto
termination
  by (relation "measure length") (auto intro: shrinks_less strip_env_once_shrinks)

definition stripLeadingEnvironmentAssignments :: "string \<Rightarrow> string" where
  "stripLeadingEnvironmentAssignments command = strip_env_loop (js_trim command)"

section \<open>Tokens are no longer than the text\<close>

lemma quoted_token_run:
  assumes "t \<in> set (run (quoted_token n q) s)"
  shows "\<exists>x. rest s = q # x @ q # rest t \<and> caps t = (n, x) # caps s"
proof -
  obtain r where r: "rest s = q # r"
    using assms by (cases "rest s") (auto simp: quoted_token_def run_chr split: if_splits)
  define s1 where "s1 = s\<lparr>behind := q # behind s, rest := r\<rparr>"
  have s1: "rest s = q # rest s1" "caps s1 = caps s" "run (chr q) s = [s1]"
    using r by (simp_all add: s1_def run_chr)
  then obtain u where u: "u \<in> set (run (quoted_body q) s1)"
    and t: "t \<in> set (run (chr q) (u\<lparr>caps := (n, take (length (rest s1) - length (rest u)) (rest s1)) # caps u\<rparr>))"
    using assms by (auto simp: quoted_token_def)
  have "no_group (quoted_body q)" by (simp add: quoted_body_def star_def chr_def none_of_def)
  then have cu: "caps u = caps s" using no_group_caps u s1(2) by metis
  obtain x where x: "rest s1 = x @ rest u" using run_moved [OF u] by (auto simp: moved_def)
  have "rest u = q # rest t" "caps t = (n, x) # caps u"
    using t x by (auto simp: run_chr split: list.splits if_splits)
  with s1 x cu show ?thesis by auto
qed

lemma token_match:
  assumes "match_here token_pattern b r = Some m"
  shows "(\<exists>q. m_text m = q # raw_token m @ [q])
    \<or> raw_token m = m_text m \<and> m_text m \<noteq> [] \<and> (m_post m = [] \<or> js_ws (hd (m_post m)))"
proof -
  define s where "s = \<lparr>behind = b, rest = r, caps = []\<rparr>"
  obtain t ts where t: "run token_pattern s = t # ts" and m: "m = mk_match b r t"
    using assms by (auto simp: match_here_def s_def split: list.splits)
  have quoted: ?thesis if q: "t \<in> set (run (quoted_token n q) s)" "n \<in> {1, 2}" for n q
  proof -
    obtain x where x: "r = q # x @ q # rest t" "caps t = [(n, x)]"
      using quoted_token_run [OF q(1)] by (auto simp: s_def)
    then have "m_text m = q # x @ [q]" by (simp add: m mk_match_def)
    moreover have "raw_token m = x" using x(2) q(2) by (auto simp: m mk_match_def raw_token_def group_def)
    ultimately show ?thesis by blast
  qed
  show ?thesis
  proof (cases "t \<in> set (run (quoted_token 1 dquote) s) \<or> t \<in> set (run (quoted_token 2 squote) s)")
    case True
    then show ?thesis using quoted [of 1] quoted [of 2] by blast
  next
    case False
    have parts: "run (quoted_token 1 dquote) s @ run (quoted_token 2 squote) s @ run (Grp 3 (plus non_ws)) s = t # ts"
      using t by (simp only: token_pattern_def run.simps(4))
    have none: "xs = []" if "xs @ ys = t # ts" "t \<notin> set xs" for xs ys using that by (cases xs) simp_all
    have w: "run (Grp 3 (plus non_ws)) s = t # ts" using False parts none by (metis append_Nil)
    have ne: "r \<noteq> []" "\<not> js_ws (hd r)"
      using w plus_none [of s "\<lambda>c. \<not> js_ws c"] by (auto simp: s_def)
    then obtain us where "run (plus non_ws) s
        = s\<lparr>behind := rev (takeWhile (\<lambda>c. \<not> js_ws c) r) @ b, rest := dropWhile (\<lambda>c. \<not> js_ws c) r\<rparr> # us"
      using plus_first [of s "\<lambda>c. \<not> js_ws c"] by (auto simp: s_def)
    with w have rt: "rest t = dropWhile (\<lambda>c. \<not> js_ws c) r"
      and ct: "caps t = [(3, take (length r - length (rest t)) r)]"
      by (auto simp: s_def)
    have "m_text m = take (length r - length (rest t)) r" "m_post m = rest t" "raw_token m = m_text m"
      by (simp_all add: m mk_match_def raw_token_def group_def ct)
    moreover have "length (rest t) < length r"
      using ne rt length_dropWhile_le [of "\<lambda>c. \<not> js_ws c" "tl r"] by (cases r) auto
    moreover have "rest t = [] \<or> js_ws (hd (rest t))" using rt hd_dropWhile [of "\<lambda>c. \<not> js_ws c" r] by auto
    ultimately show ?thesis using ne(1) by auto
  qed
qed

lemma token_not_at_ws: "r = [] \<or> js_ws (hd r) \<Longrightarrow> match_here token_pattern b r = None"
  by (cases r)
     (auto simp: match_here_def token_pattern_def quoted_token_def run_chr plus_def js_ws_def)

definition weight :: "string list \<Rightarrow> nat" where
  "weight ts = sum_list (map (\<lambda>t. length t + 1) ts)"

lemma tokens_weight:
  "weight (filter (\<lambda>t. t \<noteq> []) (map raw_token (all_from n token_pattern b r)))
     \<le> length r + (if r = [] \<or> js_ws (hd r) then 0 else 1)"
proof (induction n arbitrary: b r)
  case (Suc n)
  let ?w = "\<lambda>ms. weight (filter (\<lambda>t. t \<noteq> []) (map raw_token ms))"
  show ?case
  proof (cases "exec_from token_pattern b r")
    case (Some m)
    then obtain k where k: "k \<le> length r" "match_here token_pattern (rev (take k r) @ b) (drop k r) = Some m"
      using exec_from_at by blast
    have len: "length r = k + length (m_text m) + length (m_post m)"
      using arg_cong [OF match_here_parts(2) [OF k(2)], of length] k(1) by simp
    have start: "k \<noteq> 0 \<or> \<not> (r = [] \<or> js_ws (hd r))"
      using k(2) token_not_at_ws [of r "rev (take k r) @ b"] by (cases k) auto
    have ne: "m_text m \<noteq> []" using token_match [OF k(2)] by auto
    then have step: "?w (all_from (Suc n) token_pattern b r)
        = (if raw_token m = [] then 0 else length (raw_token m) + 1)
          + ?w (all_from n token_pattern (rev (m_pre m @ m_text m)) (m_post m))"
      using Some by (simp add: weight_def)
    note IH = Suc.IH [of "rev (m_pre m @ m_text m)" "m_post m"]
    from token_match [OF k(2)] show ?thesis
    proof
      assume "\<exists>q. m_text m = q # raw_token m @ [q]"
      then have "length (m_text m) = length (raw_token m) + 2" by auto
      then show ?thesis using IH step len start by (auto split: if_splits)
    next
      assume "raw_token m = m_text m \<and> m_text m \<noteq> [] \<and> (m_post m = [] \<or> js_ws (hd (m_post m)))"
      then show ?thesis using IH step len start by (auto split: if_splits)
    qed
  qed (simp add: weight_def)
qed (simp add: weight_def)

lemma unescape_token_le: "length (unescape_token t) \<le> length t"
  unfolding unescape_token_def
proof (rule length_replace_matches)
  fix m b r
  assume "match_here (Seq (chr backslash) (Grp 1 (one_of [squote, dquote, backslash]))) b r = Some m"
  then show "length (case group m 1 of None \<Rightarrow> [] | Some c \<Rightarrow> c) \<le> length (m_text m)"
    by (auto simp: match_here_def run_chr one_of_def mk_match_def group_def split: list.splits if_splits)
qed

lemma weight_unescape: "weight (map unescape_token ts) \<le> weight ts"
  by (induction ts) (simp_all add: weight_def unescape_token_le add_mono)

lemma tokenize_weight: "weight (tokenizeCommand s) \<le> length s + 1"
proof -
  let ?ts = "filter (\<lambda>t. t \<noteq> []) (map raw_token (match_all token_pattern s))"
  have "weight (tokenizeCommand s) \<le> weight ?ts"
    unfolding tokenizeCommand_def by (rule weight_unescape)
  also have "\<dots> \<le> length s + (if s = [] \<or> js_ws (hd s) then 0 else 1)"
    unfolding match_all_def by (rule tokens_weight)
  also have "\<dots> \<le> length s + 1" by simp
  finally show ?thesis .
qed

lemma length_join_space: "length (join_with '' '' ts) \<le> weight ts - 1"
  by (induction "'' ''" ts rule: join_with.induct) (simp_all add: weight_def)

lemma weight_drop: "ts \<noteq> [] \<Longrightarrow> 0 < i \<Longrightarrow> weight (drop i ts) + length (hd ts) + 1 \<le> weight ts"
proof (cases ts)
  case (Cons t us)
  assume "0 < i"
  then obtain j where i: "i = Suc j" by (cases i) auto
  have "weight (drop j us) \<le> weight us"
    unfolding weight_def by (metis append_take_drop_id le_add2 map_append sum_list_append)
  then show ?thesis by (simp add: Cons i weight_def)
qed simp

text \<open>The command behind a secret wrapper; the text itself where the loop stops.\<close>

definition secret_args_index :: "string list \<Rightarrow> nat" where
  "secret_args_index ts =
     (let i = (if (token_at ts 0 = ''doppler'' \<or> token_at ts 0 = ''infisical'') \<and> token_at ts 1 = ''run''
               then 2 else 1)
      in if token_at ts i = ''--'' then i + 1 else i)"

definition strip_secret_once :: "string \<Rightarrow> string" where
  "strip_secret_once s =
     (let ts = tokenizeCommand s; updated = js_trim (join_with '' '' (drop (secret_args_index ts) ts))
      in if token_at ts 0 \<notin> set SECRET_WRAPPER_BINS \<or> updated = [] then s else updated)"

lemma strip_secret_once_shrinks: "shrinks s (strip_secret_once s)"
proof -
  define ts where "ts = tokenizeCommand s"
  define i where "i = secret_args_index ts"
  have "length (js_trim (join_with '' '' (drop i ts))) < length s"
    if w: "token_at ts 0 \<in> set SECRET_WRAPPER_BINS" and u: "js_trim (join_with '' '' (drop i ts)) \<noteq> []"
  proof -
    have "[] \<notin> set SECRET_WRAPPER_BINS" by (simp add: SECRET_WRAPPER_BINS_def)
    then have "token_at ts 0 \<noteq> []" using w by metis
    then have ts: "ts \<noteq> []" "hd ts \<noteq> []" by (cases ts; simp add: token_at_def)+
    have "0 < i" by (simp add: i_def secret_args_index_def Let_def)
    then have "weight (drop i ts) + length (hd ts) + 1 \<le> weight ts" by (rule weight_drop [OF ts(1)])
    then have "weight (drop i ts) + length (hd ts) + 1 \<le> length s + 1"
      using tokenize_weight [of s] by (simp add: ts_def)
    moreover have "length (js_trim (join_with '' '' (drop i ts))) \<le> weight (drop i ts) - 1"
      by (rule le_trans [OF length_js_trim length_join_space])
    moreover have "length (hd ts) > 0" using ts(2) by simp
    ultimately show ?thesis by linarith
  qed
  then show ?thesis
    by (simp add: strip_secret_once_def shrinks_def Let_def flip: ts_def i_def)
qed

function strip_secret_loop :: "string \<Rightarrow> string" where
  "strip_secret_loop next =
     (if next = [] \<or> strip_secret_once next = next then next else strip_secret_loop (strip_secret_once next))"
  by pat_completeness auto
termination
  by (relation "measure length") (auto intro: shrinks_less strip_secret_once_shrinks)

definition stripLeadingSecretWrappers :: "string \<Rightarrow> string" where
  "stripLeadingSecretWrappers command = strip_secret_loop (js_trim command)"

section \<open>Wrapped commands\<close>

record wrapped_invocation =
  wi_manager :: string
  wi_args :: "string list"

definition normalizeWpArgs :: "string list \<Rightarrow> string list" where
  "normalizeWpArgs args = (if token_at args 0 = ''--'' then tl args else args)"

definition isWrappedWpShorthand :: "string \<Rightarrow> string \<Rightarrow> bool" where
  "isWrappedWpShorthand manager sub =
     (if manager = ''pnpm'' then sub = ''wp'' \<and> sub \<notin> set PNPM_BUILTIN_SUBCOMMANDS
      else if manager = ''yarn'' \<or> manager = ''yarnpkg'' then sub = ''wp'' \<and> sub \<notin> set YARN_BUILTIN_SUBCOMMANDS
      else if manager = ''bun'' then sub = ''wp'' \<and> sub \<notin> set BUN_BUILTIN_SUBCOMMANDS
      else if manager = ''vp'' then sub = ''wp'' else False)"

definition manager_of :: "string list \<Rightarrow> string option" where
  "manager_of ts = (if token_at ts 0 = [] then None else normalizedPackageManagerBin (token_at ts 0))"

definition detect_in_tokens :: "string list \<Rightarrow> wrapped_invocation option" where
  "detect_in_tokens ts =
     (case manager_of ts of None \<Rightarrow> None
      | Some manager \<Rightarrow>
          (let i = skipPackageManagerOptions ts 1;
               sub = (if manager = ''npm'' \<and> token_at ts i = ''x'' then ''exec'' else token_at ts i)
           in if token_at ts i = [] then None
              else if sub \<in> set PACKAGE_MANAGER_RUN_SUBCOMMANDS then
                (let j = skipPackageManagerOptions ts (i + 1);
                     k = (if token_at ts j = ''--'' then j + 1 else j)
                 in if token_at ts k \<noteq> ''wp'' then None
                    else Some \<lparr>wi_manager = manager, wi_args = normalizeWpArgs (drop (k + 1) ts)\<rparr>)
              else if \<not> isWrappedWpShorthand manager sub then None
              else Some \<lparr>wi_manager = manager, wi_args = normalizeWpArgs (drop (i + 1) ts)\<rparr>))"

definition detectWrappedWpCommand :: "string \<Rightarrow> wrapped_invocation option" where
  "detectWrappedWpCommand command =
     detect_in_tokens (tokenizeCommand (stripLeadingSecretWrappers
       (stripCorepackPackageManagerProxy (stripLeadingEnvironmentAssignments command))))"

section \<open>The running process\<close>

text \<open>
  The process environment and its ancestors: the command line and the parent of a process id,
  \<open>None\<close> if it cannot be read.
\<close>

record runtime_options =
  ro_env :: "string \<Rightarrow> string option"
  ro_argv :: "string list"
  ro_windows :: bool
  ro_ppid :: int
  ro_depth :: nat
  ro_process :: "int \<Rightarrow> (int \<times> string) option"

definition detectPackageManagerFromEnv :: "(string \<Rightarrow> string option) \<Rightarrow> string option" where
  "detectPackageManagerFromEnv env =
     (let execPath = (case env ''npm_execpath'' of Some p \<Rightarrow> p
             | None \<Rightarrow> (case env ''npm_config_user_agent'' of Some a \<Rightarrow> a | None \<Rightarrow> []));
          normalized = js_lower execPath
      in if includes_str normalized ''pnpm'' then Some ''pnpm''
         else if includes_str normalized ''bun'' then Some ''bun''
         else if includes_str normalized ''yarn'' then Some ''yarn''
         else if includes_str normalized ''npm'' then Some ''npm''
         else if env ''VP_COMMAND'' = Some ''run'' \<or> truthy (env ''VP_CLI_BIN'') then Some ''vp''
         else None)"

fun ancestor_wrapper :: "runtime_options \<Rightarrow> nat \<Rightarrow> int list \<Rightarrow> int \<Rightarrow> wrapped_invocation option" where
  "ancestor_wrapper opts 0 seen pid = None"
| "ancestor_wrapper opts (Suc n) seen pid =
     (if pid \<le> 1 \<or> pid \<in> set seen then None
      else (case ro_process opts pid of None \<Rightarrow> None
            | Some (parent, command) \<Rightarrow>
                (case detectWrappedWpCommand command of
                   Some w \<Rightarrow> Some \<lparr>wi_manager = wi_manager w, wi_args = normalizeWpArgs (drop 2 (ro_argv opts))\<rparr>
                 | None \<Rightarrow> ancestor_wrapper opts n (pid # seen) parent)))"

definition detectWrappedWpRuntimeInvocation :: "runtime_options \<Rightarrow> wrapped_invocation option" where
  "detectWrappedWpRuntimeInvocation opts =
     (if map_option js_trim (ro_env opts ''npm_lifecycle_event'') = Some ''wp'' then
        Some \<lparr>wi_manager = (case detectPackageManagerFromEnv (ro_env opts) of Some m \<Rightarrow> m | None \<Rightarrow> ''package-manager''),
              wi_args = normalizeWpArgs (drop 2 (ro_argv opts))\<rparr>
      else if ro_windows opts then None
      else ancestor_wrapper opts (ro_depth opts) [] (ro_ppid opts))"

section \<open>Guidance\<close>

definition tick :: "string \<Rightarrow> string" where
  "tick s = [CHR 0x60] @ s @ [CHR 0x60]"

definition WRAPPED_WP_MANAGER_LIST :: string where
  "WRAPPED_WP_MANAGER_LIST =
     tick ''bun run wp'' @ '', '' @ tick ''pnpm run wp'' @ '', '' @ tick ''npm run wp'' @ '', ''
     @ tick ''yarn wp'' @ '', or '' @ tick ''vp run wp''"

definition firstWpVerb :: "string list \<Rightarrow> string option" where
  "firstWpVerb args = find (\<lambda>a. \<not> starts_with a ''-'') args"

definition wrappedWpFallbackCommand :: "string list \<Rightarrow> string" where
  "wrappedWpFallbackCommand args = (if args \<noteq> [] then ''wp '' @ join_with '' '' args else ''wp'')"

definition wrapped_tool :: "string option \<Rightarrow> string" where
  "wrapped_tool verb =
     (case verb of None \<Rightarrow> ''wp''
      | Some v \<Rightarrow> if v \<in> {''test'', ''lint'', ''typecheck'', ''qa'', ''format'', ''e2e'', ''audit''}
                 then ''wp_'' @ v else ''wp'')"

text \<open>The tool and the guidance.\<close>

definition wrappedWpGuidanceForArgs :: "string list \<Rightarrow> string \<times> string" where
  "wrappedWpGuidanceForArgs args =
     (let t = wrapped_tool (firstWpVerb args)
      in (t, ''Use '' @ (if t = ''wp'' then ''the matching wp_*'' else t)
             @ '' MCP tool when available; otherwise run direct '' @ tick (wrappedWpFallbackCommand args)
             @ ''. Do not use package-manager wrappers such as '' @ WRAPPED_WP_MANAGER_LIST @ ''.''))"

definition formatWrappedWpInvocationError :: "wrapped_invocation \<Rightarrow> string list \<Rightarrow> string" where
  "formatWrappedWpInvocationError w argv =
     (let (t, guidance) = wrappedWpGuidanceForArgs (drop 2 argv)
      in join_with '' ''
           [''webpresso package-manager wrapper invocation is forbidden ('' @ wi_manager w @ '').'', guidance,
            if t = ''wp'' then ''Use direct '' @ tick ''wp'' @ '' as the only public CLI fallback.''
            else ''webpresso is MCP-first; direct '' @ tick ''wp'' @ '' is the only public CLI fallback.''])"

end
