(* ===== verification/DevRouting.thy ===== *)
theory DevRouting
  imports WrappedWp HookTypes
begin

text \<open>
  The routing of developer commands, \<open>src/hooks/pretool-guard/dev-routing.ts\<close>: the normal form
  of a command, the routing rules, and the commands found inside the input of a session tool.
  A back reference to the opening quote is written as one alternative per quote.
\<close>

section \<open>The tables\<close>

datatype guidance_type = G_test | G_lint | G_typecheck | G_qa | G_format | G_e2e | G_worktree

datatype route_action =
    Deny string string       \<comment> \<open>the tool and the guidance\<close>
  | Sandbox string
  | Passthrough

record routing_rule =
  prefixes :: "string list"
  guidanceType :: guidance_type
  guidance :: string
  rule_tool :: string

record entrypoint_rule =
  scriptSuffixes :: "string list"
  entry_tool :: string
  entry_guidance :: string

definition ROUTING_RULES :: "routing_rule list" where
  "ROUTING_RULES =
    [
     \<lparr>prefixes = [''vp exec markdownlint-cli2'', ''markdownlint-cli2'', ''pnpm exec markdownlint-cli2''],
       guidanceType = G_qa,
       guidance = ''Use wp_qa MCP tool instead '' @ em_dash_str @ '' QA is the blessed MCP quality entrypoint; avoid ad hoc markdown-only lint endpoints'',
       rule_tool = ''wp_qa''\<rparr>,
     \<lparr>prefixes = [''vp exec vitest'', ''vitest'', ''vp run test'', ''vp test'', ''bun run test'', ''pnpm test'', ''pnpm run test'', ''pnpm exec vitest'', ''just test''],
       guidanceType = G_test,
       guidance = ''Use wp_test MCP tool instead '' @ em_dash_str @ '' returns {passed, summary} not raw logs'',
       rule_tool = ''wp_test''\<rparr>,
     \<lparr>prefixes = [''vp exec oxlint'', ''oxlint'', ''pnpm exec oxlint'', ''vp run lint'', ''vp lint'', ''bun run lint'', ''pnpm lint'', ''pnpm run lint'', ''just lint''],
       guidanceType = G_lint,
       guidance = ''Use wp_lint MCP tool instead '' @ em_dash_str @ '' returns {passed, violations[]}'',
       rule_tool = ''wp_lint''\<rparr>,
     \<lparr>prefixes = [''vp exec tsc'', ''tsc'', ''pnpm exec tsc'', ''vp run typecheck'', ''bun run typecheck'', ''pnpm run typecheck''],
       guidanceType = G_typecheck,
       guidance = ''Use wp_typecheck MCP tool instead '' @ em_dash_str @ '' returns {passed, errors[]}'',
       rule_tool = ''wp_typecheck''\<rparr>,
     \<lparr>prefixes = [''vp exec prettier'', ''prettier'', ''pnpm exec prettier''],
       guidanceType = G_format,
       guidance = ''Use wp_format MCP tool instead '' @ em_dash_str @ '' routes through the repo formatter, not Prettier'',
       rule_tool = ''wp_format''\<rparr>,
     \<lparr>prefixes = [''vp run e2e'', ''vp e2e'', ''bun run e2e'', ''pnpm run e2e'', ''pnpm e2e'', ''pnpm exec playwright'', ''pnpm exec playwright test''],
       guidanceType = G_e2e,
       guidance = ''Use wp_e2e MCP tool instead '' @ em_dash_str @ '' returns {passed, summary} for e2e workflow execution'',
       rule_tool = ''wp_e2e''\<rparr>,
     \<lparr>prefixes = [''wrangler tail'', ''with-secrets -- wrangler tail'', ''with-secrets wrangler tail'', ''vp exec wrangler tail'', ''pnpm exec wrangler tail'', ''doppler run -- wrangler tail'', ''doppler run wrangler tail'', ''infisical run -- wrangler tail''],
       guidanceType = G_qa,
       guidance = ''Use wp_worker_tail MCP tool instead '' @ em_dash_str @ '' Worker tail output is bounded, redacted, and routed through '' @ [CHR 0x60] @ ''wp secrets run --sink deploy-wrangler --profile <profile> -- wrangler tail ...'' @ [CHR 0x60],
       rule_tool = ''wp_worker_tail''\<rparr>,
     \<lparr>prefixes = [''gh pr view'', ''gh pr checks'', ''gh pr status''],
       guidanceType = G_qa,
       guidance = ''Use wp_pr_status MCP tool instead '' @ em_dash_str @ '' PR/check/review status is bounded, structured, and read-only'',
       rule_tool = ''wp_pr_status''\<rparr>,
     \<lparr>prefixes = [''rtk gain''],
       guidanceType = G_qa,
       guidance = ''Use wp_gain MCP tool instead '' @ em_dash_str @ '' gain totals are bounded and structured; use source='' @ [dquote] @ ''rtk'' @ [dquote] @ '' for RTK totals'',
       rule_tool = ''wp_gain''\<rparr>,
     \<lparr>prefixes = [''vp run public:readiness'', ''vp run changeset:status''],
       guidanceType = G_qa,
       guidance = ''Use wp_release_readiness MCP tool instead '' @ em_dash_str @ '' release gates are aggregated without publishing, tagging, versioning, or merging'',
       rule_tool = ''wp_release_readiness''\<rparr>,
     \<lparr>prefixes = [''act'', ''with-secrets -- act'', ''with-secrets act'', ''vp exec act'', ''pnpm exec act'', ''doppler run -- act'', ''infisical run -- act''],
       guidanceType = G_qa,
       guidance = ''Use wp_ci_act MCP tool instead '' @ em_dash_str @ '' CI act execution is bounded and routed through '' @ [CHR 0x60] @ ''wp secrets run --sink act --profile <profile> -- act ...'' @ [CHR 0x60],
       rule_tool = ''wp_ci_act''\<rparr>,
     \<lparr>prefixes = [''just qa'', ''bun run qa'', ''pnpm run qa'', ''vp run qa'', ''pnpm qa'', ''vp run lint-md'', ''bun run lint-md'', ''pnpm run lint-md'', ''just lint-md'', ''pnpm exec markdownlint-cli2''],
       guidanceType = G_qa,
       guidance = ''Use wp_qa MCP tool instead '' @ em_dash_str @ '' QA is the blessed MCP quality entrypoint; avoid ad hoc markdown-only lint endpoints'',
       rule_tool = ''wp_qa''\<rparr>]"

definition SOURCE_ENTRYPOINT_RULES :: "entrypoint_rule list" where
  "SOURCE_ENTRYPOINT_RULES =
    [\<lparr>scriptSuffixes = [''src/cli/run-e2e.ts''], entry_tool = ''wp_e2e'',
       entry_guidance = ''Use wp_e2e MCP tool instead '' @ em_dash_str @ '' repo E2E entrypoints should not be run through package-manager/runtime source execution''\<rparr>,
     \<lparr>scriptSuffixes = [''apps/scripts/src/ci/act.ts''], entry_tool = ''wp_ci_act'',
       entry_guidance = ''Use wp_ci_act MCP tool instead '' @ em_dash_str @ '' raw source execution bypasses MCP output bounds and '' @ [CHR 0x60] @ ''wp secrets run --sink act --profile <profile> -- act ...'' @ [CHR 0x60]\<rparr>]"

definition PASSTHROUGH_PREFIXES :: "string list" where
  "PASSTHROUGH_PREFIXES = [''wp audit'']"

definition SAFE_PASSTHROUGH_PREFIXES :: "string list" where
  "SAFE_PASSTHROUGH_PREFIXES =
     [''git status'', ''git add'', ''git commit'', ''git push'', ''ls'', ''mkdir'', ''mv'', ''rm '', ''echo'']"

definition SANDBOX_PREFIXES :: "(string \<times> string) list" where
  "SANDBOX_PREFIXES =
    [(''grep'', ''Use wp_session_batch_execute for bounded shell gathering/search commands so output is capped, indexed, and recallable instead of flooding the transcript''),
     (''find'', ''Use wp_session_batch_execute for bounded shell gathering/search commands so output is capped, indexed, and recallable instead of flooding the transcript''),
     (''cat'', ''Use wp_session_execute_file for read-to-analyze file inspection with bounded previews and optional indexing instead of raw full-file output''),
     (''tail'', ''Use wp_session_execute_file for read-to-analyze file inspection with bounded previews and optional indexing instead of raw file output''),
     (''head'', ''Use wp_session_execute_file for read-to-analyze file inspection with bounded previews and optional indexing instead of raw file output''),
     (''curl'', ''Use wp_session_fetch_and_index for network fetches so SSRF checks, byte caps, indexing, and bounded warnings apply''),
     (''wget'', ''Use wp_session_fetch_and_index for network fetches so SSRF checks, byte caps, indexing, and bounded warnings apply''),
     (''git log'', ''Use wp_session_batch_execute for bounded git log shell gathering so output is capped, indexed, and recallable''),
     (''git diff'', ''Use wp_session_batch_execute or wp_session_execute for bounded git diff gathering instead of raw large diffs''),
     (''git show'', ''Use wp_session_batch_execute or wp_session_execute for bounded git show gathering instead of raw large output''),
     (''vp run build'', ''Use wp_session_execute for bounded build-output capture when no dedicated wp_* quality tool exists'')]"

definition PACKAGE_MANAGER_PREFIXES :: "string list" where
  "PACKAGE_MANAGER_PREFIXES = [''vp'', ''pnpm'', ''bun'', ''just'']"

definition SOURCE_RUNTIME_BINS :: "string list" where
  "SOURCE_RUNTIME_BINS = [''tsx'', ''ts-node'', ''node'', ''bun'']"

definition PACKAGE_MANAGER_EXEC_SUBCOMMANDS :: "string list" where
  "PACKAGE_MANAGER_EXEC_SUBCOMMANDS = [''exec'', ''dlx'', ''x'']"

definition TOOL_PROXY_BINS :: "string list" where
  "TOOL_PROXY_BINS = [''corepack'']"

section \<open>Tools named by the rules\<close>

text \<open>The tools by which a path is recognised: any tool a prefix runs.\<close>

definition direct_tool_of :: "string \<Rightarrow> string list" where
  "direct_tool_of pre =
     (let ts = re_split (plus ws) pre; command = token_at ts 0
      in if command = ''vp'' \<or> command = ''pnpm'' then
           (if token_at ts 1 = ''exec'' \<and> token_at ts 2 \<noteq> [] then [token_at ts 2] else [])
         else if command \<noteq> [] \<and> command \<notin> set PACKAGE_MANAGER_PREFIXES \<and> command \<notin> set SECRET_WRAPPER_BINS
         then [command] else [])"

definition getRuleDirectToolBins :: "string list \<Rightarrow> string list" where
  "getRuleDirectToolBins ps = set_of_list (concat (map direct_tool_of ps))"

definition getDirectToolBins :: "string list" where
  "getDirectToolBins = set_of_list (concat (map (\<lambda>r. getRuleDirectToolBins (prefixes r)) ROUTING_RULES))"

text \<open>The tools a rule denies whatever their arguments: prefixes that name a tool and nothing more.\<close>

definition direct_match_of :: "string \<Rightarrow> string list" where
  "direct_match_of pre =
     (let ts = re_split (plus ws) pre; command = token_at ts 0
      in if command = ''vp'' \<or> command = ''pnpm'' then
           (if token_at ts 1 = ''exec'' \<and> token_at ts 2 \<noteq> [] \<and> length ts = 3 then [token_at ts 2] else [])
         else if command \<noteq> [] \<and> length ts = 1 \<and> command \<notin> set PACKAGE_MANAGER_PREFIXES
                 \<and> command \<notin> set SECRET_WRAPPER_BINS
         then [command] else [])"

definition getRuleDirectMatchBins :: "string list \<Rightarrow> string list" where
  "getRuleDirectMatchBins ps = set_of_list (concat (map direct_match_of ps))"

definition getRuleRunScriptPrefixes :: "string list \<Rightarrow> string list" where
  "getRuleRunScriptPrefixes ps =
     set_of_list (concat (map (\<lambda>p. (let ts = tokenizeCommand p
        in if token_at ts 1 = ''run'' \<and> token_at ts 2 \<noteq> [] then [token_at ts 2] else [])) ps))"

section \<open>Normal form of a command\<close>

definition route_scope_value :: regex where \<comment> \<open>\<open>(?:--filter|-F|--dir|-C)(?:=|\\s+)(?:"[^"]+"|'[^']+'|\\S+)\<close>\<close>
  "route_scope_value =
     sq [alts [lit ''--filter'', lit ''-F'', lit ''--dir'', lit ''-C''], Alt (chr CHR ''='') (plus ws), flag_value]"

definition VP_SCOPE_FLAG_PREFIX :: regex where
  "VP_SCOPE_FLAG_PREFIX =
     Alt route_scope_value
       (Seq (alts [lit ''--workspace-root'', lit ''-w'']) (Look True (Alt ws EndText)))"

definition PNPM_SCOPE_FLAG_PREFIX :: regex where
  "PNPM_SCOPE_FLAG_PREFIX =
     Seq (alts [route_scope_value, lit ''--workspace-root'', lit ''-w'', lit ''--recursive'', lit ''-r'',
                lit ''--workspace''])
       (Look True (Alt ws EndText))"

definition manager_command :: "string \<Rightarrow> regex" where \<comment> \<open>\<open>^vp\\s+(?<rest>.+)$\<close>\<close>
  "manager_command m = sq [StartText, lit m, plus ws, Grp 1 (plus dot), EndText]"

definition command_rest :: "string \<Rightarrow> string \<Rightarrow> string option" where
  "command_rest m command =
     (case re_exec (manager_command m) command of None \<Rightarrow> None
      | Some r \<Rightarrow> if truthy (group r 1) then map_option js_trim (group r 1) else None)"

definition strip_scope_once :: "regex \<Rightarrow> string \<Rightarrow> string" where
  "strip_scope_once re s = js_trim (replace_first re (\<lambda>_. []) s)"

lemma strip_scope_once_shrinks: "shrinks s (strip_scope_once re s)"
  unfolding strip_scope_once_def by (blast intro: shrinks_trans shrinks_trim shrinks_delete)

function strip_scope_loop :: "regex \<Rightarrow> string \<Rightarrow> string" where
  "strip_scope_loop re next =
     (if \<not> re_test re next \<or> strip_scope_once re next = next then next
      else strip_scope_loop re (strip_scope_once re next))"
  by pat_completeness auto
termination
  by (relation "measure (\<lambda>(_, s). length s)") (auto intro: shrinks_less strip_scope_once_shrinks)

definition bin_pattern :: regex where \<comment> \<open>\<open>^(?<bin>\\S+)(?<rest>\\s+[\\s\\S]*)?$\<close>\<close>
  "bin_pattern =
     sq [StartText, Grp 1 (plus non_ws), opt (Grp 2 (Seq (plus ws) (star any_char))), EndText]"

definition normalizeDirectToolPath :: "string \<Rightarrow> string" where
  "normalizeDirectToolPath command =
     (case re_exec bin_pattern command of None \<Rightarrow> command
      | Some m \<Rightarrow>
          (let bin = (case group m 1 of None \<Rightarrow> [] | Some b \<Rightarrow> b); base = directToolBasename bin
           in if bin = [] \<or> base = [] \<or> base \<notin> set getDirectToolBins then command
              else squeeze_ws (base @ (case group m 2 of None \<Rightarrow> [] | Some t \<Rightarrow> t))))"

definition normalizeCommandForRouting :: "string \<Rightarrow> string" where
  "normalizeCommandForRouting command =
     (let trimmed = stripCorepackPackageManagerProxy
            (stripLeadingEnvironmentAssignments (stripLeadingSecretWrappers command))
      in case command_rest ''vp'' trimmed of
           Some tail \<Rightarrow> ''vp '' @ squeeze_ws (strip_scope_loop VP_SCOPE_FLAG_PREFIX tail)
         | None \<Rightarrow>
             (case command_rest ''pnpm'' trimmed of
                Some tail \<Rightarrow> ''pnpm '' @ squeeze_ws (strip_scope_loop PNPM_SCOPE_FLAG_PREFIX tail)
              | None \<Rightarrow> normalizeDirectToolPath trimmed))"

section \<open>Matching a rule\<close>

definition unquoteToken :: "string \<Rightarrow> string" where \<comment> \<open>\<open>/^(['"])([\\s\\S]*)\\1$/u\<close>\<close>
  "unquoteToken token =
     (let body = (\<lambda>q. sq [chr q, Grp 2 (star any_char), chr q])
      in replace_first (Seq StartText (Seq (Alt (body squote) (body dquote)) EndText))
           (\<lambda>m. case group m 2 of None \<Rightarrow> [] | Some t \<Rightarrow> t) token)"

definition normalizeScriptToken :: "string \<Rightarrow> string" where
  "normalizeScriptToken token =
     replace_first (Seq StartText (lit ''./'')) (\<lambda>_. [])
       (replace_all (chr backslash) (\<lambda>_. ''/'') (unquoteToken token))"

definition matchesRunScript :: "string \<Rightarrow> string \<Rightarrow> bool" where
  "matchesRunScript scr expected \<longleftrightarrow>
     scr = expected \<or> starts_with scr (expected @ '':'') \<or> starts_with scr (expected @ ''.'')
     \<or> starts_with scr (expected @ ''-'')"

definition matchesPackageManagerRunScriptCommand :: "string \<Rightarrow> routing_rule \<Rightarrow> bool" where
  "matchesPackageManagerRunScriptCommand scr rule =
     (let normalized = normalizeScriptToken scr; bin = directToolBasename normalized
      in list_ex (matchesRunScript normalized) (getRuleRunScriptPrefixes (prefixes rule))
         \<or> bin \<noteq> [] \<and> bin \<in> set (getRuleDirectMatchBins (prefixes rule)))"

definition matchesDirectToolCommand :: "string \<Rightarrow> routing_rule \<Rightarrow> bool" where
  "matchesDirectToolCommand command rule =
     (let firstToken = hd (re_split (plus ws) command)
      in firstToken \<noteq> [] \<and> firstToken \<in> set (getRuleDirectMatchBins (prefixes rule)))"

text \<open>The program a package manager runs and its arguments.\<close>

definition packageManagerInvocation :: "string \<Rightarrow> (string \<times> string list) option" where
  "packageManagerInvocation command =
     (let ts = tokenizeCommand command; i = skipPackageManagerOptions ts 1
      in case manager_of ts of None \<Rightarrow> None
         | Some manager \<Rightarrow>
             if manager = ''pnpx'' \<or> manager = ''npx'' \<or> manager = ''bunx'' then
               (if token_at ts i \<noteq> [] then Some (token_at ts i, drop (i + 1) ts) else None)
             else if token_at ts i = [] then None
             else
               (let sub = (if manager = ''npm'' \<and> token_at ts i = ''x'' then ''exec'' else token_at ts i);
                    after = drop (i + 1) ts
                in if sub \<in> set PACKAGE_MANAGER_EXEC_SUBCOMMANDS then
                     (let j = skipPackageManagerOptions ts (i + 1);
                          k = (if token_at ts j = ''--'' then j + 1 else j)
                      in if token_at ts k \<noteq> [] then Some (token_at ts k, drop (k + 1) ts) else None)
                   else if manager = ''vp'' \<and> sub = ''node'' then
                     (if token_at ts (i + 1) \<noteq> [] then Some (''node'', after) else None)
                   else if sub \<in> set PACKAGE_MANAGER_RUN_SUBCOMMANDS then
                     (if token_at ts (i + 1) \<noteq> [] then Some (sub, after) else None)
                   else if manager = ''pnpm'' \<and> sub \<notin> set PNPM_BUILTIN_SUBCOMMANDS then Some (sub, after)
                   else if (manager = ''yarn'' \<or> manager = ''yarnpkg'') \<and> sub \<notin> set YARN_BUILTIN_SUBCOMMANDS
                   then Some (sub, after)
                   else if manager = ''bun'' \<and> sub \<notin> set BUN_BUILTIN_SUBCOMMANDS then Some (sub, after)
                   else None))"

definition matchesPackageManagerDirectToolCommand :: "string \<Rightarrow> routing_rule \<Rightarrow> bool" where
  "matchesPackageManagerDirectToolCommand command rule =
     (case packageManagerInvocation command of None \<Rightarrow> False
      | Some (prog, args) \<Rightarrow>
          if prog = ''run'' then
            token_at args 0 \<noteq> [] \<and> matchesPackageManagerRunScriptCommand (token_at args 0) rule
          else directToolBasename prog \<noteq> []
               \<and> directToolBasename prog \<in> set (getRuleDirectMatchBins (prefixes rule)))"

definition script_or_none :: "string \<Rightarrow> string option" where
  "script_or_none t = (if t = [] then None else Some (normalizeScriptToken t))"

text \<open>The script of a runtime that is called directly.\<close>

definition plain_entrypoint :: "string list \<Rightarrow> string option" where
  "plain_entrypoint ts =
     (let first = token_at ts 0
      in if (first = ''vp'' \<or> first = ''pnpm'') \<and> token_at ts 1 = ''exec''
            \<and> token_at ts 2 \<in> set SOURCE_RUNTIME_BINS then script_or_none (token_at ts 3)
         else if first \<in> set SOURCE_RUNTIME_BINS then
           script_or_none (token_at ts (if first = ''bun'' \<and> token_at ts 1 = ''run'' then 2 else 1))
         else None)"

definition sourceEntrypointScript :: "string \<Rightarrow> string option" where
  "sourceEntrypointScript command =
     (let ts = tokenizeCommand command
      in if length ts < 2 \<or> token_at ts 0 = [] then None
         else
           (case packageManagerInvocation command of
              None \<Rightarrow> plain_entrypoint ts
            | Some (prog, args) \<Rightarrow>
                if directToolBasename prog \<noteq> [] \<and> directToolBasename prog \<in> set SOURCE_RUNTIME_BINS
                then script_or_none (token_at args 0)
                else plain_entrypoint ts))"

definition matchSourceEntrypointCommand :: "string \<Rightarrow> entrypoint_rule option" where
  "matchSourceEntrypointCommand command =
     (case sourceEntrypointScript command of None \<Rightarrow> None
      | Some scr \<Rightarrow>
          if scr = [] then None
          else find (\<lambda>r. list_ex (\<lambda>s. scr = s \<or> ends_with scr (''/'' @ s)) (scriptSuffixes r))
                 SOURCE_ENTRYPOINT_RULES)"

definition matchesPrefix :: "string \<Rightarrow> string \<Rightarrow> bool" where
  "matchesPrefix command pre \<longleftrightarrow> command = pre \<or> starts_with command (pre @ '' '')"

definition matchesRule :: "string \<Rightarrow> routing_rule \<Rightarrow> bool" where
  "matchesRule command rule \<longleftrightarrow>
     list_ex (\<lambda>p. matchesPrefix command p \<or> matchesDirectToolCommand command rule) (prefixes rule)
     \<or> matchesPackageManagerDirectToolCommand command rule"

section \<open>The route of a command\<close>

definition raw_worktree_pattern :: regex where
  "raw_worktree_pattern =
     sq [StartText, lit ''git'', plus ws, lit ''worktree'', plus ws,
         alts [lit ''add'', lit ''remove'', lit ''move'', lit ''prune''], Alt ws EndText]"

definition worktree_guidance :: string where
  "worktree_guidance = ''Use the '' @ [CHR 0x60] @ ''wp_worktree'' @ [CHR 0x60] @ '' MCP tool (or '' @ [CHR 0x60] @ ''wp worktree'' @ [CHR 0x60] @ '' CLI when MCP is unavailable) instead '' @ em_dash_str @ '' managed repositories may mutate linked worktrees only through agent-kit so owner bindings and the global registry stay consistent.''"

definition routeRawMutatingGitWorktree :: "string \<Rightarrow> route_action option" where
  "routeRawMutatingGitWorktree command =
     (if re_test raw_worktree_pattern command then Some (Deny ''wp_worktree'' worktree_guidance) else None)"

definition route_normalized :: "string \<Rightarrow> route_action option" where
  "route_normalized trimmed =
     (if trimmed = [] then None
      else (case routeRawMutatingGitWorktree trimmed of Some a \<Rightarrow> Some a
        | None \<Rightarrow> (case detectWrappedWpCommand trimmed of
              Some w \<Rightarrow> (let (t, g) = wrappedWpGuidanceForArgs (wi_args w) in Some (Deny t g))
            | None \<Rightarrow>
                if list_ex (matchesPrefix trimmed) PASSTHROUGH_PREFIXES then Some Passthrough
                else if list_ex (matchesPrefix trimmed) SAFE_PASSTHROUGH_PREFIXES then Some Passthrough
                else (case matchSourceEntrypointCommand trimmed of
                        Some r \<Rightarrow> Some (Deny (entry_tool r) (entry_guidance r))
                      | None \<Rightarrow>
                          (case find (matchesRule trimmed) ROUTING_RULES of
                             Some r \<Rightarrow> Some (Deny (rule_tool r) (guidance r))
                           | None \<Rightarrow>
                               map_option (\<lambda>(_, g). Sandbox g)
                                 (find (\<lambda>(p, _). matchesPrefix trimmed p) SANDBOX_PREFIXES))))))"

definition routeCommand :: "string \<Rightarrow> route_action option" where
  "routeCommand command = route_normalized (normalizeCommandForRouting command)"

end
