(* ===== verification/SessionInput.thy ===== *)
theory SessionInput
  imports DevRouting
begin

text \<open>
  The second half of \<open>src/hooks/pretool-guard/dev-routing.ts\<close>: the inputs of session tools, the
  commands found in them, and the redirection of large content searches.  The hook input may
  name its fields in several ways; \<open>routed_input\<close> has them all.
\<close>

record routed_input = tool_input +
  ri_toolName :: "string option"
  ri_tool :: "string option"
  ri_name :: "string option"
  ri_toolInput :: "(string, json) js_map option"
  ri_input :: "(string, json) js_map option"
  ri_arguments :: "(string, json) js_map option"

fun first_some :: "'a option list \<Rightarrow> 'a option" where \<comment> \<open>\<open>a ?? b ?? ...\<close>\<close>
  "first_some [] = None"
| "first_some (None # xs) = first_some xs"
| "first_some (Some x # xs) = Some x"

definition toolNameFromInput :: "routed_input \<Rightarrow> string option" where
  "toolNameFromInput i = first_some [tool_name i, ri_toolName i, ri_tool i, ri_name i]"

definition toolInputFromInput :: "routed_input \<Rightarrow> (string, json) js_map option" where
  "toolInputFromInput i = first_some [tool_args i, ri_toolInput i, ri_input i, ri_arguments i]"

section \<open>Commands in code\<close>

definition all_quotes :: "char list" where "all_quotes = [squote, dquote, CHR 0x60]"

definition unescape_quotes :: "string \<Rightarrow> string" where \<comment> \<open>\<open>replace(/\\\\(['"`\\\\])/gu, "$1")\<close>\<close>
  "unescape_quotes t =
     replace_all (Seq (chr backslash) (Grp 1 (one_of (all_quotes @ [backslash]))))
       (\<lambda>m. case group m 1 of None \<Rightarrow> [] | Some c \<Rightarrow> c) t"

text \<open>\<open>(['"`])((?:\\\\.|(?!\\1).)*)\\1\<close> under the \<open>s\<close> flag, one alternative per quote.\<close>

definition string_literal :: regex where
  "string_literal =
     alts (map (\<lambda>q. sq [Grp 1 (chr q), Grp 2 (star (Alt (Seq (chr backslash) any_char) (none_of [q]))), chr q])
       all_quotes)"

definition group_text :: "rmatch \<Rightarrow> nat \<Rightarrow> string" where
  "group_text m n = (case group m n of None \<Rightarrow> [] | Some t \<Rightarrow> t)"

definition parseStringLiterals :: "string \<Rightarrow> string list" where
  "parseStringLiterals input =
     map unescape_quotes (filter (\<lambda>t. t \<noteq> []) (map (\<lambda>m. group_text m 2) (match_all string_literal input)))"

definition exec_string_pattern :: regex where
  "exec_string_pattern = sq [WordBd, lit ''execSync('', star ws, string_literal]"

definition argv_call_pattern :: regex where
  "argv_call_pattern =
     sq [WordBd, alts [lit ''execFileSync'', lit ''spawnSync''], chr CHR ''('', star ws,
         alts (map (\<lambda>q. sq [Grp 1 (chr q), Grp 2 (plus (Cls (\<lambda>c. \<not> js_ws c \<and> c \<notin> set all_quotes))), chr q]) all_quotes),
         star ws, chr CHR '','', star ws, chr CHR ''['', Grp 3 (lazy any_char), chr CHR '']'']"

definition extractProcessCallCommands :: "string \<Rightarrow> string list" where
  "extractProcessCallCommands code =
     filter (\<lambda>c. c \<noteq> []) (map (\<lambda>m. js_trim (unescape_quotes (group_text m 2))) (match_all exec_string_pattern code))
     @ map (\<lambda>m. js_trim (join_with '' '' (group_text m 2 # parseStringLiterals (group_text m 3))))
         (filter (\<lambda>m. group_text m 2 \<noteq> [] \<and> group_text m 3 \<noteq> []) (match_all argv_call_pattern code))"

definition starters :: "string list" where
  "starters =
     set_of_list (PACKAGE_MANAGER_BINS @ SOURCE_RUNTIME_BINS @ TOOL_PROXY_BINS @ SECRET_WRAPPER_BINS
       @ filter (\<lambda>s. s \<noteq> []) (concat (map (\<lambda>r. map (\<lambda>p. token_at (tokenizeCommand p) 0) (prefixes r)) ROUTING_RULES)))"

definition starter_pattern :: regex where
  "starter_pattern = alts (map lit (js_sort (\<lambda>a b. int (length b) - int (length a)) starters))"

definition normalized_code :: "string \<Rightarrow> string" where
  "normalized_code code =
     replace_all (sq [StartLine, star ws, chr CHR ''#'', star dot, EndLine]) (\<lambda>_. [])
       (replace_all (sq [chr backslash, opt (chr CHR 0x0D), chr nl, star ws]) (\<lambda>_. '' '') code)"

definition inline_pattern :: regex where
  "inline_pattern =
     sq [Alt StartLine (Seq (one_of '';&|'') (star ws)),
         Grp 1 (sq [opt (Seq (opt (Seq (lit ''env'') (plus ws))) assignments), starter_pattern, WordBd,
                    star (none_of [nl, CHR '';''])])]"

definition extractInlineCommands :: "string \<Rightarrow> string list" where
  "extractInlineCommands code =
     filter (\<lambda>c. c \<noteq> []) (map (\<lambda>m. squeeze_ws (group_text m 1)) (match_all inline_pattern (normalized_code code)))"

section \<open>Session tools\<close>

definition name_break :: regex where \<comment> \<open>\<open>(?:^|[._-]|__)\<close>\<close>
  "name_break = alts [StartText, one_of ''._-'', lit ''__'']"

definition lower_underscore :: regex where
  "lower_underscore = plus (Cls (\<lambda>c. js_lower_char c \<or> c = CHR ''_''))"

definition isSessionSandboxTool :: "string option \<Rightarrow> bool" where
  "isSessionSandboxTool t =
     (case t of None \<Rightarrow> False
      | Some n \<Rightarrow>
          n \<in> {''wp_session_execute'', ''wp_session_batch_execute''}
          \<or> re_test (sq [name_break, lit ''wp_session_'', opt (lit ''batch_''), lit ''execute'', EndText]) n)"

definition normalizedToolName :: "string \<Rightarrow> string" where
  "normalizedToolName n =
     (let parts = filter (\<lambda>p. p \<noteq> []) (re_split (Alt (lit ''__'') (one_of ''._-'')) n)
      in if parts = [] then n else last parts)"

definition isWpSessionToolName :: "string \<Rightarrow> bool" where
  "isWpSessionToolName n = re_test (sq [name_break, lit ''wp_session_'', lower_underscore, EndText]) n"

definition isCanonicalWebpressoMcpToolName :: "string \<Rightarrow> bool" where
  "isCanonicalWebpressoMcpToolName n \<longleftrightarrow>
     re_test (sq [Alt StartText (lit ''__''), lit ''wp_'', lower_underscore, EndText]) n
     \<or> re_test (sq [StartText, lit ''mcp__webpresso__wp_'', lower_underscore, EndText]) n"

fun extractStringField :: "(string, json) js_map option \<Rightarrow> string list \<Rightarrow> string option" where
  "extractStringField None ks = None"
| "extractStringField (Some r) [] = None"
| "extractStringField (Some r) (k # ks) =
     (case map_get r k of
        Some (JStr s) \<Rightarrow> if js_trim s \<noteq> [] then Some (js_trim s) else extractStringField (Some r) ks
      | _ \<Rightarrow> extractStringField (Some r) ks)"

definition MAX_SAFE_GREP_HEAD_LIMIT :: int where "MAX_SAFE_GREP_HEAD_LIMIT = 100"

text \<open>The first number among the fields: a number, or a string of digits.\<close>

fun numericField :: "(string, json) js_map option \<Rightarrow> string list \<Rightarrow> json option" where
  "numericField None ks = None"
| "numericField (Some r) [] = None"
| "numericField (Some r) (k # ks) =
     (case map_get r k of
        Some (JNum n) \<Rightarrow> Some (JNum n)
      | Some (JFrac t) \<Rightarrow> Some (JFrac t)
      | Some (JStr s) \<Rightarrow>
          if s \<noteq> [] \<and> list_all js_digit s then Some (JNum (int (dec_val s)))
          else numericField (Some r) ks
      | _ \<Rightarrow> numericField (Some r) ks)"

text \<open>Comparison of a number with the limit; the text of a fraction is read as a decimal.\<close>

definition frac_above :: "string \<Rightarrow> int \<Rightarrow> bool" where
  "frac_above t limit =
     (let neg = (t \<noteq> [] \<and> hd t = CHR ''-''); u = (if neg then tl t else t); ip = takeWhile js_digit u
      in case scan_fraction (dropWhile js_digit u) of None \<Rightarrow> False
         | Some (fp, v) \<Rightarrow>
             (case scan_exponent v of None \<Rightarrow> False
              | Some (e, _) \<Rightarrow>
                  (let m = int (dec_val (ip @ fp)); k = e - int (length fp)
                   in \<not> neg \<and> (if 0 \<le> k then m * 10 ^ nat k > limit else m > limit * 10 ^ nat (- k)))))"

definition number_above :: "json \<Rightarrow> int \<Rightarrow> bool" where
  "number_above j limit = (case j of JNum n \<Rightarrow> n > limit | JFrac t \<Rightarrow> frac_above t limit | _ \<Rightarrow> False)"

definition wantsUnboundedContentSearch :: "(string, json) js_map option \<Rightarrow> bool" where
  "wantsUnboundedContentSearch toolInput =
     (if extractStringField toolInput [''output_mode'', ''outputMode''] \<noteq> Some ''content'' then False
      else (case numericField toolInput [''head_limit'', ''headLimit''] of
              None \<Rightarrow> True | Some n \<Rightarrow> number_above n MAX_SAFE_GREP_HEAD_LIMIT))"

definition sessionSandboxDecision :: "string \<Rightarrow> string \<Rightarrow> route_action" where
  "sessionSandboxDecision t g = Sandbox (''Use '' @ t @ '' instead '' @ em_dash_str @ '' '' @ g)"

definition routeToolInputToSessionMemory :: "routed_input \<Rightarrow> route_action option" where
  "routeToolInputToSessionMemory input =
     (case toolNameFromInput input of None \<Rightarrow> None
      | Some toolName \<Rightarrow>
          if toolName = [] then None
          else if isWpSessionToolName toolName \<or> isCanonicalWebpressoMcpToolName toolName then None
          else if js_lower (normalizedToolName toolName) = ''read'' then None
          else if js_lower (normalizedToolName toolName) = ''grep'' then
            (if \<not> wantsUnboundedContentSearch (toolInputFromInput input) then None
             else Some (sessionSandboxDecision ''wp_session_batch_execute''
               (toolName @ '' content search without a small head_limit can be large; run it through bounded shell gathering so results are capped, indexed, and recallable'')))
          else None)"

definition listed_commands :: "(string, json) js_map \<Rightarrow> string list" where
  "listed_commands m =
     (case map_get m ''commands'' of
        Some (JArr es) \<Rightarrow>
          concat (map (\<lambda>e. case e of JObj f \<Rightarrow> (case map_get f ''command'' of Some (JStr c) \<Rightarrow> [c] | _ \<Rightarrow> []) | _ \<Rightarrow> []) es)
      | _ \<Rightarrow> [])"

definition extractRoutableCommandsFromToolInput :: "routed_input \<Rightarrow> string list" where
  "extractRoutableCommandsFromToolInput input =
     (if \<not> isSessionSandboxTool (toolNameFromInput input) then []
      else (case toolInputFromInput input of None \<Rightarrow> []
            | Some m \<Rightarrow>
                set_of_list (listed_commands m
                  @ (case map_get m ''code'' of
                       Some (JStr code) \<Rightarrow> extractProcessCallCommands code @ extractInlineCommands code
                     | _ \<Rightarrow> []))))"

end
