(* ===== verification/WorktreeDiscipline.thy ===== *)
theory WorktreeDiscipline
  imports HookEnv
begin

text \<open>
  The worktree-discipline validator of the pretool guard
  (\<open>src/hooks/pretool-guard/validators/worktree-discipline.ts\<close>): the git operations of a
  command that move a branch or commit, the directory each of them runs in, and the shell
  syntax in which such an operation may hide.
\<close>

section \<open>Directories\<close>

definition isPrimaryReposCheckout :: "hook_env \<Rightarrow> string \<Rightarrow> bool" where
  "isPrimaryReposCheckout env cwd =
     (let home = home_dir env
      in if cwd = [] then False
         else if cwd = home @ ''/.agent/worktrees'' \<or> starts_with cwd (home @ ''/.agent/worktrees/'') then False
         else cwd = home @ ''/repos'' \<or> starts_with cwd (home @ ''/repos/''))"

definition stripQuotes :: "string \<Rightarrow> string" where
  "stripQuotes v =
     (if v \<noteq> [] \<and> (hd v = dquote \<or> hd v = squote) \<and> last v = hd v then butlast (tl v) else v)"

definition resolveDir :: "hook_env \<Rightarrow> string \<Rightarrow> string \<Rightarrow> string" where
  "resolveDir env raw base =
     (let d = stripQuotes raw;
          dir = (if d = ''~'' then home_dir env
                 else if starts_with d ''~/'' then home_dir env @ ''/'' @ drop 2 d else d)
      in if path_is_absolute dir then dir
         else path_resolve (proc_cwd env) (or_else base (home_dir env)) dir)"

definition isUnresolvable :: "string \<Rightarrow> bool" where
  "isUnresolvable token \<longleftrightarrow>
     token = ''-'' \<or> re_test (one_of [CHR ''$'', CHR 0x60, CHR ''*'', CHR ''?'']) token
     \<or> re_test (sq [StartText, chr CHR ''~'', none_of ''/'']) token"

text \<open>\<open>applyDir\<close>: \<open>None\<close> is \<open>"ambiguous"\<close>.\<close>

definition applyDir :: "hook_env \<Rightarrow> string option \<Rightarrow> string \<Rightarrow> string option" where
  "applyDir env token cwd =
     (if \<not> truthy token then Some cwd
      else if isUnresolvable (stripQuotes (text_of token)) then None
      else Some (resolveDir env (text_of token) cwd))"

section \<open>Shell words and segments\<close>

record word_state =
  w_words :: "string list"
  w_current :: string
  w_quote :: "char option"
  w_escaped :: bool

definition is_quote :: "char \<Rightarrow> bool" where
  "is_quote c \<longleftrightarrow> c = dquote \<or> c = squote"

definition toggles :: "char option \<Rightarrow> char \<Rightarrow> bool" where
  "toggles q c \<longleftrightarrow> is_quote c \<and> (q = None \<or> q = Some c)"

definition toggle :: "char option \<Rightarrow> char \<Rightarrow> char option" where
  "toggle q c = (if q = Some c then None else Some c)"

definition flush_word :: "word_state \<Rightarrow> word_state" where
  "flush_word s =
     s\<lparr>w_words := w_words s @ (if w_current s \<noteq> [] then [w_current s] else []), w_current := []\<rparr>"

definition word_step :: "word_state \<Rightarrow> char \<Rightarrow> word_state" where
  "word_step s c =
     (if w_escaped s then s\<lparr>w_current := w_current s @ [c], w_escaped := False\<rparr>
      else if w_quote s \<noteq> Some squote \<and> c = backslash then s\<lparr>w_escaped := True\<rparr>
      else if toggles (w_quote s) c then s\<lparr>w_quote := toggle (w_quote s) c\<rparr>
      else if w_quote s = None \<and> js_ws c then flush_word s
      else s\<lparr>w_current := w_current s @ [c]\<rparr>)"

definition word_start :: word_state where
  "word_start = \<lparr>w_words = [], w_current = [], w_quote = None, w_escaped = False\<rparr>"

definition shellWords :: "string \<Rightarrow> string list option" where
  "shellWords fragment =
     (let s = foldl word_step word_start (js_trim fragment)
      in if w_escaped s \<or> w_quote s \<noteq> None then None else Some (w_words (flush_word s)))"

definition flush_segment :: "word_state \<Rightarrow> word_state" where
  "flush_segment s =
     s\<lparr>w_words := w_words s @ (if js_trim (w_current s) \<noteq> [] then [w_current s] else []), w_current := []\<rparr>"

definition segment_step :: "word_state \<Rightarrow> char \<Rightarrow> word_state" where
  "segment_step s c =
     (if w_escaped s then s\<lparr>w_current := w_current s @ [backslash, c], w_escaped := False\<rparr>
      else if w_quote s \<noteq> Some squote \<and> c = backslash then s\<lparr>w_escaped := True\<rparr>
      else if toggles (w_quote s) c then
        s\<lparr>w_quote := toggle (w_quote s) c, w_current := w_current s @ [c]\<rparr>
      else if w_quote s = None \<and> c \<in> set '';&|(){}'' then flush_segment s
      else s\<lparr>w_current := w_current s @ [c]\<rparr>)"

definition splitShellSegments :: "string \<Rightarrow> string list" where
  "splitShellSegments command = w_words (flush_segment (foldl segment_step word_start command))"

section \<open>Arguments of git\<close>

definition checkoutArgsMutate :: "string list \<Rightarrow> bool" where
  "checkoutArgsMutate args =
     (let wds = filter (\<lambda>a. a \<noteq> ''-q'' \<and> a \<noteq> ''--quiet'') args
      in if wds = [] then False
         else if hd wds = ''--'' then False
         else if hd wds = ''-'' \<or> ''--detach'' \<in> set wds then True
         else if list_ex (\<lambda>a. a = ''-b'' \<or> a = ''-B'' \<or> a = ''--orphan'' \<or> a = ''--track'') wds then True
         else if list_ex (\<lambda>a. starts_with a ''-b'' \<or> starts_with a ''-B'') wds then True
         else if ''--'' \<in> set wds then False
         else list_ex (\<lambda>a. a \<noteq> [] \<and> \<not> starts_with a ''-'') wds)"

definition BRANCH_ACTION_FLAGS :: "string list" where
  "BRANCH_ACTION_FLAGS =
     [''--track'', ''--no-track'', ''--create-reflog'', ''--force'', ''-f'', ''-c'', ''-C'', ''-m'', ''-M'']"

definition BRANCH_READONLY_OR_DELETE_FLAGS :: "string list" where
  "BRANCH_READONLY_OR_DELETE_FLAGS =
     [''-a'', ''--all'', ''-r'', ''--remotes'', ''--list'', ''-l'', ''-v'', ''-vv'', ''--verbose'', ''-d'', ''-D'',
      ''--delete'', ''--contains'', ''--no-contains'', ''--merged'', ''--no-merged'', ''--points-at'', ''--format'',
      ''--sort'', ''--column'', ''--no-column'', ''--color'', ''--no-color'']"

definition branch_readonly :: "string \<Rightarrow> bool" where
  "branch_readonly w \<longleftrightarrow>
     w \<in> set BRANCH_READONLY_OR_DELETE_FLAGS
     \<or> list_ex (starts_with w)
         [''--format='', ''--sort='', ''--contains='', ''--no-contains='', ''--merged='', ''--no-merged='',
          ''--points-at='']"

fun branch_scan :: "string list \<Rightarrow> bool \<Rightarrow> string list \<Rightarrow> bool" where
  "branch_scan args sawReadonly [] = False"
| "branch_scan args sawReadonly (w # wds) =
     (if w = [] then branch_scan args sawReadonly wds
      else if \<not> starts_with w ''-'' then \<not> sawReadonly
      else if branch_readonly w then branch_scan args True wds
      else list_ex (\<lambda>a. a \<noteq> [] \<and> \<not> starts_with a ''-'') args)"

definition branchArgsMutate :: "string list \<Rightarrow> bool" where
  "branchArgsMutate args =
     (if args = [] then False
      else if list_ex (\<lambda>w. w = ''-d'' \<or> w = ''-D'' \<or> w = ''--delete'') args then False
      else if list_ex (\<lambda>w. w \<in> set BRANCH_ACTION_FLAGS) args then True
      else branch_scan args False args)"

definition global_with_value :: "string \<Rightarrow> bool" where
  "global_with_value w \<longleftrightarrow> w \<in> {''-C'', ''-c'', ''--git-dir'', ''--work-tree''}"

definition global_attached :: "string \<Rightarrow> bool" where
  "global_attached w \<longleftrightarrow>
     starts_with w ''-C'' \<or> starts_with w ''-c'' \<or> starts_with w ''--git-dir='' \<or> starts_with w ''--work-tree=''"

definition global_plain :: "string \<Rightarrow> bool" where
  "global_plain w \<longleftrightarrow> w \<in> {''-p'', ''--paginate'', ''--no-pager''}"

definition subcommand_label :: "string \<Rightarrow> string list \<Rightarrow> string option" where
  "subcommand_label w args =
     (if w = ''commit'' then Some ''git commit''
      else if w = ''switch'' then
        (case args of a # _ \<Rightarrow> if a = ''-h'' \<or> a = ''--help'' then None else Some ''git switch''
         | [] \<Rightarrow> Some ''git switch'')
      else if w = ''checkout'' then (if checkoutArgsMutate args then Some ''git checkout'' else None)
      else if w = ''branch'' then (if branchArgsMutate args then Some ''git branch'' else None)
      else None)"

fun mutationLabelFromGitArgs :: "string list \<Rightarrow> string option" where
  "mutationLabelFromGitArgs [] = None"
| "mutationLabelFromGitArgs (w # wds) =
     (if w = [] then mutationLabelFromGitArgs wds
      else if global_with_value w then (case wds of [] \<Rightarrow> None | _ # vs \<Rightarrow> mutationLabelFromGitArgs vs)
      else if global_attached w then mutationLabelFromGitArgs wds
      else if global_plain w then mutationLabelFromGitArgs wds
      else if starts_with w ''-'' then mutationLabelFromGitArgs wds
      else subcommand_label w wds)"

fun unsupported_global :: "bool \<Rightarrow> string list \<Rightarrow> bool" where
  "unsupported_global seen [] = False"
| "unsupported_global seen (w # wds) =
     (if w = [] then unsupported_global seen wds
      else if global_with_value w then (case wds of [] \<Rightarrow> False | _ # vs \<Rightarrow> unsupported_global seen vs)
      else if global_attached w then unsupported_global seen wds
      else if global_plain w then unsupported_global seen wds
      else if starts_with w ''-'' then unsupported_global True wds
      else seen \<and> mutationLabelFromGitArgs (w # wds) \<noteq> None)"

definition hasUnsupportedGlobalBeforeMutation :: "string list \<Rightarrow> bool" where
  "hasUnsupportedGlobalBeforeMutation args = unsupported_global False args"

section \<open>What may stand before git\<close>

definition alias_key :: regex where
  "alias_key = sq [StartText, lit ''GIT_CONFIG_KEY_'', plus digit, lit ''=alias.'']"

text \<open>The words before the git word.\<close>

fun hasEnvTargetOverrideBeforeGit :: "string list \<Rightarrow> bool" where
  "hasEnvTargetOverrideBeforeGit [] = False"
| "hasEnvTargetOverrideBeforeGit (w # wds) =
     (if w = [] then hasEnvTargetOverrideBeforeGit wds
      else if starts_with w ''GIT_DIR='' \<or> starts_with w ''GIT_WORK_TREE='' \<or> starts_with w ''GIT_CONFIG_COUNT=''
              \<or> re_test alias_key w
              \<or> re_test (sq [StartText, lit ''GIT_CONFIG_VALUE_'', plus digit, chr CHR ''='']) w then True
      else if w = ''env'' then hasEnvTargetOverrideBeforeGit wds
      else if w = ''-C'' \<and> wds \<noteq> [] then True
      else if starts_with w ''-C'' \<and> length w > 2 then True
      else hasEnvTargetOverrideBeforeGit wds)"

definition isGitExecutable :: "string \<Rightarrow> bool" where
  "isGitExecutable w \<longleftrightarrow> w \<noteq> [] \<and> (w = ''git'' \<or> path_basename w = ''git'')"

definition hasGitConfigAliasBeforeGit :: "string list \<Rightarrow> bool" where
  "hasGitConfigAliasBeforeGit ahead \<longleftrightarrow>
     list_ex (\<lambda>w. starts_with w ''GIT_CONFIG_COUNT='') ahead \<and> list_ex (re_test alias_key) ahead"

definition git_target_override :: regex where
  "git_target_override =
     Seq (Alt StartText ws) (alts [Seq (lit ''--git-dir'') (Alt (chr CHR ''='') ws),
       Seq (lit ''--work-tree'') (Alt (chr CHR ''='') ws)])"

definition hasGitTargetOverride :: "string \<Rightarrow> bool" where
  "hasGitTargetOverride globals = re_test git_target_override globals"

definition alias_config :: regex where
  "alias_config =
     Seq (Alt StartText ws)
       (alts [sq [lit ''-c'', Alt (plus ws) (lazy non_ws), lit ''alias.''],
              sq [lit ''--config-env'', Alt (chr CHR ''='') (plus ws), lit ''alias.'']])"

definition hasMutationAliasConfig :: "string \<Rightarrow> bool" where
  "hasMutationAliasConfig globals = re_test alias_config globals"

section \<open>Hidden mutations\<close>

text \<open>Some word is git, and before it or after it stands what the test looks for.\<close>

definition at_git :: "(string list \<Rightarrow> string list \<Rightarrow> bool) \<Rightarrow> string list \<Rightarrow> bool" where
  "at_git test words =
     list_ex (\<lambda>i. isGitExecutable (words ! i) \<and> test (take i words) (drop (i + 1) words)) [0..<length words]"

definition wordsContainGitMutation :: "string list \<Rightarrow> bool" where
  "wordsContainGitMutation words =
     at_git (\<lambda>ahead args. hasGitConfigAliasBeforeGit ahead \<or> mutationLabelFromGitArgs args \<noteq> None) words"

definition git_word :: regex where
  "git_word = sq [WordBd, lit ''git'', WordBd]"

definition mutation_word :: regex where
  "mutation_word = sq [WordBd, alts [lit ''commit'', lit ''switch'', lit ''checkout'', lit ''branch''], WordBd]"

definition looks_mutating :: "string \<Rightarrow> bool" where
  "looks_mutating segment \<longleftrightarrow> re_test git_word segment \<and> re_test mutation_word segment"

definition segmentContainsGitMutation :: "string \<Rightarrow> bool" where
  "segmentContainsGitMutation segment =
     (case shellWords segment of None \<Rightarrow> looks_mutating segment | Some wds \<Rightarrow> wordsContainGitMutation wds)"

definition quotedPayloads :: "string \<Rightarrow> regex \<Rightarrow> string list" where
  "quotedPayloads command pre =
     concat (map (\<lambda>m. case group m 1 of
          Some (q # _) \<Rightarrow>
            (let body = takeWhile (\<lambda>c. c \<noteq> q) (m_post m)
             in if q \<in> set (m_post m) \<and> body \<noteq> [] then [body] else [])
        | _ \<Rightarrow> [])
       (match_all pre command))"

definition payloadContainsGitMutation :: "string \<Rightarrow> bool" where
  "payloadContainsGitMutation payload =
     list_ex segmentContainsGitMutation
       (re_split (alts [lit ''&&'', chr CHR '';'', lit ''||'', one_of ''(){}'']) payload)"

text \<open>The words after the first one the test accepts.\<close>

definition words_after :: "(string \<Rightarrow> bool) \<Rightarrow> string list \<Rightarrow> string list option" where
  "words_after test wds = (case dropWhile (\<lambda>w. \<not> test w) wds of [] \<Rightarrow> None | _ # vs \<Rightarrow> Some vs)"

definition payload_after :: "(string \<Rightarrow> bool) \<Rightarrow> string list \<Rightarrow> bool" where
  "payload_after test wds =
     (case words_after test wds of None \<Rightarrow> False | Some vs \<Rightarrow> payloadContainsGitMutation (join_with '' '' vs))"

fun reinterprets :: "string list \<Rightarrow> bool" where
  "reinterprets [] = False"
| "reinterprets (w # wds) =
     (w \<noteq> [] \<and>
        ((path_basename w \<in> {''bash'', ''sh'', ''zsh''}
            \<and> payload_after (\<lambda>v. v = ''-c'' \<or> v = ''-lc'' \<or> ends_with v ''c'') wds)
         \<or> (w = ''eval'' \<and> payloadContainsGitMutation (join_with '' '' wds))
         \<or> (w = ''env'' \<and> payload_after (\<lambda>v. v = ''-S'') wds))
      \<or> reinterprets wds)"

definition hasReinterpretedGitMutation :: "string \<Rightarrow> bool" where
  "hasReinterpretedGitMutation command =
     list_ex (\<lambda>seg. case shellWords seg of None \<Rightarrow> False | Some wds \<Rightarrow> reinterprets wds) (splitShellSegments command)"

section \<open>Forbidden operations\<close>

definition git_global_run :: regex where
  "git_global_run =
     star (alts
       [sq [lit ''-C'', plus ws, flag_value, plus ws],
        sq [lit ''-c'', plus ws, flag_value, plus ws],
        sq [lit ''--git-dir'', Alt (Seq (chr CHR ''='') (plus non_ws)) (Seq (plus ws) flag_value), plus ws],
        sq [lit ''--work-tree'', Alt (Seq (chr CHR ''='') (plus non_ws)) (Seq (plus ws) flag_value), plus ws],
        sq [lit ''-p'', plus ws], sq [lit ''--no-pager'', plus ws], sq [lit ''--paginate'', plus ws]])"

definition forbidden_subcommand :: regex where
  "forbidden_subcommand =
     alts
       [sq [lit ''commit'', WordBd],
        sq [lit ''switch'', WordBd, Look False (sq [plus ws, alts [lit ''-h'', lit ''--help''], WordBd])],
        sq [lit ''checkout'', plus ws, Look False (Seq (lit ''--'') (Alt ws EndText)),
            star (Seq (plus non_ws) (plus ws)), non_ws],
        sq [lit ''branch'', plus ws,
            alts (Seq (Look False (Alt (lit ''-'') (lit ''--''))) non_ws
                  # map (\<lambda>f. Seq (lit f) WordBd) BRANCH_ACTION_FLAGS)]]"

definition FORBIDDEN_OP :: regex where
  "FORBIDDEN_OP = sq [WordBd, lit ''git'', plus ws, Grp 1 git_global_run, Grp 2 forbidden_subcommand]"

record forbidden_op =
  op_label :: string
  op_globals :: string
  op_index :: nat

definition labelFor :: "string \<Rightarrow> string" where
  "labelFor sub =
     (if starts_with sub ''commit'' then ''git commit''
      else if starts_with sub ''switch'' then ''git switch''
      else if starts_with sub ''checkout'' then ''git checkout'' else ''git branch'')"

definition restores_files :: "string \<Rightarrow> bool" where
  "restores_files sub =
     (case shellWords sub of
        Some (w # wds) \<Rightarrow> w = ''checkout'' \<and> \<not> checkoutArgsMutate wds | _ \<Rightarrow> False)"

definition forbiddenGitOps :: "string \<Rightarrow> forbidden_op list" where
  "forbiddenGitOps command =
     (if \<not> re_test git_word command then []
      else
        concat (map (\<lambda>m.
          (let sub = (case group m 2 of None \<Rightarrow> [] | Some t \<Rightarrow> t);
               globals = (case group m 1 of None \<Rightarrow> [] | Some t \<Rightarrow> t)
           in if restores_files sub then []
              else [\<lparr>op_label = labelFor sub, op_globals = globals, op_index = m_index m\<rparr>]))
          (match_all FORBIDDEN_OP command)))"

section \<open>Ambiguous syntax\<close>

definition shell_payload :: regex where
  "shell_payload =
     sq [WordBd, alts [lit ''bash'', lit ''sh'', lit ''zsh''], WordBd, star (none_of '';&|(){}''),
         alts [lit ''-c'', lit ''-lc''], plus ws, Grp 1 (one_of [dquote, squote])]"

definition eval_payload :: regex where
  "eval_payload = sq [WordBd, lit ''eval'', plus ws, Grp 1 (one_of [dquote, squote])]"

definition env_payload :: regex where
  "env_payload =
     sq [WordBd, lit ''env'', WordBd, star (none_of '';&|(){}''), ws, lit ''-S'', plus ws,
         Grp 1 (one_of [dquote, squote])]"

definition substitution :: regex where \<comment> \<open>\<open>\\$\\([^)]*\\)\<close>\<close>
  "substitution = sq [lit ''$('', star (none_of '')''), chr CHR '')'']"

definition substituted_program :: regex where
  "substituted_program =
     sq [Alt StartText (Seq (one_of '';&|({'') (star ws)), substitution, Grp 1 (star (none_of '';&|(){}''))]"

definition git_args_ambiguous :: "string \<Rightarrow> string list \<Rightarrow> string list \<Rightarrow> bool" where
  "git_args_ambiguous segment ahead args =
     (if hasMutationAliasConfig (join_with '' '' args) then True
      else if hasGitConfigAliasBeforeGit ahead then True
      else if mutationLabelFromGitArgs args = None then False
      else if hasEnvTargetOverrideBeforeGit ahead then True
      else if list_ex (\<lambda>w. w = ''--git-dir'' \<or> w = ''--work-tree'' \<or> starts_with w ''--git-dir=''
                        \<or> starts_with w ''--work-tree='') args then True
      else if hasUnsupportedGlobalBeforeMutation args then True
      else forbiddenGitOps segment = [])"

text \<open>The loop over the segments returns at the first one whose words are ambiguous.\<close>

fun segments_ambiguous :: "string list \<Rightarrow> bool" where
  "segments_ambiguous [] = False"
| "segments_ambiguous (seg # parts) =
     (case shellWords seg of
        None \<Rightarrow> looks_mutating seg
      | Some wds \<Rightarrow> at_git (git_args_ambiguous seg) wds \<or> segments_ambiguous parts)"

definition hasAmbiguousGitMutationSyntax :: "string \<Rightarrow> bool" where
  "hasAmbiguousGitMutationSyntax command \<longleftrightarrow>
     (re_test (sq [WordBd, chr CHR ''c'', chr backslash, chr CHR ''d'', WordBd]) command \<and> re_test git_word command)
     \<or> hasReinterpretedGitMutation command
     \<or> list_ex (\<lambda>p. list_ex payloadContainsGitMutation (quotedPayloads command p))
         [shell_payload, eval_payload, env_payload]
     \<or> list_ex (\<lambda>m. case shellWords (''git '' @ (case group m 1 of None \<Rightarrow> [] | Some t \<Rightarrow> t)) of
                    None \<Rightarrow> True | Some wds \<Rightarrow> wordsContainGitMutation wds)
         (match_all substituted_program command)
     \<or> re_test (sq [WordBd, lit ''git'', plus ws, substitution]) command
     \<or> segments_ambiguous (splitShellSegments command)"

section \<open>The directory of an operation\<close>

definition dir_token :: regex where
  "dir_token =
     alts [sq [chr dquote, plus (none_of [dquote]), chr dquote], sq [chr squote, plus (none_of [squote]), chr squote],
           plus (Cls (\<lambda>c. \<not> js_ws c \<and> c \<notin> set '';&|(){}''))]"

definition cd_assignments :: regex where \<comment> \<open>\<open>(?:[A-Za-z_]\\w*=\\S*\\s+)*(?:command\\s+|builtin\\s+)?(?:cd|pushd)\<close>\<close>
  "cd_assignments =
     sq [star (sq [Cls (\<lambda>c. js_word c \<and> \<not> js_digit c), star word_char, chr CHR ''='', star non_ws, plus ws]),
         opt (alts [Seq (lit ''command'') (plus ws), Seq (lit ''builtin'') (plus ws)]),
         alts [lit ''cd'', lit ''pushd'']]"

definition cd_target :: regex where \<comment> \<open>without its group\<close>
  "cd_target = Alt dir_token (chr CHR ''-'')"

definition cd_leader :: "regex \<Rightarrow> regex" where
  "cd_leader target = sq [cd_assignments, plus ws, opt (Seq (lit ''--'') (plus ws)), target]"

definition CD_CHAIN :: regex where
  "CD_CHAIN =
     sq [opt (Alt StartText (Seq (one_of '';&|(){}'') (star ws))),
         Grp 1 (plus (sq [star ws, cd_leader cd_target, star ws, lit ''&&''])), star ws, EndText]"

definition CD_IN_CHAIN :: regex where
  "CD_IN_CHAIN =
     sq [Alt StartText (lit ''&&''), star ws, cd_leader (Grp 1 cd_target), star ws, Look True (lit ''&&'')]"

definition CWD_WORD :: regex where
  "CWD_WORD =
     sq [alts [StartText, Seq (one_of '';{}()&|'') (star ws), plus ws], cd_assignments, WordBd]"

definition DASH_C :: regex where
  "DASH_C = sq [lit ''-C'', plus ws, Grp 1 dir_token]"

definition quote_step :: "char option \<times> bool \<Rightarrow> char \<Rightarrow> char option \<times> bool" where
  "quote_step st c =
     (if snd st then (fst st, False)
      else if fst st \<noteq> Some squote \<and> c = backslash then (fst st, True)
      else if toggles (fst st) c then (toggle (fst st) c, False) else st)"

definition isInsideSingleOrDoubleQuotes :: "string \<Rightarrow> nat \<Rightarrow> bool" where
  "isInsideSingleOrDoubleQuotes command i \<longleftrightarrow> fst (foldl quote_step (None, False) (take i command)) \<noteq> None"

definition hasUnquotedCwdCommand :: "string \<Rightarrow> bool" where
  "hasUnquotedCwdCommand command =
     list_ex (\<lambda>m. \<not> isInsideSingleOrDoubleQuotes command (m_index m)) (match_all CWD_WORD command)"

definition isTrustedCwdChainStart :: "string \<Rightarrow> nat \<Rightarrow> bool" where
  "isTrustedCwdChainStart pre start =
     (if isInsideSingleOrDoubleQuotes pre start then False
      else if start = 0 then True
      else (let ahead = js_trim_end (take start pre)
            in ends_with ahead ''&&'' \<or> ends_with ahead ''('' \<or> ends_with ahead ''{''))"

text \<open>The directories a list of tokens leads through; \<open>None\<close> if one cannot be resolved.\<close>

fun apply_dirs :: "hook_env \<Rightarrow> string option list \<Rightarrow> string \<Rightarrow> string option" where
  "apply_dirs env [] cwd = Some cwd"
| "apply_dirs env (t # ts) cwd = (case applyDir env t cwd of None \<Rightarrow> None | Some d \<Rightarrow> apply_dirs env ts d)"

definition applySuccessGatedCwdChain :: "hook_env \<Rightarrow> string \<Rightarrow> string \<Rightarrow> string option" where
  "applySuccessGatedCwdChain env pre base =
     (let chain = re_exec CD_CHAIN pre;
          start = (case chain of None \<Rightarrow> length pre | Some m \<Rightarrow> m_index m)
      in if hasUnquotedCwdCommand (take start pre) then None
         else (case chain of None \<Rightarrow> Some base
               | Some m \<Rightarrow>
                   if \<not> isTrustedCwdChainStart pre start then None
                   else
                     (let run_text = (case group m 1 of None \<Rightarrow> m_text m | Some t \<Rightarrow> t)
                      in apply_dirs env (map (\<lambda>n. group n 1) (match_all CD_IN_CHAIN run_text)) base)))"

definition resolveEffectiveCwd :: "hook_env \<Rightarrow> string \<Rightarrow> string \<Rightarrow> forbidden_op \<Rightarrow> string option" where
  "resolveEffectiveCwd env command base op =
     (case applySuccessGatedCwdChain env (take (op_index op) command) base of None \<Rightarrow> None
      | Some cwd \<Rightarrow> apply_dirs env (map (\<lambda>m. group m 1) (match_all DASH_C (op_globals op))) cwd)"

section \<open>The validator\<close>

definition discipline_name :: string where
  "discipline_name = ''worktree-discipline''"

definition tick_quoted :: "string \<Rightarrow> string" where
  "tick_quoted s = [CHR 0x60] @ s @ [CHR 0x60]"

definition blocked :: "string \<Rightarrow> string \<Rightarrow> bool \<Rightarrow> validation_result" where
  "blocked label cwd ambiguous =
     (let place = (if ambiguous
            then ''with unsupported or unresolved cd/-C syntax (cannot prove it stays out of a primary ~/repos checkout)''
            else ''in a primary checkout ('' @ cwd @ '')'')
      in mk_result discipline_name False
        (Some (quoted label @ '' '' @ place @ ''. Primary ~/repos checkouts stay on main; work in a managed worktree instead ''
          @ em_dash_str @ '' run '' @ tick_quoted ''wp blueprint start <slug>''
          @ '' (creates the bp/<slug> worktree), cd into an existing ~/.agent/worktrees/ worktree, or use ''
          @ tick_quoted ''git -C <worktree> ...'' @ ''. Bypass (exceptional): WORKTREE_DISCIPLINE_SKIP=1.'')))"

definition op_verdict :: "hook_env \<Rightarrow> string \<Rightarrow> string \<Rightarrow> forbidden_op \<Rightarrow> validation_result option" where
  "op_verdict env command base op =
     (if hasGitTargetOverride (op_globals op) \<or> hasMutationAliasConfig (op_globals op)
      then Some (blocked (op_label op) base True)
      else (case resolveEffectiveCwd env command base op of
              None \<Rightarrow> Some (blocked (op_label op) base True)
            | Some cwd \<Rightarrow>
                if isPrimaryReposCheckout env cwd then Some (blocked (op_label op) cwd False) else None))"

definition validateWorktreeDiscipline :: "hook_env \<Rightarrow> tool_input \<Rightarrow> validation_result" where
  "validateWorktreeDiscipline env input =
     (let base = text_of (input_cwd input); ok = mk_result discipline_name True None
      in if env_one env ''WORKTREE_DISCIPLINE_SKIP'' then createSkipResult discipline_name default_skip_reason
         else (case getCommand input of None \<Rightarrow> ok
               | Some command \<Rightarrow>
                   if command = [] then ok
                   else (case List.map_filter (op_verdict env command base) (forbiddenGitOps command) of
                           r # _ \<Rightarrow> r
                         | [] \<Rightarrow> if hasAmbiguousGitMutationSyntax command then blocked ''git'' base True else ok)))"

end
