(* ===== verification/GuardRunner.thy ===== *)
theory GuardRunner
  imports DangerousCommands PackageImports SessionInput WorktreeDiscipline GuardLog
begin

text \<open>
  The runner of the pretool guard (\<open>src/hooks/pretool-guard/runner.ts\<close>, \<open>validators/index.ts\<close>):
  a hook input goes through the routing of dev commands and session tools, then through the
  twelve validators; the outcome is what the process prints, its exit code, and the run log.
\<close>

section \<open>The validators\<close>

definition verdict_result :: "verdict \<Rightarrow> validation_result" where
  "verdict_result v = (case v of Plain r \<Rightarrow> r | Ruled r \<Rightarrow> validation_result.truncate r)"

definition VALIDATORS :: "hook_env \<Rightarrow> (tool_input \<Rightarrow> validation_result) list" where
  "VALIDATORS env =
     [\<lambda>i. verdict_result (validateForbiddenCommands (cmd_env env) i),
      validateDangerousCommands env,
      validateBlueprint env,
      validateDocsGovernance env,
      validatePlanFrontmatter env,
      validateComplexity env,
      \<lambda>i. validatePackageImports env i Generic,
      validateFileConventions env,
      validateCommandFile env,
      validateTestQuality,
      validateUxQuality env,
      validateWorktreeDiscipline env]"

record aggregate_result =
  ag_passed :: bool
  ag_results :: "validation_result list"
  ag_exitCode :: nat

definition failing :: "validation_result list \<Rightarrow> validation_result list" where
  "failing rs = filter (\<lambda>r. \<not> passed r) rs"

definition runAllValidators :: "hook_env \<Rightarrow> tool_input \<Rightarrow> aggregate_result" where
  "runAllValidators env input =
     (let results = map (\<lambda>v. v input) (VALIDATORS env); failed = failing results
      in \<lparr>ag_passed = (failed = []), ag_results = results, ag_exitCode = (if failed \<noteq> [] then 2 else 0)\<rparr>)"

section \<open>Output\<close>

definition RED :: string where "RED = CHR 0x1B # ''[31m''"
definition YELLOW :: string where "YELLOW = CHR 0x1B # ''[33m''"
definition DIM :: string where "DIM = CHR 0x1B # ''[2m''"
definition BOLD :: string where "BOLD = CHR 0x1B # ''[1m''"
definition NC :: string where "NC = CHR 0x1B # ''[0m''"

definition rule_line :: string where
  "rule_line = BOLD @ concat (replicate 59 [CHR 0xE2, CHR 0x94, CHR 0x81]) @ NC"

definition cross_mark :: string where "cross_mark = [CHR 0xE2, CHR 0x9D, CHR 0x8C]"
definition check_mark :: string where "check_mark = [CHR 0xE2, CHR 0x9C, CHR 0x85]"
definition warning_sign :: string where "warning_sign = [CHR 0xE2, CHR 0x9A, CHR 0xA0, CHR 0xEF, CHR 0xB8, CHR 0x8F]"
definition skip_sign :: string where "skip_sign = [CHR 0xE2, CHR 0x8F, CHR 0xAD, CHR 0xEF, CHR 0xB8, CHR 0x8F]"
definition bullet :: string where "bullet = [CHR 0xE2, CHR 0x80, CHR 0xA2]"

text \<open>\<open>s || d\<close> for an optional string, and the text of one in a template literal.\<close>

definition opt_or :: "string option \<Rightarrow> string \<Rightarrow> string" where
  "opt_or s d = (if truthy s then the s else d)"

definition template_text :: "string option \<Rightarrow> string" where
  "template_text s = (case s of None \<Rightarrow> ''undefined'' | Some t \<Rightarrow> t)"

text \<open>\<open>formatOutput\<close>: the lines for stderr, and the lines for stdout.\<close>

definition formatOutput :: "hook_env \<Rightarrow> aggregate_result \<Rightarrow> tool_input \<Rightarrow> string list \<times> string list" where
  "formatOutput env ag input =
     (if \<not> ag_passed ag then
        ([rule_line,
          RED @ cross_mark @ '' Pretool Guard: BLOCKED'' @ NC,
          RED @ ''   File: '' @ opt_or (getFilePath input) ''unknown'' @ NC,
          rule_line]
         @ map (\<lambda>r. RED @ ''   '' @ bullet @ '' ['' @ validator r @ ''] '' @ opt_or (message r) ''Validation failed'' @ NC)
             (failing (ag_results ag))
         @ [rule_line], [])
      else
        (map (\<lambda>w. YELLOW @ warning_sign @ ''  ['' @ validator w @ ''] '' @ template_text (message w) @ NC)
           (filter (\<lambda>r. passed r \<and> truthy (message r)) (ag_results ag))
         @ (if env_one env ''PRETOOL_VERBOSE'' then
              map (\<lambda>s. DIM @ skip_sign @ ''  ['' @ validator s @ ''] Skipped: '' @ template_text (skipReason s) @ NC)
                (filter (\<lambda>r. skipped r = Some True) (ag_results ag))
              @ [DIM @ check_mark @ '' Pretool Guard: PASSED'' @ NC]
            else []),
         [''{}'']))"

definition getToolType :: "tool_input \<Rightarrow> tool_type" where
  "getToolType input =
     (if isBashInput input then Bash else if truthy (getFilePath input) then Write else Edit)"

definition getTarget :: "tool_input \<Rightarrow> string" where
  "getTarget input = opt_or (getFilePath input) (opt_or (getCommand input) ''unknown'')"

definition validation_entry :: "aggregate_result \<Rightarrow> string \<Rightarrow> tool_type \<Rightarrow> log_entry" where
  "validation_entry ag target kind =
     (if \<not> ag_passed ag then
        \<lparr>le_status = BLOCK, le_target = take 100 target, le_tool = kind,
         le_failures = Some (map validator (failing (ag_results ag))), le_error = None\<rparr>
      else
        (let warnings = filter (\<lambda>r. passed r \<and> truthy (message r)) (ag_results ag)
         in \<lparr>le_status = (if warnings \<noteq> [] then WARN else PASS), le_target = take 100 target, le_tool = kind,
             le_failures = (if warnings \<noteq> [] then Some (map validator warnings) else None), le_error = None\<rparr>))"

definition buildDenyEnvelope :: "string \<Rightarrow> json" where
  "buildDenyEnvelope reason =
     JObj [(''hookSpecificOutput'',
       JObj [(''hookEventName'', JStr ''PreToolUse''), (''permissionDecision'', JStr ''deny''),
             (''permissionDecisionReason'', JStr reason)])]"

section \<open>The process\<close>

text \<open>
  What a run takes from outside: the environment of the validators, the configuration of the log,
  the time, the message of a failed \<open>JSON.parse\<close>, and whether stderr stays open
  (\<open>suppressStderr\<close> sends it to \<open>/dev/null\<close> except on Windows).
\<close>

record run_env =
  re_hook :: hook_env
  re_log :: log_config
  re_time :: string
  re_parse_error :: "string \<Rightarrow> string"
  re_win32 :: bool

record hook_exit =
  ex_stdout :: string
  ex_stderr :: string
  ex_code :: nat
  ex_files :: files

definition console :: "string list \<Rightarrow> string" where
  "console ls = concat (map (\<lambda>l. l @ [nl]) ls)"

definition denied :: "files \<Rightarrow> string \<Rightarrow> hook_exit" where
  "denied fs reason =
     \<lparr>ex_stdout = json_str (buildDenyEnvelope reason), ex_stderr = [], ex_code = 0, ex_files = fs\<rparr>"

definition empty_answer :: "files \<Rightarrow> hook_exit" where
  "empty_answer fs = \<lparr>ex_stdout = console [''{}''], ex_stderr = [], ex_code = 0, ex_files = fs\<rparr>"

text \<open>The commands to route: a raw one, and those inside a session tool call, already sandboxed.\<close>

definition routable_commands :: "routed_input \<Rightarrow> (string \<times> bool) list" where
  "routable_commands input =
     (let ti = tool_input.truncate input; command = (if isBashInput ti then getCommand ti else None)
      in (if truthy command then [(text_of command, False)] else [])
         @ map (\<lambda>c. (c, True)) (extractRoutableCommandsFromToolInput input))"

fun command_denial :: "(string \<times> bool) list \<Rightarrow> string option" where
  "command_denial [] = None"
| "command_denial ((command, alreadySandboxed) # cs) =
     (case routeCommand command of
        Some (Deny t g) \<Rightarrow> Some g
      | Some (Sandbox g) \<Rightarrow> if \<not> alreadySandboxed then Some g else command_denial cs
      | _ \<Rightarrow> command_denial cs)"

definition routing_denial :: "routed_input \<Rightarrow> string option" where
  "routing_denial input =
     (case routeToolInputToSessionMemory input of
        Some (Sandbox g) \<Rightarrow> Some g | _ \<Rightarrow> command_denial (routable_commands input))"

definition validated_exit :: "run_env \<Rightarrow> tool_input \<Rightarrow> files \<Rightarrow> hook_exit" where
  "validated_exit env input fs =
     (let ag = runAllValidators (re_hook env) input; (err, out) = formatOutput (re_hook env) ag input
      in \<lparr>ex_stdout = console out, ex_stderr = console err, ex_code = ag_exitCode ag,
          ex_files = logRun (re_log env) (re_time env) (validation_entry ag (getTarget input) (getToolType input)) fs\<rparr>)"

definition process_input :: "run_env \<Rightarrow> routed_input \<Rightarrow> files \<Rightarrow> hook_exit" where
  "process_input env input fs =
     (case routing_denial input of Some g \<Rightarrow> denied fs g
      | None \<Rightarrow> validated_exit env (tool_input.truncate input) fs)"

definition handleParseError :: "run_env \<Rightarrow> string \<Rightarrow> files \<Rightarrow> hook_exit" where
  "handleParseError env inputJson fs =
     (let msg = re_parse_error env inputJson
      in \<lparr>ex_stdout = [],
          ex_stderr = console [RED @ cross_mark @ '' Pretool Guard: Error parsing input'' @ NC, RED @ ''   '' @ msg @ NC],
          ex_code = 2,
          ex_files = logRun (re_log env) (re_time env)
            \<lparr>le_status = ERROR, le_target = map (\<lambda>c. if c = nl then CHR '' '' else c) (take 50 inputJson),
             le_tool = Bash, le_failures = None, le_error = Some msg\<rparr> fs\<rparr>)"

text \<open>
  A JSON value as the input of the hook, if its fields have the types that \<open>ToolInput\<close> and the
  routing declare (a null counts as absent).  Other values are outside the model.
\<close>

definition string_field :: "(string, json) js_map \<Rightarrow> string \<Rightarrow> string option option" where
  "string_field m k =
     (case map_get m k of None \<Rightarrow> Some None | Some JNull \<Rightarrow> Some None | Some (JStr s) \<Rightarrow> Some (Some s) | _ \<Rightarrow> None)"

definition object_field :: "(string, json) js_map \<Rightarrow> string \<Rightarrow> (string, json) js_map option option" where
  "object_field m k =
     (case map_get m k of None \<Rightarrow> Some None | Some JNull \<Rightarrow> Some None | Some (JObj f) \<Rightarrow> Some (Some f) | _ \<Rightarrow> None)"

definition parseToolInput :: "json \<Rightarrow> routed_input option" where
  "parseToolInput j =
     (case j of
        JObj m \<Rightarrow>
          (case (string_field m ''session_id'', string_field m ''transcript_path'', string_field m ''cwd'',
                    string_field m ''hook_event_name'', string_field m ''tool_name'', object_field m ''tool_input'',
                    string_field m ''toolName'', string_field m ''tool'', string_field m ''name'',
                    object_field m ''toolInput'', object_field m ''input'', object_field m ''arguments'') of
                (Some s, Some p, Some c, Some e, Some n, Some a, Some n2, Some n3, Some n4, Some a2, Some a3, Some a4) \<Rightarrow>
                  Some \<lparr>session_id = s, transcript_path = p, input_cwd = c, hook_event_name = e, tool_name = n,
                    tool_args = a, ri_toolName = n2, ri_tool = n3, ri_name = n4, ri_toolInput = a2,
                    ri_input = a3, ri_arguments = a4\<rparr>
              | _ \<Rightarrow> None)
      | _ \<Rightarrow> None)"

text \<open>\<open>processValidation\<close> in the \<open>try\<close> of \<open>main\<close>; \<open>None\<close> for a JSON value outside the model.\<close>

definition processValidation :: "run_env \<Rightarrow> string \<Rightarrow> files \<Rightarrow> hook_exit option" where
  "processValidation env inputJson fs =
     (if \<not> guard_on (re_hook env) then Some (empty_answer fs)
      else (case json_parse inputJson of
              None \<Rightarrow> Some (handleParseError env inputJson fs)
            | Some j \<Rightarrow> map_option (\<lambda>input. process_input env input fs) (parseToolInput j)))"

definition suppressStderr :: "run_env \<Rightarrow> hook_exit \<Rightarrow> hook_exit" where
  "suppressStderr env e = (if re_win32 env then e else e\<lparr>ex_stderr := []\<rparr>)"

definition guard_main :: "run_env \<Rightarrow> string \<Rightarrow> files \<Rightarrow> hook_exit option" where
  "guard_main env inputJson fs =
     map_option (suppressStderr env)
       (if js_trim inputJson = [] then Some (empty_answer fs) else processValidation env inputJson fs)"

end
