(* ===== verification/WorktreeProps.thy ===== *)
theory WorktreeProps
  imports WorktreeDiscipline RegexFacts
begin

text \<open>
  Properties of the worktree discipline: what a passed command has been checked for, a commit in
  a primary checkout, and a path the check misreads.
\<close>

text \<open>A command passes only if no operation has a verdict and nothing is ambiguous.\<close>

lemma passed_verdicts:
  assumes "passed (validateWorktreeDiscipline env input)" and "\<not> env_one env ''WORKTREE_DISCIPLINE_SKIP''"
    and "getCommand input = Some command" and "command \<noteq> []"
  shows "\<not> hasAmbiguousGitMutationSyntax command"
    and "op \<in> set (forbiddenGitOps command) \<Longrightarrow> op_verdict env command (text_of (input_cwd input)) op = None"
proof -
  let ?base = "text_of (input_cwd input)"
  let ?vs = "List.map_filter (op_verdict env command ?base) (forbiddenGitOps command)"
  have nb: "\<not> passed (blocked l c a)" for l c a by (simp add: blocked_def Let_def)
  have ov: "op_verdict env command ?base op = Some r \<Longrightarrow> \<not> passed r" for op r
    by (auto simp: op_verdict_def nb split: if_splits option.splits)
  have v: "validateWorktreeDiscipline env input
      = (case ?vs of r # _ \<Rightarrow> r
         | [] \<Rightarrow> if hasAmbiguousGitMutationSyntax command then blocked ''git'' ?base True
                 else mk_result discipline_name True None)"
    using assms(2-4) by (simp add: validateWorktreeDiscipline_def Let_def)
  have none: "?vs = []"
  proof (rule ccontr)
    assume "\<not> ?thesis"
    then obtain r rs where rs: "?vs = r # rs" by (cases ?vs) auto
    then have "r \<in> set ?vs" by simp
    then obtain op where "op_verdict env command ?base op = Some r" by (auto simp: map_filter_def)
    then show False using ov assms(1) rs v by simp
  qed
  then show "\<not> hasAmbiguousGitMutationSyntax command" using assms(1) v nb by (auto split: if_splits)
  show "op_verdict env command ?base op = None" if "op \<in> set (forbiddenGitOps command)"
    using none that by (auto simp: map_filter_def filter_empty_conv)
qed


section \<open>A commit in a primary checkout\<close>

lemma no_global_options: "run git_global_run \<lparr>behind = b, rest = CHR ''c'' # y, caps = k\<rparr>
    = [\<lparr>behind = b, rest = CHR ''c'' # y, caps = k\<rparr>]"
  unfolding git_global_run_def by (rule run_star_none) (simp add: run_lit)

lemma run_forbidden_commit:
  assumes "args = [] \<or> \<not> js_word (hd args)"
  shows "\<exists>ts. run FORBIDDEN_OP \<lparr>behind = [], rest = ''git commit'' @ args, caps = []\<rparr>
     = \<lparr>behind = rev ''git commit'', rest = args, caps = [(2, ''commit''), (1, [])]\<rparr> # ts"
proof -
  let ?s = "\<lparr>behind = rev ''git '', rest = ''commit'' @ args, caps = []\<rparr>"
  have blank: "run (plus ws) \<lparr>behind = rev ''git'', rest = '' commit'' @ args, caps = []\<rparr> = [?s]"
    by (simp add: plus_def run_star_cls js_ws_def)
  have opts: "run (Grp 1 git_global_run) ?s = [?s\<lparr>caps := [(1, [])]\<rparr>]"
    using no_global_options [of "rev ''git ''" "''ommit'' @ args" "[]"] by simp
  have bd: "head_is js_word args = False" using assms by (cases args) auto
  have sub: "\<exists>ts. run (Grp 2 forbidden_subcommand) (?s\<lparr>caps := [(1, [])]\<rparr>)
      = \<lparr>behind = rev ''git commit'', rest = args, caps = [(2, ''commit''), (1, [])]\<rparr> # ts"
    by (simp add: forbidden_subcommand_def run_lit bd js_word_def js_lower_char_def)
  have start: "run WordBd \<lparr>behind = [], rest = ''git commit'' @ args, caps = []\<rparr>
      = [\<lparr>behind = [], rest = ''git commit'' @ args, caps = []\<rparr>]"
    by (simp add: js_word_def js_lower_char_def)
  have "run FORBIDDEN_OP \<lparr>behind = [], rest = ''git commit'' @ args, caps = []\<rparr>
      = run (sq [lit ''git'', plus ws, Grp 1 git_global_run, Grp 2 forbidden_subcommand])
          \<lparr>behind = [], rest = ''git commit'' @ args, caps = []\<rparr>"
    unfolding FORBIDDEN_OP_def sq.simps(2) [of WordBd] by (rule run_Seq_single [OF start])
  also have "\<dots> = run (sq [plus ws, Grp 1 git_global_run, Grp 2 forbidden_subcommand])
      \<lparr>behind = rev ''git'', rest = '' commit'' @ args, caps = []\<rparr>"
    unfolding sq.simps(2) [of "lit _"] by (rule run_Seq_single) (simp add: run_lit)
  also have "\<dots> = run (sq [Grp 1 git_global_run, Grp 2 forbidden_subcommand]) ?s"
    unfolding sq.simps(2) [of "plus _"] by (rule run_Seq_single [OF blank])
  also have "\<dots> = run (sq [Grp 2 forbidden_subcommand]) (?s\<lparr>caps := [(1, [])]\<rparr>)"
    unfolding sq.simps(2) [of "Grp 1 _"] by (rule run_Seq_single [OF opts])
  also have "\<dots> = run (Grp 2 forbidden_subcommand) (?s\<lparr>caps := [(1, [])]\<rparr>)" by (simp del: run.simps(6))
  finally show ?thesis using sub by simp
qed

lemma commit_op:
  assumes "args = [] \<or> \<not> js_word (hd args)"
  shows "\<exists>ops. forbiddenGitOps (''git commit'' @ args)
     = \<lparr>op_label = ''git commit'', op_globals = [], op_index = 0\<rparr> # ops"
proof -
  have "run git_word \<lparr>behind = rev [], rest = ''git commit'' @ args, caps = []\<rparr> \<noteq> []"
    by (simp add: git_word_def run_lit js_word_def js_lower_char_def js_upper_char_def js_digit_def)
  then have w: "re_test git_word (''git commit'' @ args)" using re_testI [of git_word "[]"] by simp
  obtain m where m: "match_here FORBIDDEN_OP [] (''git commit'' @ args) = Some m"
    and g: "m_pre m = []" "m_caps m = [(2, ''commit''), (1, [])]"
    using run_forbidden_commit [OF assms] by (auto simp: match_here_def mk_match_def)
  have e: "exec_from FORBIDDEN_OP [] (''git commit'' @ args) = Some m" by (rule exec_from_here [OF m])
  obtain ms where ms: "match_all FORBIDDEN_OP (''git commit'' @ args) = m # ms"
    unfolding match_all_def using e by simp
  have "shellWords ''commit'' = Some [''commit'']" by code_simp
  then have "\<not> restores_files ''commit''" by (simp add: restores_files_def)
  then show ?thesis
    using w ms g by (simp add: forbiddenGitOps_def group_def labelFor_def starts_with_def m_index_def Let_def)
qed

lemma prefix_home: "starts_with (home @ x) (home @ y) = starts_with x y"
  by (simp add: starts_with_def)

text \<open>C20. A commit in a primary checkout is blocked: with the working directory of the call under
  \<open>~/repos/\<close>, \<open>git commit\<close> with any arguments does not pass.\<close>
theorem primary_commit_blocked:
  assumes "input_cwd input = Some (home_dir env @ ''/repos/'' @ path)"
    and "getCommand input = Some (''git commit'' @ args)" and "args = [] \<or> \<not> js_word (hd args)"
    and "\<not> env_one env ''WORKTREE_DISCIPLINE_SKIP''"
  shows "\<not> passed (validateWorktreeDiscipline env input)"
proof
  let ?op = "\<lparr>op_label = ''git commit'', op_globals = [], op_index = 0\<rparr>"
  let ?cwd = "home_dir env @ ''/repos/'' @ path"
  assume "passed (validateWorktreeDiscipline env input)"
  moreover have "?op \<in> set (forbiddenGitOps (''git commit'' @ args))"
    using commit_op [OF assms(3)] by auto
  ultimately obtain cwd where r: "resolveEffectiveCwd env (''git commit'' @ args) ?cwd ?op = Some cwd"
    and n: "\<not> isPrimaryReposCheckout env cwd"
    using passed_verdicts(2) [OF _ assms(4,2), of ?op] assms(1)
    by (auto simp: text_of_def op_verdict_def split: if_splits option.splits)
  have "match_all CWD_WORD [] = []" by code_simp
  then have c: "\<not> hasUnquotedCwdCommand []" by (simp add: hasUnquotedCwdCommand_def)
  have "re_exec CD_CHAIN [] = None" by code_simp
  then have "applySuccessGatedCwdChain env [] ?cwd = Some ?cwd"
    using c by (simp add: applySuccessGatedCwdChain_def)
  moreover have "match_all DASH_C [] = []" by code_simp
  ultimately have "cwd = ?cwd" using r by (simp add: resolveEffectiveCwd_def)
  then show False using n by (simp add: isPrimaryReposCheckout_def Let_def prefix_home) (simp add: starts_with_def)
qed


section \<open>Samples\<close>

definition sample_guard_env :: guard_env where
  "sample_guard_env =
     \<lparr>env_skip = False, env_audit = False, sentinel_ready = False, rc_mcp = None, rc_guard = None\<rparr>"

definition sample_hook_env :: hook_env where
  "sample_hook_env =
     \<lparr>cmd_env = sample_guard_env, env_one = (\<lambda>_. False), guard_on = True, proc_cwd = ''/w'', home_dir = ''/h'',
      file_exists = (\<lambda>_. False), yaml_load = (\<lambda>_. None)\<rparr>"

theorem primary_commit_blocked_witness:
  "\<not> passed (validateWorktreeDiscipline sample_hook_env
      ((bash_input ''git commit -m x'')\<lparr>input_cwd := Some ''/h/repos/a''\<rparr>))"
  by (rule primary_commit_blocked [of _ _ "''a''" "'' -m x''"])
    (simp_all add: sample_hook_env_def getCommand_def isBashInput_def bash_input_def args_of_def str_arg_def
      map_has_iff map_get_def js_word_def js_digit_def js_lower_char_def js_upper_char_def)

lemma worktree_commit_passed:
  "passed (validateWorktreeDiscipline sample_hook_env
      ((bash_input ''git commit'')\<lparr>input_cwd := Some ''/h/.agent/worktrees/a''\<rparr>))"
  by code_simp


text \<open>A target that climbs out of the managed worktrees is not seen: an absolute directory after
  \<open>-C\<close> is compared as it is written, so with \<open>..\<close> in it a commit in a primary checkout passes.\<close>
theorem dotdot_target_unseen:
  "passed (validateWorktreeDiscipline sample_hook_env
      ((bash_input ''git -C /h/.agent/worktrees/../../repos/x commit'')\<lparr>input_cwd := Some ''/h/repos/x''\<rparr>))
   \<and> isPrimaryReposCheckout sample_hook_env (path_normalize ''/h/.agent/worktrees/../../repos/x'')"
  by code_simp

end
