(* ===== verification/GuardRunnerProps.thy ===== *)
theory GuardRunnerProps
  imports GuardRunner GuardProps WorktreeProps
begin

text \<open>
  Properties of the runner: what each outcome means, the commands that never get through, and
  where the reason of a block goes.
\<close>

section \<open>The validators of a command\<close>

lemma forbidden_by_command:
  assumes "getCommand i = Some c"
  shows "validateForbiddenCommands env i = validateForbiddenCommands env (bash_input c)"
  using assms by (simp add: validateForbiddenCommands_def getCommand_Some_bash)

lemma passed_verdict_result [simp]: "passed (verdict_result v) = verdict_passed v"
  by (cases v) (simp_all add: verdict_result_def validation_result.truncate_def)

lemma failing_iff: "failing (ag_results (runAllValidators env i)) \<noteq> [] \<longleftrightarrow> (\<exists>v\<in>set (VALIDATORS env). \<not> passed (v i))"
  by (auto simp: runAllValidators_def Let_def failing_def filter_empty_conv)

lemma exit_code_iff: "ag_exitCode (runAllValidators env i) = (if \<exists>v\<in>set (VALIDATORS env). \<not> passed (v i) then 2 else 0)"
  using failing_iff [of env i] by (simp add: runAllValidators_def Let_def)

lemma ag_passed_iff: "ag_passed (runAllValidators env i) \<longleftrightarrow> (\<forall>v\<in>set (VALIDATORS env). passed (v i))"
  using failing_iff [of env i] by (auto simp: runAllValidators_def Let_def)

lemma forbidden_in_validators:
  "(\<lambda>i. verdict_result (validateForbiddenCommands (cmd_env env) i)) \<in> set (VALIDATORS env)"
  by (simp add: VALIDATORS_def)

lemma dangerous_in_validators: "validateDangerousCommands env \<in> set (VALIDATORS env)"
  by (simp add: VALIDATORS_def)

section \<open>Outcomes\<close>

text \<open>The tool call goes on: the process says nothing against it.\<close>

definition lets_through :: "hook_exit \<Rightarrow> bool" where
  "lets_through e \<longleftrightarrow> ex_code e = 0 \<and> ex_stdout e = console [''{}'']"

lemma deny_envelope_differs: "json_str (buildDenyEnvelope g) \<noteq> console [''{}'']"
  by (simp add: buildDenyEnvelope_def console_def json_quote_def)

lemma validated_outcome:
  assumes "routing_denial input = None"
  shows "ex_code (process_input env input fs)
      = (if \<exists>v\<in>set (VALIDATORS (re_hook env)). \<not> passed (v (tool_input.truncate input)) then 2 else 0)"
    and "ex_stdout (process_input env input fs)
      = (if \<exists>v\<in>set (VALIDATORS (re_hook env)). \<not> passed (v (tool_input.truncate input)) then [] else console [''{}''])"
  using assms by (auto simp: process_input_def validated_exit_def Let_def formatOutput_def console_def
      exit_code_iff ag_passed_iff)

lemma denied_outcome:
  "routing_denial input = Some g \<Longrightarrow> process_input env input fs = denied fs g"
  by (simp add: process_input_def)

lemma lets_through_iff:
  "lets_through (process_input env input fs) \<longleftrightarrow>
     routing_denial input = None \<and> (\<forall>v\<in>set (VALIDATORS (re_hook env)). passed (v (tool_input.truncate input)))"
  using deny_envelope_differs
  by (cases "routing_denial input") (auto simp: lets_through_def validated_outcome denied_outcome denied_def)




section \<open>Forced pushes\<close>

lemma force_push_matches:
  assumes "pre = [] \<or> \<not> js_word (last pre)" and "s1 \<noteq> []" "\<forall>c\<in>set s1. js_ws c" and "s2 \<noteq> []" "\<forall>c\<in>set s2. js_ws c"
    and "\<forall>c\<in>set mid. \<not> line_end c" and "post = [] \<or> js_ws (hd post) \<or> hd post = CHR ''=''"
  shows "re_test force_push_pattern (pre @ ''git'' @ s1 @ ''push'' @ s2 @ mid @ ''--force'' @ post)"
proof (rule re_testI)
  have tail: "run (sq [alts [ws, chr CHR ''='', EndText]]) \<lparr>behind = b, rest = post, caps = []\<rparr> \<noteq> []" for b
    using assms(7) by (cases post) (auto simp: chr_def)
  have force: "run (sq [lit ''--force'', alts [ws, chr CHR ''='', EndText]])
      \<lparr>behind = b, rest = ''--force'' @ post, caps = []\<rparr> \<noteq> []" for b
    using tail by (subst sq.simps, subst run_lit_here) blast
  have dots: "run (sq [star dot, lit ''--force'', alts [ws, chr CHR ''='', EndText]])
      \<lparr>behind = b, rest = mid @ ''--force'' @ post, caps = []\<rparr> \<noteq> []" for b
    unfolding star_def sq.simps(2) [of "Star True dot"]
    by (rule run_star_some [where x = mid and y = "''--force'' @ post"]) (use assms(6) force in simp_all)
  have push: "run (sq [lit ''push'', plus ws, star dot, lit ''--force'', alts [ws, chr CHR ''='', EndText]])
      \<lparr>behind = b, rest = ''push'' @ s2 @ mid @ ''--force'' @ post, caps = []\<rparr> \<noteq> []" for b
    unfolding sq.simps(2) [of "lit _"] sq.simps(2) [of "plus _"] run_lit_here
    by (rule run_plus_some [where x = s2 and y = "mid @ ''--force'' @ post"]) (use assms(4,5) dots in simp_all)
  have git: "run (sq [lit ''git'', plus ws, lit ''push'', plus ws, star dot, lit ''--force'', alts [ws, chr CHR ''='', EndText]])
      \<lparr>behind = b, rest = ''git'' @ s1 @ ''push'' @ s2 @ mid @ ''--force'' @ post, caps = []\<rparr> \<noteq> []" for b
    unfolding sq.simps(2) [of "lit ''git''"] sq.simps(2) [of "plus ws" "lit ''push'' # _"] run_lit_here
    by (rule run_plus_some [where x = s1 and y = "''push'' @ s2 @ mid @ ''--force'' @ post"]) (use assms(2,3) push in simp_all)
  have "head_is js_word (rev pre) = False"
    using assms(1) by (cases pre rule: rev_cases) auto
  then show "run force_push_pattern \<lparr>behind = rev pre,
      rest = ''git'' @ s1 @ ''push'' @ s2 @ mid @ ''--force'' @ post, caps = []\<rparr> \<noteq> []"
    unfolding force_push_pattern_def sq.simps(2) [of WordBd]
    using git [of "rev pre"] by (simp add: js_word_def js_lower_char_def del: sq.simps)
qed


text \<open>C40. The reason of a block is lost: when a validator fails, the run ends with exit code 2 and
  nothing on stdout, and, stderr being closed before the input is read, nothing on stderr.\<close>
theorem block_reason_lost:
  assumes "guard_on (re_hook env)" and "\<not> re_win32 env" and "js_trim j \<noteq> []"
    and "Option.bind (json_parse j) parseToolInput = Some input" and "routing_denial input = None"
    and "v \<in> set (VALIDATORS (re_hook env))" and "\<not> passed (v (tool_input.truncate input))"
  shows "\<exists>e. guard_main env j fs = Some e \<and> ex_code e = 2 \<and> ex_stdout e = [] \<and> ex_stderr e = []"
proof -
  have "guard_main env j fs = Some ((process_input env input fs)\<lparr>ex_stderr := []\<rparr>)"
    using assms(1-4) by (auto simp: guard_main_def processValidation_def suppressStderr_def
        split: option.splits bind_splits)
  moreover have "ex_code (process_input env input fs) = 2 \<and> ex_stdout (process_input env input fs) = []"
    using validated_outcome [OF assms(5)] assms(6,7) by auto
  ultimately show ?thesis by simp
qed

text \<open>The package-imports validator of the pipeline blocks nothing: the pipeline calls it with the
  default profile, whose table of shared functions is empty.\<close>
theorem generic_imports_pass: "passed (validatePackageImports env input Generic)"
proof -
  have "findDuplicateFunctions c Generic = []" for c
    by (simp add: findDuplicateFunctions_def findSharedFunction_def)
  then have "reported_duplicate env input Generic = None"
    by (simp add: reported_duplicate_def Let_def)
  then show ?thesis by (simp add: validatePackageImports_def plain_import_result_def)
qed


section \<open>Samples\<close>

definition sample_run_env :: run_env where
  "sample_run_env =
     \<lparr>re_hook = sample_hook_env, re_log = \<lparr>log_file = ''l'', log_enabled = True, max_lines = 250\<rparr>,
      re_time = ''2026-01-02T03:04:05.678Z'', re_parse_error = (\<lambda>_. ''bad''), re_win32 = False\<rparr>"

definition sample_call :: "string \<Rightarrow> routed_input" where
  "sample_call c =
     \<lparr>session_id = None, transcript_path = None, input_cwd = None, hook_event_name = None,
      tool_name = Some ''Bash'', tool_args = Some [(''command'', JStr c)], ri_toolName = None, ri_tool = None,
      ri_name = None, ri_toolInput = None, ri_input = None, ri_arguments = None\<rparr>"

lemma truncate_sample [simp]: "tool_input.truncate (sample_call c) = bash_input c"
  by (simp add: sample_call_def bash_input_def tool_input.truncate_def)



definition sample_json :: string where
  "sample_json = ''{'' @ quoted ''tool_input'' @ '':{'' @ quoted ''file_path'' @ '':'' @ quoted ''/etc/x'' @ ''}}''"

definition sample_parsed :: routed_input where
  "sample_parsed = (sample_call [])\<lparr>tool_name := None, tool_args := Some [(''file_path'', JStr ''/etc/x'')]\<rparr>"

theorem block_reason_lost_witness:
  "\<exists>e. guard_main sample_run_env sample_json Map.empty = Some e \<and> ex_code e = 2 \<and> ex_stdout e = [] \<and> ex_stderr e = []"
proof (rule block_reason_lost [where input = sample_parsed])
  show "guard_on (re_hook sample_run_env)" "\<not> re_win32 sample_run_env"
    by (simp_all add: sample_run_env_def sample_hook_env_def)
  show "js_trim sample_json \<noteq> []" by code_simp
  show "Option.bind (json_parse sample_json) parseToolInput = Some sample_parsed" by code_simp
  show "routing_denial sample_parsed = None" by code_simp
  show "validateFileConventions (re_hook sample_run_env) \<in> set (VALIDATORS (re_hook sample_run_env))"
    by (simp add: VALIDATORS_def)
  show "\<not> passed (validateFileConventions (re_hook sample_run_env) (tool_input.truncate sample_parsed))"
    by code_simp
qed

end
