(* ===== verification/PlanLinter.thy ===== *)
theory PlanLinter
  imports RegexFacts
begin

text \<open>
  The linter of blueprint plans (\<open>src/docs-linter/blueprint-plan.ts\<close>): task headings, task ids,
  dependencies, the lifecycle contract of the front matter and of the tasks, and the summary of
  completed plans.  An error has the file, the line if known, the message and the rule; its
  severity and source are the same for all.
\<close>

record plan_error =
  pe_file :: string
  pe_line :: "nat option"
  pe_message :: string
  pe_rule :: string

definition lint_error :: "string \<Rightarrow> string \<Rightarrow> string \<Rightarrow> plan_error" where
  "lint_error file rule m = \<lparr>pe_file = file, pe_line = None, pe_message = m, pe_rule = rule\<rparr>"

section \<open>Patterns\<close>

definition TASK_ID_SOURCE :: regex where
  "TASK_ID_SOURCE = sq [plus digit, plus (Seq (chr CHR ''.'') (plus digit)), opt (Cls js_lower_char)]"

definition TASK_ID_REGEX :: regex where
  "TASK_ID_REGEX = sq [StartText, TASK_ID_SOURCE, EndText]"

definition lane_prefix :: regex where \<comment> \<open>\<open>(?:\\[[^\\]]+\\]\\s+)?\<close>\<close>
  "lane_prefix = opt (sq [chr CHR ''['', plus (none_of '']''), chr CHR '']'', plus ws])"

definition three_hash_header :: "regex \<Rightarrow> regex" where
  "three_hash_header start =
     sq [start, lit ''###'', plus ws, lane_prefix, lit ''Task'', plus ws, Grp 1 TASK_ID_SOURCE, chr CHR '':'']"

definition FOUR_HASH_TASK_BLOCK_REGEX :: regex where
  "FOUR_HASH_TASK_BLOCK_REGEX =
     sq [StartLine, lit ''####'', plus ws, lane_prefix, lit ''Task'', plus ws, Grp 1 TASK_ID_SOURCE,
         star ws, chr CHR '':'', star ws, Grp 2 (plus dot), EndLine]"

definition EXECUTABLE_BLUEPRINT_STATUSES :: "string list" where
  "EXECUTABLE_BLUEPRINT_STATUSES =
     [''draft'', ''planned'', ''parked'', ''in-progress'', ''completed'', ''archived'']"

definition TASK_STATUSES :: "string list" where
  "TASK_STATUSES = [''todo'', ''in-progress'', ''blocked'', ''done'', ''dropped'']"

section \<open>Task headings and ids\<close>

fun find_index :: "('a \<Rightarrow> bool) \<Rightarrow> 'a list \<Rightarrow> nat option" where
  "find_index p [] = None"
| "find_index p (x # xs) = (if p x then Some 0 else map_option Suc (find_index p xs))"

definition findWrongTaskHeaders :: "string \<Rightarrow> nat \<times> nat option" where
  "findWrongTaskHeaders content =
     (let ms = match_all (three_hash_header StartLine) content
      in if ms = [] then (0, None)
         else (length ms,
           map_option Suc (find_index (re_test (three_hash_header StartText)) (split_char nl content))))"

definition after_lane :: "string \<Rightarrow> string option" where
  "after_lane r =
     (if starts_with r ''['' then
        (if CHR '']'' \<in> set r then Some (js_trim_start (drop 1 (dropWhile (\<lambda>c. c \<noteq> CHR '']'') r))) else None)
      else Some r)"

definition parseFourHashTaskId :: "string \<Rightarrow> string option" where
  "parseFourHashTaskId line =
     (let trimmed = js_trim_start line
      in if \<not> starts_with trimmed ''#### '' then None
         else (case after_lane (drop 5 trimmed) of None \<Rightarrow> None
               | Some r \<Rightarrow>
                   if \<not> starts_with r ''Task '' then None
                   else (let u = js_trim_start (drop 5 r)
                         in if CHR '':'' \<notin> set u then None
                            else (let taskId = js_trim (takeWhile (\<lambda>c. c \<noteq> CHR '':'') u)
                                  in if taskId = [] \<or> list_ex js_ws taskId then None else Some taskId))))"

definition findMalformedTaskIds :: "string \<Rightarrow> nat" where
  "findMalformedTaskIds content =
     length (filter (\<lambda>line. case parseFourHashTaskId line of None \<Rightarrow> False | Some i \<Rightarrow> \<not> re_test TASK_ID_REGEX i)
       (re_split (Seq (opt (chr CHR 0x0D)) (chr nl)) content))"

section \<open>Dependencies\<close>

definition depends_label :: regex where \<comment> \<open>\<open>\\*\\*Depends:\\*\\*\\s*\<close>, under the \<open>i\<close> flag\<close>
  "depends_label = Seq (lit_i ''**Depends:**'') (star ws)"

definition bare_number :: regex where
  "bare_number =
     sq [plus digit, chr CHR ''.'', plus digit, star (Seq (chr CHR ''.'') (plus digit)),
         opt (Cls js_lower_char), WordBd]"

text \<open>The two look-behinds of the pattern, on the text before the position, read backwards.\<close>

definition after_task_word :: "string \<Rightarrow> bool" where \<comment> \<open>\<open>(?<=[Tt]ask\\s)\<close>\<close>
  "after_task_word b \<longleftrightarrow>
     (case b of w # k # s # a # t # _ \<Rightarrow>
        js_ws w \<and> k = CHR ''k'' \<and> s = CHR ''s'' \<and> a = CHR ''a'' \<and> (t = CHR ''T'' \<or> t = CHR ''t'')
      | _ \<Rightarrow> False)"

definition after_digit_dot :: "string \<Rightarrow> bool" where \<comment> \<open>\<open>(?<=\\d\\.)\<close>\<close>
  "after_digit_dot b \<longleftrightarrow> (case b of p # d # _ \<Rightarrow> p = CHR ''.'' \<and> js_digit d | _ \<Rightarrow> False)"

fun bare_search :: "string \<Rightarrow> string \<Rightarrow> bool" where
  "bare_search b [] = False"
| "bare_search b (c # cs) =
     (\<not> after_task_word b \<and> \<not> after_digit_dot b \<and> match_here bare_number b (c # cs) \<noteq> None
      \<or> bare_search (c # b) cs)"

definition depends_contents :: "string \<Rightarrow> string list" where
  "depends_contents content =
     map (\<lambda>m. js_trim (replace_first depends_label (\<lambda>_. []) (m_text m)))
       (match_all (Seq depends_label (Grp 1 (plus dot))) content)"

text \<open>The first dependency line with a bare reference.\<close>

definition checkDependencyFormat :: "string \<Rightarrow> string option" where
  "checkDependencyFormat content =
     find (\<lambda>d. \<not> (js_lower d = ''none'' \<or> d = []) \<and> bare_search [] d) (depends_contents content)"

section \<open>Front matter\<close>

definition frontmatter_block :: regex where
  "frontmatter_block = sq [StartText, lit (''---'' @ [nl]), Grp 1 (lazy any_char), lit ([nl] @ ''---'')]"

definition key_value :: regex where
  "key_value = sq [StartText, Grp 1 (plus word_char), chr CHR '':'', star ws, Grp 2 (plus dot), EndText]"

definition add_key_value :: "(string, string) js_map \<Rightarrow> string \<Rightarrow> (string, string) js_map" where
  "add_key_value r line =
     (case re_exec key_value line of None \<Rightarrow> r
      | Some m \<Rightarrow>
          (case (group m 1, group m 2) of
             (Some k, Some v) \<Rightarrow> if k \<noteq> [] \<and> v \<noteq> [] then map_set k (js_trim v) r else r
           | _ \<Rightarrow> r))"

definition extractFrontmatter :: "string \<Rightarrow> (string, string) js_map option" where
  "extractFrontmatter content =
     (case Option.bind (re_exec frontmatter_block content) (\<lambda>m. group m 1) of
        Some (c # cs) \<Rightarrow> Some (foldl add_key_value [] (split_char nl (c # cs)))
      | _ \<Rightarrow> None)"

definition fm_field :: "string \<Rightarrow> string \<Rightarrow> string option" where \<comment> \<open>\<open>frontmatter?.k\<close>\<close>
  "fm_field content k = Option.bind (extractFrontmatter content) (\<lambda>m. map_get m k)"

definition isCompleted :: "string \<Rightarrow> string \<Rightarrow> bool" where
  "isCompleted filePath content =
     (case fm_field content ''status'' of
        Some (c # cs) \<Rightarrow> js_trim (js_lower (c # cs)) = ''completed''
      | _ \<Rightarrow> includes_str filePath ''/completed/'')"

definition extractComplexity :: "string \<Rightarrow> string" where
  "extractComplexity content =
     (case fm_field content ''complexity'' of Some (c # cs) \<Rightarrow> js_trim (js_upper (c # cs)) | _ \<Rightarrow> ''M'')"

section \<open>Task blocks\<close>

record task_section =
  ts_id :: string
  ts_section :: string

definition global_heading :: regex where \<comment> \<open>\<open>\\n## [^#\\s]\<close>\<close>
  "global_heading = sq [chr nl, lit ''## '', Cls (\<lambda>c. c \<noteq> CHR ''#'' \<and> \<not> js_ws c)]"

definition section_at :: "string \<Rightarrow> nat \<Rightarrow> nat \<Rightarrow> string" where
  "section_at content start next =
     (let tail = drop start content;
          end = (if next = length content then
                   (case re_exec global_heading tail of None \<Rightarrow> next | Some m \<Rightarrow> start + m_index m)
                 else next)
      in take (end - start) tail)"

fun task_sections :: "string \<Rightarrow> rmatch list \<Rightarrow> task_section list" where
  "task_sections content [] = []"
| "task_sections content (m # ms) =
     \<lparr>ts_id = (case group m 1 of None \<Rightarrow> [] | Some i \<Rightarrow> i),
      ts_section = section_at content (m_index m)
        (case ms of [] \<Rightarrow> length content | n # _ \<Rightarrow> m_index n)\<rparr> # task_sections content ms"

definition extractTaskBlocks :: "string \<Rightarrow> task_section list" where
  "extractTaskBlocks content = task_sections content (match_all FOUR_HASH_TASK_BLOCK_REGEX content)"

definition labelled :: "string \<Rightarrow> string \<Rightarrow> string option" where \<comment> \<open>\<open>match(/\\*\\*L:\\*\\*\\s*(.+)/i)?.[1]?.trim()\<close>\<close>
  "labelled l section =
     (case re_exec (sq [lit_i (''**'' @ l @ '':**''), star ws, Grp 1 (plus dot)]) section of
        None \<Rightarrow> None | Some m \<Rightarrow> map_option js_trim (group m 1))"

definition checkbox :: regex where
  "checkbox = sq [StartLine, lit ''- ['', Grp 1 (one_of '' x''), chr CHR '']'']"

definition boxes :: "string \<Rightarrow> rmatch list" where
  "boxes section = match_all checkbox section"

definition checked_boxes :: "string \<Rightarrow> rmatch list" where
  "checked_boxes section = filter (\<lambda>m. group m 1 = Some ''x'') (boxes section)"

section \<open>Summary and lessons\<close>

definition heading_line :: "string \<Rightarrow> regex" where \<comment> \<open>\<open>^H\\s*$\<close> with the \<open>m\<close> flag\<close>
  "heading_line h = sq [StartLine, lit h, star ws, EndLine]"

definition hasCompletionSummary :: "string \<Rightarrow> bool" where
  "hasCompletionSummary content = re_test (heading_line ''## Completion Summary'') content"

definition extractLessonsLearnedContent :: "string \<Rightarrow> string option" where
  "extractLessonsLearnedContent content =
     (case re_exec (heading_line ''### Lessons Learned'') content of None \<Rightarrow> None
      | Some m \<Rightarrow>
          Some (js_trim (case re_exec (sq [StartLine, between 1 3 (chr CHR ''#''), plus ws]) (m_post m) of
                           None \<Rightarrow> m_post m | Some n \<Rightarrow> take (m_index n) (m_post m))))"

definition validateLessonsLearnedContent :: "string option \<Rightarrow> bool" where
  "validateLessonsLearnedContent content =
     (case content of None \<Rightarrow> False | Some c \<Rightarrow> 50 \<le> length (replace_all (plus ws) (\<lambda>_. []) c))"

definition validateLessonsLearnedPlacement :: "string \<Rightarrow> bool" where
  "validateLessonsLearnedPlacement content =
     (case (re_exec (heading_line ''## Completion Summary'') content, re_exec (heading_line ''### Lessons Learned'') content) of
        (Some c, Some l) \<Rightarrow> m_index l > m_index c | _ \<Rightarrow> False)"

section \<open>The lifecycle contract\<close>

definition blueprint_status_error :: "string \<Rightarrow> string \<Rightarrow> plan_error" where
  "blueprint_status_error file status = lint_error file ''blueprint-status''
     (''Blueprint status '' @ quoted status
      @ '' is not allowed. Use only: draft, planned, parked, in-progress, completed, archived.'')"

definition iso_date :: regex where
  "iso_date = sq [StartText, times 4 digit, chr CHR ''-'', times 2 digit, chr CHR ''-'', times 2 digit, EndText]"

definition strip_quote_ends :: "string \<Rightarrow> string" where
  "strip_quote_ends = replace_all (Alt (Seq StartText (one_of [squote, dquote])) (Seq (one_of [squote, dquote]) EndText)) (\<lambda>_. [])"

definition frontmatter_errors :: "string \<Rightarrow> string \<Rightarrow> plan_error list" where
  "frontmatter_errors file content =
     (let trimmed = (\<lambda>k. map_option js_trim (fm_field content k));
          complexity = extractComplexity content;
          missing = (\<lambda>k. ''Blueprint is missing required frontmatter field: '' @ k @ ''.'')
      in (if truthy (trimmed ''title'') then [] else [lint_error file ''blueprint-title-required'' (missing ''title'')])
         @ (if truthy (trimmed ''owner'') then [] else [lint_error file ''blueprint-owner-required'' (missing ''owner'')])
         @ (if complexity \<in> {''XS'', ''S'', ''M'', ''L'', ''XL''} then []
            else [lint_error file ''blueprint-complexity-invalid''
              (''Blueprint complexity '' @ quoted complexity @ '' is invalid. Use only: XS, S, M, L, XL.'')])
         @ (case trimmed ''last_updated'' of
              Some (c # cs) \<Rightarrow> if re_test iso_date (strip_quote_ends (c # cs)) then []
                else [lint_error file ''blueprint-last-updated-required'' ''Blueprint is missing valid frontmatter field: last_updated (YYYY-MM-DD).'']
            | _ \<Rightarrow> [lint_error file ''blueprint-last-updated-required'' ''Blueprint is missing valid frontmatter field: last_updated (YYYY-MM-DD).'']))"

definition task_errors :: "string \<Rightarrow> task_section \<Rightarrow> plan_error list" where
  "task_errors file task =
     (let sec = ts_section task; i = ''Task '' @ ts_id task; total = length (boxes sec); checked = length (checked_boxes sec)
      in case labelled ''Status'' sec of
           None \<Rightarrow> [lint_error file ''blueprint-task-status-required'' (i @ '' is missing required **Status:** line.'')]
         | Some st \<Rightarrow>
             if st \<notin> set TASK_STATUSES then
               [lint_error file ''blueprint-task-status-invalid''
                 (i @ '' has invalid status '' @ quoted st @ ''. Use only: todo, in-progress, blocked, done, dropped.'')]
             else
               (let reason = (case labelled ''Blocked'' sec of None \<Rightarrow> [] | Some r \<Rightarrow> r)
                in (if st = ''blocked'' \<and> reason = [] then
                      [lint_error file ''blueprint-task-blocked-reason-required''
                        (i @ '' is blocked but missing non-empty **Blocked:** reason.'')] else [])
                   @ (if st \<noteq> ''blocked'' \<and> reason \<noteq> [] then
                      [lint_error file ''blueprint-task-blocked-reason-mismatch''
                        (i @ '' has **Blocked:** reason but status is '' @ st @ ''.'')] else [])
                   @ (if st = ''done'' \<and> 0 < total \<and> checked \<noteq> total then
                      [lint_error file ''blueprint-task-done-acceptance''
                        (i @ '' is done but acceptance is '' @ nat_str checked @ ''/'' @ nat_str total @ ''.'')] else [])))"

definition unfinished_errors :: "string \<Rightarrow> task_section \<Rightarrow> plan_error list" where
  "unfinished_errors file task =
     (case labelled ''Status'' (ts_section task) of
        None \<Rightarrow> []
      | Some st \<Rightarrow>
          if st = [] \<or> st \<notin> set TASK_STATUSES then []
          else if st \<noteq> ''done'' \<and> st \<noteq> ''dropped'' then
            [lint_error file ''blueprint-completed-requires-all-done''
              (''Blueprint status is completed but task '' @ ts_id task @ '' is '' @ quoted st
               @ '' (expected '' @ quoted ''done'' @ '' or '' @ quoted ''dropped'' @ '').'')]
          else [])"

definition validateLifecycleContract :: "string \<Rightarrow> string \<Rightarrow> plan_error list" where
  "validateLifecycleContract file content =
     (let status = map_option js_trim (fm_field content ''status'')
      in if \<not> truthy status \<or> the status \<notin> set EXECUTABLE_BLUEPRINT_STATUSES then
           [blueprint_status_error file (case status of None \<Rightarrow> ''(missing)'' | Some s \<Rightarrow> s)]
         else
           (if status \<noteq> Some ''draft'' then frontmatter_errors file content else [])
           @ concat (map (task_errors file) (extractTaskBlocks content))
           @ (if status = Some ''completed'' then concat (map (unfinished_errors file) (extractTaskBlocks content)) else []))"

section \<open>The linter\<close>

definition validateTaskFormat :: "string \<Rightarrow> string \<Rightarrow> plan_error list" where
  "validateTaskFormat file content =
     (let (count, line) = findWrongTaskHeaders content
      in if 0 < count then
           [(lint_error file ''blueprint-task-format''
              (''Found '' @ nat_str count @ '' task(s) using '' @ [squote] @ ''### Task'' @ [squote]
               @ '' (3 hashes). Blueprint plans require '' @ [squote] @ ''#### Task'' @ [squote]
               @ '' (4 hashes). See docs/templates/blueprint.md''))\<lparr>pe_line := line\<rparr>]
         else [])
     @ (if 0 < findMalformedTaskIds content then
          [lint_error file ''blueprint-task-id-format''
            (''Found '' @ nat_str (findMalformedTaskIds content) @ '' malformed task ID(s). Tasks must use numeric format: ''
             @ [squote] @ ''#### Task 1.1: Title'' @ [squote])]
        else [])
     @ (case checkDependencyFormat content of
          None \<Rightarrow> []
        | Some example \<Rightarrow>
            [lint_error file ''blueprint-depends-format''
              (''Invalid depends format: '' @ [squote] @ example @ [squote] @ ''. Use '' @ [squote] @ ''Task X.Y'' @ [squote]
               @ '' format, not just '' @ [squote] @ ''X.Y'' @ [squote] @ ''.'')])"

definition validateBlueprintPlan :: "string \<Rightarrow> string \<Rightarrow> string \<Rightarrow> plan_error list" where
  "validateBlueprintPlan file content docType =
     (if docType \<noteq> ''blueprint'' then []
      else
        validateTaskFormat file content @ validateLifecycleContract file content
        @ (if isCompleted file content \<and> \<not> hasCompletionSummary content then
             [lint_error file ''blueprint-completion-summary''
               (''Completed plan missing required '' @ quoted ''## Completion Summary''
                @ '' section. Add this section with Deliverables and Impact subsections.'')]
           else []))"

end
