(* ===== verification/PlanLinterProps.thy ===== *)
theory PlanLinterProps
  imports PlanLinter
begin

text \<open>
  Properties of the plan linter: what a completed plan without errors guarantees, the
  dependencies it rejects although they are well formed, and the empty reasons it accepts.
\<close>

lemma lint_lists: "validateBlueprintPlan file content ''blueprint'' = [] \<Longrightarrow>
    validateLifecycleContract file content = [] \<and> (isCompleted file content \<longrightarrow> hasCompletionSummary content)"
  by (auto simp: validateBlueprintPlan_def split: if_splits)

lemma completed_field: "map_option js_trim (fm_field content ''status'') = Some ''completed'' \<Longrightarrow> isCompleted file content"
proof -
  assume "map_option js_trim (fm_field content ''status'') = Some ''completed''"
  then obtain s where s: "fm_field content ''status'' = Some s" "js_trim s = ''completed''" by auto
  then have "js_trim (js_lower s) = ''completed''" by (simp add: js_trim_lower) (simp add: js_lower_def lower_char_def js_upper_char_def)
  then show ?thesis using s by (cases s) (auto simp: isCompleted_def)
qed

lemma contract_tasks:
  assumes "validateLifecycleContract file content = []"
    and "map_option js_trim (fm_field content ''status'') = Some ''completed''"
    and "t \<in> set (extractTaskBlocks content)"
  shows "task_errors file t = []" and "unfinished_errors file t = []"
  using assms by (auto simp: validateLifecycleContract_def truthy_def EXECUTABLE_BLUEPRINT_STATUSES_def)

text \<open>C26. What the linter guarantees of a completed plan: without errors and with the status
  completed, the plan has its summary, and every task block is done or dropped, has all its
  boxes checked if it is done, and gives no reason for a block.\<close>
theorem clean_completed_plan:
  assumes "validateBlueprintPlan file content ''blueprint'' = []"
    and "map_option js_trim (fm_field content ''status'') = Some ''completed''"
  shows "hasCompletionSummary content
    \<and> (\<forall>t\<in>set (extractTaskBlocks content).
        labelled ''Status'' (ts_section t) \<in> {Some ''done'', Some ''dropped''}
        \<and> (labelled ''Status'' (ts_section t) = Some ''done'' \<longrightarrow>
             length (checked_boxes (ts_section t)) = length (boxes (ts_section t)))
        \<and> labelled ''Blocked'' (ts_section t) \<in> {None, Some []})"
proof -
  note l = lint_lists [OF assms(1)]
  have "labelled ''Status'' (ts_section t) \<in> {Some ''done'', Some ''dropped''}
        \<and> (labelled ''Status'' (ts_section t) = Some ''done'' \<longrightarrow>
             length (checked_boxes (ts_section t)) = length (boxes (ts_section t)))
        \<and> labelled ''Blocked'' (ts_section t) \<in> {None, Some []}"
    if t: "t \<in> set (extractTaskBlocks content)" for t
  proof -
    note e = contract_tasks [OF conjunct1 [OF l] assms(2) t]
    obtain st where st: "labelled ''Status'' (ts_section t) = Some st" "st \<in> set TASK_STATUSES"
      using e(1) by (auto simp: task_errors_def Let_def split: option.splits if_splits)
    then have "st = ''done'' \<or> st = ''dropped''"
      using e(2) by (auto simp: unfinished_errors_def TASK_STATUSES_def split: if_splits)
    moreover have "labelled ''Blocked'' (ts_section t) \<in> {None, Some []}"
      using e(1) st calculation by (auto simp: task_errors_def Let_def split: option.splits if_splits)
    moreover have "length (checked_boxes (ts_section t)) = length (boxes (ts_section t))" if "st = ''done''"
      using e(1) st that by (auto simp: task_errors_def Let_def checked_boxes_def split: if_splits)
    ultimately show ?thesis using st(1) by auto
  qed
  then show ?thesis using l completed_field [OF assms(2)] by blast
qed


section \<open>Dependencies on the tenth phase\<close>

lemma bare_search_at:
  assumes "\<not> after_task_word (rev x @ b)" and "\<not> after_digit_dot (rev x @ b)"
    and "y \<noteq> []" and "match_here bare_number (rev x @ b) y \<noteq> None"
  shows "bare_search b (x @ y)"
  using assms
proof (induction x arbitrary: b)
  case Nil
  then show ?case by (cases y) simp_all
qed simp

lemma bare_number_at:
  assumes "js_digit d" "js_digit e" and "y = [] \<or> \<not> js_word (hd y) \<and> hd y \<noteq> CHR ''.''"
  shows "match_here bare_number b (d # CHR ''.'' # e # y) \<noteq> None"
proof -
  have "\<not> CHR ''a'' \<le> CHR ''9''" by (simp add: less_eq_char_def)
  then have w: "js_word d" "js_word e" "\<not> js_lower_char e" "\<not> js_digit CHR ''.''"
    using assms(1,2) order_trans [of "CHR ''a''" e "CHR ''9''"]
    by (auto simp: js_word_def js_digit_def js_lower_char_def less_eq_char_def)
  have y: "y = [] \<or> \<not> js_digit (hd y) \<and> \<not> js_lower_char (hd y) \<and> \<not> js_word (hd y) \<and> hd y \<noteq> CHR ''.''"
    using assms(3) by (auto simp: js_word_def)
  have "run bare_number \<lparr>behind = b, rest = d # CHR ''.'' # e # y, caps = []\<rparr> \<noteq> []"
    using assms(1,2) w y
    by (cases y) (auto simp: bare_number_def plus_def star_def opt_def run_chr Let_def)
  then show ?thesis by (auto simp: match_here_def split: list.splits)
qed

text \<open>A dependency on a task of the tenth phase or later is rejected although it is written as
  required: in the two digits of the phase the search finds a task id that does not follow the
  word Task, so the linter reports an invalid format.\<close>
theorem late_phase_rejected:
  assumes "x @ ''Task '' @ [d1, d2] @ ''.'' @ [d3] @ y \<in> set (depends_contents content)"
    and "js_digit d1" "js_digit d2" "js_digit d3" and "y = [] \<or> \<not> js_word (hd y) \<and> hd y \<noteq> CHR ''.''"
  shows "\<exists>e\<in>set (validateBlueprintPlan file content ''blueprint''). pe_rule e = ''blueprint-depends-format''"
proof -
  let ?d = "x @ ''Task '' @ [d1, d2] @ ''.'' @ [d3] @ y"
  have "bare_search [] ((x @ ''Task '' @ [d1]) @ d2 # CHR ''.'' # d3 # y)"
    by (rule bare_search_at)
      (use assms(2) bare_number_at [OF assms(3,4,5)] in \<open>auto simp: after_task_word_def after_digit_dot_def js_ws_def js_digit_def\<close>)
  then have "bare_search [] ?d" by simp
  moreover have "js_lower ?d \<noteq> ''none''"
  proof
    assume "js_lower ?d = ''none''"
    then have "length (js_lower ?d) = 4" by simp
    then show False by (simp add: js_lower_def)
  qed
  ultimately have "checkDependencyFormat content \<noteq> None"
    using assms(1) by (auto simp: checkDependencyFormat_def find_None_iff)
  then show ?thesis
    by (auto simp: validateBlueprintPlan_def validateTaskFormat_def lint_error_def)
qed


section \<open>Samples\<close>

definition plan_lines :: "string list \<Rightarrow> string" where
  "plan_lines = join_with [nl]"

definition finished_plan :: string where
  "finished_plan = plan_lines
     [''---'', ''status: completed'', ''title: t'', ''owner: o'', ''last_updated: 2026-01-02'', ''---'',
      ''#### Task 1.1: x'', ''**Status:** done'', ''- [x] a'', ''## Completion Summary'']"

lemma finished_plan_clean: "validateBlueprintPlan ''f'' finished_plan ''blueprint'' = []"
  by code_simp

theorem clean_completed_plan_witness:
  "hasCompletionSummary finished_plan
   \<and> labelled ''Status'' (ts_section (hd (extractTaskBlocks finished_plan))) \<in> {Some ''done'', Some ''dropped''}"
proof -
  have st: "map_option js_trim (fm_field finished_plan ''status'') = Some ''completed''" by code_simp
  have "extractTaskBlocks finished_plan \<noteq> []" by code_simp
  then have "hd (extractTaskBlocks finished_plan) \<in> set (extractTaskBlocks finished_plan)" by simp
  then show ?thesis using clean_completed_plan [OF finished_plan_clean st] by blast
qed

theorem late_phase_rejected_witness:
  "\<exists>e\<in>set (validateBlueprintPlan ''f'' ''**Depends:** Task 10.2'' ''blueprint''). pe_rule e = ''blueprint-depends-format''"
proof -
  have "depends_contents ''**Depends:** Task 10.2'' = [''Task 10.2'']" by code_simp
  then show ?thesis
    using late_phase_rejected [of "[]" "CHR ''1''" "CHR ''0''" "CHR ''2''" "[]" "''**Depends:** Task 10.2''" "''f''"]
    by (simp add: js_digit_def)
qed

text \<open>
  An empty reason of a blocked task is accepted as soon as another line follows: the white space
  after the label is allowed to run over the end of the line, so the next line is the reason.
\<close>

definition blocked_plan :: string where
  "blocked_plan = plan_lines
     [''---'', ''status: draft'', ''---'', ''#### Task 1.1: x'', ''**Status:** blocked'', ''**Blocked:**'', ''- [ ] a'']"

lemma empty_reason_accepted:
  "validateBlueprintPlan ''f'' blocked_plan ''blueprint'' = []
   \<and> labelled ''Blocked'' (ts_section (hd (extractTaskBlocks blocked_plan))) = Some ''- [ ] a''"
  by code_simp

end
