(* ===== verification/FileStore.thy ===== *)
theory FileStore
  imports PathContract
begin

text \<open>
  A file system for the code that reads, writes and moves files: what \<open>node:fs\<close> documents of
  \<open>readFile\<close>, \<open>writeFile\<close>, \<open>readdir\<close>, \<open>mkdir\<close> with \<open>recursive\<close>, \<open>rename\<close> and \<open>rmdir\<close> on
  POSIX, over a store of files and directories keyed by the segments of their path.  Symbolic
  links, permissions and full disks are left out.  Lemmas: every operation keeps the store a
  tree, and reading back what was written, which the locale \<open>store\<close> states for its clients.
\<close>

type_synonym key = "string list"

record fstore =
  files :: "(key, string) js_map"
  dirs :: "key list"

definition path_key :: "string \<Rightarrow> key" where
  "path_key p = path_segments False p"

definition path_of :: "key \<Rightarrow> string" where
  "path_of k = ''/'' @ join_with ''/'' k"

definition key_dirname :: "string \<Rightarrow> string" where \<comment> \<open>\<open>path.dirname\<close> of a normalised absolute path\<close>
  "key_dirname p = path_of (butlast (path_key p))"

fun nonempty_prefixes :: "'a list \<Rightarrow> 'a list list" where
  "nonempty_prefixes [] = []"
| "nonempty_prefixes (x # xs) = [x] # map ((#) x) (nonempty_prefixes xs)"

section \<open>Reading\<close>

definition is_dir :: "fstore \<Rightarrow> key \<Rightarrow> bool" where
  "is_dir fs k \<longleftrightarrow> k = [] \<or> k \<in> set (dirs fs)"

definition is_file :: "fstore \<Rightarrow> key \<Rightarrow> bool" where
  "is_file fs k \<longleftrightarrow> map_has (files fs) k"

definition existsSync :: "fstore \<Rightarrow> string \<Rightarrow> bool" where
  "existsSync fs p \<longleftrightarrow> is_dir fs (path_key p) \<or> is_file fs (path_key p)"

definition fs_error :: "string \<Rightarrow> string \<Rightarrow> string \<Rightarrow> string" where
  "fs_error code op p = code @ '', '' @ op @ '' '' @ [squote] @ p @ [squote]"

definition enoent :: string where "enoent = ''ENOENT: no such file or directory''"
definition enotdir :: string where "enotdir = ''ENOTDIR: not a directory''"
definition eisdir :: string where "eisdir = ''EISDIR: illegal operation on a directory''"
definition eexist :: string where "eexist = ''EEXIST: file already exists''"
definition enotempty :: string where "enotempty = ''ENOTEMPTY: directory not empty''"
definition einval :: string where "einval = ''EINVAL: invalid argument''"

text \<open>Why a path cannot be reached: a file stands in its way, or it is missing.\<close>

definition absent_code :: "fstore \<Rightarrow> key \<Rightarrow> string" where
  "absent_code fs k = (if list_ex (is_file fs) (nonempty_prefixes k) then enotdir else enoent)"

definition readFile :: "fstore \<Rightarrow> string \<Rightarrow> string throws" where
  "readFile fs p =
     (case map_get (files fs) (path_key p) of
        Some content \<Rightarrow> Inr content
      | None \<Rightarrow> Inl (if is_dir fs (path_key p) then ''EISDIR: illegal operation on a directory, read''
                     else fs_error (absent_code fs (path_key p)) ''open'' p))"

text \<open>The names in a directory, each once.\<close>

definition children :: "fstore \<Rightarrow> key \<Rightarrow> string list" where
  "children fs d =
     remdups (map last (filter (\<lambda>k. k \<noteq> [] \<and> butlast k = d) (dirs fs @ map_keys (files fs))))"

definition readdir :: "fstore \<Rightarrow> string \<Rightarrow> string list throws" where
  "readdir fs p =
     (if is_dir fs (path_key p) then Inr (children fs (path_key p))
      else Inl (fs_error (absent_code fs (path_key p)) ''scandir'' p))"

section \<open>Writing\<close>

definition writeFile :: "fstore \<Rightarrow> string \<Rightarrow> string \<Rightarrow> fstore throws" where
  "writeFile fs p content =
     (let k = path_key p
      in if is_dir fs k then Inl (fs_error eisdir ''open'' p)
         else if \<not> is_dir fs (butlast k) then
           Inl (fs_error (absent_code fs (butlast k)) ''open'' p)
         else Inr (fs\<lparr>files := map_set k content (files fs)\<rparr>))"

definition make_dir :: "key \<Rightarrow> fstore \<Rightarrow> fstore" where
  "make_dir k fs = (if is_dir fs k then fs else fs\<lparr>dirs := dirs fs @ [k]\<rparr>)"

fun mkdir_keys :: "string \<Rightarrow> key list \<Rightarrow> fstore \<Rightarrow> fstore throws" where
  "mkdir_keys p [] fs = Inr fs"
| "mkdir_keys p (k # ks) fs =
     (if is_file fs k then Inl (fs_error (if ks = [] then eexist else enotdir) ''mkdir'' p)
      else mkdir_keys p ks (make_dir k fs))"

definition mkdir_recursive :: "fstore \<Rightarrow> string \<Rightarrow> fstore throws" where
  "mkdir_recursive fs p = mkdir_keys p (nonempty_prefixes (path_key p)) fs"

definition rmdir :: "fstore \<Rightarrow> string \<Rightarrow> fstore throws" where
  "rmdir fs p =
     (let k = path_key p
      in if \<not> is_dir fs k then Inl (fs_error (absent_code fs k) ''rmdir'' p)
         else if children fs k \<noteq> [] \<or> k = [] then Inl (fs_error enotempty ''rmdir'' p)
         else Inr (fs\<lparr>dirs := filter (\<lambda>d. d \<noteq> k) (dirs fs)\<rparr>))"

text \<open>
  A move of everything at or under one key.  What stands at the target (a file, or an empty
  directory) is replaced.
\<close>

definition under :: "key \<Rightarrow> key \<Rightarrow> bool" where
  "under a k \<longleftrightarrow> take (length a) k = a"

definition rebase :: "key \<Rightarrow> key \<Rightarrow> key \<Rightarrow> key" where
  "rebase a b k = (if under a k then b @ drop (length a) k else k)"

definition move_tree :: "key \<Rightarrow> key \<Rightarrow> fstore \<Rightarrow> fstore" where
  "move_tree a b fs =
     fs\<lparr>files := map (\<lambda>(k, c). (rebase a b k, c)) (filter (\<lambda>(k, c). k \<noteq> b) (files fs)),
        dirs := map (rebase a b) (filter (\<lambda>k. k \<noteq> b) (dirs fs))\<rparr>"

definition rename_error :: "string \<Rightarrow> string \<Rightarrow> string \<Rightarrow> string" where
  "rename_error code p q =
     code @ '', rename '' @ [squote] @ p @ [squote] @ '' -> '' @ [squote] @ q @ [squote]"

definition rename :: "fstore \<Rightarrow> string \<Rightarrow> string \<Rightarrow> fstore throws" where
  "rename fs p q =
     (let a = path_key p; b = path_key q
      in if \<not> is_dir fs a \<and> \<not> is_file fs a then Inl (rename_error (absent_code fs a) p q)
         else if \<not> is_dir fs (butlast b) then
           Inl (rename_error (absent_code fs (butlast b)) p q)
         else if a = b then Inr fs
         else if is_file fs a then
           (if is_dir fs b then Inl (rename_error eisdir p q) else Inr (move_tree a b fs))
         else if under a b then Inl (rename_error einval p q)
         else if is_file fs b then Inl (rename_error enotdir p q)
         else if under b a \<or> is_dir fs b \<and> children fs b \<noteq> [] then Inl (rename_error enotempty p q)
         else Inr (move_tree a b fs))"

section \<open>Paths and keys\<close>

definition name_ok :: "string \<Rightarrow> bool" where
  "name_ok s \<longleftrightarrow> plain_name s \<and> CHR ''/'' \<notin> set s"

definition key_ok :: "key \<Rightarrow> bool" where
  "key_ok k \<longleftrightarrow> (\<forall>s\<in>set k. name_ok s)"

lemma key_ok_simps [simp]:
  "key_ok []" "key_ok (s # k) \<longleftrightarrow> name_ok s \<and> key_ok k" "key_ok (j @ k) \<longleftrightarrow> key_ok j \<and> key_ok k"
  by (auto simp: key_ok_def)

lemma split_char_seam: "split_char c (a @ c # b) = split_char c a @ split_char c b"
proof (induction a)
  case (Cons x a)
  then show ?case by (cases "split_char c a") (auto split: list.splits)
qed simp

lemma split_char_join: "ps \<noteq> [] \<Longrightarrow> split_char c (join_with [c] ps) = concat (map (split_char c) ps)"
  by (induction "[c]" ps rule: join_with.induct) (simp_all add: split_char_seam)

lemma norm_segments_filter: "norm_segments up acc ss = norm_segments up acc (filter (\<lambda>s. s \<noteq> [] \<and> s \<noteq> ''.'') ss)"
proof (induction ss arbitrary: up acc)
  case (Cons s ss)
  then show ?case
  proof (cases "s = [] \<or> s = ''.''")
    case True
    then show ?thesis using Cons.IH [of up acc] by (simp only: norm_segments_step(1)) auto
  next
    case False
    then have f: "filter (\<lambda>s. s \<noteq> [] \<and> s \<noteq> ''.'') (s # ss) = s # filter (\<lambda>s. s \<noteq> [] \<and> s \<noteq> ''.'') ss" by simp
    show ?thesis unfolding f norm_segments.simps
      by (simp only: Cons.IH [symmetric] cong: list.case_cong)
  qed
qed simp

definition blank :: "string \<Rightarrow> bool" where
  "blank s \<longleftrightarrow> s = [] \<or> s = ''.''"

lemma blank_simps [simp]: "blank []" "name_ok s \<Longrightarrow> \<not> blank s"
  by (auto simp: blank_def name_ok_def plain_name_def)

lemma norm_segments_names_only:
  "\<forall>s\<in>set ss. blank s \<or> name_ok s \<Longrightarrow> norm_segments up [] ss = filter (\<lambda>s. \<not> blank s) ss"
  using norm_segments_plain [of "filter (\<lambda>s. \<not> blank s) ss" up "[]"] norm_segments_filter [of up "[]" ss]
  by (auto simp: name_ok_def blank_def)

lemma filter_key: "key_ok k \<Longrightarrow> filter (\<lambda>s. \<not> blank s) k = k"
  by (auto simp: key_ok_def intro: filter_True)

lemma split_key: "key_ok k \<Longrightarrow> split_char CHR ''/'' (join_with ''/'' k) = (if k = [] then [[]] else k)"
  using split_join_with [of k "CHR ''/''"] by (auto simp: name_ok_def key_ok_def)

lemma split_path_of: "key_ok k \<Longrightarrow> split_char CHR ''/'' (path_of k) = [] # (if k = [] then [[]] else k)"
  using split_key [of k] by (simp add: path_of_def)

lemma path_segments_of: "key_ok k \<Longrightarrow> path_segments up (path_of k) = k"
  unfolding path_segments_def split_path_of
  by (subst norm_segments_names_only) (auto simp: filter_key, auto simp: key_ok_def)

lemma path_key_of [simp]: "key_ok k \<Longrightarrow> path_key (path_of k) = k"
  by (simp add: path_key_def path_segments_of)

lemma path_of_inject: "key_ok j \<Longrightarrow> key_ok k \<Longrightarrow> path_of j = path_of k \<longleftrightarrow> j = k"
  by (metis path_key_of)

lemma path_of_absolute [simp]: "path_is_absolute (path_of k)"
  by (simp add: path_of_def path_is_absolute_def starts_with_def)

lemma join_key_not_Nil: "key_ok k \<Longrightarrow> k \<noteq> [] \<Longrightarrow> join_with ''/'' k \<noteq> []"
  using join_with_not_Nil [of k "''/''"] by (auto simp: key_ok_def name_ok_def plain_name_def)

lemma join_key_last: "key_ok k \<Longrightarrow> k \<noteq> [] \<Longrightarrow> last (join_with ''/'' k) \<noteq> CHR ''/''"
proof (induction k rule: induct_list012)
  case (2 s)
  then have "s \<noteq> []" "CHR ''/'' \<notin> set s" by (auto simp: name_ok_def plain_name_def)
  then show ?case using last_in_set by fastforce
next
  case (3 s t k)
  then show ?case using join_key_not_Nil [of "t # k"] by simp
qed simp

lemma no_trailing: "key_ok k \<Longrightarrow> k \<noteq> [] \<Longrightarrow> \<not> ends_with (join_with ''/'' k) ''/''"
  using join_key_last [of k] by (auto simp: ends_with_def suffix_def)

lemma join_with_snoc: "ps \<noteq> [] \<Longrightarrow> join_with sep (ps @ [p]) = join_with sep ps @ sep @ p"
  by (induction sep ps rule: join_with.induct) auto

lemma path_key_ok [simp]: "key_ok (path_key p)"
proof -
  have "\<forall>s\<in>set (norm_segments False acc ss). CHR ''/'' \<notin> set s"
    if "\<forall>s\<in>set ss \<union> set acc. CHR ''/'' \<notin> set s" for acc ss
    using that
  proof (induction ss arbitrary: acc)
    case (Cons s ss)
    consider "s = [] \<or> s = ''.''" | "s = ''..''" "acc = []" | t ts where "s = ''..''" "acc = t # ts" "t \<noteq> ''..''"
      | t ts where "s = ''..''" "acc = t # ts" "t = ''..''" | "s \<noteq> []" "s \<noteq> ''.''" "s \<noteq> ''..''" by (cases acc) blast+
    then show ?case
    proof cases
      case 1
      then show ?thesis using Cons by (simp only: norm_segments_step(1)) auto
    next
      case 2
      show ?thesis unfolding 2 norm_segments.simps using Cons.IH [of "[]"] Cons.prems by simp
    next
      case 3
      show ?thesis unfolding 3 norm_segments.simps using Cons.IH [of ts] Cons.prems 3 by simp
    next
      case 4
      show ?thesis unfolding 4 norm_segments.simps using Cons.IH [of "''..'' # ''..'' # ts"] Cons.prems 4 by simp
    next
      case 5
      show ?thesis unfolding norm_segments.simps using Cons.IH [of "s # acc"] Cons.prems 5 by simp
    qed
  qed auto
  from this [of "split_char CHR ''/'' p" "[]"]
  have "\<forall>s\<in>set (path_key p). CHR ''/'' \<notin> set s"
    using split_char_parts_no_sep [of _ "CHR ''/''" p] by (simp add: path_key_def path_segments_def)
  then show ?thesis using path_segments_names [of _ p] by (auto simp: key_ok_def name_ok_def path_key_def)
qed

lemma norm_segments_append_key:
  "key_ok k \<Longrightarrow> norm_segments up acc (ss @ k) = norm_segments up acc ss @ k"
proof (induction ss arbitrary: up acc)
  case Nil
  then show ?case using norm_segments_plain [of k up acc] by (simp add: key_ok_def name_ok_def)
next
  case (Cons s ss)
  show ?case unfolding append_Cons norm_segments.simps
    by (cases acc) (simp_all only: Cons.IH [OF Cons.prems] list.case if_distrib [of "\<lambda>r. r @ k"] split: if_split)
qed

text \<open>Joining an absolute path with relative ones.\<close>

lemma path_join_absolute:
  assumes "path_is_absolute p" "\<forall>j\<in>set js. key_ok j \<and> j \<noteq> []" "js \<noteq> []"
  shows "path_join (p # map (join_with ''/'') js) = path_of (path_key p @ concat js)"
proof -
  let ?ps = "p # map (join_with ''/'') js" let ?s = "join_with ''/'' ?ps"
  have p: "p \<noteq> []" using assms(1) by (auto simp: path_is_absolute_def starts_with_def)
  have present: "filter (\<lambda>p. p \<noteq> []) ?ps = ?ps" using assms(2) join_key_not_Nil p by auto
  have "split_char CHR ''/'' ?s = split_char CHR ''/'' p @ concat js"
    unfolding split_char_join [OF list.distinct(2)]
    using assms(2) by (auto simp: split_key cong: map_cong)
  moreover have js: "key_ok (concat js)" "concat js \<noteq> []" using assms(2,3) by (auto simp: key_ok_def)
  ultimately have segments: "path_segments False ?s = path_key p @ concat js"
    by (simp add: path_segments_def path_key_def norm_segments_append_key)
  have abs: "path_is_absolute ?s"
    using assms(1) by (cases js) (auto simp: path_is_absolute_def starts_with_def prefix_def)
  obtain ms j where "js = ms @ [j]" using assms(3) by (cases js rule: rev_cases) auto
  have last: "\<not> ends_with ?s ''/''"
  proof -
    have j: "key_ok j" "j \<noteq> []" using assms(2) \<open>js = ms @ [j]\<close> by auto
    have "?s = join_with ''/'' (p # map (join_with ''/'') ms) @ ''/'' @ join_with ''/'' j"
      using join_with_snoc [of "p # map (join_with ''/'') ms" "''/''" "join_with ''/'' j"]
      by (simp add: \<open>js = ms @ [j]\<close>)
    then have "last ?s = last (join_with ''/'' j)" using join_key_not_Nil [OF j] by simp
    then show ?thesis using join_key_last [OF j] by (auto simp: ends_with_def suffix_def)
  qed
  have ok: "key_ok (path_key p @ concat js)" using js(1) by simp
  have "join_with ''/'' (path_key p @ concat js) \<noteq> []" using join_key_not_Nil [OF ok] js by simp
  moreover have "?s \<noteq> []" using abs by (auto simp: path_is_absolute_def starts_with_def)
  ultimately show ?thesis
    unfolding path_join_def present path_normalize_def
    using segments abs last by (auto simp: Let_def path_of_def)
qed

lemma path_join_of:
  "key_ok k \<Longrightarrow> \<forall>j\<in>set js. key_ok j \<and> j \<noteq> [] \<Longrightarrow> js \<noteq> [] \<Longrightarrow>
     path_join (path_of k # map (join_with ''/'') js) = path_of (k @ concat js)"
  using path_join_absolute [OF path_of_absolute] by simp

lemma common_prefix_append [simp]: "common_prefix k (k @ r) = length k"
  by (induction k) auto

lemma path_relative_of:
  "key_ok k \<Longrightarrow> key_ok r \<Longrightarrow> path_relative cwd (path_of k) (path_of (k @ r)) = join_with ''/'' r"
proof -
  assume k: "key_ok k" "key_ok r"
  have abs: "path_resolve cwd [] (path_of j) = path_of (path_segments False (path_of j))" for j
    by (simp add: path_resolve_def path_of_def [of "path_segments False (path_of j)"])
  have "path_segments False (path_resolve cwd [] (path_of j)) = j" if "key_ok j" for j
    unfolding abs path_segments_of [OF that] by (rule refl)
  with k show ?thesis by (simp only: path_relative_def Let_def key_ok_simps) simp
qed

lemma key_ok_butlast [simp]: "key_ok k \<Longrightarrow> key_ok (butlast k)"
  by (auto simp: key_ok_def dest: in_set_butlastD)

lemma key_dirname_of [simp]: "key_ok k \<Longrightarrow> key_dirname (path_of k) = path_of (butlast k)"
  by (simp add: key_dirname_def)

section \<open>The store stays a tree\<close>

definition store_ok :: "fstore \<Rightarrow> bool" where
  "store_ok fs \<longleftrightarrow>
     map_wf (files fs) \<and> distinct (dirs fs)
     \<and> (\<forall>k. (k \<in> set (dirs fs) \<or> is_file fs k) \<longrightarrow> k \<noteq> [] \<and> key_ok k \<and> is_dir fs (butlast k))
     \<and> (\<forall>k\<in>set (dirs fs). \<not> is_file fs k)"

lemma writeFile_Inr:
  "writeFile fs p c = Inr fs' \<longleftrightarrow>
     \<not> is_dir fs (path_key p) \<and> is_dir fs (butlast (path_key p))
     \<and> fs' = fs\<lparr>files := map_set (path_key p) c (files fs)\<rparr>"
  by (auto simp: writeFile_def Let_def)

lemma is_dir_files [simp]: "is_dir (fs\<lparr>files := m\<rparr>) k = is_dir fs k"
  by (simp add: is_dir_def)

lemma is_file_dirs [simp]: "is_file (fs\<lparr>dirs := d\<rparr>) k = is_file fs k"
  by (simp add: is_file_def)

lemma is_file_set [simp]: "is_file (fs\<lparr>files := map_set k c m\<rparr>) j \<longleftrightarrow> j = k \<or> map_has m j"
  by (auto simp: is_file_def map_has_set)

lemma store_ok_write:
  assumes "store_ok fs" and "writeFile fs p c = Inr fs'"
  shows "store_ok fs'"
  using assms
  by (auto simp: store_ok_def writeFile_Inr map_wf_set is_dir_def is_file_def)

lemma readFile_Inr: "readFile fs p = Inr c \<longleftrightarrow> map_get (files fs) (path_key p) = Some c"
  by (auto simp: readFile_def split: option.splits)

lemma file_read_back: "writeFile fs p c = Inr fs' \<Longrightarrow> readFile fs' p = Inr c"
  by (auto simp: readFile_Inr writeFile_Inr)

lemma file_other:
  "writeFile fs p c = Inr fs' \<Longrightarrow> path_key q \<noteq> path_key p \<Longrightarrow> readFile fs' q = Inr d \<longleftrightarrow> readFile fs q = Inr d"
  by (auto simp: readFile_Inr writeFile_Inr)

lemma is_dir_make [simp]: "is_dir (make_dir k fs) j \<longleftrightarrow> j = k \<or> is_dir fs j"
  by (auto simp: make_dir_def is_dir_def)

lemma files_make [simp]: "files (make_dir k fs) = files fs"
  by (simp add: make_dir_def)

lemma store_ok_make:
  "store_ok fs \<Longrightarrow> key_ok k \<Longrightarrow> is_dir fs (butlast k) \<Longrightarrow> \<not> is_file fs k \<Longrightarrow> store_ok (make_dir k fs)"
  by (auto simp: store_ok_def make_dir_def is_dir_def is_file_def)

lemma nonempty_prefixes_eq: "nonempty_prefixes k = map (\<lambda>n. take (Suc n) k) [0..<length k]"
proof (induction k)
  case (Cons x k)
  then show ?case by (simp add: map_upt_Suc comp_def del: upt_Suc)
qed simp

lemma mkdir_from:
  assumes "mkdir_keys p (map (\<lambda>n. take (Suc n) k) [m..<length k]) fs = Inr fs'"
    and "store_ok fs" "key_ok k" "is_dir fs (take m k)" "m \<le> length k"
  shows "store_ok fs' \<and> files fs' = files fs \<and> is_dir fs' k \<and> (\<forall>j. is_dir fs j \<longrightarrow> is_dir fs' j)"
  using assms
proof (induction "length k - m" arbitrary: m fs)
  case 0
  then show ?case by simp
next
  case (Suc n)
  then have m: "m < length k" by simp
  let ?k = "take (Suc m) k" let ?fs = "make_dir ?k fs"
  have k: "butlast ?k = take m k" using m by (simp add: butlast_take)
  have no: "\<not> is_file fs ?k" and later: "mkdir_keys p (map (\<lambda>n. take (Suc n) k) [Suc m..<length k]) ?fs = Inr fs'"
    using Suc.prems(1) m by (auto simp: upt_conv_Cons split: if_splits)
  have ok: "store_ok ?fs"
    using store_ok_make [OF Suc.prems(2) _ _ no] Suc.prems(3,4) k by (auto simp: key_ok_def dest: in_set_takeD)
  show ?case using Suc.hyps(1) [OF _ later ok Suc.prems(3)] Suc.hyps(2) m by auto
qed

lemma mkdir_recursive_ok:
  assumes "mkdir_recursive fs p = Inr fs'" "store_ok fs"
  shows "store_ok fs'" "files fs' = files fs" "is_dir fs' (path_key p)" "is_dir fs j \<Longrightarrow> is_dir fs' j"
  using mkdir_from [of p "path_key p" 0 fs fs'] assms
  by (auto simp: mkdir_recursive_def nonempty_prefixes_eq is_dir_def)

lemma children_iff: "n \<in> set (children fs d) \<longleftrightarrow> d @ [n] \<in> set (dirs fs) \<or> is_file fs (d @ [n])"
proof -
  have "(\<exists>k. k \<noteq> [] \<and> butlast k = d \<and> last k = n \<and> (k \<in> set (dirs fs) \<or> is_file fs k))
      \<longleftrightarrow> d @ [n] \<in> set (dirs fs) \<or> is_file fs (d @ [n])"
    by (metis append_butlast_last_id butlast_snoc last_snoc snoc_eq_iff_butlast)
  then show ?thesis by (auto simp: children_def map_keys_has is_file_def)
qed

lemma store_ok_parent:
  assumes "store_ok fs" "k @ [n] \<in> set (dirs fs) \<or> is_file fs (k @ [n])"
  shows "is_dir fs k" "name_ok n" "key_ok k"
  using assms by (auto simp: store_ok_def)

lemma under_iff: "under a k \<longleftrightarrow> (\<exists>r. k = a @ r)"
  by (metis append_take_drop_id append_eq_conv_conj under_def)

lemma under_present:
  assumes "store_ok fs" "is_dir fs (a @ r) \<or> is_file fs (a @ r)"
  shows "r = [] \<or> is_dir fs a \<and> children fs a \<noteq> []"
  using assms(2)
proof (induction r rule: rev_induct)
  case (snoc n r)
  then have "is_dir fs (a @ r)" using store_ok_parent(1) [OF assms(1), of "a @ r" n] by (auto simp: is_dir_def)
  with snoc show ?case
    using children_iff [of n fs a] by (cases "r = []") (auto simp: is_dir_def)
qed simp

lemma files_no_children: "store_ok fs \<Longrightarrow> is_file fs a \<Longrightarrow> is_dir fs (a @ r) \<or> is_file fs (a @ r) \<Longrightarrow> r = []"
  using under_present [of fs a r] by (auto simp: store_ok_def is_dir_def)

text \<open>A move keeps the store a tree if nothing is left at or under the target.\<close>

definition movable :: "key \<Rightarrow> key \<Rightarrow> fstore \<Rightarrow> bool" where
  "movable a b fs \<longleftrightarrow>
     a \<noteq> [] \<and> b \<noteq> [] \<and> key_ok b \<and> is_dir fs (butlast b) \<and> \<not> under a b \<and> \<not> under b a
     \<and> (is_dir fs a \<or> is_file fs a)
     \<and> (\<forall>r. r \<noteq> [] \<longrightarrow> \<not> is_dir fs (b @ r) \<and> \<not> is_file fs (b @ r))"

lemma rebase_inj:
  assumes "\<not> under b j" "\<not> under b k" "rebase a b j = rebase a b k" "\<not> under b a"
  shows "j = k"
  using assms by (auto simp: rebase_def under_iff split: if_splits)

lemma moved_file: "map_has (files (move_tree a b fs)) k \<longleftrightarrow> (\<exists>j. is_file fs j \<and> j \<noteq> b \<and> k = rebase a b j)"
  by (force simp: move_tree_def map_has_def is_file_def)

lemma moved_dir: "k \<in> set (dirs (move_tree a b fs)) \<longleftrightarrow> (\<exists>j\<in>set (dirs fs). j \<noteq> b \<and> k = rebase a b j)"
  by (auto simp: move_tree_def)

lemma movable_not_under:
  assumes "movable a b fs" "j \<in> set (dirs fs) \<or> is_file fs j" "j \<noteq> b"
  shows "\<not> under b j"
  using assms by (auto simp: movable_def under_iff is_dir_def)

lemma rebase_parent:
  assumes "movable a b fs" "j \<noteq> []" "is_dir fs (butlast j)" "\<not> under b j"
  shows "is_dir (move_tree a b fs) (butlast (rebase a b j))"
proof (cases "j = a")
  case True
  then have r: "rebase a b j = b" by (simp add: rebase_def under_iff)
  have "\<not> under a (butlast b)"
  proof
    assume "under a (butlast b)"
    then have "under a b" by (metis append.assoc append_butlast_last_id assms(1) movable_def under_iff)
    with assms(1) show False by (simp add: movable_def)
  qed
  then have "rebase a b (butlast b) = butlast b" by (simp add: rebase_def)
  moreover have "butlast b \<noteq> b" using assms(1) by (cases b rule: rev_cases) (auto simp: movable_def)
  ultimately show ?thesis
    using assms(1) moved_dir [of "butlast b" a b fs] unfolding r by (force simp: movable_def is_dir_def)
next
  case False
  have b: "butlast (rebase a b j) = rebase a b (butlast j)"
    using False assms(2) by (auto simp: rebase_def under_iff butlast_append)
       (metis append_Nil2 append_butlast_last_id append.assoc)+
  have "butlast j = [] \<Longrightarrow> rebase a b (butlast j) = []"
    using assms(1) by (auto simp: rebase_def under_iff movable_def)
  moreover have "butlast j \<noteq> b" using assms(4) by (metis append_butlast_last_id assms(2) under_iff)
  ultimately show ?thesis
    using assms(3) moved_dir [of "rebase a b (butlast j)" a b fs] unfolding b by (auto simp: is_dir_def)
qed

lemma store_ok_move:
  assumes ok: "store_ok fs" and mv: "movable a b fs"
  shows "store_ok (move_tree a b fs)"
proof -
  let ?m = "move_tree a b fs"
  have ba: "\<not> under b a" using mv by (simp add: movable_def)
  have inj: "j = k" if "rebase a b j = rebase a b k" "j \<in> set (dirs fs) \<or> is_file fs j" "j \<noteq> b"
      "k \<in> set (dirs fs) \<or> is_file fs k" "k \<noteq> b" for j k
    using rebase_inj [OF _ _ that(1) ba] movable_not_under [OF mv] that by blast
  have "map_wf (files ?m)"
  proof -
    have "inj_on (rebase a b) (set (map fst (filter (\<lambda>(k, c). k \<noteq> b) (files fs))))"
    proof (rule inj_onI)
      fix j k
      assume "j \<in> set (map fst (filter (\<lambda>(k, c). k \<noteq> b) (files fs)))"
        and "k \<in> set (map fst (filter (\<lambda>(k, c). k \<noteq> b) (files fs)))" and eq: "rebase a b j = rebase a b k"
      then have "is_file fs j" "j \<noteq> b" "is_file fs k" "k \<noteq> b" by (force simp: is_file_def map_has_def)+
      with inj [OF eq] show "j = k" by blast
    qed
    moreover have "distinct (map fst (filter (\<lambda>(k, c). k \<noteq> b) (files fs)))"
      using ok distinct_map_filter by (auto simp: store_ok_def map_wf_def)
    ultimately show ?thesis
      by (simp add: map_wf_def move_tree_def case_prod_unfold distinct_map comp_inj_on_iff comp_def)
  qed
  moreover have "distinct (dirs ?m)"
    using ok inj by (auto simp: store_ok_def move_tree_def distinct_map inj_on_def)
  moreover have "k \<noteq> [] \<and> key_ok k \<and> is_dir ?m (butlast k)" if k: "k \<in> set (dirs ?m) \<or> is_file ?m k" for k
  proof -
    obtain j where j: "j \<in> set (dirs fs) \<or> is_file fs j" "j \<noteq> b" "k = rebase a b j"
      using k moved_file [of a b fs k] moved_dir [of k a b fs] by (auto simp: is_file_def)
    have p: "j \<noteq> []" "key_ok j" "is_dir fs (butlast j)" using ok j(1) by (auto simp: store_ok_def)
    have "key_ok k" "k \<noteq> []" using p mv j(3)
      by (auto simp: rebase_def movable_def key_ok_def dest: in_set_dropD)
    with rebase_parent [OF mv p(1,3)] movable_not_under [OF mv j(1,2)] j(3) show ?thesis by simp
  qed
  moreover have "\<not> is_file ?m k" if "k \<in> set (dirs ?m)" for k
    using that inj ok unfolding is_file_def moved_file moved_dir by (metis store_ok_def is_file_def)
  ultimately show ?thesis unfolding store_ok_def by blast
qed

lemma rename_Inr:
  assumes "store_ok fs" and "rename fs p q = Inr fs'" and "path_key p \<noteq> path_key q"
  shows "fs' = move_tree (path_key p) (path_key q) fs" "movable (path_key p) (path_key q) fs"
proof -
  let ?a = "path_key p" let ?b = "path_key q"
  have shown: "\<not> (\<not> is_dir fs ?a \<and> \<not> is_file fs ?a)" "is_dir fs (butlast ?b)"
    and onto: "is_file fs ?a \<Longrightarrow> \<not> is_dir fs ?b"
    and dir: "\<not> is_file fs ?a \<Longrightarrow> \<not> under ?a ?b \<and> \<not> is_file fs ?b \<and> \<not> under ?b ?a \<and> (is_dir fs ?b \<longrightarrow> children fs ?b = [])"
    and res: "fs' = move_tree ?a ?b fs"
    using assms(2,3) by (auto simp: rename_def Let_def split: if_splits)
  have a: "is_file fs ?a \<Longrightarrow> ?a \<notin> set (dirs fs) \<and> ?a \<noteq> []" using assms(1) by (auto simp: store_ok_def)
  have "\<not> under ?a ?b"
  proof (cases "is_file fs ?a")
    case True
    show ?thesis
    proof
      assume "under ?a ?b"
      then obtain r where r: "?b = ?a @ r" by (auto simp: under_iff)
      with assms(3) have "r \<noteq> []" by simp
      then have "is_dir fs (?a @ butlast r)" using shown(2) r by (simp add: butlast_append)
      then show False using files_no_children [OF assms(1) True, of "butlast r"] a True by (auto simp: is_dir_def)
    qed
  qed (use dir in blast)
  moreover have "\<not> under ?b ?a"
  proof (cases "is_file fs ?a")
    case True
    show ?thesis
    proof
      assume "under ?b ?a"
      then obtain r where r: "?a = ?b @ r" by (auto simp: under_iff)
      with assms(3) have "r \<noteq> []" by simp
      then have "is_dir fs ?b" using under_present [OF assms(1), of ?b r] True r by simp
      with onto True show False by simp
    qed
  qed (use dir in blast)
  moreover have "\<not> is_dir fs (?b @ r) \<and> \<not> is_file fs (?b @ r)" if "r \<noteq> []" for r
    using under_present [OF assms(1), of ?b r] that onto dir
      files_no_children [OF assms(1), of ?b r] by (cases "is_file fs ?a") auto
  moreover have "?a \<noteq> []" "?b \<noteq> []" using calculation(1,2) by (auto simp: under_iff)
  ultimately show "movable ?a ?b fs" "fs' = move_tree ?a ?b fs"
    using shown res by (auto simp: movable_def)
qed

lemma store_ok_rename: "store_ok fs \<Longrightarrow> rename fs p q = Inr fs' \<Longrightarrow> store_ok fs'"
proof (cases "path_key p = path_key q")
  case True
  assume "store_ok fs" "rename fs p q = Inr fs'"
  with True show ?thesis by (auto simp: rename_def Let_def split: if_splits)
next
  case False
  assume "store_ok fs" "rename fs p q = Inr fs'"
  then show ?thesis using rename_Inr [OF _ _ False] store_ok_move by metis
qed

lemma store_ok_rmdir:
  assumes "store_ok fs" "rmdir fs p = Inr fs'"
  shows "store_ok fs'"
proof -
  let ?k = "path_key p"
  have fs': "fs' = fs\<lparr>dirs := filter (\<lambda>d. d \<noteq> ?k) (dirs fs)\<rparr>" and none: "children fs ?k = []"
    using assms(2) by (auto simp: rmdir_def Let_def split: if_splits)
  have "butlast j \<noteq> ?k" if "j \<noteq> []" "j \<in> set (dirs fs) \<or> is_file fs j" for j
    using none children_iff [of "last j" fs ?k] that append_butlast_last_id [OF that(1)] by (metis empty_iff list.set(1))
  then show ?thesis using assms(1) unfolding fs' by (auto simp: store_ok_def is_dir_def is_file_def)
qed

text \<open>What a move does to the files: one under the source is found under the target.\<close>

lemma read_moved:
  assumes "store_ok fs" "movable a b fs" "map_get (files fs) (a @ r) = Some c"
  shows "map_get (files (move_tree a b fs)) (b @ r) = Some c"
proof -
  have ok: "map_wf (files (move_tree a b fs))" using store_ok_move [OF assms(1,2)] by (simp add: store_ok_def)
  have "(a @ r, c) \<in> set (files fs)" using assms(3) by (simp add: map_get_def map_of_SomeD)
  moreover have "a @ r \<noteq> b" using assms(2) by (auto simp: movable_def under_iff)
  ultimately have "(b @ r, c) \<in> set (files (move_tree a b fs))"
    by (force simp: move_tree_def rebase_def under_iff)
  with ok show ?thesis by (simp add: map_get_def map_wf_def)
qed

lemma read_unmoved:
  assumes "store_ok fs" "movable a b fs" "\<not> under a k" "\<not> under b k"
  shows "map_get (files (move_tree a b fs)) k = map_get (files fs) k"
proof -
  have ok: "map_wf (files (move_tree a b fs))" "map_wf (files fs)"
    using store_ok_move [OF assms(1,2)] assms(1) by (simp_all add: store_ok_def)
  have in_iff: "(k, c) \<in> set (files (move_tree a b fs)) \<longleftrightarrow> (k, c) \<in> set (files fs)" for c
  proof
    assume "(k, c) \<in> set (files fs)"
    then show "(k, c) \<in> set (files (move_tree a b fs))"
    proof -
      have "k \<noteq> b" using assms(4) by (auto simp: under_iff)
      moreover have "rebase a b k = k" using assms(3) by (simp add: rebase_def)
      ultimately show ?thesis
        using \<open>(k, c) \<in> set (files fs)\<close> by (auto simp: move_tree_def image_iff intro!: bexI [of _ "(k, c)"])
    qed
  next
    assume "(k, c) \<in> set (files (move_tree a b fs))"
    then obtain j where j: "(j, c) \<in> set (files fs)" "j \<noteq> b" "k = rebase a b j" by (auto simp: move_tree_def)
    have "\<not> under a j" using j(3) assms(4) by (auto simp: rebase_def under_iff)
    with j show "(k, c) \<in> set (files fs)" by (simp add: rebase_def)
  qed
  show ?thesis
    using in_iff ok by (metis map_get_def map_of_eq_None_iff map_of_SomeD map_of_is_SomeI map_wf_def option.exhaust)
qed

section \<open>The interface of a store of texts\<close>

text \<open>
  What a program that reads, changes and writes texts relies on: a text just written is read
  back, and the others are as they were.
\<close>

locale text_store =
  fixes valid :: "'s \<Rightarrow> bool"
    and fetch :: "'s \<Rightarrow> 'p \<Rightarrow> 'e + 'c"
    and put :: "'s \<Rightarrow> 'p \<Rightarrow> 'c \<Rightarrow> 'e + 's"
    and apart :: "'p \<Rightarrow> 'p \<Rightarrow> bool"
  assumes put_valid: "valid s \<Longrightarrow> put s p c = Inr s' \<Longrightarrow> valid s'"
    and fetch_put: "put s p c = Inr s' \<Longrightarrow> fetch s' p = Inr c"
    and fetch_other: "put s p c = Inr s' \<Longrightarrow> apart p q \<Longrightarrow> fetch s' q = Inr d \<longleftrightarrow> fetch s q = Inr d"
begin

lemma rewrite_text:
  assumes "and_then (fetch s p) (\<lambda>c. put s p (f c)) = Inr s'" and "valid s"
  shows "valid s' \<and> (\<exists>c. fetch s p = Inr c \<and> fetch s' p = Inr (f c))"
  using assms put_valid fetch_put by (auto simp: and_then_Inr_iff)

lemma put_twice:
  assumes "put s p c = Inr s1" "put s1 q d = Inr s2" "apart q p"
  shows "fetch s2 p = Inr c \<and> fetch s2 q = Inr d"
  using fetch_put [OF assms(1)] fetch_put [OF assms(2)] fetch_other [OF assms(2,3), of c] by blast

end

interpretation fs: text_store store_ok readFile writeFile "\<lambda>p q. path_key q \<noteq> path_key p"
  by unfold_locales (rule store_ok_write file_read_back file_other; assumption)+

end
