(* ===== verification/BlueprintFiles.thy ===== *)
theory BlueprintFiles
  imports FileStore Lifecycle
begin

text \<open>
  Blueprint documents on disk: the root of the blueprints (\<open>blueprint/utils/blueprint-root.ts\<close>),
  the directory scan (\<open>blueprint/service/scanner.ts\<close>), the index of the README
  (\<open>audit/blueprint-readme-drift.ts\<close>), and the lifecycle applied to a file
  (\<open>blueprint/lifecycle/local.ts\<close>), over the store of \<open>FileStore\<close>.  A call that changes
  files returns the store it leaves behind whether it succeeds or throws.
\<close>

section \<open>The root of the blueprints (blueprint-root.ts)\<close>

definition WEBPRESSO_CONFIG_PATH :: string where "WEBPRESSO_CONFIG_PATH = ''webpresso/config.yaml''"
definition WEBPRESSO_BLUEPRINTS_DIR :: string where "WEBPRESSO_BLUEPRINTS_DIR = ''webpresso/blueprints''"
definition DEFAULT_BLUEPRINTS_DIR :: string where "DEFAULT_BLUEPRINTS_DIR = ''blueprints''"

definition GENERIC_PROJECT_MARKERS :: "string list" where
  "GENERIC_PROJECT_MARKERS = [''.webpressorc.json'', ''pnpm-workspace.yaml'', ''package.json'']"

definition readConfiguredBlueprintsDir :: "fstore \<Rightarrow> string \<Rightarrow> string option" where
  "readConfiguredBlueprintsDir fs projectPath =
     (case readFile fs (path_join [projectPath, ''.webpressorc.json'']) of
        Inl _ \<Rightarrow> None
      | Inr text \<Rightarrow>
          (case json_parse text of
             Some (JObj ms) \<Rightarrow>
               (case map_get ms ''blueprintsDir'' of
                  Some (JStr v) \<Rightarrow> if js_trim v = [] then None else Some (js_trim v)
                | _ \<Rightarrow> None)
           | _ \<Rightarrow> None))"

definition hasWebpressoProjectMarker :: "fstore \<Rightarrow> string \<Rightarrow> bool" where
  "hasWebpressoProjectMarker fs projectPath = existsSync fs (path_join [projectPath, WEBPRESSO_CONFIG_PATH])"

definition hasGenericProjectMarker :: "fstore \<Rightarrow> string \<Rightarrow> bool" where
  "hasGenericProjectMarker fs projectPath =
     list_ex (\<lambda>marker. existsSync fs (path_join [projectPath, marker])) GENERIC_PROJECT_MARKERS"

definition resolveConsumerRoot :: "fstore \<Rightarrow> string \<Rightarrow> string \<Rightarrow> string \<Rightarrow> string option \<Rightarrow> string" where
  "resolveConsumerRoot fs cwd defaultDir webpressoDir project =
     (case project of
        None \<Rightarrow>
          if hasWebpressoProjectMarker fs cwd \<and> existsSync fs (path_resolve cwd [] webpressoDir) then webpressoDir
          else if existsSync fs (path_resolve cwd [] defaultDir) then defaultDir
          else webpressoDir
      | Some projectPath \<Rightarrow>
          (let webpressoPath = path_join [projectPath, webpressoDir];
               genericPath = path_join [projectPath, defaultDir]
           in if hasWebpressoProjectMarker fs projectPath \<and> existsSync fs webpressoPath then webpressoPath
              else if existsSync fs genericPath then genericPath
              else if existsSync fs webpressoPath then webpressoPath
              else if hasGenericProjectMarker fs projectPath \<and> \<not> hasWebpressoProjectMarker fs projectPath
              then genericPath else webpressoPath))"

definition resolveBlueprintRoot :: "fstore \<Rightarrow> string \<Rightarrow> string option \<Rightarrow> string" where
  "resolveBlueprintRoot fs cwd project =
     (let fallback = resolveConsumerRoot fs cwd DEFAULT_BLUEPRINTS_DIR WEBPRESSO_BLUEPRINTS_DIR project
      in case project of
           None \<Rightarrow> fallback
         | Some projectPath \<Rightarrow>
             (case readConfiguredBlueprintsDir fs projectPath of
                Some configured \<Rightarrow> path_join [projectPath, configured]
              | None \<Rightarrow> fallback))"

section \<open>The scan (scanner.ts)\<close>

record scanned =
  sc_path :: string
  sc_slug :: string
  sc_group :: "string option"
  sc_special :: bool                     \<comment> \<open>\<open>isSpecialFolder\<close>\<close>
  sc_specialType :: "string option"      \<comment> \<open>\<open>specialFolderType\<close>\<close>

definition BLUEPRINT_STATUS_FOLDERS :: "string list" where
  "BLUEPRINT_STATUS_FOLDERS = [''draft'', ''planned'', ''parked'', ''in-progress'', ''completed'', ''archived'']"

definition SPECIAL_FOLDERS :: "string list" where
  "SPECIAL_FOLDERS = [''_completed'', ''_future'', ''_deprioritized'']"

definition isSpecialFolder :: "string \<Rightarrow> bool" where
  "isSpecialFolder name \<longleftrightarrow> name \<in> set SPECIAL_FOLDERS"

definition findSpecialFolderType :: "string list \<Rightarrow> string option" where
  "findSpecialFolderType pathSegments = find isSpecialFolder pathSegments"

definition isStatusFolder :: "string \<Rightarrow> bool" where
  "isStatusFolder name \<longleftrightarrow> name \<in> set BLUEPRINT_STATUS_FOLDERS"

text \<open>\<open>path.relative\<close> of two absolute paths.\<close>

definition relative_to :: "string \<Rightarrow> string \<Rightarrow> string" where
  "relative_to base p = path_relative ''/'' base p"

definition md_suffix :: regex where \<comment> \<open>\<open>/\\.md$/i\<close>\<close>
  "md_suffix = sq [chr CHR ''.'', chr_i CHR ''m'', chr_i CHR ''d'', EndText]"

definition without_document :: "string \<Rightarrow> string list \<Rightarrow> string list" where
  "without_document filePat segments =
     (if filePat = BLUEPRINT_OVERVIEW_FILENAME \<or> js_lower filePat = ''readme.md'' then
        (if last segments = filePat then butlast segments else segments)
      else if last segments = filePat
      then butlast segments @ [replace_first md_suffix (\<lambda>_. []) (last segments)]
      else segments)"

definition extractSlugAndGroup :: "string \<Rightarrow> string \<Rightarrow> string \<Rightarrow> string \<times> string option" where
  "extractSlugAndGroup fullPath baseDir filePat =
     (let relPath = relative_to baseDir fullPath
      in case parseBlueprintDocumentRelativePath relPath of
           Some doc \<Rightarrow> (state doc @ ''/'' @ slug doc, Some (state doc))
         | None \<Rightarrow>
             (let relSegments = nonempty_segments relPath
              in if relSegments = [] then ([], None)
                 else
                   (let segments = without_document filePat relSegments
                    in if segments = [] then ([], None)
                       else
                         (let nonSpecial = filter (\<lambda>s. \<not> isSpecialFolder s) segments
                          in (join_with ''/'' segments,
                              if 2 \<le> length nonSpecial then find (\<lambda>s. \<not> isSpecialFolder s) segments
                              else None)))))"

definition shouldSkipEntry :: "string \<Rightarrow> bool" where
  "shouldSkipEntry entry \<longleftrightarrow>
     starts_with entry ''.'' \<or> starts_with entry ''__'' \<or> entry = ''node_modules''"

definition getValidEntries :: "fstore \<Rightarrow> string \<Rightarrow> string list" where
  "getValidEntries fs dir =
     (case readdir fs dir of Inl _ \<Rightarrow> [] | Inr names \<Rightarrow> filter (\<lambda>e. \<not> shouldSkipEntry e) names)"

definition containsHiddenDirectory :: "string \<Rightarrow> bool" where
  "containsHiddenDirectory relPath =
     list_ex (\<lambda>s. starts_with s ''.'' \<and> s \<noteq> [] \<and> s \<noteq> ''.'') (split_char CHR ''/'' relPath)"

definition processPlanFile :: "string \<Rightarrow> string \<Rightarrow> bool \<Rightarrow> string \<Rightarrow> scanned option" where
  "processPlanFile fullPath baseDir includeSpecialFolders filePat =
     (let relPath = relative_to baseDir fullPath
      in if containsHiddenDirectory relPath then None
         else
           (let specialType = findSpecialFolderType (split_char CHR ''/'' relPath)
            in if specialType \<noteq> None \<and> \<not> includeSpecialFolders then None
               else
                 (case extractSlugAndGroup fullPath baseDir filePat of (sl, grp) \<Rightarrow>
                    Some \<lparr>sc_path = fullPath, sc_slug = sl, sc_group = grp,
                          sc_special = (specialType \<noteq> None), sc_specialType = specialType\<rparr>)))"

definition pushed :: "scanned option \<Rightarrow> scanned list \<Rightarrow> scanned list" where
  "pushed plan results = (case plan of None \<Rightarrow> results | Some p \<Rightarrow> results @ [p])"

definition processEntry ::
    "fstore \<Rightarrow> string \<Rightarrow> string \<Rightarrow> bool \<Rightarrow> string \<Rightarrow> string
      \<Rightarrow> scanned list \<times> string list \<Rightarrow> scanned list \<times> string list" where
  "processEntry fs baseDir filePat includeSpecialFolders dir entry acc =
     (case acc of (results, queue) \<Rightarrow>
       (let fullPath = path_join [dir, entry]
        in if \<not> existsSync fs fullPath then (results, queue)
           else if is_dir fs (path_key fullPath) then
             (results, if containsHiddenDirectory (relative_to baseDir fullPath) then queue else queue @ [fullPath])
           else if entry = filePat then
             (pushed (processPlanFile fullPath baseDir includeSpecialFolders filePat) results, queue)
           else if filePat = BLUEPRINT_OVERVIEW_FILENAME \<and> ends_with entry ''.md'' \<and> entry \<noteq> ''README.md'' then
             (let parents = nonempty_segments (relative_to baseDir dir)
              in if length parents = 1 \<and> isStatusFolder (hd parents)
                 then (pushed (processPlanFile fullPath baseDir includeSpecialFolders entry) results, queue)
                 else (results, queue))
           else (results, queue)))"

partial_function (option) scanDirectory ::
  "fstore \<Rightarrow> string \<Rightarrow> string \<Rightarrow> bool \<Rightarrow> string list \<Rightarrow> scanned list \<Rightarrow> scanned list option" where
  [code]: "scanDirectory fs baseDir filePat withSpecial queue results =
     (case queue of [] \<Rightarrow> Some results
      | dir # later \<Rightarrow>
          if dir = [] then scanDirectory fs baseDir filePat withSpecial later results
          else
            (case fold (processEntry fs baseDir filePat withSpecial dir) (getValidEntries fs dir) (results, later) of
               (results', queue') \<Rightarrow> scanDirectory fs baseDir filePat withSpecial queue' results'))"

definition add_path :: "scanned \<Rightarrow> (string, string list) js_map \<Rightarrow> (string, string list) js_map" where
  "add_path r m =
     (case map_get m (sc_slug r) of
        Some paths \<Rightarrow> map_set (sc_slug r) (paths @ [sc_path r]) m
      | None \<Rightarrow> map_set (sc_slug r) [sc_path r] m)"

definition without_duplicates :: "scanned list \<Rightarrow> scanned list throws" where
  "without_duplicates results =
     (case find (\<lambda>(_, paths). 1 < length paths) (fold add_path results []) of
        None \<Rightarrow> Inr results
      | Some (sl, paths) \<Rightarrow>
          Inl (''Duplicate blueprint slug '' @ quoted sl @ '' found in multiple canonical shapes: ''
            @ join_with '', '' paths))"

text \<open>\<open>None\<close> would be a scan that does not end.\<close>

definition scanDocumentDirectory ::
    "fstore \<Rightarrow> string \<Rightarrow> string \<Rightarrow> string \<Rightarrow> bool \<Rightarrow> scanned list throws option" where
  "scanDocumentDirectory fs cwd baseDir filePat withSpecial =
     (let base = (if path_is_absolute baseDir then baseDir else path_resolve cwd cwd baseDir)
      in if \<not> existsSync fs base then Some (Inr [])
         else map_option without_duplicates (scanDirectory fs base filePat withSpecial [base] []))"

definition scanBlueprintDirectory :: "fstore \<Rightarrow> string \<Rightarrow> string \<Rightarrow> bool \<Rightarrow> scanned list throws option" where
  "scanBlueprintDirectory fs cwd baseDir withSpecial =
     scanDocumentDirectory fs cwd baseDir BLUEPRINT_OVERVIEW_FILENAME withSpecial"

section \<open>The index of the README (blueprint-readme-drift.ts)\<close>

definition BEGIN_MARKER :: string where
  "BEGIN_MARKER =
     ''<!-- BEGIN: blueprint-index (generated by '' @ [CHR 0x60] @ ''wp audit blueprint-readme-drift --fix''
       @ [CHR 0x60] @ '') -->''"

definition END_MARKER :: string where
  "END_MARKER = ''<!-- END: blueprint-index -->''"

record readme_audit =
  ra_ok :: bool
  ra_violations :: "(string \<times> string) list"

fun index_of :: "string \<Rightarrow> string \<Rightarrow> nat option" where
  "index_of [] p = (if p = [] then Some 0 else None)"
| "index_of (c # s) p = (if starts_with (c # s) p then Some 0 else map_option Suc (index_of s p))"

datatype readme_removal = Malformed | No_block | Removed string

definition removeRetiredBlock :: "string \<Rightarrow> readme_removal" where
  "removeRetiredBlock markdown =
     (case (index_of markdown BEGIN_MARKER, index_of markdown END_MARKER) of
        (None, None) \<Rightarrow> No_block
      | (None, Some _) \<Rightarrow> Malformed
      | (Some _, None) \<Rightarrow> Malformed
      | (Some start, Some finish) \<Rightarrow>
          if finish < start then Malformed
          else
            Removed
              (replace_first (Seq (star (chr nl)) EndText) (\<lambda>_. [nl, nl]) (take start markdown)
               @ replace_first (Seq StartText (star (chr nl))) (\<lambda>_. [])
                   (drop (finish + length END_MARKER) markdown)))"

definition staleMessage :: "string \<Rightarrow> string" where
  "staleMessage relPath =
     relPath @ '' contains the retired generated blueprint index block '' @ em_dash_str
       @ '' run '' @ [squote] @ ''wp audit blueprint-readme-drift --fix'' @ [squote] @ '' to remove it''"

definition resolveBlueprintReadmePath :: "fstore \<Rightarrow> string \<Rightarrow> string" where
  "resolveBlueprintReadmePath fs cwd = path_join [resolveBlueprintRoot fs cwd (Some cwd), ''README.md'']"

definition blueprintReadmeRelativePath :: "fstore \<Rightarrow> string \<Rightarrow> string" where
  "blueprintReadmeRelativePath fs cwd =
     forward_slashes (path_relative cwd cwd (resolveBlueprintReadmePath fs cwd))"

text \<open>The audit with the store it leaves; \<open>Inl\<close> if reading or writing the file throws.\<close>

definition auditBlueprintReadmeDrift :: "fstore \<Rightarrow> string \<Rightarrow> bool \<Rightarrow> (readme_audit \<times> fstore) throws" where
  "auditBlueprintReadmeDrift fs cwd fix_it =
     (let readmePath = resolveBlueprintReadmePath fs cwd; relPath = blueprintReadmeRelativePath fs cwd
      in if \<not> existsSync fs readmePath then
           Inr (\<lparr>ra_ok = False, ra_violations = [(relPath, relPath @ '' is missing'')]\<rparr>, fs)
         else
           and_then (readFile fs readmePath) (\<lambda>current.
             (case removeRetiredBlock current of
                Malformed \<Rightarrow>
                  Inr (\<lparr>ra_ok = False, ra_violations =
                         [(relPath, relPath @ '' has malformed retired blueprint index markers; remove the block manually'')]\<rparr>, fs)
              | No_block \<Rightarrow> Inr (\<lparr>ra_ok = True, ra_violations = []\<rparr>, fs)
              | Removed updated \<Rightarrow>
                  if fix_it then
                    and_then (writeFile fs readmePath updated) (\<lambda>fs'.
                      Inr (\<lparr>ra_ok = True, ra_violations = []\<rparr>, fs'))
                  else Inr (\<lparr>ra_ok = False, ra_violations = [(relPath, staleMessage relPath)]\<rparr>, fs))))"

definition refreshBlueprintReadmeIndex :: "fstore \<Rightarrow> string \<Rightarrow> fstore throws" where
  "refreshBlueprintReadmeIndex fs cwd =
     (if \<not> existsSync fs (resolveBlueprintReadmePath fs cwd) then Inr fs
      else
        and_then (auditBlueprintReadmeDrift fs cwd True) (\<lambda>(result, fs').
          if ra_ok result then Inr fs'
          else Inl (join_with [nl] (map (\<lambda>(f, m). f @ '': '' @ m) (ra_violations result)))))"

section \<open>Lifecycle on files (lifecycle/local.ts)\<close>

definition isStatusSegment :: "string \<Rightarrow> bool" where
  "isStatusSegment s \<longleftrightarrow> s \<in> {''draft'', ''planned'', ''parked'', ''in-progress'', ''completed'', ''archived''}"

definition relativeBlueprintSlug :: "string \<Rightarrow> string" where
  "relativeBlueprintSlug sl =
     (case split_char CHR ''/'' sl of
        s # t # ts \<Rightarrow> if isStatusSegment s then join_with ''/'' (t # ts) else sl
      | _ \<Rightarrow> sl)"

definition isValidBlueprintSlug :: "string \<Rightarrow> bool" where
  "isValidBlueprintSlug sl \<longleftrightarrow>
     js_trim sl \<noteq> [] \<and> js_trim sl = sl \<and> list_all (re_test slug_segment_pattern) (split_char CHR ''/'' sl)"

definition assertValidBlueprintSlug :: "string \<Rightarrow> unit throws" where
  "assertValidBlueprintSlug sl =
     (if isValidBlueprintSlug sl then Inr ()
      else Inl (''Invalid blueprint slug: '' @ sl
        @ ''. Use lowercase letters, numbers, and hyphen-separated path segments.''))"

definition choose_match :: "string \<Rightarrow> scanned list \<Rightarrow> (string \<times> string) throws" where
  "choose_match sl entries =
     (let exact = find (\<lambda>e. sc_slug e = sl) entries;
          suffixes = filter (\<lambda>e. ends_with (sc_slug e) (''/'' @ sl) \<or> sc_slug e = sl) entries
      in case (exact, suffixes) of
           (None, []) \<Rightarrow>
             Inl (''Blueprint '' @ sl @ '' not found.'' @ [nl] @ ''Available blueprints: ''
               @ or_else (join_with '', '' (js_sort code_unit_cmp (map sc_slug entries))) ''none'')
         | (None, [e]) \<Rightarrow> Inr (sc_path e, sc_slug e)
         | (None, _) \<Rightarrow>
             Inl (''Blueprint slug '' @ quoted sl @ '' is ambiguous across lifecycle folders. Matches: ''
               @ join_with '', '' (map sc_slug suffixes))
         | (Some e, _) \<Rightarrow> Inr (sc_path e, sc_slug e))"

definition resolveBlueprintFile :: "fstore \<Rightarrow> string \<Rightarrow> string \<Rightarrow> string \<Rightarrow> (string \<times> string) throws option" where
  "resolveBlueprintFile fs cwd projectRoot sl =
     (case assertValidBlueprintSlug sl of
        Inl e \<Rightarrow> Some (Inl e)
      | Inr _ \<Rightarrow>
          map_option (\<lambda>r. and_then r (choose_match sl))
            (scanBlueprintDirectory fs cwd (resolveBlueprintRoot fs cwd (Some projectRoot)) True))"

text \<open>Errors of this call are ignored.\<close>

definition tryRemoveEmptyParent :: "fstore \<Rightarrow> string \<Rightarrow> fstore" where
  "tryRemoveEmptyParent fs dir =
     (case readdir fs dir of
        Inr [] \<Rightarrow> (case rmdir fs dir of Inr fs' \<Rightarrow> fs' | Inl _ \<Rightarrow> fs)
      | _ \<Rightarrow> fs)"

record write_result =
  wr_result :: lifecycle_result
  wr_moved :: bool
  wr_path :: string
  wr_slug :: string

text \<open>A move of \<open>source\<close> to \<open>target\<close> whose directory is made first.\<close>

definition move_into :: "fstore \<Rightarrow> string \<Rightarrow> string \<Rightarrow> fstore throws \<times> fstore" where
  "move_into fs source target =
     (case mkdir_recursive fs (key_dirname target) of
        Inl e \<Rightarrow> (Inl e, fs)
      | Inr fs1 \<Rightarrow>
          (case rename fs1 source target of
             Inl e \<Rightarrow> (Inl e, fs1)
           | Inr fs2 \<Rightarrow>
               (let fs3 = tryRemoveEmptyParent fs2 (key_dirname source) in (Inr fs3, fs3))))"

text \<open>What follows the move: the document is written and the README refreshed.\<close>

definition write_document ::
    "fstore \<Rightarrow> string \<Rightarrow> string \<Rightarrow> string \<Rightarrow> string \<Rightarrow> unit throws \<times> fstore" where
  "write_document fs cwd projectRoot targetPath markdown =
     (case writeFile fs targetPath markdown of
        Inl e \<Rightarrow> (Inl e, fs)
      | Inr fs1 \<Rightarrow>
          (case refreshBlueprintReadmeIndex fs1 projectRoot of
             Inl e \<Rightarrow> (Inl e, fs1)
           | Inr fs2 \<Rightarrow> (Inr (), fs2)))"

definition lifecycle_write ::
    "env \<Rightarrow> fstore \<Rightarrow> string \<Rightarrow> string \<Rightarrow> string \<times> string \<Rightarrow> lifecycle_result
      \<Rightarrow> write_result throws \<times> fstore" where
  "lifecycle_write en fs cwd projectRoot location mutation =
     (case location of (source, sl) \<Rightarrow>
       (let baseDir = resolveBlueprintRoot fs cwd (Some projectRoot);
            relativeSlug = relativeBlueprintSlug sl;
            isFlatFile = (path_basename source \<noteq> ''_overview.md'');
            sourceDir = key_dirname source;
            st = status_str (targetStatus mutation);
            targetDir = path_join [baseDir, st, relativeSlug];
            targetPath = (if isFlatFile then flat_document_path baseDir st relativeSlug
                          else folder_document_path baseDir st relativeSlug);
            moved = (if isFlatFile then source \<noteq> targetPath else sourceDir \<noteq> targetDir)
        in case (if \<not> moved then (Inr fs, fs)
                 else if isFlatFile then move_into fs source targetPath
                 else move_into fs sourceDir targetDir) of
             (Inl e, fs1) \<Rightarrow> (Inl e, fs1)
           | (Inr fs2, _) \<Rightarrow>
               (case write_document fs2 cwd projectRoot targetPath (r_markdown mutation) of
                  (Inl e, fs3) \<Rightarrow> (Inl e, fs3)
                | (Inr _, fs3) \<Rightarrow>
                    (Inr \<lparr>wr_result = mutation, wr_moved = moved, wr_path = targetPath, wr_slug = sl\<rparr>, fs3))))"

definition applyBlueprintLifecycleToFile ::
    "env \<Rightarrow> fstore \<Rightarrow> string \<Rightarrow> string \<Rightarrow> string \<Rightarrow> intent \<Rightarrow> (write_result throws \<times> fstore) option" where
  "applyBlueprintLifecycleToFile en fs cwd projectRoot sl i =
     map_option (\<lambda>r.
       case and_then r (\<lambda>location.
              and_then (readFile fs (fst location)) (\<lambda>raw.
              and_then (applyBlueprintLifecycle en raw (snd location) i) (\<lambda>mutation. Inr (location, mutation)))) of
         Inl e \<Rightarrow> (Inl e, fs)
       | Inr (location, mutation) \<Rightarrow> lifecycle_write en fs cwd projectRoot location mutation)
       (resolveBlueprintFile fs cwd projectRoot sl)"

end
