(* ===== verification/ScanProps.thy ===== *)
theory ScanProps
  imports BlueprintFiles SampleDocs
begin

text \<open>
  The directory scan: it ends on every store, and what it returns is exactly the documents of the
  visible directories.
\<close>

section \<open>One entry\<close>

definition visible :: "key \<Rightarrow> bool" where
  "visible r \<longleftrightarrow> (\<forall>s\<in>set r. \<not> shouldSkipEntry s)"

lemma visible_simps [simp]:
  "visible []" "visible (s # r) \<longleftrightarrow> \<not> shouldSkipEntry s \<and> visible r"
  "visible (q @ r) \<longleftrightarrow> visible q \<and> visible r"
  by (auto simp: visible_def)

text \<open>The files the scan takes for blueprints, by their path below the root.\<close>

definition document_at :: "key \<Rightarrow> bool" where
  "document_at r \<longleftrightarrow>
     r \<noteq> [] \<and> (last r = BLUEPRINT_OVERVIEW_FILENAME
       \<or> length r = 2 \<and> isStatusFolder (hd r) \<and> ends_with (last r) ''.md'' \<and> last r \<noteq> ''README.md'')"

lemma relative_to_of: "key_ok k \<Longrightarrow> key_ok r \<Longrightarrow> relative_to (path_of k) (path_of (k @ r)) = join_with ''/'' r"
  by (simp add: relative_to_def path_relative_of)

lemma visible_not_hidden: "key_ok r \<Longrightarrow> visible r \<Longrightarrow> \<not> containsHiddenDirectory (join_with ''/'' r)"
  by (auto simp: containsHiddenDirectory_def split_key list_ex_iff visible_def shouldSkipEntry_def)

lemma nonempty_key: "key_ok r \<Longrightarrow> nonempty_segments (join_with ''/'' r) = r"
  by (auto simp: nonempty_segments_def split_key key_ok_def name_ok_def plain_name_def intro!: filter_True)

lemma join_name: "key_ok k \<Longrightarrow> name_ok e \<Longrightarrow> path_join [path_of k, e] = path_of (k @ [e])"
  using path_join_of [of k "[[e]]"] by simp

definition the_plan :: "key \<Rightarrow> key \<Rightarrow> scanned list" where
  "the_plan kb r =
     (case processPlanFile (path_of (kb @ r)) (path_of kb) True
             (if last r = BLUEPRINT_OVERVIEW_FILENAME then BLUEPRINT_OVERVIEW_FILENAME else last r) of
        None \<Rightarrow> [] | Some p \<Rightarrow> [p])"

lemma the_plan_path: "key_ok kb \<Longrightarrow> key_ok r \<Longrightarrow> visible r \<Longrightarrow> map sc_path (the_plan kb r) = [path_of (kb @ r)]"
  using visible_not_hidden [of r]
  by (simp add: the_plan_def processPlanFile_def relative_to_of Let_def split: prod.split)

lemma process_entry:
  assumes ok: "store_ok fs" "key_ok kb" and e: "e \<in> set (children fs (kb @ r))" "\<not> shouldSkipEntry e"
    and r: "visible r"
  shows "processEntry fs (path_of kb) BLUEPRINT_OVERVIEW_FILENAME True (path_of (kb @ r)) e (results, queue) =
     (if is_dir fs (kb @ r @ [e]) then (results, queue @ [path_of (kb @ r @ [e])])
      else if document_at (r @ [e]) then (results @ the_plan kb (r @ [e]), queue)
      else (results, queue))"
proof -
  have there: "kb @ r @ [e] \<in> set (dirs fs) \<or> is_file fs (kb @ r @ [e])"
    using e(1) children_iff [of e fs "kb @ r"] by simp
  then have n: "name_ok e" "key_ok (kb @ r)" using store_ok_parent [OF ok(1), of "kb @ r" e] by auto
  then have k: "key_ok (kb @ r @ [e])" "key_ok (r @ [e])" "key_ok r" using ok(2) by auto
  have joined: "path_join [path_of (kb @ r), e] = path_of (kb @ r @ [e])" using join_name [OF n(2,1)] by simp
  have hidden: "\<not> containsHiddenDirectory (relative_to (path_of kb) (path_of (kb @ r @ [e])))"
    using visible_not_hidden [OF k(2)] relative_to_of [OF ok(2) k(2)] r e(2) by simp
  have parents: "nonempty_segments (relative_to (path_of kb) (path_of (kb @ r))) = r"
    using relative_to_of [OF ok(2) k(3)] nonempty_key [OF k(3)] by simp
  have ex: "existsSync fs (path_of (kb @ r @ [e]))" using there k by (auto simp: existsSync_def is_dir_def)
  show ?thesis
    unfolding processEntry_def prod.case Let_def joined parents path_key_of [OF k(1)]
    using ex hidden
    by (cases "processPlanFile (path_of (kb @ r @ [e])) (path_of kb) True e")
      (auto simp: document_at_def the_plan_def pushed_def hd_append length_Suc_conv)
qed

section \<open>One directory\<close>

definition entries_at :: "fstore \<Rightarrow> key \<Rightarrow> string list" where
  "entries_at fs k = filter (\<lambda>e. \<not> shouldSkipEntry e) (children fs k)"

definition subdirs :: "fstore \<Rightarrow> key \<Rightarrow> key list" where
  "subdirs fs k = map (\<lambda>e. k @ [e]) (filter (\<lambda>e. is_dir fs (k @ [e])) (entries_at fs k))"

definition documents_in :: "fstore \<Rightarrow> key \<Rightarrow> key \<Rightarrow> scanned list" where
  "documents_in fs kb r =
     concat (map (\<lambda>e. the_plan kb (r @ [e]))
       (filter (\<lambda>e. \<not> is_dir fs (kb @ r @ [e]) \<and> document_at (r @ [e])) (entries_at fs (kb @ r))))"

lemma process_entries:
  assumes "store_ok fs" "key_ok kb" "visible r" "set es \<subseteq> set (entries_at fs (kb @ r))"
  shows "fold (processEntry fs (path_of kb) BLUEPRINT_OVERVIEW_FILENAME True (path_of (kb @ r))) es (results, queue) =
     (results @ concat (map (\<lambda>e. the_plan kb (r @ [e]))
        (filter (\<lambda>e. \<not> is_dir fs (kb @ r @ [e]) \<and> document_at (r @ [e])) es)),
      queue @ map path_of (map (\<lambda>e. kb @ r @ [e]) (filter (\<lambda>e. is_dir fs (kb @ r @ [e])) es)))"
  using assms(4)
proof (induction es arbitrary: results queue)
  case (Cons e es)
  then have "e \<in> set (children fs (kb @ r))" "\<not> shouldSkipEntry e" by (auto simp: entries_at_def)
  then show ?case using Cons process_entry [OF assms(1,2) _ _ assms(3)] by simp
qed simp

lemma valid_entries:
  "key_ok k \<Longrightarrow> is_dir fs k \<Longrightarrow> getValidEntries fs (path_of k) = entries_at fs k"
  by (simp add: getValidEntries_def readdir_def entries_at_def)

lemma scan_step:
  assumes "store_ok fs" "key_ok (kb @ r)" "visible r" "is_dir fs (kb @ r)"
  shows "scanDirectory fs (path_of kb) BLUEPRINT_OVERVIEW_FILENAME True (path_of (kb @ r) # later) results =
     scanDirectory fs (path_of kb) BLUEPRINT_OVERVIEW_FILENAME True
       (later @ map path_of (subdirs fs (kb @ r))) (results @ documents_in fs kb r)"
proof -
  have ne: "path_of (kb @ r) \<noteq> []" by (simp add: path_of_def)
  have kb: "key_ok kb" using assms(2) by simp
  show ?thesis
    using ne process_entries [OF assms(1) kb assms(3) order_refl, of results later]
    by (subst scanDirectory.simps)
      (simp add: valid_entries [OF assms(2,4)] subdirs_def documents_in_def comp_def)
qed

section \<open>The loop\<close>

text \<open>The directories at or under a key, with which a scan that starts there shrinks.\<close>

definition below :: "fstore \<Rightarrow> key \<Rightarrow> key set" where
  "below fs q = insert q {k \<in> set (dirs fs). under q k}"

lemma finite_below [simp]: "finite (below fs q)"
  by (simp add: below_def)

lemma subdirs_iff: "k \<in> set (subdirs fs q) \<longleftrightarrow> (\<exists>e. k = q @ [e] \<and> \<not> shouldSkipEntry e \<and> k \<in> set (dirs fs))"
  by (auto simp: subdirs_def entries_at_def is_dir_def children_iff)

lemma distinct_subdirs: "distinct (subdirs fs q)"
  by (simp add: subdirs_def entries_at_def children_def distinct_map inj_on_def)

lemma below_subdirs:
  "sum_list (map (\<lambda>k. card (below fs k)) (subdirs fs q)) < card (below fs q)"
proof -
  let ?S = "set (subdirs fs q)"
  have disjoint: "below fs j \<inter> below fs k = {}" if "j \<in> ?S" "k \<in> ?S" "j \<noteq> k" for j k
    using that by (auto simp: subdirs_iff below_def under_iff)
  have "sum_list (map (\<lambda>k. card (below fs k)) (subdirs fs q)) = (\<Sum>k\<in>?S. card (below fs k))"
    by (simp add: sum_list_distinct_conv_sum_set distinct_subdirs)
  also have "\<dots> = card (\<Union>k\<in>?S. below fs k)"
    using disjoint by (intro card_UN_disjoint [symmetric]) auto
  also have "\<dots> < card (below fs q)"
  proof (rule psubset_card_mono)
    have "q \<notin> (\<Union>k\<in>?S. below fs k)" by (auto simp: subdirs_iff below_def under_iff)
    moreover have "(\<Union>k\<in>?S. below fs k) \<subseteq> below fs q" by (auto simp: subdirs_iff below_def under_iff)
    ultimately show "(\<Union>k\<in>?S. below fs k) \<subset> below fs q" by (auto simp: below_def)
  qed simp
  finally show ?thesis .
qed

definition found_under :: "fstore \<Rightarrow> key \<Rightarrow> key \<Rightarrow> string set" where
  "found_under fs kb r =
     {path_of (kb @ r @ t) | t. t \<noteq> [] \<and> visible t \<and> is_file fs (kb @ r @ t) \<and> document_at (r @ t)}"

lemma documents_paths:
  assumes "store_ok fs" "key_ok kb" "visible r"
  shows "set (map sc_path (documents_in fs kb r)) =
     {path_of (kb @ r @ [e]) | e. \<not> shouldSkipEntry e \<and> is_file fs (kb @ r @ [e]) \<and> document_at (r @ [e])}"
proof -
  have one: "sc_path ` set (the_plan kb (r @ [e])) = {path_of (kb @ r @ [e])}"
    if "e \<in> set (entries_at fs (kb @ r))" for e
  proof -
    have "key_ok (r @ [e])" "visible (r @ [e])"
      using that assms store_ok_parent [OF assms(1), of "kb @ r" e]
      by (auto simp: entries_at_def children_iff)
    from the_plan_path [OF assms(2) this] show ?thesis by (metis append.assoc list.set_map list.simps(15) set_empty2 list.set(1))
  qed
  have file_iff: "is_file fs (kb @ r @ [e]) \<longleftrightarrow> e \<in> set (children fs (kb @ r)) \<and> \<not> is_dir fs (kb @ r @ [e])" for e
    using assms(1) by (auto simp: children_iff is_dir_def store_ok_def)
  show ?thesis
    unfolding documents_in_def set_map set_concat image_UN
    using one file_iff by (auto simp: entries_at_def)
qed

lemma found_under_step:
  assumes "store_ok fs" "key_ok kb" "visible r"
  shows "found_under fs kb r =
     set (map sc_path (documents_in fs kb r))
     \<union> (\<Union>k\<in>set (subdirs fs (kb @ r)). found_under fs kb (drop (length kb) k))"
proof (intro equalityI subsetI)
  fix p
  assume "p \<in> found_under fs kb r"
  then obtain t where t: "p = path_of (kb @ r @ t)" "t \<noteq> []" "visible t" "is_file fs (kb @ r @ t)" "document_at (r @ t)"
    by (auto simp: found_under_def)
  obtain e u where eu: "t = e # u" using t(2) by (cases t) auto
  show "p \<in> set (map sc_path (documents_in fs kb r))
     \<union> (\<Union>k\<in>set (subdirs fs (kb @ r)). found_under fs kb (drop (length kb) k))"
  proof (cases "u = []")
    case True
    then show ?thesis using t eu unfolding documents_paths [OF assms] by auto
  next
    case False
    then have "is_dir fs (kb @ r @ [e])"
      using under_present [OF assms(1), of "kb @ r @ [e]" u] t(4) eu by simp
    then have "kb @ r @ [e] \<in> set (subdirs fs (kb @ r))" using t(3) eu by (auto simp: subdirs_iff is_dir_def)
    moreover have "p \<in> found_under fs kb (drop (length kb) (kb @ r @ [e]))"
      using t eu False by (auto simp: found_under_def)
    ultimately show ?thesis by blast
  qed
next
  fix p
  assume "p \<in> set (map sc_path (documents_in fs kb r))
     \<union> (\<Union>k\<in>set (subdirs fs (kb @ r)). found_under fs kb (drop (length kb) k))"
  then consider "p \<in> set (map sc_path (documents_in fs kb r))"
    | e where "\<not> shouldSkipEntry e" "p \<in> found_under fs kb (r @ [e])" by (auto simp: subdirs_iff)
  then show "p \<in> found_under fs kb r"
  proof cases
    case 1
    then show ?thesis unfolding documents_paths [OF assms] found_under_def by fastforce
  next
    case 2
    then show ?thesis unfolding found_under_def by fastforce
  qed
qed

lemma scan_loop:
  assumes "store_ok fs" "key_ok kb" and "\<forall>r\<in>set rs. visible r \<and> is_dir fs (kb @ r)"
  shows "\<exists>found. scanDirectory fs (path_of kb) BLUEPRINT_OVERVIEW_FILENAME True (map (\<lambda>r. path_of (kb @ r)) rs) results
       = Some (results @ found)
     \<and> set (map sc_path found) = (\<Union>r\<in>set rs. found_under fs kb r)"
  using assms(3)
proof (induction "sum_list (map (\<lambda>r. card (below fs (kb @ r))) rs)" arbitrary: rs results rule: less_induct)
  case less
  show ?case
  proof (cases rs)
    case Nil
    then show ?thesis by (subst scanDirectory.simps) simp
  next
    case (Cons r later)
    let ?new = "map (drop (length kb)) (subdirs fs (kb @ r))"
    have r: "visible r" "is_dir fs (kb @ r)" using less.prems Cons by auto
    have k: "key_ok (kb @ r)" using r(2) assms(1,2) by (auto simp: is_dir_def store_ok_def)
    have new: "map (\<lambda>r. kb @ r) ?new = subdirs fs (kb @ r)"
      by (auto simp: comp_def subdirs_iff intro!: map_idI)
    have smaller: "sum_list (map (\<lambda>r. card (below fs (kb @ r))) (later @ ?new))
        < sum_list (map (\<lambda>r. card (below fs (kb @ r))) rs)"
    proof -
      have same: "map (\<lambda>r. card (below fs (kb @ r))) ?new = map (\<lambda>k. card (below fs k)) (subdirs fs (kb @ r))"
        using arg_cong [OF new, of "map (\<lambda>k. card (below fs k))"] by (simp add: comp_def)
      show ?thesis
        unfolding Cons map_append sum_list_append same list.map sum_list.Cons
        using below_subdirs [of fs "kb @ r"] by linarith
    qed
    have "\<forall>r\<in>set (later @ ?new). visible r \<and> is_dir fs (kb @ r)"
      using less.prems Cons r by (auto simp: subdirs_iff is_dir_def)
    from less.hyps [OF smaller this, of "results @ documents_in fs kb r"]
    obtain found where f:
      "scanDirectory fs (path_of kb) BLUEPRINT_OVERVIEW_FILENAME True (map (\<lambda>r. path_of (kb @ r)) (later @ ?new))
         (results @ documents_in fs kb r) = Some ((results @ documents_in fs kb r) @ found)"
      "set (map sc_path found) = (\<Union>r\<in>set (later @ ?new). found_under fs kb r)" by blast
    have paths: "map (\<lambda>r. path_of (kb @ r)) ?new = map path_of (subdirs fs (kb @ r))"
      using arg_cong [OF new, of "map path_of"] by (simp add: comp_def)
    have "scanDirectory fs (path_of kb) BLUEPRINT_OVERVIEW_FILENAME True (map (\<lambda>r. path_of (kb @ r)) rs) results
        = Some (results @ documents_in fs kb r @ found)"
      using f(1) unfolding Cons list.map(2) scan_step [OF assms(1) k r] map_append paths append_assoc .
    moreover have "set (map sc_path (documents_in fs kb r @ found)) = (\<Union>r\<in>set rs. found_under fs kb r)"
      using f(2) Cons found_under_step [OF assms(1,2) r(1)] by auto
    ultimately show ?thesis by blast
  qed
qed

section \<open>The scan\<close>

lemma found_under_root: "found_under fs kb [] = {path_of (kb @ r) | r. visible r \<and> is_file fs (kb @ r) \<and> document_at r}"
  by (auto simp: found_under_def document_at_def)


section \<open>Slugs are unique\<close>

lemma add_paths:
  "map_get (fold add_path rs m) sl =
     (let paths = map sc_path (filter (\<lambda>r. sc_slug r = sl) rs)
      in case map_get m sl of Some old \<Rightarrow> Some (old @ paths) | None \<Rightarrow> if paths = [] then None else Some paths)"
proof (induction rs arbitrary: m)
  case (Cons r rs)
  show ?case
    unfolding fold_simps Cons.IH
    by (auto simp: add_path_def Let_def split: option.splits)
qed (simp split: option.split)

lemma add_paths_wf: "map_wf m \<Longrightarrow> map_wf (fold add_path rs m)"
  by (induction rs arbitrary: m) (auto simp: add_path_def split: option.split)

lemma unique_slug:
  assumes "without_duplicates rs = Inr rs'" "r \<in> set rs'" "r' \<in> set rs'" "sc_slug r = sc_slug r'"
  shows "sc_path r = sc_path r' \<and> rs' = rs \<and> filter (\<lambda>x. sc_slug x = sc_slug r) rs = [r]"
proof -
  have rs: "rs' = rs" and none: "find (\<lambda>(_, paths). 1 < length paths) (fold add_path rs []) = None"
    using assms(1) by (auto simp: without_duplicates_def split: option.splits)
  let ?same = "filter (\<lambda>x. sc_slug x = sc_slug r) rs"
  have "map_get (fold add_path rs []) (sc_slug r) = Some (map sc_path ?same)"
    using assms(2) rs by (auto simp: add_paths Let_def filter_empty_conv)
  then have "(sc_slug r, map sc_path ?same) \<in> set (fold add_path rs [])" by (simp add: map_get_def map_of_SomeD)
  then have "length ?same \<le> 1" using none by (fastforce simp: find_None_iff)
  moreover have "r \<in> set ?same" "r' \<in> set ?same" using assms(2-4) rs by auto
  ultimately have "?same = [r]" "r' = r" by (cases ?same; auto)+
  with rs show ?thesis by simp
qed

section \<open>A project\<close>

text \<open>Two documents named \<open>a\<close>, one still a draft, one in progress.\<close>

definition crowded :: fstore where
  "crowded =
     \<lparr>files = [([''p'', ''blueprints'', ''draft'', ''a.md''], todo_doc),
               ([''p'', ''blueprints'', ''in-progress'', ''a.md''], ''old'')],
      dirs = [[''p''], [''p'', ''blueprints''], [''p'', ''blueprints'', ''draft''],
              [''p'', ''blueprints'', ''in-progress'']]\<rparr>"

lemma crowded_ok: "store_ok crowded"
proof -
  have "\<forall>k\<in>set (dirs crowded) \<union> set (map fst (files crowded)). k \<noteq> [] \<and> key_ok k \<and> is_dir crowded (butlast k)"
    by (simp add: crowded_def name_ok_def plain_name_def is_dir_def)
  moreover have "map_wf (files crowded)" "distinct (dirs crowded)" "\<forall>k\<in>set (dirs crowded). \<not> is_file crowded k"
    by (simp_all add: crowded_def map_wf_def is_file_def map_has_def)
  ultimately show ?thesis by (auto simp: store_ok_def is_file_def map_has_def)
qed

definition draft_a :: string where "draft_a = ''/p/blueprints/draft/a.md''"
definition started_a :: string where "started_a = ''/p/blueprints/in-progress/a.md''"


end
