(* ===== verification/LocalProps.thy ===== *)
theory LocalProps
  imports ScanProps
begin

text \<open>
  The lifecycle applied to a file: where the new text is found afterwards, and a document that is
  overwritten on the way.
\<close>

section \<open>Keys of joined paths\<close>

lemma path_key_normalize:
  assumes "path_is_absolute s"
  shows "path_key (path_normalize s) = path_key s" "path_is_absolute (path_normalize s)"
proof -
  let ?k = "path_key s"
  have s: "s \<noteq> []" using assms by (auto simp: path_is_absolute_def starts_with_def)
  have "path_key (path_of ?k @ ''/'') = ?k"
  proof -
    have "path_segments False (path_of ?k @ ''/'') = norm_segments False [] (split_char CHR ''/'' (path_of ?k) @ [[]])"
      using split_char_seam [of "CHR ''/''" "path_of ?k" "[]"] by (simp add: path_segments_def)
    also have "\<dots> = ?k"
    proof -
      have "\<forall>x\<in>set ?k. name_ok x" using path_key_ok [of s] by (simp only: key_ok_def)
      then show ?thesis
        unfolding split_path_of [OF path_key_ok]
        by (subst norm_segments_names_only) (auto simp: filter_key)
    qed
    finally show ?thesis by (simp add: path_key_def)
  qed
  moreover have "path_normalize s = path_of ?k \<or> path_normalize s = path_of ?k @ ''/''"
    using s assms by (auto simp: path_normalize_def Let_def path_of_def path_key_def)
  ultimately show "path_key (path_normalize s) = ?k" using path_key_of [OF path_key_ok, of s] by metis
  show "path_is_absolute (path_normalize s)"
    using \<open>path_normalize s = path_of ?k \<or> _\<close> by (auto simp: path_is_absolute_def path_of_def starts_with_def)
qed

lemma absolute_not_Nil: "path_is_absolute p \<Longrightarrow> p \<noteq> []"
  by (auto simp: path_is_absolute_def starts_with_def)

lemma absolute_join_with: "path_is_absolute p \<Longrightarrow> path_is_absolute (join_with ''/'' (p # ps))"
  by (cases ps) (auto simp: path_is_absolute_def starts_with_def prefix_def)

lemma join_present:
  "path_is_absolute p \<Longrightarrow> path_join (p # ps) = path_normalize (join_with ''/'' (p # filter (\<lambda>x. x \<noteq> []) ps))"
  by (auto simp: path_join_def absolute_not_Nil)

lemma absolute_path_join: "path_is_absolute p \<Longrightarrow> path_is_absolute (path_join (p # ps))"
  using path_key_normalize(2) absolute_join_with by (simp add: join_present)

text \<open>The last segment of a joined path is that of its last part.\<close>

lemma last_joined:
  assumes "path_is_absolute p" "q \<noteq> []" "name_ok (last (split_char CHR ''/'' q))"
  shows "path_key (path_join (p # ps @ [q])) \<noteq> []"
    "last (path_key (path_join (p # ps @ [q]))) = last (split_char CHR ''/'' q)"
proof -
  let ?ps = "filter (\<lambda>x. x \<noteq> []) ps" let ?n = "last (split_char CHR ''/'' q)"
  obtain xs where xs: "split_char CHR ''/'' q = xs @ [?n]"
    using append_butlast_last_id [OF split_char_not_Nil] by metis
  then have "split_char CHR ''/'' (join_with ''/'' (p # ?ps @ [q]))
      = (concat (map (split_char CHR ''/'') (p # ?ps)) @ xs) @ [?n]"
    unfolding split_char_join [of "p # ?ps @ [q]" "CHR ''/''", simplified] by simp
  then have "path_key (join_with ''/'' (p # ?ps @ [q]))
      = norm_segments False [] (concat (map (split_char CHR ''/'') (p # ?ps)) @ xs) @ [?n]"
    using norm_segments_append_key [of "[?n]" False "[]"] assms(3)
    by (simp only: path_key_def path_segments_def key_ok_simps simp_thms)
  moreover have "path_key (path_join (p # ps @ [q])) = path_key (join_with ''/'' (p # ?ps @ [q]))"
    using join_present [OF assms(1), of "ps @ [q]"] path_key_normalize(1) absolute_join_with [OF assms(1)] assms(2)
    by simp
  ultimately show "path_key (path_join (p # ps @ [q])) \<noteq> []"
    "last (path_key (path_join (p # ps @ [q]))) = ?n" by simp_all
qed

section \<open>Refreshing the README\<close>

lemma root_absolute: "path_is_absolute root \<Longrightarrow> path_is_absolute (resolveBlueprintRoot fs cwd (Some root))"
  by (simp add: resolveBlueprintRoot_def resolveConsumerRoot_def Let_def absolute_path_join split: option.split)

lemma readme_key: "path_is_absolute root \<Longrightarrow> last (path_key (resolveBlueprintReadmePath fs root)) = ''README.md''"
  using last_joined(2) [of "resolveBlueprintRoot fs root (Some root)" "''README.md''" "[]"] root_absolute [of root fs root]
  by (simp add: split_char_no_sep resolveBlueprintReadmePath_def name_ok_def plain_name_def)

lemma refresh_keeps:
  assumes "refreshBlueprintReadmeIndex fs root = Inr fs'" "path_is_absolute root" "store_ok fs"
  shows "store_ok fs' \<and> (last (path_key q) \<noteq> ''README.md'' \<longrightarrow> readFile fs q = Inr c \<longrightarrow> readFile fs' q = Inr c)"
proof -
  have "fs' = fs \<or> (\<exists>text. writeFile fs (resolveBlueprintReadmePath fs root) text = Inr fs')"
    using assms(1)
    by (auto simp: refreshBlueprintReadmeIndex_def auditBlueprintReadmeDrift_def and_then_Inr_iff Let_def
        split: if_splits) (auto simp: and_then_Inr_iff split: readme_removal.splits)
  then show ?thesis
    using fs.put_valid [OF assms(3)] fs.fetch_other readme_key [OF assms(2), of fs] assms(3) by metis
qed

section \<open>Writing the document\<close>

lemma write_document_keeps:
  assumes "write_document fs cwd root target md = (r, fs')" "store_ok fs" "path_is_absolute root"
    and "last (path_key target) \<noteq> ''README.md''" "writeFile fs target md = Inr fs1"
  shows "readFile fs' target = Inr md \<and> store_ok fs'"
  using assms fs.put_valid [OF assms(2,5)] fs.fetch_put [OF assms(5)]
    refresh_keeps [of fs1 root _ target md]
  by (auto simp: write_document_def split: sum.splits)

lemma try_remove_keeps: "store_ok fs \<Longrightarrow> store_ok (tryRemoveEmptyParent fs d) \<and> files (tryRemoveEmptyParent fs d) = files fs"
  by (auto simp: tryRemoveEmptyParent_def rmdir_def Let_def intro: store_ok_rmdir split: sum.splits list.splits if_splits)

lemma move_into_ok: "store_ok fs \<Longrightarrow> move_into fs p q = (Inr fs', fs'') \<Longrightarrow> fs'' = fs' \<and> store_ok fs'"
  using mkdir_recursive_ok(1) [of fs "key_dirname q"] store_ok_rename [of _ p q] try_remove_keeps
  by (auto simp: move_into_def Let_def split: sum.splits)

lemma last_slug:
  assumes "isValidBlueprintSlug sl" "ends_with sl' (''/'' @ sl) \<or> sl' = sl"
  shows "last (split_char CHR ''/'' (relativeBlueprintSlug sl')) \<noteq> ''README''"
proof -
  have "re_test slug_segment_pattern (last (split_char CHR ''/'' sl))"
    using assms(1) by (simp add: isValidBlueprintSlug_def list_all_iff)
  moreover have "\<not> re_test slug_segment_pattern ''README''" by code_simp
  ultimately have "last (split_char CHR ''/'' sl) \<noteq> ''README''" by metis
  moreover have "last (split_char CHR ''/'' sl') = last (split_char CHR ''/'' sl)"
    using assms(2) split_char_seam by (fastforce simp: ends_with_def suffix_def)
  moreover have "last (split_char CHR ''/'' (relativeBlueprintSlug sl')) = last (split_char CHR ''/'' sl')"
  proof -
    consider x where "split_char CHR ''/'' sl' = [x]" | s t ts where "split_char CHR ''/'' sl' = s # t # ts"
      using split_char_not_Nil by (metis neq_Nil_conv)
    then show ?thesis
    proof cases
      case 2
      then have "split_char CHR ''/'' (join_with ''/'' (t # ts)) = t # ts"
        using split_char_parts_no_sep [of _ "CHR ''/''" sl'] by (intro split_join_with) auto
      moreover have "relativeBlueprintSlug sl' = join_with ''/'' (t # ts) \<or> relativeBlueprintSlug sl' = sl'"
        using 2 by (simp add: relativeBlueprintSlug_def)
      ultimately show ?thesis using 2 by (metis last.simps list.distinct(1))
    qed (simp add: relativeBlueprintSlug_def)
  qed
  ultimately show ?thesis by simp
qed

lemma split_char_suffix:
  "c \<notin> set m \<Longrightarrow> split_char c (s @ m) = butlast (split_char c s) @ [last (split_char c s) @ m]"
proof (induction s)
  case Nil
  then show ?case by (simp add: split_char_no_sep)
next
  case (Cons x s)
  obtain p ps where ps: "split_char c s = p # ps" using split_char_not_Nil by (metis neq_Nil_conv)
  with Cons show ?case by (cases ps) auto
qed

lemma split_suffix: "CHR ''/'' \<notin> set m \<Longrightarrow> last (split_char CHR ''/'' (s @ m)) = last (split_char CHR ''/'' s) @ m"
  by (simp add: split_char_suffix)

lemma flat_name: "name_ok (last (split_char CHR ''/'' (s @ ''.md'')))"
proof -
  have "CHR ''/'' \<notin> set (last (split_char CHR ''/'' (s @ ''.md'')))"
    using split_char_parts_no_sep last_in_set split_char_not_Nil by metis
  then show ?thesis unfolding name_ok_def plain_name_def by (auto simp: split_suffix)
qed

lemma target_key:
  assumes "path_is_absolute base" "last (split_char CHR ''/'' rel) \<noteq> ''README''"
  shows "last (path_key (flat_document_path base st rel)) \<noteq> ''README.md''"
    "last (path_key (folder_document_path base st rel)) \<noteq> ''README.md''"
  using last_joined(2) [OF assms(1), of "rel @ ''.md''" "[st]"] flat_name [of rel] assms(2)
    last_joined(2) [OF absolute_path_join [OF assms(1)], of "''_overview.md''" "[st, rel]" "[]"]
  by (simp_all add: flat_document_path_def folder_document_path_def split_suffix BLUEPRINT_OVERVIEW_FILENAME_def
      name_ok_def plain_name_def split_char_no_sep)

lemma chosen_slug:
  "choose_match sl es = Inr (p, sl') \<Longrightarrow> ends_with sl' (''/'' @ sl) \<or> sl' = sl"
  by (auto simp: choose_match_def Let_def find_Some_iff filter_eq_Cons_iff split: option.splits list.splits)

lemma resolved_slug:
  assumes "resolveBlueprintFile fs cwd root sl = Some (Inr (p, sl'))"
  shows "last (split_char CHR ''/'' (relativeBlueprintSlug sl')) \<noteq> ''README''"
proof -
  have "isValidBlueprintSlug sl" "\<exists>es. choose_match sl es = Inr (p, sl')"
    using assms
    by (auto simp: resolveBlueprintFile_def assertValidBlueprintSlug_def and_then_Inr_iff split: sum.splits if_splits)
  then show ?thesis using chosen_slug last_slug by metis
qed

section \<open>The lifecycle of a file\<close>

lemma lifecycle_write_ok:
  assumes "lifecycle_write en fs cwd root (source, sl') m = (Inr w, fs')" "store_ok fs" "path_is_absolute root"
    and "last (split_char CHR ''/'' (relativeBlueprintSlug sl')) \<noteq> ''README''"
  shows "wr_result w = m \<and> readFile fs' (wr_path w) = Inr (r_markdown m) \<and> store_ok fs'"
proof -
  let ?base = "resolveBlueprintRoot fs cwd (Some root)" let ?rel = "relativeBlueprintSlug sl'"
  obtain target fs2 r where w: "wr_result w = m" "wr_path w = target" and ok: "store_ok fs2"
    and wd: "write_document fs2 cwd root target (r_markdown m) = (Inr r, fs')"
    and t: "target = flat_document_path ?base (status_str (targetStatus m)) ?rel
       \<or> target = folder_document_path ?base (status_str (targetStatus m)) ?rel"
    using assms(1,2)
    by (auto simp: lifecycle_write_def Let_def dest!: move_into_ok [OF assms(2)]
        split: prod.splits sum.splits if_splits)
  have "last (path_key target) \<noteq> ''README.md''"
    using t target_key [OF root_absolute [OF assms(3)] assms(4)] by metis
  moreover obtain fs1 where "writeFile fs2 target (r_markdown m) = Inr fs1"
    using wd by (auto simp: write_document_def split: sum.splits)
  ultimately show ?thesis using write_document_keeps [OF wd ok assms(3)] w by simp
qed

lemma file_lifecycle:
  assumes "applyBlueprintLifecycleToFile en fs cwd root sl i = Some (Inr w, fs')"
  obtains source sl' md m where "resolveBlueprintFile fs cwd root sl = Some (Inr (source, sl'))"
    "readFile fs source = Inr md" "applyBlueprintLifecycle en md sl' i = Inr m"
    "lifecycle_write en fs cwd root (source, sl') m = (Inr w, fs')"
proof -
  obtain z where z: "resolveBlueprintFile fs cwd root sl = Some z"
    using assms(1) by (auto simp: applyBlueprintLifecycleToFile_def)
  then obtain source sl' where "z = Inr (source, sl')"
    using assms(1) by (cases z) (auto simp: applyBlueprintLifecycleToFile_def)
  moreover then obtain md where "readFile fs source = Inr md"
    using assms(1) z by (cases "readFile fs source") (auto simp: applyBlueprintLifecycleToFile_def)
  moreover then obtain m where "applyBlueprintLifecycle en md sl' i = Inr m"
    using assms(1) z \<open>z = Inr (source, sl')\<close>
    by (cases "applyBlueprintLifecycle en md sl' i") (auto simp: applyBlueprintLifecycleToFile_def)
  ultimately show ?thesis using assms(1) z by (intro that) (auto simp: applyBlueprintLifecycleToFile_def)
qed

text \<open>C23. A lifecycle call on a file that succeeds has applied the engine to the text of the document
  it resolved the slug to, and the file at the path it returns holds exactly the text the engine
  produced.  The directory tree stays well formed.\<close>
theorem lifecycle_on_file:
  assumes "applyBlueprintLifecycleToFile en fs cwd root sl i = Some (Inr w, fs')"
    and "store_ok fs" "path_is_absolute root"
  shows "\<exists>source sl' md. resolveBlueprintFile fs cwd root sl = Some (Inr (source, sl'))
    \<and> readFile fs source = Inr md
    \<and> applyBlueprintLifecycle en md sl' i = Inr (wr_result w)
    \<and> readFile fs' (wr_path w) = Inr (r_markdown (wr_result w)) \<and> store_ok fs'"
  using assms(1)
proof (rule file_lifecycle)
  fix source sl' md m
  assume r: "resolveBlueprintFile fs cwd root sl = Some (Inr (source, sl'))"
    and md: "readFile fs source = Inr md" "applyBlueprintLifecycle en md sl' i = Inr m"
    and w: "lifecycle_write en fs cwd root (source, sl') m = (Inr w, fs')"
  from lifecycle_write_ok [OF w assms(2,3) resolved_slug [OF r]] r md show ?thesis by blast
qed

section \<open>A document in the way\<close>

lemma mkdir_keys_there:
  "\<forall>k\<in>set ks. is_dir fs k \<and> \<not> is_file fs k \<Longrightarrow> mkdir_keys p ks fs = Inr fs"
  by (induction ks) (auto simp: make_dir_def)

lemma mkdir_there:
  assumes "store_ok fs" "is_dir fs (path_key p)"
  shows "mkdir_recursive fs p = Inr fs"
proof -
  have "is_dir fs k \<and> \<not> is_file fs k" if k_in: "k \<in> set (nonempty_prefixes (path_key p))" for k
  proof -
    obtain n where k: "k = take (Suc n) (path_key p)" using k_in by (auto simp: nonempty_prefixes_eq)
    have "is_dir fs k"
      using under_present [OF assms(1), of k "drop (Suc n) (path_key p)"] assms(2) k
      by (cases "drop (Suc n) (path_key p) = []") auto
    moreover have "k \<noteq> []" using k_in by (auto simp: nonempty_prefixes_eq)
    ultimately show ?thesis using assms(1) by (auto simp: is_dir_def store_ok_def)
  qed
  then show ?thesis by (simp add: mkdir_recursive_def mkdir_keys_there)
qed

lemma move_over:
  assumes "store_ok fs" "is_file fs (path_key p)" "is_file fs (path_key q)"
  shows "\<exists>fs'. move_into fs p q = (Inr fs', fs') \<and> store_ok fs' \<and> is_file fs' (path_key q)"
proof -
  let ?a = "path_key p" let ?b = "path_key q"
  have b: "\<not> is_dir fs ?b" "is_dir fs (butlast ?b)" using assms(1,3) by (auto simp: store_ok_def is_dir_def)
  have mk: "mkdir_recursive fs (key_dirname q) = Inr fs"
    using mkdir_there [OF assms(1), of "key_dirname q"] b(2) by (simp add: key_dirname_def)
  obtain fs1 where rn: "rename fs p q = Inr fs1" "store_ok fs1" "is_file fs1 ?b"
  proof (cases "?a = ?b")
    case True
    then show ?thesis using that [of fs] assms b by (simp add: rename_def Let_def)
  next
    case False
    have rn: "rename fs p q = Inr (move_tree ?a ?b fs)" using False assms b by (simp add: rename_def Let_def)
    obtain c where "map_get (files fs) ?a = Some c" using assms(2) by (auto simp: is_file_def map_has_iff)
    then have "map_get (files (move_tree ?a ?b fs)) ?b = Some c"
      using read_moved [OF assms(1) rename_Inr(2) [OF assms(1) rn False], of "[]" c] by simp
    then show ?thesis
      using that [OF rn store_ok_rename [OF assms(1) rn]] by (simp add: is_file_def map_has_iff)
  qed
  then show ?thesis
    using try_remove_keeps [OF rn(2), of "key_dirname p"] by (auto simp: move_into_def mk Let_def is_file_def)
qed

text \<open>C25. Moving a document that is a single file replaces whatever document stands in its new place:
  when both files exist, the call never stops at the old one, and afterwards the place holds the
  moved document's new text.\<close>
theorem document_replaced:
  assumes "store_ok fs" "path_is_absolute root"
    and "resolveBlueprintFile fs cwd root sl = Some (Inr (source, sl'))" "path_basename source \<noteq> ''_overview.md''"
    and "readFile fs source = Inr md" "applyBlueprintLifecycle en md sl' i = Inr m"
    and "target = flat_document_path (resolveBlueprintRoot fs cwd (Some root)) (status_str (targetStatus m))
           (relativeBlueprintSlug sl')"
    and "readFile fs target = Inr old"
  shows "\<exists>r fs'. applyBlueprintLifecycleToFile en fs cwd root sl i = Some (r, fs')
    \<and> readFile fs' target = Inr (r_markdown m)"
proof -
  have f: "is_file fs (path_key source)" "is_file fs (path_key target)"
    using assms(5,8) by (auto simp: readFile_Inr is_file_def map_has_iff)
  obtain fs2 where mv: "(if source = target then (Inr fs, fs) else move_into fs source target) = (Inr fs2, fs2)"
    and ok: "store_ok fs2" "is_file fs2 (path_key target)"
    using move_over [OF assms(1) f] assms(1) f by (cases "source = target") auto
  have not_readme: "last (path_key target) \<noteq> ''README.md''"
    unfolding assms(7) by (rule target_key(1) [OF root_absolute [OF assms(2)] resolved_slug [OF assms(3)]])
  obtain fs1 where wr: "writeFile fs2 target (r_markdown m) = Inr fs1"
    using ok by (auto simp: writeFile_def Let_def store_ok_def is_dir_def)
  obtain r fs' where wd: "write_document fs2 cwd root target (r_markdown m) = (r, fs')" by force
  have "readFile fs' target = Inr (r_markdown m)" using write_document_keeps [OF wd ok(1) assms(2) not_readme wr] by simp
  moreover have "\<exists>r. lifecycle_write en fs cwd root (source, sl') m = (r, fs')"
    using mv wd assms(4) unfolding lifecycle_write_def assms(7) [symmetric]
    by (auto simp: Let_def assms(7) [symmetric] split: sum.splits if_splits)
  ultimately show ?thesis
    using assms(3,5,6) by (auto simp: applyBlueprintLifecycleToFile_def)
qed

section \<open>On the sample project\<close>

lemma crowded_resolves: "resolveBlueprintFile crowded ''/p'' ''/p'' ''draft/a'' = Some (Inr (draft_a, ''draft/a''))"
  by code_simp

lemma crowded_writes:
  "case applyBlueprintLifecycleToFile sample_env crowded ''/p'' ''/p'' ''draft/a'' (Start None None) of
     Some (Inr w, fs') \<Rightarrow> wr_path w = started_a | _ \<Rightarrow> False"
  by code_simp

lemma crowded_reads:
  "readFile crowded draft_a = Inr todo_doc" "path_basename draft_a \<noteq> ''_overview.md''"
  "readFile crowded started_a = Inr ''old''" "path_is_absolute ''/p''"
  by code_simp+

lemma crowded_starts:
  "\<exists>m. applyBlueprintLifecycle sample_env todo_doc ''draft/a'' (Start None None) = Inr m
     \<and> started_a = flat_document_path (resolveBlueprintRoot crowded ''/p'' (Some ''/p'')) (status_str (targetStatus m))
         (relativeBlueprintSlug ''draft/a'')"
proof -
  obtain w fs' where w: "applyBlueprintLifecycleToFile sample_env crowded ''/p'' ''/p'' ''draft/a'' (Start None None)
      = Some (Inr w, fs')" "wr_path w = started_a"
    using crowded_writes by (auto split: option.splits prod.splits sum.splits)
  from w(1) show ?thesis
  proof (rule file_lifecycle)
    fix source sl' md m
    assume "resolveBlueprintFile crowded ''/p'' ''/p'' ''draft/a'' = Some (Inr (source, sl'))"
      and md: "readFile crowded source = Inr md" "applyBlueprintLifecycle sample_env md sl' (Start None None) = Inr m"
      and lw: "lifecycle_write sample_env crowded ''/p'' ''/p'' (source, sl') m = (Inr w, fs')"
    then have "source = draft_a" "sl' = ''draft/a''" using crowded_resolves by simp_all
    with md lw w(2) crowded_reads(1,2) show ?thesis
      by (auto simp: lifecycle_write_def Let_def split: prod.splits sum.splits if_splits)
  qed
qed

theorem document_replaced_witness:
  "readFile crowded started_a = Inr ''old''
   \<and> (\<exists>m r fs'. applyBlueprintLifecycle sample_env todo_doc ''draft/a'' (Start None None) = Inr m
       \<and> applyBlueprintLifecycleToFile sample_env crowded ''/p'' ''/p'' ''draft/a'' (Start None None) = Some (r, fs')
       \<and> readFile fs' started_a = Inr (r_markdown m))"
proof -
  obtain m where m: "applyBlueprintLifecycle sample_env todo_doc ''draft/a'' (Start None None) = Inr m"
    "started_a = flat_document_path (resolveBlueprintRoot crowded ''/p'' (Some ''/p'')) (status_str (targetStatus m))
       (relativeBlueprintSlug ''draft/a'')"
    using crowded_starts by blast
  show ?thesis
    using document_replaced [OF crowded_ok crowded_reads(4) crowded_resolves crowded_reads(2,1) m crowded_reads(3)]
      crowded_reads(3) m(1) by blast
qed

theorem lifecycle_on_file_witness:
  "\<exists>w fs'. applyBlueprintLifecycleToFile sample_env crowded ''/p'' ''/p'' ''draft/a'' (Start None None) = Some (Inr w, fs')
     \<and> readFile fs' started_a = Inr (r_markdown (wr_result w))"
proof -
  obtain w fs' where w: "applyBlueprintLifecycleToFile sample_env crowded ''/p'' ''/p'' ''draft/a'' (Start None None) = Some (Inr w, fs')"
    "wr_path w = started_a"
    using crowded_writes by (auto split: option.splits prod.splits sum.splits)
  show ?thesis using lifecycle_on_file [OF w(1) crowded_ok crowded_reads(4)] w by metis
qed

end
