(* ===== verification/Records.thy ===== *)
theory Records
  imports BlueprintFiles Complex_Main
begin

text \<open>
  Blueprints as records to query: freshness (\<open>blueprint/utils/freshness.ts\<close>), the records
  with their filters, orders and summaries (\<open>blueprint/service/blueprint-records.ts\<close>, the
  shared pipeline of \<open>TrackedDocumentService.ts\<close>, \<open>BlueprintService.ts\<close>) and the priority of
  technical debt (\<open>priority-scoring.ts\<close>).  A \<open>Date\<close> is its time in milliseconds, \<open>None\<close> an
  invalid date, on which every comparison is false; parsing a date and the local calendar are
  the machine's, fields of \<open>clock\<close>.  Scores are real numbers, \<open>None\<close> is \<open>NaN\<close>.
\<close>

section \<open>Dates\<close>

type_synonym date = "int option"

record clock =
  parse_date :: "string \<Rightarrow> date"         \<comment> \<open>\<open>new Date(s)\<close>\<close>
  now_ms :: int                           \<comment> \<open>\<open>Date.now()\<close>\<close>
  local_day :: "int \<Rightarrow> int"              \<comment> \<open>the day number of the local calendar date of a time\<close>

definition DAY_MS :: int where
  "DAY_MS = 1000 * 60 * 60 * 24"

definition date_less :: "date \<Rightarrow> date \<Rightarrow> bool" where \<comment> \<open>\<open>a < b\<close>\<close>
  "date_less a b = (case (a, b) of (Some s, Some t) \<Rightarrow> s < t | _ \<Rightarrow> False)"

section \<open>Freshness (freshness.ts)\<close>

record thresholds =
  th_warning :: int
  th_stale :: int
  th_critical :: int

definition thresholds_of :: "int \<Rightarrow> int \<Rightarrow> int \<Rightarrow> thresholds" where
  "thresholds_of w s c = \<lparr>th_warning = w, th_stale = s, th_critical = c\<rparr>"

definition THRESHOLDS :: "lifecycle_status \<Rightarrow> thresholds" where
  "THRESHOLDS st = (case st of
     In_progress \<Rightarrow> thresholds_of 7 14 30
   | Draft \<Rightarrow> thresholds_of 14 30 60
   | Planned \<Rightarrow> thresholds_of 14 30 60
   | Parked \<Rightarrow> thresholds_of 14 30 60
   | Completed \<Rightarrow> thresholds_of 180 365 730
   | Archived \<Rightarrow> thresholds_of 365 730 1460)"

datatype freshness_status = Fresh | Aging | Stale | Critical

record freshness =
  fr_score :: "real option"
  fr_days :: "int option"
  fr_status :: freshness_status

definition freshness_status_of :: "thresholds \<Rightarrow> int option \<Rightarrow> freshness_status" where
  "freshness_status_of th days = (case days of
     None \<Rightarrow> Fresh
   | Some n \<Rightarrow>
       if n \<ge> th_critical th then Critical
       else if n \<ge> th_stale th then Stale
       else if n \<ge> th_warning th then Aging
       else Fresh)"

definition freshness_score :: "thresholds \<Rightarrow> int \<Rightarrow> real" where
  "freshness_score th n = exp (- (ln 2 / of_int (th_warning th)) * of_int (max 0 n))"

definition calculateFreshness :: "clock \<Rightarrow> date \<Rightarrow> lifecycle_status \<Rightarrow> freshness" where
  "calculateFreshness ck updated st =
     (let days = map_option (\<lambda>t. local_day ck (now_ms ck) - local_day ck t) updated;
          th = THRESHOLDS st
      in \<lparr>fr_score = map_option (freshness_score th) days, fr_days = days,
          fr_status = freshness_status_of th days\<rparr>)"

section \<open>Records (blueprint-records.ts)\<close>

record blueprint_record =
  br_name :: string
  br_title :: string
  br_status :: lifecycle_status
  br_complexity :: "string option"
  br_taskCount :: nat
  br_tasksCompleted :: nat
  br_group :: "string option"
  br_path :: string
  br_lastUpdated :: date
  br_freshness :: freshness
  br_filesTouched :: "string list"

definition record_title :: regex where \<comment> \<open>\<open>/^#\\s+(.+)$/m\<close>\<close>
  "record_title = sq [StartLine, lit ''#'', plus ws, Grp 1 (plus dot), EndLine]"

definition extractTitle :: "string \<Rightarrow> string option" where
  "extractTitle md = map_option (\<lambda>m. js_trim (group_or_empty m 1)) (re_exec record_title md)"

definition files_section :: regex where
  \<comment> \<open>\<open>/\\*\\*Files:\\*\\*\\s*([\\s\\S]*?)(?=\\n\\*\\*|\\n###|\\n####|$)/gi\<close>\<close>
  "files_section =
     sq [lit_i ''**Files:**'', star ws, Grp 1 (lazy any_char),
         Look True (alts [lit (nl # ''**''), lit (nl # ''###''), lit (nl # ''####''), EndText])]"

definition letter :: "char \<Rightarrow> bool" where
  "letter c \<longleftrightarrow> js_lower_char c \<or> js_upper_char c"

definition tick_char :: char where "tick_char = CHR 0x60"

definition listed_path :: regex where \<comment> \<open>\<open>/[`-]\\s*`?([^`\\n]+\\.[a-z]+)`?/gi\<close>\<close>
  "listed_path =
     sq [one_of [tick_char, CHR ''-''], star ws, opt (chr tick_char),
         Grp 1 (sq [plus (none_of [tick_char, nl]), lit ''.'', plus (Cls letter)]), opt (chr tick_char)]"

definition listed_mark :: regex where \<comment> \<open>\<open>/^[`-]\\s*`?/\<close>\<close>
  "listed_mark = sq [StartText, one_of [tick_char, CHR ''-''], star ws, opt (chr tick_char)]"

definition extractPathsFromSection :: "string \<Rightarrow> string list" where
  "extractPathsFromSection files_text =
     filter (\<lambda>p. p \<noteq> [])
       (map (\<lambda>m. js_trim (replace_first (Seq (chr tick_char) EndText) (\<lambda>_. [])
                    (replace_first listed_mark (\<lambda>_. []) (m_text m))))
         (match_all listed_path files_text))"

definition extractFilesTouched :: "string \<Rightarrow> string list" where
  "extractFilesTouched md =
     set_of_list (concat (map (\<lambda>m. extractPathsFromSection (m_text m)) (match_all files_section md)))"

definition finished_tasks :: "task list \<Rightarrow> nat" where
  "finished_tasks ts = length (filter (\<lambda>t. t_status t = Done \<or> t_status t = Dropped) ts)"

text \<open>\<open>None\<close> if the file cannot be read or parsed.\<close>

definition toBlueprintRecord ::
    "docs \<Rightarrow> clock \<Rightarrow> fstore \<Rightarrow> string \<Rightarrow> string \<Rightarrow> string option \<Rightarrow> blueprint_record option" where
  "toBlueprintRecord dx ck fs filePath sl grp =
     (case and_then (readFile fs filePath) (\<lambda>content. parseBlueprint dx content sl) of
        Inl _ \<Rightarrow> None
      | Inr plan \<Rightarrow>
          (let planStatus = (case parseLifecycleBlueprintStatus (b_status plan) of Some s \<Rightarrow> s | None \<Rightarrow> Draft);
               lastTime = (if lastUpdated plan \<noteq> [] then parse_date ck (lastUpdated plan) else Some (now_ms ck))
           in Some
             \<lparr>br_name = sl,
              br_title = (case extractTitle (raw plan) of Some t \<Rightarrow> t | None \<Rightarrow> sl),
              br_status = planStatus,
              br_complexity =
                (if b_complexity plan \<in> {''XS'', ''S'', ''M'', ''L'', ''XL''} then Some (b_complexity plan) else None),
              br_taskCount = length (b_tasks plan),
              br_tasksCompleted = finished_tasks (b_tasks plan),
              br_group = grp,
              br_path = filePath,
              br_lastUpdated = lastTime,
              br_freshness = calculateFreshness ck lastTime planStatus,
              br_filesTouched = extractFilesTouched (raw plan)\<rparr>))"

section \<open>Filters\<close>

text \<open>
  A filter is a value or an array of values, here always the list of values; an empty array
  filters everything out.
\<close>

record blueprint_filters =
  bf_status :: "string list option"
  bf_group :: "string list option"
  bf_complexity :: "string list option"
  bf_stale :: bool
  bf_staleDays :: "int option"
  bf_filesTouched :: "string list option"

definition no_filters :: blueprint_filters where
  "no_filters = \<lparr>bf_status = None, bf_group = None, bf_complexity = None, bf_stale = False,
                 bf_staleDays = None, bf_filesTouched = None\<rparr>"

definition matchesFilter :: "string \<Rightarrow> string list \<Rightarrow> bool" where
  "matchesFilter v values \<longleftrightarrow> v \<in> set values"

definition matchesOptional :: "string option \<Rightarrow> string list option \<Rightarrow> bool" where
  "matchesOptional v f =
     (case f of None \<Rightarrow> True
      | Some values \<Rightarrow> (case v of None \<Rightarrow> False | Some x \<Rightarrow> matchesFilter x values))"

definition matchesStatusFilter :: "blueprint_record \<Rightarrow> blueprint_filters \<Rightarrow> bool" where
  "matchesStatusFilter p f = matchesOptional (Some (status_str (br_status p))) (bf_status f)"

definition matchesGroupFilter :: "blueprint_record \<Rightarrow> blueprint_filters \<Rightarrow> bool" where
  "matchesGroupFilter p f = matchesOptional (br_group p) (bf_group f)"

definition matchesComplexityFilter :: "blueprint_record \<Rightarrow> blueprint_filters \<Rightarrow> bool" where
  "matchesComplexityFilter p f = matchesOptional (br_complexity p) (bf_complexity f)"

definition isStale :: "freshness \<Rightarrow> bool" where
  "isStale fr \<longleftrightarrow> fr_status fr = Stale \<or> fr_status fr = Critical"

definition matchesStaleFilter :: "blueprint_record \<Rightarrow> blueprint_filters \<Rightarrow> bool" where
  "matchesStaleFilter p f \<longleftrightarrow> \<not> bf_stale f \<or> isStale (br_freshness p)"

definition matchesFilesTouchedFilter :: "blueprint_record \<Rightarrow> blueprint_filters \<Rightarrow> bool" where
  "matchesFilesTouchedFilter p f =
     (case bf_filesTouched f of
        None \<Rightarrow> True
      | Some fl \<Rightarrow> fl = [] \<or> list_ex (\<lambda>x. x \<in> set (br_filesTouched p)) fl)"

definition matchesBlueprintFilters :: "blueprint_record \<Rightarrow> blueprint_filters \<Rightarrow> bool" where
  "matchesBlueprintFilters p f \<longleftrightarrow>
     matchesStatusFilter p f \<and> matchesGroupFilter p f \<and> matchesComplexityFilter p f
     \<and> matchesStaleFilter p f \<and> matchesFilesTouchedFilter p f"

section \<open>Sorting\<close>

datatype sort_field = By_freshness | By_lastUpdated | By_taskCount | By_name | By_status

record sort_options =
  so_field :: sort_field
  so_ascending :: bool

text \<open>
  The sign of a difference; \<open>sort\<close> reads \<open>NaN\<close> as zero.  \<open>lc\<close> is \<open>localeCompare\<close>.
\<close>

definition real_diff :: "real option \<Rightarrow> real option \<Rightarrow> int" where
  "real_diff a b = (case (a, b) of
     (Some x, Some y) \<Rightarrow> if x < y then -1 else if y < x then 1 else 0 | _ \<Rightarrow> 0)"

definition date_diff :: "date \<Rightarrow> date \<Rightarrow> int" where
  "date_diff a b = (case (a, b) of (Some s, Some t) \<Rightarrow> s - t | _ \<Rightarrow> 0)"

definition record_order ::
    "(string \<Rightarrow> string \<Rightarrow> int) \<Rightarrow> sort_options \<Rightarrow> blueprint_record \<Rightarrow> blueprint_record \<Rightarrow> int" where
  "record_order lc so a b =
     (let comparison = (case so_field so of
            By_freshness \<Rightarrow> real_diff (fr_score (br_freshness a)) (fr_score (br_freshness b))
          | By_lastUpdated \<Rightarrow> date_diff (br_lastUpdated a) (br_lastUpdated b)
          | By_taskCount \<Rightarrow> int (br_taskCount a) - int (br_taskCount b)
          | By_name \<Rightarrow> lc (br_name a) (br_name b)
          | By_status \<Rightarrow> lc (status_str (br_status a)) (status_str (br_status b)))
      in comparison * (if so_ascending so then 1 else -1))"

definition sortBlueprintRecords ::
    "(string \<Rightarrow> string \<Rightarrow> int) \<Rightarrow> blueprint_record list \<Rightarrow> sort_options \<Rightarrow> blueprint_record list" where
  "sortBlueprintRecords lc plans so = js_sort (record_order lc so) plans"

section \<open>Queries (TrackedDocumentService.ts, BlueprintService.ts)\<close>

record ('r, 'f, 's) query_options =
  qo_filters :: "'f option"
  qo_sort :: "'s option"
  qo_limit :: nat     \<comment> \<open>0 if absent\<close>
  qo_offset :: nat

definition processQueryPipeline ::
    "('r \<Rightarrow> 'f \<Rightarrow> bool) \<Rightarrow> ('r list \<Rightarrow> 's \<Rightarrow> 'r list) \<Rightarrow> 'r list \<Rightarrow> ('r, 'f, 's) query_options
      \<Rightarrow> 'r list \<times> nat" where
  "processQueryPipeline matches applySorting allRecords qo =
     (let kept = (case qo_filters qo of None \<Rightarrow> allRecords | Some f \<Rightarrow> filter (\<lambda>r. matches r f) allRecords);
          sorted_records = (case qo_sort qo of None \<Rightarrow> kept | Some s \<Rightarrow> applySorting kept s);
          page = drop (qo_offset qo) sorted_records
      in (if 0 < qo_limit qo then take (qo_limit qo) page else page, length sorted_records))"

definition countByField :: "('r \<Rightarrow> string) \<Rightarrow> 'r list \<Rightarrow> (string, nat) js_map" where
  "countByField field records =
     fold (\<lambda>r m. map_set (field r) ((case map_get m (field r) of None \<Rightarrow> 0 | Some n \<Rightarrow> n) + 1) m) records []"

record query_summary =
  qs_total :: nat
  qs_byStatus :: "(string, nat) js_map"
  qs_byGroup :: "(string, nat) js_map"
  qs_staleCount :: nat
  qs_avgFreshness :: "real option"

definition sum_scores :: "real option list \<Rightarrow> real option" where
  "sum_scores scores = (if None \<in> set scores then None else Some (sum_list (map the scores)))"

definition computeBlueprintQuerySummary :: "blueprint_record list \<Rightarrow> nat \<Rightarrow> query_summary" where
  "computeBlueprintQuerySummary allPlans totalFiltered =
     \<lparr>qs_total = totalFiltered,
      qs_byStatus = countByField (\<lambda>p. status_str (br_status p)) allPlans,
      qs_byGroup = countByField (\<lambda>p. text_of (br_group p)) (filter (\<lambda>p. br_group p \<noteq> None) allPlans),
      qs_staleCount = length (filter (\<lambda>p. isStale (br_freshness p)) allPlans),
      qs_avgFreshness =
        (if allPlans = [] then Some 1
         else map_option (\<lambda>s. s / of_nat (length allPlans))
           (sum_scores (map (\<lambda>p. fr_score (br_freshness p)) allPlans)))\<rparr>"

definition buildRecords :: "('s \<Rightarrow> 'r option) \<Rightarrow> 's list \<Rightarrow> 'r list" where
  "buildRecords toRecord scans = List.map_filter toRecord scans"

record service_env =
  se_docs :: docs
  se_clock :: clock
  se_compare :: "string \<Rightarrow> string \<Rightarrow> int"    \<comment> \<open>\<open>localeCompare\<close>\<close>
  se_cwd :: string
  se_project :: "string option"              \<comment> \<open>\<open>projectPath\<close>\<close>

definition blueprint_base :: "service_env \<Rightarrow> fstore \<Rightarrow> string" where
  "blueprint_base se fs = resolveBlueprintRoot fs (se_cwd se) (se_project se)"

definition blueprint_query ::
    "service_env \<Rightarrow> fstore \<Rightarrow> (blueprint_record, blueprint_filters, sort_options) query_options
      \<Rightarrow> (blueprint_record list \<times> query_summary) throws option" where
  "blueprint_query se fs qo =
     map_option (\<lambda>r. and_then r (\<lambda>scans.
         (let all = buildRecords (\<lambda>s. toBlueprintRecord (se_docs se) (se_clock se) fs (sc_path s) (sc_slug s) (sc_group s)) scans
          in case processQueryPipeline matchesBlueprintFilters (sortBlueprintRecords (se_compare se)) all qo of
               (records, n) \<Rightarrow> Inr (records, computeBlueprintQuerySummary all n))))
       (scanBlueprintDirectory fs (se_cwd se) (blueprint_base se fs) False)"

definition filter_query :: "blueprint_filters \<Rightarrow> (blueprint_record, blueprint_filters, sort_options) query_options" where
  "filter_query f = \<lparr>qo_filters = Some f, qo_sort = None, qo_limit = 0, qo_offset = 0\<rparr>"

definition plans_of :: "('a list \<times> 'b) throws option \<Rightarrow> 'a list throws option" where
  "plans_of r = map_option (\<lambda>x. and_then x (\<lambda>(plans, _). Inr plans)) r"

definition getStalePlans :: "service_env \<Rightarrow> fstore \<Rightarrow> int option \<Rightarrow> blueprint_record list throws option" where
  "getStalePlans se fs thresholdDays =
     plans_of (blueprint_query se fs (filter_query (no_filters\<lparr>bf_stale := True, bf_staleDays := thresholdDays\<rparr>)))"

definition getByGroup :: "service_env \<Rightarrow> fstore \<Rightarrow> string \<Rightarrow> blueprint_record list throws option" where
  "getByGroup se fs grp = plans_of (blueprint_query se fs (filter_query (no_filters\<lparr>bf_group := Some [grp]\<rparr>)))"

section \<open>One blueprint (BlueprintService.get)\<close>

record blueprint_summary =
  bs_name :: string
  bs_title :: string
  bs_status :: string
  bs_complexity :: string
  bs_taskCount :: nat
  bs_progress :: nat
  bs_type :: string
  bs_parentRoadmap :: "string option"

definition parseSummary :: "docs \<Rightarrow> string \<Rightarrow> string \<Rightarrow> blueprint_summary throws" where
  "parseSummary dx content sl =
     and_then (parseBlueprint dx content sl) (\<lambda>plan.
       (let count = length (b_tasks plan); finished = finished_tasks (b_tasks plan)
        in Inr \<lparr>bs_name = b_name plan, bs_title = b_title plan, bs_status = b_status plan,
                bs_complexity = b_complexity plan, bs_taskCount = count,
                bs_progress = (if 0 < count then (200 * finished + count) div (2 * count) else 0),
                bs_type = b_type plan, bs_parentRoadmap = parentRoadmap plan\<rparr>))"

definition buildPlanNotFoundMessage :: "string \<Rightarrow> string \<Rightarrow> string list \<Rightarrow> string" where
  "buildPlanNotFoundMessage sl searchedPath availableSlugs =
     join_with [nl]
       [''Plan '' @ sl @ '' not found.'', ''Searched: '' @ searchedPath,
        if availableSlugs = [] then ''No plans available.''
        else ''Available plans: '' @ join_with '', '' availableSlugs]"

fun first_parsed :: "docs \<Rightarrow> fstore \<Rightarrow> string \<Rightarrow> string list \<Rightarrow> blueprint option" where
  "first_parsed dx fs sl [] = None"
| "first_parsed dx fs sl (candidate # candidates) =
     (case and_then (readFile fs candidate) (\<lambda>content. parseBlueprint dx content sl) of
        Inr plan \<Rightarrow> Some plan
      | Inl _ \<Rightarrow> first_parsed dx fs sl candidates)"

definition blueprint_get :: "service_env \<Rightarrow> fstore \<Rightarrow> string \<Rightarrow> blueprint throws option" where
  "blueprint_get se fs sl =
     (let base = blueprint_base se fs; candidates = getBlueprintDocumentCandidates base sl
      in case first_parsed (se_docs se) fs sl candidates of
           Some plan \<Rightarrow> Some (Inr plan)
         | None \<Rightarrow>
             map_option (\<lambda>r. and_then r (\<lambda>scans.
                (case find (\<lambda>p. sc_slug p = sl \<or> ends_with (sc_slug p) (''/'' @ sl)) scans of
                   None \<Rightarrow>
                     Inl (buildPlanNotFoundMessage sl
                       (case candidates of [] \<Rightarrow> path_join [base, sl, ''_overview.md''] | c # _ \<Rightarrow> c)
                       (map sc_slug scans))
                 | Some found \<Rightarrow>
                     and_then (readFile fs (sc_path found)) (\<lambda>content.
                       parseBlueprint (se_docs se) content (sc_slug found)))))
               (scanBlueprintDirectory fs (se_cwd se) base True))"

section \<open>Priority of technical debt (priority-scoring.ts)\<close>

record debt_record =
  dr_slug :: string
  dr_title :: string
  dr_status :: string
  dr_severity :: string
  dr_category :: "string option"
  dr_priorityScore :: int
  dr_nextReview :: "string option"
  dr_group :: "string option"
  dr_path :: string
  dr_lastReviewed :: "date option"       \<comment> \<open>\<open>None\<close> if there is none\<close>
  dr_freshness :: freshness
  dr_linkedBlueprints :: "string list"

definition computeSeverityPoints :: "string \<Rightarrow> int" where
  "computeSeverityPoints severity =
     (if severity = ''critical'' then 40 else if severity = ''high'' then 30
      else if severity = ''medium'' then 20 else 10)"

definition days_since :: "clock \<Rightarrow> date \<Rightarrow> int option" where
  "days_since ck d = map_option (\<lambda>t. (now_ms ck - t) div DAY_MS) d"

definition computeStalenessPoints :: "clock \<Rightarrow> date \<Rightarrow> int option" where
  "computeStalenessPoints ck lastReviewed = map_option (\<lambda>n. min n 30) (days_since ck lastReviewed)"

definition isOverdue :: "clock \<Rightarrow> string \<Rightarrow> bool" where
  "isOverdue ck nextReview = date_less (parse_date ck nextReview) (Some (now_ms ck))"

definition hasActiveBlueprintLink :: "blueprint_record list \<Rightarrow> bool" where
  "hasActiveBlueprintLink linkedBlueprints = list_ex (\<lambda>bp. br_status bp = In_progress) linkedBlueprints"

definition computeCategoryPoints :: "string \<Rightarrow> int" where
  "computeCategoryPoints cat =
     (if cat = ''security'' then 5 else if cat = ''testing'' then 3 else 0)"

text \<open>The score, \<open>None\<close> if it is \<open>NaN\<close>.\<close>

definition computePriorityScore :: "clock \<Rightarrow> debt_record \<Rightarrow> blueprint_record list \<Rightarrow> int option" where
  "computePriorityScore ck item linkedBlueprints =
     map_option (\<lambda>staleness.
       min (computeSeverityPoints (dr_severity item) + staleness
            + (if truthy (dr_nextReview item) \<and> isOverdue ck (text_of (dr_nextReview item)) then 20 else 0)
            + (if hasActiveBlueprintLink linkedBlueprints then 10 else 0)
            + (if truthy (dr_category item) then computeCategoryPoints (text_of (dr_category item)) else 0)) 100)
       (case dr_lastReviewed item of None \<Rightarrow> Some 0 | Some d \<Rightarrow> computeStalenessPoints ck d)"

end
