(* ===== verification/TechDebt.thy ===== *)
theory TechDebt
  imports Records
begin

text \<open>
  Technical debt documents: the schema (\<open>blueprint/tech-debt/schema.ts\<close>), the parser
  (\<open>tech-debt/parser.ts\<close>) and the queries of the service
  (\<open>blueprint/service/TechDebtService.ts\<close>).
\<close>

section \<open>Calendar days\<close>

text \<open>\<open>toISOString().slice(0, 10)\<close> of midnight UTC of a day number, for years of four digits.\<close>

definition civil_of_day :: "int \<Rightarrow> int \<times> int \<times> int" where
  "civil_of_day n =
     (let z = n + 719468; era = z div 146097; doe = z mod 146097;
          yoe = (doe - doe div 1460 + doe div 36524 - doe div 146096) div 365;
          doy = doe - (365 * yoe + yoe div 4 - yoe div 100);
          mp = (5 * doy + 2) div 153;
          d = doy - (153 * mp + 2) div 5 + 1;
          m = (if mp < 10 then mp + 3 else mp - 9);
          y = yoe + era * 400
      in (if m \<le> 2 then y + 1 else y, m, d))"

definition padded :: "nat \<Rightarrow> int \<Rightarrow> string" where
  "padded w n = (let s = nat_str (nat n) in replicate (w - length s) (CHR ''0'') @ s)"

definition iso_day :: "int \<Rightarrow> string" where
  "iso_day n = (case civil_of_day n of (y, m, d) \<Rightarrow> padded 4 y @ ''-'' @ padded 2 m @ ''-'' @ padded 2 d)"

section \<open>The schema (schema.ts)\<close>

definition techDebtStatusSchema :: "string list" where
  "techDebtStatusSchema = [''accepted'', ''needs-remediation'', ''monitoring'', ''resolved'']"

definition severitySchema :: "string list" where
  "severitySchema = [''critical'', ''high'', ''medium'', ''low'']"

definition categorySchema :: "string list" where
  "categorySchema =
     [''complexity'', ''testing'', ''mutation'', ''duplication'', ''dependency'', ''security'', ''documentation'']"

definition reviewCadenceSchema :: "string list" where
  "reviewCadenceSchema = [''weekly'', ''biweekly'', ''monthly'', ''quarterly'']"

definition cadence_days :: "string \<Rightarrow> int" where
  "cadence_days cadence =
     (if cadence = ''weekly'' then 7 else if cadence = ''biweekly'' then 14
      else if cadence = ''monthly'' then 30 else 90)"

definition computeNextReview :: "clock \<Rightarrow> string \<Rightarrow> string \<Rightarrow> string throws" where
  "computeNextReview ck lastReviewed cadence =
     (case parse_date ck lastReviewed of
        None \<Rightarrow> Inl ''Invalid time value''
      | Some t \<Rightarrow> Inr (iso_day (t div DAY_MS + cadence_days cadence)))"

definition computeBasePriority :: "string \<Rightarrow> int" where
  "computeBasePriority severity =
     (if severity = ''critical'' then 40 else if severity = ''high'' then 30
      else if severity = ''medium'' then 20 else 10)"

definition enum_field :: "string list \<Rightarrow> fm \<Rightarrow> string \<Rightarrow> bool" where
  "enum_field opts d k = (case fm_str d k of Some s \<Rightarrow> s \<in> set opts | None \<Rightarrow> False)"

definition date_field :: "fm \<Rightarrow> string \<Rightarrow> string option" where \<comment> \<open>a string or a date\<close>
  "date_field d k =
     (case map_get d k of Some (FVal (JStr s)) \<Rightarrow> Some s | Some (FDate s) \<Rightarrow> Some s | _ \<Rightarrow> None)"

definition string_array :: "fm \<Rightarrow> string \<Rightarrow> string list option" where
  \<comment> \<open>\<open>z.array(z.string()).optional().default([])\<close>\<close>
  "string_array d k =
     (case map_get d k of
        None \<Rightarrow> Some []
      | Some (FVal (JArr vs)) \<Rightarrow>
          if list_all (\<lambda>v. case v of JStr _ \<Rightarrow> True | _ \<Rightarrow> False) vs
          then Some (map (\<lambda>v. case v of JStr s \<Rightarrow> s | _ \<Rightarrow> []) vs) else None
      | _ \<Rightarrow> None)"

record debt_data =
  dd_status :: string
  dd_severity :: string
  dd_category :: string
  dd_cadence :: string
  dd_lastReviewed :: string          \<comment> \<open>the day of a date, a string as it is\<close>
  dd_linked :: "string list"
  dd_nextReview :: string
  dd_basePriority :: int

definition debt_fields_ok :: "fm \<Rightarrow> bool" where
  "debt_fields_ok d \<longleftrightarrow>
     fm_str d ''type'' = Some ''tech-debt''
     \<and> enum_field techDebtStatusSchema d ''status'' \<and> enum_field severitySchema d ''severity''
     \<and> enum_field categorySchema d ''category'' \<and> enum_field reviewCadenceSchema d ''review_cadence''
     \<and> date_field d ''last_reviewed'' \<noteq> None
     \<and> (map_get d ''created'' = None \<or> date_field d ''created'' \<noteq> None)
     \<and> string_array d ''linked_blueprints'' \<noteq> None \<and> string_array d ''affected_modules'' \<noteq> None
     \<and> (map_get d ''auto_filed_hash'' = None \<or> fm_str d ''auto_filed_hash'' \<noteq> None)"

definition strings_of :: "string list option \<Rightarrow> string list" where
  "strings_of s = (case s of None \<Rightarrow> [] | Some xs \<Rightarrow> xs)"

definition techDebtFrontmatterSchema :: "clock \<Rightarrow> (fm \<Rightarrow> string) \<Rightarrow> fm \<Rightarrow> debt_data throws" where
  "techDebtFrontmatterSchema ck zod_error d =
     (if \<not> debt_fields_ok d then Inl (zod_error d)
      else
        (let severity = text_of (fm_str d ''severity''); cadence = text_of (fm_str d ''review_cadence'')
         in and_then (computeNextReview ck (text_of (date_field d ''last_reviewed'')) cadence) (\<lambda>nextReview.
              if severity = ''critical'' \<and> cadence \<noteq> ''weekly'' then Inl (zod_error d)
              else
                Inr \<lparr>dd_status = text_of (fm_str d ''status''), dd_severity = severity,
                     dd_category = text_of (fm_str d ''category''), dd_cadence = cadence,
                     dd_lastReviewed = text_of (fm_day d ''last_reviewed''),
                     dd_linked = strings_of (string_array d ''linked_blueprints''),
                     dd_nextReview = nextReview, dd_basePriority = computeBasePriority severity\<rparr>)))"

section \<open>The parser (parser.ts)\<close>

record remediation_step =
  rs_id :: string
  rs_title :: string
  rs_checked :: bool

record debt_item =
  di_slug :: string
  di_hazardId :: "string option"
  di_title :: string
  di_data :: debt_data
  di_diagrams :: "string list"
  di_steps :: "remediation_step list"
  di_raw :: string

definition checkbox_line :: regex where \<comment> \<open>\<open>/^- \\[([ x])\\]/gm\<close>\<close>
  "checkbox_line = sq [StartLine, lit ''- ['', Grp 1 (one_of '' x''), lit '']'']"

definition checkbox_counts :: "string \<Rightarrow> nat \<times> nat" where \<comment> \<open>total and checked\<close>
  "checkbox_counts part =
     (let found = match_all checkbox_line part
      in (length found, length (filter (\<lambda>m. group m 1 = Some ''x'') found)))"

definition hazard_heading :: regex where \<comment> \<open>\<open>/^#\\s+H-(\\d+):/m\<close>\<close>
  "hazard_heading = sq [StartLine, lit ''#'', plus ws, lit ''H-'', Grp 1 (plus digit), lit '':'']"

definition extractHazardId :: "string \<Rightarrow> string option" where
  "extractHazardId content =
     (case re_exec hazard_heading content of
        None \<Rightarrow> None
      | Some m \<Rightarrow> if truthy (group m 1) then Some (''H-'' @ group_or_empty m 1) else None)"

definition debt_heading :: regex where \<comment> \<open>\<open>/^#\\s+(?:H-\\d+:\\s*)?(.+)$/m\<close>\<close>
  "debt_heading =
     sq [StartLine, lit ''#'', plus ws, opt (sq [lit ''H-'', plus digit, lit '':'', star ws]),
         Grp 1 (plus dot), EndLine]"

definition extractTitle :: "string \<Rightarrow> string" where
  "extractTitle content =
     js_trim (case re_exec debt_heading content of
        Some m \<Rightarrow> (case group m 1 of Some t \<Rightarrow> t | None \<Rightarrow> ''Untitled'') | None \<Rightarrow> ''Untitled'')"

definition step_heading :: regex where \<comment> \<open>\<open>/^####\\s+Step\\s+(\\d+):\\s*(.+)$/gm\<close>\<close>
  "step_heading =
     sq [StartLine, lit ''####'', plus ws, lit ''Step'', plus ws, Grp 1 (plus digit), lit '':'', star ws,
         Grp 2 (plus dot), EndLine]"

fun steps_from :: "string \<Rightarrow> rmatch list \<Rightarrow> remediation_step list" where
  "steps_from content [] = []"
| "steps_from content (m # ms) =
     (let finish = (case ms of [] \<Rightarrow> length content | m' # _ \<Rightarrow> m_index m');
          part = take (finish - m_index m) (drop (m_index m) content)
      in \<lparr>rs_id = group_or_empty m 1, rs_title = js_trim (group_or_empty m 2),
          rs_checked = 0 < snd (checkbox_counts part)\<rparr> # steps_from content ms)"

definition extractRemediationSteps :: "string \<Rightarrow> remediation_step list" where
  "extractRemediationSteps content = steps_from content (match_all step_heading content)"

record debt_env =
  de_docs :: docs
  de_clock :: clock
  de_error :: "fm \<Rightarrow> string"                 \<comment> \<open>the message of the \<open>ZodError\<close>\<close>
  de_compare :: "string \<Rightarrow> string \<Rightarrow> int"    \<comment> \<open>\<open>localeCompare\<close>\<close>
  de_cwd :: string
  de_project :: "string option"

definition parseTechDebt :: "debt_env \<Rightarrow> string \<Rightarrow> string \<Rightarrow> debt_item throws" where
  "parseTechDebt de markdown sl =
     and_then (matter (de_docs de) markdown) (\<lambda>(rawData, content).
     and_then (techDebtFrontmatterSchema (de_clock de) (de_error de) rawData) (\<lambda>d.
       Inr \<lparr>di_slug = sl, di_hazardId = extractHazardId content, di_title = extractTitle content,
            di_data = d, di_diagrams = extractCodeBlocks content ''mermaid'',
            di_steps = extractRemediationSteps content, di_raw = markdown\<rparr>))"

definition serializeTechDebt :: "debt_env \<Rightarrow> debt_item \<Rightarrow> string throws" where
  "serializeTechDebt de item =
     and_then (matter (de_docs de) (di_raw item)) (\<lambda>(data, content).
       (let d1 = put_if ''status'' (dd_status (di_data item)) data;
            d2 = put_if ''last_reviewed'' (dd_lastReviewed (di_data item)) d1;
            cleanedData = map_delete ''basePriority'' (map_delete ''nextReview'' d2)
        in Inr (stringify (de_docs de) content cleanedData)))"

section \<open>The service (TechDebtService.ts)\<close>

definition resolveTechDebtRoot :: "fstore \<Rightarrow> string \<Rightarrow> string option \<Rightarrow> string" where
  "resolveTechDebtRoot fs cwd project = resolveConsumerRoot fs cwd ''tech-debt'' ''webpresso/tech-debt'' project"

definition debt_base :: "debt_env \<Rightarrow> fstore \<Rightarrow> string" where
  "debt_base de fs = resolveTechDebtRoot fs (de_cwd de) (de_project de)"

definition getTechDebt :: "debt_env \<Rightarrow> fstore \<Rightarrow> string \<Rightarrow> debt_item throws option" where
  "getTechDebt de fs sl =
     (case and_then (readFile fs (path_join [debt_base de fs, sl, ''README.md''])) (\<lambda>content. parseTechDebt de content sl) of
        Inr item \<Rightarrow> Some (Inr item)
      | Inl _ \<Rightarrow>
          map_option (\<lambda>r. and_then r (\<lambda>scans.
             (case find (\<lambda>p. sc_slug p = sl \<or> ends_with (sc_slug p) (''/'' @ sl)) scans of
                None \<Rightarrow>
                  Inl (''TechDebt item not found: '' @ sl @ [nl] @ ''Available items:'' @ [nl]
                    @ join_with [nl] (map (\<lambda>p. ''  - '' @ sc_slug p) scans))
              | Some found \<Rightarrow>
                  and_then (readFile fs (sc_path found)) (\<lambda>content. parseTechDebt de content (sc_slug found)))))
            (scanDocumentDirectory fs (de_cwd de) (debt_base de fs) ''README.md'' True))"

definition FRESHNESS_STATUS_MAP :: "string \<Rightarrow> lifecycle_status" where
  "FRESHNESS_STATUS_MAP st =
     (if st = ''accepted'' then Planned else if st = ''needs-remediation'' then In_progress
      else if st = ''monitoring'' then Planned else if st = ''resolved'' then Completed else In_progress)"

definition computeFreshness :: "clock \<Rightarrow> date option \<Rightarrow> string \<Rightarrow> freshness" where
  "computeFreshness ck lastReviewed st =
     (case lastReviewed of
        Some t \<Rightarrow> calculateFreshness ck t (FRESHNESS_STATUS_MAP st)
      | None \<Rightarrow> \<lparr>fr_score = Some (1 / 2), fr_days = Some 0, fr_status = Aging\<rparr>)"

definition debt_toRecord :: "debt_env \<Rightarrow> fstore \<Rightarrow> string \<Rightarrow> string \<Rightarrow> string option \<Rightarrow> debt_record option" where
  "debt_toRecord de fs filePath sl grp =
     (case and_then (readFile fs filePath) (\<lambda>content. parseTechDebt de content sl) of
        Inl _ \<Rightarrow> None
      | Inr item \<Rightarrow>
          (let d = di_data item;
               lastReviewed = (if dd_lastReviewed d \<noteq> [] then Some (parse_date (de_clock de) (dd_lastReviewed d)) else None)
           in Some
             \<lparr>dr_slug = sl, dr_title = di_title item,
              dr_status = (if dd_status d \<in> set techDebtStatusSchema then dd_status d else ''needs-remediation''),
              dr_severity = (if dd_severity d \<in> set severitySchema then dd_severity d else ''medium''),
              dr_category = (if dd_category d \<noteq> [] \<and> dd_category d \<in> set categorySchema then Some (dd_category d) else None),
              dr_priorityScore = dd_basePriority d, dr_nextReview = Some (dd_nextReview d), dr_group = grp,
              dr_path = filePath, dr_lastReviewed = lastReviewed,
              dr_freshness = computeFreshness (de_clock de) lastReviewed (dd_status d),
              dr_linkedBlueprints = dd_linked d\<rparr>))"

record debt_filters =
  df_status :: "string list option"
  df_severity :: "string list option"
  df_category :: "string list option"
  df_overdue :: bool
  df_staleDays :: "int option"

definition no_debt_filters :: debt_filters where
  "no_debt_filters = \<lparr>df_status = None, df_severity = None, df_category = None, df_overdue = False, df_staleDays = None\<rparr>"

definition matchesOverdueFilter :: "clock \<Rightarrow> debt_record \<Rightarrow> debt_filters \<Rightarrow> bool" where
  "matchesOverdueFilter ck item f \<longleftrightarrow>
     \<not> df_overdue f \<or> truthy (dr_nextReview item) \<and> isOverdue ck (text_of (dr_nextReview item))"

definition matchesStaleDaysFilter :: "clock \<Rightarrow> debt_record \<Rightarrow> debt_filters \<Rightarrow> bool" where
  "matchesStaleDaysFilter ck item f =
     (case df_staleDays f of
        None \<Rightarrow> True
      | Some n \<Rightarrow>
          (case dr_lastReviewed item of
             None \<Rightarrow> False
           | Some t \<Rightarrow> (case days_since ck t of None \<Rightarrow> False | Some k \<Rightarrow> k \<ge> n)))"

definition matchesAllFilters :: "clock \<Rightarrow> debt_record \<Rightarrow> debt_filters \<Rightarrow> bool" where
  "matchesAllFilters ck item f \<longleftrightarrow>
     matchesOptional (Some (dr_status item)) (df_status f)
     \<and> matchesOptional (Some (dr_severity item)) (df_severity f)
     \<and> matchesOptional (dr_category item) (df_category f)
     \<and> matchesOverdueFilter ck item f \<and> matchesStaleDaysFilter ck item f"

datatype debt_field = D_priorityScore | D_nextReview | D_lastReviewed | D_slug | D_severity

definition SEVERITY_ORDER :: "string \<Rightarrow> int" where
  "SEVERITY_ORDER severity =
     (if severity = ''critical'' then 4 else if severity = ''high'' then 3 else if severity = ''medium'' then 2
      else if severity = ''low'' then 1 else 0)"

text \<open>\<open>None\<close> is an absent value.\<close>

definition compareOptionalDates :: "date option \<Rightarrow> date option \<Rightarrow> int" where
  "compareOptionalDates a b = (case (a, b) of
     (None, None) \<Rightarrow> 0 | (None, Some _) \<Rightarrow> 1 | (Some _, None) \<Rightarrow> -1 | (Some s, Some t) \<Rightarrow> date_diff s t)"

definition review_date :: "clock \<Rightarrow> debt_record \<Rightarrow> date option" where
  "review_date ck item =
     (if truthy (dr_nextReview item) then Some (parse_date ck (text_of (dr_nextReview item))) else None)"

definition compareField :: "clock \<Rightarrow> (string \<Rightarrow> string \<Rightarrow> int) \<Rightarrow> debt_record \<Rightarrow> debt_record \<Rightarrow> debt_field \<Rightarrow> int" where
  "compareField ck lc a b field = (case field of
     D_priorityScore \<Rightarrow> dr_priorityScore a - dr_priorityScore b
   | D_nextReview \<Rightarrow> compareOptionalDates (review_date ck a) (review_date ck b)
   | D_lastReviewed \<Rightarrow> compareOptionalDates (dr_lastReviewed a) (dr_lastReviewed b)
   | D_slug \<Rightarrow> lc (dr_slug a) (dr_slug b)
   | D_severity \<Rightarrow> SEVERITY_ORDER (dr_severity a) - SEVERITY_ORDER (dr_severity b))"

definition debt_applySorting ::
    "clock \<Rightarrow> (string \<Rightarrow> string \<Rightarrow> int) \<Rightarrow> debt_record list \<Rightarrow> debt_field \<times> bool \<Rightarrow> debt_record list" where
  "debt_applySorting ck lc items so =
     js_sort (\<lambda>a b. compareField ck lc a b (fst so) * (if snd so then 1 else -1)) items"

record debt_summary =
  ds_total :: nat
  ds_byStatus :: "(string, nat) js_map"
  ds_bySeverity :: "(string, nat) js_map"
  ds_overdueCount :: nat
  ds_avgPriority :: real

definition debt_computeQuerySummary :: "clock \<Rightarrow> debt_record list \<Rightarrow> nat \<Rightarrow> debt_summary" where
  "debt_computeQuerySummary ck allItems totalFiltered =
     \<lparr>ds_total = totalFiltered,
      ds_byStatus = countByField dr_status allItems, ds_bySeverity = countByField dr_severity allItems,
      ds_overdueCount =
        length (filter (\<lambda>i. truthy (dr_nextReview i) \<and> isOverdue ck (text_of (dr_nextReview i))) allItems),
      ds_avgPriority =
        (if allItems \<noteq> [] then of_int (sum_list (map dr_priorityScore allItems)) / of_nat (length allItems) else 0)\<rparr>"

definition debt_query ::
    "debt_env \<Rightarrow> fstore \<Rightarrow> (debt_record, debt_filters, debt_field \<times> bool) query_options
      \<Rightarrow> (debt_record list \<times> debt_summary) throws option" where
  "debt_query de fs qo =
     map_option (\<lambda>r. and_then r (\<lambda>scans.
         (let items = buildRecords (\<lambda>s. debt_toRecord de fs (sc_path s) (sc_slug s) (sc_group s)) scans
          in case processQueryPipeline (matchesAllFilters (de_clock de))
                    (debt_applySorting (de_clock de) (de_compare de)) items qo of
               (records, n) \<Rightarrow> Inr (records, debt_computeQuerySummary (de_clock de) items n))))
       (scanDocumentDirectory fs (de_cwd de) (debt_base de fs) ''README.md'' False)"

definition debts_where :: "debt_env \<Rightarrow> fstore \<Rightarrow> debt_filters \<Rightarrow> debt_record list throws option" where
  "debts_where de fs f =
     plans_of (debt_query de fs \<lparr>qo_filters = Some f, qo_sort = None, qo_limit = 0, qo_offset = 0\<rparr>)"

definition getOverdueReviews :: "debt_env \<Rightarrow> fstore \<Rightarrow> debt_record list throws option" where
  "getOverdueReviews de fs = debts_where de fs (no_debt_filters\<lparr>df_overdue := True\<rparr>)"

definition getByCategory :: "debt_env \<Rightarrow> fstore \<Rightarrow> string \<Rightarrow> debt_record list throws option" where
  "getByCategory de fs cat =
     (if cat \<notin> set categorySchema then Some (Inl (''Invalid category: '' @ cat))
      else debts_where de fs (no_debt_filters\<lparr>df_category := Some [cat]\<rparr>))"

definition getBySeverity :: "debt_env \<Rightarrow> fstore \<Rightarrow> string \<Rightarrow> debt_record list throws option" where
  "getBySeverity de fs severity =
     (if severity \<notin> set severitySchema then Some (Inl (''Invalid severity: '' @ severity))
      else debts_where de fs (no_debt_filters\<lparr>df_severity := Some [severity]\<rparr>))"

end
