(* ===== verification/DocumentUpdates.thy ===== *)
theory DocumentUpdates
  imports TechDebt SampleDocs
begin

text \<open>
  Documents changed in place: the links between blueprints and technical debt
  (\<open>blueprint/service/blueprint-tech-debt-links.ts\<close>) and the archiving of a blueprint
  (\<open>blueprint/utils/archive.ts\<close>).  Every call returns the store it leaves behind.
\<close>

section \<open>Links (blueprint-tech-debt-links.ts)\<close>

text \<open>\<open>JSON.parse(JSON.stringify(data))\<close>: a date becomes its text.\<close>

definition json_clone :: "fm \<Rightarrow> fm" where
  "json_clone d = map (\<lambda>(k, v). (k, case v of FDate s \<Rightarrow> FVal (JStr s) | FVal x \<Rightarrow> FVal x)) d"

text \<open>
  The list of a field; anything but a list (a text would be spread into its characters) is a
  type error here.
\<close>

definition linked_slugs :: "fm \<Rightarrow> string \<Rightarrow> json list throws" where
  "linked_slugs d field =
     (case map_get d field of
        None \<Rightarrow> Inr [] | Some (FVal JNull) \<Rightarrow> Inr [] | Some (FVal (JArr vs)) \<Rightarrow> Inr vs
      | _ \<Rightarrow> Inl ''linked is not iterable'')"

definition updateLinkedSlugs ::
    "docs \<Rightarrow> fstore \<Rightarrow> string \<Rightarrow> string \<Rightarrow> (json list \<Rightarrow> json list) \<Rightarrow> fstore throws" where
  "updateLinkedSlugs dx fs filePath field transform =
     and_then (readFile fs filePath) (\<lambda>rawContent.
     and_then (matter dx rawContent) (\<lambda>(parsed, content).
       (let data = json_clone parsed
        in and_then (linked_slugs data field) (\<lambda>linked.
             (let nextLinked = set_of_list (transform linked)
              in if linked = nextLinked then Inr fs
                 else writeFile fs filePath (stringify dx content (map_set field (FVal (JArr nextLinked)) data)))))))"

definition linkBlueprintToTechDebt ::
    "docs \<Rightarrow> fstore \<Rightarrow> string \<Rightarrow> string \<Rightarrow> string option \<Rightarrow> string \<Rightarrow> string \<Rightarrow> unit throws \<times> fstore" where
  "linkBlueprintToTechDebt dx fs cwd baseDir project bpSlug tdSlug =
     (case updateLinkedSlugs dx fs (path_join [baseDir, bpSlug, ''_overview.md'']) ''linked_tech_debt_slugs''
             (\<lambda>linked. linked @ [JStr tdSlug]) of
        Inl e \<Rightarrow> (Inl e, fs)
      | Inr fs1 \<Rightarrow>
          (case updateLinkedSlugs dx fs1 (path_join [resolveTechDebtRoot fs1 cwd project, tdSlug, ''README.md''])
                  ''linked_blueprints'' (\<lambda>linked. linked @ [JStr bpSlug]) of
             Inl e \<Rightarrow> (Inl e, fs1)
           | Inr fs2 \<Rightarrow> (Inr (), fs2)))"

definition unlinkBlueprintFromTechDebt ::
    "docs \<Rightarrow> fstore \<Rightarrow> string \<Rightarrow> string \<Rightarrow> string option \<Rightarrow> string \<Rightarrow> string \<Rightarrow> unit throws \<times> fstore" where
  "unlinkBlueprintFromTechDebt dx fs cwd baseDir project bpSlug tdSlug =
     (case updateLinkedSlugs dx fs (path_join [baseDir, bpSlug, ''_overview.md'']) ''linked_tech_debt_slugs''
             (filter (\<lambda>s. s \<noteq> JStr tdSlug)) of
        Inl e \<Rightarrow> (Inl e, fs)
      | Inr fs1 \<Rightarrow>
          (case updateLinkedSlugs dx fs1 (path_join [resolveTechDebtRoot fs1 cwd project, tdSlug, ''README.md''])
                  ''linked_blueprints'' (filter (\<lambda>s. s \<noteq> JStr bpSlug)) of
             Inl _ \<Rightarrow> (Inr (), fs1)
           | Inr fs2 \<Rightarrow> (Inr (), fs2)))"

text \<open>\<open>TechDebtService.linkToBlueprint\<close> checks first that the debt exists.\<close>

definition linkToBlueprint ::
    "debt_env \<Rightarrow> fstore \<Rightarrow> string \<Rightarrow> string \<Rightarrow> unit throws \<times> fstore" where
  "linkToBlueprint de fs tdSlug bpSlug =
     (let itemPath = path_join [debt_base de fs, tdSlug, ''README.md'']
      in if \<not> existsSync fs itemPath then (Inl (fs_error (absent_code fs (path_key itemPath)) ''access'' itemPath), fs)
         else linkBlueprintToTechDebt (de_docs de) fs (de_cwd de)
                (resolveBlueprintRoot fs (de_cwd de) (de_project de)) (de_project de) bpSlug tdSlug)"

section \<open>Reading the links back, and moving (TechDebtService.ts, BlueprintService.ts)\<close>

text \<open>The service's read of one field of a document.\<close>

definition linked_field :: "docs \<Rightarrow> fstore \<Rightarrow> string \<Rightarrow> string \<Rightarrow> json throws" where
  "linked_field dx fs p field =
     and_then (readFile fs p) (\<lambda>content.
     and_then (matter dx content) (\<lambda>(parsed, _).
       (case map_get (json_clone parsed) field of Some (FVal v) \<Rightarrow> Inr v | _ \<Rightarrow> Inr JNull)))"

text \<open>
  The links are a list, as the schema of technical debt has it; what is not a list has no links
  (a text, which has a length, is outside the model).
\<close>

definition slug_linked :: "json list \<Rightarrow> string \<Rightarrow> bool" where
  "slug_linked linkedBlueprints sl \<longleftrightarrow>
     JStr sl \<in> set linkedBlueprints \<or> list_ex (\<lambda>v. ends_with sl (''/'' @ js_string v)) linkedBlueprints"

definition getLinkedBlueprints :: "debt_env \<Rightarrow> fstore \<Rightarrow> string \<Rightarrow> blueprint_record list throws option" where
  "getLinkedBlueprints de fs tdSlug =
     (case linked_field (de_docs de) fs (path_join [debt_base de fs, tdSlug, ''README.md'']) ''linked_blueprints'' of
        Inl e \<Rightarrow> Some (Inl e)
      | Inr (JArr linkedBlueprints) \<Rightarrow>
          if linkedBlueprints = [] then Some (Inr [])
          else
            map_option (\<lambda>r. and_then r (\<lambda>scannedBlueprints.
                Inr (buildRecords (\<lambda>b. toBlueprintRecord (de_docs de) (de_clock de) fs (sc_path b) (sc_slug b) (sc_group b))
                  (filter (\<lambda>b. slug_linked linkedBlueprints (sc_slug b)) scannedBlueprints))))
              (scanBlueprintDirectory fs (de_cwd de) (resolveBlueprintRoot fs (de_cwd de) (de_project de)) True)
      | Inr _ \<Rightarrow> Some (Inr []))"

definition getLinkedTechDebt :: "debt_env \<Rightarrow> fstore \<Rightarrow> string \<Rightarrow> string \<Rightarrow> debt_record list throws option" where
  "getLinkedTechDebt de fs base bpSlug =
     (let candidates = getBlueprintDocumentCandidates base bpSlug;
          filePath = (case find (existsSync fs) candidates of
             Some p \<Rightarrow> p
           | None \<Rightarrow> (case candidates of c # _ \<Rightarrow> c | [] \<Rightarrow> path_join [base, bpSlug, ''_overview.md'']))
      in case linked_field (de_docs de) fs filePath ''linked_tech_debt_slugs'' of
           Inl e \<Rightarrow> Some (Inl e)
         | Inr (JArr linked) \<Rightarrow>
             if linked = [] then Some (Inr [])
             else
               map_option (\<lambda>r. and_then r (\<lambda>(items, _). Inr (filter (\<lambda>d. JStr (dr_slug d) \<in> set linked) items)))
                 (debt_query de fs \<lparr>qo_filters = None, qo_sort = None, qo_limit = 0, qo_offset = 0\<rparr>)
         | Inr _ \<Rightarrow> Some (Inr []))"

text \<open>The trace that is written after a move is left out.\<close>

definition moveBlueprint ::
    "env \<Rightarrow> fstore \<Rightarrow> string \<Rightarrow> string option \<Rightarrow> string \<Rightarrow> string \<Rightarrow> (write_result throws \<times> fstore) option" where
  "moveBlueprint en fs cwd projectPath sl targetStatus_name =
     (let projectRoot = (case projectPath of Some p \<Rightarrow> p | None \<Rightarrow> cwd);
          intent = (if targetStatus_name = ''completed'' then Finalize else Start None None)
      in applyBlueprintLifecycleToFile en fs cwd projectRoot sl intent)"

section \<open>Archiving (archive.ts)\<close>

record incomplete_task =
  it_id :: string
  it_title :: string
  it_status :: task_status

definition isTaskComplete :: "task \<Rightarrow> bool" where
  "isTaskComplete task \<longleftrightarrow>
     (if t_status task = Dropped then True
      else if t_status task \<noteq> Done then False
      else \<not> (0 < total (acceptanceCriteria task) \<and> checked (acceptanceCriteria task) \<noteq> total (acceptanceCriteria task)))"

definition findIncompleteTasks :: "task list \<Rightarrow> incomplete_task list" where
  "findIncompleteTasks tasks =
     map (\<lambda>t. \<lparr>it_id = t_id t, it_title = t_title t, it_status = t_status t\<rparr>)
       (filter (\<lambda>t. \<not> isTaskComplete t) tasks)"

definition formatErrorMessage :: "incomplete_task list \<Rightarrow> string" where
  "formatErrorMessage incompleteTasks =
     nat_str (length incompleteTasks) @ '' task'' @ (if length incompleteTasks = 1 then [] else ''s'')
       @ '' incomplete: ''
       @ join_with '', '' (map (\<lambda>t. ''Task '' @ it_id t @ '' ('' @ task_status_str (it_status t) @ '')'') incompleteTasks)"

definition validateAllTasksDone :: "blueprint \<Rightarrow> string option" where \<comment> \<open>the message, if a task is incomplete\<close>
  "validateAllTasksDone plan =
     (let incomplete = findIncompleteTasks (b_tasks plan)
      in if incomplete = [] then None else Some (formatErrorMessage incomplete))"

definition isAlreadyCompleted :: "string \<Rightarrow> bool" where
  "isAlreadyCompleted sl \<longleftrightarrow> starts_with sl ''completed/''"

definition archive_source :: "fstore \<Rightarrow> string \<Rightarrow> string \<Rightarrow> string \<Rightarrow> string" where
  "archive_source fs cwd projectPath sl =
     path_join [resolveBlueprintRoot fs cwd (Some projectPath), sl, ''_overview.md'']"

definition status_line :: regex where \<comment> \<open>\<open>/^status:\\s*\\S+/m\<close>\<close>
  "status_line = sq [StartLine, lit ''status:'', star ws, plus non_ws]"

definition archive_updateStatus :: "fstore \<Rightarrow> string \<Rightarrow> fstore throws" where
  "archive_updateStatus fs sourcePath =
     (case and_then (readFile fs sourcePath) (\<lambda>content.
             writeFile fs sourcePath (replace_first status_line (\<lambda>_. ''status: completed'') content)) of
        Inl e \<Rightarrow> Inl (''Failed to update status: '' @ e)
      | Inr fs' \<Rightarrow> Inr fs')"

text \<open>
  The result of the call: the new path, or the error it reports.  The outer \<open>Inl\<close> is an exception:
  a document that exists but cannot be read or parsed.
\<close>

definition archiveBlueprint ::
    "docs \<Rightarrow> fstore \<Rightarrow> string \<Rightarrow> string \<Rightarrow> string \<Rightarrow> (string + string) throws \<times> fstore" where
  "archiveBlueprint dx fs cwd sl projectPath =
     (if isAlreadyCompleted sl then (Inr (Inl ''Plan is already completed''), fs)
      else
        (let sourcePath = archive_source fs cwd projectPath sl
         in if \<not> existsSync fs sourcePath then (Inr (Inl (''Plan not found: '' @ sl)), fs)
            else
              (case and_then (readFile fs sourcePath) (\<lambda>content. parseBlueprint dx content sl) of
                 Inl e \<Rightarrow> (Inl e, fs)
               | Inr plan \<Rightarrow>
                   (case validateAllTasksDone plan of
                      Some msg \<Rightarrow> (Inr (Inl msg), fs)
                    | None \<Rightarrow>
                        (case archive_updateStatus fs sourcePath of
                           Inl e \<Rightarrow> (Inr (Inl e), fs)
                         | Inr fs' \<Rightarrow> (Inr (Inr (key_dirname sourcePath)), fs'))))))"

end
