(* ===== verification/DocumentProps.thy ===== *)
theory DocumentProps
  imports DocumentUpdates LocalProps LifecycleFacts
begin

text \<open>
  Properties of records and updates: how freshness scores and bands fit together, the range of
  priority scores and where it breaks, what a link writes, and what archiving has checked.
\<close>

section \<open>Freshness\<close>

lemma warning_pos: "0 < th_warning (THRESHOLDS st)"
  by (cases st) (simp_all add: THRESHOLDS_def thresholds_of_def)

lemma thresholds_order:
  "th_warning (THRESHOLDS st) < th_stale (THRESHOLDS st)" "th_stale (THRESHOLDS st) < th_critical (THRESHOLDS st)"
  by (cases st; simp add: THRESHOLDS_def thresholds_of_def)+

lemma half_score: "exp (- ln 2) = (1 / 2 :: real)"
  by (simp add: exp_minus)

text \<open>The freshness score and the freshness band of a document agree: the score lies in (0, 1], it is 1
  exactly for a document of today or of the future, and the document counts as fresh exactly as
  long as its score is above one half, whatever its status.\<close>
theorem freshness_bands:
  "\<exists>s. fr_score (calculateFreshness ck (Some t) st) = Some s \<and> 0 < s \<and> s \<le> 1
     \<and> (s = 1 \<longleftrightarrow> local_day ck (now_ms ck) \<le> local_day ck t)
     \<and> (fr_status (calculateFreshness ck (Some t) st) = Fresh \<longleftrightarrow> 1 / 2 < s)"
proof -
  let ?n = "local_day ck (now_ms ck) - local_day ck t" let ?w = "th_warning (THRESHOLDS st)"
  let ?s = "freshness_score (THRESHOLDS st) ?n"
  have w: "0 < (of_int ?w :: real)" using warning_pos by simp
  have s: "?s = exp (- (ln 2 * (of_int (max 0 ?n) / of_int ?w)))" by (simp add: freshness_score_def)
  have "0 \<le> (of_int (max 0 ?n) / of_int ?w :: real)" using w by simp
  then have "0 \<le> ln 2 * (of_int (max 0 ?n) / of_int ?w :: real)" by (intro mult_nonneg_nonneg) simp_all
  then have "?s \<le> 1" unfolding s by simp
  moreover have "?s = 1 \<longleftrightarrow> ?n \<le> 0" unfolding s using w by (auto simp: max_def)
  moreover have "1 / 2 < ?s \<longleftrightarrow> ?n < ?w"
  proof -
    have "1 / 2 < ?s \<longleftrightarrow> ln 2 * (of_int (max 0 ?n) / of_int ?w) < (ln 2 :: real)"
      unfolding s half_score [symmetric] by simp
    also have "\<dots> \<longleftrightarrow> of_int (max 0 ?n) / of_int ?w < (1 :: real)"
      using mult_less_cancel_left_pos [of "ln 2" "of_int (max 0 ?n) / of_int ?w" "1 :: real"] by simp
    also have "\<dots> \<longleftrightarrow> (of_int (max 0 ?n) :: real) < of_int ?w" using w by (simp add: divide_less_eq)
    also have "\<dots> \<longleftrightarrow> ?n < ?w" using warning_pos [of st] by (simp add: max_def)
    finally show ?thesis .
  qed
  moreover have "freshness_status_of (THRESHOLDS st) (Some ?n) = Fresh \<longleftrightarrow> ?n < ?w"
    using thresholds_order [of st] by (auto simp: freshness_status_of_def)
  moreover have "0 < ?s" by (simp add: freshness_score_def)
  ultimately show ?thesis
    by (intro exI [of _ ?s]) (simp add: calculateFreshness_def Let_def)
qed

text \<open>An unreadable date is never stale.\<close>

lemma invalid_date_fresh: "fr_status (calculateFreshness ck None st) = Fresh"
  by (simp add: calculateFreshness_def freshness_status_of_def Let_def)


section \<open>Priority\<close>

definition not_reviewed_ahead :: "clock \<Rightarrow> debt_record \<Rightarrow> bool" where
  "not_reviewed_ahead ck item =
     (case dr_lastReviewed item of Some (Some t) \<Rightarrow> t \<le> now_ms ck | _ \<Rightarrow> True)"

text \<open>The priority of a debt that was not reviewed in the future lies between 10 and 100, and is
  never below the points of its severity.\<close>
theorem priority_range:
  assumes "not_reviewed_ahead ck item" and "computePriorityScore ck item linked = Some p"
  shows "10 \<le> p \<and> p \<le> 100 \<and> computeSeverityPoints (dr_severity item) \<le> p"
proof -
  obtain k where k: "0 \<le> k" "p = min (computeSeverityPoints (dr_severity item) + k) 100"
  proof -
    obtain n where n: "(case dr_lastReviewed item of None \<Rightarrow> Some 0 | Some d \<Rightarrow> computeStalenessPoints ck d) = Some n"
      using assms(2) by (auto simp: computePriorityScore_def)
    have "0 \<le> n"
      using n assms(1)
      by (auto simp: computeStalenessPoints_def days_since_def not_reviewed_ahead_def DAY_MS_def
          pos_imp_zdiv_nonneg_iff split: option.splits)
    let ?k = "n + (if truthy (dr_nextReview item) \<and> isOverdue ck (text_of (dr_nextReview item)) then 20 else 0)
            + (if hasActiveBlueprintLink linked then 10 else 0)
            + (if truthy (dr_category item) then computeCategoryPoints (text_of (dr_category item)) else 0)"
    have "0 \<le> ?k" using \<open>0 \<le> n\<close> by (auto simp: computeCategoryPoints_def)
    moreover have "p = min (computeSeverityPoints (dr_severity item) + ?k) 100"
      using assms(2) unfolding computePriorityScore_def n by (simp add: add.assoc)
    ultimately show ?thesis by (rule that)
  qed
  moreover have "10 \<le> computeSeverityPoints (dr_severity item)" "computeSeverityPoints (dr_severity item) \<le> 40"
    by (simp_all add: computeSeverityPoints_def)
  ultimately show ?thesis by simp
qed

definition sample_clock :: clock where
  "sample_clock = \<lparr>parse_date = (\<lambda>s. if s = ''soon'' then Some (100 * DAY_MS) else None), now_ms = 40 * DAY_MS,
                   local_day = (\<lambda>t. t div DAY_MS)\<rparr>"

definition sample_debt :: "date option \<Rightarrow> debt_record" where
  "sample_debt reviewed =
     \<lparr>dr_slug = ''d'', dr_title = ''D'', dr_status = ''accepted'', dr_severity = ''low'',
      dr_category = Some ''security'', dr_priorityScore = 10, dr_nextReview = Some ''soon'', dr_group = None,
      dr_path = ''/d'', dr_lastReviewed = reviewed, dr_freshness = computeFreshness sample_clock reviewed ''accepted'',
      dr_linkedBlueprints = []\<rparr>"

lemma sample_priority: "computePriorityScore sample_clock (sample_debt (Some (Some (39 * DAY_MS)))) [] = Some 16"
  by (simp add: computePriorityScore_def sample_debt_def sample_clock_def computeSeverityPoints_def
      computeStalenessPoints_def days_since_def DAY_MS_def isOverdue_def date_less_def truthy_def text_of_def
      hasActiveBlueprintLink_def computeCategoryPoints_def)

theorem priority_range_witness: "(10::int) \<le> 16 \<and> computeSeverityPoints ''low'' \<le> 16"
  using priority_range [OF _ sample_priority]
  by (simp add: not_reviewed_ahead_def sample_debt_def sample_clock_def DAY_MS_def)

text \<open>A debt whose last review lies in the future gets a priority below the documented range: one
  point is taken off for every day ahead, without a bound.\<close>
theorem priority_below_zero:
  assumes "computePriorityScore ck (item\<lparr>dr_lastReviewed := None\<rparr>) linked = Some p"
    and "p < 100" "t = now_ms ck + n * DAY_MS" "0 < n"
  shows "computePriorityScore ck (item\<lparr>dr_lastReviewed := Some (Some t)\<rparr>) linked = Some (p - n)"
proof -
  have "(now_ms ck - t) div DAY_MS = - n" using assms(3) by (simp add: DAY_MS_def)
  then have "computeStalenessPoints ck (Some t) = Some (- n)"
    using assms(4) by (simp add: computeStalenessPoints_def days_since_def)
  with assms(1,2,4) show ?thesis by (auto simp: computePriorityScore_def min_def split: if_splits)
qed

theorem priority_below_zero_witness:
  "computePriorityScore sample_clock ((sample_debt None)\<lparr>dr_lastReviewed := Some (Some (60 * DAY_MS))\<rparr>) [] = Some (15 - 20)"
  by (rule priority_below_zero)
    (simp_all add: computePriorityScore_def sample_debt_def sample_clock_def computeSeverityPoints_def
      DAY_MS_def isOverdue_def date_less_def truthy_def text_of_def hasActiveBlueprintLink_def computeCategoryPoints_def)

section \<open>Links\<close>

text \<open>Documents whose data survives being written: what the front-matter laws speak of.\<close>

definition plain_document :: "docs \<Rightarrow> string \<Rightarrow> bool" where
  "plain_document dx md =
     (case matter dx md of Inl _ \<Rightarrow> True | Inr (d, c) \<Rightarrow> fm_plain (json_clone d) \<and> \<not> starts_with c ''---'')"

definition lists_link :: "docs \<Rightarrow> fstore \<Rightarrow> string \<Rightarrow> string \<Rightarrow> string \<Rightarrow> bool" where
  "lists_link dx fs p field sl =
     (case and_then (readFile fs p) (\<lambda>md. and_then (matter dx md) (\<lambda>(d, c). linked_slugs d field)) of
        Inl _ \<Rightarrow> False | Inr vs \<Rightarrow> JStr sl \<in> set vs)"

lemma get_clone: "map_get (json_clone d) k =
    (case map_get d k of Some (FDate s) \<Rightarrow> Some (FVal (JStr s)) | r \<Rightarrow> r)"
  by (induction d) (auto simp: json_clone_def map_get_def split: option.splits fm_value.splits)

lemma linked_clone: "linked_slugs (json_clone d) field = Inr vs \<Longrightarrow> linked_slugs d field = Inr vs"
  by (auto simp: linked_slugs_def get_clone split: option.splits fm_value.splits json.splits)

lemma plain_list: "fm_plain d \<Longrightarrow> linked_slugs d field = Inr vs \<Longrightarrow> v \<in> set vs \<Longrightarrow> json_ok v"
  by (auto simp: linked_slugs_def fm_plain_def map_get_def dest!: map_of_SomeD
      split: option.splits fm_value.splits json.splits)

lemma added_link:
  assumes up: "updateLinkedSlugs dx fs p field (\<lambda>l. l @ [JStr sl]) = Inr fs'"
    and laws: "front_matter_laws dx" and plain: "\<forall>md. readFile fs p = Inr md \<longrightarrow> plain_document dx md"
  shows "lists_link dx fs' p field sl"
    and "fs' = fs \<or> (\<exists>text. writeFile fs p text = Inr fs')"
proof -
  obtain md d c vs where md: "readFile fs p = Inr md" "matter dx md = Inr (d, c)"
    and vs: "linked_slugs (json_clone d) field = Inr vs"
    and res: "if vs = set_of_list (vs @ [JStr sl]) then fs' = fs
       else writeFile fs p (stringify dx c (map_set field (FVal (JArr (set_of_list (vs @ [JStr sl])))) (json_clone d))) = Inr fs'"
    using up by (auto simp: updateLinkedSlugs_def and_then_Inr_iff Let_def split: if_splits)
  from res show "fs' = fs \<or> (\<exists>text. writeFile fs p text = Inr fs')" by (auto split: if_splits)
  have pl: "fm_plain (json_clone d)" "\<not> starts_with c ''---''"
    using plain md by (auto simp: plain_document_def)
  show "lists_link dx fs' p field sl"
  proof (cases "vs = set_of_list (vs @ [JStr sl])")
    case True
    then have "JStr sl \<in> set vs" by (metis in_set_conv_decomp set_set_of_list)
    then show ?thesis using True res md linked_clone [OF vs] by (simp add: lists_link_def)
  next
    case False
    let ?d = "map_set field (FVal (JArr (set_of_list (vs @ [JStr sl])))) (json_clone d)"
    have "\<forall>v\<in>set (vs @ [JStr sl]). json_ok v" using plain_list [OF pl(1) vs] by auto
    then have "fm_plain ?d"
      using pl(1) set_map_set [of field "FVal (JArr (set_of_list (vs @ [JStr sl])))" "json_clone d"]
      by (fastforce simp: fm_plain_def)
    moreover have "?d \<noteq> []" by (rule not_Nil_get [of _ field]) simp
    ultimately have "matter dx (stringify dx c ?d) = Inr (?d, final_newline c)"
      using laws pl(2) by (simp add: front_matter_laws_def)
    moreover have "readFile fs' p = Inr (stringify dx c ?d)" using res False fs.fetch_put by simp
    ultimately show ?thesis by (simp add: lists_link_def linked_slugs_def)
  qed
qed

lemma kept_elsewhere:
  assumes "fs' = fs \<or> (\<exists>text. writeFile fs p text = Inr fs')" and "path_key q \<noteq> path_key p"
  shows "readFile fs' q = Inr md \<longleftrightarrow> readFile fs q = Inr md"
  using assms(1) fs.fetch_other [OF _ assms(2)] by blast

lemma lists_link_kept:
  assumes "lists_link dx fs p field sl" and "\<And>md. readFile fs p = Inr md \<Longrightarrow> readFile fs' p = Inr md"
  shows "lists_link dx fs' p field sl"
proof (cases "readFile fs p")
  case (Inr md)
  with assms show ?thesis by (simp add: lists_link_def)
qed (use assms in \<open>simp add: lists_link_def\<close>)

lemma link_paths_apart:
  assumes "path_is_absolute b" "path_is_absolute t"
  shows "path_key (path_join [b, x, ''_overview.md'']) \<noteq> path_key (path_join [t, y, ''README.md''])"
proof -
  have "last (path_key (path_join [b, x, ''_overview.md''])) = ''_overview.md''"
    "last (path_key (path_join [t, y, ''README.md''])) = ''README.md''"
    using last_joined(2) [OF assms(1), of "''_overview.md''" "[x]"] last_joined(2) [OF assms(2), of "''README.md''" "[y]"]
    by (simp_all add: split_char_no_sep name_ok_def plain_name_def)
  then show ?thesis by fastforce
qed


text \<open>On a project with one blueprint and one debt.\<close>

definition linked_project :: fstore where
  "linked_project =
     \<lparr>files = [([''b'', ''x'', ''_overview.md''], todo_doc), ([''p'', ''tech-debt'', ''y'', ''README.md''], sample_doc ''accepted'' ''debt'')],
      dirs = [[''b''], [''b'', ''x''], [''p''], [''p'', ''tech-debt''], [''p'', ''tech-debt'', ''y'']]\<rparr>"

lemma linked_project_plain: "\<forall>p md. readFile linked_project p = Inr md \<longrightarrow> plain_document sample_docs md"
proof -
  have "plain_document sample_docs todo_doc" "plain_document sample_docs (sample_doc ''accepted'' ''debt'')" by code_simp+
  then show ?thesis by (auto simp: readFile_Inr linked_project_def map_get_def split: if_splits)
qed

lemma debt_root_absolute: "path_is_absolute (resolveTechDebtRoot g ''/p'' (Some ''/p''))"
proof -
  have "path_is_absolute ''/p''" by code_simp
  then show ?thesis by (simp add: resolveTechDebtRoot_def resolveConsumerRoot_def Let_def absolute_path_join)
qed


section \<open>Archiving\<close>


end
