(* ===== verification/DebtProps.thy ===== *)
theory DebtProps
  imports TechDebt LifecycleProps
begin

text \<open>
  Properties of queries over technical debt: every record a query returns stands for a document that
  obeys the schema, with the computed fields of the schema in it.
\<close>

lemma pipeline_records:
  assumes "r \<in> set (fst (processQueryPipeline matches (\<lambda>rs s. js_sort (cmp s) rs) rs qo))"
  shows "r \<in> set rs" "qo_filters qo = Some f \<Longrightarrow> matches r f"
  using assms
  by (auto simp: processQueryPipeline_def Let_def split: option.splits if_splits dest!: in_set_takeD in_set_dropD)

lemma pipeline_total:
  "snd (processQueryPipeline matches (\<lambda>rs s. js_sort (cmp s) rs) rs qo)
     = length (case qo_filters qo of None \<Rightarrow> rs | Some f \<Rightarrow> filter (\<lambda>r. matches r f) rs)"
  by (auto simp: processQueryPipeline_def Let_def split: option.splits)

lemma debt_sorting: "debt_applySorting ck lc = (\<lambda>rs s. js_sort (\<lambda>a b. compareField ck lc a b (fst s) * (if snd s then 1 else -1)) rs)"
  by (auto simp: debt_applySorting_def fun_eq_iff)

definition typed_debt :: "clock \<Rightarrow> fm \<Rightarrow> debt_data \<Rightarrow> bool" where
  "typed_debt ck d dd \<longleftrightarrow>
     fm_str d ''type'' = Some ''tech-debt''
     \<and> fm_str d ''status'' = Some (dd_status dd) \<and> dd_status dd \<in> set techDebtStatusSchema
     \<and> fm_str d ''severity'' = Some (dd_severity dd) \<and> dd_severity dd \<in> set severitySchema
     \<and> fm_str d ''category'' = Some (dd_category dd) \<and> dd_category dd \<in> set categorySchema
     \<and> fm_str d ''review_cadence'' = Some (dd_cadence dd) \<and> dd_cadence dd \<in> set reviewCadenceSchema
     \<and> (dd_severity dd = ''critical'' \<longrightarrow> dd_cadence dd = ''weekly'')
     \<and> dd_basePriority dd = computeBasePriority (dd_severity dd)
     \<and> (\<exists>day t. date_field d ''last_reviewed'' = Some day \<and> parse_date ck day = Some t
           \<and> dd_nextReview dd = iso_day (t div DAY_MS + cadence_days (dd_cadence dd)))"

lemma enum_field_text: "enum_field opts d k \<Longrightarrow> fm_str d k = Some (text_of (fm_str d k)) \<and> text_of (fm_str d k) \<in> set opts"
  by (auto simp: enum_field_def text_of_def split: option.splits)

lemma schema_typed:
  assumes "techDebtFrontmatterSchema ck err d = Inr dd"
  shows "typed_debt ck d dd"
proof -
  have ok: "debt_fields_ok d" using assms by (auto simp: techDebtFrontmatterSchema_def split: if_splits)
  then obtain day where day: "date_field d ''last_reviewed'' = Some day" by (auto simp: debt_fields_ok_def)
  obtain t where t: "parse_date ck day = Some t"
    using assms ok day
    by (auto simp: techDebtFrontmatterSchema_def computeNextReview_def Let_def text_of_def split: option.splits)
  note enums = ok [unfolded debt_fields_ok_def, THEN conjunct2, THEN conjunct1, THEN enum_field_text]
    ok [unfolded debt_fields_ok_def, THEN conjunct2, THEN conjunct2, THEN conjunct1, THEN enum_field_text]
    ok [unfolded debt_fields_ok_def, THEN conjunct2, THEN conjunct2, THEN conjunct2, THEN conjunct1, THEN enum_field_text]
    ok [unfolded debt_fields_ok_def, THEN conjunct2, THEN conjunct2, THEN conjunct2, THEN conjunct2, THEN conjunct1, THEN enum_field_text]
  have "fm_str d ''type'' = Some ''tech-debt''" using ok by (simp add: debt_fields_ok_def)
  with enums assms ok day t show ?thesis
    unfolding typed_debt_def
    by (auto simp: techDebtFrontmatterSchema_def computeNextReview_def Let_def text_of_def split: if_splits)
qed

text \<open>C36. A query over technical debt returns typed records: each stands for a document whose front matter
  obeys the schema, with the status, severity and category written there, the base priority of its
  severity, and the review due one cadence after the last one; critical debt is reviewed weekly, and
  every record passes the filters of the query.\<close>
theorem queried_debts_typed:
  assumes "debt_query de fs qo = Some (Inr (items, summary))" "r \<in> set items"
  shows "\<exists>md d c dd. readFile fs (dr_path r) = Inr md \<and> matter (de_docs de) md = Inr (d, c) \<and> typed_debt (de_clock de) d dd
    \<and> dr_status r = dd_status dd \<and> dr_severity r = dd_severity dd \<and> dr_category r = Some (dd_category dd)
    \<and> dr_priorityScore r = computeSeverityPoints (dr_severity r) \<and> dr_nextReview r = Some (dd_nextReview dd)
    \<and> (\<forall>f. qo_filters qo = Some f \<longrightarrow> matchesAllFilters (de_clock de) r f)"
proof -
  obtain scans :: "scanned list" where "r \<in> set (fst (processQueryPipeline (matchesAllFilters (de_clock de))
      (debt_applySorting (de_clock de) (de_compare de)) (buildRecords (\<lambda>s. debt_toRecord de fs (sc_path s) (sc_slug s) (sc_group s)) scans) qo))"
    using assms by (auto simp: debt_query_def Let_def and_then_Inr_iff case_prod_unfold)
  note found = pipeline_records [OF this [unfolded debt_sorting]]
  then obtain s :: scanned where "debt_toRecord de fs (sc_path s) (sc_slug s) (sc_group s) = Some r"
    by (auto simp: buildRecords_def List.map_filter_def)
  then obtain md d c dd where doc: "readFile fs (sc_path s) = Inr md" "matter (de_docs de) md = Inr (d, c)"
      "techDebtFrontmatterSchema (de_clock de) (de_error de) d = Inr dd"
    and r: "dr_path r = sc_path s" "dr_priorityScore r = dd_basePriority dd" "dr_nextReview r = Some (dd_nextReview dd)"
      "dr_status r = (if dd_status dd \<in> set techDebtStatusSchema then dd_status dd else ''needs-remediation'')"
      "dr_severity r = (if dd_severity dd \<in> set severitySchema then dd_severity dd else ''medium'')"
      "dr_category r = (if dd_category dd \<noteq> [] \<and> dd_category dd \<in> set categorySchema then Some (dd_category dd) else None)"
    by (auto simp: debt_toRecord_def parseTechDebt_def Let_def and_then_Inr_iff split: sum.splits)
  note typed = schema_typed [OF doc(3)]
  have "dd_category dd \<noteq> []" using typed by (auto simp: typed_debt_def categorySchema_def)
  then have "dr_status r = dd_status dd" "dr_severity r = dd_severity dd" "dr_category r = Some (dd_category dd)"
    using typed r by (auto simp: typed_debt_def)
  moreover have "dr_priorityScore r = computeSeverityPoints (dd_severity dd)"
    using typed r by (simp add: typed_debt_def computeBasePriority_def computeSeverityPoints_def)
  ultimately show ?thesis using doc r typed found(2) by metis
qed

definition debt_doc :: string where
  "debt_doc = sample_stringify ''# H-7: Flaky tests''
     [(''type'', FVal (JStr ''tech-debt'')), (''status'', FVal (JStr ''monitoring'')), (''severity'', FVal (JStr ''critical'')),
      (''category'', FVal (JStr ''testing'')), (''review_cadence'', FVal (JStr ''weekly'')),
      (''last_reviewed'', FVal (JStr ''soon''))]"

definition debt_project :: fstore where
  "debt_project =
     \<lparr>files = [([''p'', ''tech-debt'', ''y'', ''README.md''], debt_doc)],
      dirs = [[''p''], [''p'', ''tech-debt''], [''p'', ''tech-debt'', ''y'']]\<rparr>"

definition debt_sample_env :: debt_env where
  "debt_sample_env =
     \<lparr>de_docs = sample_docs,
      de_clock = \<lparr>parse_date = (\<lambda>s. if s = ''soon'' then Some (20000 * DAY_MS) else None), now_ms = 20001 * DAY_MS,
                  local_day = (\<lambda>t. t div DAY_MS)\<rparr>,
      de_error = (\<lambda>_. ''invalid''), de_compare = (\<lambda>_ _. 0), de_cwd = ''/p'', de_project = Some ''/p''\<rparr>"

definition whole_query :: "(debt_record, debt_filters, debt_field \<times> bool) query_options" where
  "whole_query = \<lparr>qo_filters = None, qo_sort = None, qo_limit = 0, qo_offset = 0\<rparr>"

lemma debt_scan:
  "(case scanDocumentDirectory debt_project ''/p'' (debt_base debt_sample_env debt_project) ''README.md'' False of
      Some (Inr scans) \<Rightarrow> map sc_path scans | _ \<Rightarrow> []) = [''/p/tech-debt/y/README.md'']"
  by code_simp

lemma debt_document:
  "(case and_then (readFile debt_project ''/p/tech-debt/y/README.md'') (\<lambda>content. parseTechDebt debt_sample_env content sl) of
      Inl _ \<Rightarrow> False | Inr item \<Rightarrow> dd_severity (di_data item) = ''critical'')"
  by code_simp

theorem queried_debts_typed_witness:
  "\<exists>items summary r. debt_query debt_sample_env debt_project whole_query = Some (Inr (items, summary)) \<and> r \<in> set items
     \<and> dr_severity r = ''critical'' \<and> dr_status r \<in> set techDebtStatusSchema \<and> dr_priorityScore r = 40"
proof -
  obtain s where scan: "scanDocumentDirectory debt_project ''/p'' (debt_base debt_sample_env debt_project) ''README.md'' False = Some (Inr [s])"
      and s: "sc_path s = ''/p/tech-debt/y/README.md''"
    using debt_scan by (auto split: option.splits sum.splits)
  obtain r where r: "debt_toRecord debt_sample_env debt_project (sc_path s) (sc_slug s) (sc_group s) = Some r"
      "dr_severity r = ''critical''"
    using debt_document [of "sc_slug s"] by (auto simp: debt_toRecord_def Let_def s severitySchema_def split: sum.splits)
  have "de_cwd debt_sample_env = ''/p''" by (simp add: debt_sample_env_def)
  then obtain summary where q: "debt_query debt_sample_env debt_project whole_query = Some (Inr ([r], summary))"
    using scan r(1)
    by (simp add: debt_query_def buildRecords_def List.map_filter_def processQueryPipeline_def whole_query_def Let_def)
  moreover have "dr_status r \<in> set techDebtStatusSchema \<and> dr_priorityScore r = 40"
    using queried_debts_typed [OF q, of r] r(2) by (auto simp: typed_debt_def computeSeverityPoints_def)
  ultimately show ?thesis using r(2) by auto
qed

end
