(* ===== verification/JsonFile.thy ===== *)
theory JsonFile
  imports FileStore
begin

text \<open>
  JSON files: \<open>writeJsonFile\<close> and \<open>writeFileAtomic\<close> (\<open>utils/write-json-file.ts\<close>),
  \<open>readTrustedJsonFile\<close> and \<open>readJsonFileWithSchema\<close> (\<open>utils/read-json-file.ts\<close>), with the
  indented form of \<open>JSON.stringify\<close>, its round trip, and what an atomic write leaves behind.
\<close>

section \<open>Indented printing\<close>

text \<open>The gap \<open>g\<close> of one level and the indentation \<open>ind\<close> of the current one.\<close>

fun pretty :: "string \<Rightarrow> string \<Rightarrow> json \<Rightarrow> string"
  and pretty_elems :: "string \<Rightarrow> string \<Rightarrow> json list \<Rightarrow> string"
  and pretty_members :: "string \<Rightarrow> string \<Rightarrow> (string \<times> json) list \<Rightarrow> string" where
  "pretty g ind JNull = ''null''"
| "pretty g ind (JBool b) = (if b then ''true'' else ''false'')"
| "pretty g ind (JNum i) = int_str i"
| "pretty g ind (JFrac t) = t"
| "pretty g ind (JStr s) = json_quote s"
| "pretty g ind (JArr vs) =
     (if vs = [] then ''[]'' else CHR ''['' # pretty_elems g (ind @ g) vs @ nl # ind @ '']'')"
| "pretty g ind (JObj ms) =
     (if ms = [] then ''{}'' else CHR ''{'' # pretty_members g (ind @ g) ms @ nl # ind @ ''}'')"
| "pretty_elems g ind [] = []"
| "pretty_elems g ind (v # vs) =
     nl # ind @ pretty g ind v @ (case vs of [] \<Rightarrow> [] | _ \<Rightarrow> CHR '','' # pretty_elems g ind vs)"
| "pretty_members g ind [] = []"
| "pretty_members g ind ((k, v) # ms) =
     nl # ind @ json_quote k @ '': '' @ pretty g ind v
       @ (case ms of [] \<Rightarrow> [] | _ \<Rightarrow> CHR '','' # pretty_members g ind ms)"

text \<open>\<open>JSON.stringify(data, null, indent)\<close>; the gap has ten spaces at most.\<close>

definition json_stringify :: "nat \<Rightarrow> json \<Rightarrow> string" where
  "json_stringify indent v =
     (if indent = 0 then json_str v else pretty (replicate (min 10 indent) CHR 0x20) [] v)"

section \<open>Round trip\<close>

definition all_ws :: "string \<Rightarrow> bool" where
  "all_ws s \<longleftrightarrow> (\<forall>c\<in>set s. json_ws c)"

lemma all_ws_simps [simp]:
  "all_ws []" "all_ws (c # s) \<longleftrightarrow> json_ws c \<and> all_ws s" "all_ws (s @ t) \<longleftrightarrow> all_ws s \<and> all_ws t"
  by (auto simp: all_ws_def)

lemma json_ws_nl [simp]: "json_ws nl" "json_ws (CHR 0x20)"
  by (simp_all add: json_ws_def)

lemma skip_all_ws [simp]: "all_ws w \<Longrightarrow> skip_ws (w @ s) = skip_ws s"
  by (induction w) (auto simp: skip_ws_def)

lemma skip_one_ws [simp]: "json_ws c \<Longrightarrow> skip_ws (c # s) = skip_ws s"
  by (simp add: skip_ws_def)

lemma scan_value_ws: "all_ws w \<Longrightarrow> scan_value n (w @ s) = scan_value n s"
  by (cases n) simp_all

lemma scan_value_ws1: "json_ws c \<Longrightarrow> scan_value n (c # s) = scan_value n s"
  by (cases n) simp_all

lemma scan_members_ws: "all_ws w \<Longrightarrow> scan_members n (w @ s) = scan_members n s"
  by (cases n) simp_all

lemma scan_members_ws1: "json_ws c \<Longrightarrow> scan_members n (c # s) = scan_members n s"
  by (cases n) simp_all

lemma scan_elems_ws: "all_ws w \<Longrightarrow> scan_elems n (w @ s) = scan_elems n s"
  by (cases n) (simp_all add: scan_value_ws)

lemma scan_elems_ws1: "json_ws c \<Longrightarrow> scan_elems n (c # s) = scan_elems n s"
  by (cases n) (simp_all add: scan_value_ws1)

lemmas scan_ws = scan_value_ws scan_value_ws1 scan_members_ws scan_members_ws1 scan_elems_ws scan_elems_ws1

lemma pretty_start: "json_ok v \<Longrightarrow> plain_start (pretty g ind v)"
proof (cases v)
  case (JNum i)
  with int_str_start [of i] show ?thesis by auto
qed (auto simp: json_quote_def json_ws_def)

lemma ends_number_ws [simp]: "json_ws c \<Longrightarrow> ends_number (c # r)"
  by (auto simp: ends_number_def json_ws_def js_digit_def less_eq_char_def)

lemma pretty_round_trip:
  "json_ok v \<Longrightarrow> all_ws g \<Longrightarrow> all_ws ind \<Longrightarrow> 2 * length (pretty g ind v) < n \<Longrightarrow> ends_number r
     \<Longrightarrow> scan_value n (pretty g ind v @ r) = Some (v, r)"
  "\<forall>v\<in>set vs. json_ok v \<Longrightarrow> vs \<noteq> [] \<Longrightarrow> all_ws g \<Longrightarrow> all_ws ind \<Longrightarrow> all_ws w
     \<Longrightarrow> 2 * length (pretty_elems g ind vs) < n
     \<Longrightarrow> scan_elems n (pretty_elems g ind vs @ nl # w @ CHR '']'' # r) = Some (vs, r)"
  "\<forall>m\<in>set ms. json_ok (snd m) \<Longrightarrow> ms \<noteq> [] \<Longrightarrow> all_ws g \<Longrightarrow> all_ws ind \<Longrightarrow> all_ws w
     \<Longrightarrow> 2 * length (pretty_members g ind ms) < n
     \<Longrightarrow> scan_members n (pretty_members g ind ms @ nl # w @ CHR ''}'' # r) = Some (ms, r)"
proof (induction g ind v and g ind vs and g ind ms arbitrary: n r and n r w and n r w rule: pretty_pretty_elems_pretty_members.induct)
  case 1
  then obtain m where "n = Suc m" by (cases n) auto
  then show ?case by (simp add: scan_word_def json_ws_def)
next
  case (2 g ind b)
  then obtain m where "n = Suc m" by (cases n) auto
  then show ?case by (simp add: scan_word_def json_ws_def)
next
  case (3 g ind i)
  then obtain m where m: "n = Suc m" by (cases n) auto
  show ?case unfolding m pretty.simps scan_value_num using 3 by (simp add: scan_int)
next
  case (5 g ind s)
  then obtain m where "n = Suc m" by (cases n) auto
  then show ?case by (simp add: json_quote_def scan_string_quote)
next
  case (6 g ind vs)
  then obtain m where m: "n = Suc m" by (cases n) auto
  show ?case
  proof (cases vs)
    case Nil
    with m show ?thesis by simp
  next
    case (Cons x xs)
    let ?s = "pretty_elems g (ind @ g) vs @ nl # ind @ CHR '']'' # r"
    have e: "scan_elems m ?s = Some (vs, r)" using 6 Cons by (simp add: m)
    have "plain_start (pretty g (ind @ g) x)" using pretty_start 6 Cons by simp
    then obtain d u where "pretty g (ind @ g) x = d # u" "\<not> json_ws d" "d \<noteq> CHR '']''" by (auto simp: plain_start_def)
    then have "\<exists>u. skip_ws ?s = d # u" using Cons 6 by simp
    then obtain u where u: "skip_ws ?s = d # u" ..
    have "scan_elems m (d # u) = scan_elems m ?s"
    proof -
      have "?s = takeWhile json_ws ?s @ d # u" using u takeWhile_dropWhile_id [of json_ws ?s] by (simp add: skip_ws_def)
      moreover have "all_ws (takeWhile json_ws ?s)" by (auto simp: all_ws_def dest: set_takeWhileD)
      ultimately show ?thesis using scan_elems_ws by metis
    qed
    then show ?thesis using e u \<open>d \<noteq> CHR '']''\<close> Cons by (simp add: m)
  qed
next
  case (7 g ind ms)
  then obtain m where m: "n = Suc m" by (cases n) auto
  show ?case
  proof (cases ms)
    case Nil
    with m show ?thesis by simp
  next
    case (Cons x xs)
    let ?s = "pretty_members g (ind @ g) ms @ nl # ind @ CHR ''}'' # r"
    have e: "scan_members m ?s = Some (ms, r)" using 7 Cons by (simp add: m)
    obtain u where u: "skip_ws ?s = dquote # u"
      using Cons 7 by (cases x) (simp add: json_quote_def)
    have "scan_members m (dquote # u) = scan_members m ?s"
    proof -
      have "?s = takeWhile json_ws ?s @ dquote # u" using u takeWhile_dropWhile_id [of json_ws ?s] by (simp add: skip_ws_def)
      moreover have "all_ws (takeWhile json_ws ?s)" by (auto simp: all_ws_def dest: set_takeWhileD)
      ultimately show ?thesis using scan_members_ws by metis
    qed
    then show ?thesis using e u Cons 7 by (simp add: m map_from_distinct)
  qed
next
  case (9 g ind v vs)
  then obtain m where m: "n = Suc m" by (cases n) auto
  show ?case
  proof (cases vs)
    case Nil
    with 9 show ?thesis by (simp add: m scan_ws)
  next
    case (Cons x xs)
    with 9 show ?thesis by (simp add: m scan_ws)
  qed
next
  case (11 g ind k v ms)
  then obtain m where m: "n = Suc m" by (cases n) auto
  have str: "scan_string (concat (map esc_char k) @ dquote # t) = Some (k, t)" for t
    by (rule scan_string_quote)
  show ?case
  proof (cases ms)
    case Nil
    with 11 str show ?thesis by (simp add: m json_quote_def scan_ws)
  next
    case (Cons x xs)
    with 11 str show ?thesis by (simp add: m json_quote_def scan_ws)
  qed
qed simp_all

lemma json_parse_stringify:
  assumes "json_ok v" "all_ws w"
  shows "json_parse (json_stringify indent v @ w) = Some v"
proof -
  let ?t = "json_stringify indent v"
  have w: "ends_number w" using assms(2) by (cases w) (auto simp: ends_number_def [of "[]"])
  have parsed: "scan_value n (?t @ w) = Some (v, w)" if "2 * length ?t < n" for n
  proof (cases "indent = 0")
    case True
    then show ?thesis using scan_round_trip(1) [OF assms(1) _ w] that by (simp add: json_stringify_def)
  next
    case False
    then show ?thesis
      using pretty_round_trip(1) [OF assms(1) _ _ _ w, of "replicate (min 10 indent) CHR 0x20" "[]"] that
      by (simp add: json_stringify_def all_ws_def)
  qed
  have "scan_value (2 * length (?t @ w) + 2) (?t @ w) = Some (v, w)" by (rule parsed) simp
  moreover have "skip_ws w = []" using skip_all_ws [OF assms(2), of "[]"] by (simp add: skip_ws_def)
  ultimately show ?thesis by (simp add: json_parse_def)
qed

section \<open>Writing (write-json-file.ts)\<close>

record json_options =
  jo_indent :: nat
  jo_trailingNewline :: bool

definition json_defaults :: json_options where
  "json_defaults = \<lparr>jo_indent = 2, jo_trailingNewline = True\<rparr>"

definition json_content :: "json_options \<Rightarrow> json \<Rightarrow> string" where
  "json_content jo data = json_stringify (jo_indent jo) data @ (if jo_trailingNewline jo then [nl] else [])"

definition writeJsonFile :: "fstore \<Rightarrow> string \<Rightarrow> json \<Rightarrow> json_options \<Rightarrow> fstore throws" where
  "writeJsonFile fs path data jo = writeFile fs path (json_content jo data)"

text \<open>A removal of a file that is not an error when there is none.\<close>

definition rm_force :: "fstore \<Rightarrow> string \<Rightarrow> fstore" where
  "rm_force fs p = fs\<lparr>files := map_delete (path_key p) (files fs)\<rparr>"

text \<open>
  \<open>writeFileAtomic\<close> with its temporary file \<open>tmp\<close> (process and random id); the store has one
  device, and syncing has no effect on what is read.
\<close>

definition writeFileAtomic :: "fstore \<Rightarrow> string \<Rightarrow> string \<Rightarrow> string \<Rightarrow> unit throws \<times> fstore" where
  "writeFileAtomic fs tmp path content =
     (case writeFile fs tmp content of
        Inl e \<Rightarrow> (Inl e, if existsSync fs tmp then rm_force fs tmp else fs)
      | Inr fs1 \<Rightarrow>
          (case rename fs1 tmp path of
             Inl e \<Rightarrow> (Inl e, rm_force fs1 tmp)
           | Inr fs2 \<Rightarrow> (Inr (), fs2)))"

section \<open>Reading (read-json-file.ts)\<close>

definition readJsonUnknown :: "fstore \<Rightarrow> string \<Rightarrow> json throws" where
  "readJsonUnknown fs path =
     (case readFile fs path of
        Inl e \<Rightarrow> Inl (''Unable to read JSON file '' @ path @ '': '' @ e)
      | Inr text \<Rightarrow>
          (case json_parse text of
             None \<Rightarrow> Inl (''Unable to read JSON file '' @ path @ '': invalid JSON'')
           | Some v \<Rightarrow> Inr v))"

definition readTrustedJsonFile :: "fstore \<Rightarrow> string \<Rightarrow> json throws" where
  "readTrustedJsonFile fs path = readJsonUnknown fs path"

definition readJsonFileWithSchema :: "(json \<Rightarrow> 'a throws) \<Rightarrow> fstore \<Rightarrow> string \<Rightarrow> 'a throws" where
  "readJsonFileWithSchema schema fs path =
     (case and_then (readJsonUnknown fs path) schema of
        Inl e \<Rightarrow> Inl (''JSON file '' @ path @ '' failed schema validation: '' @ e)
      | Inr v \<Rightarrow> Inr v)"

lemma read_json_content: "json_ok v \<Longrightarrow> readFile fs p = Inr (json_content jo v) \<Longrightarrow> readTrustedJsonFile fs p = Inr v"
  by (simp add: readTrustedJsonFile_def readJsonUnknown_def json_content_def json_parse_stringify
      json_parse_stringify [where w = "[]", simplified])

section \<open>What an atomic write leaves behind\<close>

lemma moved_dirs:
  assumes "store_ok fs" "is_file fs a" "\<not> is_dir fs b"
  shows "is_dir (move_tree a b fs) k \<longleftrightarrow> is_dir fs k"
proof -
  have "rebase a b j = j" if "j \<in> set (dirs fs)" for j
    using that files_no_children [OF assms(1,2)] assms(1,2)
    by (fastforce simp: rebase_def under_iff is_dir_def store_ok_def)
  moreover have "b \<notin> set (dirs fs)" using assms(3) by (simp add: is_dir_def)
  ultimately show ?thesis by (auto simp: is_dir_def moved_dir)
qed

text \<open>A file written beside another and renamed onto it: the new text is there, all else stays.\<close>

lemma installed:
  assumes ok: "store_ok fs" and apart: "path_key tmp \<noteq> path_key path"
    and wr: "writeFile fs tmp c = Inr fs1" and rn: "rename fs1 tmp path = Inr fs2"
  shows "store_ok fs2" "readFile fs2 path = Inr c"
    and "path_key q \<noteq> path_key tmp \<Longrightarrow> path_key q \<noteq> path_key path \<Longrightarrow> readFile fs2 q = Inr d \<longleftrightarrow> readFile fs q = Inr d"
    and "is_dir fs2 k = is_dir fs k"
proof -
  let ?a = "path_key tmp" let ?b = "path_key path"
  have ok1: "store_ok fs1" by (rule store_ok_write [OF ok wr])
  note fs2 = rename_Inr [OF ok1 rn apart]
  have a: "is_file fs1 ?a" using wr by (auto simp: writeFile_Inr)
  have b: "\<not> is_dir fs1 ?b" using rn a apart by (auto simp: rename_def Let_def split: if_splits)
  show "store_ok fs2" unfolding fs2(1) by (rule store_ok_move [OF ok1 fs2(2)])
  show "readFile fs2 path = Inr c"
    using read_moved [OF ok1 fs2(2), of "[]" c] file_read_back [OF wr] by (simp add: readFile_Inr fs2(1))
  show "is_dir fs2 k = is_dir fs k"
    using moved_dirs [OF ok1 a b, of k] wr by (auto simp: fs2(1) writeFile_Inr)
  assume q: "path_key q \<noteq> ?a" "path_key q \<noteq> ?b"
  show "readFile fs2 q = Inr d \<longleftrightarrow> readFile fs q = Inr d"
  proof (cases "under ?a (path_key q) \<or> under ?b (path_key q)")
    case False
    then show ?thesis
      using read_unmoved [OF ok1 fs2(2), of "path_key q"] fs.fetch_other [OF wr q(1)] by (simp add: readFile_Inr fs2(1))
  next
    case True
    have "\<not> is_file fs2 (path_key q)"
    proof
      assume f: "is_file fs2 (path_key q)"
      have "is_file fs2 ?b" using \<open>readFile fs2 path = Inr c\<close> by (simp add: readFile_Inr is_file_def map_has_iff)
      then have "\<not> under ?b (path_key q)" using files_no_children [OF \<open>store_ok fs2\<close>] f q(2) by (auto simp: under_iff)
      with True have ua: "under ?a (path_key q)" by simp
      from f obtain j where j: "is_file fs1 j" "j \<noteq> ?b" "path_key q = rebase ?a ?b j"
        unfolding fs2(1) is_file_def moved_file by (auto simp: is_file_def)
      have "under ?a j" using j(3) ua \<open>\<not> under ?b (path_key q)\<close> by (auto simp: rebase_def under_iff split: if_splits)
      then have "j = ?a" using files_no_children [OF ok1 a] j(1) by (auto simp: under_iff)
      with j(3) q(2) show False by (simp add: rebase_def under_iff)
    qed
    moreover have "\<not> is_file fs (path_key q)"
    proof
      assume "is_file fs (path_key q)"
      then have f: "is_file fs1 (path_key q)" using wr by (auto simp: writeFile_Inr is_file_def)
      have "\<not> under ?a (path_key q)" using files_no_children [OF ok1 a] f q(1) by (auto simp: under_iff)
      with True obtain r where r: "path_key q = ?b @ r" by (auto simp: under_iff)
      with q(2) fs2(2) f show False by (auto simp: movable_def)
    qed
    ultimately show ?thesis by (simp add: readFile_Inr is_file_def map_has_iff)
  qed
qed

lemma delete_new: "\<not> map_has m k \<Longrightarrow> map_delete k (map_set k v m) = m"
  by (induction m) (auto simp: map_delete_def map_set_def map_has_def)


definition json_dir :: fstore where
  "json_dir = \<lparr>files = [([''d'', ''a.json''], ''old'')], dirs = [[''d'']]\<rparr>"


end
