(* ===== verification/Worktrees.thy ===== *)
theory Worktrees
  imports JsonFile BlueprintFiles
begin

text \<open>
  Managed worktrees: where they live (\<open>worktrees/location.ts\<close>), their registry, a JSON file
  under the home directory (\<open>worktrees/registry.ts\<close>), and the calls that create, adopt and forget
  them (\<open>worktrees/manager.ts\<close>).  A call that writes returns the store it leaves behind.  The
  hash, the clock, the environment and git are fields of \<open>wt_env\<close>.
\<close>

record wt_env =
  sha256 :: "string \<Rightarrow> string"                       \<comment> \<open>the digest in hexadecimal\<close>
  wt_home :: string                                  \<comment> \<open>\<open>os.homedir()\<close>\<close>
  wt_now :: string                                   \<comment> \<open>\<open>new Date().toISOString()\<close>\<close>
  wt_compare :: "string \<Rightarrow> string \<Rightarrow> int"            \<comment> \<open>\<open>localeCompare\<close>\<close>
  wt_tmp :: string                                   \<comment> \<open>process id and time of a temporary file\<close>
  wt_test_root :: "string option"                    \<comment> \<open>\<open>WP_AGENT_KIT_TEST_WORKTREE_ROOT\<close>, not empty\<close>
  git_origin :: "string \<Rightarrow> string option"            \<comment> \<open>\<open>git config --get remote.origin.url\<close> in a directory\<close>
  git_branch :: "string \<Rightarrow> string \<Rightarrow> bool"           \<comment> \<open>\<open>git show-ref\<close> finds the branch\<close>
  git_run :: "fstore \<Rightarrow> string \<Rightarrow> string list \<Rightarrow> bool \<times> fstore"
    \<comment> \<open>a git command in a directory: success, and the files afterwards\<close>

section \<open>Locations (location.ts)\<close>

definition MANAGED_WORKTREE_ROOT_RELATIVE :: string where
  "MANAGED_WORKTREE_ROOT_RELATIVE = ''.agent/worktrees''"

definition location_hash :: "wt_env \<Rightarrow> string \<Rightarrow> string" where
  "location_hash we v = take 10 (sha256 we v)"

definition name_char :: "char \<Rightarrow> bool" where \<comment> \<open>\<open>[a-z0-9_.-]\<close>\<close>
  "name_char c \<longleftrightarrow> js_lower_char c \<or> js_digit c \<or> c \<in> {CHR ''_'', CHR ''.'', CHR ''-''}"

definition git_scp :: regex where \<comment> \<open>\<open>/^git@([^:]+):/\<close>\<close>
  "git_scp = sq [StartText, lit ''git@'', Grp 1 (plus (none_of '':'')), lit '':'']"

definition dash_runs :: "string \<Rightarrow> string" where
  "dash_runs v =
     replace_all (alts [Seq StartText (plus (lit ''-'')), Seq (plus (lit ''-'')) EndText]) (\<lambda>_. [])
       (replace_all (plus (lit ''-'')) (\<lambda>_. ''-'')
         (replace_all (plus (Cls (\<lambda>c. \<not> name_char c))) (\<lambda>_. ''-'') v))"

definition sanitizeNamespaceSegment :: "string \<Rightarrow> string" where
  "sanitizeNamespaceSegment v =
     (let stripped =
            replace_first (Seq (lit_i ''.git'') EndText) (\<lambda>_. [])
             (replace_first git_scp (\<lambda>m. group_or_empty m 1 @ ''/'')
               (replace_first (sq [StartText, lit ''http'', opt (lit ''s''), lit ''://'']) (\<lambda>_. [])
                 (replace_first (Seq StartText (lit ''ssh://'')) (\<lambda>_. [])
                   (replace_first (Seq StartText (lit ''git+'')) (\<lambda>_. []) (js_lower (js_trim v))))));
          name = dash_runs stripped
      in if name = [] then ''repo'' else name)"

definition resolveManagedWorktreeRoot :: "wt_env \<Rightarrow> string" where
  "resolveManagedWorktreeRoot we = path_join [wt_home we, MANAGED_WORKTREE_ROOT_RELATIVE]"

definition deriveRepoNamespace :: "wt_env \<Rightarrow> string \<Rightarrow> string option \<Rightarrow> string" where
  "deriveRepoNamespace we repoRoot originUrl =
     (let origin = js_trim (text_of originUrl)
      in if origin \<noteq> [] then sanitizeNamespaceSegment origin @ ''-'' @ location_hash we (js_lower origin)
         else ''local-'' @ sanitizeNamespaceSegment (path_basename repoRoot) @ ''-'' @ location_hash we repoRoot)"

definition resolveWorktreeRoot :: "wt_env \<Rightarrow> string \<Rightarrow> string option \<Rightarrow> string" where
  "resolveWorktreeRoot we repoRoot originUrl =
     path_join [resolveManagedWorktreeRoot we, ''repos'', deriveRepoNamespace we repoRoot originUrl]"

definition resolveBlueprintWorktreeRoot :: "wt_env \<Rightarrow> string \<Rightarrow> string option \<Rightarrow> string \<Rightarrow> string" where
  "resolveBlueprintWorktreeRoot we repoRoot originUrl sl =
     path_join [resolveWorktreeRoot we repoRoot originUrl, ''blueprints'', sl]"

definition resolveOwnerWorktreePath :: "wt_env \<Rightarrow> string \<Rightarrow> string option \<Rightarrow> string \<Rightarrow> string" where
  "resolveOwnerWorktreePath we repoRoot originUrl sl =
     path_join [resolveBlueprintWorktreeRoot we repoRoot originUrl sl, ''owner'']"

definition resolveScratchWorktreePath ::
    "wt_env \<Rightarrow> string \<Rightarrow> string option \<Rightarrow> string \<Rightarrow> string \<Rightarrow> string \<Rightarrow> string" where
  "resolveScratchWorktreePath we repoRoot originUrl sl lane i =
     path_join [resolveBlueprintWorktreeRoot we repoRoot originUrl sl, ''.scratch'',
       sanitizeNamespaceSegment lane @ ''-'' @ sanitizeNamespaceSegment i]"

definition resolveGeneratedWorktreePath :: "string \<Rightarrow> string \<Rightarrow> string" where
  "resolveGeneratedWorktreePath worktreeRoot sl = path_join [worktreeRoot, sl]"

section \<open>The registry (registry.ts)\<close>

text \<open>
  An entry is the JSON object it is stored as: what is read from the file is only checked for
  the fields below, every other field is kept.
\<close>

type_synonym entry = "(string, json) js_map"

definition entry_text :: "entry \<Rightarrow> string \<Rightarrow> string option" where
  "entry_text e k = (case map_get e k of Some (JStr s) \<Rightarrow> Some s | _ \<Rightarrow> None)"

definition entry_id :: "entry \<Rightarrow> string" where
  "entry_id e = text_of (entry_text e ''id'')"

definition entry_path :: "entry \<Rightarrow> string" where
  "entry_path e = text_of (entry_text e ''path'')"

definition isRegistryEntry :: "entry \<Rightarrow> bool" where
  "isRegistryEntry e \<longleftrightarrow>
     list_all (\<lambda>k. entry_text e k \<noteq> None) [''id'', ''repoNamespace'', ''repoRoot'', ''path'', ''createdAt'', ''updatedAt'']
     \<and> (entry_text e ''kind'' = Some ''owner'' \<or> entry_text e ''kind'' = Some ''scratch'')"

definition registryPath :: "wt_env \<Rightarrow> string option \<Rightarrow> string" where
  "registryPath we root_dir =
     path_join [case root_dir of Some r \<Rightarrow> r | None \<Rightarrow> resolveManagedWorktreeRoot we, ''registry.json'']"

fun object_members :: "json \<Rightarrow> entry list" where
  "object_members (JObj ms) = [ms]"
| "object_members _ = []"

definition readWorktreeRegistry :: "wt_env \<Rightarrow> fstore \<Rightarrow> string option \<Rightarrow> entry list" where
  "readWorktreeRegistry we fs root_dir =
     (let path = registryPath we root_dir
      in if \<not> existsSync fs path then []
         else
           (case readTrustedJsonFile fs path of
              Inr (JObj parsed) \<Rightarrow>
                (case (map_get parsed ''version'', map_get parsed ''entries'') of
                   (Some (JNum v), Some (JArr entries)) \<Rightarrow>
                     if v = 1 then filter isRegistryEntry (concat (map object_members entries)) else []
                 | _ \<Rightarrow> [])
            | _ \<Rightarrow> []))"

definition registry_json :: "entry list \<Rightarrow> json" where
  "registry_json entries = JObj [(''version'', JNum 1), (''entries'', JArr (map JObj entries))]"

definition writeWorktreeRegistry :: "wt_env \<Rightarrow> fstore \<Rightarrow> entry list \<Rightarrow> string option \<Rightarrow> unit throws \<times> fstore" where
  "writeWorktreeRegistry we fs entries root_dir =
     (let path = registryPath we root_dir; tmpPath = path @ ''.'' @ wt_tmp we @ ''.tmp''
      in case mkdir_recursive fs (key_dirname path) of
           Inl e \<Rightarrow> (Inl e, fs)
         | Inr fs1 \<Rightarrow>
             (case writeJsonFile fs1 tmpPath (registry_json entries) json_defaults of
                Inl e \<Rightarrow> (Inl e, fs1)
              | Inr fs2 \<Rightarrow>
                  (case rename fs2 tmpPath path of
                     Inl e \<Rightarrow> (Inl e, fs2)
                   | Inr fs3 \<Rightarrow> (Inr (), fs3))))"

text \<open>\<open>a ?? b\<close> of two fields.\<close>

definition coalesced :: "json option \<Rightarrow> json option \<Rightarrow> json option" where
  "coalesced a b = (case a of None \<Rightarrow> b | Some JNull \<Rightarrow> b | _ \<Rightarrow> a)"

definition stamped :: "wt_env \<Rightarrow> entry list \<Rightarrow> entry \<Rightarrow> entry" where
  "stamped we entries e =
     (let existing = find (\<lambda>c. entry_id c = entry_id e) entries; now = Some (JStr (wt_now we));
          createdAt = coalesced (map_get e ''createdAt'')
            (coalesced (Option.bind existing (\<lambda>c. map_get c ''createdAt'')) now);
          updatedAt = coalesced (map_get e ''updatedAt'') now
      in map_set ''updatedAt'' (the updatedAt) (map_set ''createdAt'' (the createdAt) e))"

definition with_entry :: "wt_env \<Rightarrow> entry list \<Rightarrow> entry \<Rightarrow> entry list" where
  "with_entry we entries new =
     js_sort (\<lambda>a b. wt_compare we (entry_path a) (entry_path b))
       (filter (\<lambda>c. entry_id c \<noteq> entry_id new) entries @ [new])"

definition upsertWorktreeRegistryEntry ::
    "wt_env \<Rightarrow> fstore \<Rightarrow> entry \<Rightarrow> string option \<Rightarrow> entry throws \<times> fstore" where
  "upsertWorktreeRegistryEntry we fs e root_dir =
     (let registry = readWorktreeRegistry we fs root_dir; new = stamped we registry e
      in case writeWorktreeRegistry we fs (with_entry we registry new) root_dir of
           (Inl x, fs') \<Rightarrow> (Inl x, fs')
         | (Inr _, fs') \<Rightarrow> (Inr new, fs'))"

definition removeWorktreeRegistryEntries ::
    "wt_env \<Rightarrow> fstore \<Rightarrow> (entry \<Rightarrow> bool) \<Rightarrow> string option \<Rightarrow> entry list throws \<times> fstore" where
  "removeWorktreeRegistryEntries we fs predicate root_dir =
     (let registry = readWorktreeRegistry we fs root_dir; removed = filter predicate registry
      in if removed = [] then (Inr [], fs)
         else case writeWorktreeRegistry we fs (filter (\<lambda>e. \<not> predicate e) registry) root_dir of
                (Inl x, fs') \<Rightarrow> (Inl x, fs')
              | (Inr _, fs') \<Rightarrow> (Inr removed, fs'))"

text \<open>The kept and the removed entries.\<close>

definition pruneStaleWorktreeRegistryEntries ::
    "wt_env \<Rightarrow> fstore \<Rightarrow> (entry \<Rightarrow> bool) option \<Rightarrow> string option \<Rightarrow> (entry list \<times> entry list) throws \<times> fstore" where
  "pruneStaleWorktreeRegistryEntries we fs predicate root_dir =
     (let registry = readWorktreeRegistry we fs root_dir;
          shouldPrune = (\<lambda>e. \<not> existsSync fs (entry_path e) \<and> (case predicate of Some p \<Rightarrow> p e | None \<Rightarrow> True));
          kept = filter (\<lambda>e. \<not> shouldPrune e) registry; removed = filter shouldPrune registry
      in if removed = [] then (Inr (kept, removed), fs)
         else case writeWorktreeRegistry we fs kept root_dir of
                (Inl x, fs') \<Rightarrow> (Inl x, fs')
              | (Inr _, fs') \<Rightarrow> (Inr (kept, removed), fs'))"

definition findWorktreeRegistryEntry :: "wt_env \<Rightarrow> fstore \<Rightarrow> string \<Rightarrow> string option \<Rightarrow> entry option" where
  "findWorktreeRegistryEntry we fs i root_dir = find (\<lambda>e. entry_id e = i) (readWorktreeRegistry we fs root_dir)"

section \<open>The manager (manager.ts)\<close>

record owner_binding =
  ob_id :: string
  ob_branch :: string
  ob_path :: string
  ob_repoNamespace :: string
  ob_repoOriginUrl :: "string option"

definition manager_hash :: "wt_env \<Rightarrow> string \<Rightarrow> string" where
  "manager_hash we v = take 12 (sha256 we v)"

definition readRepoOriginUrl :: "wt_env \<Rightarrow> string \<Rightarrow> string option" where
  "readRepoOriginUrl we repoRoot =
     (case git_origin we repoRoot of
        None \<Rightarrow> None | Some s \<Rightarrow> if js_trim s = [] then None else Some (js_trim s))"

definition ownerWorktreeId :: "wt_env \<Rightarrow> string \<Rightarrow> string \<Rightarrow> string" where
  "ownerWorktreeId we repoNamespace sl = ''owner-'' @ manager_hash we (repoNamespace @ '':'' @ sl)"

definition scratchWorktreeId :: "wt_env \<Rightarrow> string \<Rightarrow> string \<Rightarrow> string \<Rightarrow> string \<Rightarrow> string" where
  "scratchWorktreeId we repoNamespace sl lane i =
     ''scratch-'' @ manager_hash we (repoNamespace @ '':'' @ sl @ '':'' @ lane @ '':'' @ i)"

definition resolveOwnerBinding :: "wt_env \<Rightarrow> string \<Rightarrow> string \<Rightarrow> owner_binding" where
  "resolveOwnerBinding we repoRoot sl =
     (let repoOriginUrl = readRepoOriginUrl we repoRoot;
          repoNamespace = deriveRepoNamespace we repoRoot repoOriginUrl
      in \<lparr>ob_id = ownerWorktreeId we repoNamespace sl, ob_branch = ''bp/'' @ sl,
          ob_path = resolveOwnerWorktreePath we repoRoot repoOriginUrl sl,
          ob_repoNamespace = repoNamespace, ob_repoOriginUrl = repoOriginUrl\<rparr>)"

record manager_options =
  mo_root :: "string option"
  mo_dryRun :: bool

definition default_options :: manager_options where
  "default_options = \<lparr>mo_root = None, mo_dryRun = False\<rparr>"

definition origin_member :: "string option \<Rightarrow> entry" where
  "origin_member url = (case url of None \<Rightarrow> [] | Some u \<Rightarrow> [(''repoOriginUrl'', JStr u)])"

definition owner_entry :: "wt_env \<Rightarrow> string \<Rightarrow> string \<Rightarrow> owner_binding \<Rightarrow> entry" where
  "owner_entry we repoRoot sl b =
     [(''id'', JStr (ob_id b)), (''repoNamespace'', JStr (ob_repoNamespace b)), (''repoRoot'', JStr repoRoot)]
     @ origin_member (ob_repoOriginUrl b)
     @ [(''kind'', JStr ''owner''), (''path'', JStr (ob_path b)), (''branch'', JStr (ob_branch b)),
        (''detached'', JBool False), (''blueprintSlug'', JStr sl), (''lastSeenAt'', JStr (wt_now we))]"

definition registerOwner ::
    "wt_env \<Rightarrow> fstore \<Rightarrow> string \<Rightarrow> string \<Rightarrow> owner_binding \<Rightarrow> manager_options \<Rightarrow> entry throws \<times> fstore" where
  "registerOwner we fs repoRoot sl b mo = upsertWorktreeRegistryEntry we fs (owner_entry we repoRoot sl b) (mo_root mo)"

definition registered :: "owner_binding \<Rightarrow> entry throws \<times> fstore \<Rightarrow> owner_binding throws \<times> fstore" where
  "registered b r = (case r of (Inl e, fs) \<Rightarrow> (Inl e, fs) | (Inr _, fs) \<Rightarrow> (Inr b, fs))"

definition worktree_add :: "wt_env \<Rightarrow> string \<Rightarrow> owner_binding \<Rightarrow> string list" where
  "worktree_add we repoRoot b =
     (if git_branch we repoRoot (ob_branch b) then [''worktree'', ''add'', ob_path b, ob_branch b]
      else [''worktree'', ''add'', ''-b'', ob_branch b, ob_path b])"

definition ensureBlueprintOwnerWorktree ::
    "wt_env \<Rightarrow> fstore \<Rightarrow> string \<Rightarrow> string \<Rightarrow> manager_options \<Rightarrow> owner_binding throws \<times> fstore" where
  "ensureBlueprintOwnerWorktree we fs repoRoot sl mo =
     (let b = resolveOwnerBinding we repoRoot sl
      in if \<not> existsSync fs (ob_path b) \<and> \<not> mo_dryRun mo then
           (case mkdir_recursive fs (key_dirname (ob_path b)) of
              Inl e \<Rightarrow> (Inl e, fs)
            | Inr fs1 \<Rightarrow>
                (case git_run we fs1 repoRoot (worktree_add we repoRoot b) of
                   (ok, fs2) \<Rightarrow>
                     if \<not> ok then (Inl (''git worktree add failed for '' @ ob_path b), fs2)
                     else registered b (registerOwner we fs2 repoRoot sl b mo)))
         else registered b (registerOwner we fs repoRoot sl b mo))"

definition adoptBlueprintOwnerWorktree ::
    "wt_env \<Rightarrow> fstore \<Rightarrow> string \<Rightarrow> string \<Rightarrow> string \<Rightarrow> manager_options \<Rightarrow> owner_binding throws \<times> fstore" where
  "adoptBlueprintOwnerWorktree we fs repoRoot sl worktreePath mo =
     (let b = (resolveOwnerBinding we repoRoot sl)\<lparr>ob_path := worktreePath\<rparr>
      in registered b (registerOwner we fs repoRoot sl b mo))"

definition owned_by :: "owner_binding \<Rightarrow> string \<Rightarrow> entry \<Rightarrow> bool" where
  "owned_by b sl e \<longleftrightarrow>
     entry_text e ''repoNamespace'' = Some (ob_repoNamespace b) \<and> entry_text e ''blueprintSlug'' = Some sl
     \<and> (entry_text e ''kind'' = Some ''owner'' \<or> entry_text e ''kind'' = Some ''scratch'')"

definition clearBlueprintWorktreeOwnership ::
    "wt_env \<Rightarrow> fstore \<Rightarrow> string \<Rightarrow> string \<Rightarrow> manager_options \<Rightarrow> entry list throws \<times> fstore" where
  "clearBlueprintWorktreeOwnership we fs repoRoot sl mo =
     removeWorktreeRegistryEntries we fs (owned_by (resolveOwnerBinding we repoRoot sl) sl) (mo_root mo)"

definition createScratchWorktreeEntry ::
    "wt_env \<Rightarrow> fstore \<Rightarrow> string \<Rightarrow> string \<Rightarrow> string \<Rightarrow> string \<Rightarrow> manager_options \<Rightarrow> entry throws \<times> fstore" where
  "createScratchWorktreeEntry we fs repoRoot sl lane i mo =
     (let repoOriginUrl = readRepoOriginUrl we repoRoot;
          repoNamespace = deriveRepoNamespace we repoRoot repoOriginUrl;
          path = resolveScratchWorktreePath we repoRoot repoOriginUrl sl lane i
      in upsertWorktreeRegistryEntry we fs
           ([(''id'', JStr (scratchWorktreeId we repoNamespace sl lane i)), (''repoNamespace'', JStr repoNamespace),
             (''repoRoot'', JStr repoRoot)]
            @ origin_member repoOriginUrl
            @ [(''kind'', JStr ''scratch''), (''path'', JStr path), (''detached'', JBool True),
               (''blueprintSlug'', JStr sl), (''lastSeenAt'', JStr (wt_now we))])
           (mo_root mo))"

definition findResolvableOwnerBinding :: "wt_env \<Rightarrow> fstore \<Rightarrow> string \<Rightarrow> entry option" where
  "findResolvableOwnerBinding we fs ownerId =
     (case findWorktreeRegistryEntry we fs ownerId (wt_test_root we) of
        None \<Rightarrow> None
      | Some e \<Rightarrow>
          if entry_text e ''kind'' \<noteq> Some ''owner'' then None
          else if \<not> existsSync fs (entry_path e) then None
          else Some e)"

definition repoManagedRoot :: "wt_env \<Rightarrow> string \<Rightarrow> string" where
  "repoManagedRoot we repoRoot = resolveWorktreeRoot we repoRoot (readRepoOriginUrl we repoRoot)"

end
