(* ===== verification/LifecycleAudit.thy ===== *)
theory LifecycleAudit
  imports Worktrees Records
begin

text \<open>
  The lifecycle audit (\<open>blueprint/lifecycle/audit.ts\<close>, with
  \<open>blueprint/execution/artifacts.ts\<close>): what every document must satisfy for its folder, its tasks,
  its approvals, its owner and its execution, and what a commit must bring along.  The files, the
  registry of worktrees and git are read through \<open>audit_env\<close>; paths are absolute.
\<close>

record audit_env =
  ae_service :: service_env
  ae_worktrees :: wt_env
  ae_tracked :: "string \<Rightarrow> string \<Rightarrow> bool"   \<comment> \<open>\<open>git ls-files --error-unmatch\<close> in a repository\<close>

abbreviation ae_docs :: "audit_env \<Rightarrow> docs" where
  "ae_docs ae \<equiv> se_docs (ae_service ae)"

abbreviation ae_cwd :: "audit_env \<Rightarrow> string" where
  "ae_cwd ae \<equiv> se_cwd (ae_service ae)"

datatype audit_level = Audit_error | Audit_warning

record audit_issue =
  ai_file :: "string option"
  ai_level :: audit_level
  ai_message :: string

definition issue_error :: "string option \<Rightarrow> string \<Rightarrow> audit_issue" where
  "issue_error f msg = \<lparr>ai_file = f, ai_level = Audit_error, ai_message = msg\<rparr>"

definition issue_warning :: "string option \<Rightarrow> string \<Rightarrow> audit_issue" where
  "issue_warning f msg = \<lparr>ai_file = f, ai_level = Audit_warning, ai_message = msg\<rparr>"

definition ticked :: "string \<Rightarrow> string" where
  "ticked s = tick_char # s @ [tick_char]"

definition ge_sign :: string where "ge_sign = [CHR 0xE2, CHR 0x89, CHR 0xA5]"
definition em_dash :: string where "em_dash = [CHR 0xE2, CHR 0x80, CHR 0x94]"

section \<open>Execution artifacts (artifacts.ts)\<close>

record execution_artifacts =
  ea_artifacts :: "string list"
  ea_logPath :: "string option"
  ea_verifications :: "string list"

definition normalized_text :: "json option \<Rightarrow> string option" where
  "normalized_text v = (case v of Some (JStr s) \<Rightarrow> if js_trim s = [] then None else Some (js_trim s) | _ \<Rightarrow> None)"

definition fm_json :: "fm \<Rightarrow> string \<Rightarrow> json option" where \<comment> \<open>\<open>None\<close> also for a date\<close>
  "fm_json d k = (case map_get d k of Some (FVal v) \<Rightarrow> Some v | _ \<Rightarrow> None)"

definition normalizeStringArray :: "json option \<Rightarrow> string list" where
  "normalizeStringArray v =
     (case v of Some (JArr vs) \<Rightarrow> List.map_filter (\<lambda>x. normalized_text (Some x)) vs | _ \<Rightarrow> [])"

definition readBlueprintExecutionArtifacts :: "docs \<Rightarrow> string \<Rightarrow> execution_artifacts option throws" where
  "readBlueprintExecutionArtifacts dx markdown =
     and_then (matter dx markdown) (\<lambda>(d, _).
       (let artifacts = normalizeStringArray (fm_json d ''execution_artifacts'');
            verifications = normalizeStringArray (fm_json d ''execution_verifications'');
            logPath = normalized_text (fm_json d ''execution_log_path'')
        in Inr (if artifacts = [] \<and> verifications = [] \<and> logPath = None then None
                else Some \<lparr>ea_artifacts = artifacts, ea_logPath = logPath, ea_verifications = verifications\<rparr>)))"

section \<open>Approvals\<close>

record approval_entry =
  ap_reviewer :: string
  ap_verdict :: string
  ap_commit :: "string option"
  ap_evidence :: "string option"
  ap_rev :: "string option"
  ap_targetHash :: "string option"

record review_record =
  rr_reviewer :: string
  rr_verdict :: string
  rr_artifact :: "string option"
  rr_commit :: "string option"
  rr_rev :: "string option"
  rr_source :: "string option"
  rr_targetHash :: "string option"

definition lowered_text :: "json option \<Rightarrow> string" where \<comment> \<open>\<open>String(v ?? "").trim().toLowerCase()\<close>\<close>
  "lowered_text v = js_lower (js_trim (case v of None \<Rightarrow> [] | Some JNull \<Rightarrow> [] | Some x \<Rightarrow> js_string x))"

definition normalizeApprovalEntries :: "json option \<Rightarrow> approval_entry list" where
  "normalizeApprovalEntries approvals =
     (let entries = (case approvals of Some (JArr vs) \<Rightarrow> vs | _ \<Rightarrow> [])
      in filter (\<lambda>e. ap_reviewer e \<noteq> [])
           (map (\<lambda>e. \<lparr>ap_reviewer = lowered_text (map_get e ''reviewer''), ap_verdict = lowered_text (map_get e ''verdict''),
                      ap_commit = normalized_text (map_get e ''commit''), ap_evidence = normalized_text (map_get e ''evidence''),
                      ap_rev = normalized_text (map_get e ''rev''), ap_targetHash = normalized_text (map_get e ''targetHash'')\<rparr>)
             (concat (map object_members entries))))"

definition countDistinctApprovals :: "json option \<Rightarrow> nat" where
  "countDistinctApprovals approvals =
     card (set (map ap_reviewer (filter (\<lambda>e. ap_verdict e = ''approve'') (normalizeApprovalEntries approvals))))"

text \<open>The directory chain of a file, innermost first.\<close>

fun git_root_above :: "fstore \<Rightarrow> string list \<Rightarrow> string option" where
  "git_root_above fs ks =
     (if existsSync fs (path_join [path_of (rev ks), ''.git'']) then Some (path_of (rev ks))
      else (case ks of [] \<Rightarrow> None | _ # ks' \<Rightarrow> git_root_above fs ks'))"

definition findGitRoot :: "fstore \<Rightarrow> string \<Rightarrow> string option" where
  "findGitRoot fs f = git_root_above fs (rev (path_key (key_dirname f)))"

definition isGitTracked :: "audit_env \<Rightarrow> string option \<Rightarrow> string \<Rightarrow> bool" where
  "isGitTracked ae repoRoot f =
     (case repoRoot of
        None \<Rightarrow> False
      | Some r \<Rightarrow>
          if r = [] then False
          else (let rel = path_relative (ae_cwd ae) r f
                in if starts_with rel ''..'' \<or> path_is_absolute rel then False else ae_tracked ae r rel))"

definition resolveApprovalEvidencePath :: "audit_env \<Rightarrow> fstore \<Rightarrow> string \<Rightarrow> string option \<Rightarrow> string option" where
  "resolveApprovalEvidencePath ae fs f evidence =
     (case evidence of
        None \<Rightarrow> None
      | Some ev \<Rightarrow>
          if ev = [] \<or> path_is_absolute ev then None
          else
            (let normalizedEvidence = forward_slashes ev
             in if normalizedEvidence = [] \<or> normalizedEvidence = ''.'' \<or> starts_with normalizedEvidence ''../''
                  \<or> includes_str normalizedEvidence ''/../'' then None
                else
                  (let resolved = path_resolve (ae_cwd ae) (key_dirname f) ev;
                       relativeToBlueprint = forward_slashes (path_relative (ae_cwd ae) (key_dirname f) resolved)
                   in if relativeToBlueprint = ''..'' \<or> starts_with relativeToBlueprint ''../'' then None
                      else if \<not> existsSync fs resolved then None
                      else if \<not> isGitTracked ae (findGitRoot fs f) resolved then None
                      else Some resolved)))"

definition REVIEW_ENTRY_MARKER :: string where
  "REVIEW_ENTRY_MARKER = ''<!-- wp:review-entry ''"

definition isStructuredApprovalReviewRecord :: "entry \<Rightarrow> bool" where
  "isStructuredApprovalReviewRecord v \<longleftrightarrow>
     list_all (\<lambda>k. entry_text v k \<noteq> None)
       [''id'', ''blueprintSlug'', ''blueprintPath'', ''timestamp'', ''reviewer'', ''verdict'', ''targetKind'', ''targetId'']"

definition structured_record :: "entry \<Rightarrow> review_record" where
  "structured_record v =
     \<lparr>rr_reviewer = lowered_text (map_get v ''reviewer''), rr_verdict = lowered_text (map_get v ''verdict''),
      rr_artifact = normalized_text (map_get v ''artifact''), rr_commit = normalized_text (map_get v ''commit''),
      rr_rev = normalized_text (map_get v ''rev''), rr_source = normalized_text (map_get v ''source''),
      rr_targetHash = normalized_text (map_get v ''targetHash'')\<rparr>"

definition marker_record :: "string \<Rightarrow> review_record option" where
  "marker_record trimmed =
     (let body = take (length trimmed - 3 - length REVIEW_ENTRY_MARKER) (drop (length REVIEW_ENTRY_MARKER) trimmed)
      in case json_parse (js_trim body) of
           Some (JObj v) \<Rightarrow> if isStructuredApprovalReviewRecord v then Some (structured_record v) else None
         | _ \<Rightarrow> None)"

definition only_dashes :: "string \<Rightarrow> bool" where \<comment> \<open>\<open>/^-+$/\<close>\<close>
  "only_dashes s \<longleftrightarrow> s \<noteq> [] \<and> list_all (\<lambda>c. c = CHR ''-'') s"

definition table_record :: "string \<Rightarrow> review_record option" where
  "table_record trimmed =
     (let inner = tl trimmed;
          cells = map js_trim (split_char CHR ''|'' (if ends_with trimmed ''|'' then butlast inner else inner));
          reviewer = js_lower (cells ! 1); verdict = js_lower (cells ! 3)
      in if length cells < 4 then None
         else if list_all only_dashes cells then None
         else if reviewer = [] \<or> reviewer = ''reviewer'' then None
         else Some \<lparr>rr_reviewer = reviewer, rr_verdict = verdict, rr_artifact = None, rr_commit = None,
                    rr_rev = (if cells ! 2 \<noteq> [] \<and> cells ! 2 \<noteq> ''Rev'' then Some (cells ! 2) else None),
                    rr_source = None, rr_targetHash = None\<rparr>)"

definition ledger_record :: "string \<Rightarrow> review_record option" where
  "ledger_record line =
     (let trimmed = js_trim line
      in if starts_with trimmed REVIEW_ENTRY_MARKER \<and> ends_with trimmed ''-->'' then marker_record trimmed
         else if \<not> starts_with trimmed ''|'' then None
         else table_record trimmed)"

definition parseApprovalReviewRecordsFromLedger :: "string \<Rightarrow> review_record list" where
  "parseApprovalReviewRecordsFromLedger markdown = List.map_filter ledger_record (split_char nl markdown)"

definition resolveReviewArtifactPath ::
    "audit_env \<Rightarrow> fstore \<Rightarrow> string \<Rightarrow> string \<Rightarrow> string option \<Rightarrow> string option" where
  "resolveReviewArtifactPath ae fs f ledgerPath artifact =
     (case artifact of
        None \<Rightarrow> None
      | Some a \<Rightarrow>
          if a = ''reviews.md'' then None
          else
            (case resolveApprovalEvidencePath ae fs f (Some a) of
               None \<Rightarrow> None
             | Some resolved \<Rightarrow>
                 if path_resolve (ae_cwd ae) [] resolved = path_resolve (ae_cwd ae) [] ledgerPath then None
                 else Some resolved))"

definition approvalMatchesRecord :: "approval_entry \<Rightarrow> review_record \<Rightarrow> bool" where
  "approvalMatchesRecord e r \<longleftrightarrow>
     rr_reviewer r = ap_reviewer e \<and> rr_verdict r = ''approve''
     \<and> (ap_rev e = None \<or> rr_rev r = ap_rev e) \<and> (ap_commit e = None \<or> rr_commit r = ap_commit e)
     \<and> (ap_targetHash e = None \<or> rr_targetHash r = ap_targetHash e)"

definition approvalMatchesProvenanceBackedRecord ::
    "audit_env \<Rightarrow> fstore \<Rightarrow> string \<Rightarrow> string \<Rightarrow> approval_entry \<Rightarrow> review_record \<Rightarrow> bool" where
  "approvalMatchesProvenanceBackedRecord ae fs f ledgerPath e r \<longleftrightarrow>
     approvalMatchesRecord e r \<and> rr_source r = Some ''structured''
     \<and> resolveReviewArtifactPath ae fs f ledgerPath (rr_artifact r) \<noteq> None"

text \<open>
  The loop both counts share: the reviewers whose entry has a matching record in its evidence,
  given the path of the evidence.  An evidence that exists but cannot be read throws.
\<close>

fun backed_reviewers ::
    "audit_env \<Rightarrow> fstore \<Rightarrow> string \<Rightarrow> (string \<Rightarrow> approval_entry \<Rightarrow> review_record \<Rightarrow> bool) \<Rightarrow> approval_entry list
      \<Rightarrow> string list throws" where
  "backed_reviewers ae fs f matches [] = Inr []"
| "backed_reviewers ae fs f matches (e # es) =
     (if ap_verdict e \<noteq> ''approve'' then backed_reviewers ae fs f matches es
      else
        (case resolveApprovalEvidencePath ae fs f (ap_evidence e) of
           None \<Rightarrow> backed_reviewers ae fs f matches es
         | Some evidencePath \<Rightarrow>
             and_then (readFile fs evidencePath) (\<lambda>text.
             and_then (backed_reviewers ae fs f matches es) (\<lambda>later.
               Inr (if list_ex (matches evidencePath e) (parseApprovalReviewRecordsFromLedger text)
                    then ap_reviewer e # later else later)))))"

definition countDistinctLogBackedApprovals :: "audit_env \<Rightarrow> fstore \<Rightarrow> string \<Rightarrow> json option \<Rightarrow> nat throws" where
  "countDistinctLogBackedApprovals ae fs f approvals =
     and_then (backed_reviewers ae fs f (\<lambda>_. approvalMatchesRecord) (normalizeApprovalEntries approvals)) (\<lambda>rs. Inr (card (set rs)))"

definition countDistinctProvenanceBackedApprovals :: "audit_env \<Rightarrow> fstore \<Rightarrow> string \<Rightarrow> json option \<Rightarrow> nat throws" where
  "countDistinctProvenanceBackedApprovals ae fs f approvals =
     and_then (backed_reviewers ae fs f (approvalMatchesProvenanceBackedRecord ae fs f) (normalizeApprovalEntries approvals))
       (\<lambda>rs. Inr (card (set rs)))"

definition validateApprovalGate :: "audit_env \<Rightarrow> fstore \<Rightarrow> string \<Rightarrow> fm \<Rightarrow> audit_issue list throws" where
  "validateApprovalGate ae fs f d =
     (if fm_str d ''type'' \<noteq> Some ''blueprint'' then Inr []
      else if fm_str d ''status'' \<noteq> Some ''planned'' then Inr []
      else
        and_then (countDistinctProvenanceBackedApprovals ae fs f (fm_json d ''approvals'')) (\<lambda>n.
          Inr (if n < 2 then
            [issue_error (Some f)
              (''Blueprint is '' @ [squote] @ ''planned'' @ [squote] @ '' but frontmatter '' @ ticked ''approvals:'' @ '' has ''
               @ nat_str n @ '' distinct provenance-backed approving reviewer(s) backed by committed review evidence artifacts (need ''
               @ ge_sign @ ''2). Promotion past draft requires '' @ ge_sign
               @ ''2 distinct reviewer approvals with matching committed review records that reference separate tracked outside-model review artifacts ''
               @ em_dash @ '' see catalog/agent/rules/pre-implementation.md.'')]
            else [])))"

section \<open>Task statuses as they are written\<close>

definition audit_task_heading :: regex where \<comment> \<open>\<open>/^####\\s+(?:\\[[^\\]]+\\]\\s+)?Task\\s+/m\<close>\<close>
  "audit_task_heading =
     sq [StartLine, lit ''####'', plus ws, opt (sq [lit ''['', plus (none_of '']''), lit '']'', plus ws]), lit ''Task'', plus ws]"

definition countTaskHeadings :: "string \<Rightarrow> nat" where
  "countTaskHeadings md = length (match_all audit_task_heading md)"

definition audit_task_id :: regex where \<comment> \<open>\<open>/^(\\d+(?:\\.\\d+)+):/\<close>\<close>
  "audit_task_id = sq [StartText, Grp 1 (sq [plus digit, plus (Seq (lit ''.'') (plus digit))]), lit '':'']"

definition audit_status :: regex where \<comment> \<open>\<open>/\\*\\*Status:\\*\\*\\s*(.+)/i\<close>\<close>
  "audit_status = sq [lit_i ''**Status:**'', star ws, Grp 1 (plus dot)]"

definition status_break :: regex where
  \<comment> \<open>\<open>/\\s*\\|\\s*|\\s+(?=\\*\\*(?:Status|Depends|Blocked|Wave|Files|Acceptance):\\*\\*)/i\<close>\<close>
  "status_break =
     alts [sq [star ws, lit ''|'', star ws],
           sq [plus ws, Look True (sq [lit ''**'',
             alts (map lit_i [''Status'', ''Depends'', ''Blocked'', ''Wave'', ''Files'', ''Acceptance'']), lit '':**''])]]"

definition old_in_progress :: regex where \<comment> \<open>\<open>/\\bin_progress\\b/gi\<close>\<close>
  "old_in_progress = sq [WordBd, lit_i ''in_progress'', WordBd]"

definition normalizeInlineTaskStatus :: "string option \<Rightarrow> string option" where
  "normalizeInlineTaskStatus rawStatus =
     (if \<not> truthy rawStatus then None
      else Some (replace_all old_in_progress (\<lambda>_. ''in-progress'')
             (js_trim (hd (re_split status_break (js_trim (text_of rawStatus)))))))"

definition readTaskStatusLines :: "string \<Rightarrow> (string, string option) js_map" where
  "readTaskStatusLines md =
     map_from (List.map_filter (\<lambda>block.
         case re_exec audit_task_id block of
           None \<Rightarrow> None
         | Some i \<Rightarrow>
             Some (group_or_empty i 1,
               normalizeInlineTaskStatus (Option.bind (re_exec audit_status block) (\<lambda>m. group m 1))))
       (tl (re_split audit_task_heading md)))"

definition lifecycleTaskStatuses :: "string list" where
  "lifecycleTaskStatuses = [''todo'', ''in-progress'', ''blocked'', ''done'', ''dropped'']"

definition task_state_issues :: "(string, string option) js_map \<Rightarrow> task \<Rightarrow> audit_issue list" where
  "task_state_issues explicitStatuses t =
     (let explicitStatus = (case map_get explicitStatuses (t_id t) of Some st \<Rightarrow> st | None \<Rightarrow> None);
          done_boxes = checked (acceptanceCriteria t); boxes = total (acceptanceCriteria t);
          reason = (case blockedReason t of Some r \<Rightarrow> js_trim r \<noteq> [] | None \<Rightarrow> False)
      in if \<not> truthy explicitStatus then
           [issue_error None (''Task '' @ t_id t @ '' has no **Status:** line (only checkboxes); add explicit **Status:**.'')]
         else
           (if text_of explicitStatus \<notin> set lifecycleTaskStatuses
            then [issue_error None (''Task '' @ t_id t @ '' has invalid status '' @ quoted (text_of explicitStatus) @ ''.'')] else [])
           @ (if t_status t = Done \<and> 0 < boxes \<and> done_boxes \<noteq> boxes
              then [issue_error None (''Task '' @ t_id t @ '' is done but acceptance is '' @ nat_str done_boxes @ ''/'' @ nat_str boxes @ ''.'')]
              else [])
           @ (if t_status t = Blocked \<and> \<not> reason
              then [issue_error None (''Task '' @ t_id t @ '' is blocked but missing **Blocked:** reason.'')] else [])
           @ (if t_status t \<noteq> Blocked \<and> reason
              then [issue_error None (''Task '' @ t_id t @ '' has blocked reason but status '' @ task_status_str (t_status t) @ ''.'')]
              else []))"

definition validateTaskState :: "blueprint \<Rightarrow> audit_issue list" where
  "validateTaskState bp = concat (map (task_state_issues (readTaskStatusLines (raw bp))) (b_tasks bp))"

section \<open>Slugs, completion, owner\<close>

definition slug_groups :: "(string \<times> string) list \<Rightarrow> (string, (string \<times> string) list) js_map" where
  \<comment> \<open>the path and slug of each document, by relative slug\<close>
  "slug_groups blueprints =
     foldl (\<lambda>m (p, sl). map_set (relativeBlueprintSlug sl)
              ((case map_get m (relativeBlueprintSlug sl) of None \<Rightarrow> [] | Some es \<Rightarrow> es) @ [(p, sl)]) m) [] blueprints"

definition validateBlueprintSlugUniqueness :: "(string \<times> string) list \<Rightarrow> audit_issue list" where
  "validateBlueprintSlugUniqueness blueprints =
     List.map_filter (\<lambda>(normalizedSlug, entries).
         let uniqueLifecycleSlugs = set_of_list (map snd entries)
         in if length uniqueLifecycleSlugs \<le> 1 then None
            else Some (issue_error (case entries of [] \<Rightarrow> None | e # _ \<Rightarrow> Some (fst e))
              (''Blueprint slug '' @ quoted normalizedSlug @ '' appears in multiple lifecycle locations: ''
               @ join_with '', '' (js_sort code_unit_cmp uniqueLifecycleSlugs) @ ''.'')))
       (slug_groups blueprints)"

definition hasHistoricalZeroTaskRationale :: "fm \<Rightarrow> bool" where
  "hasHistoricalZeroTaskRationale d \<longleftrightarrow>
     fm_json d ''historical_zero_task_waiver'' = Some (JBool True)
     \<and> normalized_text (fm_json d ''historical_zero_task_rationale'') \<noteq> None"

definition validateCompletedZeroTaskBlueprint :: "string \<Rightarrow> fm \<Rightarrow> nat \<Rightarrow> audit_issue list" where
  "validateCompletedZeroTaskBlueprint f d taskHeadingCount =
     (if fm_str d ''status'' \<noteq> Some ''completed'' \<or> 0 < taskHeadingCount \<or> hasHistoricalZeroTaskRationale d then []
      else [issue_error (Some f)
              ''A completed zero-task blueprint requires explicit historical zero-task waiver and rationale.''])"

definition task_closed :: "task \<Rightarrow> bool" where
  "task_closed t \<longleftrightarrow> t_status t = Done \<or> t_status t = Dropped"

definition validateBlueprintEngineSemantics :: "string \<Rightarrow> blueprint \<Rightarrow> audit_issue list" where
  "validateBlueprintEngineSemantics f bp =
     (if b_status bp = ''completed'' then
        map (\<lambda>t. issue_error (Some f)
              (''Blueprint status is completed but task '' @ t_id t @ '' is '' @ quoted (task_status_str (t_status t))
               @ '' (expected '' @ quoted ''done'' @ '' or '' @ quoted ''dropped'' @ '').''))
          (filter (\<lambda>t. \<not> task_closed t) (b_tasks bp))
      else [])"

definition owner_field :: "fm \<Rightarrow> string \<Rightarrow> string" where
  "owner_field d k = (case fm_json d k of Some (JStr s) \<Rightarrow> js_trim s | _ \<Rightarrow> [])"

definition repair_hint :: string where
  "repair_hint = ''; start or repair it with '' @ ticked ''wp blueprint start'' @ '' / '' @ ticked ''wp worktree rebind'' @ ''.''"

definition validateOwnerBindingTruth :: "audit_env \<Rightarrow> fstore \<Rightarrow> string \<Rightarrow> fm \<Rightarrow> audit_issue list" where
  "validateOwnerBindingTruth ae fs f d =
     (if fm_str d ''type'' \<noteq> Some ''blueprint'' \<or> fm_str d ''status'' \<noteq> Some ''in-progress'' then []
      else
        (let ownerId = owner_field d ''worktree_owner_id''; ownerBranch = owner_field d ''worktree_owner_branch''
         in (if ownerId = [] then
               [issue_error (Some f) (''In-progress executable blueprint is missing worktree_owner_id'' @ repair_hint)] else [])
            @ (if ownerBranch = [] then
                 [issue_error (Some f) (''In-progress executable blueprint is missing worktree_owner_branch'' @ repair_hint)]
               else if \<not> starts_with ownerBranch ''bp/'' then
                 [issue_error (Some f)
                    (''In-progress blueprint worktree_owner_branch '' @ quoted ownerBranch
                     @ '' does not follow the uniform '' @ ticked ''bp/<slug>'' @ '' convention; create the worktree with ''
                     @ ticked ''wp blueprint start <slug>'' @ ''.'')]
               else [])
            @ (if ownerId = [] then []
               else
                 (case findResolvableOwnerBinding (ae_worktrees ae) fs ownerId of
                    None \<Rightarrow>
                      [issue_error (Some f)
                         (''In-progress executable blueprint has unresolved owner worktree binding '' @ ownerId
                          @ ''; run '' @ ticked ''wp worktree rebind'' @ '' or '' @ ticked ''wp worktree adopt'' @ ''.'')]
                  | Some e \<Rightarrow>
                      if ownerBranch \<noteq> [] \<and> map_get e ''branch'' \<noteq> Some (JStr ownerBranch) then
                        [issue_error (Some f)
                           (''Owner worktree binding branch mismatch: frontmatter='' @ ownerBranch @ '' registry=''
                            @ (case map_get e ''branch'' of None \<Rightarrow> ''(none)'' | Some JNull \<Rightarrow> ''(none)'' | Some v \<Rightarrow> js_string v)
                            @ ''.'')]
                      else []))))"

section \<open>Execution metadata\<close>

definition execution_field :: "string list \<Rightarrow> regex" where \<comment> \<open>\<open>/^\\s*execution_(a|b):/gm\<close>\<close>
  "execution_field names = sq [StartLine, star ws, lit ''execution_'', alts (map lit names), lit '':'']"

definition executionFieldCount :: "string \<Rightarrow> nat" where
  "executionFieldCount md = length (match_all (execution_field [''backend'', ''id'', ''status'', ''updated_at'']) md)"

definition executionArtifactFieldCount :: "string \<Rightarrow> nat" where
  "executionArtifactFieldCount md = length (match_all (execution_field [''verifications'', ''artifacts'', ''log_path'']) md)"

definition completed_execution_issues :: "string \<Rightarrow> blueprint \<Rightarrow> execution_artifacts option \<Rightarrow> audit_issue list" where
  "completed_execution_issues f bp artifacts =
     (let incompleteTasks = filter (\<lambda>t. \<not> task_closed t) (b_tasks bp); err = issue_error (Some f)
      in (if b_status bp \<noteq> ''completed''
          then [err ''Blueprint execution is completed but blueprint status is not completed.''] else [])
         @ (if incompleteTasks \<noteq> [] then
              [err (''Blueprint execution is completed but tasks remain unfinished: ''
                 @ join_with '', '' (map t_id incompleteTasks) @ ''.'')] else [])
         @ (if (case artifacts of None \<Rightarrow> True | Some a \<Rightarrow> ea_verifications a = [])
            then [err ''Blueprint execution is completed but named verification output is missing.''] else [])
         @ (if (case artifacts of None \<Rightarrow> True | Some a \<Rightarrow> ea_artifacts a = [] \<and> ea_logPath a = None)
            then [err ''Blueprint execution is completed but artifact or log identity is missing.''] else []))"

definition validateExecutionMetadataTruth :: "docs \<Rightarrow> string \<Rightarrow> blueprint \<Rightarrow> audit_issue list throws" where
  "validateExecutionMetadataTruth dx f bp =
     and_then (readBlueprintExecutionMetadata dx (raw bp)) (\<lambda>metadata.
     and_then (readBlueprintExecutionArtifacts dx (raw bp)) (\<lambda>artifacts.
       (let err = issue_error (Some f)
        in Inr (case metadata of
          None \<Rightarrow>
            (if 0 < executionFieldCount (raw bp) then
               [err ''Blueprint execution metadata is partially populated; backend, id, status, and updated_at must all be present together.'']
             else [])
            @ (if 0 < executionArtifactFieldCount (raw bp) then
                 [err ''Blueprint execution artifacts are populated without canonical execution metadata.''] else [])
        | Some x \<Rightarrow>
            (let st = x_status x; name = execution_status_str st
             in (if st = E_running \<and> b_status bp \<in> {''draft'', ''planned'', ''parked''} then
                   [err (''Blueprint execution is '' @ name @ '' but blueprint status is '' @ b_status bp
                      @ ''; runtime-backed work must move the blueprint into in-progress.'')] else [])
                @ (if st = E_completed then completed_execution_issues f bp artifacts else [])
                @ (if st \<in> {E_blocked, E_failed, E_stopped} \<and> b_status bp = ''completed'' then
                     [err (''Blueprint execution is '' @ name @ '' but blueprint is marked completed.'')] else [])
                @ (if st \<in> {E_blocked, E_failed} \<and> b_tasks bp \<noteq> [] \<and> list_all task_closed (b_tasks bp) then
                     [err (''Blueprint execution is '' @ name
                        @ '' but every task is marked done/dropped; failed or blocked runtime work must not appear completed.'')]
                   else []))))))"

section \<open>Placement\<close>

definition statusFromScannedSlug :: "string \<Rightarrow> string option" where
  "statusFromScannedSlug sl =
     (let st = hd (split_char CHR ''/'' sl)
      in if parseLifecycleBlueprintStatus st \<noteq> None then Some st else None)"

fun tails_of :: "string \<Rightarrow> string list" where
  "tails_of [] = [[]]"
| "tails_of (c # s) = (c # s) # tails_of s"

text \<open>What follows each occurrence of a marker.\<close>

definition following :: "string \<Rightarrow> string \<Rightarrow> string list" where
  "following marker s = map (drop (length marker)) (filter (prefix marker) (tails_of s))"

definition statusFromBlueprintPath :: "string \<Rightarrow> string option" where
  "statusFromBlueprintPath f =
     (let normalized = forward_slashes f
      in case List.map_filter parseBlueprintDocumentRelativePath
            (concat (map (\<lambda>marker. following marker normalized)
               [''/webpresso/blueprints/'', ''webpresso/blueprints/'', ''/blueprints/'', ''blueprints/''])) of
           [] \<Rightarrow> None | d # _ \<Rightarrow> Some (state d))"

definition isBlueprintOverview :: "string \<Rightarrow> bool" where
  "isBlueprintOverview f =
     (case concat (map (\<lambda>r. take 1 (following r (forward_slashes f))) [''webpresso/blueprints/'', ''blueprints/'']) of
        [] \<Rightarrow> False | rel # _ \<Rightarrow> parseBlueprintDocumentRelativePath rel \<noteq> None)"

definition validateBlueprintPlacement :: "string \<Rightarrow> blueprint \<Rightarrow> string \<Rightarrow> audit_issue list" where
  "validateBlueprintPlacement f bp scannedSlug =
     (let folderStatus = (case (if scannedSlug = [] then None else statusFromScannedSlug scannedSlug) of
            Some st \<Rightarrow> Some st | None \<Rightarrow> statusFromBlueprintPath f)
      in case folderStatus of
           None \<Rightarrow> []
         | Some folder \<Rightarrow>
             if parseLifecycleBlueprintStatus (b_status bp) = None then
               [issue_error (Some f) (''Blueprint status '' @ quoted (b_status bp) @ '' is not in the executable lifecycle.'')]
             else if folder \<noteq> b_status bp then
               [issue_error (Some f)
                  (''Blueprint folder/status mismatch: folder='' @ folder @ '' frontmatter='' @ b_status bp @ ''.'')]
             else [])"

section \<open>One document\<close>

definition auditBlueprintFile ::
    "audit_env \<Rightarrow> fstore \<Rightarrow> string \<Rightarrow> string \<Rightarrow> bool \<Rightarrow> audit_issue list throws" where
  "auditBlueprintFile ae fs f sl strict =
     and_then (readFile fs f) (\<lambda>md.
     and_then (parseBlueprint (ae_docs ae) md sl) (\<lambda>bp.
     and_then (matter (ae_docs ae) md) (\<lambda>(d, _).
     and_then (validateApprovalGate ae fs f d) (\<lambda>approval_issues.
     and_then (validateExecutionMetadataTruth (ae_docs ae) f bp) (\<lambda>execution_issues.
       Inr (validateBlueprintPlacement f bp sl
            @ map (\<lambda>i. i\<lparr>ai_file := Some f\<rparr>) (validateTaskState bp)
            @ validateBlueprintEngineSemantics f bp
            @ (if strict then validateCompletedZeroTaskBlueprint f d (countTaskHeadings md) else [])
            @ approval_issues
            @ validateOwnerBindingTruth ae fs f d
            @ execution_issues))))))"

section \<open>The documents on parallel execution\<close>

definition pll_patterns :: "(regex \<times> string) list" where
  "pll_patterns =
     [(lit_i ''just wp blueprint move <slug> in-progress'',
       ''PLL docs still instruct direct blueprint move commands for normal execution.''),
      (lit_i ''just wp blueprint run <slug>'',
       ''PLL docs still claim a nonexistent '' @ ticked ''wp blueprint run'' @ '' execution surface.''),
      (lit_i ''blueprint-orchestrator'', ''PLL docs still reference a removed local blueprint orchestrator.''),
      (alts [lit_i ''blueprint plans'', lit_i ''combined-dag''],
       ''PLL docs still reference unshipped cross-blueprint execution commands.''),
      (sq [lit_i ''TaskUpdate(taskId=task.id,'', star ws, lit_i (''status='' @ quoted ''completed'' @ '')'')],
       ''PLL docs still mark failed tasks as completed in pseudocode.'')]"

definition validatePllDocs :: "(string \<times> string) list \<Rightarrow> audit_issue list" where
  "validatePllDocs docs =
     concat (map (\<lambda>(f, text).
       concat (map (\<lambda>(p, msg). if re_test p text then [issue_error (Some f) msg] else []) pll_patterns)) docs)"

definition pll_docs :: "fstore \<Rightarrow> string \<Rightarrow> (string \<times> string) list" where
  "pll_docs fs projectRoot =
     List.map_filter (\<lambda>f. case readFile fs f of Inr text \<Rightarrow> Some (f, text) | Inl _ \<Rightarrow> None)
       [path_join [projectRoot, ''.agent'', ''commands'', ''pll.md''],
        path_join [projectRoot, ''.agent'', ''skills'', ''pll'', ''SKILL.md''],
        path_join [projectRoot, ''.agent'', ''guides'', ''parallel-execution.md'']]"

section \<open>What a commit must bring along\<close>

definition SHARED_HOT_FILE_PATTERNS :: "regex list" where
  "SHARED_HOT_FILE_PATTERNS =
     [sq [Alt StartText (lit ''/''), lit ''package.json'', EndText],
      sq [StartText, lit ''pnpm-workspace.yaml'', EndText],
      sq [StartText, lit ''pnpm-lock.yaml'', EndText]]"

definition isSharedHotFile :: "string \<Rightarrow> bool" where
  "isSharedHotFile f \<longleftrightarrow> list_ex (\<lambda>p. re_test p f) SHARED_HOT_FILE_PATTERNS"

definition staged_code :: "string list \<Rightarrow> string list" where
  "staged_code normalizedFiles =
     filter (\<lambda>f. \<not> starts_with f ''.agent/'' \<and> \<not> isBlueprintOverview f \<and> \<not> starts_with f ''webpresso/blueprints/''
               \<and> \<not> starts_with f ''blueprints/'' \<and> \<not> ends_with f ''.md'') normalizedFiles"

definition plan_path :: "audit_env \<Rightarrow> string \<Rightarrow> blueprint_record \<Rightarrow> string" where
  "plan_path ae projectRoot p = forward_slashes (path_relative (ae_cwd ae) projectRoot (br_path p))"

definition staged_file_issues ::
    "audit_env \<Rightarrow> string \<Rightarrow> string list \<Rightarrow> blueprint_record list \<Rightarrow> string \<Rightarrow> audit_issue list" where
  "staged_file_issues ae projectRoot stagedBlueprints active f =
     (let matching = filter (\<lambda>p. f \<in> set (br_filesTouched p)) active;
          matchingPaths = map (plan_path ae projectRoot) matching;
          blockingMatches = filter (\<lambda>p. br_status p = In_progress) matching
      in if matching = [] then []
         else if list_ex (\<lambda>p. p \<in> set stagedBlueprints) matchingPaths then []
         else if blockingMatches = [] then
           [issue_warning (Some f)
              (''Staged file '' @ f @ '' matches planned blueprint filesTouched ('' @ join_with '', '' matchingPaths
               @ ''); planned blueprints are advisory until implementation starts.'')]
         else if isSharedHotFile f then
           [issue_warning (Some f)
              (''Shared file '' @ f @ '' matches blueprint filesTouched ('' @ join_with '', '' matchingPaths
               @ ''); cross-cutting changes don'' @ [squote] @ ''t require a blueprint overview update.'')]
         else
           [issue_error (Some f)
              (''Staged file '' @ f @ '' matches in-progress blueprint filesTouched (''
               @ join_with '', '' (map (plan_path ae projectRoot) blockingMatches)
               @ '') but no corresponding blueprint overview is staged.'')])"

definition auditStageCoherence ::
    "audit_env \<Rightarrow> fstore \<Rightarrow> string \<Rightarrow> string list \<Rightarrow> audit_issue list throws option" where
  "auditStageCoherence ae fs projectRoot stagedFiles =
     (let normalizedFiles = map forward_slashes stagedFiles;
          stagedBlueprints = filter isBlueprintOverview normalizedFiles;
          stagedCodeFiles = staged_code normalizedFiles
      in if stagedCodeFiles = [] then Some (Inr [])
         else
           map_option (\<lambda>r. and_then r (\<lambda>(active, _).
               Inr (concat (map (staged_file_issues ae projectRoot stagedBlueprints active) stagedCodeFiles))))
             (blueprint_query ((ae_service ae)\<lparr>se_project := Some projectRoot\<rparr>) fs
               (filter_query (no_filters\<lparr>bf_status := Some [''planned'', ''in-progress'']\<rparr>))))"

section \<open>The audit\<close>

record audit_options =
  ao_all :: bool
  ao_projectRoot :: string
  ao_stagedFiles :: "string list option"
  ao_strict :: bool

record audit_result =
  ar_issues :: "audit_issue list"
  ar_ok :: bool

fun audit_files :: "audit_env \<Rightarrow> fstore \<Rightarrow> bool \<Rightarrow> scanned list \<Rightarrow> audit_issue list throws" where
  "audit_files ae fs strict [] = Inr []"
| "audit_files ae fs strict (s # ss) =
     and_then (auditBlueprintFile ae fs (sc_path s) (sc_slug s) strict) (\<lambda>found.
     and_then (audit_files ae fs strict ss) (\<lambda>later. Inr (found @ later)))"

definition audited_files :: "audit_env \<Rightarrow> audit_options \<Rightarrow> scanned list \<Rightarrow> scanned list" where
  "audited_files ae ao scans =
     (case ao_stagedFiles ao of
        None \<Rightarrow> scans
      | Some staged \<Rightarrow>
          if ao_all ao then scans
          else filter (\<lambda>s. forward_slashes (path_relative (ae_cwd ae) (ao_projectRoot ao) (sc_path s))
                             \<in> set (map forward_slashes staged)) scans)"

definition runBlueprintAudit :: "audit_env \<Rightarrow> fstore \<Rightarrow> audit_options \<Rightarrow> audit_result throws option" where
  "runBlueprintAudit ae fs ao =
     Option.bind (scanBlueprintDirectory fs (ae_cwd ae) (resolveBlueprintRoot fs (ae_cwd ae) (Some (ao_projectRoot ao))) True)
       (\<lambda>r. case and_then r (\<lambda>scans.
              and_then (audit_files ae fs (ao_strict ao) (audited_files ae ao scans)) (\<lambda>document_issues.
                Inr (validateBlueprintSlugUniqueness (map (\<lambda>s. (sc_path s, sc_slug s)) (audited_files ae ao scans))
                     @ document_issues @ validatePllDocs (pll_docs fs (ao_projectRoot ao))))) of
          Inl e \<Rightarrow> Some (Inl e)
        | Inr issues \<Rightarrow>
            map_option (\<lambda>r2. and_then r2 (\<lambda>stage_issues.
                Inr \<lparr>ar_issues = issues @ stage_issues,
                     ar_ok = list_all (\<lambda>i. ai_level i \<noteq> Audit_error) (issues @ stage_issues)\<rparr>))
              (case ao_stagedFiles ao of
                 None \<Rightarrow> Some (Inr [])
               | Some staged \<Rightarrow> auditStageCoherence ae fs (ao_projectRoot ao) staged))"

end
