(* ===== verification/RegistryProps.thy ===== *)
theory RegistryProps
  imports Worktrees LocalProps LifecycleFacts
begin

text \<open>
  Properties of the registry of worktrees: it is read back as it was written, it behaves as a map
  from ids to entries, an owner that was ensured can be resolved, and three ways in which entries
  are lost or wrong.
\<close>

section \<open>The registry file\<close>

text \<open>
  The setting: a tree of files, an absolute root, and a name for the temporary file that has no
  separator in it.
\<close>

definition registry_setting :: "wt_env \<Rightarrow> fstore \<Rightarrow> string option \<Rightarrow> bool" where
  "registry_setting we fs root_dir \<longleftrightarrow>
     store_ok fs \<and> CHR ''/'' \<notin> set (wt_tmp we)
     \<and> path_is_absolute (case root_dir of Some r \<Rightarrow> r | None \<Rightarrow> resolveManagedWorktreeRoot we)"

lemma registry_key:
  assumes "registry_setting we fs root_dir"
  obtains k where "registryPath we root_dir = path_of (k @ [''registry.json''])" "key_ok (k @ [''registry.json''])"
proof -
  let ?r = "case root_dir of Some r \<Rightarrow> r | None \<Rightarrow> resolveManagedWorktreeRoot we"
  have name: "name_ok ''registry.json''" by (simp add: name_ok_def plain_name_def)
  have "path_join (?r # map (join_with ''/'') [[''registry.json'']]) = path_of (path_key ?r @ concat [[''registry.json'']])"
    using assms name by (intro path_join_absolute) (simp_all add: registry_setting_def)
  then show ?thesis using that [of "path_key ?r"] name by (simp add: registryPath_def)
qed

lemma path_of_suffix: "path_of (k @ [s]) @ t = path_of (k @ [s @ t])"
  by (cases "k = []") (simp_all add: path_of_def join_with_snoc)

lemma tmp_key:
  assumes "registry_setting we fs root_dir"
  shows "path_key (registryPath we root_dir @ ''.'' @ wt_tmp we @ ''.tmp'') \<noteq> path_key (registryPath we root_dir)"
    and "last (path_key (registryPath we root_dir @ ''.'' @ wt_tmp we @ ''.tmp'')) = ''registry.json.'' @ wt_tmp we @ ''.tmp''"
proof -
  obtain k where k: "registryPath we root_dir = path_of (k @ [''registry.json''])" "key_ok (k @ [''registry.json''])"
    by (rule registry_key [OF assms])
  have "name_ok (''registry.json.'' @ wt_tmp we @ ''.tmp'')"
    using assms by (auto simp: registry_setting_def name_ok_def plain_name_def)
  then have t: "path_key (registryPath we root_dir @ ''.'' @ wt_tmp we @ ''.tmp'') = k @ [''registry.json.'' @ wt_tmp we @ ''.tmp'']"
    using k(2) unfolding k(1) path_of_suffix by simp
  then show "last (path_key (registryPath we root_dir @ ''.'' @ wt_tmp we @ ''.tmp'')) = ''registry.json.'' @ wt_tmp we @ ''.tmp''"
    by simp
  show "path_key (registryPath we root_dir @ ''.'' @ wt_tmp we @ ''.tmp'') \<noteq> path_key (registryPath we root_dir)"
    unfolding t using k by simp
qed

definition entries_ok :: "entry list \<Rightarrow> bool" where
  "entries_ok es \<longleftrightarrow> (\<forall>e\<in>set es. isRegistryEntry e \<and> json_ok (JObj e))"

lemma object_members_JObj [simp]: "concat (map (object_members \<circ> JObj) es) = es"
  by (induction es) auto

text \<open>A registry that was written is read back; what else exists still does.\<close>

lemma registry_written:
  assumes set: "registry_setting we fs root_dir" and es: "entries_ok es"
    and wr: "writeWorktreeRegistry we fs es root_dir = (Inr (), fs')"
  shows "readWorktreeRegistry we fs' root_dir = es" "registry_setting we fs' root_dir"
    and "existsSync fs q \<Longrightarrow> last (path_key q) \<noteq> ''registry.json.'' @ wt_tmp we @ ''.tmp'' \<Longrightarrow> existsSync fs' q"
proof -
  let ?p = "registryPath we root_dir" let ?t = "?p @ ''.'' @ wt_tmp we @ ''.tmp''"
  obtain fs1 fs2 where mk: "mkdir_recursive fs (key_dirname ?p) = Inr fs1"
    and w: "writeFile fs1 ?t (json_content json_defaults (registry_json es)) = Inr fs2" and r: "rename fs2 ?t ?p = Inr fs'"
    using wr by (auto simp: writeWorktreeRegistry_def writeJsonFile_def Let_def split: sum.splits)
  have ok: "store_ok fs" using set by (simp add: registry_setting_def)
  note fs1 = mkdir_recursive_ok [OF mk ok]
  note inst = installed [OF fs1(1) tmp_key(1) [OF set] w r]
  show "registry_setting we fs' root_dir" using set inst(1) by (simp add: registry_setting_def)
  have "json_ok (registry_json es)" using es by (auto simp: registry_json_def entries_ok_def)
  then have "readTrustedJsonFile fs' ?p = Inr (registry_json es)" by (rule read_json_content [OF _ inst(2)])
  moreover have "existsSync fs' ?p"
    using inst(2) by (simp add: readFile_Inr existsSync_def is_file_def map_has_iff)
  ultimately show "readWorktreeRegistry we fs' root_dir = es"
    using es by (simp add: readWorktreeRegistry_def registry_json_def map_get_def entries_ok_def)
  assume q: "existsSync fs q" "last (path_key q) \<noteq> ''registry.json.'' @ wt_tmp we @ ''.tmp''"
  show "existsSync fs' q"
  proof (cases "path_key q = path_key ?p")
    case True
    then show ?thesis using \<open>existsSync fs' ?p\<close> by (simp add: existsSync_def)
  next
    case False
    have "path_key q \<noteq> path_key ?t" using q(2) tmp_key(2) [OF set] by metis
    then have "readFile fs' q = Inr d \<longleftrightarrow> readFile fs q = Inr d" for d
      using inst(3) [OF _ False] fs1(2) by (simp add: readFile_Inr)
    then show ?thesis
      using q(1) fs1(4) inst(4) by (auto simp: existsSync_def is_file_def map_has_iff readFile_Inr)
  qed
qed

section \<open>The registry is a map\<close>

definition registry_ok :: "wt_env \<Rightarrow> string option \<Rightarrow> fstore \<Rightarrow> bool" where
  "registry_ok we root_dir fs \<longleftrightarrow>
     registry_setting we fs root_dir
     \<and> (let es = readWorktreeRegistry we fs root_dir in entries_ok es \<and> distinct (map entry_id es))"

lemma find_by_id:
  "distinct (map entry_id es) \<Longrightarrow> find (\<lambda>e. entry_id e = i) es = Some e \<longleftrightarrow> e \<in> set es \<and> entry_id e = i"
  by (induction es) auto

lemma find_same_set:
  assumes "set es = set fs" "distinct (map entry_id es)" "distinct (map entry_id fs)"
  shows "find (\<lambda>e. entry_id e = i) es = find (\<lambda>e. entry_id e = i) fs"
  using find_by_id [OF assms(2), of i] find_by_id [OF assms(3), of i] assms(1)
  by (metis not_Some_eq)

lemma with_entry_set: "set (with_entry we es new) = insert new {e \<in> set es. entry_id e \<noteq> entry_id new}"
  by (auto simp: with_entry_def)

lemma distinct_sorted_ids: "distinct (map entry_id (js_sort cmp es)) = distinct (map entry_id es)"
  by (metis mset_eq_imp_distinct_iff mset_js_sort mset_map)

lemma with_entry_distinct: "distinct (map entry_id es) \<Longrightarrow> distinct (map entry_id (with_entry we es new))"
  unfolding with_entry_def distinct_sorted_ids by (auto simp: distinct_map_filter)

lemma with_entry_find:
  assumes "distinct (map entry_id es)"
  shows "find (\<lambda>e. entry_id e = i) (with_entry we es new) =
    (if i = entry_id new then Some new else find (\<lambda>e. entry_id e = i) es)"
proof (cases "i = entry_id new")
  case True
  then show ?thesis
    using find_by_id [OF with_entry_distinct [OF assms], of i we new new] by (simp add: with_entry_set)
next
  case False
  have "find (\<lambda>e. entry_id e = i) (with_entry we es new) = Some e \<longleftrightarrow> find (\<lambda>e. entry_id e = i) es = Some e" for e
    using find_by_id [OF with_entry_distinct [OF assms], of i we new e] find_by_id [OF assms, of i e] False
    by (auto simp: with_entry_set)
  then show ?thesis using False by (metis not_Some_eq)
qed

text \<open>What a caller passes: the required fields but the two times, printable, and a text in each time.\<close>

definition entry_input :: "entry \<Rightarrow> bool" where
  "entry_input e \<longleftrightarrow>
     json_ok (JObj e)
     \<and> list_all (\<lambda>k. entry_text e k \<noteq> None) [''id'', ''repoNamespace'', ''repoRoot'', ''path'']
     \<and> (entry_text e ''kind'' = Some ''owner'' \<or> entry_text e ''kind'' = Some ''scratch'')
     \<and> list_all (\<lambda>k. map_get e k = None \<or> entry_text e k \<noteq> None) [''createdAt'', ''updatedAt'']"

lemma entry_text_set: "entry_text (map_set k v e) k' = (if k' = k then (case v of JStr s \<Rightarrow> Some s | _ \<Rightarrow> None) else entry_text e k')"
  by (simp add: entry_text_def split: json.split)

lemma json_ok_map_set: "json_ok (JObj e) \<Longrightarrow> json_ok v \<Longrightarrow> json_ok (JObj (map_set k v e))"
  using map_wf_set [of e k v] set_map_set [of k v e] by (fastforce simp: map_wf_def)

lemma text_value: "entry_text e k \<noteq> None \<Longrightarrow> \<exists>s. map_get e k = Some (JStr s)"
  by (auto simp: entry_text_def split: option.splits json.splits)

lemma stamped_ok:
  assumes "entry_input e" "entries_ok es"
  shows "isRegistryEntry (stamped we es e)" "json_ok (JObj (stamped we es e))" "entry_id (stamped we es e) = entry_id e"
    "\<And>k. k \<notin> {''createdAt'', ''updatedAt''} \<Longrightarrow> map_get (stamped we es e) k = map_get e k"
proof -
  let ?x = "find (\<lambda>c. entry_id c = entry_id e) es"
  have old: "\<exists>s. map_get c ''createdAt'' = Some (JStr s)" if "?x = Some c" for c
    using that assms(2) text_value [of c "''createdAt''"] by (auto simp: find_Some_iff entries_ok_def isRegistryEntry_def)
  obtain s where s: "coalesced (map_get e ''createdAt'')
      (coalesced (Option.bind ?x (\<lambda>c. map_get c ''createdAt'')) (Some (JStr (wt_now we)))) = Some (JStr s)"
    using assms(1) text_value [of e "''createdAt''"] old
    by (cases "map_get e ''createdAt''"; cases ?x) (fastforce simp: entry_input_def coalesced_def)+
  obtain t where t: "coalesced (map_get e ''updatedAt'') (Some (JStr (wt_now we))) = Some (JStr t)"
    using assms(1) text_value [of e "''updatedAt''"]
    by (cases "map_get e ''updatedAt''") (fastforce simp: entry_input_def coalesced_def)+
  have eq: "stamped we es e = map_set ''updatedAt'' (JStr t) (map_set ''createdAt'' (JStr s) e)"
    unfolding stamped_def Let_def s t by simp
  show "isRegistryEntry (stamped we es e)"
    using assms(1) unfolding eq by (simp add: isRegistryEntry_def entry_input_def entry_text_set)
  show "json_ok (JObj (stamped we es e))"
    unfolding eq using assms(1) by (intro json_ok_map_set) (simp_all add: entry_input_def)
  show "entry_id (stamped we es e) = entry_id e" unfolding eq by (simp add: entry_id_def entry_text_set)
  show "k \<notin> {''createdAt'', ''updatedAt''} \<Longrightarrow> map_get (stamped we es e) k = map_get e k" for k
    unfolding eq by simp
qed

lemma upserted:
  assumes ok: "registry_ok we root_dir fs" and e: "entry_input e"
    and up: "upsertWorktreeRegistryEntry we fs e root_dir = (Inr new, fs')"
  shows "registry_ok we root_dir fs'" "new = stamped we (readWorktreeRegistry we fs root_dir) e"
    and "findWorktreeRegistryEntry we fs' i root_dir =
      (if i = entry_id e then Some new else findWorktreeRegistryEntry we fs i root_dir)"
    and "existsSync fs q \<Longrightarrow> last (path_key q) \<noteq> ''registry.json.'' @ wt_tmp we @ ''.tmp'' \<Longrightarrow> existsSync fs' q"
proof -
  let ?es = "readWorktreeRegistry we fs root_dir"
  have set: "registry_setting we fs root_dir" "entries_ok ?es" "distinct (map entry_id ?es)"
    using ok by (simp_all add: registry_ok_def Let_def)
  have new: "new = stamped we ?es e" and wr: "writeWorktreeRegistry we fs (with_entry we ?es new) root_dir = (Inr (), fs')"
    using up by (auto simp: upsertWorktreeRegistryEntry_def Let_def split: prod.splits sum.splits)
  then show "new = stamped we ?es e" by simp
  note st = stamped_ok [OF e set(2), where we = we]
  have es: "entries_ok (with_entry we ?es new)"
    using set(2) st(1,2) by (auto simp: entries_ok_def with_entry_set new)
  note w = registry_written [OF set(1) es wr]
  show "registry_ok we root_dir fs'"
    using w es with_entry_distinct [OF set(3)] by (simp add: registry_ok_def Let_def)
  show "findWorktreeRegistryEntry we fs' i root_dir =
      (if i = entry_id e then Some new else findWorktreeRegistryEntry we fs i root_dir)"
    unfolding findWorktreeRegistryEntry_def w(1) with_entry_find [OF set(3)] using st(3) by (simp add: new)
  show "existsSync fs q \<Longrightarrow> last (path_key q) \<noteq> ''registry.json.'' @ wt_tmp we @ ''.tmp'' \<Longrightarrow> existsSync fs' q"
    by (rule w(3))
qed

text \<open>
  The interface of a state that is a map to its clients: each call sets the value of one key.
  A sequence of calls then computes the same map as the updates in their order.
\<close>

locale map_store =
  fixes valid :: "'s \<Rightarrow> bool"
    and contents :: "'s \<Rightarrow> 'k \<Rightarrow> 'v option"
    and put :: "'s \<Rightarrow> 'x \<Rightarrow> 's option"
    and key_of :: "'x \<Rightarrow> 'k"
    and value_of :: "'x \<Rightarrow> 'v"
    and accepts :: "'x \<Rightarrow> bool"
  assumes put_valid: "valid s \<Longrightarrow> accepts x \<Longrightarrow> put s x = Some s' \<Longrightarrow> valid s'"
    and put_contents: "valid s \<Longrightarrow> accepts x \<Longrightarrow> put s x = Some s' \<Longrightarrow> contents s' = (contents s)(key_of x \<mapsto> value_of x)"
begin

fun put_all :: "'s \<Rightarrow> 'x list \<Rightarrow> 's option" where
  "put_all s [] = Some s"
| "put_all s (x # xs) = Option.bind (put s x) (\<lambda>s'. put_all s' xs)"

lemma put_all_contents:
  assumes "valid s" "\<forall>x\<in>set xs. accepts x" "put_all s xs = Some s'"
  shows "valid s' \<and> contents s' = fold (\<lambda>x m. m(key_of x \<mapsto> value_of x)) xs (contents s)"
  using assms
proof (induction xs arbitrary: s)
  case (Cons x xs)
  then obtain t where t: "put s x = Some t" "put_all t xs = Some s'" by (cases "put s x") auto
  with Cons.IH [of t] put_valid [OF Cons.prems(1) _ t(1)] put_contents [OF Cons.prems(1) _ t(1)] Cons.prems(2)
  show ?case by simp
qed simp

end

text \<open>The fields of an entry but its times; the content of the registry under an id.\<close>

definition entry_fields :: "entry \<Rightarrow> string \<Rightarrow> json option" where
  "entry_fields e = (\<lambda>k. if k \<in> {''createdAt'', ''updatedAt''} then None else map_get e k)"

definition registry_map :: "wt_env \<Rightarrow> string option \<Rightarrow> fstore \<Rightarrow> string \<Rightarrow> (string \<Rightarrow> json option) option" where
  "registry_map we root_dir fs i = map_option entry_fields (findWorktreeRegistryEntry we fs i root_dir)"

definition upsert :: "wt_env \<Rightarrow> string option \<Rightarrow> fstore \<Rightarrow> entry \<Rightarrow> fstore option" where
  "upsert we root_dir fs e =
     (case upsertWorktreeRegistryEntry we fs e root_dir of (Inr _, fs') \<Rightarrow> Some fs' | _ \<Rightarrow> None)"

fun upsert_all :: "wt_env \<Rightarrow> string option \<Rightarrow> fstore \<Rightarrow> entry list \<Rightarrow> fstore option" where
  "upsert_all we root_dir fs [] = Some fs"
| "upsert_all we root_dir fs (e # es) = Option.bind (upsert we root_dir fs e) (\<lambda>fs'. upsert_all we root_dir fs' es)"

lemma upsert_Some: "upsert we root_dir fs e = Some fs' \<longleftrightarrow> (\<exists>new. upsertWorktreeRegistryEntry we fs e root_dir = (Inr new, fs'))"
  by (auto simp: upsert_def split: prod.splits sum.splits)

lemma upsert_map:
  assumes "registry_ok we root_dir fs" "entry_input e" "upsert we root_dir fs e = Some fs'"
  shows "registry_map we root_dir fs' = (registry_map we root_dir fs)(entry_id e \<mapsto> entry_fields e)"
proof -
  obtain new where up: "upsertWorktreeRegistryEntry we fs e root_dir = (Inr new, fs')" using assms(3) by (auto simp: upsert_Some)
  have es: "entries_ok (readWorktreeRegistry we fs root_dir)" using assms(1) by (simp add: registry_ok_def Let_def)
  have "entry_fields new = entry_fields e"
    using stamped_ok(4) [OF assms(2) es] upserted(2) [OF assms(1,2) up] by (auto simp: entry_fields_def fun_eq_iff)
  then show ?thesis
    using upserted(3) [OF assms(1,2) up] by (auto simp: registry_map_def fun_eq_iff)
qed

interpretation reg: map_store "registry_ok we root_dir" "registry_map we root_dir" "upsert we root_dir"
    entry_id entry_fields entry_input
  for we root_dir
proof unfold_locales
  show "registry_ok we root_dir fs \<Longrightarrow> entry_input e \<Longrightarrow> upsert we root_dir fs e = Some fs' \<Longrightarrow> registry_ok we root_dir fs'"
    for fs e fs' by (auto simp: upsert_Some dest: upserted(1))
qed (rule upsert_map)

lemma upsert_all_reg: "reg.put_all we root_dir fs es = upsert_all we root_dir fs es"
  by (induction es arbitrary: fs) simp_all


section \<open>Owners\<close>

lemma registry_by_file:
  assumes "\<And>c. readFile fs' (registryPath we root_dir) = Inr c \<longleftrightarrow> readFile fs (registryPath we root_dir) = Inr c"
  shows "readWorktreeRegistry we fs' root_dir = readWorktreeRegistry we fs root_dir"
proof -
  have by_text: "readWorktreeRegistry we g root_dir =
    (case readFile g (registryPath we root_dir) of
       Inl _ \<Rightarrow> [] | Inr c \<Rightarrow> readWorktreeRegistry we \<lparr>files = [(path_key (registryPath we root_dir), c)], dirs = []\<rparr> root_dir)" for g
    by (auto simp: readWorktreeRegistry_def readTrustedJsonFile_def readJsonUnknown_def readFile_def Let_def map_get_def
        existsSync_def is_file_def map_has_def dest!: map_of_SomeD split: option.splits sum.splits) force+
  let ?p = "registryPath we root_dir"
  have "(\<exists>c. readFile fs ?p = Inr c \<and> readFile fs' ?p = Inr c) \<or> (\<exists>d e. readFile fs ?p = Inl d \<and> readFile fs' ?p = Inl e)"
    using assms by (metis sum.exhaust)
  then show ?thesis unfolding by_text [of fs] by_text [of fs'] by auto
qed

lemma registry_ok_mkdir:
  assumes "registry_ok we root_dir fs" "mkdir_recursive fs p = Inr fs'"
  shows "registry_ok we root_dir fs'"
proof -
  have ok: "store_ok fs" using assms(1) by (simp add: registry_ok_def registry_setting_def)
  note mk = mkdir_recursive_ok [OF assms(2) ok]
  have "readWorktreeRegistry we fs' root_dir = readWorktreeRegistry we fs root_dir"
    by (rule registry_by_file) (simp add: readFile_Inr mk(2))
  then show ?thesis using assms(1) mk(1) by (simp add: registry_ok_def registry_setting_def)
qed

lemma owner_entry_input: "entry_input (owner_entry we repoRoot sl b)"
  by (cases "ob_repoOriginUrl b")
    (simp_all add: entry_input_def owner_entry_def origin_member_def entry_text_def map_get_def)

lemma owner_entry_fields:
  "entry_text (owner_entry we repoRoot sl b) ''kind'' = Some ''owner''"
  "entry_text (owner_entry we repoRoot sl b) ''branch'' = Some (ob_branch b)"
  "entry_text (owner_entry we repoRoot sl b) ''path'' = Some (ob_path b)"
  "entry_id (owner_entry we repoRoot sl b) = ob_id b"
  by (cases "ob_repoOriginUrl b"; simp add: owner_entry_def origin_member_def entry_text_def entry_id_def map_get_def text_of_def)+

text \<open>
  What the manager relies on of git: a \<open>worktree add\<close> that succeeds has made the directory and
  left the registry well formed.
\<close>

definition git_adds_worktrees :: "wt_env \<Rightarrow> bool" where
  "git_adds_worktrees we \<longleftrightarrow>
     (\<forall>fs repo b fs'. registry_ok we None fs \<and> git_run we fs repo (worktree_add we repo b) = (True, fs') \<longrightarrow>
        existsSync fs' (ob_path b) \<and> registry_ok we None fs')"

lemma registered_owner:
  assumes ok: "registry_ok we None fs" and there: "existsSync fs (ob_path b)" "last (path_key (ob_path b)) = ''owner''"
    and reg: "registered b (registerOwner we fs repoRoot sl b default_options) = (Inr b', fs')"
    and env: "wt_test_root we = None"
  shows "b' = b \<and> registry_ok we None fs'
    \<and> (\<exists>e. findResolvableOwnerBinding we fs' (ob_id b) = Some e \<and> entry_text e ''branch'' = Some (ob_branch b)
        \<and> entry_path e = ob_path b)"
proof -
  let ?e = "owner_entry we repoRoot sl b"
  obtain new where up: "upsertWorktreeRegistryEntry we fs ?e None = (Inr new, fs')" and b': "b' = b"
    using reg by (auto simp: registered_def registerOwner_def default_options_def split: prod.splits sum.splits)
  note u = upserted [OF ok owner_entry_input up]
  have same: "entry_text new k = entry_text ?e k" if "k \<notin> {''createdAt'', ''updatedAt''}" for k
    using stamped_ok(4) [OF owner_entry_input, of "readWorktreeRegistry we fs None" k] ok u(2) that
    by (simp add: entry_text_def registry_ok_def Let_def)
  then have fields: "entry_text new ''kind'' = Some ''owner''" "entry_text new ''branch'' = Some (ob_branch b)"
    "entry_path new = ob_path b"
    using owner_entry_fields [of we repoRoot sl b] by (simp_all add: entry_path_def text_of_def)
  have "existsSync fs' (ob_path b)" using u(4) [OF there(1)] there(2) by simp
  then have "findResolvableOwnerBinding we fs' (ob_id b) = Some new"
    using u(3) [of "ob_id b"] fields owner_entry_fields(4) [of we repoRoot sl b] env
    by (simp add: findResolvableOwnerBinding_def)
  then show ?thesis using u(1) fields b' by blast
qed

lemma owner_path: "path_is_absolute (wt_home we) \<Longrightarrow> last (path_key (ob_path (resolveOwnerBinding we repoRoot sl))) = ''owner''"
  using last_joined(2) [of "resolveBlueprintWorktreeRoot we repoRoot u sl" "''owner''" "[]" for u]
  by (simp add: resolveOwnerBinding_def Let_def resolveOwnerWorktreePath_def resolveBlueprintWorktreeRoot_def
      resolveWorktreeRoot_def resolveManagedWorktreeRoot_def absolute_path_join split_char_no_sep name_ok_def plain_name_def)

lemma ensured_owner:
  assumes "ensureBlueprintOwnerWorktree we fs repoRoot sl default_options = (Inr b, fs')"
    and "registry_ok we None fs" "git_adds_worktrees we" "wt_test_root we = None" "path_is_absolute (wt_home we)"
  shows "registry_ok we None fs'
    \<and> (\<exists>e. findResolvableOwnerBinding we fs' (ob_id b) = Some e \<and> entry_text e ''branch'' = Some (''bp/'' @ sl))"
proof -
  let ?b = "resolveOwnerBinding we repoRoot sl"
  obtain fs2 where reg: "registered ?b (registerOwner we fs2 repoRoot sl ?b default_options) = (Inr b, fs')"
    and ok: "registry_ok we None fs2" "existsSync fs2 (ob_path ?b)"
  proof (cases "existsSync fs (ob_path ?b)")
    case True
    then show ?thesis using that [of fs] assms(1,2) by (simp add: ensureBlueprintOwnerWorktree_def Let_def)
  next
    case False
    obtain fs1 fs2 where mk: "mkdir_recursive fs (key_dirname (ob_path ?b)) = Inr fs1"
      and git: "git_run we fs1 repoRoot (worktree_add we repoRoot ?b) = (True, fs2)"
      and r: "registered ?b (registerOwner we fs2 repoRoot sl ?b default_options) = (Inr b, fs')"
      using assms(1) False
      by (auto simp: ensureBlueprintOwnerWorktree_def Let_def default_options_def split: sum.splits prod.splits if_splits)
    have "registry_ok we None fs1" by (rule registry_ok_mkdir [OF assms(2) mk])
    then have "registry_ok we None fs2" "existsSync fs2 (ob_path ?b)"
      using assms(3) git unfolding git_adds_worktrees_def by blast+
    with r show ?thesis by (rule that)
  qed
  have "ob_branch ?b = ''bp/'' @ sl" by (simp add: resolveOwnerBinding_def Let_def)
  with registered_owner [OF ok owner_path [OF assms(5)] reg assms(4)] show ?thesis by metis
qed

text \<open>C14. An owner worktree that was ensured can be resolved: after the call succeeds, the id it returns
  leads to an entry on the branch of the blueprint whose directory exists.\<close>
theorem ensured_owner_resolves:
  assumes "ensureBlueprintOwnerWorktree we fs repoRoot sl default_options = (Inr b, fs')"
    and "registry_ok we None fs" "git_adds_worktrees we" "wt_test_root we = None" "path_is_absolute (wt_home we)"
  shows "registry_ok we None fs'
    \<and> (\<exists>e. findResolvableOwnerBinding we fs' (ob_id b) = Some e \<and> entry_text e ''branch'' = Some (''bp/'' @ sl))"
  by (rule ensured_owner [OF assms])

section \<open>Where entries are lost\<close>


text \<open>A registry that cannot be read counts as empty, so the next upsert replaces it.\<close>

lemma unreadable_registry_replaced:
  assumes "registry_setting we fs root_dir" "readFile fs (registryPath we root_dir) = Inr c" "json_parse c = None"
    and "entry_input e" "upsertWorktreeRegistryEntry we fs e root_dir = (Inr new, fs')"
  shows "readWorktreeRegistry we fs' root_dir = [new]"
proof -
  have none: "readWorktreeRegistry we fs root_dir = []"
    using assms(2,3) by (simp add: readWorktreeRegistry_def readTrustedJsonFile_def readJsonUnknown_def Let_def)
  have ok: "entries_ok []" by (simp add: entries_ok_def)
  have new: "new = stamped we [] e" and wr: "writeWorktreeRegistry we fs (with_entry we [] new) root_dir = (Inr (), fs')"
    using assms(5) none by (auto simp: upsertWorktreeRegistryEntry_def Let_def split: prod.splits sum.splits)
  have "entries_ok (with_entry we [] new)"
    using stamped_ok(1,2) [OF assms(4) ok, where we = we] by (simp add: entries_ok_def with_entry_def new)
  from registry_written(1) [OF assms(1) this wr] show ?thesis by (simp add: with_entry_def)
qed


section \<open>On a sample machine\<close>

definition sample_git :: "fstore \<Rightarrow> string \<Rightarrow> string list \<Rightarrow> bool \<times> fstore" where
  "sample_git fs repo args = (case mkdir_recursive fs (last args) of Inl _ \<Rightarrow> (False, fs) | Inr fs' \<Rightarrow> (True, fs'))"

definition sample_wt :: wt_env where
  "sample_wt =
     \<lparr>sha256 = (\<lambda>s. rev s), wt_home = ''/h'', wt_now = ''t'', wt_compare = (\<lambda>a b. 0), wt_tmp = ''1.2'',
      wt_test_root = None, git_origin = (\<lambda>_. None), git_branch = (\<lambda>_ _. False), git_run = sample_git\<rparr>"

definition no_files :: fstore where
  "no_files = \<lparr>files = [], dirs = []\<rparr>"

lemma sample_home: "path_is_absolute (resolveManagedWorktreeRoot sample_wt)" "path_is_absolute (wt_home sample_wt)"
  "wt_test_root sample_wt = None"
  by code_simp+

lemma sample_registry: "registry_ok sample_wt None no_files"
proof -
  have "readWorktreeRegistry sample_wt no_files None = []" by code_simp
  then show ?thesis
    using sample_home
    by (simp add: registry_ok_def registry_setting_def entries_ok_def store_ok_def no_files_def map_wf_def is_file_def
        map_has_def sample_wt_def)
qed

lemma sample_git_adds: "git_adds_worktrees sample_wt"
  unfolding git_adds_worktrees_def
proof (intro allI impI)
  fix fs repo b fs'
  assume a: "registry_ok sample_wt None fs \<and> git_run sample_wt fs repo (worktree_add sample_wt repo b) = (True, fs')"
  have "git_run sample_wt fs repo (worktree_add sample_wt repo b) = sample_git fs repo [''worktree'', ''add'', ''-b'', ob_branch b, ob_path b]"
    by (simp add: sample_wt_def worktree_add_def)
  with a have mk: "mkdir_recursive fs (ob_path b) = Inr fs'" by (simp add: sample_git_def split: sum.splits)
  have "store_ok fs" using a by (simp add: registry_ok_def registry_setting_def)
  then show "existsSync fs' (ob_path b) \<and> registry_ok sample_wt None fs'"
    using mkdir_recursive_ok(3) [OF mk] registry_ok_mkdir [OF _ mk] a by (simp add: existsSync_def)
qed

lemma call_result:
  assumes "case f of (Inr _, _) \<Rightarrow> True | _ \<Rightarrow> False"
  shows "\<exists>x s. f = (Inr x, s)"
  using assms by (cases f rule: prod.exhaust; cases "fst f") auto

theorem ensured_owner_resolves_witness:
  "\<exists>b fs' e. ensureBlueprintOwnerWorktree sample_wt no_files ''/r'' ''x'' default_options = (Inr b, fs')
     \<and> findResolvableOwnerBinding sample_wt fs' (ob_id b) = Some e \<and> entry_text e ''branch'' = Some ''bp/x''"
proof -
  have "case ensureBlueprintOwnerWorktree sample_wt no_files ''/r'' ''x'' default_options of (Inr _, _) \<Rightarrow> True | _ \<Rightarrow> False"
    by code_simp
  then obtain b fs' where e: "ensureBlueprintOwnerWorktree sample_wt no_files ''/r'' ''x'' default_options = (Inr b, fs')"
    using call_result by metis
  show ?thesis
    using ensured_owner_resolves [OF e sample_registry sample_git_adds sample_home(3,2)] e by auto
qed

definition sample_owner :: "string \<Rightarrow> entry" where
  "sample_owner sl = owner_entry sample_wt ''/r'' sl (resolveOwnerBinding sample_wt ''/r'' sl)"




end
