(* ===== verification/LifecycleAuditProps.thy ===== *)
theory LifecycleAuditProps
  imports LifecycleAudit RegistryProps LifecycleProps
begin

text \<open>
  What an audit without errors guarantees: every document stands in the folder of its status and
  its tasks are in order, a planned blueprint has two reviewers with a record of their own, and
  an in-progress one an owner; and that a blueprint started by the tool passes the owner check.
\<close>

section \<open>Paths\<close>

lemma common_prefix_all: "common_prefix k j = length k \<Longrightarrow> prefix k j"
  by (induction k j rule: common_prefix.induct) (auto split: if_splits)

lemma common_prefix_le: "common_prefix k j \<le> length k"
  by (induction k j rule: common_prefix.induct) auto

lemma path_resolve_key: "path_resolve cwd base p = path_of (path_key (path_resolve cwd base p))"
  "\<exists>q. path_key (path_resolve cwd base p) = path_key q"
proof -
  obtain q where q: "path_resolve cwd base p = path_of (path_key q)"
    by (metis path_key_def path_of_def path_resolve_def)
  then show "path_resolve cwd base p = path_of (path_key (path_resolve cwd base p))" by simp
  show "\<exists>q. path_key (path_resolve cwd base p) = path_key q" by blast
qed

lemma path_resolve_of: "key_ok k \<Longrightarrow> path_segments False (path_resolve cwd [] (path_of k)) = k"
proof -
  have "path_resolve cwd [] (path_of k) = path_of (path_segments False (path_of k))"
    by (simp add: path_resolve_def path_of_def [of "path_segments False (path_of k)"])
  then show "key_ok k \<Longrightarrow> ?thesis" by (simp only: path_segments_of)
qed

text \<open>A relative path that does not start with two dots stays in its directory.\<close>

lemma relative_inside:
  assumes "key_ok k" "key_ok j" "forward_slashes (path_relative cwd (path_of k) (path_of j)) \<noteq> ''..''"
    and "\<not> starts_with (forward_slashes (path_relative cwd (path_of k) (path_of j))) ''../''"
  shows "prefix k j"
proof -
  let ?n = "common_prefix k j"
  have rel: "path_relative cwd (path_of k) (path_of j) = join_with ''/'' (replicate (length k - ?n) ''..'' @ drop ?n j)"
    by (simp add: path_relative_def Let_def path_resolve_of assms(1,2))
  have "length k - ?n = 0"
  proof (rule ccontr)
    assume "length k - ?n \<noteq> 0"
    then obtain m where m: "length k - ?n = Suc m" using not0_implies_Suc by blast
    obtain ss where "path_relative cwd (path_of k) (path_of j) = join_with ''/'' (''..'' # ss)"
      unfolding rel m by simp
    then have "path_relative cwd (path_of k) (path_of j) = ''..'' \<or> starts_with (path_relative cwd (path_of k) (path_of j)) ''../''"
      by (cases ss) (auto simp: starts_with_def)
    with assms(3,4) show False by (auto simp: forward_slashes_map starts_with_def prefix_def)
  qed
  then show ?thesis using common_prefix_le [of k j] common_prefix_all [of k j] by simp
qed

section \<open>Evidence\<close>

definition committed_beside :: "audit_env \<Rightarrow> fstore \<Rightarrow> string \<Rightarrow> string \<Rightarrow> bool" where
  \<comment> \<open>a tracked path in the directory of the document\<close>
  "committed_beside ae fs f p \<longleftrightarrow>
     existsSync fs p \<and> prefix (butlast (path_key f)) (path_key p)
     \<and> (\<exists>repo. findGitRoot fs f = Some repo \<and> ae_tracked ae repo (path_relative (ae_cwd ae) repo p))"

lemma evidence_committed:
  assumes "resolveApprovalEvidencePath ae fs f ev = Some p"
  shows "committed_beside ae fs f p"
proof -
  obtain e where p: "p = path_resolve (ae_cwd ae) (key_dirname f) e" "existsSync fs p"
      "isGitTracked ae (findGitRoot fs f) p"
    and rel: "forward_slashes (path_relative (ae_cwd ae) (key_dirname f) p) \<noteq> ''..''"
      "\<not> starts_with (forward_slashes (path_relative (ae_cwd ae) (key_dirname f) p)) ''../''"
    using assms by (auto simp: resolveApprovalEvidencePath_def Let_def split: option.splits if_splits)
  have key: "p = path_of (path_key p)" unfolding p(1) by (rule path_resolve_key)
  have "prefix (butlast (path_key f)) (path_key p)"
    using relative_inside [of "butlast (path_key f)" "path_key p" "ae_cwd ae"] rel key by (simp add: key_dirname_def)
  with p show ?thesis by (auto simp: committed_beside_def isGitTracked_def Let_def split: option.splits if_splits)
qed

text \<open>
  What the gate asks of a reviewer: an approving entry, a structured record of the same reviewer
  in a committed ledger, and a committed review artifact that is not the ledger.
\<close>

definition approved_by :: "audit_env \<Rightarrow> fstore \<Rightarrow> string \<Rightarrow> json option \<Rightarrow> string \<Rightarrow> bool" where
  "approved_by ae fs f approvals reviewer \<longleftrightarrow>
     (\<exists>e\<in>set (normalizeApprovalEntries approvals). ap_reviewer e = reviewer \<and> ap_verdict e = ''approve''
        \<and> (\<exists>ledger text r artifact. committed_beside ae fs f ledger \<and> readFile fs ledger = Inr text
             \<and> r \<in> set (parseApprovalReviewRecordsFromLedger text)
             \<and> rr_reviewer r = reviewer \<and> rr_verdict r = ''approve'' \<and> rr_source r = Some ''structured''
             \<and> committed_beside ae fs f artifact \<and> artifact \<noteq> ledger))"

lemma provenance_record:
  assumes "approvalMatchesProvenanceBackedRecord ae fs f ledger e r"
  shows "rr_reviewer r = ap_reviewer e \<and> rr_verdict r = ''approve'' \<and> rr_source r = Some ''structured''
    \<and> (\<exists>artifact. committed_beside ae fs f artifact \<and> artifact \<noteq> ledger)"
proof -
  obtain artifact where "resolveReviewArtifactPath ae fs f ledger (rr_artifact r) = Some artifact"
    using assms by (auto simp: approvalMatchesProvenanceBackedRecord_def)
  then obtain a where "resolveApprovalEvidencePath ae fs f (Some a) = Some artifact" "artifact \<noteq> ledger"
    by (auto simp: resolveReviewArtifactPath_def split: option.splits if_splits)
  then have "committed_beside ae fs f artifact \<and> artifact \<noteq> ledger" using evidence_committed by blast
  moreover have "rr_reviewer r = ap_reviewer e \<and> rr_verdict r = ''approve'' \<and> rr_source r = Some ''structured''"
    using assms by (simp add: approvalMatchesProvenanceBackedRecord_def approvalMatchesRecord_def)
  ultimately show ?thesis by blast
qed

lemma backed_approved:
  assumes "backed_reviewers ae fs f (approvalMatchesProvenanceBackedRecord ae fs f) es = Inr rs"
    and "set es \<subseteq> set (normalizeApprovalEntries approvals)" "reviewer \<in> set rs"
  shows "approved_by ae fs f approvals reviewer"
  using assms
proof (induction es arbitrary: rs)
  case (Cons e es)
  consider "backed_reviewers ae fs f (approvalMatchesProvenanceBackedRecord ae fs f) es = Inr rs"
    | ledger body later where "ap_verdict e = ''approve''" "resolveApprovalEvidencePath ae fs f (ap_evidence e) = Some ledger"
        "readFile fs ledger = Inr body" "backed_reviewers ae fs f (approvalMatchesProvenanceBackedRecord ae fs f) es = Inr later"
        "rs = (if list_ex (approvalMatchesProvenanceBackedRecord ae fs f ledger e) (parseApprovalReviewRecordsFromLedger body)
               then ap_reviewer e # later else later)"
    using Cons.prems(1) by (auto simp: and_then_Inr_iff split: if_splits option.splits)
  then show ?case
  proof cases
    case 1
    then show ?thesis using Cons by simp
  next
    case 2
    show ?thesis
    proof (cases "reviewer \<in> set later")
      case True
      then show ?thesis using Cons 2 by simp
    next
      case False
      with 2 Cons.prems(3) have rev: "reviewer = ap_reviewer e"
        and ex: "list_ex (approvalMatchesProvenanceBackedRecord ae fs f ledger e) (parseApprovalReviewRecordsFromLedger body)"
        by (auto split: if_splits)
      then obtain r where r: "r \<in> set (parseApprovalReviewRecordsFromLedger body)"
          "approvalMatchesProvenanceBackedRecord ae fs f ledger e r" by (auto simp: list_ex_iff)
      from provenance_record [OF r(2)] r(1) 2(1,3) evidence_committed [OF 2(2)] Cons.prems(2) rev show ?thesis
        unfolding approved_by_def by (intro bexI [of _ e]) auto
    qed
  qed
qed simp

section \<open>A clean audit\<close>

definition no_errors :: "audit_issue list \<Rightarrow> bool" where
  "no_errors issues \<longleftrightarrow> (\<forall>i\<in>set issues. ai_level i \<noteq> Audit_error)"

lemma no_errors_simps [simp]:
  "no_errors []" "no_errors (i # is') \<longleftrightarrow> ai_level i \<noteq> Audit_error \<and> no_errors is'"
  "no_errors (is1 @ is2) \<longleftrightarrow> no_errors is1 \<and> no_errors is2"
  "no_errors (map (\<lambda>i. i\<lparr>ai_file := f\<rparr>) is1) \<longleftrightarrow> no_errors is1"
  "no_errors (concat iss) \<longleftrightarrow> (\<forall>is1\<in>set iss. no_errors is1)"
  "ai_level (issue_error g msg) = Audit_error"
  by (auto simp: no_errors_def issue_error_def)

lemma audit_files_clean:
  assumes "audit_files ae fs strict ss = Inr issues" "no_errors issues" "s \<in> set ss"
  obtains found where "auditBlueprintFile ae fs (sc_path s) (sc_slug s) strict = Inr found" "no_errors found"
  using assms by (induction ss arbitrary: issues) (auto simp: and_then_Inr_iff)

lemma clean_run:
  assumes "runBlueprintAudit ae fs ao = Some (Inr res)" "ar_ok res"
    and "scanBlueprintDirectory fs (ae_cwd ae) (resolveBlueprintRoot fs (ae_cwd ae) (Some (ao_projectRoot ao))) True = Some (Inr scans)"
  obtains document_issues where "audit_files ae fs (ao_strict ao) (audited_files ae ao scans) = Inr document_issues"
    "no_errors document_issues"
    "no_errors (validateBlueprintSlugUniqueness (map (\<lambda>s. (sc_path s, sc_slug s)) (audited_files ae ao scans)))"
proof -
  obtain document_issues stage where r: "audit_files ae fs (ao_strict ao) (audited_files ae ao scans) = Inr document_issues"
    "res = \<lparr>ar_issues = (validateBlueprintSlugUniqueness (map (\<lambda>s. (sc_path s, sc_slug s)) (audited_files ae ao scans))
                 @ document_issues @ validatePllDocs (pll_docs fs (ao_projectRoot ao))) @ stage,
         ar_ok = list_all (\<lambda>i. ai_level i \<noteq> Audit_error) ((validateBlueprintSlugUniqueness (map (\<lambda>s. (sc_path s, sc_slug s)) (audited_files ae ao scans))
                 @ document_issues @ validatePllDocs (pll_docs fs (ao_projectRoot ao))) @ stage)\<rparr>"
    using assms(1,3) by (auto simp: runBlueprintAudit_def and_then_Inr_iff split: sum.splits option.splits)
  then show ?thesis using assms(2) by (intro that) (auto simp: no_errors_def list_all_iff)
qed

lemma clean_document:
  assumes "auditBlueprintFile ae fs f sl strict = Inr found" "no_errors found"
  obtains md bp d c where "readFile fs f = Inr md" "parseBlueprint (ae_docs ae) md sl = Inr bp"
    "matter (ae_docs ae) md = Inr (d, c)" "no_errors (validateBlueprintPlacement f bp sl)" "no_errors (validateTaskState bp)"
    "no_errors (validateBlueprintEngineSemantics f bp)" "no_errors (validateOwnerBindingTruth ae fs f d)"
    "\<exists>a. validateApprovalGate ae fs f d = Inr a \<and> no_errors a"
    "\<exists>x. validateExecutionMetadataTruth (ae_docs ae) f bp = Inr x \<and> no_errors x"
  using assms by (auto simp: auditBlueprintFile_def and_then_Inr_iff)

text \<open>The documents of one relative slug.\<close>

lemma slug_groups_get:
  assumes "filter (\<lambda>(p, sl). relativeBlueprintSlug sl = k) bs \<noteq> []"
  shows "map_get (slug_groups bs) k = Some (filter (\<lambda>(p, sl). relativeBlueprintSlug sl = k) bs)"
proof -
  let ?list = "\<lambda>m. case map_get m k of None \<Rightarrow> [] | Some es \<Rightarrow> es"
  have "?list (foldl (\<lambda>m (p, sl). map_set (relativeBlueprintSlug sl)
            ((case map_get m (relativeBlueprintSlug sl) of None \<Rightarrow> [] | Some es \<Rightarrow> es) @ [(p, sl)]) m) acc bs)
      = ?list acc @ filter (\<lambda>(p, sl). relativeBlueprintSlug sl = k) bs" for acc
  proof (induction bs arbitrary: acc)
    case (Cons b bs)
    obtain p sl where b: "b = (p, sl)" by force
    show ?case using Cons.IH by (simp add: b)
  qed simp
  from this [of "[]"] assms show ?thesis by (auto simp: slug_groups_def split: option.splits)
qed

lemma unique_slugs:
  assumes "no_errors (validateBlueprintSlugUniqueness bs)" "(p, sl) \<in> set bs" "(p', sl') \<in> set bs"
    and "relativeBlueprintSlug sl = relativeBlueprintSlug sl'"
  shows "sl = sl'"
proof -
  let ?k = "relativeBlueprintSlug sl" let ?es = "filter (\<lambda>(p, s). relativeBlueprintSlug s = ?k) bs"
  have "map_get (slug_groups bs) ?k = Some ?es"
    using assms(2) by (intro slug_groups_get) (auto simp: filter_empty_conv)
  then have k: "(?k, ?es) \<in> set (slug_groups bs)" by (simp add: map_get_def map_of_SomeD)
  have "length (set_of_list (map snd ?es)) \<le> 1"
  proof (rule ccontr)
    let ?f = "\<lambda>(normalizedSlug, entries). let uniqueLifecycleSlugs = set_of_list (map snd entries)
         in if length uniqueLifecycleSlugs \<le> 1 then None
            else Some (issue_error (case entries of [] \<Rightarrow> None | e # _ \<Rightarrow> Some (fst e))
              (''Blueprint slug '' @ quoted normalizedSlug @ '' appears in multiple lifecycle locations: ''
               @ join_with '', '' (js_sort code_unit_cmp uniqueLifecycleSlugs) @ ''.''))"
    assume "\<not> length (set_of_list (map snd ?es)) \<le> 1"
    then obtain g msg where "?f (?k, ?es) = Some (issue_error g msg)" by (simp add: Let_def)
    then have "issue_error g msg \<in> set (validateBlueprintSlugUniqueness bs)"
      using k unfolding validateBlueprintSlugUniqueness_def map_filter_def by force
    with assms(1) show False by (auto simp: no_errors_def issue_error_def)
  qed
  then obtain x where "set (set_of_list (map snd ?es)) \<subseteq> {x}"
    by (cases "set_of_list (map snd ?es)") (auto simp del: set_set_of_list)
  moreover have "(p, sl) \<in> set ?es" "(p', sl') \<in> set ?es" using assms(2,3,4) by auto
  then have "sl \<in> snd ` set ?es" "sl' \<in> snd ` set ?es" by force+
  ultimately show ?thesis by auto
qed

lemma clean_task:
  assumes "no_errors (validateTaskState bp)" "t \<in> set (b_tasks bp)"
  shows "\<exists>st. map_get (readTaskStatusLines (raw bp)) (t_id t) = Some (Some st) \<and> st \<in> set lifecycleTaskStatuses"
    and "t_status t = Done \<Longrightarrow> 0 < total (acceptanceCriteria t) \<Longrightarrow> checked (acceptanceCriteria t) = total (acceptanceCriteria t)"
    and "t_status t = Blocked \<longleftrightarrow> (\<exists>r. blockedReason t = Some r \<and> js_trim r \<noteq> [])"
proof -
  have c: "no_errors (task_state_issues (readTaskStatusLines (raw bp)) t)"
    using assms by (auto simp: validateTaskState_def)
  then show "\<exists>st. map_get (readTaskStatusLines (raw bp)) (t_id t) = Some (Some st) \<and> st \<in> set lifecycleTaskStatuses"
    by (auto simp: task_state_issues_def Let_def truthy_def text_of_def split: option.splits if_splits)
  show "t_status t = Done \<Longrightarrow> 0 < total (acceptanceCriteria t) \<Longrightarrow> checked (acceptanceCriteria t) = total (acceptanceCriteria t)"
    using c by (auto simp: task_state_issues_def Let_def split: if_splits)
  show "t_status t = Blocked \<longleftrightarrow> (\<exists>r. blockedReason t = Some r \<and> js_trim r \<noteq> [])"
    using c by (auto simp: task_state_issues_def Let_def split: if_splits option.splits)
qed


text \<open>C10. A clean audit covers every planned blueprint with at least two reviewers, each with an approving
  entry in the front matter, a structured approving record of its own in a committed ledger beside
  the blueprint, and a committed review artifact other than that ledger.\<close>
theorem clean_audit_approvals:
  assumes "runBlueprintAudit ae fs ao = Some (Inr res)" "ar_ok res"
    and "scanBlueprintDirectory fs (ae_cwd ae) (resolveBlueprintRoot fs (ae_cwd ae) (Some (ao_projectRoot ao))) True = Some (Inr scans)"
    and "s \<in> set (audited_files ae ao scans)"
    and "readFile fs (sc_path s) = Inr md" "matter (ae_docs ae) md = Inr (d, c)"
    and "fm_str d ''type'' = Some ''blueprint''" "fm_str d ''status'' = Some ''planned''"
  shows "\<exists>reviewers. finite reviewers \<and> 2 \<le> card reviewers
    \<and> (\<forall>r\<in>reviewers. approved_by ae fs (sc_path s) (fm_json d ''approvals'') r)"
proof -
  obtain document_issues where run: "audit_files ae fs (ao_strict ao) (audited_files ae ao scans) = Inr document_issues"
    "no_errors document_issues" by (rule clean_run [OF assms(1-3)])
  obtain found where "auditBlueprintFile ae fs (sc_path s) (sc_slug s) (ao_strict ao) = Inr found" "no_errors found"
    by (rule audit_files_clean [OF run assms(4)])
  then obtain a where "validateApprovalGate ae fs (sc_path s) d = Inr a" "no_errors a"
    using assms(5,6) by (auto elim!: clean_document)
  then obtain rs where rs: "backed_reviewers ae fs (sc_path s) (approvalMatchesProvenanceBackedRecord ae fs (sc_path s))
      (normalizeApprovalEntries (fm_json d ''approvals'')) = Inr rs" "\<not> card (set rs) < 2"
    using assms(7,8)
    by (auto simp: validateApprovalGate_def countDistinctProvenanceBackedApprovals_def and_then_Inr_iff split: if_splits)
  then show ?thesis
    using backed_approved [OF rs(1) order_refl] by (intro exI [of _ "set rs"]) auto
qed

section \<open>Starting a blueprint\<close>

text \<open>C12. A blueprint started the way \<open>wp blueprint start\<close> does it passes the owner check of the audit:
  once its owner worktree is ensured and the start intent has written the binding it returned,
  the audit finds nothing to report on the owner of the new text.\<close>
theorem started_owner_passes:
  assumes "ensureBlueprintOwnerWorktree (ae_worktrees ae) fs repoRoot sl default_options = (Inr b, fs')"
    and "registry_ok (ae_worktrees ae) None fs" "git_adds_worktrees (ae_worktrees ae)"
    and "wt_test_root (ae_worktrees ae) = None" "path_is_absolute (wt_home (ae_worktrees ae))"
    and "front_matter_laws (docs_of en)" "matter (docs_of en) md = Inr (d, c)" "fm_plain d" "\<not> starts_with c ''---''"
    and "applyBlueprintLifecycle en md name (Start (Some (ob_id b)) (Some (ob_branch b))) = Inr r"
    and "js_trim (ob_id b) = ob_id b" "js_trim (ob_branch b) = ob_branch b"
    and "matter (docs_of en) (r_markdown r) = Inr (d', c')"
  shows "validateOwnerBindingTruth ae fs' f d' = []"
proof -
  let ?we = "ae_worktrees ae" let ?i = "Start (Some (ob_id b)) (Some (ob_branch b))"
  have bind: "b = resolveOwnerBinding ?we repoRoot sl"
    using assms(1) by (auto simp: ensureBlueprintOwnerWorktree_def registered_def Let_def split: sum.splits prod.splits if_splits)
  then have shape: "starts_with (ob_id b) ''owner-''" "ob_branch b = ''bp/'' @ sl"
    by (simp_all add: resolveOwnerBinding_def ownerWorktreeId_def starts_with_def Let_def)
  obtain e where e: "findResolvableOwnerBinding ?we fs' (ob_id b) = Some e" "entry_text e ''branch'' = Some (ob_branch b)"
    using ensured_owner [OF assms(1-5)] shape(2) by metis
  then have branch: "map_get e ''branch'' = Some (JStr (ob_branch b))"
    by (auto simp: entry_text_def split: option.splits json.splits)
  have "d' = written_fields en ?i r d"
    using written_document [OF assms(6-9) _ assms(10)] assms(13) by auto
  then have "map_get d' ''worktree_owner_id'' = Some (FVal (JStr (ob_id b)))"
    "map_get d' ''worktree_owner_branch'' = Some (FVal (JStr (ob_branch b)))"
    using shape by (auto simp: written_fields_def status_fields_def progress_fields_def completed_field_def owner_fields_def starts_with_def)
  then have "owner_field d' ''worktree_owner_id'' = ob_id b" "owner_field d' ''worktree_owner_branch'' = ob_branch b"
    using assms(11,12) by (simp_all add: owner_field_def fm_json_def)
  then show ?thesis using e(1) branch shape by (auto simp: validateOwnerBindingTruth_def starts_with_def Let_def)
qed

section \<open>On a sample project\<close>

definition sample_review :: "string \<Rightarrow> string" where
  "sample_review reviewer =
     REVIEW_ENTRY_MARKER
     @ json_str (JObj (map (\<lambda>(k, v). (k, JStr v))
         [(''id'', []), (''blueprintSlug'', []), (''blueprintPath'', []), (''timestamp'', []), (''reviewer'', reviewer),
          (''verdict'', ''approve''), (''targetKind'', []), (''targetId'', []), (''artifact'', ''x''), (''source'', ''structured'')]))
     @ ''-->''"

definition sample_planned :: string where
  "sample_planned =
     sample_stringify (sample_section ''todo'' [])
       [(''type'', FVal (JStr ''blueprint'')), (''status'', FVal (JStr ''planned'')),
        (''approvals'', FVal (JArr (map (\<lambda>r. JObj [(''reviewer'', JStr r), (''verdict'', JStr ''approve''), (''evidence'', JStr r)])
           [''a'', ''b''])))]"

definition reviewed_project :: fstore where
  "reviewed_project =
     \<lparr>files = [([''p'', ''blueprints'', ''planned'', ''a'', ''_overview.md''], sample_planned),
               ([''p'', ''blueprints'', ''planned'', ''a'', ''a''], sample_review ''a''),
               ([''p'', ''blueprints'', ''planned'', ''a'', ''b''], sample_review ''b''),
               ([''p'', ''blueprints'', ''planned'', ''a'', ''x''], [])],
      dirs = [[''p''], [''p'', ''.git''], [''p'', ''blueprints''], [''p'', ''blueprints'', ''planned''], [''p'', ''blueprints'', ''planned'', ''a'']]\<rparr>"

definition sample_audit_env :: audit_env where
  "sample_audit_env =
     \<lparr>ae_service = \<lparr>se_docs = sample_docs,
        se_clock = \<lparr>parse_date = (\<lambda>_. None), now_ms = 0, local_day = (\<lambda>t. t div DAY_MS)\<rparr>,
        se_compare = (\<lambda>a b. 0), se_cwd = ''/p'', se_project = Some ''/p''\<rparr>,
      ae_worktrees = sample_wt, ae_tracked = (\<lambda>_ _. True)\<rparr>"

definition audit_all :: audit_options where
  "audit_all = \<lparr>ao_all = True, ao_projectRoot = ''/p'', ao_stagedFiles = None, ao_strict = False\<rparr>"

definition sample_scan :: scanned where
  "sample_scan = \<lparr>sc_path = ''/p/blueprints/planned/a/_overview.md'', sc_slug = ''planned/a'', sc_group = None,
     sc_special = False, sc_specialType = None\<rparr>"

lemma sample_scans:
  "case scanBlueprintDirectory reviewed_project ''/p'' (resolveBlueprintRoot reviewed_project ''/p'' (Some ''/p'')) True of
     Some (Inr [s]) \<Rightarrow> sc_path s = ''/p/blueprints/planned/a/_overview.md'' \<and> sc_slug s = ''planned/a'' | _ \<Rightarrow> False"
  by code_simp

lemma sample_document:
  "auditBlueprintFile sample_audit_env reviewed_project ''/p/blueprints/planned/a/_overview.md'' ''planned/a'' False = Inr []"
  by code_simp

lemma sample_rest:
  "validateBlueprintSlugUniqueness [(''/p/blueprints/planned/a/_overview.md'', ''planned/a'')] = []"
  "validatePllDocs (pll_docs reviewed_project ''/p'') = []"
  by code_simp+

lemma sample_env_fields: "ae_cwd sample_audit_env = ''/p''" "ae_docs sample_audit_env = sample_docs"
  by (simp_all add: sample_audit_env_def)

lemma audit_all_fields: "ao_all audit_all = True" "ao_projectRoot audit_all = ''/p''" "ao_stagedFiles audit_all = None"
  "ao_strict audit_all = False"
  by (simp_all add: audit_all_def)

lemma sample_run:
  obtains s where
    "scanBlueprintDirectory reviewed_project ''/p'' (resolveBlueprintRoot reviewed_project ''/p'' (Some ''/p'')) True = Some (Inr [s])"
    "sc_path s = ''/p/blueprints/planned/a/_overview.md''" "sc_slug s = ''planned/a''"
    "runBlueprintAudit sample_audit_env reviewed_project audit_all = Some (Inr \<lparr>ar_issues = [], ar_ok = True\<rparr>)"
    "audited_files sample_audit_env audit_all [s] = [s]"
proof -
  obtain s where s: "scanBlueprintDirectory reviewed_project ''/p'' (resolveBlueprintRoot reviewed_project ''/p'' (Some ''/p'')) True = Some (Inr [s])"
    "sc_path s = ''/p/blueprints/planned/a/_overview.md''" "sc_slug s = ''planned/a''"
    using sample_scans by (auto split: option.splits sum.splits list.splits)
  have files: "audited_files sample_audit_env audit_all [s] = [s]" by (simp add: audited_files_def audit_all_fields)
  have "runBlueprintAudit sample_audit_env reviewed_project audit_all = Some (Inr \<lparr>ar_issues = [], ar_ok = True\<rparr>)"
    using s sample_document sample_rest
    by (simp add: runBlueprintAudit_def sample_env_fields audit_all_fields files)
  with s files show ?thesis by (intro that)
qed


theorem clean_audit_approvals_witness:
  "\<exists>d reviewers. matter sample_docs sample_planned = Inr (d, sample_section ''todo'' [])
     \<and> 2 \<le> card reviewers \<and> reviewers \<subseteq> {r. approved_by sample_audit_env reviewed_project
          ''/p/blueprints/planned/a/_overview.md'' (fm_json d ''approvals'') r}"
proof (rule sample_run)
  fix s
  assume scan: "scanBlueprintDirectory reviewed_project ''/p'' (resolveBlueprintRoot reviewed_project ''/p'' (Some ''/p'')) True = Some (Inr [s])"
    and s: "sc_path s = ''/p/blueprints/planned/a/_overview.md''" "sc_slug s = ''planned/a''"
    and run: "runBlueprintAudit sample_audit_env reviewed_project audit_all = Some (Inr \<lparr>ar_issues = [], ar_ok = True\<rparr>)"
    and files: "audited_files sample_audit_env audit_all [s] = [s]"
  have "ao_projectRoot audit_all = ''/p''" by (simp add: audit_all_def)
  then have scan': "scanBlueprintDirectory reviewed_project (ae_cwd sample_audit_env)
      (resolveBlueprintRoot reviewed_project (ae_cwd sample_audit_env) (Some (ao_projectRoot audit_all))) True = Some (Inr [s])"
    using scan by (simp add: sample_env_fields)
  have md: "readFile reviewed_project (sc_path s) = Inr sample_planned" unfolding s by code_simp
  have "case matter sample_docs sample_planned of
      Inr (d, c) \<Rightarrow> fm_str d ''type'' = Some ''blueprint'' \<and> fm_str d ''status'' = Some ''planned'' \<and> c = sample_section ''todo'' []
    | _ \<Rightarrow> False" by code_simp
  then obtain d where d: "matter sample_docs sample_planned = Inr (d, sample_section ''todo'' [])"
    "fm_str d ''type'' = Some ''blueprint''" "fm_str d ''status'' = Some ''planned''"
    by (auto split: sum.splits prod.splits)
  have "matter (ae_docs sample_audit_env) sample_planned = Inr (d, sample_section ''todo'' [])"
    using d(1) by (simp add: sample_env_fields)
  from clean_audit_approvals [OF run _ scan' _ md this d(2,3)] files d(1) show ?thesis
    unfolding s(1) by auto
qed

definition sample_binding :: owner_binding where
  "sample_binding = resolveOwnerBinding sample_wt ''/r'' ''x''"

definition idle_doc :: string where
  "idle_doc = sample_doc ''draft'' []"

lemma sample_owner_start:
  "case applyBlueprintLifecycle sample_env idle_doc ''x'' (Start (Some (ob_id sample_binding)) (Some (ob_branch sample_binding))) of
     Inr _ \<Rightarrow> True | _ \<Rightarrow> False"
  by code_simp

lemma sample_ensure:
  "case ensureBlueprintOwnerWorktree sample_wt no_files ''/r'' ''x'' default_options of
     (Inr b, _) \<Rightarrow> b = sample_binding \<and> js_trim (ob_id b) = ob_id b \<and> js_trim (ob_branch b) = ob_branch b | _ \<Rightarrow> False"
  by code_simp

theorem started_owner_passes_witness:
  "\<exists>b fs' r d' c'. ensureBlueprintOwnerWorktree sample_wt no_files ''/r'' ''x'' default_options = (Inr b, fs')
     \<and> applyBlueprintLifecycle sample_env idle_doc ''x'' (Start (Some (ob_id b)) (Some (ob_branch b))) = Inr r
     \<and> matter sample_docs (r_markdown r) = Inr (d', c')
     \<and> validateOwnerBindingTruth sample_audit_env fs' ''/x'' d' = []"
proof -
  obtain b fs' where e: "ensureBlueprintOwnerWorktree sample_wt no_files ''/r'' ''x'' default_options = (Inr b, fs')"
      "js_trim (ob_id b) = ob_id b" "js_trim (ob_branch b) = ob_branch b" "b = sample_binding"
    using sample_ensure by (auto split: prod.splits sum.splits)
  obtain r where run: "applyBlueprintLifecycle sample_env idle_doc ''x'' (Start (Some (ob_id b)) (Some (ob_branch b))) = Inr r"
    using sample_owner_start e(4) by (auto split: sum.splits)
  have env: "ae_worktrees sample_audit_env = sample_wt" "docs_of sample_env = sample_docs"
    by (simp_all add: sample_audit_env_def sample_env_def)
  have body: "\<not> starts_with [] ''---''" by (simp add: starts_with_def)
  note doc = sample_doc_read [OF body, of "''draft''", folded idle_doc_def]
  obtain d' c' where r: "matter sample_docs (r_markdown r) = Inr (d', c')"
    using written_document [of sample_env idle_doc, unfolded env, OF sample_laws doc final_newline_dashes [OF body] _ run] by blast
  note passes = started_owner_passes [of sample_audit_env no_files "''/r''" "''x''" b fs' sample_env idle_doc, unfolded env]
  have "validateOwnerBindingTruth sample_audit_env fs' ''/x'' d' = []"
    by (rule passes [OF e(1) sample_registry sample_git_adds sample_home(3,2) sample_laws doc final_newline_dashes [OF body] run e(2,3) r])
  then show ?thesis using e(1) run r by blast
qed

end
