(* ===== verification/Mutations.thy ===== *)
theory Mutations
  imports LifecycleAudit TrustGate
begin

text \<open>
  The blueprint verbs that edit a document in place and move it
  (\<open>cli/commands/blueprint/mutations.ts\<close>): \<open>advanceTask\<close>, \<open>promoteBlueprint\<close> and
  \<open>finalizeBlueprint\<close>, over a store of files.  The lock of the repository, the platform (whose
  calls may let other processes change the store), the projection database, git, the gates of
  the trust check and the clock are fields of \<open>mutation_env\<close>.
\<close>

section \<open>Steps over the store\<close>

text \<open>A call that may throw, with the store it leaves; the next call runs unless it threw.\<close>

fun and_do :: "'a throws \<times> fstore \<Rightarrow> ('a \<Rightarrow> fstore \<Rightarrow> 'b throws \<times> fstore) \<Rightarrow> 'b throws \<times> fstore" where
  "and_do (Inl e, fs) k = (Inl e, fs)"
| "and_do (Inr x, fs) k = k x fs"

definition on_store :: "'a throws \<Rightarrow> fstore \<Rightarrow> 'a throws \<times> fstore" where \<comment> \<open>a call that only reads\<close>
  "on_store r fs = (r, fs)"

definition to_store :: "fstore throws \<Rightarrow> fstore \<Rightarrow> unit throws \<times> fstore" where
  "to_store r fs = (case r of Inl e \<Rightarrow> (Inl e, fs) | Inr fs' \<Rightarrow> (Inr (), fs'))"

lemma and_do_Inr_iff:
  "and_do r k = (Inr y, fs') \<longleftrightarrow> (\<exists>x fs1. r = (Inr x, fs1) \<and> k x fs1 = (Inr y, fs'))"
  by (cases r; cases "fst r") auto

lemma on_store_Inr_iff [simp]: "on_store r fs = (Inr x, fs') \<longleftrightarrow> r = Inr x \<and> fs' = fs"
  by (auto simp: on_store_def)

lemma to_store_Inr_iff [simp]: "to_store r fs = (Inr u, fs') \<longleftrightarrow> r = Inr fs'"
  by (auto simp: to_store_def split: sum.splits)

section \<open>The platform\<close>

datatype sync_event =
    Task_status_changed string string string string   \<comment> \<open>blueprint, task, from, to\<close>
  | Blueprint_status_changed string string string     \<comment> \<open>slug, from, to\<close>

text \<open>
  A call of the adapter: how its promise settles (\<open>None\<close>: not before the timer) and the store
  at that moment.
\<close>

record sync_adapter =
  pushEvent :: "sync_event \<Rightarrow> fstore \<Rightarrow> unit throws option \<times> fstore"
  ensureFresh :: "string \<Rightarrow> fstore \<Rightarrow> unit throws option \<times> fstore"

record mutation_env =
  mu_env :: env
  mu_audit :: audit_env
  mu_trust :: "fstore \<Rightarrow> trust_env"
  mu_getenv :: "string \<Rightarrow> string option"
  mu_adapter :: "sync_adapter option"                 \<comment> \<open>what the factory yields\<close>
  mu_lock :: "unit throws"                            \<comment> \<open>\<open>Inl\<close>: the lock was not acquired\<close>
  mu_tmp :: string                                    \<comment> \<open>the temporary file of the call\<close>
  mu_open_tasks :: "string \<Rightarrow> (string \<times> string) list" \<comment> \<open>rows neither done nor dropped, none without a database\<close>
  mu_reingest :: "fstore \<Rightarrow> unit throws"              \<comment> \<open>does nothing without a database\<close>

definition resolveSyncAdapterForCli :: "mutation_env \<Rightarrow> sync_adapter option" where
  "resolveSyncAdapterForCli me =
     (if mu_getenv me ''WP_BLUEPRINT_PLATFORM_DISABLED'' = Some ''1'' then None else mu_adapter me)"

definition DEFAULT_PLATFORM_MUTATION_TIMEOUT_MS :: int where
  "DEFAULT_PLATFORM_MUTATION_TIMEOUT_MS = 5000"

definition readPlatformMutationTimeoutMs :: "mutation_env \<Rightarrow> int" where
  "readPlatformMutationTimeoutMs me =
     (case mu_getenv me ''WP_BLUEPRINT_PLATFORM_MUTATION_TIMEOUT_MS'' of
        None \<Rightarrow> DEFAULT_PLATFORM_MUTATION_TIMEOUT_MS
      | Some raw_ms \<Rightarrow>
          (case parse_int raw_ms of
             None \<Rightarrow> DEFAULT_PLATFORM_MUTATION_TIMEOUT_MS
           | Some n \<Rightarrow> if n > 0 then n else DEFAULT_PLATFORM_MUTATION_TIMEOUT_MS))"

definition awaitPlatformMutationStep ::
    "unit throws option \<times> fstore \<Rightarrow> string \<Rightarrow> string \<Rightarrow> int \<Rightarrow> unit throws \<times> fstore" where
  "awaitPlatformMutationStep r lab step timeoutMs =
     (case r of
        (Some (Inr _), fs) \<Rightarrow> (Inr (), fs)
      | (Some (Inl e), fs) \<Rightarrow> (Inl (lab @ '' platform sync failed: '' @ e), fs)
      | (None, fs) \<Rightarrow>
          (Inl (lab @ '' platform sync failed: '' @ step @ '' timed out after '' @ int_str timeoutMs @ ''ms''), fs))"

definition runCliPlatformMutationSync ::
    "mutation_env \<Rightarrow> fstore \<Rightarrow> sync_adapter option \<Rightarrow> string \<Rightarrow> sync_event option \<Rightarrow> string option
      \<Rightarrow> unit throws \<times> fstore" where
  "runCliPlatformMutationSync me fs adapter lab event ensureFreshSlug =
     (case adapter of
        None \<Rightarrow> (Inr (), fs)
      | Some a \<Rightarrow>
          (let timeoutMs = readPlatformMutationTimeoutMs me
           in and_do
                (case event of
                   None \<Rightarrow> (Inr (), fs)
                 | Some e \<Rightarrow> awaitPlatformMutationStep (pushEvent a e fs) lab ''pushEvent'' timeoutMs)
                (\<lambda>_ fs1. case ensureFreshSlug of
                   None \<Rightarrow> (Inr (), fs1)
                 | Some sl \<Rightarrow> awaitPlatformMutationStep (ensureFresh a sl fs1) lab ''ensureFresh'' timeoutMs)))"

section \<open>Documents\<close>

definition ALL_STATES :: "string list" where
  "ALL_STATES = [''draft'', ''planned'', ''in-progress'', ''parked'', ''archived'', ''completed'']"

record document_paths =
  dp_directory :: string
  dp_flat :: string
  dp_folder :: string

definition getBlueprintDocumentPaths :: "string \<Rightarrow> string \<Rightarrow> string \<Rightarrow> document_paths" where
  "getBlueprintDocumentPaths root_dir st sl =
     (let directory = path_join [root_dir, st, sl]
      in \<lparr>dp_directory = directory, dp_flat = path_join [root_dir, st, sl @ ''.md''],
          dp_folder = path_join [directory, ''_overview.md'']\<rparr>)"

record found_document =
  fd_dir :: string
  fd_path :: string
  fd_shape :: blueprint_shape
  fd_state :: string

fun find_in_states :: "fstore \<Rightarrow> string \<Rightarrow> string \<Rightarrow> string list \<Rightarrow> found_document option" where
  "find_in_states fs blueprintRoot sl [] = None"
| "find_in_states fs blueprintRoot sl (st # sts) =
     (let paths = getBlueprintDocumentPaths blueprintRoot st sl
      in if existsSync fs (dp_flat paths) then
           Some \<lparr>fd_dir = key_dirname (dp_flat paths), fd_path = dp_flat paths, fd_shape = Flat, fd_state = st\<rparr>
         else if existsSync fs (dp_folder paths) then
           Some \<lparr>fd_dir = dp_directory paths, fd_path = dp_folder paths, fd_shape = Folder, fd_state = st\<rparr>
         else find_in_states fs blueprintRoot sl sts)"

definition findBlueprintDocument :: "fstore \<Rightarrow> string \<Rightarrow> string \<Rightarrow> found_document option" where
  "findBlueprintDocument fs blueprintRoot sl = find_in_states fs blueprintRoot sl ALL_STATES"

definition atomicWriteFile :: "mutation_env \<Rightarrow> fstore \<Rightarrow> string \<Rightarrow> string \<Rightarrow> unit throws \<times> fstore" where
  "atomicWriteFile me fs targetPath content =
     and_do (to_store (writeFile fs (mu_tmp me) content) fs)
       (\<lambda>_ fs1. to_store (rename fs1 (mu_tmp me) targetPath) fs1)"

definition reIngestDb :: "mutation_env \<Rightarrow> fstore \<Rightarrow> unit throws \<times> fstore" where
  "reIngestDb me fs = on_store (mu_reingest me fs) fs"

definition quote_mark :: regex where \<comment> \<open>\<open>['"]\<close>\<close>
  "quote_mark = one_of [squote, dquote]"

definition status_field :: regex where \<comment> \<open>\<open>/^(status:\\s*)(['"]?)[^'"\\r\\n]+?(['"]?)(\\s*)$/m\<close>\<close>
  "status_field =
     sq [StartLine, Grp 1 (sq [lit ''status:'', star ws]), Grp 2 (opt quote_mark),
         Seq (none_of [squote, dquote, CHR 0x0D, nl]) (lazy (none_of [squote, dquote, CHR 0x0D, nl])),
         Grp 3 (opt quote_mark), Grp 4 (star ws), EndLine]"

definition updateFrontmatterStatus :: "string \<Rightarrow> string \<Rightarrow> string" where
  "updateFrontmatterStatus content newStatus =
     replace_first status_field (\<lambda>m. group_or_empty m 1 @ newStatus @ group_or_empty m 4) content"

definition completed_line :: regex where \<comment> \<open>\<open>/^(completed_at:\\s*).*$/m\<close>\<close>
  "completed_line = sq [StartLine, Grp 1 (sq [lit ''completed_at:'', star ws]), star dot, EndLine]"

definition status_line_end :: regex where \<comment> \<open>\<open>/^(status:[^\\r\\n]*)(\\r?\\n)/m\<close>\<close>
  "status_line_end =
     sq [StartLine, Grp 1 (sq [lit ''status:'', star (none_of [CHR 0x0D, nl])]),
         Grp 2 (sq [opt (chr (CHR 0x0D)), chr nl])]"

definition upsertCompletedAt :: "string \<Rightarrow> string \<Rightarrow> string" where
  "upsertCompletedAt content isoDate =
     (if re_test (sq [StartLine, lit ''completed_at:'']) content then
        replace_first completed_line (\<lambda>m. group_or_empty m 1 @ [squote] @ isoDate @ [squote]) content
      else
        replace_first status_line_end
          (\<lambda>m. group_or_empty m 1 @ group_or_empty m 2 @ ''completed_at: '' @ [squote] @ isoDate @ [squote]
               @ group_or_empty m 2) content)"

section \<open>advanceTask\<close>

record task_status_line =
  ts_index :: nat
  ts_current :: string
  ts_prefix :: string
  ts_suffix :: string

definition task_line :: "string \<Rightarrow> regex" where
  \<comment> \<open>\<open>^####\\s+(?:\\[[^\\]]+\\]\\s+)?Task\\s+<id>[:\\s]\<close>, the id escaped\<close>
  "task_line taskId =
     sq [StartText, lit ''####'', plus ws, opt (sq [lit ''['', plus (none_of '']''), lit '']'', plus ws]),
         lit ''Task'', plus ws, lit taskId, Cls (\<lambda>c. c = CHR '':'' \<or> js_ws c)]"

definition status_line_parts :: regex where \<comment> \<open>\<open>/^(\\*\\*Status:\\*\\*\\s+)([^|\\s]+)(.*)$/\<close>\<close>
  "status_line_parts =
     sq [StartText, Grp 1 (sq [lit ''**Status:**'', plus ws]), Grp 2 (plus (Cls (\<lambda>c. c \<noteq> CHR ''|'' \<and> \<not> js_ws c))),
         Grp 3 (star dot), EndText]"

definition in_progress_word :: regex where \<comment> \<open>\<open>/\\bin_progress\\b/gi\<close>\<close>
  "in_progress_word = sq [WordBd, lit_i ''in_progress'', WordBd]"

definition read_status_line :: "nat \<Rightarrow> string \<Rightarrow> task_status_line" where
  "read_status_line i line =
     (case re_exec status_line_parts line of
        None \<Rightarrow> \<lparr>ts_index = i, ts_current = [], ts_prefix = ''**Status:** '', ts_suffix = []\<rparr>
      | Some m \<Rightarrow>
          \<lparr>ts_index = i,
           ts_current = replace_all in_progress_word (\<lambda>_. ''in-progress'') (js_trim (group_or_empty m 2)),
           ts_prefix = group_or_empty m 1, ts_suffix = group_or_empty m 3\<rparr>)"

fun find_status_line :: "string \<Rightarrow> bool \<Rightarrow> nat \<Rightarrow> string list \<Rightarrow> task_status_line option" where
  "find_status_line taskId inBlock i [] = None"
| "find_status_line taskId inBlock i (line # lines) =
     (if re_test (task_line taskId) line then find_status_line taskId True (Suc i) lines
      else if inBlock \<and> starts_with line ''#### '' then None
      else if inBlock \<and> starts_with line ''**Status:**'' then Some (read_status_line i line)
      else find_status_line taskId inBlock (Suc i) lines)"

definition findTaskStatusLine :: "string list \<Rightarrow> string \<Rightarrow> task_status_line option" where
  "findTaskStatusLine lines taskId = find_status_line taskId False 0 lines"

record advance_result =
  av_blueprintSlug :: string
  av_taskId :: string
  av_oldStatus :: string
  av_newStatus :: string
  av_message :: string

definition not_in_any_state :: "string \<Rightarrow> string \<Rightarrow> string" where
  "not_in_any_state sl blueprintRoot =
     ''Blueprint '' @ quoted sl @ '' not found in any state directory under '' @ blueprintRoot"

definition mutation_root :: "mutation_env \<Rightarrow> fstore \<Rightarrow> string \<Rightarrow> string" where
  "mutation_root me fs cwd = resolveBlueprintRoot fs (ae_cwd (mu_audit me)) (Some cwd)"

definition advance_write ::
    "mutation_env \<Rightarrow> fstore \<Rightarrow> found_document \<Rightarrow> string list \<Rightarrow> task_status_line \<Rightarrow> string \<Rightarrow> unit throws \<times> fstore" where
  "advance_write me fs found lines r toStatus =
     and_do (atomicWriteFile me fs (fd_path found)
               (join_with [nl] (lines[ts_index r := ts_prefix r @ toStatus @ ts_suffix r])))
       (\<lambda>_ fs1. reIngestDb me fs1)"

definition advanceTaskLocked ::
    "mutation_env \<Rightarrow> fstore \<Rightarrow> string \<Rightarrow> string \<Rightarrow> string \<Rightarrow> string \<Rightarrow> advance_result throws \<times> fstore" where
  "advanceTaskLocked me fs cwd blueprintSlug taskId toStatus =
     (case findBlueprintDocument fs (mutation_root me fs cwd) blueprintSlug of
        None \<Rightarrow> (Inl (not_in_any_state blueprintSlug (mutation_root me fs cwd)), fs)
      | Some found \<Rightarrow>
          and_do (on_store (readFile fs (fd_path found)) fs) (\<lambda>content _.
          (let lines = split_char nl content
           in case findTaskStatusLine lines taskId of
                None \<Rightarrow>
                  (Inl (''Task '' @ quoted taskId @ '' not found in blueprint '' @ quoted blueprintSlug), fs)
              | Some r \<Rightarrow>
                  if toStatus = ''done'' then
                    (Inl ''Use wp_blueprint_task_verify to mark tasks done with evidence'', fs)
                  else if ts_current r = toStatus then
                    (Inr \<lparr>av_blueprintSlug = blueprintSlug, av_taskId = taskId, av_oldStatus = ts_current r,
                          av_newStatus = toStatus,
                          av_message = ''Task '' @ taskId @ '' of '' @ blueprintSlug @ '': already '' @ toStatus\<rparr>, fs)
                  else
                    and_do
                      (runCliPlatformMutationSync me fs (resolveSyncAdapterForCli me) ''wp_blueprint_task_advance''
                         (Some (Task_status_changed blueprintSlug taskId (ts_current r) toStatus)) (Some blueprintSlug))
                      (\<lambda>_ fs1. and_do (advance_write me fs1 found lines r toStatus) (\<lambda>_ fs2.
                         (Inr \<lparr>av_blueprintSlug = blueprintSlug, av_taskId = taskId, av_oldStatus = ts_current r,
                               av_newStatus = toStatus,
                               av_message = ''Task '' @ taskId @ '' of '' @ blueprintSlug @ '': '' @ ts_current r
                                 @ '' '' @ arrow_str @ '' '' @ toStatus\<rparr>, fs2))))))"

definition withMarkdownWriteLock :: "mutation_env \<Rightarrow> fstore \<Rightarrow> 'a throws \<times> fstore \<Rightarrow> 'a throws \<times> fstore" where
  "withMarkdownWriteLock me fs r = (case mu_lock me of Inl e \<Rightarrow> (Inl e, fs) | Inr _ \<Rightarrow> r)"

definition advanceTask ::
    "mutation_env \<Rightarrow> fstore \<Rightarrow> string \<Rightarrow> string \<Rightarrow> string \<Rightarrow> string \<Rightarrow> advance_result throws \<times> fstore" where
  "advanceTask me fs cwd blueprintSlug taskId toStatus =
     withMarkdownWriteLock me fs (advanceTaskLocked me fs cwd blueprintSlug taskId toStatus)"

section \<open>promoteBlueprint\<close>

record promote_result =
  pm_slug :: string
  pm_oldState :: string
  pm_newState :: string
  pm_newPath :: string
  pm_message :: string

definition listed_tasks :: "(string \<times> string) list \<Rightarrow> string" where
  "listed_tasks rows = join_with '', '' (map (\<lambda>(t, st). t @ '' ('' @ st @ '')'') rows)"

definition cannot_complete :: "string \<Rightarrow> string \<Rightarrow> string" where
  "cannot_complete sl why = ''Cannot promote '' @ quoted sl @ '' to completed: '' @ why"

text \<open>The guard of the completed state.\<close>

definition completion_guard :: "mutation_env \<Rightarrow> string \<Rightarrow> string \<Rightarrow> unit throws" where
  "completion_guard me sl markdown =
     and_then (parseBlueprint (docs_of (mu_env me)) markdown sl) (\<lambda>bp.
       (let unfinished = filter (\<lambda>t. t_status t \<noteq> Done \<and> t_status t \<noteq> Dropped) (b_tasks bp)
        in if b_tasks bp = [] then
             Inl (cannot_complete sl ''zero-task blueprints cannot complete through the public lifecycle surface'')
           else if unfinished \<noteq> [] then
             Inl (cannot_complete sl (''the following tasks are not done/dropped: ''
               @ listed_tasks (map (\<lambda>t. (t_id t, task_status_str (t_status t))) unfinished)))
           else
             and_then (assertAllTasksHaveCanonicalPassingEvidence (zenv_of (mu_env me)) markdown
                         (map t_id (filter (\<lambda>t. t_status t = Done) (b_tasks bp)))) (\<lambda>_.
             if mu_open_tasks me sl \<noteq> [] then
               Inl (cannot_complete sl (''the following tasks are not done: '' @ listed_tasks (mu_open_tasks me sl)))
             else Inr ())))"

text \<open>The gate between draft and planned.\<close>

definition approvals_of :: "docs \<Rightarrow> string \<Rightarrow> json option throws" where
  "approvals_of dx markdown = and_then (matter dx markdown) (\<lambda>(d, _). Inr (fm_json d ''approvals''))"

definition too_few_approvals :: "string \<Rightarrow> nat \<Rightarrow> string" where
  "too_few_approvals sl n =
     ''Cannot promote '' @ quoted sl @ '' to planned: '' @ nat_str n
     @ '' distinct provenance-backed reviewer approval(s) in frontmatter '' @ ticked ''approvals:''
     @ '' are backed by committed review evidence artifacts (need '' @ ge_sign
     @ ''2). Record approvals from distinct reviewers, commit the matching review ledger (e.g. reviews.md), and include tracked outside-model review artifacts referenced by each structured review entry ''
     @ em_dash @ '' see catalog/agent/rules/pre-implementation.md.''"

definition planning_gate :: "mutation_env \<Rightarrow> fstore \<Rightarrow> string \<Rightarrow> string \<Rightarrow> string \<Rightarrow> string throws" where
  "planning_gate me fs sl path markdown =
     and_then (applyPromotionTrustGate (mu_trust me fs) markdown) (\<lambda>content.
     and_then (approvals_of (ae_docs (mu_audit me)) content) (\<lambda>approvals.
     and_then (countDistinctProvenanceBackedApprovals (mu_audit me) fs path approvals) (\<lambda>n.
       if n < 2 then Inl (too_few_approvals sl n) else Inr content)))"

definition promoted :: "string \<Rightarrow> string \<Rightarrow> string \<Rightarrow> string \<Rightarrow> string \<Rightarrow> promote_result" where
  "promoted sl oldState newState newPath note =
     \<lparr>pm_slug = sl, pm_oldState = oldState, pm_newState = newState, pm_newPath = newPath,
      pm_message = ''Promoted '' @ sl @ '': '' @ oldState @ '' '' @ arrow_str @ '' '' @ newState
        @ '' ('' @ note @ '': '' @ newPath @ '')''\<rparr>"

text \<open>The local update: the text is written in place, then the file or its directory is moved.\<close>

definition promote_write ::
    "mutation_env \<Rightarrow> fstore \<Rightarrow> string \<Rightarrow> found_document \<Rightarrow> string \<Rightarrow> string \<Rightarrow> string \<Rightarrow> promote_result throws \<times> fstore" where
  "promote_write me fs blueprintRoot found sl toState content =
     (let targetPaths = getBlueprintDocumentPaths blueprintRoot toState sl;
          destDocumentPath = (if fd_shape found = Flat then dp_flat targetPaths else dp_folder targetPaths)
      in and_do (atomicWriteFile me fs (fd_path found) content) (\<lambda>_ fs1.
           if fd_path found = destDocumentPath then
             and_do (reIngestDb me fs1) (\<lambda>_ fs2.
               (Inr (promoted sl (fd_state found) toState (fd_path found) ''path unchanged''), fs2))
           else
             and_do (to_store (mkdir_recursive fs1 (key_dirname (dp_directory targetPaths))) fs1) (\<lambda>_ fs2.
             and_do (to_store
                 (if fd_shape found = Flat then rename fs2 (fd_path found) destDocumentPath
                  else rename fs2 (fd_dir found) (dp_directory targetPaths)) fs2) (\<lambda>_ fs3.
             and_do (reIngestDb me fs3) (\<lambda>_ fs4.
               (Inr (promoted sl (fd_state found) toState destDocumentPath ''new path''), fs4))))))"

definition promoted_text :: "mutation_env \<Rightarrow> string \<Rightarrow> string \<Rightarrow> string" where
  "promoted_text me toState content =
     (let updated = updateFrontmatterStatus content toState
      in if toState = ''completed'' then upsertCompletedAt updated (today (mu_env me)) else updated)"

text \<open>The text the update starts from: the document, or what the planning gate made of it.\<close>

definition promotable ::
    "mutation_env \<Rightarrow> fstore \<Rightarrow> found_document \<Rightarrow> string \<Rightarrow> string \<Rightarrow> (string \<times> string) throws" where
  "promotable me fs found sl toState =
     and_then (readFile fs (fd_path found)) (\<lambda>content.
       if fd_state found = ''draft'' \<and> toState = ''planned'' then
         and_then (planning_gate me fs sl (fd_path found) content) (\<lambda>gated. Inr (gated, content))
       else Inr (content, content))"

text \<open>After the event the document may have changed: then the trust gate runs again.\<close>

definition refreshed_text ::
    "mutation_env \<Rightarrow> fstore \<Rightarrow> sync_adapter option \<Rightarrow> found_document \<Rightarrow> string \<Rightarrow> string \<times> string \<Rightarrow> string throws" where
  "refreshed_text me fs adapter found toState texts =
     (case (adapter, texts) of
        (Some _, content, trustedSource) \<Rightarrow>
          if fd_state found = ''draft'' \<and> toState = ''planned'' then
            and_then (readFile fs (fd_path found)) (\<lambda>refreshedSource.
              if refreshedSource \<noteq> trustedSource then applyPromotionTrustGate (mu_trust me fs) refreshedSource
              else Inr content)
          else Inr content
      | (None, content, _) \<Rightarrow> Inr content)"

definition promoteBlueprintLocked ::
    "mutation_env \<Rightarrow> fstore \<Rightarrow> string \<Rightarrow> string \<Rightarrow> string \<Rightarrow> promote_result throws \<times> fstore" where
  "promoteBlueprintLocked me fs cwd sl toState =
     (case findBlueprintDocument fs (mutation_root me fs cwd) sl of
        None \<Rightarrow> (Inl (not_in_any_state sl (mutation_root me fs cwd)), fs)
      | Some found \<Rightarrow>
          (let blueprintRoot = mutation_root me fs cwd; adapter = resolveSyncAdapterForCli me
           in and_do
                (on_store (if toState = ''completed''
                           then and_then (readFile fs (fd_path found)) (completion_guard me sl) else Inr ()) fs) (\<lambda>_ fs1.
              and_do (runCliPlatformMutationSync me fs1 adapter ''wp_blueprint_promote'' None (Some sl)) (\<lambda>_ fs2.
              and_do (on_store (promotable me fs2 found sl toState) fs2) (\<lambda>texts fs3.
              and_do (runCliPlatformMutationSync me fs3 adapter ''wp_blueprint_promote''
                        (Some (Blueprint_status_changed sl (fd_state found) toState)) (Some sl)) (\<lambda>_ fs4.
              and_do (on_store (refreshed_text me fs4 adapter found toState texts) fs4) (\<lambda>content fs5.
                promote_write me fs5 blueprintRoot found sl toState (promoted_text me toState content))))))))"

definition promoteBlueprint ::
    "mutation_env \<Rightarrow> fstore \<Rightarrow> string \<Rightarrow> string \<Rightarrow> string \<Rightarrow> promote_result throws \<times> fstore" where
  "promoteBlueprint me fs cwd sl toState = withMarkdownWriteLock me fs (promoteBlueprintLocked me fs cwd sl toState)"

definition finalizeBlueprint :: "mutation_env \<Rightarrow> fstore \<Rightarrow> string \<Rightarrow> string \<Rightarrow> promote_result throws \<times> fstore" where
  "finalizeBlueprint me fs cwd sl = promoteBlueprint me fs cwd sl ''completed''"

end
