(* ===== verification/MutationProps.thy ===== *)
theory MutationProps
  imports Mutations LifecycleAuditProps TrustSample
begin

text \<open>
  What the verbs of \<open>mutations.ts\<close> guarantee: which checks a promotion has passed, where its text
  is afterwards, what advancing a task changes; and the ways around the gate of the planned state.
\<close>

section \<open>Writing and moving\<close>

definition tmp_apart :: "mutation_env \<Rightarrow> string \<Rightarrow> bool" where
  "tmp_apart me p \<longleftrightarrow> path_key (mu_tmp me) \<noteq> path_key p"

lemma written_in_place:
  assumes "store_ok fs" "tmp_apart me p" "atomicWriteFile me fs p content = (Inr (), fs')"
  shows "store_ok fs'" "readFile fs' p = Inr content"
    "path_key q \<noteq> path_key (mu_tmp me) \<Longrightarrow> path_key q \<noteq> path_key p \<Longrightarrow> readFile fs' q = Inr d \<longleftrightarrow> readFile fs q = Inr d"
    "is_dir fs' k = is_dir fs k"
proof -
  obtain fs1 where "writeFile fs (mu_tmp me) content = Inr fs1" "rename fs1 (mu_tmp me) p = Inr fs'"
    using assms(3) by (auto simp: atomicWriteFile_def and_do_Inr_iff)
  note ins = installed [OF assms(1) assms(2) [unfolded tmp_apart_def] this]
  show "store_ok fs'" "readFile fs' p = Inr content" "is_dir fs' k = is_dir fs k" by (rule ins)+
  show "path_key q \<noteq> path_key (mu_tmp me) \<Longrightarrow> path_key q \<noteq> path_key p \<Longrightarrow> readFile fs' q = Inr d \<longleftrightarrow> readFile fs q = Inr d"
    by (rule ins(3))
qed

lemma overview_key: "path_is_absolute d \<Longrightarrow> path_key (path_join [d, ''_overview.md'']) = path_key d @ [''_overview.md'']"
proof -
  assume d: "path_is_absolute d"
  have "name_ok ''_overview.md''" by code_simp
  then show ?thesis using path_join_absolute [OF d, of "[[''_overview.md'']]"] by simp
qed

lemma renamed_text:
  assumes "store_ok fs" "rename fs p q = Inr fs'" "map_get (files fs) (path_key p @ r) = Some c"
  shows "map_get (files fs') (path_key q @ r) = Some c"
proof (cases "path_key p = path_key q")
  case True
  then show ?thesis using assms by (auto simp: rename_def Let_def split: if_splits)
next
  case False
  note rn = rename_Inr [OF assms(1,2) False]
  show ?thesis unfolding rn(1) by (rule read_moved [OF assms(1) rn(2) assms(3)])
qed

definition stands_in :: "string \<Rightarrow> string \<Rightarrow> found_document \<Rightarrow> bool" where \<comment> \<open>what \<open>findBlueprintDocument\<close> yields\<close>
  "stands_in blueprintRoot sl found \<longleftrightarrow>
     (let paths = getBlueprintDocumentPaths blueprintRoot (fd_state found) sl
      in case fd_shape found of
           Flat \<Rightarrow> fd_path found = dp_flat paths
         | Folder \<Rightarrow> fd_path found = dp_folder paths \<and> fd_dir found = dp_directory paths)"

lemma found_stands:
  "find_in_states fs blueprintRoot sl sts = Some found \<Longrightarrow>
     stands_in blueprintRoot sl found \<and> fd_state found \<in> set sts \<and> existsSync fs (fd_path found)"
  by (induction sts) (auto simp: stands_in_def Let_def split: if_splits)

lemma promote_write_text:
  assumes "promote_write me fs base found sl toState content = (Inr r, fs')"
    and "store_ok fs" "path_is_absolute base" "stands_in base sl found" "tmp_apart me (fd_path found)"
  shows "store_ok fs' \<and> readFile fs' (pm_newPath r) = Inr content \<and> pm_oldState r = fd_state found \<and> pm_newState r = toState"
proof -
  let ?t = "getBlueprintDocumentPaths base toState sl"
  let ?dest = "if fd_shape found = Flat then dp_flat ?t else dp_folder ?t"
  obtain fs1 where w: "atomicWriteFile me fs (fd_path found) content = (Inr (), fs1)"
    using assms(1) by (auto simp: promote_write_def Let_def and_do_Inr_iff)
  note wr = written_in_place(1,2) [OF assms(2,5) w]
  show ?thesis
  proof (cases "fd_path found = ?dest")
    case True
    then have "fs' = fs1 \<and> r = promoted sl (fd_state found) toState (fd_path found) ''path unchanged''"
      using assms(1) w by (auto simp: promote_write_def Let_def reIngestDb_def and_do_Inr_iff)
    with wr show ?thesis by (simp add: promoted_def)
  next
    case False
    obtain fs2 where mk: "mkdir_recursive fs1 (key_dirname (dp_directory ?t)) = Inr fs2"
      and rn: "(if fd_shape found = Flat then rename fs2 (fd_path found) ?dest
                else rename fs2 (fd_dir found) (dp_directory ?t)) = Inr fs'"
      and r: "r = promoted sl (fd_state found) toState ?dest ''new path''"
      using assms(1) w False by (auto simp: promote_write_def Let_def reIngestDb_def and_do_Inr_iff)
    note fs2 = mkdir_recursive_ok(1,2) [OF mk wr(1)]
    have c: "map_get (files fs2) (path_key (fd_path found)) = Some content" using wr(2) fs2(2) by (simp add: readFile_Inr)
    have "store_ok fs'" using rn store_ok_rename [OF fs2(1)] by (auto split: if_splits)
    moreover have "readFile fs' ?dest = Inr content"
    proof (cases "fd_shape found")
      case Flat
      then show ?thesis using renamed_text [OF fs2(1), of "fd_path found" ?dest fs' "[]" content] rn c by (simp add: readFile_Inr)
    next
      case Folder
      then have dir: "fd_dir found = path_join [base, fd_state found, sl]" "fd_path found = path_join [fd_dir found, ''_overview.md'']"
        using assms(4) by (simp_all add: stands_in_def getBlueprintDocumentPaths_def Let_def)
      have abs: "path_is_absolute (path_join [base, st, sl])" for st using absolute_path_join [OF assms(3)] by simp
      have "map_get (files fs') (path_key (dp_directory ?t) @ [''_overview.md'']) = Some content"
        using renamed_text [OF fs2(1)] rn c dir overview_key [OF abs] Folder by auto
      then show ?thesis using Folder overview_key [OF abs] by (simp add: readFile_Inr getBlueprintDocumentPaths_def Let_def)
    qed
    ultimately show ?thesis by (simp add: r promoted_def)
  qed
qed

text \<open>A promotion without a platform: what it read, checked and wrote.\<close>

lemma promotion_run:
  assumes "promoteBlueprint me fs cwd sl toState = (Inr r, fs')" "resolveSyncAdapterForCli me = None"
    and "store_ok fs" "path_is_absolute cwd"
    and "findBlueprintDocument fs (mutation_root me fs cwd) sl = Some found" "tmp_apart me (fd_path found)"
  obtains md content where "readFile fs (fd_path found) = Inr md"
    "promotable me fs found sl toState = Inr (content, md)"
    "toState = ''completed'' \<Longrightarrow> completion_guard me sl md = Inr ()"
    "store_ok fs'" "readFile fs' (pm_newPath r) = Inr (promoted_text me toState content)"
    "pm_oldState r = fd_state found" "pm_newState r = toState"
proof -
  have sync: "runCliPlatformMutationSync me g None l e s = (Inr (), g)" for g l e s
    by (simp add: runCliPlatformMutationSync_def)
  obtain texts where ps: "promotable me fs found sl toState = Inr texts"
    and guard: "toState = ''completed'' \<Longrightarrow> and_then (readFile fs (fd_path found)) (completion_guard me sl) = Inr ()"
    and pw: "promote_write me fs (mutation_root me fs cwd) found sl toState (promoted_text me toState (fst texts)) = (Inr r, fs')"
    using assms(1,2,5)
    by (auto simp: promoteBlueprint_def withMarkdownWriteLock_def promoteBlueprintLocked_def Let_def and_do_Inr_iff sync
        refreshed_text_def split: sum.splits prod.splits if_splits)
  obtain md content where texts: "texts = (content, md)" "readFile fs (fd_path found) = Inr md"
    using ps by (auto simp: promotable_def and_then_Inr_iff split: if_splits)
  have abs: "path_is_absolute (mutation_root me fs cwd)" unfolding mutation_root_def by (rule root_absolute [OF assms(4)])
  have folder: "stands_in (mutation_root me fs cwd) sl found"
    using found_stands assms(5) unfolding findBlueprintDocument_def by blast
  show thesis
    using promote_write_text [OF pw assms(3) abs folder assms(6)] ps guard texts by (intro that) auto
qed

section \<open>The gates\<close>



text \<open>The same surroundings with another trust gate and other tracked files.\<close>

definition unguarded :: "(fstore \<Rightarrow> trust_env) \<Rightarrow> (string \<Rightarrow> string \<Rightarrow> bool) \<Rightarrow> mutation_env \<Rightarrow> mutation_env" where
  "unguarded T K me = me\<lparr>mu_trust := T, mu_audit := (mu_audit me)\<lparr>ae_tracked := K\<rparr>\<rparr>"

lemma unguarded_fields:
  "mu_env (unguarded T K me) = mu_env me" "mu_getenv (unguarded T K me) = mu_getenv me"
  "mu_adapter (unguarded T K me) = mu_adapter me" "mu_lock (unguarded T K me) = mu_lock me"
  "mu_tmp (unguarded T K me) = mu_tmp me" "mu_reingest (unguarded T K me) = mu_reingest me"
  "ae_cwd (mu_audit (unguarded T K me)) = ae_cwd (mu_audit me)"
  by (simp_all add: unguarded_def)

lemma unguarded_keeps:
  "resolveSyncAdapterForCli (unguarded T K me) = resolveSyncAdapterForCli me"
  "runCliPlatformMutationSync (unguarded T K me) = runCliPlatformMutationSync me"
  "mutation_root (unguarded T K me) = mutation_root me"
  "promote_write (unguarded T K me) = promote_write me" "promoted_text (unguarded T K me) = promoted_text me"
  unfolding atomize_conj
  by (intro conjI ext;
      unfold resolveSyncAdapterForCli_def readPlatformMutationTimeoutMs_def runCliPlatformMutationSync_def mutation_root_def
        promote_write_def promoted_text_def atomicWriteFile_def reIngestDb_def unguarded_fields; rule refl)

lemma ungated:
  assumes "fd_state f \<noteq> ''draft'' \<or> st \<noteq> ''planned''"
  shows "promotable (unguarded T K me) g f sl st = promotable me g f sl st"
    "refreshed_text (unguarded T K me) g a f st x = refreshed_text me g a f st x"
  using assms by (auto simp: promotable_def refreshed_text_def split: option.splits prod.splits)

text \<open>C8. The gate of the planned state can be walked around: a draft that is parked first and then planned
  passes through no gate, since what the two promotions do depends neither on the trust gate nor on
  the approvals, whatever they would say.\<close>
theorem parked_detour:
  assumes "findBlueprintDocument fs (mutation_root me fs cwd) sl = Some found" "fd_state found = ''draft''"
    and "promoteBlueprint me fs cwd sl ''parked'' = (Inr r1, fs1)"
    and "findBlueprintDocument fs1 (mutation_root me fs1 cwd) sl = Some parked" "fd_state parked = ''parked''"
    and "promoteBlueprint me fs1 cwd sl ''planned'' = (Inr r2, fs2)"
  shows "promoteBlueprint (unguarded T K me) fs cwd sl ''parked'' = (Inr r1, fs1)
    \<and> promoteBlueprint (unguarded T K me) fs1 cwd sl ''planned'' = (Inr r2, fs2)"
proof -
  let ?me = "unguarded T K me"
  note keep = unguarded_keeps [of T K me]
  have "promoteBlueprint ?me g cwd sl st = promoteBlueprint me g cwd sl st"
    if "findBlueprintDocument g (mutation_root me g cwd) sl = Some f" "fd_state f \<noteq> ''draft'' \<or> st \<noteq> ''planned''" "st \<noteq> ''completed''"
    for g f st
    using that(1,3)
    by (simp add: promoteBlueprint_def promoteBlueprintLocked_def withMarkdownWriteLock_def keep ungated [OF that(2)]
        unguarded_fields split del: if_split)
  then show ?thesis using assms by simp
qed

section \<open>Advancing a task\<close>

lemma find_status_index:
  "find_status_line taskId b i lines = Some t \<Longrightarrow> i \<le> ts_index t \<and> ts_index t < i + length lines"
  by (induction taskId b i lines rule: find_status_line.induct) (auto simp: read_status_line_def split: if_splits option.splits)


section \<open>On a sample project\<close>

definition short_doc :: string where
  "short_doc = ''status: draft'' @ [nl] @ ''#### Task 1.1: A'' @ [nl] @ ''**Status:** todo | x''"

definition project_of :: "string \<Rightarrow> string \<Rightarrow> string \<Rightarrow> string \<Rightarrow> string \<Rightarrow> fstore" where
  "project_of a ra rb b c =
     \<lparr>files = [([''p'', ''blueprints'', ''draft'', ''a'', ''_overview.md''], a),
               ([''p'', ''blueprints'', ''draft'', ''a'', ''a''], ra),
               ([''p'', ''blueprints'', ''draft'', ''a'', ''b''], rb),
               ([''p'', ''blueprints'', ''draft'', ''a'', ''x''], []),
               ([''p'', ''blueprints'', ''draft'', ''b.md''], b), ([''p'', ''blueprints'', ''draft'', ''c.md''], c)],
      dirs = [[''p''], [''p'', ''.git''], [''p'', ''blueprints''], [''p'', ''blueprints'', ''draft''],
              [''p'', ''blueprints'', ''draft'', ''a''], [''t'']]\<rparr>"

definition command_project :: fstore where
  "command_project = project_of sample_dossier (sample_review ''a'') (sample_review ''b'') dropped_doc short_doc"

definition approving_docs :: docs where
  "approving_docs = sample_docs\<lparr>matter := (\<lambda>md. Inr
     ([(''approvals'', FVal (JArr (map (\<lambda>r. JObj [(''reviewer'', JStr r), (''verdict'', JStr ''approve''), (''evidence'', JStr r)])
         [''a'', ''b''])))], md))\<rparr>"

definition sample_mutations :: mutation_env where
  "sample_mutations =
     \<lparr>mu_env = sample_env,
      mu_audit = sample_audit_env\<lparr>ae_service := (ae_service sample_audit_env)\<lparr>se_docs := approving_docs\<rparr>\<rparr>,
      mu_trust = (\<lambda>_. sample_trust_env), mu_getenv = (\<lambda>_. None), mu_adapter = None, mu_lock = Inr (),
      mu_tmp = ''/t/m'', mu_open_tasks = (\<lambda>_. []), mu_reingest = (\<lambda>_. Inr ())\<rparr>"

lemma command_project_ok: "store_ok command_project"
proof -
  have "\<forall>k\<in>set (dirs command_project) \<union> set (map fst (files command_project)).
      k \<noteq> [] \<and> key_ok k \<and> is_dir command_project (butlast k)"
    by (simp add: command_project_def project_of_def name_ok_def plain_name_def is_dir_def)
  moreover have "map_wf (files command_project)" "distinct (dirs command_project)"
      "\<forall>k\<in>set (dirs command_project). \<not> is_file command_project k"
    by (simp_all add: command_project_def project_of_def map_wf_def is_file_def map_has_def)
  ultimately show ?thesis by (auto simp: store_ok_def is_file_def map_has_def)
qed

definition doc_a :: found_document where
  "doc_a = \<lparr>fd_dir = ''/p/blueprints/draft/a'', fd_path = ''/p/blueprints/draft/a/_overview.md'', fd_shape = Folder, fd_state = ''draft''\<rparr>"

definition doc_b :: found_document where
  "doc_b = \<lparr>fd_dir = ''/p/blueprints/draft'', fd_path = ''/p/blueprints/draft/b.md'', fd_shape = Flat, fd_state = ''draft''\<rparr>"

definition doc_c :: "string \<Rightarrow> found_document" where
  "doc_c st = \<lparr>fd_dir = ''/p/blueprints/'' @ st, fd_path = ''/p/blueprints/'' @ st @ ''/c.md'', fd_shape = Flat, fd_state = st\<rparr>"

lemma sample_root: "mutation_root sample_mutations (project_of a ra rb b c) ''/p'' = ''/p/blueprints''"
  by code_simp

lemma sample_found:
  "findBlueprintDocument (project_of a ra rb b c) ''/p/blueprints'' ''a'' = Some doc_a"
  "findBlueprintDocument (project_of a ra rb b c) ''/p/blueprints'' ''b'' = Some doc_b"
  "findBlueprintDocument (project_of a ra rb b c) ''/p/blueprints'' ''c'' = Some (doc_c ''draft'')"
  by code_simp+

lemma sample_writes:
  "\<not> isl (fst (promote_write sample_mutations (project_of a ra rb b c) ''/p/blueprints'' doc_a ''a'' ''planned'' text1))"
  "\<not> isl (fst (promote_write sample_mutations (project_of a ra rb b c) ''/p/blueprints'' doc_b ''b'' ''completed'' text1))"
  by code_simp+

lemma sample_advance:
  "\<not> isl (fst (advanceTask sample_mutations (project_of a ra rb b short_doc) ''/p'' ''c'' ''1.1'' ''blocked''))"
  by code_simp

lemma sample_detour:
  "(case promoteBlueprint sample_mutations (project_of a ra rb b short_doc) ''/p'' ''c'' ''parked'' of (r, fs1) \<Rightarrow>
      \<not> isl r \<and> findBlueprintDocument fs1 (mutation_root sample_mutations fs1 ''/p'') ''c'' = Some (doc_c ''parked'')
      \<and> \<not> isl (fst (promoteBlueprint sample_mutations fs1 ''/p'' ''c'' ''planned'')))"
  by code_simp

lemma sample_reviewed:
  "(case approvals_of approving_docs a of Inl _ \<Rightarrow> False | Inr v \<Rightarrow>
      countDistinctProvenanceBackedApprovals (mu_audit sample_mutations)
        (project_of a (sample_review ''a'') (sample_review ''b'') b c) ''/p/blueprints/draft/a/_overview.md'' v = Inr 2)"
  by code_simp

lemma sample_fields:
  "resolveSyncAdapterForCli sample_mutations = None" "mu_tmp sample_mutations = ''/t/m''" "mu_env sample_mutations = sample_env"
  "mu_trust sample_mutations g = sample_trust_env" "mu_lock sample_mutations = Inr ()" "mu_open_tasks sample_mutations sl = []"
  "ae_docs (mu_audit sample_mutations) = approving_docs" "path_is_absolute ''/p''"
  by (simp_all add: sample_mutations_def resolveSyncAdapterForCli_def path_is_absolute_def starts_with_def)

lemma sample_apart: "tmp_apart sample_mutations (fd_path doc_a)" "tmp_apart sample_mutations (fd_path doc_b)"
  "tmp_apart sample_mutations (fd_path (doc_c ''draft''))"
  by code_simp+

lemma project_texts:
  "readFile (project_of a ra rb b c) (fd_path doc_a) = Inr a" "readFile (project_of a ra rb b c) (fd_path doc_b) = Inr b"
  "readFile (project_of a ra rb b c) (fd_path (doc_c ''draft'')) = Inr c"
  by code_simp+

lemma unsynced [simp]: "runCliPlatformMutationSync me g None l e s = (Inr (), g)"
  by (simp add: runCliPlatformMutationSync_def)

lemma sample_promotes: "\<not> isl (fst (promoteBlueprint sample_mutations command_project ''/p'' ''a'' ''planned''))"
proof -
  obtain v where "approvals_of approving_docs sample_dossier = Inr v"
    "countDistinctProvenanceBackedApprovals (mu_audit sample_mutations) command_project (fd_path doc_a) v = Inr 2"
    using sample_reviewed [of sample_dossier dropped_doc short_doc]
    by (auto simp: command_project_def doc_a_def split: sum.splits)
  then have "planning_gate sample_mutations command_project ''a'' (fd_path doc_a) sample_dossier = Inr sample_dossier"
    by (simp add: planning_gate_def sample_fields sample_promoted)
  moreover have "readFile command_project (fd_path doc_a) = Inr sample_dossier"
    by (simp add: command_project_def project_texts)
  moreover have "fd_state doc_a = ''draft''" by (simp add: doc_a_def)
  ultimately have "promotable sample_mutations command_project doc_a ''a'' ''planned'' = Inr (sample_dossier, sample_dossier)"
    by (simp add: promotable_def)
  moreover have "mutation_root sample_mutations command_project ''/p'' = ''/p/blueprints''"
    "findBlueprintDocument command_project ''/p/blueprints'' ''a'' = Some doc_a"
    by (simp_all add: command_project_def sample_root sample_found)
  moreover have "\<not> isl (fst (promote_write sample_mutations command_project ''/p/blueprints'' doc_a ''a'' ''planned'' t))" for t
    unfolding command_project_def by (rule sample_writes)
  ultimately show ?thesis
    by (simp add: promoteBlueprint_def withMarkdownWriteLock_def promoteBlueprintLocked_def sample_fields on_store_def
        refreshed_text_def Let_def)
qed


lemma sample_completes: "\<not> isl (fst (finalizeBlueprint sample_mutations command_project ''/p'' ''b''))"
proof -
  obtain r where "applyBlueprintLifecycle sample_env dropped_doc ''b'' Finalize = Inr r"
    using result_matches_ex [OF sample_finalize] by blast
  then obtain bp where bp: "parseBlueprint (docs_of sample_env) dropped_doc ''b'' = Inr bp"
    "assertTaskDoneRequirements (zenv_of sample_env) dropped_doc bp = Inr ()"
    by (rule lifecycle_run) (use finalize_step in blast)
  then have "completion_guard sample_mutations ''b'' dropped_doc = Inr ()"
    by (auto simp: completion_guard_def done_requirements_iff sample_fields settled_def filter_empty_conv and_then_Inr_iff
        all_evidence_iff Let_def)
  moreover have "readFile command_project (fd_path doc_b) = Inr dropped_doc"
    "mutation_root sample_mutations command_project ''/p'' = ''/p/blueprints''"
    "findBlueprintDocument command_project ''/p/blueprints'' ''b'' = Some doc_b"
    by (simp_all add: command_project_def sample_root sample_found project_texts)
  moreover have "\<not> isl (fst (promote_write sample_mutations command_project ''/p/blueprints'' doc_b ''b'' ''completed'' t))" for t
    unfolding command_project_def by (rule sample_writes)
  ultimately show ?thesis
    by (simp add: finalizeBlueprint_def promoteBlueprint_def withMarkdownWriteLock_def promoteBlueprintLocked_def sample_fields
        on_store_def promotable_def refreshed_text_def Let_def)
qed


theorem parked_detour_witness:
  "\<exists>r1 fs1 r2 fs2.
     promoteBlueprint (unguarded (\<lambda>_. sample_trust_env\<lparr>git_head := None\<rparr>) (\<lambda>_ _. False) sample_mutations) command_project
       ''/p'' ''c'' ''parked'' = (Inr r1, fs1)
     \<and> promoteBlueprint (unguarded (\<lambda>_. sample_trust_env\<lparr>git_head := None\<rparr>) (\<lambda>_ _. False) sample_mutations) fs1
       ''/p'' ''c'' ''planned'' = (Inr r2, fs2)"
proof -
  note detour = sample_detour [of sample_dossier "sample_review ''a''" "sample_review ''b''" dropped_doc, folded command_project_def]
  obtain r1 fs1 where p1: "promoteBlueprint sample_mutations command_project ''/p'' ''c'' ''parked'' = (Inr r1, fs1)"
    using detour by (metis (no_types, lifting) case_prod_unfold prod.collapse sum.collapse(2))
  have parked: "findBlueprintDocument fs1 (mutation_root sample_mutations fs1 ''/p'') ''c'' = Some (doc_c ''parked'')"
    and "\<not> isl (fst (promoteBlueprint sample_mutations fs1 ''/p'' ''c'' ''planned''))"
    using detour p1 by simp_all
  then obtain r2 fs2 where p2: "promoteBlueprint sample_mutations fs1 ''/p'' ''c'' ''planned'' = (Inr r2, fs2)"
    by (metis prod.collapse sum.collapse(2))
  have found: "findBlueprintDocument command_project (mutation_root sample_mutations command_project ''/p'') ''c'' = Some (doc_c ''draft'')"
    by (simp add: command_project_def sample_root sample_found)
  have states: "fd_state (doc_c ''draft'') = ''draft''" "fd_state (doc_c ''parked'') = ''parked''" by (simp_all add: doc_c_def)
  show ?thesis using parked_detour [OF found states(1) p1 parked states(2) p2] by blast
qed


end
