(* ===== verification/Spec2Isabelle.thy ===== *)
theory Spec2Isabelle
  imports GuardProps LifecycleProps BridgeProps VerificationProps ValidationProps Conflict
    ReleaseOrder Versions IpGuardProps TrustProps
    GuardLogProps GuardRunnerProps PlanLinterProps LocalProps DocumentProps
    DebtProps LifecycleAuditProps MutationProps
begin

text \<open>
  A verification library for agent-kit (\<open>@webpresso/agent-kit\<close>), a TypeScript tool that keeps
  coding agents inside a repository's rules.  Its core logic has two halves: the blueprint
  lifecycle (plans in Markdown with a front matter, whose tasks are finished only with recorded
  evidence) and the guards that judge an agent's actions before they happen.  This library
  models that logic from the sources and proves what makes it correct.

  \<^bold>\<open>Shared vocabulary.\<close>  \<open>Prelude\<close>: strings, insertion-ordered maps, stable sorting and
  the result type of code that throws, with the locale \<open>comparator\<close> for the functions given to
  \<open>sort\<close>.  \<open>Regex\<close>: a backtracking matcher, so that every pattern of the sources
  is a term written in the order of its source, with \<open>exec\<close>, \<open>matchAll\<close>,
  \<open>replace\<close> and \<open>split\<close>.  \<open>Json\<close>: \<open>JSON.stringify\<close> and \<open>JSON.parse\<close>.
  Text is a list of UTF-8 bytes; white space and letter case are the ASCII ones; numbers are
  exact.  Errors are values: \<open>Inl\<close> a thrown message, \<open>None\<close> for \<open>null\<close> or \<open>undefined\<close>.

  \<^bold>\<open>The pretool guard\<close> (\<open>src/hooks/pretool-guard/validators/forbidden-commands.ts\<close> and
  what it calls).  \<open>HookTypes\<close> holds the tool inputs and verdicts, \<open>ShellSplit\<close> the scanner
  \<open>splitTopLevelCommands\<close> as a step function on its flags, \<open>GuardRules\<close> the rule table
  generated from runners, tools and scripts, \<open>ForbiddenCommands\<close> the validator.
  \<open>GuardProps\<close> shows that a forbidden tool is blocked under every runner, any arguments, and
  behind any other command; that the scanner loses nothing; what the verdict is on every call;
  and that the check on moved blueprints reports real moves only and misses some.

  \<^bold>\<open>The rest of the hook.\<close>  \<open>HookEnv\<close> is what the hook takes from its surroundings (file
  system, js-yaml, environment, home and working directory as one record) with the path functions
  of \<open>node:path\<close>.  \<open>DangerousCommands\<close>, \<open>PathContract\<close>, \<open>FileValidators\<close>, \<open>ContentValidators\<close>,
  \<open>PackageImports\<close> and \<open>WorktreeDiscipline\<close> are the other validators, one group of definitions
  per file of \<open>validators/\<close> and of the shared code they call.  \<open>WrappedWp\<close>
  (\<open>cli/wrapped-wp.ts\<close>), \<open>DevRouting\<close> and \<open>SessionInput\<close> (\<open>dev-routing.ts\<close>) route commands:
  tables, normal form, rules, the commands inside session tools; their loops over a command
  shrink it, which is how they end.  \<open>GuardLog\<close> (\<open>logger.ts\<close>) is the run log over a map of
  files, \<open>GuardRunner\<close> (\<open>runner.ts\<close>) the pipeline: routing, the twelve validators, output,
  exit code and log.  \<open>RegexFacts\<close> holds lemmas on how patterns match arbitrary text.
  \<open>GuardRunnerProps\<close> shows what each outcome means, that a forbidden tool and a forced push never
  get through the whole pipeline, and that the reason of a block reaches nobody;
  \<open>WorktreeProps\<close> what a passed command has been checked for, that a commit in a primary checkout
  is blocked, and a path that is misread; \<open>GuardLogProps\<close> that a log line is read back, that the
  log holds exactly the last runs, and which lines are lost.

  \<^bold>\<open>The blueprint lifecycle.\<close>  \<open>Statuses\<close> (enumerations of \<open>core/schema.ts\<close> with the
  locale \<open>enum_codec\<close>, and the transition matrix), \<open>Markdown\<close> (\<open>markdown/\<close>),
  \<open>TaskParser\<close> and \<open>Blueprint\<close> (\<open>core/parser.ts\<close>), \<open>Evidence\<close> (\<open>evidence.ts\<close>),
  \<open>Verification\<close> (\<open>verification.ts\<close>), \<open>Lifecycle\<close> (\<open>lifecycle/engine.ts\<close>,
  \<open>execution/metadata.ts\<close>), \<open>ExecutionTypes\<close> and \<open>ProgressBridge\<close>
  (\<open>execution/\<close>).  The libraries gray-matter and zod are the fields of the records \<open>docs\<close> and
  \<open>zenv\<close>; a property that needs more of them assumes \<open>front_matter_laws\<close>, which
  \<open>SampleDocs\<close> discharges for a concrete front-matter format that the witnesses run on.
  \<open>LifecycleFacts\<close> and \<open>MarkerFacts\<close> hold the shared lemmas; \<open>LifecycleProps\<close>,
  \<open>BridgeProps\<close> and \<open>VerificationProps\<close> show that finalizing and verifying need
  passing evidence, what each intent does to status and document, what is read back after
  each write, and that a runtime's progress cannot forge evidence.

  \<^bold>\<open>Blueprints on disk.\<close>  \<open>FileStore\<close> is what \<open>node:fs\<close> documents of reading, writing,
  moving and removing, over a tree of files and directories, with the locale \<open>text_store\<close> for
  programs that rewrite files.  \<open>BlueprintFiles\<close> models the root of the blueprints
  (\<open>utils/blueprint-root.ts\<close>), the scan (\<open>service/scanner.ts\<close>, a loop over a queue of
  directories, as a partial function so that not ending is \<open>None\<close>), the README index
  (\<open>audit/blueprint-readme-drift.ts\<close>) and the lifecycle of a file (\<open>lifecycle/local.ts\<close>).
  \<open>ScanProps\<close> shows that the scan ends and finds exactly the visible documents, \<open>LocalProps\<close>
  that the engine's text is what the file holds afterwards, and that a flat document overwrites
  another one in its way.

  \<^bold>\<open>Records, technical debt, archiving.\<close>  \<open>Records\<close> models the queries over blueprints
  (\<open>service/blueprint-records.ts\<close>, \<open>TrackedDocumentService.ts\<close>, \<open>BlueprintService.ts\<close>), the
  freshness score (\<open>utils/freshness.ts\<close>, over real numbers) and the priority score
  (\<open>service/priority-scoring.ts\<close>); \<open>TechDebt\<close> the documents of technical debt and their service
  (\<open>tech-debt/\<close>, \<open>service/TechDebtService.ts\<close>); \<open>DocumentUpdates\<close> the links between the two
  and the archiving of a blueprint, as calls that return the store they leave behind.  The clock,
  the local calendar and \<open>localeCompare\<close> are parameters.  \<open>DocumentProps\<close> shows how score
  and band of a document fit together, where the range of a priority breaks, that a link stands
  on both sides, and that archiving is all or nothing; \<open>DebtProps\<close> that a query over technical
  debt returns typed records only.

  \<^bold>\<open>Managed worktrees.\<close>  \<open>JsonFile\<close> models the pretty printer and the atomic writing of
  \<open>utils/write-json-file.ts\<close> and the readers of \<open>read-json-file.ts\<close>, with the round trip through
  a file and the store an interrupted write leaves.  \<open>Worktrees\<close> models \<open>worktrees/location.ts\<close>,
  \<open>registry.ts\<close> and \<open>manager.ts\<close>: names and places of worktrees, the registry as JSON entries in
  a file, the owner of a blueprint.  The hash, git and the clock are fields of \<open>wt_env\<close>.
  \<open>RegistryProps\<close> states the registry's contract as the locale \<open>map_store\<close>, interprets it on the
  model's upsert, and shows that the file implements a map, that an ensured owner can be resolved,
  and where entries are lost or appear by mistake.

  \<^bold>\<open>The lifecycle audit\<close> (\<open>blueprint/lifecycle/audit.ts\<close>).  \<open>LifecycleAudit\<close> models the whole
  file with the artifacts it reads (\<open>execution/artifacts.ts\<close>): approvals and their ledgers, task
  states, owners, execution metadata, placement, staged files.  \<open>LifecycleAuditProps\<close> shows what
  a clean audit guarantees of every document and every approval, and that starting a blueprint
  (worktree, registry and engine together) satisfies the owner check of the audit.

  \<^bold>\<open>Blueprint mutations\<close> (\<open>cli/commands/blueprint/mutations.ts\<close>).  \<open>Mutations\<close> models advancing
  a task and promoting or completing a blueprint as calls over a store that may throw, with the
  order of the checks, the platform calls between them, and the store each failure leaves.  The
  platform, the lock, the database, the trust gate's surroundings and the name of the temporary file
  are fields of \<open>mutation_env\<close>; running a gate is taken to leave the store alone.  \<open>MutationProps\<close> shows
  what a promotion and a completion have checked and where the text is afterwards, that advancing a
  task changes one line, and the way around the gate of the planned state.

  \<^bold>\<open>The document validators\<close> (\<open>core/validation/\<close>).  \<open>Validation\<close> models them all but
  the link checker.  The depth-first search of \<open>dependencies.ts\<close> has its recursion depth as
  fuel, the number of tasks plus one; \<open>CycleFacts\<close> shows that this is enough, since every
  call turns a white node gray, and \<open>ValidationProps\<close> that a document is accepted exactly if
  its dependency graph is closed and acyclic, and that reported cycles are cycles.

  \<^bold>\<open>The plan linter\<close> (\<open>docs-linter/blueprint-plan.ts\<close>).  \<open>PlanLinter\<close> models the
  whole file, \<open>PlanLinterProps\<close> shows what a completed plan without errors guarantees, and two
  ways in which the linter errs: it rejects dependencies on the tenth phase and accepts a blocked
  task whose reason is empty.

  \<^bold>\<open>The trust gate\<close> (\<open>blueprint/trust/\<close>).  \<open>TrustDossier\<close> models the parser of the
  dossier, the grammar of the commands a promotion may run and the search for open questions;
  \<open>TrustGate\<close> the evidence checks, the validator and the promotion.  The file system, git, the
  clock, the URL parser and the processes are fields of \<open>trust_env\<close>.  \<open>TrustProps\<close> shows what
  an accepted dossier guarantees, that a promotion has run every gate, which commands a gate
  may be, and that the recursive cycle search (its fuel is the number of claims with derived
  evidence plus one) always answers and finds exactly the cycles; \<open>GraphFacts\<close> holds the graph
  lemma it shares with the dependency check.  \<open>TrustSample\<close> is the dossier of the witnesses.

  \<^bold>\<open>Further components.\<close>  \<open>Conflict\<close> (\<open>utils/conflict.ts\<close>): last write wins, with
  the audit log as state.  \<open>ReleaseOrder\<close> (\<open>build/workspace-release-order.ts\<close>): the
  loop is a partial function, so not returning is \<open>None\<close>; it is shown to return, with an order
  exactly if there is no cycle.  \<open>Versions\<close> (\<open>cli/auto-update/version.ts\<close>): the
  locale \<open>sign_comparator\<close> states what is assumed of \<open>localeCompare\<close>.  \<open>IpGuard\<close> and
  \<open>IpGuardProps\<close> (\<open>session-memory/ip-guard.ts\<close>): the IPv4 test equals the registry of
  reserved blocks; the spellings of internal addresses that are missed.

  \<^bold>\<open>Bounds.\<close>  The matcher's fuel is the length of the text: a loop body that consumes nothing
  ends the loop, as in ECMAScript.  Every other recursion is structural or has a measure.

  \<^bold>\<open>Not modelled.\<close>  File, network and database access, subprocesses, the command-line and
  server front ends; gray-matter's process-wide cache (its result is taken as fresh); the DNS
  race behind \<open>boundedLookup\<close>; a day change in the middle of one lifecycle call.

  \<^bold>\<open>Plan.\<close>  Next: the command router (\<open>cli/commands/blueprint/router.ts\<close>), the history diff, the end-to-end run planner, the command builder, secret sinks, the memory consolidator.
\<close>

end
